(* ===== verification/Prelude.thy ===== *)
theory Prelude
  imports Main "HOL-Library.Char_ord" "HOL-Library.List_Lexorder" "HOL-Library.Product_Lexorder"
begin

text \<open>
  The vocabulary every other theory shares.

  \<^item> The error values of the packages \<^verbatim>\<open>internal/domain\<close>, \<^verbatim>\<open>internal/events\<close> and
    \<^verbatim>\<open>internal/store\<close>, and the sum type \<open>err\<close> that joins them with the errors
    built in place by \<^verbatim>\<open>errors.New\<close>, by the SQL driver and by \<^verbatim>\<open>crypto/rand\<close>.
    A fallible function of the source is a function into \<open>err + 'a\<close>.
  \<^item> What a store call gets from its surroundings (\<open>env\<close>): random bytes, the clock,
    and whether the driver can begin and commit a transaction.
  \<^item> The parts of Go's \<^verbatim>\<open>strings\<close> and \<^verbatim>\<open>encoding/base64\<close> packages the code uses,
    on byte strings (a Go string is a list of bytes, \<^typ>\<open>char list\<close>).
  \<^item> Transactions: \<open>with_tx\<close> is the \<^verbatim>\<open>BeginTx\<close> / \<^verbatim>\<open>defer Rollback\<close> /
    \<^verbatim>\<open>Commit\<close> frame every mutating store method is written in.
  \<^item> Generic lemmas on lists of rows.
\<close>

named_theorems sql_defs \<open>definitions of the single SQL statements\<close>
named_theorems tx_simps \<open>rewriting through the transaction frame\<close>

section \<open>Errors\<close>

datatype domain_err =
    ErrInvalidUser | ErrInvalidEmail | ErrInvalidPassword | ErrInvalidPublicID
  | ErrInvalidOrganisation | ErrInvalidOrganisationName | ErrInvalidOrganisationID
  | ErrInvalidOrganisationStatus | ErrInvalidOrganisationRole | ErrInvalidMembership
  | ErrInvalidReason
  | ErrInvalidWorkspace | ErrInvalidWorkspaceID | ErrInvalidWorkspaceName
  | ErrInvalidWorkspaceStatus | ErrInvalidWorkspaceRole | ErrInvalidWorkspaceMember
  | ErrInvalidProduct | ErrInvalidProductKey | ErrInvalidProductStatus
  | ErrInvalidEntitlement | ErrInvalidEntitlementID | ErrInvalidEntitlementStatus
  | ErrInvalidProductAssignment | ErrInvalidProductAssignmentID
  | ErrInvalidProductAssignmentStatus

datatype event_err =
    ErrInvalidEvent | ErrInvalidEventPayload | ErrUnknownEventType
  | ErrInvalidAggregateID | ErrInvalidEventSequence

datatype store_err =
    ErrOrganisationNotFound | ErrOrganisationArchived | ErrMembershipNotFound
  | ErrUnauthorisedOrganisationAction | ErrOwnerMutationNotAuthorised
  | ErrDuplicateOrganisationMember
  | ErrWorkspaceNotFound | ErrWorkspaceArchived | ErrWorkspaceMembershipNotFound
  | ErrUnauthorisedWorkspaceAction | ErrDuplicateWorkspaceMember
  | ErrProductNotFound | ErrProductRetired | ErrEntitlementNotFound | ErrEntitlementInactive
  | ErrDuplicateOrganisationEntitlement | ErrUnauthorisedProductAction
  | ErrProductAssignmentNotFound | ErrProductAssignmentInactive
  | ErrDuplicateUserProductAssignment | ErrProductAccessDenied
  | ErrAccessScopeDenied
  | ErrInvalidOutboxLimit | ErrReadAuthoritySourceGap | ErrReadAuthoritySourceInvalid
  | ErrInvalidProjectionConsumer | ErrInvalidProjectionLimit | ErrProjectionInboxNotFound
  | ErrProjectionEventConflict | ErrProjectionNotReady | ErrProjectionBlocked
  | ErrProjectionUnavailable | ErrProjectionGap
  | ErrMembershipCommandConflict | ErrMembershipCommandReplayMismatch
  | ErrMembershipCommandUnsupported
  | ErrInvalidReadAuthorityNonce | ErrReadAuthorityNonceReplay | ErrInvalidReadAuthorityRequest
  | ErrInvalidReadAuthorityConsumer | ErrReadAuthoritySnapshotNotFound | ErrReadAuthoritySnapshotExpired
  | ErrReadAuthoritySnapshotIncomplete | ErrReadAuthorityChecksumMismatch | ErrReadAuthorityCursorInvalid

datatype err =
    Domain domain_err         \<comment> \<open>the package's exported error variables\<close>
  | Store store_err
  | Events event_err
  | ErrNew string             \<comment> \<open>an error built in place by \<^verbatim>\<open>errors.New\<close>\<close>
  | ErrNoRows                 \<comment> \<open>\<^verbatim>\<open>sql.ErrNoRows\<close>\<close>
  | ErrConstraint string      \<comment> \<open>the SQL driver refused a row: UNIQUE, CHECK or foreign key\<close>
  | ErrRandom                 \<comment> \<open>\<^verbatim>\<open>crypto/rand\<close> failed\<close>
  | ErrBeginTx                \<comment> \<open>the SQL driver could not begin a transaction\<close>
  | ErrCommit                 \<comment> \<open>the SQL driver could not commit\<close>

type_synonym 'a result = "err + 'a"

section \<open>The surroundings of a call\<close>

text \<open>
  \<open>rand_read k\<close> is what the \<open>k\<close>-th call site of \<^verbatim>\<open>rand.Read\<close> in the operation gets:
  \<^const>\<open>None\<close> when it fails, otherwise the bytes it fills its buffer with.
  Times are instants in nanoseconds since the Unix epoch.
\<close>

record env =
  rand_read :: "nat \<Rightarrow> (nat \<Rightarrow> char) option"
  begin_ok :: bool
  commit_ok :: bool
  time_now :: int

lemma find_SomeD: "find P xs = Some x \<Longrightarrow> x \<in> set xs \<and> P x"
  by (auto simp: find_Some_iff)

lemma find_NoneD: "find P xs = None \<Longrightarrow> x \<in> set xs \<Longrightarrow> \<not> P x"
  by (auto simp: find_None_iff)

section \<open>Strings\<close>

definition HasPrefix :: "string \<Rightarrow> string \<Rightarrow> bool" where
  "HasPrefix s p \<longleftrightarrow> take (length p) s = p"

text \<open>
  \<^verbatim>\<open>strings.TrimSpace\<close> removes leading and trailing white space as Unicode defines it. On
  UTF-8 bytes the white space characters are these sequences (U+0085, U+00A0, U+1680,
  U+2000 to U+200A, U+2028, U+2029, U+202F, U+205F and U+3000 after the six ASCII ones).
\<close>

definition space_runes :: "string list" where
  "space_runes = map (map char_of)
     [[9], [10], [11], [12], [13], [32 :: nat], [194, 133], [194, 160], [225, 154, 128],
      [226, 128, 128], [226, 128, 129], [226, 128, 130], [226, 128, 131], [226, 128, 132],
      [226, 128, 133], [226, 128, 134], [226, 128, 135], [226, 128, 136], [226, 128, 137],
      [226, 128, 138], [226, 128, 168], [226, 128, 169], [226, 128, 175], [226, 129, 159],
      [227, 128, 128]]"

function strip_any :: "string list \<Rightarrow> string \<Rightarrow> string" where
  "strip_any ps s =
     (case find (\<lambda>p. p \<noteq> [] \<and> s \<noteq> [] \<and> HasPrefix s p) ps of
        None \<Rightarrow> s
      | Some p \<Rightarrow> strip_any ps (drop (length p) s))"
  by pat_completeness auto
termination
  by (relation "measure (\<lambda>(ps, s). length s)") (auto dest!: find_Some_iff [THEN iffD1])

declare strip_any.simps [simp del]

definition TrimSpace :: "string \<Rightarrow> string" where
  "TrimSpace s = rev (strip_any (map rev space_runes) (rev (strip_any space_runes s)))"

definition ascii_lower :: "char \<Rightarrow> char" where
  "ascii_lower c = (let n = of_char c :: nat in if 65 \<le> n \<and> n \<le> 90 then char_of (n + 32) else c)"

definition ascii_upper :: "char \<Rightarrow> char" where
  "ascii_upper c = (let n = of_char c :: nat in if 97 \<le> n \<and> n \<le> 122 then char_of (n - 32) else c)"

definition is_ascii :: "string \<Rightarrow> bool" where
  "is_ascii s \<longleftrightarrow> list_all (\<lambda>c. of_char c < (128 :: nat)) s"

text \<open>\<open>valid_id p s\<close> is the recurring test \<^verbatim>\<open>strings.HasPrefix(s, p) && len(s) > len(p)\<close>.\<close>

definition valid_id :: "string \<Rightarrow> string \<Rightarrow> bool" where
  "valid_id p s \<longleftrightarrow> HasPrefix s p \<and> length p < length s"

lemma valid_id_append [simp]: "valid_id p (p @ s) \<longleftrightarrow> s \<noteq> []"
  by (simp add: valid_id_def HasPrefix_def)

lemma valid_id_not_empty: "valid_id p s \<Longrightarrow> s \<noteq> []"
  by (auto simp: valid_id_def)

lemma HasPrefix_iff: "HasPrefix s p \<longleftrightarrow> (\<exists>t. s = p @ t)"
  unfolding HasPrefix_def by (metis append_eq_conv_conj)

lemma HasPrefix_append: "HasPrefix s p \<Longrightarrow> HasPrefix (s @ t) p"
  by (auto simp: HasPrefix_iff)

subsection \<open>White space is trimmed once and for all\<close>

lemma strip_any_suffix: "\<exists>t. s = t @ strip_any ps s"
proof (induction ps s rule: strip_any.induct)
  case (1 ps s)
  show ?case
  proof (cases "find (\<lambda>p. p \<noteq> [] \<and> s \<noteq> [] \<and> HasPrefix s p) ps")
    case None
    then show ?thesis by (simp add: strip_any.simps [of ps s])
  next
    case (Some p)
    with "1.IH" obtain t where "drop (length p) s = t @ strip_any ps (drop (length p) s)"
      by blast
    then have "s = (take (length p) s @ t) @ strip_any ps (drop (length p) s)"
      by (metis append_assoc append_take_drop_id)
    with Some have "s = (take (length p) s @ t) @ strip_any ps s"
      by (simp add: strip_any.simps [of ps s])
    then show ?thesis by blast
  qed
qed

lemma strip_any_done:
  "p \<in> set ps \<Longrightarrow> p \<noteq> [] \<Longrightarrow> strip_any ps s \<noteq> [] \<Longrightarrow> \<not> HasPrefix (strip_any ps s) p"
proof (induction ps s rule: strip_any.induct)
  case (1 ps s)
  show ?case
  proof (cases "find (\<lambda>p. p \<noteq> [] \<and> s \<noteq> [] \<and> HasPrefix s p) ps")
    case None
    then have "strip_any ps s = s" by (simp add: strip_any.simps [of ps s])
    with None "1.prems" show ?thesis by (auto simp: find_None_iff)
  next
    case (Some q)
    with "1" show ?thesis by (simp add: strip_any.simps [of ps s])
  qed
qed

lemma strip_any_id:
  "(\<And>p. p \<in> set ps \<Longrightarrow> p \<noteq> [] \<Longrightarrow> s \<noteq> [] \<Longrightarrow> \<not> HasPrefix s p) \<Longrightarrow> strip_any ps s = s"
  by (subst strip_any.simps) (auto dest!: find_SomeD split: option.splits)

lemma strip_any_idem: "strip_any ps (strip_any ps s) = strip_any ps s"
  by (rule strip_any_id) (auto dest: strip_any_done)

lemma TrimSpace_idem [simp]: "TrimSpace (TrimSpace s) = TrimSpace s"
proof -
  let ?l = "strip_any space_runes s" and ?r = "map rev space_runes"
  obtain t where t: "rev ?l = t @ strip_any ?r (rev ?l)"
    using strip_any_suffix by blast
  then have pre: "?l = TrimSpace s @ rev t"
    unfolding TrimSpace_def by (metis rev_append rev_rev_ident)
  have "strip_any space_runes (TrimSpace s) = TrimSpace s"
  proof (rule strip_any_id)
    fix p
    assume p: "p \<in> set space_runes" "p \<noteq> []" and "TrimSpace s \<noteq> []"
    with pre have "?l \<noteq> []" by auto
    with p have "\<not> HasPrefix ?l p" by (rule strip_any_done)
    then show "\<not> HasPrefix (TrimSpace s) p"
      using pre HasPrefix_append by metis
  qed
  then show ?thesis
    unfolding TrimSpace_def by (simp add: strip_any_idem)
qed

text \<open>Text that starts and ends with a visible ASCII character has nothing to trim.\<close>

definition graphic :: "char \<Rightarrow> bool" where
  "graphic c \<longleftrightarrow> 33 \<le> (of_char c :: nat) \<and> (of_char c :: nat) \<le> 126"

lemma strip_graphic:
  assumes "\<forall>p \<in> set ps. p \<noteq> [] \<and> \<not> graphic (hd p)" and "s \<noteq> [] \<longrightarrow> graphic (hd s)"
  shows "strip_any ps s = s"
proof (rule strip_any_id)
  fix p
  assume "p \<in> set ps" "s \<noteq> []"
  with assms obtain c cs d ds where "p = c # cs" "s = d # ds" "\<not> graphic c" "graphic d"
    by (metis list.exhaust_sel)
  then show "\<not> HasPrefix s p" by (auto simp: HasPrefix_def)
qed

lemma space_runes_not_graphic:
  "\<forall>p \<in> set space_runes. p \<noteq> [] \<and> \<not> graphic (hd p)"
  "\<forall>p \<in> set (map rev space_runes). p \<noteq> [] \<and> \<not> graphic (hd p)"
  by (auto simp: space_runes_def graphic_def)

lemma TrimSpace_graphic: "s \<noteq> [] \<Longrightarrow> graphic (hd s) \<Longrightarrow> graphic (last s) \<Longrightarrow> TrimSpace s = s"
  unfolding TrimSpace_def
  by (simp add: strip_graphic [OF space_runes_not_graphic(1)] strip_graphic [OF space_runes_not_graphic(2)] hd_rev)

lemma TrimSpace_length: "length (TrimSpace s) \<le> length s"
proof -
  have "length (strip_any ps t) \<le> length t" for ps t
    by (metis strip_any_suffix length_append le_add2)
  then show ?thesis
    unfolding TrimSpace_def by (metis length_rev le_trans)
qed

section \<open>base64\<close>

definition b64_alphabet :: string where
  "b64_alphabet = ''ABCDEFGHIJKLMNOPQRSTUVWXYZabcdefghijklmnopqrstuvwxyz0123456789-_''"

definition b64_char :: "nat \<Rightarrow> char" where
  "b64_char n = b64_alphabet ! (n mod 64)"

text \<open>\<^verbatim>\<open>base64.RawURLEncoding\<close>: the URL alphabet, no padding.\<close>

fun RawURLEncoding :: "string \<Rightarrow> string" where
  "RawURLEncoding (a # b # c # xs) =
     (let n = of_char a * 65536 + of_char b * 256 + (of_char c :: nat)
      in b64_char (n div 262144) # b64_char (n div 4096) # b64_char (n div 64) # b64_char n
         # RawURLEncoding xs)"
| "RawURLEncoding [a, b] =
     (let n = of_char a * 1024 + (of_char b :: nat) * 4
      in [b64_char (n div 4096), b64_char (n div 64), b64_char n])"
| "RawURLEncoding [a] =
     (let n = (of_char a :: nat) * 16 in [b64_char (n div 64), b64_char n])"
| "RawURLEncoding [] = []"

lemma RawURLEncoding_eq_Nil [simp]: "RawURLEncoding xs = [] \<longleftrightarrow> xs = []"
  by (induction xs rule: RawURLEncoding.induct) (auto simp: Let_def)

text \<open>
  The identifiers of the system: a type prefix and eighteen random bytes in base64
  (\<^verbatim>\<open>domain.NewOrganisationID\<close> and its siblings, \<^verbatim>\<open>events.NewEventID\<close>).
\<close>

definition random_id :: "string \<Rightarrow> (nat \<Rightarrow> char) option \<Rightarrow> string result" where
  "random_id prefix src =
     (case src of
        None \<Rightarrow> Inl ErrRandom
      | Some f \<Rightarrow> Inr (prefix @ RawURLEncoding (map f [0..<18])))"

lemma random_id_valid: "random_id p src = Inr s \<Longrightarrow> valid_id p s"
  by (auto simp: random_id_def split: option.splits)

section \<open>Transactions\<close>

text \<open>
  \<^verbatim>\<open>tx, err := s.db.BeginTx(...); defer tx.Rollback(); ...; tx.Commit()\<close>: the body works
  on the database it was given; the caller sees its writes only when the commit succeeds.
\<close>

definition with_tx :: "('e) env_scheme \<Rightarrow> 's \<Rightarrow> ('s \<Rightarrow> ('a \<times> 's) result) \<Rightarrow> 'a result \<times> 's" where
  "with_tx e s body =
     (if \<not> begin_ok e then (Inl ErrBeginTx, s)
      else case body s of
        Inl x \<Rightarrow> (Inl x, s)
      | Inr (a, s') \<Rightarrow> if commit_ok e then (Inr a, s') else (Inl ErrCommit, s))"

lemma with_tx_Inr [tx_simps]:
  "with_tx e s body = (Inr a, s') \<longleftrightarrow> begin_ok e \<and> commit_ok e \<and> body s = Inr (a, s')"
  by (auto simp: with_tx_def split: sum.splits if_splits)

lemma with_tx_Inl: "with_tx e s body = (Inl x, s') \<Longrightarrow> s' = s"
  by (auto simp: with_tx_def split: sum.splits if_splits)

lemma with_tx_body_error: "begin_ok e \<Longrightarrow> body s = Inl x \<Longrightarrow> with_tx e s body = (Inl x, s)"
  by (simp add: with_tx_def)

lemma with_tx_body_ok:
  "begin_ok e \<Longrightarrow> commit_ok e \<Longrightarrow> body s = Inr (a, s') \<Longrightarrow> with_tx e s body = (Inr a, s')"
  by (simp add: with_tx_def)

text \<open>
  A method may also return before \<^verbatim>\<open>Commit\<close> with no error: the deferred \<^verbatim>\<open>Rollback\<close> then
  undoes whatever the body wrote. \<open>run_tx\<close> covers both ends; a body that ends without a commit
  returns \<^const>\<open>None\<close> for the database.
\<close>

definition run_tx :: "('e) env_scheme \<Rightarrow> 's \<Rightarrow> ('s \<Rightarrow> ('a \<times> 's option) result) \<Rightarrow> 'a result \<times> 's" where
  "run_tx e s body =
     (if \<not> begin_ok e then (Inl ErrBeginTx, s)
      else case body s of
        Inl x \<Rightarrow> (Inl x, s)
      | Inr (a, None) \<Rightarrow> (Inr a, s)
      | Inr (a, Some s') \<Rightarrow> if commit_ok e then (Inr a, s') else (Inl ErrCommit, s))"

lemma run_tx_Inr [tx_simps]:
  "run_tx e s body = (Inr a, s') \<longleftrightarrow>
     begin_ok e \<and> (body s = Inr (a, None) \<and> s' = s \<or> commit_ok e \<and> body s = Inr (a, Some s'))"
  by (auto simp: run_tx_def split: sum.splits if_splits option.splits)

lemma run_tx_Inl: "run_tx e s body = (Inl x, s') \<Longrightarrow> s' = s"
  by (auto simp: run_tx_def split: sum.splits if_splits option.splits)

subsection \<open>Sequencing\<close>

text \<open>
  \<^verbatim>\<open>x, err := f(); if err != nil { return err }\<close> has three forms in the store: \<open>attempt\<close> for a
  query or a validation, \<open>exec\<close> for a statement that changes the database, \<open>call\<close> for a
  helper that does both.
\<close>

definition attempt :: "'e + 'a \<Rightarrow> ('a \<Rightarrow> 'e + 'b) \<Rightarrow> 'e + 'b" where
  "attempt m k = (case m of Inl x \<Rightarrow> Inl x | Inr a \<Rightarrow> k a)"

definition exec :: "'s result \<Rightarrow> ('s \<Rightarrow> 'b result) \<Rightarrow> 'b result" where
  "exec m k = (case m of Inl x \<Rightarrow> Inl x | Inr s \<Rightarrow> k s)"

definition call :: "('a \<times> 's) result \<Rightarrow> ('a \<Rightarrow> 's \<Rightarrow> 'b result) \<Rightarrow> 'b result" where
  "call m k = (case m of Inl x \<Rightarrow> Inl x | Inr (a, s) \<Rightarrow> k a s)"

text \<open>A query that must find a row: \<^verbatim>\<open>errors.Is(err, sql.ErrNoRows)\<close> gives the stated error.\<close>

definition need :: "'e \<Rightarrow> 'a option \<Rightarrow> 'e + 'a" where
  "need x m = (case m of None \<Rightarrow> Inl x | Some a \<Rightarrow> Inr a)"

text \<open>The checks a method makes before it begins its transaction.\<close>

definition prepare :: "'s \<Rightarrow> 'p result \<Rightarrow> ('p \<Rightarrow> 'a result \<times> 's) \<Rightarrow> 'a result \<times> 's" where
  "prepare s m k = (case m of Inl x \<Rightarrow> (Inl x, s) | Inr p \<Rightarrow> k p)"

lemma prepare_Inr [tx_simps]: "prepare s m k = (Inr a, s') \<longleftrightarrow> (\<exists>p. m = Inr p \<and> k p = (Inr a, s'))"
  by (auto simp: prepare_def split: sum.splits)

lemma prepare_Inl:
  "prepare s m k = (Inl x, s') \<Longrightarrow> (\<And>p x s'. k p = (Inl x, s') \<Longrightarrow> s' = s) \<Longrightarrow> s' = s"
  by (auto simp: prepare_def split: sum.splits)

text \<open>A \<^verbatim>\<open>for range\<close> loop over a slice whose body may fail; the body also gets the index.\<close>

fun for_each :: "(nat \<Rightarrow> 'x \<Rightarrow> 's \<Rightarrow> 's result) \<Rightarrow> nat \<Rightarrow> 'x list \<Rightarrow> 's \<Rightarrow> 's result" where
  "for_each f k [] s = Inr s"
| "for_each f k (x # xs) s = exec (f k x s) (\<lambda>s. for_each f (Suc k) xs s)"

lemma attempt_Inr [tx_simps]: "attempt m k = Inr y \<longleftrightarrow> (\<exists>a. m = Inr a \<and> k a = Inr y)"
  by (auto simp: attempt_def split: sum.splits)

lemma exec_Inr [tx_simps]: "exec m k = Inr y \<longleftrightarrow> (\<exists>s. m = Inr s \<and> k s = Inr y)"
  by (auto simp: exec_def split: sum.splits)

lemma call_Inr [tx_simps]: "call m k = Inr y \<longleftrightarrow> (\<exists>a s. m = Inr (a, s) \<and> k a s = Inr y)"
  by (auto simp: call_def split: sum.splits)

lemma need_Inr [tx_simps]: "need x m = Inr a \<longleftrightarrow> m = Some a"
  by (auto simp: need_def split: option.splits)

lemma if_Inl_Inr [tx_simps]: "(if c then Inl x else m) = Inr y \<longleftrightarrow> \<not> c \<and> m = Inr y"
  by auto

lemma sequencing_simps [simp]:
  "attempt (Inr a) k = k a" "attempt (Inl x) k = Inl x"
  "exec (Inr s) l = l s" "exec (Inl x) l = Inl x"
  "call (Inr (a, s)) h = h a s" "call (Inl x) h = Inl x"
  "need x (Some a) = Inr a" "need x None = Inl x"
  "prepare s0 (Inr p) g = g p" "prepare s0 (Inl x) g = (Inl x, s0)"
  by (simp_all add: attempt_def exec_def call_def need_def prepare_def)

section \<open>Rows\<close>

text \<open>
  A table is the list of its rows in the order of their \<^verbatim>\<open>INTEGER PRIMARY KEY\<close>. SQLite gives
  a new row the number one above the largest in use.
\<close>

definition next_id :: "('r \<Rightarrow> int) \<Rightarrow> 'r list \<Rightarrow> int" where
  "next_id rid rows = foldr (\<lambda>r m. max (rid r) m) rows 0 + 1"

definition update_where :: "('r \<Rightarrow> bool) \<Rightarrow> ('r \<Rightarrow> 'r) \<Rightarrow> 'r list \<Rightarrow> 'r list" where
  "update_where P f rows = map (\<lambda>r. if P r then f r else r) rows"

definition count_where :: "('r \<Rightarrow> bool) \<Rightarrow> 'r list \<Rightarrow> nat" where
  "count_where P rows = length (filter P rows)"

text \<open>An insert numbers the row and appends it.\<close>

definition insert_row :: "('r \<Rightarrow> int) \<Rightarrow> (int \<Rightarrow> 'r \<Rightarrow> 'r) \<Rightarrow> 'r \<Rightarrow> 'r list \<Rightarrow> 'r list" where
  "insert_row rid set_id r rows = rows @ [set_id (next_id rid rows) r]"

lemma next_id_greater: "r \<in> set rows \<Longrightarrow> rid r < next_id rid rows"
  unfolding next_id_def by (induction rows) (auto simp: max_def)

lemma next_id_positive [simp]: "0 < next_id rid rows"
proof -
  have "0 \<le> foldr (\<lambda>r m. max (rid r) m) rows (0 :: int)" by (induction rows) auto
  then show ?thesis by (simp add: next_id_def)
qed

lemma next_id_le: "(\<And>r. r \<in> set rows \<Longrightarrow> rid r \<le> n) \<Longrightarrow> 0 \<le> n \<Longrightarrow> next_id rid rows \<le> n + 1"
  unfolding next_id_def by (induction rows) auto

lemma set_update_where:
  "set (update_where P f rows) = {r \<in> set rows. \<not> P r} \<union> f ` {r \<in> set rows. P r}"
  by (auto simp: update_where_def)

lemma ball_update_where:
  "(\<forall>r \<in> set (update_where P f rows). Q r) \<longleftrightarrow> (\<forall>r \<in> set rows. Q (if P r then f r else r))"
  by (auto simp: update_where_def)

lemma bex_update_where:
  "(\<exists>r \<in> set (update_where P f rows). Q r) \<longleftrightarrow> (\<exists>r \<in> set rows. Q (if P r then f r else r))"
  by (auto simp: update_where_def)

lemma length_update_where [simp]: "length (update_where P f rows) = length rows"
  by (simp add: update_where_def)

lemma map_update_where:
  "(\<And>r. g (f r) = g r) \<Longrightarrow> map g (update_where P f rows) = map g rows"
  by (simp add: update_where_def)

lemma update_where_none: "(\<And>r. r \<in> set rows \<Longrightarrow> \<not> P r) \<Longrightarrow> update_where P f rows = rows"
  unfolding update_where_def by (induction rows) auto

lemma find_unique:
  assumes "x \<in> set xs" and "P x" and "\<And>y. y \<in> set xs \<Longrightarrow> P y \<Longrightarrow> y = x"
  shows "find P xs = Some x"
proof (cases "find P xs")
  case None
  with assms(1,2) show ?thesis by (auto simp: find_None_iff)
next
  case (Some y)
  with assms(3) show ?thesis by (auto dest: find_SomeD)
qed

lemma find_cong_set: "(\<And>x. x \<in> set xs \<Longrightarrow> P x = Q x) \<Longrightarrow> find P xs = find Q xs"
  by (induction xs) auto

text \<open>
  A partial unique index: among the rows that satisfy \<open>P\<close>, the key \<open>k\<close> occurs once.
  \<^term>\<open>\<lambda>_. True\<close> gives an ordinary unique column.
\<close>

definition unique_key :: "('r \<Rightarrow> bool) \<Rightarrow> ('r \<Rightarrow> 'k) \<Rightarrow> 'r list \<Rightarrow> bool" where
  "unique_key P k rows \<longleftrightarrow> distinct (map k (filter P rows))"

lemma unique_key_Nil [simp]: "unique_key P k []"
  by (simp add: unique_key_def)

lemma unique_key_snoc:
  "unique_key P k (rows @ [r]) \<longleftrightarrow>
     unique_key P k rows \<and> (P r \<longrightarrow> (\<forall>q \<in> set rows. P q \<longrightarrow> k q \<noteq> k r))"
  by (auto simp: unique_key_def image_iff)

lemma unique_keyD:
  "unique_key P k rows \<Longrightarrow> q \<in> set rows \<Longrightarrow> r \<in> set rows \<Longrightarrow> P q \<Longrightarrow> P r \<Longrightarrow> k q = k r \<Longrightarrow> q = r"
  unfolding unique_key_def distinct_map by (auto dest: inj_onD)

text \<open>An update that keeps the key and never brings a row into the index keeps it unique.\<close>

lemma unique_key_update:
  assumes "unique_key P k rows" and "\<And>r. P (f r) \<Longrightarrow> P r" and "\<And>r. k (f r) = k r"
  shows "unique_key P k (update_where Q f rows)"
  using assms(1) unfolding unique_key_def
proof (induction rows)
  case Nil
  then show ?case by (simp add: update_where_def)
next
  case (Cons r rows)
  have sub: "k ` {x \<in> set (update_where Q f rows). P x} \<subseteq> k ` {x \<in> set rows. P x}"
    using assms(2,3) by (auto simp: set_update_where image_iff)
  have "update_where Q f (r # rows) = (if Q r then f r else r) # update_where Q f rows"
    by (simp add: update_where_def)
  with Cons sub assms(2,3) show ?case
    by (auto split: if_splits dest!: subsetD)
qed

lemma unique_key_filter: "unique_key P k rows \<Longrightarrow> unique_key P k (filter Q rows)"
  unfolding unique_key_def
  by (induction rows) auto

lemma find_unique_key:
  assumes "unique_key P k rows" and "r \<in> set rows" and "P r" and "\<And>q. Q q \<longleftrightarrow> P q \<and> k q = k r"
  shows "find Q rows = Some r"
  using assms by (intro find_unique) (auto dest: unique_keyD)

lemma find_key_and:
  assumes "unique_key (\<lambda>_. True) k rows"
  shows "find (\<lambda>r. k r = i \<and> Q r) rows = Some r \<longleftrightarrow> find (\<lambda>r. k r = i) rows = Some r \<and> Q r"
proof
  assume "find (\<lambda>r. k r = i \<and> Q r) rows = Some r"
  then have r: "r \<in> set rows" "k r = i" "Q r" by (auto dest: find_SomeD)
  have "find (\<lambda>r. k r = i) rows = Some r"
    using r by (intro find_unique) (auto dest: unique_keyD [OF assms])
  with r show "find (\<lambda>r. k r = i) rows = Some r \<and> Q r" by simp
next
  assume "find (\<lambda>r. k r = i) rows = Some r \<and> Q r"
  then have r: "r \<in> set rows" "k r = i" "Q r" by (auto dest: find_SomeD)
  then show "find (\<lambda>r. k r = i \<and> Q r) rows = Some r"
    by (intro find_unique) (auto dest: unique_keyD [OF assms])
qed

lemma find_key_iff:
  assumes "unique_key (\<lambda>_. True) k rows"
  shows "find (\<lambda>r. k r = i) rows = Some r \<longleftrightarrow> r \<in> set rows \<and> k r = i"
proof
  assume r: "r \<in> set rows \<and> k r = i"
  then show "find (\<lambda>r. k r = i) rows = Some r"
    by (intro find_unique) (use r in \<open>auto intro: unique_keyD [OF assms]\<close>)
qed (rule find_SomeD)

lemma find_update_where:
  assumes "\<And>r. P (f r) = P r"
  shows "find P (update_where Q f rows) = map_option (\<lambda>r. if Q r then f r else r) (find P rows)"
  using assms unfolding update_where_def by (induction rows) auto

lemma count_where_ex: "count_where P xs = 1 \<Longrightarrow> \<exists>x \<in> set xs. P x"
  by (rule ccontr) (simp add: count_where_def filter_False)

end
