(* ===== verification/GoTime.thy ===== *)
theory GoTime
  imports Prelude
begin

text \<open>
  Instants and their text form. Every \<^verbatim>\<open>TEXT\<close> time column of the database is written by
  \<^verbatim>\<open>formatTime\<close> (\<^verbatim>\<open>users.go\<close>), that is in the layout \<^verbatim>\<open>time.RFC3339Nano\<close> and UTC, and the
  SQL statements compare such columns as text. This theory defines the text form and shows how
  the text order and the order of the instants relate: they agree between different seconds
  and may disagree inside one second, because the layout drops trailing zeros of the fraction.

  The proleptic Gregorian calendar counts days from 1 March of year 0; years start in March
  internally, so that the leap day is the last day of a year.
\<close>

section \<open>Instants\<close>

type_synonym gotime = int \<comment> \<open>nanoseconds since 1970-01-01T00:00:00Z\<close>

definition zero_time :: gotime where \<comment> \<open>the zero \<^verbatim>\<open>time.Time\<close>, 0001-01-01T00:00:00Z\<close>
  "zero_time = -62135596800 * 1000000000"

definition IsZero :: "gotime \<Rightarrow> bool" where
  "IsZero t \<longleftrightarrow> t = zero_time"

abbreviation seconds :: "int \<Rightarrow> int" where
  "seconds n \<equiv> n * 1000000000"

definition Unix :: "gotime \<Rightarrow> int" where
  "Unix t = t div 1000000000"

definition nanos :: "gotime \<Rightarrow> int" where
  "nanos t = t mod 1000000000"

text \<open>\<^verbatim>\<open>Time.Sub\<close> saturates at the limits of a 64-bit duration.\<close>

definition time_Sub :: "gotime \<Rightarrow> gotime \<Rightarrow> int" where
  "time_Sub a b = max (- (2 ^ 63)) (min (2 ^ 63 - 1) (a - b))"

section \<open>The calendar\<close>

definition year_start :: "int \<Rightarrow> int" where
  "year_start y = 365 * y + y div 4 - y div 100 + y div 400"

definition year_of :: "int \<Rightarrow> int" where
  "year_of z = (let y = (400 * z) div 146097 in if year_start (y + 1) \<le> z then y + 1 else y)"

text \<open>The date of day \<open>n\<close> after 1970-01-01 as (year, month, day of the month).\<close>

definition civil :: "int \<Rightarrow> int \<times> int \<times> int" where
  "civil n =
     (let z = n + 719468; y = year_of z; doy = z - year_start y;
          mp = (5 * doy + 2) div 153; d = doy - (153 * mp + 2) div 5 + 1
      in if mp < 10 then (y, mp + 3, d) else (y + 1, mp - 9, d))"

fun digits :: "nat \<Rightarrow> nat \<Rightarrow> string" where
  "digits 0 n = []"
| "digits (Suc w) n = char_of (48 + (n div 10 ^ w) mod 10) # digits w (n mod 10 ^ w)"

fun decimal :: "nat \<Rightarrow> string" where
  "decimal n = (if n < 10 then [] else decimal (n div 10)) @ [char_of (48 + n mod 10)]"

declare decimal.simps [simp del]

definition year_string :: "int \<Rightarrow> string" where
  "year_string y =
     (if 0 \<le> y \<and> y < 10000 then digits 4 (nat y)
      else if y < 0 then ''-'' @ (let d = decimal (nat (- y)) in replicate (4 - length d) (CHR ''0'') @ d)
      else decimal (nat y))"

definition stamp :: "int \<Rightarrow> string" where
  "stamp s =
     (let (y, m, d) = civil (s div 86400); r = s mod 86400
      in year_string y @ ''-'' @ digits 2 (nat m) @ ''-'' @ digits 2 (nat d) @ ''T''
         @ digits 2 (nat (r div 3600)) @ '':'' @ digits 2 (nat (r mod 3600 div 60)) @ '':''
         @ digits 2 (nat (r mod 60)))"

definition fraction :: "int \<Rightarrow> string" where
  "fraction n =
     (if n = 0 then []
      else CHR ''.'' # rev (dropWhile (\<lambda>c. c = CHR ''0'') (rev (digits 9 (nat n)))))"

definition formatTime :: "gotime \<Rightarrow> string" where
  "formatTime t = stamp (Unix t) @ fraction (nanos t) @ ''Z''"

text \<open>What an SQL comparison of two time columns decides.\<close>

definition time_text_less :: "gotime \<Rightarrow> gotime \<Rightarrow> bool" where
  "time_text_less a b \<longleftrightarrow> formatTime a < formatTime b"

definition time_text_le :: "gotime \<Rightarrow> gotime \<Rightarrow> bool" where
  "time_text_le a b \<longleftrightarrow> formatTime a \<le> formatTime b"

section \<open>Text order of padded numbers\<close>

lemma less_append_same_length:
  fixes a b x y :: string
  assumes "length a = length b"
  shows "a @ x < b @ y \<longleftrightarrow> a < b \<or> a = b \<and> x < y"
  using assms by (induction a b rule: list_induct2) auto

lemma length_digits [simp]: "length (digits w n) = w"
  by (induction w arbitrary: n) auto

lemma digit_less:
  "a < 10 \<Longrightarrow> b < 10 \<Longrightarrow> (char_of (48 + a :: nat) < char_of (48 + b)) \<longleftrightarrow> a < b"
  by (simp add: less_char_def)

lemma digit_eq:
  assumes "a < 10" and "b < 10"
  shows "(char_of (48 + a :: nat) = char_of (48 + b)) \<longleftrightarrow> a = b"
proof
  assume "char_of (48 + a) = char_of (48 + b)"
  then have "(of_char (char_of (48 + a)) :: nat) = of_char (char_of (48 + b))" by simp
  with assms show "a = b" by simp
qed simp

lemma less_iff_div_mod:
  "(n :: nat) < m \<longleftrightarrow> n div p < m div p \<or> n div p = m div p \<and> n mod p < m mod p"
  by (metis div_le_mono div_mult_mod_eq leD le_neq_implies_less linorder_not_less
      nat_add_left_cancel_less nat_less_le)

lemma digits_less:
  "n < 10 ^ w \<Longrightarrow> m < 10 ^ w \<Longrightarrow> digits w n < digits w m \<longleftrightarrow> n < m"
proof (induction w arbitrary: n m)
  case 0
  then show ?case by simp
next
  case (Suc w)
  then have lead: "n div 10 ^ w < 10" "m div 10 ^ w < 10"
    by (auto simp: less_mult_imp_div_less)
  have "digits w (n mod 10 ^ w) < digits w (m mod 10 ^ w) \<longleftrightarrow> n mod 10 ^ w < m mod 10 ^ w"
    by (rule Suc.IH) auto
  with lead show ?case
    by (simp add: digit_less digit_eq less_iff_div_mod [of n m "10 ^ w"])
qed

lemma digits_eq: "n < 10 ^ w \<Longrightarrow> m < 10 ^ w \<Longrightarrow> digits w n = digits w m \<longleftrightarrow> n = m"
  by (metis digits_less less_irrefl nat_neq_iff)

section \<open>The calendar is strictly monotone\<close>

lemma int_div_bounds: "0 < k \<Longrightarrow> k * (y div k) \<le> y \<and> y < k * (y div k) + (k :: int)"
  using mult_div_mod_eq [of k y] pos_mod_sign [of k y] pos_mod_bound [of k y] by linarith

lemma int_less_div_mod:
  assumes "0 < (k :: int)"
  shows "x < y \<longleftrightarrow> x div k < y div k \<or> x div k = y div k \<and> x mod k < y mod k"
proof (cases "x div k" "y div k" rule: linorder_cases)
  case less
  then have "x < y" using zdiv_mono1 [of y x k] assms by linarith
  with less show ?thesis by simp
next
  case equal
  then show ?thesis
    using mult_div_mod_eq [of k x] mult_div_mod_eq [of k y] by (metis add_less_cancel_left less_irrefl)
next
  case greater
  then have "\<not> x < y" using zdiv_mono1 [of x y k] assms by linarith
  with greater show ?thesis by simp
qed

lemma int_div_succ:
  assumes "0 < (k :: int)"
  shows "(y + 1) div k = y div k \<or> (y + 1) div k = y div k + 1 \<and> y + 1 = k * ((y + 1) div k)"
proof (cases "y mod k = k - 1")
  case True
  then have "y + 1 = k * (y div k + 1)"
    using mult_div_mod_eq [of k y] by (simp only: distrib_left mult_1_right)
  then show ?thesis using assms by (metis nonzero_mult_div_cancel_left less_irrefl)
next
  case False
  then have "0 \<le> y mod k + 1" "y mod k + 1 < k"
    using assms pos_mod_bound [of k y] pos_mod_sign [of k y] by linarith+
  then have "(y + 1) div k = y div k" by (intro int_div_pos_eq [of _ _ _ "y mod k + 1"]) simp_all
  then show ?thesis by simp
qed

lemma century_bounds:
  "4 * (y div 4) \<le> y" "y < 4 * (y div 4) + 4" "100 * (y div 100) \<le> y"
  "y < 100 * (y div 100) + 100" "400 * (y div 400) \<le> y" "y < 400 * (y div 400) + (400 :: int)"
  using int_div_bounds [of 4 y] int_div_bounds [of 100 y] int_div_bounds [of 400 y] by simp_all

lemma year_start_bounds:
  "146097 * y - 699 \<le> 400 * year_start y" "400 * year_start y \<le> 146097 * y + 396"
  unfolding year_start_def using century_bounds [of y] by (simp_all add: algebra_simps)

lemma year_of_bounds: "year_start (year_of z) \<le> z" "z < year_start (year_of z + 1)"
proof -
  define y where "y = (400 * z) div 146097"
  have y: "146097 * y \<le> 400 * z" "400 * z < 146097 * y + 146097"
    unfolding y_def using int_div_bounds [of 146097 "400 * z"] by simp_all
  have "year_start y \<le> z"
    using y year_start_bounds(2) [of y] by simp
  moreover have "z < year_start (y + 1 + 1)"
    using y year_start_bounds(1) [of "y + 1 + 1"] by (simp add: algebra_simps)
  ultimately show "year_start (year_of z) \<le> z" "z < year_start (year_of z + 1)"
    by (simp_all add: year_of_def Let_def y_def [symmetric])
qed

lemma year_length: "year_start (y + 1) \<le> year_start y + 366"
proof -
  have "(y + 1) div 4 \<le> y div 4 + 1" using int_div_succ [of 4 y] by auto
  moreover have "(y + 1) div 400 - (y + 1) div 100 \<le> y div 400 - y div 100"
  proof (cases "(y + 1) div 400 = y div 400")
    case True
    then show ?thesis using zdiv_mono1 [of y "y + 1" 100] by simp
  next
    case False
    then have e: "(y + 1) div 400 = y div 400 + 1" "y + 1 = 400 * ((y + 1) div 400)"
      using int_div_succ [of 400 y] by auto
    define q where "q = y div 400"
    from e have "y = 400 * q + 399" by (simp add: q_def)
    then have "(y + 1) div 100 = 4 * q + 4" "y div 100 = 4 * q + 3" by simp_all
    with e show ?thesis by simp
  qed
  ultimately show ?thesis by (simp add: year_start_def)
qed

lemma year_start_mono: "a \<le> b \<Longrightarrow> year_start a \<le> year_start b"
proof -
  assume "a \<le> b"
  then have "a div 4 \<le> b div 4" "a div 400 \<le> b div 400" by (auto intro: zdiv_mono1)
  moreover have "b div 100 - a div 100 \<le> 365 * (b - a)"
  proof (cases "a = b")
    case False
    with \<open>a \<le> b\<close> show ?thesis
      using century_bounds [of a] century_bounds [of b] by simp
  qed simp
  ultimately show ?thesis by (simp add: year_start_def)
qed

lemma year_of_mono: "a \<le> b \<Longrightarrow> year_of a \<le> year_of b"
  using year_of_bounds [of a] year_of_bounds [of b] year_start_mono [of "year_of b + 1" "year_of a"]
  by linarith

text \<open>Month and day inside a year that starts in March.\<close>

definition month_day :: "int \<Rightarrow> int \<times> int" where
  "month_day doy = (let mp = (5 * doy + 2) div 153 in (mp, doy - (153 * mp + 2) div 5 + 1))"

lemma month_day_mono: "a < b \<Longrightarrow> month_day a < month_day b"
proof -
  assume "a < b"
  then have "(5 * a + 2) div 153 \<le> (5 * b + 2) div 153"
    by (intro zdiv_mono1) auto
  with \<open>a < b\<close> show ?thesis by (auto simp: month_day_def Let_def less_prod_simp)
qed

lemma month_day_bounds:
  assumes "0 \<le> doy" and "doy < 366" and "month_day doy = (mp, d)"
  shows "0 \<le> mp" "mp \<le> 11" "1 \<le> d" "d \<le> 31"
proof -
  have mp: "mp = (5 * doy + 2) div 153" and d: "d = doy - (153 * mp + 2) div 5 + 1"
    using assms(3) by (auto simp: month_day_def Let_def)
  have "153 * mp \<le> 5 * doy + 2" "5 * doy + 2 < 153 * mp + 153"
    unfolding mp using int_div_bounds [of 153 "5 * doy + 2"] by linarith+
  with assms(1,2) d show "0 \<le> mp" "mp \<le> 11" "1 \<le> d" "d \<le> 31"
    using int_div_bounds [of 5 "153 * mp + 2"] by linarith+
qed

lemma civil_month_day:
  "civil n = (let y = year_of (n + 719468); (mp, d) = month_day (n + 719468 - year_start y)
              in if mp < 10 then (y, mp + 3, d) else (y + 1, mp - 9, d))"
  by (simp add: civil_def month_day_def Let_def)

lemma day_of_year:
  "0 \<le> z - year_start (year_of z)" "z - year_start (year_of z) < 366"
  using year_of_bounds [of z] year_length [of "year_of z"] by linarith+

lemma civil_bounds:
  assumes "civil n = (y, m, d)"
  shows "1 \<le> m" "m \<le> 12" "1 \<le> d" "d \<le> 31"
proof -
  obtain mp dd where md: "month_day (n + 719468 - year_start (year_of (n + 719468))) = (mp, dd)"
    by force
  note b = month_day_bounds [OF day_of_year md]
  from b assms md show "1 \<le> m" "m \<le> 12" "1 \<le> d" "d \<le> 31"
    by (auto simp: civil_month_day Let_def split: if_splits)
qed

lemma civil_mono:
  assumes "a < b"
  shows "civil a < civil b"
proof -
  let ?a = "a + 719468" and ?b = "b + 719468"
  obtain ma da mb db where
    ma: "month_day (?a - year_start (year_of ?a)) = (ma, da)" and
    mb: "month_day (?b - year_start (year_of ?b)) = (mb, db)" by force
  note bounds = month_day_bounds [OF day_of_year ma] month_day_bounds [OF day_of_year mb]
  have y: "year_of ?a \<le> year_of ?b" using assms by (intro year_of_mono) simp
  have "year_of ?a < year_of ?b \<or> year_of ?a = year_of ?b \<and> (ma, da) < (mb, db)"
  proof (cases "year_of ?a < year_of ?b")
    case False
    with y have eq: "year_of ?a = year_of ?b" by simp
    with assms have "?a - year_start (year_of ?a) < ?b - year_start (year_of ?b)" by simp
    then have "month_day (?a - year_start (year_of ?a)) < month_day (?b - year_start (year_of ?b))"
      by (rule month_day_mono)
    with eq ma mb show ?thesis by metis
  qed simp
  then show ?thesis
    using ma mb bounds by (auto simp: civil_month_day Let_def less_prod_simp)
qed

section \<open>Text order and time order\<close>

definition plain_time :: "gotime \<Rightarrow> bool" where \<comment> \<open>years 0 to 9999: four digits\<close>
  "plain_time t \<longleftrightarrow> (case civil (Unix t div 86400) of (y, _, _) \<Rightarrow> 0 \<le> y \<and> y < 10000)"

lemma nat_digits2_less:
  "0 \<le> a \<Longrightarrow> a < 100 \<Longrightarrow> 0 \<le> b \<Longrightarrow> b < 100 \<Longrightarrow> digits 2 (nat a) < digits 2 (nat b) \<longleftrightarrow> a < b"
  by (subst digits_less) auto

lemma nat_digits2_eq:
  "0 \<le> a \<Longrightarrow> a < 100 \<Longrightarrow> 0 \<le> b \<Longrightarrow> b < 100 \<Longrightarrow> digits 2 (nat a) = digits 2 (nat b) \<longleftrightarrow> a = b"
  by (subst digits_eq) auto

lemma year_string_less:
  "0 \<le> a \<Longrightarrow> a < 10000 \<Longrightarrow> 0 \<le> b \<Longrightarrow> b < 10000 \<Longrightarrow> year_string a < year_string b \<longleftrightarrow> a < b"
  unfolding year_string_def by (simp, subst digits_less) auto

lemma year_string_eq:
  "0 \<le> a \<Longrightarrow> a < 10000 \<Longrightarrow> 0 \<le> b \<Longrightarrow> b < 10000 \<Longrightarrow> year_string a = year_string b \<longleftrightarrow> a = b"
  unfolding year_string_def by (simp, subst digits_eq) auto

lemma length_year_string: "0 \<le> y \<Longrightarrow> y < 10000 \<Longrightarrow> length (year_string y) = 4"
  by (simp add: year_string_def)

lemma clock_fields:
  assumes "ra < (rb :: int)"
  shows "ra div 3600 < rb div 3600 \<or> ra div 3600 = rb div 3600 \<and>
    (ra mod 3600 div 60 < rb mod 3600 div 60 \<or>
     ra mod 3600 div 60 = rb mod 3600 div 60 \<and> ra mod 60 < rb mod 60)"
proof -
  have "x mod 3600 mod 60 = x mod 60" for x :: int by (simp add: mod_mod_cancel)
  then show ?thesis
    using assms int_less_div_mod [of 3600 ra rb]
      int_less_div_mod [of 60 "ra mod 3600" "rb mod 3600"] by auto
qed

lemma clock_ranges:
  assumes "0 \<le> r" "r < (86400 :: int)"
  shows "0 \<le> r div 3600" "r div 3600 < 100" "0 \<le> r mod 3600 div 60" "r mod 3600 div 60 < 100"
    "0 \<le> r mod 60" "r mod 60 < 100"
proof -
  have "r mod 3600 < 3600" "r mod 60 < 60" "0 \<le> r mod 3600" by simp_all
  then show "0 \<le> r div 3600" "r div 3600 < 100" "0 \<le> r mod 3600 div 60" "r mod 3600 div 60 < 100"
    "0 \<le> r mod 60" "r mod 60 < 100"
    using assms int_div_bounds [of 3600 r] int_div_bounds [of 60 "r mod 3600"]
    by (simp_all add: pos_imp_zdiv_nonneg_iff)
qed

lemma less_field:
  fixes a b x y :: string
  shows "length a = length b \<Longrightarrow> a @ c # x < b @ c # y \<longleftrightarrow> a < b \<or> a = b \<and> x < y"
  by (simp add: less_append_same_length)

lemma stamp_less:
  assumes "civil (a div 86400) = (ya, ma, da)" and "civil (b div 86400) = (yb, mb, db)"
    and "0 \<le> ya" "ya < 10000" "0 \<le> yb" "yb < 10000"
    and "ra = a mod 86400" and "rb = b mod 86400"
  shows "stamp a < stamp b \<longleftrightarrow>
     ya < yb \<or> ya = yb \<and> (ma < mb \<or> ma = mb \<and> (da < db \<or> da = db \<and>
       (ra div 3600 < rb div 3600 \<or> ra div 3600 = rb div 3600 \<and>
        (ra mod 3600 div 60 < rb mod 3600 div 60 \<or>
         ra mod 3600 div 60 = rb mod 3600 div 60 \<and> ra mod 60 < rb mod 60))))"
proof -
  have r: "0 \<le> ra" "ra < 86400" "0 \<le> rb" "rb < 86400" using assms by simp_all
  have two: "0 \<le> ma" "ma < 100" "0 \<le> mb" "mb < 100" "0 \<le> da" "da < 100" "0 \<le> db" "db < 100"
    using civil_bounds [OF assms(1)] civil_bounds [OF assms(2)] by simp_all
  have form: "stamp x = year_string y @ CHR ''-'' # digits 2 (nat m) @ CHR ''-'' # digits 2 (nat d)
      @ CHR ''T'' # digits 2 (nat (r div 3600)) @ CHR '':'' # digits 2 (nat (r mod 3600 div 60))
      @ CHR '':'' # digits 2 (nat (r mod 60))"
    if "civil (x div 86400) = (y, m, d)" "r = x mod 86400" for x y m d r
    using that by (simp add: stamp_def Let_def)
  have len: "length (year_string ya) = length (year_string yb)"
    using assms by (simp add: length_year_string)
  show ?thesis
    unfolding form [OF assms(1,7)] form [OF assms(2,8)]
    by (simp only: less_field [OF len] less_field length_digits
        year_string_less [OF assms(3-6)] year_string_eq [OF assms(3-6)]
        nat_digits2_less nat_digits2_eq two clock_ranges [OF r(1,2)] clock_ranges [OF r(3,4)])
qed

lemma stamp_mono:
  assumes "a < b"
    and "case civil (a div 86400) of (y, _, _) \<Rightarrow> 0 \<le> y \<and> y < 10000"
    and "case civil (b div 86400) of (y, _, _) \<Rightarrow> 0 \<le> y \<and> y < 10000"
  shows "stamp a < stamp b"
proof -
  obtain ya ma da yb mb db where
    ca: "civil (a div 86400) = (ya, ma, da)" and cb: "civil (b div 86400) = (yb, mb, db)"
    by (metis prod_cases3)
  have y: "0 \<le> ya" "ya < 10000" "0 \<le> yb" "yb < 10000" using assms(2,3) ca cb by auto
  note eq = stamp_less [OF ca cb y refl refl]
  show ?thesis
  proof (cases "a div 86400 < b div 86400")
    case True
    then have "(ya, ma, da) < (yb, mb, db)" using civil_mono [OF True] ca cb by simp
    then show ?thesis unfolding eq by (auto simp: less_prod_simp)
  next
    case False
    then have "a div 86400 = b div 86400" "a mod 86400 < b mod 86400"
      using int_less_div_mod [of 86400 a b] assms(1) by auto
    moreover from this(1) have "ya = yb" "ma = mb" "da = db" using ca cb by simp_all
    ultimately show ?thesis unfolding eq using clock_fields [of "a mod 86400" "b mod 86400"] by blast
  qed
qed

lemma stamp_less_iff:
  assumes "plain_time a" "plain_time b"
  shows "stamp (Unix a) < stamp (Unix b) \<longleftrightarrow> Unix a < Unix b"
    and "stamp (Unix a) = stamp (Unix b) \<longleftrightarrow> Unix a = Unix b"
  using assms stamp_mono [of "Unix a" "Unix b"] stamp_mono [of "Unix b" "Unix a"]
  unfolding plain_time_def by (metis less_asym' linorder_neqE less_irrefl)+

lemma length_stamp: "plain_time t \<Longrightarrow> length (stamp (Unix t)) = 19"
  by (auto simp: plain_time_def stamp_def Let_def length_year_string split: prod.splits)

text \<open>The text order: by seconds, and inside a second by the text of the fraction.\<close>

lemma formatTime_less:
  assumes "plain_time a" "plain_time b"
  shows "formatTime a < formatTime b \<longleftrightarrow>
    Unix a < Unix b \<or> Unix a = Unix b \<and> fraction (nanos a) @ ''Z'' < fraction (nanos b) @ ''Z''"
  unfolding formatTime_def
  using assms by (simp add: less_append_same_length length_stamp stamp_less_iff)

text \<open>A later second always sorts later; inside a second a whole second sorts last.\<close>

lemma time_text_less_seconds:
  "plain_time a \<Longrightarrow> plain_time b \<Longrightarrow> Unix a < Unix b \<Longrightarrow> time_text_less a b"
  by (simp add: time_text_less_def formatTime_less)

lemma time_text_less_imp_seconds:
  "plain_time a \<Longrightarrow> plain_time b \<Longrightarrow> time_text_less a b \<Longrightarrow> Unix a \<le> Unix b"
  by (auto simp: time_text_less_def formatTime_less)

lemma whole_second_sorts_last:
  assumes "plain_time a" "plain_time b" "Unix a = Unix b" "nanos a = 0" "nanos b \<noteq> 0"
  shows "time_text_less b a"
  using assms by (simp add: time_text_less_def formatTime_less fraction_def less_char_def)

lemma time_text_le_not_less: "time_text_le a b \<longleftrightarrow> \<not> time_text_less b a"
  by (auto simp: time_text_le_def time_text_less_def)

end
