(* ===== verification/Json.thy ===== *)
theory Json
  imports GoTime
begin

text \<open>
  The part of Go's \<^verbatim>\<open>encoding/json\<close> the store uses, on byte strings: \<open>Marshal\<close> for maps and
  structs of strings, booleans and integers (audit details, event payloads, stored command
  results), and \<open>Unmarshal\<close> for whatever text a payload column or a projection event holds.

  The encoder follows the package's rules: object keys in the order given (a struct's fields,
  or a map's keys sorted), HTML-sensitive characters escaped, text that is not UTF-8 replaced
  by U+FFFD. The decoder is a recursive-descent parser over the JSON grammar; its fuel is twice
  the length of the text plus two, more than the calls on any path through a document of that
  length: an object member or array element takes at least one byte and two calls.
\<close>

datatype json =
    JNull | JBool bool | JNum string | JStr string | JArr "json list"
  | JObj "(string \<times> json) list"

section \<open>UTF-8\<close>

definition byte :: "char \<Rightarrow> nat" where
  "byte c = of_char c"

definition cont_byte :: "nat \<Rightarrow> bool" where
  "cont_byte n \<longleftrightarrow> 128 \<le> n \<and> n \<le> 191"

text \<open>The length of the well-formed UTF-8 sequence at the head of a text, 0 if there is none.\<close>

fun utf8_size :: "string \<Rightarrow> nat" where
  "utf8_size [] = 0"
| "utf8_size (c # cs) =
     (let a = byte c in
      if a < 128 then 1
      else case cs of [] \<Rightarrow> 0 | d # ds \<Rightarrow>
        (let b = byte d in
         if 194 \<le> a \<and> a \<le> 223 then (if cont_byte b then 2 else 0)
         else case ds of [] \<Rightarrow> 0 | f # fs \<Rightarrow>
           if 224 \<le> a \<and> a \<le> 239 then
             (if cont_byte b \<and> cont_byte (byte f) \<and> (a = 224 \<longrightarrow> 160 \<le> b) \<and> (a = 237 \<longrightarrow> b \<le> 159)
              then 3 else 0)
           else case fs of [] \<Rightarrow> 0 | g # _ \<Rightarrow>
             if 240 \<le> a \<and> a \<le> 244 then
               (if cont_byte b \<and> cont_byte (byte f) \<and> cont_byte (byte g) \<and>
                   (a = 240 \<longrightarrow> 144 \<le> b) \<and> (a = 244 \<longrightarrow> b \<le> 143)
                then 4 else 0)
             else 0))"

definition utf8_replacement :: string where \<comment> \<open>U+FFFD\<close>
  "utf8_replacement = map char_of [239 :: nat, 191, 189]"

definition utf8_encode :: "nat \<Rightarrow> string" where
  "utf8_encode r =
     map char_of
      (if r < 128 then [r]
       else if r < 2048 then [192 + r div 64, 128 + r mod 64]
       else if r < 65536 then [224 + r div 4096, 128 + r div 64 mod 64, 128 + r mod 64]
       else [240 + r div 262144, 128 + r div 4096 mod 64, 128 + r div 64 mod 64, 128 + r mod 64])"

section \<open>Encoding\<close>

definition hex_digit :: "nat \<Rightarrow> char" where
  "hex_digit n = ''0123456789abcdef'' ! (n mod 16)"

definition quote_char :: char where "quote_char = CHR 0x22"
definition backslash :: char where "backslash = CHR 0x5C"

definition u_escape :: "nat \<Rightarrow> string" where
  "u_escape n = [backslash, CHR ''u'', hex_digit (n div 4096), hex_digit (n div 256),
                 hex_digit (n div 16), hex_digit n]"

definition escape_ascii :: "char \<Rightarrow> string" where
  "escape_ascii c =
     (let n = byte c in
      if n = 34 \<or> n = 92 then [backslash, c]
      else if n = 8 then [backslash, CHR ''b'']
      else if n = 12 then [backslash, CHR ''f'']
      else if n = 10 then [backslash, CHR ''n'']
      else if n = 13 then [backslash, CHR ''r'']
      else if n = 9 then [backslash, CHR ''t'']
      else if n < 32 \<or> n = 38 \<or> n = 60 \<or> n = 62 then u_escape n
      else [c])"

function escape :: "string \<Rightarrow> string" where
  "escape s =
     (case s of
        [] \<Rightarrow> []
      | c # cs \<Rightarrow>
          if byte c < 128 then escape_ascii c @ escape cs
          else (let k = utf8_size s in
                if k < 2 then u_escape 65533 @ escape cs
                else if take k s = map char_of [226 :: nat, 128, 168] then u_escape 8232 @ escape (drop k s)
                else if take k s = map char_of [226 :: nat, 128, 169] then u_escape 8233 @ escape (drop k s)
                else take k s @ escape (drop k s)))"
  by pat_completeness auto
termination
  by (relation "measure length") auto

declare escape.simps [simp del]

definition quote :: "string \<Rightarrow> string" where
  "quote s = quote_char # escape s @ [quote_char]"

fun join_comma :: "string list \<Rightarrow> string" where
  "join_comma [] = []"
| "join_comma [x] = x"
| "join_comma (x # y # xs) = x @ '','' @ join_comma (y # xs)"

fun Marshal :: "json \<Rightarrow> string" where
  "Marshal JNull = ''null''"
| "Marshal (JBool b) = (if b then ''true'' else ''false'')"
| "Marshal (JNum n) = n"
| "Marshal (JStr s) = quote s"
| "Marshal (JArr xs) = ''['' @ join_comma (map Marshal xs) @ '']''"
| "Marshal (JObj fs) = ''{'' @ join_comma (map (\<lambda>(k, v). quote k @ '':'' @ Marshal v) fs) @ ''}''"

text \<open>A signed integer as a JSON number.\<close>

definition JInt :: "int \<Rightarrow> json" where
  "JInt n = JNum (if n < 0 then ''-'' @ decimal (nat (- n)) else decimal (nat n))"

text \<open>A struct field tagged \<^verbatim>\<open>omitempty\<close>: present only when the string is not empty.\<close>

definition omitempty :: "string \<Rightarrow> string \<Rightarrow> (string \<times> json) list" where
  "omitempty k s = (if s = [] then [] else [(k, JStr s)])"

section \<open>Decoding\<close>

fun skip_ws :: "string \<Rightarrow> string" where
  "skip_ws [] = []"
| "skip_ws (c # cs) = (if byte c = 32 \<or> byte c = 9 \<or> byte c = 10 \<or> byte c = 13 then skip_ws cs else c # cs)"

definition hex_value :: "char \<Rightarrow> nat option" where
  "hex_value c =
     (let n = byte c in
      if 48 \<le> n \<and> n \<le> 57 then Some (n - 48)
      else if 97 \<le> n \<and> n \<le> 102 then Some (n - 87)
      else if 65 \<le> n \<and> n \<le> 70 then Some (n - 55)
      else None)"

fun hex4 :: "string \<Rightarrow> (nat \<times> string) option" where
  "hex4 (a # b # c # d # cs) =
     (case (hex_value a, hex_value b, hex_value c, hex_value d) of
        (Some w, Some x, Some y, Some z) \<Rightarrow> Some (w * 4096 + x * 256 + y * 16 + z, cs)
      | _ \<Rightarrow> None)"
| "hex4 _ = None"

text \<open>
  The rune a \<open>\u\<close> escape stands for and the text behind it: a high surrogate joins with a
  low surrogate escape that follows, any other surrogate is U+FFFD.
\<close>

definition u_rune :: "nat \<Rightarrow> string \<Rightarrow> nat \<times> string" where
  "u_rune r rest =
     (if 55296 \<le> r \<and> r < 57344 then
        (if r < 56320 \<and> take 2 rest = [backslash, CHR ''u''] then
           (case hex4 (drop 2 rest) of
              Some (r2, rest2) \<Rightarrow>
                if 56320 \<le> r2 \<and> r2 < 57344
                then ((r - 55296) * 1024 + (r2 - 56320) + 65536, rest2) else (65533, rest)
            | None \<Rightarrow> (65533, rest))
         else (65533, rest))
      else (r, rest))"

definition simple_escape :: "char \<Rightarrow> nat option" where
  "simple_escape c =
     (let n = byte c in
      if n = 34 \<or> n = 92 \<or> n = 47 then Some n
      else if n = 98 then Some 8 else if n = 102 then Some 12 else if n = 110 then Some 10
      else if n = 114 then Some 13 else if n = 116 then Some 9 else None)"

text \<open>The rest of a string literal after its opening quote: its value and what follows it.\<close>

fun parse_string :: "nat \<Rightarrow> string \<Rightarrow> (string \<times> string) option" where
  "parse_string 0 s = None"
| "parse_string (Suc fuel) s =
     (case s of [] \<Rightarrow> None | c # cs \<Rightarrow>
     (let n = byte c in
      if n = 34 then Some ([], cs)
      else if n < 32 then None
      else if n = 92 then
        (case cs of [] \<Rightarrow> None | e # es \<Rightarrow>
          if e = CHR ''u'' then
            (case hex4 es of None \<Rightarrow> None | Some (r, rest) \<Rightarrow>
              (let (rune, rest') = u_rune r rest in
               map_option (\<lambda>(s, t). (utf8_encode rune @ s, t)) (parse_string fuel rest')))
          else (case simple_escape e of None \<Rightarrow> None | Some m \<Rightarrow>
              map_option (\<lambda>(s, t). (char_of m # s, t)) (parse_string fuel es)))
      else if n < 128 then map_option (\<lambda>(s, t). (c # s, t)) (parse_string fuel cs)
      else (let k = utf8_size (c # cs) in
            if k < 2 then map_option (\<lambda>(s, t). (utf8_replacement @ s, t)) (parse_string fuel cs)
            else map_option (\<lambda>(s, t). (take k (c # cs) @ s, t)) (parse_string fuel (drop k (c # cs))))))"

lemmas parse_string_list [simp] =
  parse_string.simps(2) [of _ "[]", unfolded list.case]
  parse_string.simps(2) [of _ "c # cs" for c cs, unfolded list.case]

declare parse_string.simps(2) [simp del]

definition is_digit :: "char \<Rightarrow> bool" where
  "is_digit c \<longleftrightarrow> 48 \<le> byte c \<and> byte c \<le> 57"

definition take_digits :: "string \<Rightarrow> string \<times> string" where
  "take_digits s = (takeWhile is_digit s, dropWhile is_digit s)"

definition parse_number :: "string \<Rightarrow> (string \<times> string) option" where
  "parse_number s =
     (let (sign, s1) = (case s of c # cs \<Rightarrow> if c = CHR ''-'' then (''-'', cs) else ([], s) | [] \<Rightarrow> ([], s));
          (ds, s2) = take_digits s1 in
      if ds = [] \<or> (hd ds = CHR ''0'' \<and> ds \<noteq> ''0'') then None
      else
        (let (frac, s3) =
               (case s2 of c # cs \<Rightarrow>
                  if c = CHR ''.'' then (let (fs, r) = take_digits cs in (Some (c # fs), r)) else (None, s2)
                | [] \<Rightarrow> (None, s2)) in
         if frac = Some ''.'' then None
         else
           (let base = sign @ ds @ (case frac of None \<Rightarrow> [] | Some f \<Rightarrow> f) in
            case s3 of
              e # es \<Rightarrow>
                if e = CHR ''e'' \<or> e = CHR ''E'' then
                  (let (sg, s4) = (case es of c # cs \<Rightarrow>
                                     if c = CHR ''+'' \<or> c = CHR ''-'' then ([c], cs) else ([], es)
                                   | [] \<Rightarrow> ([], es));
                       (xs, s5) = take_digits s4 in
                   if xs = [] then None else Some (base @ [e] @ sg @ xs, s5))
                else Some (base, s3)
            | [] \<Rightarrow> Some (base, s3))))"

definition expect :: "string \<Rightarrow> string \<Rightarrow> string option" where
  "expect w s = (if take (length w) s = w then Some (drop (length w) s) else None)"

fun parse_value :: "nat \<Rightarrow> string \<Rightarrow> (json \<times> string) option"
and parse_elems :: "nat \<Rightarrow> string \<Rightarrow> (json list \<times> string) option"
and parse_members :: "nat \<Rightarrow> string \<Rightarrow> ((string \<times> json) list \<times> string) option" where
  "parse_value 0 s = None"
| "parse_value (Suc fuel) s =
     (case skip_ws s of
        [] \<Rightarrow> None
      | c # cs \<Rightarrow>
          if c = quote_char then map_option (\<lambda>(v, t). (JStr v, t)) (parse_string (Suc (length cs)) cs)
          else if c = CHR ''{'' then
            (case skip_ws cs of
               [] \<Rightarrow> None
             | d # ds \<Rightarrow> if d = CHR ''}'' then Some (JObj [], ds)
                 else map_option (\<lambda>(fs, t). (JObj fs, t)) (parse_members fuel (d # ds)))
          else if c = CHR ''['' then
            (case skip_ws cs of
               [] \<Rightarrow> None
             | d # ds \<Rightarrow> if d = CHR '']'' then Some (JArr [], ds)
                 else map_option (\<lambda>(xs, t). (JArr xs, t)) (parse_elems fuel (d # ds)))
          else if c = CHR ''n'' then map_option (\<lambda>t. (JNull, t)) (expect ''null'' (c # cs))
          else if c = CHR ''t'' then map_option (\<lambda>t. (JBool True, t)) (expect ''true'' (c # cs))
          else if c = CHR ''f'' then map_option (\<lambda>t. (JBool False, t)) (expect ''false'' (c # cs))
          else map_option (\<lambda>(n, t). (JNum n, t)) (parse_number (c # cs)))"
| "parse_elems 0 s = None"
| "parse_elems (Suc fuel) s =
     (case parse_value fuel s of None \<Rightarrow> None | Some (v, t) \<Rightarrow>
        (case skip_ws t of
           [] \<Rightarrow> None
         | c # cs \<Rightarrow>
             if c = CHR '']'' then Some ([v], cs)
             else if c = CHR '','' then map_option (\<lambda>(vs, u). (v # vs, u)) (parse_elems fuel cs)
             else None))"
| "parse_members 0 s = None"
| "parse_members (Suc fuel) s =
     (case skip_ws s of
        [] \<Rightarrow> None
      | q # qs \<Rightarrow>
          if q \<noteq> quote_char then None
          else (case parse_string (Suc (length qs)) qs of None \<Rightarrow> None | Some (k, t) \<Rightarrow>
            (case skip_ws t of
               [] \<Rightarrow> None
             | c # cs \<Rightarrow>
                 if c \<noteq> CHR '':'' then None
                 else (case parse_value fuel cs of None \<Rightarrow> None | Some (v, u) \<Rightarrow>
                   (case skip_ws u of
                      [] \<Rightarrow> None
                    | d # ds \<Rightarrow>
                        if d = CHR ''}'' then Some ([(k, v)], ds)
                        else if d = CHR '','' then
                          map_option (\<lambda>(fs, w). ((k, v) # fs, w)) (parse_members fuel ds)
                        else None)))))"

text \<open>\<^verbatim>\<open>json.Unmarshal\<close> into a generic document: the whole text must be one value.\<close>

definition Unmarshal :: "string \<Rightarrow> json option" where
  "Unmarshal s =
     (case parse_value (2 * length s + 2) s of
        Some (v, t) \<Rightarrow> if skip_ws t = [] then Some v else None
      | None \<Rightarrow> None)"

definition json_Valid :: "string \<Rightarrow> bool" where
  "json_Valid s \<longleftrightarrow> Unmarshal s \<noteq> None"

text \<open>Decoding into a \<^verbatim>\<open>map[string]json.RawMessage\<close>: a repeated key keeps its last value.\<close>

definition obj_get :: "(string \<times> json) list \<Rightarrow> string \<Rightarrow> json option" where
  "obj_get fs k = map_of (rev fs) k"

definition obj_size :: "(string \<times> json) list \<Rightarrow> nat" where
  "obj_size fs = length (remdups (map fst fs))"


section \<open>Decoding what was encoded\<close>

lemma byte_inverse [simp]: "char_of (byte c) = c"
  by (simp add: byte_def)

lemma byte_lt: "byte c < 256"
  by (simp add: byte_def)

lemma byte_char_of [simp]: "n < 256 \<Longrightarrow> byte (char_of n) = n"
  by (simp add: byte_def)

lemma hex_value_digit: "d < 16 \<Longrightarrow> hex_value (hex_digit d) = Some d"
proof -
  assume "d < 16"
  then have "d \<in> set [0..<16]" by simp
  moreover have "list_all (\<lambda>d. hex_value (hex_digit d) = Some d) [0..<16]" by code_simp
  ultimately show ?thesis by (simp only: list_all_iff)
qed

lemma hex_digit_mod: "hex_digit n = hex_digit (n mod 16)"
  by (simp add: hex_digit_def)

lemma hex4_u_escape: "n < 65536 \<Longrightarrow> hex4 (drop 2 (u_escape n) @ cs) = Some (n, cs)"
proof -
  assume n: "n < 65536"
  have v: "hex_value (hex_digit m) = Some (m mod 16)" for m
    by (subst hex_digit_mod) (simp add: hex_value_digit)
  have top: "n div 4096 mod 16 = n div 4096" using n by simp
  have "n div 256 div 16 = n div 4096" "n div 16 div 16 = n div 256" by (simp_all flip: div_mult2_eq)
  then have "n div 256 = 16 * (n div 4096) + n div 256 mod 16"
    "n div 16 = 16 * (n div 256) + n div 16 mod 16"
    using mult_div_mod_eq [of 16 "n div 256"] mult_div_mod_eq [of 16 "n div 16"] by simp_all
  moreover have "n = 16 * (n div 16) + n mod 16" by simp
  ultimately have "n div 4096 * 4096 + n div 256 mod 16 * 256 + n div 16 mod 16 * 16 + n mod 16 = n"
    by linarith
  with top show ?thesis by (simp add: u_escape_def v)
qed

lemma quote_char_byte [simp]: "byte quote_char = 34" and backslash_byte [simp]: "byte backslash = 92"
  by (simp_all add: quote_char_def backslash_def byte_def)

lemma byte_punct [simp]:
  "byte (CHR '':'') = 58" "byte (CHR '','') = 44" "byte (CHR ''}'') = 125" "byte (CHR ''{'') = 123"
  "byte (CHR ''t'') = 116" "byte (CHR ''f'') = 102"
  by (simp_all add: byte_def)

lemma quote_char_neq [simp]:
  "CHR ''t'' \<noteq> quote_char" "CHR ''f'' \<noteq> quote_char" "CHR ''{'' \<noteq> quote_char" "quote_char \<noteq> CHR ''}''"
  by (simp_all add: quote_char_def)

lemma escape_ascii_cases:
  obtains (lit) "escape_ascii c = [c]" "byte c \<noteq> 34" "byte c \<noteq> 92" "32 \<le> byte c"
    | (esc) e where "escape_ascii c = [backslash, e]" "e \<noteq> CHR ''u''" "simple_escape e = Some (byte c)"
    | (hex) "escape_ascii c = u_escape (byte c)"
proof (cases "byte c = 34 \<or> byte c = 92")
  case True
  then have "simple_escape c = Some (byte c)" "c \<noteq> CHR ''u''"
    by (auto simp: simple_escape_def byte_def)
  with True show thesis by (intro esc [of c]) (auto simp: escape_ascii_def)
next
  case False
  consider "byte c = 8" | "byte c = 12" | "byte c = 10" | "byte c = 13" | "byte c = 9"
    | "byte c \<notin> {8, 12, 10, 13, 9}" by blast
  then show thesis
  proof cases
    case 1 then show thesis by (intro esc [of "CHR ''b''"]) (auto simp: escape_ascii_def simple_escape_def byte_def)
  next
    case 2 then show thesis by (intro esc [of "CHR ''f''"]) (auto simp: escape_ascii_def simple_escape_def byte_def)
  next
    case 3 then show thesis by (intro esc [of "CHR ''n''"]) (auto simp: escape_ascii_def simple_escape_def byte_def)
  next
    case 4 then show thesis by (intro esc [of "CHR ''r''"]) (auto simp: escape_ascii_def simple_escape_def byte_def)
  next
    case 5 then show thesis by (intro esc [of "CHR ''t''"]) (auto simp: escape_ascii_def simple_escape_def byte_def)
  next
    case 6
    with False have "escape_ascii c =
        (if byte c < 32 \<or> byte c = 38 \<or> byte c = 60 \<or> byte c = 62 then u_escape (byte c) else [c])"
      by (simp add: escape_ascii_def)
    with False show thesis using lit hex by (metis linorder_not_less)
  qed
qed

lemma parse_string_ascii:
  assumes "byte c < 128"
  shows "parse_string (Suc fuel) (escape_ascii c @ t) = map_option (\<lambda>(s, u). (c # s, u)) (parse_string fuel t)"
proof (cases c rule: escape_ascii_cases)
  case lit
  with assms show ?thesis by (simp add: Let_def)
next
  case (esc e)
  then show ?thesis by (simp add: Let_def)
next
  case hex
  have "hex4 (drop 2 (u_escape (byte c)) @ t) = Some (byte c, t)"
    using assms by (intro hex4_u_escape) simp
  moreover have "u_rune (byte c) t = (byte c, t)" "utf8_encode (byte c) = [c]"
    using assms by (simp_all add: u_rune_def utf8_encode_def)
  moreover have "escape_ascii c @ t = backslash # CHR ''u'' # (drop 2 (u_escape (byte c)) @ t)"
    using hex by (simp add: u_escape_def)
  ultimately show ?thesis by (simp add: Let_def del: hex4.simps)
qed

lemma escape_Cons_ascii: "byte c < 128 \<Longrightarrow> escape (c # cs) = escape_ascii c @ escape cs"
  by (subst escape.simps) simp

lemma parse_string_escape:
  "is_ascii s \<Longrightarrow> length s < fuel \<Longrightarrow>
   parse_string fuel (escape s @ quote_char # rest) = Some (s, rest)"
proof (induction s arbitrary: fuel)
  case Nil
  then obtain f where "fuel = Suc f" by (cases fuel) auto
  then show ?case by (simp add: escape.simps [of "[]"])
next
  case (Cons c cs)
  then obtain f where f: "fuel = Suc f" "length cs < f" by (cases fuel) auto
  from Cons.prems have c: "byte c < 128" "is_ascii cs" by (simp_all add: is_ascii_def byte_def)
  with Cons.IH f have "parse_string f (escape cs @ quote_char # rest) = Some (cs, rest)" by simp
  with c f show ?case by (simp add: escape_Cons_ascii parse_string_ascii)
qed

lemma length_escape_ascii: "is_ascii s \<Longrightarrow> length s \<le> length (escape s)"
proof (induction s)
  case Nil
  then show ?case by simp
next
  case (Cons c cs)
  have "1 \<le> length (escape_ascii c)"
    by (cases c rule: escape_ascii_cases) (auto simp: u_escape_def)
  moreover from Cons.prems have "byte c < 128" "is_ascii cs" by (simp_all add: is_ascii_def byte_def)
  ultimately show ?case using Cons.IH by (simp add: escape_Cons_ascii)
qed

lemma parse_string_quoted:
  assumes "is_ascii s"
  shows "parse_string (Suc (length (escape s @ quote_char # rest))) (escape s @ quote_char # rest)
    = Some (s, rest)"
  using assms length_escape_ascii [OF assms] by (intro parse_string_escape) auto

subsection \<open>Integers\<close>

lemma is_digit_char: "d < 10 \<Longrightarrow> is_digit (char_of (48 + d :: nat))"
  by (simp add: is_digit_def)

lemma digit_0: "char_of (48 :: nat) = CHR ''0''"
  by code_simp

lemma decimal_digits: "list_all is_digit (decimal n)"
proof (induction n rule: decimal.induct)
  case (1 n)
  then show ?case by (subst decimal.simps) (auto simp: is_digit_char simp del: char_of_def)
qed

lemma decimal_not_Nil [simp]: "decimal n \<noteq> []"
  by (subst decimal.simps) simp

lemma decimal_head: "0 < n \<Longrightarrow> hd (decimal n) \<noteq> CHR ''0''"
proof (induction n rule: decimal.induct)
  case (1 n)
  show ?case
  proof (cases "n < 10")
    case True
    have "(char_of (48 + n) = CHR ''0'') \<longleftrightarrow> n = 0"
      using digit_eq [of n 0] True digit_0 by simp
    with True "1.prems" show ?thesis by (subst decimal.simps) simp
  next
    case False
    with "1.IH" have "hd (decimal (n div 10)) \<noteq> CHR ''0''" by simp
    with False show ?thesis by (subst decimal.simps) simp
  qed
qed

lemma decimal_0: "decimal 0 = ''0''"
  by (subst decimal.simps) (simp add: digit_0)

definition ends_scalar :: "string \<Rightarrow> bool" where \<comment> \<open>a comma or a closing bracket follows\<close>
  "ends_scalar t \<longleftrightarrow> (\<exists>u. t = CHR '','' # u \<or> t = CHR ''}'' # u)"

lemma take_digits_decimal:
  "ends_scalar t \<Longrightarrow> take_digits (decimal n @ t) = (decimal n, t)"
  using decimal_digits [of n]
  by (auto simp: take_digits_def ends_scalar_def list_all_iff is_digit_def byte_def
      takeWhile_append dropWhile_append3)

lemma parse_number_JInt:
  assumes "ends_scalar t"
  shows "\<exists>c cs. Marshal (JInt n) = c # cs \<and> (is_digit c \<or> c = CHR ''-'')"
    and "parse_number (Marshal (JInt n) @ t) = Some (Marshal (JInt n), t)"
proof -
  have d: "\<exists>c cs. decimal m = c # cs \<and> is_digit c" for m
    using decimal_digits [of m] by (cases "decimal m") auto
  show "\<exists>c cs. Marshal (JInt n) = c # cs \<and> (is_digit c \<or> c = CHR ''-'')"
    using d [of "nat n"] by (auto simp: JInt_def)
  have ok: "\<not> (hd (decimal m) = CHR ''0'' \<and> decimal m \<noteq> ''0'')" for m
    by (cases "m = 0") (auto simp: decimal_0 dest: decimal_head)
  have rest: "\<exists>c u. t = c # u \<and> c \<noteq> CHR ''.'' \<and> c \<noteq> CHR ''e'' \<and> c \<noteq> CHR ''E''"
    using assms by (auto simp: ends_scalar_def)
  show "parse_number (Marshal (JInt n) @ t) = Some (Marshal (JInt n), t)"
  proof (cases "n < 0")
    case True
    with ok [of "nat (- n)"] rest show ?thesis
      by (auto simp: parse_number_def JInt_def take_digits_decimal [OF assms] Let_def)
  next
    case False
    obtain c cs where c: "decimal (nat n) = c # cs" "is_digit c" using d by blast
    then have "c \<noteq> CHR ''-''" by (auto simp: is_digit_def byte_def)
    with False ok [of "nat n"] rest c take_digits_decimal [OF assms, of "nat n"] show ?thesis
      by (auto simp: parse_number_def JInt_def Let_def)
  qed
qed

subsection \<open>Flat objects\<close>

text \<open>The documents the store encodes: one object of strings, booleans and integers.\<close>

definition plain_scalar :: "json \<Rightarrow> bool" where
  "plain_scalar v \<longleftrightarrow> (\<exists>b. v = JBool b) \<or> (\<exists>s. v = JStr s \<and> is_ascii s) \<or> (\<exists>n. v = JInt n)"

definition plain_fields :: "(string \<times> json) list \<Rightarrow> bool" where
  "plain_fields fs \<longleftrightarrow> (\<forall>(k, v) \<in> set fs. is_ascii k \<and> plain_scalar v)"

lemma skip_ws_quote [simp]: "skip_ws (quote_char # cs) = quote_char # cs"
  by simp

lemma parse_value_scalar:
  assumes "plain_scalar v" "ends_scalar t"
  shows "parse_value (Suc fuel) (Marshal v @ t) = Some (v, t)"
  using assms(1) unfolding plain_scalar_def
proof (elim disjE exE conjE)
  fix b assume "v = JBool b"
  then show ?thesis by (cases b) (simp_all add: expect_def)
next
  fix s assume "v = JStr s" "is_ascii s"
  then show ?thesis
    using parse_string_quoted [of s t] by (simp add: quote_def)
next
  fix n assume v: "v = JInt n"
  obtain c cs where c: "Marshal (JInt n) = c # cs" "is_digit c \<or> c = CHR ''-''"
    using parse_number_JInt(1) [OF assms(2)] by blast
  then have "byte c \<notin> {32, 9, 10, 13, 34}" "c \<noteq> quote_char" "c \<notin> set ''{[ntf''"
    by (auto simp: is_digit_def byte_def quote_char_def)
  with v c parse_number_JInt(2) [OF assms(2), of n] show ?thesis
    by (auto simp: JInt_def)
qed

lemma parse_members_fields:
  "fs \<noteq> [] \<Longrightarrow> plain_fields fs \<Longrightarrow> length fs < fuel \<Longrightarrow>
   parse_members fuel (join_comma (map (\<lambda>(k, v). quote k @ '':'' @ Marshal v) fs) @ CHR ''}'' # t)
     = Some (fs, t)"
proof (induction fs arbitrary: fuel)
  case Nil
  then show ?case by simp
next
  case (Cons f fs)
  obtain k v where f: "f = (k, v)" by force
  with Cons.prems have k: "is_ascii k" "plain_scalar v" "plain_fields fs"
    by (auto simp: plain_fields_def)
  obtain n where n: "fuel = Suc (Suc n)" "length fs < Suc n"
    using Cons.prems(3) by (cases fuel; cases "fuel - 1") auto
  note IH = Cons.IH [OF _ k(3), of "Suc n"]
  have head: "parse_value (Suc n) (Marshal v @ u) = Some (v, u)" if "ends_scalar u" for u
    using k(2) that by (rule parse_value_scalar)
  show ?case
  proof (cases fs)
    case Nil
    have "ends_scalar (CHR ''}'' # t)" by (simp add: ends_scalar_def)
    with head parse_string_quoted [OF k(1), of "CHR '':'' # Marshal v @ CHR ''}'' # t"] Nil f n(1)
    show ?thesis by (simp add: quote_def del: parse_value.simps)
  next
    case (Cons g gs)
    let ?rest = "join_comma (map (\<lambda>(k, v). quote k @ '':'' @ Marshal v) fs) @ CHR ''}'' # t"
    have rest: "parse_members (Suc n) ?rest = Some (fs, t)"
      using n Cons by (intro IH) simp_all
    have "join_comma (map (\<lambda>(k, v). quote k @ '':'' @ Marshal v) (f # fs)) @ CHR ''}'' # t =
      quote_char # escape k @ quote_char # CHR '':'' # Marshal v @ CHR '','' # ?rest"
      using Cons f by (cases g) (simp add: quote_def)
    moreover have "ends_scalar (CHR '','' # ?rest)" by (simp add: ends_scalar_def)
    ultimately show ?thesis
      using head parse_string_quoted [OF k(1), of "CHR '':'' # Marshal v @ CHR '','' # ?rest"] rest n(1) f
      by (simp del: parse_value.simps parse_members.simps add: parse_members.simps(2) [of "Suc n"])
  qed
qed


lemma join_comma_length: "sum_list (map length xs) \<le> length (join_comma xs)"
  by (induction xs rule: join_comma.induct) auto

lemma fields_length:
  "length fs \<le> length (join_comma (map (\<lambda>(k, v). quote k @ '':'' @ Marshal v) fs))"
proof -
  have "length fs \<le> sum_list (map length (map (\<lambda>(k, v). quote k @ '':'' @ Marshal v) fs))"
    by (induction fs) (auto simp: quote_def)
  then show ?thesis using join_comma_length le_trans by blast
qed

text \<open>What the store writes with \<^verbatim>\<open>json.Marshal\<close> it reads back with \<^verbatim>\<open>json.Unmarshal\<close>.\<close>

lemma Unmarshal_Marshal:
  assumes "plain_fields fs"
  shows "Unmarshal (Marshal (JObj fs)) = Some (JObj fs)"
proof (cases "fs = []")
  case True
  then show ?thesis by (simp add: Unmarshal_def numeral_eq_Suc)
next
  case False
  let ?body = "join_comma (map (\<lambda>(k, v). quote k @ '':'' @ Marshal v) fs) @ CHR ''}'' # []"
  obtain cs where first: "?body = quote_char # cs"
  proof -
    obtain k v gs where "fs = (k, v) # gs" using False by (metis list.exhaust surj_pair)
    then show ?thesis using that by (cases gs) (auto simp: quote_def)
  qed
  define n where "n = 2 * length (Marshal (JObj fs)) + 1"
  have "parse_members n ?body = Some (fs, [])"
    using fields_length [of fs] by (intro parse_members_fields [OF False assms]) (simp add: n_def)
  then have "parse_value (Suc n) (CHR ''{'' # ?body) = Some (JObj fs, [])"
    unfolding first by (simp del: parse_members.simps)
  moreover have "2 * length (Marshal (JObj fs)) + 2 = Suc n" by (simp add: n_def)
  moreover have "Marshal (JObj fs) = CHR ''{'' # ?body" by simp
  ultimately show ?thesis unfolding Unmarshal_def by (simp only:) simp
qed

end
