(* ===== verification/Event.thy ===== *)
theory Event
  imports Json
begin

text \<open>
  Platform events (\<^verbatim>\<open>internal/events/event.go\<close>): the catalogue of event types with the fs
  each payload must have, the constructor and the validator.
\<close>

section \<open>The catalogue\<close>

datatype fieldType = fieldString | fieldBool

record Event =
  EventID :: string
  EventType :: string
  AggregateType :: string
  AggregateID :: string
  Sequence :: int
  SchemaVersion :: int
  OccurredAt :: gotime
  Payload :: string

abbreviation "AggregateUser \<equiv> ''User''"
abbreviation "AggregateOrganisation \<equiv> ''Organisation''"
abbreviation "AggregateWorkspace \<equiv> ''Workspace''"
abbreviation "AggregateProduct \<equiv> ''Product''"
abbreviation "AggregateAccess \<equiv> ''Access''"

abbreviation "EventUserCreated \<equiv> ''platform.user.created''"
abbreviation "EventUserStatusChanged \<equiv> ''platform.user.status_changed''"
abbreviation "EventOrganisationCreated \<equiv> ''platform.organisation.created''"
abbreviation "EventOrganisationMembershipAdded \<equiv> ''platform.organisation.membership_added''"
abbreviation "EventOrganisationRoleChanged \<equiv> ''platform.organisation.membership_role_changed''"
abbreviation "EventOrganisationMembershipRemoved \<equiv> ''platform.organisation.membership_deactivated''"
abbreviation "EventOrganisationArchived \<equiv> ''platform.organisation.archived''"
abbreviation "EventOrganisationRenamed \<equiv> ''platform.organisation.renamed''"
abbreviation "EventWorkspaceCreated \<equiv> ''platform.workspace.created''"
abbreviation "EventWorkspaceMembershipAdded \<equiv> ''platform.workspace.membership_added''"
abbreviation "EventWorkspaceRoleChanged \<equiv> ''platform.workspace.membership_role_changed''"
abbreviation "EventWorkspaceMembershipRemoved \<equiv> ''platform.workspace.membership_deactivated''"
abbreviation "EventWorkspaceArchived \<equiv> ''platform.workspace.archived''"
abbreviation "EventProductRetired \<equiv> ''platform.product.retired''"
abbreviation "EventProductCreated \<equiv> ''platform.product.created''"
abbreviation "EventEntitlementGranted \<equiv> ''platform.access.entitlement_granted''"
abbreviation "EventEntitlementRevoked \<equiv> ''platform.access.entitlement_revoked''"
abbreviation "EventAssignmentGranted \<equiv> ''platform.access.assignment_granted''"
abbreviation "EventAssignmentRevoked \<equiv> ''platform.access.assignment_revoked''"

definition strings :: "string list \<Rightarrow> (string \<times> fieldType) list" where
  "strings = map (\<lambda>k. (k, fieldString))"

definition active_field :: "(string \<times> fieldType) list" where
  "active_field = [(''active'', fieldBool)]"

definition specs :: "(string \<times> string \<times> (string \<times> fieldType) list) list" where
  "specs =
    [(EventUserCreated, AggregateUser, strings [''user_id''] @ active_field),
     (EventUserStatusChanged, AggregateUser, strings [''user_id''] @ active_field),
     (EventOrganisationCreated, AggregateOrganisation, strings [''organisation_id'']),
     (EventOrganisationMembershipAdded, AggregateOrganisation,
        strings [''organisation_id'', ''membership_id'', ''user_id'', ''role''] @ active_field),
     (EventOrganisationRoleChanged, AggregateOrganisation,
        strings [''organisation_id'', ''membership_id'', ''user_id'', ''role''] @ active_field),
     (EventOrganisationMembershipRemoved, AggregateOrganisation,
        strings [''organisation_id'', ''membership_id'', ''user_id'', ''role''] @ active_field),
     (EventOrganisationArchived, AggregateOrganisation, strings [''organisation_id''] @ active_field),
     (EventOrganisationRenamed, AggregateOrganisation, strings [''organisation_id'', ''name'']),
     (EventWorkspaceCreated, AggregateWorkspace,
        strings [''workspace_id'', ''organisation_id''] @ active_field),
     (EventWorkspaceMembershipAdded, AggregateWorkspace,
        strings [''workspace_id'', ''membership_id'', ''user_id'', ''role''] @ active_field),
     (EventWorkspaceRoleChanged, AggregateWorkspace,
        strings [''workspace_id'', ''membership_id'', ''user_id'', ''role''] @ active_field),
     (EventWorkspaceMembershipRemoved, AggregateWorkspace,
        strings [''workspace_id'', ''membership_id'', ''user_id'', ''role''] @ active_field),
     (EventWorkspaceArchived, AggregateWorkspace, strings [''workspace_id''] @ active_field),
     (EventProductRetired, AggregateProduct, strings [''product_key'', ''status'']),
     (EventProductCreated, AggregateProduct, strings [''product_key'', ''status'']),
     (EventEntitlementGranted, AggregateAccess,
        strings [''entitlement_id'', ''organisation_id'', ''product_key'', ''status'']),
     (EventEntitlementRevoked, AggregateAccess,
        strings [''entitlement_id'', ''organisation_id'', ''product_key'', ''status'']),
     (EventAssignmentGranted, AggregateAccess,
        strings [''assignment_id'', ''organisation_id'', ''user_id'', ''product_key'', ''status'']),
     (EventAssignmentRevoked, AggregateAccess,
        strings [''assignment_id'', ''organisation_id'', ''user_id'', ''product_key'', ''status''])]"

definition SchemaVersion1 :: int where "SchemaVersion1 = 1" \<comment> \<open>the constant \<^verbatim>\<open>SchemaVersion\<close>\<close>
definition MaxPayloadBytes :: nat where "MaxPayloadBytes = 4096"
definition MaxEventIDLength :: nat where "MaxEventIDLength = 100"

section \<open>Validation\<close>

definition validPayloadString :: "string \<Rightarrow> string \<Rightarrow> bool" where
  "validPayloadString name value0 =
     (let value = TrimSpace value0 in
      if value = [] then False
      else if name = ''user_id'' then valid_id ''usr_'' value
      else if name = ''organisation_id'' then valid_id ''org_'' value
      else if name = ''workspace_id'' then valid_id ''wsp_'' value
      else if name = ''membership_id'' then valid_id ''omem_'' value \<or> valid_id ''wmem_'' value
      else if name = ''entitlement_id'' then valid_id ''ent_'' value
      else if name = ''assignment_id'' then valid_id ''upa_'' value
      else if name = ''product_key'' then valid_id ''product.'' value
      else if name = ''role'' then
        value = ''owner'' \<or> value = ''admin'' \<or> value = ''member'' \<or> value = ''viewer''
      else if name = ''status'' then
        value = ''active'' \<or> value = ''archived'' \<or> value = ''retired'' \<or> value = ''revoked''
      else if name = ''name'' then length value \<le> 200
      else False)"

definition validAggregateID :: "string \<Rightarrow> string \<Rightarrow> bool" where
  "validAggregateID aggregate_type value0 =
     (let value = TrimSpace value0 in
      if aggregate_type = AggregateUser then valid_id ''usr_'' value
      else if aggregate_type = AggregateOrganisation then valid_id ''org_'' value
      else if aggregate_type = AggregateWorkspace then valid_id ''wsp_'' value
      else if aggregate_type = AggregateProduct then valid_id ''product.'' value
      else if aggregate_type = AggregateAccess then valid_id ''ent_'' value \<or> valid_id ''upa_'' value
      else False)"

text \<open>One field of the payload against its kind; a missing or null field is refused.\<close>

definition valid_field :: "(string \<times> json) list \<Rightarrow> string \<times> fieldType \<Rightarrow> bool" where
  "valid_field values = (\<lambda>(name, kind).
     case obj_get values name of
       Some (JStr s) \<Rightarrow> kind = fieldString \<and> validPayloadString name s
     | Some (JBool _) \<Rightarrow> kind = fieldBool
     | _ \<Rightarrow> False)"

definition valid_payload :: "(string \<times> fieldType) list \<Rightarrow> string \<Rightarrow> bool" where
  "valid_payload fs payload =
     (case Unmarshal payload of
        Some (JObj values) \<Rightarrow>
          obj_size values = length fs \<and> list_all (valid_field values) fs \<and>
          list_all (\<lambda>(name, _). name \<in> fst ` set fs) values
      | _ \<Rightarrow> False)"

definition validate :: "bool \<Rightarrow> 'e Event_scheme \<Rightarrow> unit result" where
  "validate requireSequence e =
     (case map_of specs (EventType e) of
        None \<Rightarrow> Inl (Events ErrUnknownEventType)
      | Some (aggregate_type, fs) \<Rightarrow>
          if AggregateType e \<noteq> aggregate_type then Inl (Events ErrUnknownEventType)
          else if \<not> valid_id ''evt_'' (EventID e) \<or> MaxEventIDLength < length (EventID e)
          then Inl (Events ErrInvalidEvent)
          else if \<not> validAggregateID (AggregateType e) (AggregateID e)
          then Inl (Events ErrInvalidAggregateID)
          else if SchemaVersion e \<noteq> SchemaVersion1 \<or> IsZero (OccurredAt e)
          then Inl (Events ErrInvalidEvent)
          else if requireSequence \<and> Sequence e \<le> 0 then Inl (Events ErrInvalidEventSequence)
          else if Payload e = [] \<or> MaxPayloadBytes < length (Payload e)
          then Inl (Events ErrInvalidEventPayload)
          else if \<not> valid_payload fs (Payload e) then Inl (Events ErrInvalidEventPayload)
          else Inr ())"

definition Event_Validate :: "'e Event_scheme \<Rightarrow> unit result" where
  "Event_Validate e = validate True e"

section \<open>Construction\<close>

definition NewEventID :: "(nat \<Rightarrow> char) option \<Rightarrow> string result" where
  "NewEventID src = random_id ''evt_'' src"

text \<open>\<^verbatim>\<open>json.Marshal\<close> of a \<^verbatim>\<open>map[string]any\<close> writes the keys in order.\<close>

definition Marshal_map :: "(string \<times> json) list \<Rightarrow> string" where
  "Marshal_map payload = Marshal (JObj (sort_key fst payload))"

definition New :: "string \<Rightarrow> string \<Rightarrow> gotime \<Rightarrow> (string \<times> json) list \<Rightarrow> (nat \<Rightarrow> char) option \<Rightarrow> Event result" where
  "New eventType aggregateID occurredAt payload src =
     (case map_of specs eventType of
        None \<Rightarrow> Inl (Events ErrUnknownEventType)
      | Some (aggregate_type, fs) \<Rightarrow>
          if IsZero occurredAt then Inl (Events ErrInvalidEvent)
          else attempt (NewEventID src) (\<lambda>eventID.
            let event = \<lparr>EventID = eventID, EventType = eventType, AggregateType = aggregate_type,
                         AggregateID = TrimSpace aggregateID, Sequence = 0,
                         SchemaVersion = SchemaVersion1, OccurredAt = occurredAt,
                         Payload = Marshal_map payload\<rparr>
            in attempt (validate False event) (\<lambda>_. Inr event)))"

definition WithSequence :: "int \<Rightarrow> Event \<Rightarrow> Event result" where
  "WithSequence n e0 =
     (let e = e0\<lparr>Sequence := n\<rparr> in attempt (validate True e) (\<lambda>_. Inr e))"

section \<open>What construction gives\<close>

lemma validate_sequence:
  "validate False e = Inr () \<Longrightarrow> 0 < n \<Longrightarrow> validate True (e\<lparr>Sequence := n\<rparr>) = Inr ()"
  by (auto simp: validate_def split: option.splits if_splits)

lemma validate_Sequence_update:
  "validate True (e\<lparr>Sequence := n\<rparr>) = Inr () \<Longrightarrow> 0 < n"
  by (auto simp: validate_def split: option.splits if_splits)

lemma New_Inr:
  "New t i at p src = Inr e \<Longrightarrow>
     validate False e = Inr () \<and> EventType e = t \<and> AggregateID e = TrimSpace i \<and> OccurredAt e = at \<and>
     Payload e = Marshal_map p \<and> NewEventID src = Inr (EventID e) \<and>
     (\<exists>fs. map_of specs t = Some (AggregateType e, fs))"
  by (auto simp: New_def tx_simps Let_def split: option.splits if_splits)

lemma WithSequence_New:
  assumes "New t i at p src = Inr e" and "0 < n"
  shows "WithSequence n e = Inr (e\<lparr>Sequence := n\<rparr>)"
  using New_Inr [OF assms(1)] validate_sequence [OF _ assms(2), of e] by (simp add: WithSequence_def)

end
