(* ===== verification/Schema.thy ===== *)
theory Schema
  imports Event
begin

text \<open>
  The SQLite database (\<^verbatim>\<open>internal/db/sqlite/store.go\<close>, migrations 1 to 14): one record per
  table row, one record for the database, and one function per SQL statement that writes.

  \<^item> A table is the list of its rows in the order of their row numbers. Time columns hold the
    instant whose \<^const>\<open>formatTime\<close> text the column stores; comparisons made by SQL go
    through that text (\<^const>\<open>time_text_less\<close>).
  \<^item> An \<^verbatim>\<open>INSERT\<close> fails with \<^const>\<open>ErrConstraint\<close> where the schema declares a UNIQUE
    column or (partial) UNIQUE index, a CHECK or a foreign key that the row would break
    (\<^verbatim>\<open>PRAGMA foreign_keys = ON\<close>).
\<close>

section \<open>Rows\<close>

record user_row =
  u_id :: int
  u_public_id :: string
  u_email :: string
  u_display_name :: string
  u_password_hash :: string
  u_active :: bool
  u_created_at :: gotime
  u_last_login_at :: "gotime option"
  u_mfa_enabled :: bool
  u_mfa_secret :: "string option"
  u_mfa_last_step :: int

record session_row =
  s_id :: int
  s_user_id :: int
  s_token_hash :: string
  s_csrf_token_hash :: string
  s_created_at :: gotime
  s_expires_at :: gotime
  s_revoked_at :: "gotime option"

record security_event_row =
  se_id :: int
  se_user_id :: "int option"
  se_event :: string
  se_details :: string
  se_occurred_at :: gotime

record enrollment_row =
  e_id :: int
  e_user_id :: int
  e_token_hash :: string
  e_secret :: string
  e_expires_at :: gotime
  e_attempts :: int
  e_created_at :: gotime
  e_used_at :: "gotime option"

record recovery_row =
  rc_id :: int
  rc_user_id :: int
  rc_code_hash :: string
  rc_created_at :: gotime
  rc_used_at :: "gotime option"

record org_row =
  o_id :: int
  o_public_id :: string
  o_name :: string
  o_status :: string
  o_created_at :: gotime
  o_archived_at :: "gotime option"

record om_row =
  om_id :: int
  om_public_id :: string
  om_organisation_id :: int
  om_user_id :: int
  om_role :: string
  om_active :: bool
  om_assigned_by :: int
  om_assigned_at :: gotime
  om_removed_by :: "int option"
  om_removed_at :: "gotime option"
  om_removal_reason :: string
  om_version :: int

record audit_row =
  a_id :: int
  a_actor_user_id :: "int option"
  a_actor_public_id :: string
  a_aggregate_type :: string
  a_aggregate_id :: string
  a_event :: string
  a_details :: string
  a_occurred_at :: gotime

record sra_row =
  sra_user_id :: int
  sra_role :: string
  sra_active :: bool

record ws_row =
  w_id :: int
  w_public_id :: string
  w_organisation_id :: int
  w_name :: string
  w_status :: string
  w_created_at :: gotime
  w_archived_at :: "gotime option"

record wm_row =
  wm_id :: int
  wm_public_id :: string
  wm_workspace_id :: int
  wm_user_id :: int
  wm_role :: string
  wm_active :: bool
  wm_assigned_by :: int
  wm_assigned_at :: gotime
  wm_removed_by :: "int option"
  wm_removed_at :: "gotime option"
  wm_removal_reason :: string
  wm_version :: int

record product_row =
  p_key :: string
  p_display_name :: string
  p_status :: string
  p_created_at :: gotime
  p_retired_at :: "gotime option"

record ent_row =
  ent_id :: int
  ent_public_id :: string
  ent_organisation_id :: int
  ent_product_key :: string
  ent_status :: string
  ent_granted_by :: int
  ent_granted_at :: gotime
  ent_revoked_by :: "int option"
  ent_revoked_at :: "gotime option"
  ent_reason :: string

record upa_row =
  upa_id :: int
  upa_public_id :: string
  upa_user_id :: int
  upa_organisation_id :: int
  upa_product_key :: string
  upa_status :: string
  upa_assigned_by :: int
  upa_assigned_at :: gotime
  upa_revoked_by :: "int option"
  upa_revoked_at :: "gotime option"
  upa_reason :: string

record outbox_row =
  ob_id :: int
  ob_event_id :: string
  ob_event_type :: string
  ob_aggregate_type :: string
  ob_aggregate_id :: string
  ob_sequence :: int
  ob_schema_version :: int
  ob_occurred_at :: gotime
  ob_payload :: string
  ob_published_at :: "gotime option"

record inbox_row =
  ib_id :: int
  ib_consumer_key :: string
  ib_event_id :: string
  ib_event_type :: string
  ib_aggregate_type :: string
  ib_aggregate_id :: string
  ib_sequence :: int
  ib_schema_version :: int
  ib_occurred_at :: gotime
  ib_payload :: string
  ib_state :: string
  ib_reason :: string
  ib_received_at :: gotime
  ib_applied_at :: "gotime option"

record checkpoint_row =
  cp_consumer_key :: string
  cp_aggregate_type :: string
  cp_aggregate_id :: string
  cp_last_sequence :: int
  cp_last_event_id :: string
  cp_state :: string
  cp_reason :: string
  cp_updated_at :: gotime

record nonce_row =
  nc_consumer_key :: string
  nc_nonce :: string
  nc_reserved_at :: gotime
  nc_expires_at :: gotime

record command_row =
  cr_id :: int
  cr_consumer_key :: string
  cr_idempotency_key :: string
  cr_request_hash :: string
  cr_result_json :: string
  cr_created_at :: gotime

section \<open>The database\<close>

record db =
  users :: "user_row list"
  sessions :: "session_row list"
  security_events :: "security_event_row list"
  mfa_enrollments :: "enrollment_row list"
  mfa_recovery_codes :: "recovery_row list"
  organisations :: "org_row list"
  organisation_memberships :: "om_row list"
  audit_events :: "audit_row list"
  system_role_assignments :: "sra_row list"
  workspaces :: "ws_row list"
  workspace_memberships :: "wm_row list"
  products :: "product_row list"
  organisation_product_entitlements :: "ent_row list"
  user_product_assignments :: "upa_row list"
  platform_outbox :: "outbox_row list"
  platform_projection_inbox :: "inbox_row list"
  platform_projection_checkpoints :: "checkpoint_row list"
  platform_read_authority_nonces :: "nonce_row list"
  platform_membership_command_results :: "command_row list"

text \<open>
  SQL's \<^verbatim>\<open>length\<close> of a text counts characters (bytes that do not continue a UTF-8 sequence),
  its \<^verbatim>\<open>trim\<close> removes blanks only, and \<^verbatim>\<open>COLLATE NOCASE\<close> folds ASCII letters.
\<close>

function sql_length :: "string \<Rightarrow> nat" where
  "sql_length s =
     (case s of
        [] \<Rightarrow> 0
      | c # cs \<Rightarrow>
          if byte c = 0 then 0
          else if byte c \<ge> 192 then 1 + sql_length (dropWhile (\<lambda>d. cont_byte (byte d)) cs)
          else 1 + sql_length cs)"
  by pat_completeness auto
termination
  by (relation "measure length") (auto simp: le_imp_less_Suc length_dropWhile_le)

declare sql_length.simps [simp del]

definition sql_trim :: "string \<Rightarrow> string" where
  "sql_trim s = rev (dropWhile (\<lambda>c. c = CHR '' '') (rev (dropWhile (\<lambda>c. c = CHR '' '') s)))"

definition nocase :: "string \<Rightarrow> string" where
  "nocase s = map ascii_lower s"

abbreviation has_user :: "db \<Rightarrow> int \<Rightarrow> bool" where
  "has_user db i \<equiv> list_ex (\<lambda>u. u_id u = i) (users db)"

abbreviation has_organisation :: "db \<Rightarrow> int \<Rightarrow> bool" where
  "has_organisation db i \<equiv> list_ex (\<lambda>r. o_id r = i) (organisations db)"

abbreviation has_workspace :: "db \<Rightarrow> int \<Rightarrow> bool" where
  "has_workspace db i \<equiv> list_ex (\<lambda>w. w_id w = i) (workspaces db)"

abbreviation has_product :: "db \<Rightarrow> string \<Rightarrow> bool" where
  "has_product db k \<equiv> list_ex (\<lambda>p. p_key p = k) (products db)"

section \<open>Statements\<close>

text \<open>
  An inserted row comes with any number in its id field; the statement replaces it by the next
  free one. \<open>taken P k r rows\<close> is the test a (partial) unique index makes.
\<close>

definition taken :: "('r \<Rightarrow> bool) \<Rightarrow> ('r \<Rightarrow> 'k) \<Rightarrow> 'r \<Rightarrow> 'r list \<Rightarrow> bool" where
  "taken P k r rows \<longleftrightarrow> P r \<and> list_ex (\<lambda>q. P q \<and> k q = k r) rows"

abbreviation every :: "'r \<Rightarrow> bool" where
  "every \<equiv> \<lambda>_. True"

subsection \<open>Identity\<close>

definition insert_user :: "user_row \<Rightarrow> db \<Rightarrow> db result" where [sql_defs]:
  "insert_user r db =
     (if taken every u_public_id r (users db) then Inl (ErrConstraint ''users.public_id'')
      else if taken every (\<lambda>u. nocase (u_email u)) r (users db) then Inl (ErrConstraint ''users.email'')
      else Inr (db\<lparr>users := insert_row u_id (\<lambda>i. u_id_update (\<lambda>_. i)) r (users db)\<rparr>))"

definition update_user_active :: "bool \<Rightarrow> string \<Rightarrow> db \<Rightarrow> db" where [sql_defs]:
  "update_user_active active pid db =
     db\<lparr>users := update_where (\<lambda>u. u_public_id u = pid) (\<lambda>u. u\<lparr>u_active := active\<rparr>) (users db)\<rparr>"

definition update_last_login :: "(user_row \<Rightarrow> bool) \<Rightarrow> gotime \<Rightarrow> db \<Rightarrow> db" where [sql_defs]:
  "update_last_login P at db =
     db\<lparr>users := update_where P (\<lambda>u. u\<lparr>u_last_login_at := Some at\<rparr>) (users db)\<rparr>"

definition update_mfa_step :: "(user_row \<Rightarrow> bool) \<Rightarrow> int \<Rightarrow> db \<Rightarrow> db" where [sql_defs]:
  "update_mfa_step P step db =
     db\<lparr>users := update_where P (\<lambda>u. u\<lparr>u_mfa_last_step := step\<rparr>) (users db)\<rparr>"

definition enable_mfa :: "string \<Rightarrow> int \<Rightarrow> int \<Rightarrow> db \<Rightarrow> db" where [sql_defs]:
  "enable_mfa ciphertext step uid db =
     db\<lparr>users := update_where (\<lambda>u. u_id u = uid)
        (\<lambda>u. u\<lparr>u_mfa_enabled := True, u_mfa_secret := Some ciphertext, u_mfa_last_step := step\<rparr>)
        (users db)\<rparr>"

definition insert_session :: "session_row \<Rightarrow> db \<Rightarrow> db result" where [sql_defs]:
  "insert_session r db =
     (if taken every s_token_hash r (sessions db) then Inl (ErrConstraint ''sessions.token_hash'')
      else if \<not> has_user db (s_user_id r) then Inl (ErrConstraint ''FOREIGN KEY'')
      else Inr (db\<lparr>sessions := insert_row s_id (\<lambda>i. s_id_update (\<lambda>_. i)) r (sessions db)\<rparr>))"

definition revoke_sessions :: "(session_row \<Rightarrow> bool) \<Rightarrow> gotime \<Rightarrow> db \<Rightarrow> db" where [sql_defs]:
  "revoke_sessions P at db =
     db\<lparr>sessions := update_where P
        (\<lambda>r. r\<lparr>s_revoked_at := (case s_revoked_at r of None \<Rightarrow> Some at | Some t \<Rightarrow> Some t)\<rparr>)
        (sessions db)\<rparr>"

definition delete_sessions :: "int list \<Rightarrow> db \<Rightarrow> db" where [sql_defs]:
  "delete_sessions ids db = db\<lparr>sessions := filter (\<lambda>r. s_id r \<notin> set ids) (sessions db)\<rparr>"

definition insert_security_event :: "security_event_row \<Rightarrow> db \<Rightarrow> db result" where [sql_defs]:
  "insert_security_event r db =
     (if \<not> (case se_user_id r of None \<Rightarrow> True | Some i \<Rightarrow> has_user db i)
      then Inl (ErrConstraint ''FOREIGN KEY'')
      else Inr (db\<lparr>security_events :=
                     insert_row se_id (\<lambda>i. se_id_update (\<lambda>_. i)) r (security_events db)\<rparr>))"

definition insert_enrollment :: "enrollment_row \<Rightarrow> db \<Rightarrow> db result" where [sql_defs]:
  "insert_enrollment r db =
     (if taken every e_token_hash r (mfa_enrollments db)
      then Inl (ErrConstraint ''mfa_enrollments.token_hash'')
      else if \<not> has_user db (e_user_id r) then Inl (ErrConstraint ''FOREIGN KEY'')
      else Inr (db\<lparr>mfa_enrollments :=
                     insert_row e_id (\<lambda>i. e_id_update (\<lambda>_. i)) r (mfa_enrollments db)\<rparr>))"

definition close_enrollments :: "(enrollment_row \<Rightarrow> bool) \<Rightarrow> gotime \<Rightarrow> db \<Rightarrow> db" where [sql_defs]:
  "close_enrollments P at db =
     db\<lparr>mfa_enrollments := update_where P (\<lambda>r. r\<lparr>e_used_at := Some at\<rparr>) (mfa_enrollments db)\<rparr>"

definition fail_enrollment :: "string \<Rightarrow> int \<Rightarrow> gotime option \<Rightarrow> db \<Rightarrow> db" where [sql_defs]:
  "fail_enrollment token_hash attempts used_at db =
     db\<lparr>mfa_enrollments := update_where (\<lambda>r. e_token_hash r = token_hash)
        (\<lambda>r. r\<lparr>e_attempts := attempts, e_used_at := used_at\<rparr>) (mfa_enrollments db)\<rparr>"

definition insert_recovery :: "recovery_row \<Rightarrow> db \<Rightarrow> db result" where [sql_defs]:
  "insert_recovery r db =
     (if \<not> has_user db (rc_user_id r) then Inl (ErrConstraint ''FOREIGN KEY'')
      else Inr (db\<lparr>mfa_recovery_codes :=
                     insert_row rc_id (\<lambda>i. rc_id_update (\<lambda>_. i)) r (mfa_recovery_codes db)\<rparr>))"

definition delete_recovery :: "int \<Rightarrow> db \<Rightarrow> db" where [sql_defs]:
  "delete_recovery uid db =
     db\<lparr>mfa_recovery_codes := filter (\<lambda>r. rc_user_id r \<noteq> uid) (mfa_recovery_codes db)\<rparr>"

definition use_recovery :: "int \<Rightarrow> gotime \<Rightarrow> db \<Rightarrow> db" where [sql_defs]:
  "use_recovery i at db =
     db\<lparr>mfa_recovery_codes := update_where (\<lambda>r. rc_id r = i \<and> rc_used_at r = None)
        (\<lambda>r. r\<lparr>rc_used_at := Some at\<rparr>) (mfa_recovery_codes db)\<rparr>"

subsection \<open>Organisations\<close>

definition insert_organisation :: "org_row \<Rightarrow> db \<Rightarrow> db result" where [sql_defs]:
  "insert_organisation r db =
     (if o_status r \<noteq> ''active'' \<and> o_status r \<noteq> ''archived'' then Inl (ErrConstraint ''CHECK'')
      else if taken every o_public_id r (organisations db)
      then Inl (ErrConstraint ''organisations.public_id'')
      else Inr (db\<lparr>organisations :=
                     insert_row o_id (\<lambda>i. o_id_update (\<lambda>_. i)) r (organisations db)\<rparr>))"

definition archive_organisation :: "int \<Rightarrow> gotime \<Rightarrow> db \<Rightarrow> db" where [sql_defs]:
  "archive_organisation i at db =
     db\<lparr>organisations := update_where (\<lambda>r. o_id r = i \<and> o_status r = ''active'')
        (\<lambda>r. r\<lparr>o_status := ''archived'', o_archived_at := Some at\<rparr>) (organisations db)\<rparr>"

definition rename_organisation :: "int \<Rightarrow> string \<Rightarrow> db \<Rightarrow> db" where [sql_defs]:
  "rename_organisation i name db =
     db\<lparr>organisations := update_where (\<lambda>r. o_id r = i \<and> o_status r = ''active'')
        (\<lambda>r. r\<lparr>o_name := name\<rparr>) (organisations db)\<rparr>"

definition check_om_role :: "string \<Rightarrow> bool" where
  "check_om_role role \<longleftrightarrow> role = ''owner'' \<or> role = ''admin'' \<or> role = ''member''"

definition om_owner :: "om_row \<Rightarrow> bool" where
  "om_owner r \<longleftrightarrow> om_active r \<and> om_role r = ''owner''"

abbreviation om_scope :: "om_row \<Rightarrow> int \<times> int" where
  "om_scope r \<equiv> (om_organisation_id r, om_user_id r)"

definition insert_om :: "om_row \<Rightarrow> db \<Rightarrow> db result" where [sql_defs]:
  "insert_om r db =
     (if \<not> check_om_role (om_role r) \<or> om_version r \<le> 0
      then Inl (ErrConstraint ''CHECK'')
      else if taken every om_public_id r (organisation_memberships db)
      then Inl (ErrConstraint ''organisation_memberships.public_id'')
      else if taken om_active om_scope r (organisation_memberships db)
      then Inl (ErrConstraint ''organisation_memberships_current_idx'')
      else if taken om_owner om_organisation_id r (organisation_memberships db)
      then Inl (ErrConstraint ''organisation_memberships_owner_idx'')
      else if \<not> has_organisation db (om_organisation_id r) \<or> \<not> has_user db (om_user_id r) \<or>
              \<not> has_user db (om_assigned_by r)
      then Inl (ErrConstraint ''FOREIGN KEY'')
      else Inr (db\<lparr>organisation_memberships :=
                     insert_row om_id (\<lambda>i. om_id_update (\<lambda>_. i)) r (organisation_memberships db)\<rparr>))"

definition deactivate_om :: "(om_row \<Rightarrow> bool) \<Rightarrow> int \<Rightarrow> gotime \<Rightarrow> string \<Rightarrow> db \<Rightarrow> db result" where [sql_defs]:
  "deactivate_om P removed_by at reason db =
     (if list_ex (\<lambda>r. P r \<and> om_active r) (organisation_memberships db) \<and> \<not> has_user db removed_by
      then Inl (ErrConstraint ''FOREIGN KEY'')
      else Inr (db\<lparr>organisation_memberships := update_where (\<lambda>r. P r \<and> om_active r)
             (\<lambda>r. r\<lparr>om_active := False, om_removed_by := Some removed_by, om_removed_at := Some at,
                    om_removal_reason := reason\<rparr>) (organisation_memberships db)\<rparr>))"

text \<open>\<^verbatim>\<open>INSERT INTO audit_events(...) SELECT ?,public_id,... FROM users WHERE id=?\<close>\<close>

definition insert_audit :: "int \<Rightarrow> string \<Rightarrow> string \<Rightarrow> string \<Rightarrow> string \<Rightarrow> gotime \<Rightarrow> db \<Rightarrow> db" where [sql_defs]:
  "insert_audit actor aggregate_type aggregate_id event details at db =
     (case find (\<lambda>u. u_id u = actor) (users db) of
        None \<Rightarrow> db
      | Some u \<Rightarrow> db\<lparr>audit_events := insert_row a_id (\<lambda>i. a_id_update (\<lambda>_. i))
          \<lparr>a_id = 0, a_actor_user_id = Some actor, a_actor_public_id = u_public_id u,
           a_aggregate_type = aggregate_type, a_aggregate_id = aggregate_id, a_event = event,
           a_details = details, a_occurred_at = at\<rparr> (audit_events db)\<rparr>)"

subsection \<open>Workspaces\<close>

definition insert_workspace :: "ws_row \<Rightarrow> db \<Rightarrow> db result" where [sql_defs]:
  "insert_workspace r db =
     (if w_status r \<noteq> ''active'' \<and> w_status r \<noteq> ''archived'' then Inl (ErrConstraint ''CHECK'')
      else if taken every w_public_id r (workspaces db) then Inl (ErrConstraint ''workspaces.public_id'')
      else if \<not> has_organisation db (w_organisation_id r) then Inl (ErrConstraint ''FOREIGN KEY'')
      else Inr (db\<lparr>workspaces := insert_row w_id (\<lambda>i. w_id_update (\<lambda>_. i)) r (workspaces db)\<rparr>))"

definition archive_workspace :: "int \<Rightarrow> gotime \<Rightarrow> db \<Rightarrow> db" where [sql_defs]:
  "archive_workspace i at db =
     db\<lparr>workspaces := update_where (\<lambda>r. w_id r = i \<and> w_status r = ''active'')
        (\<lambda>r. r\<lparr>w_status := ''archived'', w_archived_at := Some at\<rparr>) (workspaces db)\<rparr>"

definition check_wm_role :: "string \<Rightarrow> bool" where
  "check_wm_role role \<longleftrightarrow> role = ''admin'' \<or> role = ''member'' \<or> role = ''viewer''"

abbreviation wm_scope :: "wm_row \<Rightarrow> int \<times> int" where
  "wm_scope r \<equiv> (wm_workspace_id r, wm_user_id r)"

definition insert_wm :: "wm_row \<Rightarrow> db \<Rightarrow> db result" where [sql_defs]:
  "insert_wm r db =
     (if \<not> check_wm_role (wm_role r) \<or> wm_version r \<le> 0
      then Inl (ErrConstraint ''CHECK'')
      else if taken every wm_public_id r (workspace_memberships db)
      then Inl (ErrConstraint ''workspace_memberships.public_id'')
      else if taken wm_active wm_scope r (workspace_memberships db)
      then Inl (ErrConstraint ''workspace_memberships_current_idx'')
      else if \<not> has_workspace db (wm_workspace_id r) \<or> \<not> has_user db (wm_user_id r) \<or>
              \<not> has_user db (wm_assigned_by r)
      then Inl (ErrConstraint ''FOREIGN KEY'')
      else Inr (db\<lparr>workspace_memberships :=
                     insert_row wm_id (\<lambda>i. wm_id_update (\<lambda>_. i)) r (workspace_memberships db)\<rparr>))"

definition deactivate_wm :: "(wm_row \<Rightarrow> bool) \<Rightarrow> int \<Rightarrow> gotime \<Rightarrow> string \<Rightarrow> db \<Rightarrow> db result" where [sql_defs]:
  "deactivate_wm P removed_by at reason db =
     (if list_ex (\<lambda>r. P r \<and> wm_active r) (workspace_memberships db) \<and> \<not> has_user db removed_by
      then Inl (ErrConstraint ''FOREIGN KEY'')
      else Inr (db\<lparr>workspace_memberships := update_where (\<lambda>r. P r \<and> wm_active r)
             (\<lambda>r. r\<lparr>wm_active := False, wm_removed_by := Some removed_by, wm_removed_at := Some at,
                    wm_removal_reason := reason\<rparr>) (workspace_memberships db)\<rparr>))"

subsection \<open>Products and access\<close>

definition retire_product :: "string \<Rightarrow> gotime \<Rightarrow> db \<Rightarrow> db" where [sql_defs]:
  "retire_product key at db =
     db\<lparr>products := update_where (\<lambda>r. p_key r = key \<and> p_status r = ''active'')
        (\<lambda>r. r\<lparr>p_status := ''retired'', p_retired_at := Some at\<rparr>) (products db)\<rparr>"

definition ent_active :: "ent_row \<Rightarrow> bool" where
  "ent_active r \<longleftrightarrow> ent_status r = ''active''"

abbreviation ent_scope :: "ent_row \<Rightarrow> int \<times> string" where
  "ent_scope r \<equiv> (ent_organisation_id r, ent_product_key r)"

definition insert_ent :: "ent_row \<Rightarrow> db \<Rightarrow> db result" where [sql_defs]:
  "insert_ent r db =
     (if \<not> (ent_active r \<and> ent_revoked_by r = None \<and> ent_revoked_at r = None \<and> ent_reason r = [] \<or>
             ent_status r = ''revoked'' \<and> ent_revoked_by r \<noteq> None \<and> ent_revoked_at r \<noteq> None \<and>
             0 < sql_length (sql_trim (ent_reason r)))
      then Inl (ErrConstraint ''CHECK'')
      else if taken every ent_public_id r (organisation_product_entitlements db)
      then Inl (ErrConstraint ''organisation_product_entitlements.public_id'')
      else if taken ent_active ent_scope r (organisation_product_entitlements db)
      then Inl (ErrConstraint ''organisation_product_entitlements_current_idx'')
      else if \<not> has_organisation db (ent_organisation_id r) \<or> \<not> has_product db (ent_product_key r) \<or>
              \<not> has_user db (ent_granted_by r)
      then Inl (ErrConstraint ''FOREIGN KEY'')
      else Inr (db\<lparr>organisation_product_entitlements :=
                     insert_row ent_id (\<lambda>i. ent_id_update (\<lambda>_. i)) r
                       (organisation_product_entitlements db)\<rparr>))"

definition revoke_ent :: "int \<Rightarrow> int \<Rightarrow> gotime \<Rightarrow> string \<Rightarrow> db \<Rightarrow> db result" where [sql_defs]:
  "revoke_ent i revoked_by at reason db =
     (if list_ex (\<lambda>r. ent_id r = i \<and> ent_active r) (organisation_product_entitlements db) \<and>
         sql_length (sql_trim reason) = 0
      then Inl (ErrConstraint ''CHECK'')
      else if list_ex (\<lambda>r. ent_id r = i \<and> ent_active r) (organisation_product_entitlements db) \<and>
              \<not> has_user db revoked_by
      then Inl (ErrConstraint ''FOREIGN KEY'')
      else Inr (db\<lparr>organisation_product_entitlements := update_where (\<lambda>r. ent_id r = i \<and> ent_active r)
             (\<lambda>r. r\<lparr>ent_status := ''revoked'', ent_revoked_by := Some revoked_by,
                    ent_revoked_at := Some at, ent_reason := reason\<rparr>)
             (organisation_product_entitlements db)\<rparr>))"

definition upa_active :: "upa_row \<Rightarrow> bool" where
  "upa_active r \<longleftrightarrow> upa_status r = ''active''"

abbreviation upa_scope :: "upa_row \<Rightarrow> int \<times> int \<times> string" where
  "upa_scope r \<equiv> (upa_user_id r, upa_organisation_id r, upa_product_key r)"

definition insert_upa :: "upa_row \<Rightarrow> db \<Rightarrow> db result" where [sql_defs]:
  "insert_upa r db =
     (if \<not> (upa_active r \<and> upa_revoked_by r = None \<and> upa_revoked_at r = None \<and> upa_reason r = [] \<or>
             upa_status r = ''revoked'' \<and> upa_revoked_by r \<noteq> None \<and> upa_revoked_at r \<noteq> None \<and>
             0 < sql_length (sql_trim (upa_reason r)))
      then Inl (ErrConstraint ''CHECK'')
      else if taken every upa_public_id r (user_product_assignments db)
      then Inl (ErrConstraint ''user_product_assignments.public_id'')
      else if taken upa_active upa_scope r (user_product_assignments db)
      then Inl (ErrConstraint ''user_product_assignments_current_idx'')
      else if \<not> has_user db (upa_user_id r) \<or> \<not> has_organisation db (upa_organisation_id r) \<or>
              \<not> has_product db (upa_product_key r) \<or> \<not> has_user db (upa_assigned_by r)
      then Inl (ErrConstraint ''FOREIGN KEY'')
      else Inr (db\<lparr>user_product_assignments :=
                     insert_row upa_id (\<lambda>i. upa_id_update (\<lambda>_. i)) r (user_product_assignments db)\<rparr>))"

definition revoke_upa :: "int \<Rightarrow> int \<Rightarrow> gotime \<Rightarrow> string \<Rightarrow> db \<Rightarrow> db result" where [sql_defs]:
  "revoke_upa i revoked_by at reason db =
     (if list_ex (\<lambda>r. upa_id r = i \<and> upa_active r) (user_product_assignments db) \<and>
         sql_length (sql_trim reason) = 0
      then Inl (ErrConstraint ''CHECK'')
      else if list_ex (\<lambda>r. upa_id r = i \<and> upa_active r) (user_product_assignments db) \<and>
              \<not> has_user db revoked_by
      then Inl (ErrConstraint ''FOREIGN KEY'')
      else Inr (db\<lparr>user_product_assignments := update_where (\<lambda>r. upa_id r = i \<and> upa_active r)
             (\<lambda>r. r\<lparr>upa_status := ''revoked'', upa_revoked_by := Some revoked_by,
                    upa_revoked_at := Some at, upa_reason := reason\<rparr>)
             (user_product_assignments db)\<rparr>))"

subsection \<open>Events\<close>

abbreviation ob_lane :: "outbox_row \<Rightarrow> string \<times> string \<times> int" where
  "ob_lane r \<equiv> (ob_aggregate_type r, ob_aggregate_id r, ob_sequence r)"

definition insert_outbox :: "outbox_row \<Rightarrow> db \<Rightarrow> db result" where [sql_defs]:
  "insert_outbox r db =
     (if ob_aggregate_type r \<notin> set [''User'', ''Organisation'', ''Workspace'', ''Product'', ''Access''] \<or>
         ob_sequence r \<le> 0 \<or> ob_schema_version r \<noteq> 1 \<or>
         sql_length (ob_payload r) \<le> 1 \<or> 4096 < sql_length (ob_payload r)
      then Inl (ErrConstraint ''CHECK'')
      else if taken every ob_event_id r (platform_outbox db)
      then Inl (ErrConstraint ''platform_outbox.event_id'')
      else if taken every ob_lane r (platform_outbox db)
      then Inl (ErrConstraint ''platform_outbox.sequence'')
      else Inr (db\<lparr>platform_outbox :=
                     insert_row ob_id (\<lambda>i. ob_id_update (\<lambda>_. i)) r (platform_outbox db)\<rparr>))"

definition publish_event :: "string \<Rightarrow> gotime \<Rightarrow> db \<Rightarrow> db" where [sql_defs]:
  "publish_event eid at db =
     db\<lparr>platform_outbox := update_where (\<lambda>r. ob_event_id r = eid \<and> ob_published_at r = None)
        (\<lambda>r. r\<lparr>ob_published_at := Some at\<rparr>) (platform_outbox db)\<rparr>"

subsection \<open>Projections, nonces and command results\<close>

definition check_key :: "nat \<Rightarrow> string \<Rightarrow> bool" where \<comment> \<open>\<^verbatim>\<open>length(trim(k))>0 AND length(k)<=n\<close>\<close>
  "check_key n k \<longleftrightarrow> 0 < sql_length (sql_trim k) \<and> sql_length k \<le> n"

definition check_text :: "nat \<Rightarrow> string \<Rightarrow> bool" where \<comment> \<open>\<^verbatim>\<open>length(k)>0 AND length(k)<=n\<close>\<close>
  "check_text n k \<longleftrightarrow> 0 < sql_length k \<and> sql_length k \<le> n"

definition insert_inbox :: "inbox_row \<Rightarrow> db \<Rightarrow> db result" where [sql_defs]:
  "insert_inbox r db =
     (if \<not> check_key 100 (ib_consumer_key r) \<or> \<not> check_text 200 (ib_event_type r) \<or>
         \<not> check_text 50 (ib_aggregate_type r) \<or> \<not> check_text 200 (ib_aggregate_id r) \<or>
         ib_sequence r \<le> 0 \<or> ib_schema_version r \<le> 0 \<or>
         sql_length (ib_payload r) \<le> 1 \<or> 4096 < sql_length (ib_payload r) \<or>
         ib_state r \<notin> set [''pending'', ''applied'', ''gap'', ''stale'', ''blocked''] \<or>
         500 < sql_length (ib_reason r) \<or> (ib_state r = ''applied'') \<noteq> (ib_applied_at r \<noteq> None)
      then Inl (ErrConstraint ''CHECK'')
      else if taken every (\<lambda>q. (ib_consumer_key q, ib_event_id q)) r (platform_projection_inbox db)
      then Inl (ErrConstraint ''platform_projection_inbox.event_id'')
      else Inr (db\<lparr>platform_projection_inbox :=
                     insert_row ib_id (\<lambda>i. ib_id_update (\<lambda>_. i)) r (platform_projection_inbox db)\<rparr>))"

definition apply_inbox :: "string \<Rightarrow> string \<Rightarrow> gotime \<Rightarrow> db \<Rightarrow> db" where [sql_defs]:
  "apply_inbox consumer eid at db =
     db\<lparr>platform_projection_inbox := update_where
        (\<lambda>r. ib_consumer_key r = consumer \<and> ib_event_id r = eid \<and> ib_state r = ''pending'')
        (\<lambda>r. r\<lparr>ib_state := ''applied'', ib_reason := [], ib_applied_at := Some at\<rparr>)
        (platform_projection_inbox db)\<rparr>"

definition promote_inbox :: "int \<Rightarrow> db \<Rightarrow> db" where [sql_defs]:
  "promote_inbox i db =
     db\<lparr>platform_projection_inbox := update_where (\<lambda>r. ib_id r = i \<and> ib_state r = ''gap'')
        (\<lambda>r. r\<lparr>ib_state := ''pending'', ib_reason := ''awaiting_apply''\<rparr>)
        (platform_projection_inbox db)\<rparr>"

abbreviation cp_key :: "checkpoint_row \<Rightarrow> string \<times> string \<times> string" where
  "cp_key r \<equiv> (cp_consumer_key r, cp_aggregate_type r, cp_aggregate_id r)"

text \<open>\<^verbatim>\<open>INSERT ... ON CONFLICT(consumer_key,aggregate_type,aggregate_id) DO UPDATE SET ...\<close>\<close>

definition upsert_checkpoint :: "checkpoint_row \<Rightarrow> db \<Rightarrow> db result" where [sql_defs]:
  "upsert_checkpoint r db =
     (if \<not> check_key 100 (cp_consumer_key r) \<or> \<not> check_text 50 (cp_aggregate_type r) \<or>
         \<not> check_text 200 (cp_aggregate_id r) \<or> cp_last_sequence r < 0 \<or>
         cp_state r \<notin> set [''current'', ''stale'', ''gap'', ''blocked'', ''unavailable''] \<or>
         500 < sql_length (cp_reason r)
      then Inl (ErrConstraint ''CHECK'')
      else Inr (db\<lparr>platform_projection_checkpoints :=
        (if taken every cp_key r (platform_projection_checkpoints db)
         then update_where (\<lambda>q. cp_key q = cp_key r) (\<lambda>_. r) (platform_projection_checkpoints db)
         else platform_projection_checkpoints db @ [r])\<rparr>))"

definition delete_nonces :: "gotime \<Rightarrow> db \<Rightarrow> db" where [sql_defs]:
  "delete_nonces at db =
     db\<lparr>platform_read_authority_nonces :=
        filter (\<lambda>r. \<not> time_text_le (nc_expires_at r) at) (platform_read_authority_nonces db)\<rparr>"

definition insert_nonce :: "nonce_row \<Rightarrow> db \<Rightarrow> db result" where [sql_defs]:
  "insert_nonce r db =
     (if \<not> check_key 100 (nc_consumer_key r) \<or> \<not> check_text 128 (nc_nonce r) \<or>
         \<not> time_text_less (nc_reserved_at r) (nc_expires_at r)
      then Inl (ErrConstraint ''CHECK'')
      else if taken every (\<lambda>q. (nc_consumer_key q, nc_nonce q)) r (platform_read_authority_nonces db)
      then Inl (ErrConstraint ''platform_read_authority_nonces.nonce'')
      else Inr (db\<lparr>platform_read_authority_nonces := platform_read_authority_nonces db @ [r]\<rparr>))"

definition insert_command :: "command_row \<Rightarrow> db \<Rightarrow> db result" where [sql_defs]:
  "insert_command r db =
     (if \<not> check_key 100 (cr_consumer_key r) \<or> \<not> check_key 128 (cr_idempotency_key r) \<or>
         sql_length (cr_request_hash r) \<noteq> 64 \<or>
         sql_length (cr_result_json r) \<le> 1 \<or> 4096 < sql_length (cr_result_json r)
      then Inl (ErrConstraint ''CHECK'')
      else if taken every (\<lambda>q. (cr_consumer_key q, cr_idempotency_key q)) r
                (platform_membership_command_results db)
      then Inl (ErrConstraint ''platform_membership_command_results.idempotency_key'')
      else Inr (db\<lparr>platform_membership_command_results :=
                     insert_row cr_id (\<lambda>i. cr_id_update (\<lambda>_. i)) r
                       (platform_membership_command_results db)\<rparr>))"

definition delete_commands :: "int list \<Rightarrow> db \<Rightarrow> db" where [sql_defs]:
  "delete_commands ids db =
     db\<lparr>platform_membership_command_results :=
        filter (\<lambda>r. cr_id r \<notin> set ids) (platform_membership_command_results db)\<rparr>"

text \<open>
  The database after the fourteen migrations: empty but for the two products that migration 6
  inserts (2026-09-16T00:00:00Z).
\<close>

definition initial_db :: db where
  "initial_db =
     \<lparr>users = [], sessions = [], security_events = [], mfa_enrollments = [], mfa_recovery_codes = [],
      organisations = [], organisation_memberships = [], audit_events = [],
      system_role_assignments = [], workspaces = [], workspace_memberships = [],
      products =
        [\<lparr>p_key = ''product.tockrctrl'', p_display_name = ''TockrCTRL'', p_status = ''active'',
          p_created_at = seconds 1789516800, p_retired_at = None\<rparr>,
         \<lparr>p_key = ''product.tockrims'', p_display_name = ''TockrIMS'', p_status = ''active'',
          p_created_at = seconds 1789516800, p_retired_at = None\<rparr>],
      organisation_product_entitlements = [], user_product_assignments = [], platform_outbox = [],
      platform_projection_inbox = [], platform_projection_checkpoints = [],
      platform_read_authority_nonces = [], platform_membership_command_results = []\<rparr>"

lemma initial_products_created: "formatTime (seconds 1789516800) = ''2026-09-16T00:00:00Z''"
  by code_simp

end
