(* ===== verification/Writes.thy ===== *)
theory Writes
  imports Schema
begin

text \<open>
  Every store method is a sequence of the statements of \<^verbatim>\<open>Schema\<close>. \<open>stmt\<close> is one statement,
  labelled with the table it changes, and \<open>writes S\<close> a sequence of statements on the tables
  \<open>S\<close>: an invariant of the tables needs one proof per statement, and a table that is not
  among the labels of an operation is the same afterwards. \<open>only_writes\<close> carries the relation
  through the sequencing operators, so that each operation is placed in \<open>writes\<close> by following
  its text.
\<close>

section \<open>Sequences of statements\<close>

text \<open>
  The outbox has one writer, \<^verbatim>\<open>appendPlatformEventTx\<close>, which numbers an event one above the
  last of its aggregate and validates it before the insert; \<open>next_event\<close> is that obligation.
\<close>

definition next_sequence :: "string \<Rightarrow> string \<Rightarrow> db \<Rightarrow> int" where
  "next_sequence aggregate_type aggregate_id db =
     foldr max (map ob_sequence (filter (\<lambda>r. ob_aggregate_type r = aggregate_type \<and>
                                             ob_aggregate_id r = aggregate_id) (platform_outbox db))) 0 + 1"

definition row_event :: "outbox_row \<Rightarrow> Event" where
  "row_event r =
     \<lparr>EventID = ob_event_id r, EventType = ob_event_type r, AggregateType = ob_aggregate_type r,
      AggregateID = ob_aggregate_id r, Sequence = ob_sequence r, SchemaVersion = ob_schema_version r,
      OccurredAt = ob_occurred_at r, Payload = ob_payload r\<rparr>"

definition next_event :: "outbox_row \<Rightarrow> db \<Rightarrow> bool" where
  "next_event r db \<longleftrightarrow>
     Event_Validate (row_event r) = Inr () \<and>
     ob_sequence r = next_sequence (ob_aggregate_type r) (ob_aggregate_id r) db \<and>
     ob_published_at r = None"

datatype tbl =
    Users | Sessions | SecurityEvents | Enrollments | RecoveryCodes
  | Organisations | OrganisationMemberships | AuditEvents | SystemRoles | Workspaces
  | WorkspaceMemberships | Products | Entitlements | Assignments | Outbox
  | Inbox | Checkpoints | Nonces | CommandResults

inductive stmt :: "tbl \<Rightarrow> db \<Rightarrow> db \<Rightarrow> bool" where
  "insert_user u db = Inr db' \<Longrightarrow> stmt Users db db'"
| "stmt Users db (update_user_active b pid db)"
| "stmt Users db (update_last_login P at db)"
| "stmt Users db (update_mfa_step P step db)"
| "stmt Users db (enable_mfa c step i db)"
| "insert_session s db = Inr db' \<Longrightarrow> stmt Sessions db db'"
| "stmt Sessions db (revoke_sessions Q at db)"
| "stmt Sessions db (delete_sessions ids db)"
| "insert_security_event se db = Inr db' \<Longrightarrow> stmt SecurityEvents db db'"
| "insert_enrollment en db = Inr db' \<Longrightarrow> stmt Enrollments db db'"
| "stmt Enrollments db (close_enrollments E at db)"
| "stmt Enrollments db (fail_enrollment h n used db)"
| "insert_recovery rc db = Inr db' \<Longrightarrow> stmt RecoveryCodes db db'"
| "stmt RecoveryCodes db (delete_recovery i db)"
| "stmt RecoveryCodes db (use_recovery i at db)"
| "insert_organisation og db = Inr db' \<Longrightarrow> stmt Organisations db db'"
| "stmt Organisations db (archive_organisation i at db)"
| "stmt Organisations db (rename_organisation i name db)"
| "insert_om m db = Inr db' \<Longrightarrow> stmt OrganisationMemberships db db'"
| "deactivate_om M i at reason db = Inr db' \<Longrightarrow> stmt OrganisationMemberships db db'"
| "stmt AuditEvents db (insert_audit actor at aid ev details t db)"
| "insert_workspace w db = Inr db' \<Longrightarrow> stmt Workspaces db db'"
| "stmt Workspaces db (archive_workspace i at db)"
| "insert_wm wm db = Inr db' \<Longrightarrow> stmt WorkspaceMemberships db db'"
| "deactivate_wm W i at reason db = Inr db' \<Longrightarrow> stmt WorkspaceMemberships db db'"
| "stmt Products db (retire_product key at db)"
| "insert_ent ent db = Inr db' \<Longrightarrow> stmt Entitlements db db'"
| "revoke_ent i by_id at reason db = Inr db' \<Longrightarrow> stmt Entitlements db db'"
| "insert_upa upa db = Inr db' \<Longrightarrow> stmt Assignments db db'"
| "revoke_upa i by_id at reason db = Inr db' \<Longrightarrow> stmt Assignments db db'"
| "next_event ob db \<Longrightarrow> insert_outbox ob db = Inr db' \<Longrightarrow> stmt Outbox db db'"
| "stmt Outbox db (publish_event eid at db)"
| "insert_inbox ib db = Inr db' \<Longrightarrow> stmt Inbox db db'"
| "stmt Inbox db (apply_inbox consumer eid at db)"
| "stmt Inbox db (promote_inbox i db)"
| "upsert_checkpoint cp db = Inr db' \<Longrightarrow> stmt Checkpoints db db'"
| "stmt Nonces db (delete_nonces at db)"
| "insert_nonce nc db = Inr db' \<Longrightarrow> stmt Nonces db db'"
| "insert_command cr db = Inr db' \<Longrightarrow> stmt CommandResults db db'"
| "stmt CommandResults db (delete_commands ids db)"

inductive writes :: "tbl set \<Rightarrow> db \<Rightarrow> db \<Rightarrow> bool" for S where
  writes_refl [intro, simp]: "writes S db db"
| writes_step: "writes S db db' \<Longrightarrow> t \<in> S \<Longrightarrow> stmt t db' db'' \<Longrightarrow> writes S db db''"

lemma stmt_writes: "stmt t db db' \<Longrightarrow> t \<in> S \<Longrightarrow> writes S db db'"
  by (auto intro: writes_step)

lemma writes_trans [trans]:
  assumes "writes S a b" and "writes S b c"
  shows "writes S a c"
  using assms(2,1) by induction (auto intro: writes_step)

lemma writes_mono:
  assumes "writes S a b" and "S \<subseteq> T"
  shows "writes T a b"
  using assms(1) by induction (use assms(2) in \<open>auto intro: writes_step\<close>)

lemma writes_invariant:
  assumes "writes S db db'" and "I db" and "\<And>t a b. t \<in> S \<Longrightarrow> stmt t a b \<Longrightarrow> I a \<Longrightarrow> I b"
  shows "I db'"
  using assms(1,2) by induction (auto intro: assms(3))

text \<open>A statement leaves every table but its own as it is.\<close>

fun changes :: "tbl \<Rightarrow> db \<Rightarrow> db \<Rightarrow> bool" where
  "changes Users db db' \<longleftrightarrow> (\<exists>x. db' = db\<lparr>users := x\<rparr>)"
| "changes Sessions db db' \<longleftrightarrow> (\<exists>x. db' = db\<lparr>sessions := x\<rparr>)"
| "changes SecurityEvents db db' \<longleftrightarrow> (\<exists>x. db' = db\<lparr>security_events := x\<rparr>)"
| "changes Enrollments db db' \<longleftrightarrow> (\<exists>x. db' = db\<lparr>mfa_enrollments := x\<rparr>)"
| "changes RecoveryCodes db db' \<longleftrightarrow> (\<exists>x. db' = db\<lparr>mfa_recovery_codes := x\<rparr>)"
| "changes Organisations db db' \<longleftrightarrow> (\<exists>x. db' = db\<lparr>organisations := x\<rparr>)"
| "changes OrganisationMemberships db db' \<longleftrightarrow> (\<exists>x. db' = db\<lparr>organisation_memberships := x\<rparr>)"
| "changes AuditEvents db db' \<longleftrightarrow> (\<exists>x. db' = db\<lparr>audit_events := x\<rparr>)"
| "changes SystemRoles db db' \<longleftrightarrow> (\<exists>x. db' = db\<lparr>system_role_assignments := x\<rparr>)"
| "changes Workspaces db db' \<longleftrightarrow> (\<exists>x. db' = db\<lparr>workspaces := x\<rparr>)"
| "changes WorkspaceMemberships db db' \<longleftrightarrow> (\<exists>x. db' = db\<lparr>workspace_memberships := x\<rparr>)"
| "changes Products db db' \<longleftrightarrow> (\<exists>x. db' = db\<lparr>products := x\<rparr>)"
| "changes Entitlements db db' \<longleftrightarrow> (\<exists>x. db' = db\<lparr>organisation_product_entitlements := x\<rparr>)"
| "changes Assignments db db' \<longleftrightarrow> (\<exists>x. db' = db\<lparr>user_product_assignments := x\<rparr>)"
| "changes Outbox db db' \<longleftrightarrow> (\<exists>x. db' = db\<lparr>platform_outbox := x\<rparr>)"
| "changes Inbox db db' \<longleftrightarrow> (\<exists>x. db' = db\<lparr>platform_projection_inbox := x\<rparr>)"
| "changes Checkpoints db db' \<longleftrightarrow> (\<exists>x. db' = db\<lparr>platform_projection_checkpoints := x\<rparr>)"
| "changes Nonces db db' \<longleftrightarrow> (\<exists>x. db' = db\<lparr>platform_read_authority_nonces := x\<rparr>)"
| "changes CommandResults db db' \<longleftrightarrow> (\<exists>x. db' = db\<lparr>platform_membership_command_results := x\<rparr>)"

lemma same_audit_events: "\<exists>x. db = db\<lparr>audit_events := x\<rparr>"
  by (rule exI [of _ "audit_events db"]) simp

lemma stmt_changes: "stmt t db db' \<Longrightarrow> changes t db db'"
  by (induction rule: stmt.induct)
    (auto simp: sql_defs split: if_splits option.splits intro: same_audit_events)

lemma changes_frame:
  assumes "changes t db db'"
  shows
    "t \<noteq> Users \<Longrightarrow> users db' = users db"
    "t \<noteq> Sessions \<Longrightarrow> sessions db' = sessions db"
    "t \<noteq> SecurityEvents \<Longrightarrow> security_events db' = security_events db"
    "t \<noteq> Enrollments \<Longrightarrow> mfa_enrollments db' = mfa_enrollments db"
    "t \<noteq> RecoveryCodes \<Longrightarrow> mfa_recovery_codes db' = mfa_recovery_codes db"
    "t \<noteq> Organisations \<Longrightarrow> organisations db' = organisations db"
    "t \<noteq> OrganisationMemberships \<Longrightarrow> organisation_memberships db' = organisation_memberships db"
    "t \<noteq> AuditEvents \<Longrightarrow> audit_events db' = audit_events db"
    "t \<noteq> SystemRoles \<Longrightarrow> system_role_assignments db' = system_role_assignments db"
    "t \<noteq> Workspaces \<Longrightarrow> workspaces db' = workspaces db"
    "t \<noteq> WorkspaceMemberships \<Longrightarrow> workspace_memberships db' = workspace_memberships db"
    "t \<noteq> Products \<Longrightarrow> products db' = products db"
    "t \<noteq> Entitlements \<Longrightarrow> organisation_product_entitlements db' = organisation_product_entitlements db"
    "t \<noteq> Assignments \<Longrightarrow> user_product_assignments db' = user_product_assignments db"
    "t \<noteq> Outbox \<Longrightarrow> platform_outbox db' = platform_outbox db"
    "t \<noteq> Inbox \<Longrightarrow> platform_projection_inbox db' = platform_projection_inbox db"
    "t \<noteq> Checkpoints \<Longrightarrow> platform_projection_checkpoints db' = platform_projection_checkpoints db"
    "t \<noteq> Nonces \<Longrightarrow> platform_read_authority_nonces db' = platform_read_authority_nonces db"
    "t \<noteq> CommandResults \<Longrightarrow> platform_membership_command_results db' = platform_membership_command_results db"
  using assms by (cases t; auto)+

lemmas stmt_frame = changes_frame [OF stmt_changes]

lemma writes_field:
  assumes "writes S db db'" and "\<And>t a b. t \<in> S \<Longrightarrow> stmt t a b \<Longrightarrow> f b = f a"
  shows "f db' = f db"
  using assms(1) by induction (auto simp: assms(2))

lemma writes_frame:
  assumes "writes S db db'"
  shows
    "Users \<notin> S \<Longrightarrow> users db' = users db"
    "Sessions \<notin> S \<Longrightarrow> sessions db' = sessions db"
    "SecurityEvents \<notin> S \<Longrightarrow> security_events db' = security_events db"
    "Enrollments \<notin> S \<Longrightarrow> mfa_enrollments db' = mfa_enrollments db"
    "RecoveryCodes \<notin> S \<Longrightarrow> mfa_recovery_codes db' = mfa_recovery_codes db"
    "Organisations \<notin> S \<Longrightarrow> organisations db' = organisations db"
    "OrganisationMemberships \<notin> S \<Longrightarrow> organisation_memberships db' = organisation_memberships db"
    "AuditEvents \<notin> S \<Longrightarrow> audit_events db' = audit_events db"
    "SystemRoles \<notin> S \<Longrightarrow> system_role_assignments db' = system_role_assignments db"
    "Workspaces \<notin> S \<Longrightarrow> workspaces db' = workspaces db"
    "WorkspaceMemberships \<notin> S \<Longrightarrow> workspace_memberships db' = workspace_memberships db"
    "Products \<notin> S \<Longrightarrow> products db' = products db"
    "Entitlements \<notin> S \<Longrightarrow> organisation_product_entitlements db' = organisation_product_entitlements db"
    "Assignments \<notin> S \<Longrightarrow> user_product_assignments db' = user_product_assignments db"
    "Outbox \<notin> S \<Longrightarrow> platform_outbox db' = platform_outbox db"
    "Inbox \<notin> S \<Longrightarrow> platform_projection_inbox db' = platform_projection_inbox db"
    "Checkpoints \<notin> S \<Longrightarrow> platform_projection_checkpoints db' = platform_projection_checkpoints db"
    "Nonces \<notin> S \<Longrightarrow> platform_read_authority_nonces db' = platform_read_authority_nonces db"
    "CommandResults \<notin> S \<Longrightarrow> platform_membership_command_results db' = platform_membership_command_results db"
  by (rule writes_field [OF assms], rule stmt_frame, assumption, blast)+

section \<open>Programs that only write\<close>

text \<open>
  \<open>only_writes S db m\<close>: when \<open>m\<close> returns, it has taken \<open>db\<close> to its result by statements on
  the tables \<open>S\<close>. The rules follow the sequencing operators.
\<close>

definition only_writes :: "tbl set \<Rightarrow> db \<Rightarrow> ('a \<times> db) result \<Rightarrow> bool" where
  "only_writes S db m \<longleftrightarrow> (\<forall>a db'. m = Inr (a, db') \<longrightarrow> writes S db db')"

lemma only_writesD: "only_writes S db m \<Longrightarrow> m = Inr (a, db') \<Longrightarrow> writes S db db'"
  by (auto simp: only_writes_def)

lemma only_writes_Inl [simp]: "only_writes S db (Inl x)"
  by (simp add: only_writes_def)

lemma only_writes_Inr: "writes S db db' \<Longrightarrow> only_writes S db (Inr (a, db'))"
  by (simp add: only_writes_def)

lemma only_writes_if:
  "(c \<Longrightarrow> only_writes S db m) \<Longrightarrow> (\<not> c \<Longrightarrow> only_writes S db n) \<Longrightarrow> only_writes S db (if c then m else n)"
  by simp

lemma only_writes_attempt:
  "(\<And>a. m = Inr a \<Longrightarrow> only_writes S db (k a)) \<Longrightarrow> only_writes S db (attempt m k)"
  by (cases m) auto

lemma only_writes_exec:
  assumes "\<And>db1. m = Inr db1 \<Longrightarrow> writes S db db1" and "\<And>db1. only_writes S db1 (k db1)"
  shows "only_writes S db (exec m k)"
  using assms by (auto simp: only_writes_def tx_simps intro: writes_trans)

lemma only_writes_call:
  assumes "only_writes S db m" and "\<And>a db1. only_writes S db1 (k a db1)"
  shows "only_writes S db (call m k)"
  using assms by (auto simp: only_writes_def tx_simps intro: writes_trans)

lemma only_writes_then:
  assumes "writes S db db1" and "only_writes S db1 m"
  shows "only_writes S db m"
  using assms by (auto simp: only_writes_def intro: writes_trans)

lemmas only_writes_rules = only_writes_Inl only_writes_if only_writes_attempt only_writes_exec only_writes_call

text \<open>One rule per kind of statement for the \<open>exec\<close> steps of an operation.\<close>

lemma exec_writes:
  "insert_user u db = Inr db' \<Longrightarrow> Users \<in> S \<Longrightarrow> writes S db db'"
  "insert_session se db = Inr db' \<Longrightarrow> Sessions \<in> S \<Longrightarrow> writes S db db'"
  "insert_security_event sv db = Inr db' \<Longrightarrow> SecurityEvents \<in> S \<Longrightarrow> writes S db db'"
  "insert_enrollment en db = Inr db' \<Longrightarrow> Enrollments \<in> S \<Longrightarrow> writes S db db'"
  "insert_recovery rc db = Inr db' \<Longrightarrow> RecoveryCodes \<in> S \<Longrightarrow> writes S db db'"
  "insert_organisation og db = Inr db' \<Longrightarrow> Organisations \<in> S \<Longrightarrow> writes S db db'"
  "insert_om m db = Inr db' \<Longrightarrow> OrganisationMemberships \<in> S \<Longrightarrow> writes S db db'"
  "deactivate_om M i at reason db = Inr db' \<Longrightarrow> OrganisationMemberships \<in> S \<Longrightarrow> writes S db db'"
  "insert_workspace w db = Inr db' \<Longrightarrow> Workspaces \<in> S \<Longrightarrow> writes S db db'"
  "insert_wm wm db = Inr db' \<Longrightarrow> WorkspaceMemberships \<in> S \<Longrightarrow> writes S db db'"
  "deactivate_wm W i at reason db = Inr db' \<Longrightarrow> WorkspaceMemberships \<in> S \<Longrightarrow> writes S db db'"
  "insert_ent ent db = Inr db' \<Longrightarrow> Entitlements \<in> S \<Longrightarrow> writes S db db'"
  "revoke_ent i j at reason db = Inr db' \<Longrightarrow> Entitlements \<in> S \<Longrightarrow> writes S db db'"
  "insert_upa upa db = Inr db' \<Longrightarrow> Assignments \<in> S \<Longrightarrow> writes S db db'"
  "revoke_upa i j at reason db = Inr db' \<Longrightarrow> Assignments \<in> S \<Longrightarrow> writes S db db'"
  "insert_inbox ib db = Inr db' \<Longrightarrow> Inbox \<in> S \<Longrightarrow> writes S db db'"
  "upsert_checkpoint cp db = Inr db' \<Longrightarrow> Checkpoints \<in> S \<Longrightarrow> writes S db db'"
  "insert_nonce nc db = Inr db' \<Longrightarrow> Nonces \<in> S \<Longrightarrow> writes S db db'"
  "insert_command cr db = Inr db' \<Longrightarrow> CommandResults \<in> S \<Longrightarrow> writes S db db'"
  by (blast intro: stmt_writes stmt.intros)+

lemma update_writes:
  "Users \<in> S \<Longrightarrow> writes S db (update_user_active b pid db)"
  "Users \<in> S \<Longrightarrow> writes S db (update_last_login P at db)"
  "Users \<in> S \<Longrightarrow> writes S db (update_mfa_step P step db)"
  "Users \<in> S \<Longrightarrow> writes S db (enable_mfa c step i db)"
  "Sessions \<in> S \<Longrightarrow> writes S db (revoke_sessions Q at db)"
  "Sessions \<in> S \<Longrightarrow> writes S db (delete_sessions ids db)"
  "Enrollments \<in> S \<Longrightarrow> writes S db (close_enrollments E at db)"
  "Enrollments \<in> S \<Longrightarrow> writes S db (fail_enrollment h n used db)"
  "RecoveryCodes \<in> S \<Longrightarrow> writes S db (delete_recovery i db)"
  "RecoveryCodes \<in> S \<Longrightarrow> writes S db (use_recovery i at db)"
  "Organisations \<in> S \<Longrightarrow> writes S db (archive_organisation i at db)"
  "Organisations \<in> S \<Longrightarrow> writes S db (rename_organisation i name db)"
  "Workspaces \<in> S \<Longrightarrow> writes S db (archive_workspace i at db)"
  "Products \<in> S \<Longrightarrow> writes S db (retire_product key at db)"
  "Outbox \<in> S \<Longrightarrow> writes S db (publish_event eid at db)"
  "Inbox \<in> S \<Longrightarrow> writes S db (apply_inbox consumer eid at db)"
  "Inbox \<in> S \<Longrightarrow> writes S db (promote_inbox i db)"
  "Nonces \<in> S \<Longrightarrow> writes S db (delete_nonces at db)"
  "CommandResults \<in> S \<Longrightarrow> writes S db (delete_commands ids db)"
  by (rule stmt_writes, rule stmt.intros, assumption)+

section \<open>Store operations\<close>

text \<open>
  The contract of a store method: a call that returns an error leaves the database as it was,
  and a call that succeeds has run statements on the tables \<open>S\<close> only.
\<close>

locale store_op =
  fixes S :: "tbl set" and run :: "'i \<Rightarrow> env \<Rightarrow> db \<Rightarrow> 'a result \<times> db"
  assumes atomic: "run i e db = (Inl x, db') \<Longrightarrow> db' = db"
    and traced: "run i e db = (Inr a, db') \<Longrightarrow> writes S db db'"
begin

lemma run_writes: "writes S db (snd (run i e db))"
proof (cases "run i e db")
  case (Pair r db')
  then show ?thesis by (cases r) (auto dest: atomic traced)
qed

lemma keeps_invariant:
  assumes "I db" and "\<And>t a b. t \<in> S \<Longrightarrow> stmt t a b \<Longrightarrow> I a \<Longrightarrow> I b"
  shows "I (snd (run i e db))"
  using run_writes assms by (rule writes_invariant)

lemma keeps_field:
  assumes "\<And>t a b. t \<in> S \<Longrightarrow> stmt t a b \<Longrightarrow> f b = f a"
  shows "f (snd (run i e db)) = f db"
  using run_writes assms by (rule writes_field)

end

text \<open>The two shapes such a method has in the source.\<close>

lemma tx_method_atomic: "prepare db m (\<lambda>p. with_tx e db (body p)) = (Inl x, db') \<Longrightarrow> db' = db"
  by (auto simp: prepare_def split: sum.splits dest: with_tx_Inl)

lemma tx_method_traced:
  "prepare db m (\<lambda>p. with_tx e db (body p)) = (Inr a, db') \<Longrightarrow> (\<And>p. only_writes S db (body p db)) \<Longrightarrow>
     writes S db db'"
  by (auto simp: tx_simps dest: only_writesD)

lemma run_tx_traced:
  "run_tx e db body = (Inr a, db') \<Longrightarrow> (\<And>d. body db = Inr (a, Some d) \<Longrightarrow> writes S db d) \<Longrightarrow> writes S db db'"
  by (auto simp: tx_simps)

lemma with_tx_traced:
  "with_tx e db body = (Inr a, db') \<Longrightarrow> only_writes S db (body db) \<Longrightarrow> writes S db db'"
  by (auto simp: tx_simps dest: only_writesD)

lemma run_method_atomic: "prepare db m (\<lambda>p. run_tx e db (body p)) = (Inl x, db') \<Longrightarrow> db' = db"
  by (auto simp: prepare_def split: sum.splits dest: run_tx_Inl)

lemma run_method_Inr:
  "prepare db m (\<lambda>p. run_tx e db (body p)) = (Inr a, db') \<Longrightarrow>
     db' = db \<or> (\<exists>p. m = Inr p \<and> body p db = Inr (a, Some db'))"
  by (auto simp: tx_simps)

end
