(* ===== verification/Invariants.thy ===== *)
theory Invariants
  imports Writes
begin

text \<open>
  What the tables satisfy whatever statements run: row numbers grow, public identifiers and
  current memberships, entitlements and assignments are unique, references resolve, and the
  outbox is a gap-free log of valid events, globally and per aggregate. Each property is shown
  once per statement and lifted to sequences of statements.
\<close>

section \<open>Numbered tables\<close>

definition ids_up :: "('r \<Rightarrow> int) \<Rightarrow> 'r list \<Rightarrow> bool" where
  "ids_up rid rows \<longleftrightarrow> sorted_wrt (<) (map rid rows) \<and> (\<forall>r \<in> set rows. 0 < rid r)"

text \<open>The interface of a table with an \<^verbatim>\<open>INTEGER PRIMARY KEY\<close>: a number that can be set.\<close>

locale numbered_table =
  fixes rid :: "'r \<Rightarrow> int" and set_id :: "int \<Rightarrow> 'r \<Rightarrow> 'r"
  assumes rid_set [simp]: "rid (set_id i r) = i"
begin

lemma ids_insert: "ids_up rid rows \<Longrightarrow> ids_up rid (insert_row rid set_id r rows)"
  by (auto simp: ids_up_def insert_row_def sorted_wrt_append intro: next_id_greater)

lemma ids_update: "(\<And>r. rid (f r) = rid r) \<Longrightarrow> ids_up rid rows \<Longrightarrow> ids_up rid (update_where P f rows)"
  by (auto simp: ids_up_def map_update_where set_update_where)

lemma ids_filter: "ids_up rid rows \<Longrightarrow> ids_up rid (filter P rows)"
  unfolding ids_up_def by (auto simp: sorted_wrt_map intro: sorted_wrt_filter)

lemma unique_id: "ids_up rid rows \<Longrightarrow> unique_key (\<lambda>_. True) rid rows"
  by (simp add: ids_up_def unique_key_def strict_sorted_iff)

lemma unique_insert:
  assumes "unique_key P k rows" and "\<not> taken P k r rows"
    and "\<And>i r. P (set_id i r) = P r" and "\<And>i r. k (set_id i r) = k r"
  shows "unique_key P k (insert_row rid set_id r rows)"
  using assms by (auto simp: insert_row_def unique_key_snoc taken_def list_ex_iff)

lemma set_insert: "set (insert_row rid set_id r rows) = insert (set_id (next_id rid rows) r) (set rows)"
  by (simp add: insert_row_def)

end

interpretation user_t: numbered_table u_id "\<lambda>i. u_id_update (\<lambda>_. i)" by unfold_locales simp
interpretation session_t: numbered_table s_id "\<lambda>i. s_id_update (\<lambda>_. i)" by unfold_locales simp
interpretation enrollment_t: numbered_table e_id "\<lambda>i. e_id_update (\<lambda>_. i)" by unfold_locales simp
interpretation recovery_t: numbered_table rc_id "\<lambda>i. rc_id_update (\<lambda>_. i)" by unfold_locales simp
interpretation org_t: numbered_table o_id "\<lambda>i. o_id_update (\<lambda>_. i)" by unfold_locales simp
interpretation om_t: numbered_table om_id "\<lambda>i. om_id_update (\<lambda>_. i)" by unfold_locales simp
interpretation ws_t: numbered_table w_id "\<lambda>i. w_id_update (\<lambda>_. i)" by unfold_locales simp
interpretation wm_t: numbered_table wm_id "\<lambda>i. wm_id_update (\<lambda>_. i)" by unfold_locales simp
interpretation ent_t: numbered_table ent_id "\<lambda>i. ent_id_update (\<lambda>_. i)" by unfold_locales simp
interpretation upa_t: numbered_table upa_id "\<lambda>i. upa_id_update (\<lambda>_. i)" by unfold_locales simp
interpretation outbox_t: numbered_table ob_id "\<lambda>i. ob_id_update (\<lambda>_. i)" by unfold_locales simp
interpretation inbox_t: numbered_table ib_id "\<lambda>i. ib_id_update (\<lambda>_. i)" by unfold_locales simp
interpretation command_t: numbered_table cr_id "\<lambda>i. cr_id_update (\<lambda>_. i)" by unfold_locales simp

inductive_cases stmt_UsersE: "stmt Users db db'"
inductive_cases stmt_SessionsE: "stmt Sessions db db'"
inductive_cases stmt_RecoveryCodesE: "stmt RecoveryCodes db db'"
inductive_cases stmt_EnrollmentsE: "stmt Enrollments db db'"
inductive_cases stmt_OrganisationsE: "stmt Organisations db db'"
inductive_cases stmt_OrganisationMembershipsE: "stmt OrganisationMemberships db db'"
inductive_cases stmt_WorkspacesE: "stmt Workspaces db db'"
inductive_cases stmt_WorkspaceMembershipsE: "stmt WorkspaceMemberships db db'"
inductive_cases stmt_ProductsE: "stmt Products db db'"
inductive_cases stmt_EntitlementsE: "stmt Entitlements db db'"
inductive_cases stmt_AssignmentsE: "stmt Assignments db db'"
inductive_cases stmt_OutboxE: "stmt Outbox db db'"
inductive_cases stmt_InboxE: "stmt Inbox db db'"
inductive_cases stmt_CheckpointsE: "stmt Checkpoints db db'"
inductive_cases stmt_NoncesE: "stmt Nonces db db'"
inductive_cases stmt_CommandResultsE: "stmt CommandResults db db'"

section \<open>One predicate per table\<close>

definition users_ok :: "db \<Rightarrow> bool" where
  "users_ok db \<longleftrightarrow>
     ids_up u_id (users db) \<and> unique_key every u_public_id (users db) \<and>
     unique_key every (\<lambda>u. nocase (u_email u)) (users db)"

definition sessions_ok :: "db \<Rightarrow> bool" where
  "sessions_ok db \<longleftrightarrow> ids_up s_id (sessions db) \<and> unique_key every s_token_hash (sessions db)"

definition recovery_ok :: "db \<Rightarrow> bool" where
  "recovery_ok db \<longleftrightarrow> ids_up rc_id (mfa_recovery_codes db)"

definition enrollments_ok :: "db \<Rightarrow> bool" where
  "enrollments_ok db \<longleftrightarrow>
     ids_up e_id (mfa_enrollments db) \<and> unique_key every e_token_hash (mfa_enrollments db)"

definition organisations_ok :: "db \<Rightarrow> bool" where
  "organisations_ok db \<longleftrightarrow>
     ids_up o_id (organisations db) \<and> unique_key every o_public_id (organisations db)"

definition om_ok :: "db \<Rightarrow> bool" where
  "om_ok db \<longleftrightarrow>
     ids_up om_id (organisation_memberships db) \<and>
     unique_key every om_public_id (organisation_memberships db) \<and>
     unique_key om_active om_scope (organisation_memberships db) \<and>
     unique_key om_owner om_organisation_id (organisation_memberships db) \<and>
     (\<forall>r \<in> set (organisation_memberships db). check_om_role (om_role r))"

definition workspaces_ok :: "db \<Rightarrow> bool" where
  "workspaces_ok db \<longleftrightarrow>
     ids_up w_id (workspaces db) \<and> unique_key every w_public_id (workspaces db)"

definition wm_ok :: "db \<Rightarrow> bool" where
  "wm_ok db \<longleftrightarrow>
     ids_up wm_id (workspace_memberships db) \<and>
     unique_key every wm_public_id (workspace_memberships db) \<and>
     unique_key wm_active wm_scope (workspace_memberships db) \<and>
     (\<forall>r \<in> set (workspace_memberships db). check_wm_role (wm_role r))"

definition products_ok :: "db \<Rightarrow> bool" where
  "products_ok db \<longleftrightarrow> unique_key every p_key (products db)"

definition ent_ok :: "db \<Rightarrow> bool" where
  "ent_ok db \<longleftrightarrow>
     ids_up ent_id (organisation_product_entitlements db) \<and>
     unique_key every ent_public_id (organisation_product_entitlements db) \<and>
     unique_key ent_active ent_scope (organisation_product_entitlements db)"

definition upa_ok :: "db \<Rightarrow> bool" where
  "upa_ok db \<longleftrightarrow>
     ids_up upa_id (user_product_assignments db) \<and>
     unique_key every upa_public_id (user_product_assignments db) \<and>
     unique_key upa_active upa_scope (user_product_assignments db)"

definition inbox_ok :: "db \<Rightarrow> bool" where
  "inbox_ok db \<longleftrightarrow>
     ids_up ib_id (platform_projection_inbox db) \<and>
     unique_key every (\<lambda>r. (ib_consumer_key r, ib_event_id r)) (platform_projection_inbox db)"

definition checkpoints_ok :: "db \<Rightarrow> bool" where
  "checkpoints_ok db \<longleftrightarrow> unique_key every cp_key (platform_projection_checkpoints db)"

definition nonces_ok :: "db \<Rightarrow> bool" where
  "nonces_ok db \<longleftrightarrow>
     unique_key every (\<lambda>r. (nc_consumer_key r, nc_nonce r)) (platform_read_authority_nonces db)"

definition commands_ok :: "db \<Rightarrow> bool" where
  "commands_ok db \<longleftrightarrow>
     ids_up cr_id (platform_membership_command_results db) \<and>
     unique_key every (\<lambda>r. (cr_consumer_key r, cr_idempotency_key r))
       (platform_membership_command_results db)"

section \<open>Statements keep them\<close>

lemmas row_rules =
  user_t.ids_insert user_t.ids_update user_t.unique_insert
  session_t.ids_insert session_t.ids_update session_t.ids_filter session_t.unique_insert
  enrollment_t.ids_insert enrollment_t.ids_update enrollment_t.unique_insert
  recovery_t.ids_insert recovery_t.ids_update recovery_t.ids_filter
  org_t.ids_insert org_t.ids_update org_t.unique_insert
  om_t.ids_insert om_t.ids_update om_t.unique_insert
  ws_t.ids_insert ws_t.ids_update ws_t.unique_insert
  wm_t.ids_insert wm_t.ids_update wm_t.unique_insert
  ent_t.ids_insert ent_t.ids_update ent_t.unique_insert
  upa_t.ids_insert upa_t.ids_update upa_t.unique_insert
  inbox_t.ids_insert inbox_t.ids_update inbox_t.unique_insert
  command_t.ids_insert command_t.ids_filter command_t.unique_insert
  unique_key_update unique_key_filter

lemma stmt_users_ok: "stmt t db db' \<Longrightarrow> users_ok db \<Longrightarrow> users_ok db'"
  by (cases "t = Users")
    (auto simp: users_ok_def stmt_frame sql_defs split: if_splits elim!: stmt_UsersE intro!: row_rules)

lemma stmt_sessions_ok: "stmt t db db' \<Longrightarrow> sessions_ok db \<Longrightarrow> sessions_ok db'"
  by (cases "t = Sessions")
    (auto simp: sessions_ok_def stmt_frame sql_defs split: if_splits elim!: stmt_SessionsE intro!: row_rules)

lemma stmt_recovery_ok: "stmt t db db' \<Longrightarrow> recovery_ok db \<Longrightarrow> recovery_ok db'"
  by (cases "t = RecoveryCodes")
    (auto simp: recovery_ok_def stmt_frame sql_defs split: if_splits elim!: stmt_RecoveryCodesE intro!: row_rules)

lemma stmt_enrollments_ok: "stmt t db db' \<Longrightarrow> enrollments_ok db \<Longrightarrow> enrollments_ok db'"
  by (cases "t = Enrollments")
    (auto simp: enrollments_ok_def stmt_frame sql_defs split: if_splits elim!: stmt_EnrollmentsE intro!: row_rules)

lemma stmt_organisations_ok: "stmt t db db' \<Longrightarrow> organisations_ok db \<Longrightarrow> organisations_ok db'"
  by (cases "t = Organisations")
    (auto simp: organisations_ok_def stmt_frame sql_defs split: if_splits elim!: stmt_OrganisationsE intro!: row_rules)

lemma stmt_workspaces_ok: "stmt t db db' \<Longrightarrow> workspaces_ok db \<Longrightarrow> workspaces_ok db'"
  by (cases "t = Workspaces")
    (auto simp: workspaces_ok_def stmt_frame sql_defs split: if_splits elim!: stmt_WorkspacesE intro!: row_rules)

lemma stmt_products_ok: "stmt t db db' \<Longrightarrow> products_ok db \<Longrightarrow> products_ok db'"
  by (cases "t = Products")
    (auto simp: products_ok_def stmt_frame sql_defs elim!: stmt_ProductsE intro!: row_rules)

lemma stmt_om_ok: "stmt t db db' \<Longrightarrow> om_ok db \<Longrightarrow> om_ok db'"
  by (cases "t = OrganisationMemberships")
    (auto simp: om_ok_def om_owner_def stmt_frame sql_defs om_t.set_insert set_update_where
      split: if_splits elim!: stmt_OrganisationMembershipsE intro!: row_rules)

lemma stmt_wm_ok: "stmt t db db' \<Longrightarrow> wm_ok db \<Longrightarrow> wm_ok db'"
  by (cases "t = WorkspaceMemberships")
    (auto simp: wm_ok_def stmt_frame sql_defs wm_t.set_insert set_update_where
      split: if_splits elim!: stmt_WorkspaceMembershipsE intro!: row_rules)

lemma stmt_ent_ok: "stmt t db db' \<Longrightarrow> ent_ok db \<Longrightarrow> ent_ok db'"
  by (cases "t = Entitlements")
    (auto simp: ent_ok_def stmt_frame sql_defs split: if_splits elim!: stmt_EntitlementsE
      intro!: row_rules simp: ent_active_def)

lemma stmt_upa_ok: "stmt t db db' \<Longrightarrow> upa_ok db \<Longrightarrow> upa_ok db'"
  by (cases "t = Assignments")
    (auto simp: upa_ok_def stmt_frame sql_defs split: if_splits elim!: stmt_AssignmentsE
      intro!: row_rules simp: upa_active_def)

lemma stmt_inbox_ok: "stmt t db db' \<Longrightarrow> inbox_ok db \<Longrightarrow> inbox_ok db'"
  by (cases "t = Inbox")
    (auto simp: inbox_ok_def stmt_frame sql_defs split: if_splits elim!: stmt_InboxE intro!: row_rules)

lemma unique_key_replace:
  assumes "unique_key every k rows"
  shows "unique_key every k (update_where (\<lambda>q. k q = k r) (\<lambda>_. r) rows)"
proof -
  have "map k (update_where (\<lambda>q. k q = k r) (\<lambda>_. r) rows) = map k rows"
    by (auto simp: update_where_def)
  with assms show ?thesis by (simp add: unique_key_def)
qed

lemma stmt_checkpoints_ok: "stmt t db db' \<Longrightarrow> checkpoints_ok db \<Longrightarrow> checkpoints_ok db'"
  using unique_key_replace [where k = cp_key]
  by (cases "t = Checkpoints")
    (auto simp: checkpoints_ok_def stmt_frame sql_defs unique_key_snoc taken_def list_ex_iff
      split: if_splits elim!: stmt_CheckpointsE)

lemma stmt_nonces_ok: "stmt t db db' \<Longrightarrow> nonces_ok db \<Longrightarrow> nonces_ok db'"
  by (cases "t = Nonces")
    (auto simp: nonces_ok_def stmt_frame sql_defs unique_key_snoc taken_def list_ex_iff
      split: if_splits elim!: stmt_NoncesE intro!: unique_key_filter)

lemma stmt_commands_ok: "stmt t db db' \<Longrightarrow> commands_ok db \<Longrightarrow> commands_ok db'"
  by (cases "t = CommandResults")
    (auto simp: commands_ok_def stmt_frame sql_defs split: if_splits elim!: stmt_CommandResultsE intro!: row_rules)

subsection \<open>References\<close>

lemma list_ex_update_where:
  "(\<And>r. k (f r) = k r) \<Longrightarrow> list_ex (\<lambda>r. k r = i) (update_where P f rows) = list_ex (\<lambda>r. k r = i) rows"
  unfolding update_where_def by (induction rows) auto

lemma list_ex_insert_row: "list_ex P rows \<Longrightarrow> list_ex P (insert_row rid set_id r rows)"
  by (simp add: insert_row_def)

lemma stmt_keys_grow:
  assumes "stmt t db db'"
  shows "has_user db i \<Longrightarrow> has_user db' i" "has_organisation db i \<Longrightarrow> has_organisation db' i"
    "has_workspace db i \<Longrightarrow> has_workspace db' i" "has_product db k \<Longrightarrow> has_product db' k"
  subgoal using assms
    by (cases "t = Users")
      (auto simp: stmt_frame sql_defs list_ex_update_where list_ex_insert_row split: if_splits elim!: stmt_UsersE)
  subgoal using assms
    by (cases "t = Organisations")
      (auto simp: stmt_frame sql_defs list_ex_update_where list_ex_insert_row split: if_splits
        elim!: stmt_OrganisationsE)
  subgoal using assms
    by (cases "t = Workspaces")
      (auto simp: stmt_frame sql_defs list_ex_update_where list_ex_insert_row split: if_splits
        elim!: stmt_WorkspacesE)
  subgoal using assms
    by (cases "t = Products") (auto simp: stmt_frame sql_defs list_ex_update_where elim!: stmt_ProductsE)
  done

text \<open>The rows that hold references: an insert resolves them, an update keeps them.\<close>

definition fk :: "db \<Rightarrow> int list \<Rightarrow> int list \<Rightarrow> int list \<Rightarrow> string list \<Rightarrow> bool" where
  "fk db us os ws ps \<longleftrightarrow>
     list_all (has_user db) us \<and> list_all (has_organisation db) os \<and>
     list_all (has_workspace db) ws \<and> list_all (has_product db) ps"

definition om_fk :: "db \<Rightarrow> om_row \<Rightarrow> bool" where
  "om_fk db r \<longleftrightarrow> fk db [om_user_id r] [om_organisation_id r] [] []"

definition ws_fk :: "db \<Rightarrow> ws_row \<Rightarrow> bool" where
  "ws_fk db r \<longleftrightarrow> fk db [] [w_organisation_id r] [] []"

definition wm_fk :: "db \<Rightarrow> wm_row \<Rightarrow> bool" where
  "wm_fk db r \<longleftrightarrow> fk db [wm_user_id r] [] [wm_workspace_id r] []"

definition ent_fk :: "db \<Rightarrow> ent_row \<Rightarrow> bool" where
  "ent_fk db r \<longleftrightarrow> fk db [] [ent_organisation_id r] [] [ent_product_key r]"

definition upa_fk :: "db \<Rightarrow> upa_row \<Rightarrow> bool" where
  "upa_fk db r \<longleftrightarrow> fk db [upa_user_id r] [upa_organisation_id r] [] [upa_product_key r]"

definition session_fk :: "db \<Rightarrow> session_row \<Rightarrow> bool" where
  "session_fk db r \<longleftrightarrow> fk db [s_user_id r] [] [] []"

definition references_ok :: "db \<Rightarrow> bool" where
  "references_ok db \<longleftrightarrow>
     list_all (om_fk db) (organisation_memberships db) \<and> list_all (ws_fk db) (workspaces db) \<and>
     list_all (wm_fk db) (workspace_memberships db) \<and>
     list_all (ent_fk db) (organisation_product_entitlements db) \<and>
     list_all (upa_fk db) (user_product_assignments db) \<and> list_all (session_fk db) (sessions db)"

lemmas fk_defs = om_fk_def ws_fk_def wm_fk_def ent_fk_def upa_fk_def session_fk_def

lemma fk_grow:
  assumes "stmt t db db'" and "fk db us os ws ps"
  shows "fk db' us os ws ps"
  using assms stmt_keys_grow [OF assms(1)] by (auto simp: fk_def list_all_iff)

lemma list_all_update_where:
  "(\<And>r. P (f r) = P r) \<Longrightarrow> list_all P (update_where Q f rows) = list_all P rows"
  unfolding update_where_def by (induction rows) auto

lemma list_all_insert_row:
  "list_all P rows \<Longrightarrow> P (set_id (next_id rid rows) r) \<Longrightarrow> list_all P (insert_row rid set_id r rows)"
  by (simp add: insert_row_def)

lemma list_all_filter: "list_all P rows \<Longrightarrow> list_all P (filter Q rows)"
  by (auto simp: list_all_iff)

lemmas fk_simps = fk_defs fk_def list_all_update_where list_all_insert_row list_all_filter

lemma list_all_fk_grow:
  assumes "stmt t db db'"
  shows "list_all (om_fk db) rs1 \<Longrightarrow> list_all (om_fk db') rs1"
    and "list_all (ws_fk db) rs2 \<Longrightarrow> list_all (ws_fk db') rs2"
    and "list_all (wm_fk db) rs3 \<Longrightarrow> list_all (wm_fk db') rs3"
    and "list_all (ent_fk db) rs4 \<Longrightarrow> list_all (ent_fk db') rs4"
    and "list_all (upa_fk db) rs5 \<Longrightarrow> list_all (upa_fk db') rs5"
    and "list_all (session_fk db) rs6 \<Longrightarrow> list_all (session_fk db') rs6"
  using fk_grow [OF assms] by (auto simp: fk_defs list_all_iff)

text \<open>A statement on a referring table: its new rows satisfy the references of the old database.\<close>

lemma stmt_own_references:
  "stmt OrganisationMemberships db db' \<Longrightarrow> list_all (om_fk db) (organisation_memberships db) \<Longrightarrow>
     list_all (om_fk db) (organisation_memberships db')"
  "stmt Workspaces db db' \<Longrightarrow> list_all (ws_fk db) (workspaces db) \<Longrightarrow> list_all (ws_fk db) (workspaces db')"
  "stmt WorkspaceMemberships db db' \<Longrightarrow> list_all (wm_fk db) (workspace_memberships db) \<Longrightarrow>
     list_all (wm_fk db) (workspace_memberships db')"
  "stmt Entitlements db db' \<Longrightarrow> list_all (ent_fk db) (organisation_product_entitlements db) \<Longrightarrow>
     list_all (ent_fk db) (organisation_product_entitlements db')"
  "stmt Assignments db db' \<Longrightarrow> list_all (upa_fk db) (user_product_assignments db) \<Longrightarrow>
     list_all (upa_fk db) (user_product_assignments db')"
  "stmt Sessions db db' \<Longrightarrow> list_all (session_fk db) (sessions db) \<Longrightarrow> list_all (session_fk db) (sessions db')"
  by (auto simp: sql_defs fk_simps split: if_splits
      elim!: stmt_OrganisationMembershipsE stmt_WorkspacesE stmt_WorkspaceMembershipsE
        stmt_EntitlementsE stmt_AssignmentsE stmt_SessionsE)

lemma stmt_references_ok: "stmt t db db' \<Longrightarrow> references_ok db \<Longrightarrow> references_ok db'"
proof -
  assume st: "stmt t db db'" and ok: "references_ok db"
  have "list_all (om_fk db) (organisation_memberships db')"
    using stmt_own_references(1) [of db db'] stmt_frame(7) [OF st] st ok
    by (cases "t = OrganisationMemberships") (auto simp: references_ok_def)
  moreover have "list_all (ws_fk db) (workspaces db')"
    using stmt_own_references(2) [of db db'] stmt_frame(10) [OF st] st ok
    by (cases "t = Workspaces") (auto simp: references_ok_def)
  moreover have "list_all (wm_fk db) (workspace_memberships db')"
    using stmt_own_references(3) [of db db'] stmt_frame(11) [OF st] st ok
    by (cases "t = WorkspaceMemberships") (auto simp: references_ok_def)
  moreover have "list_all (ent_fk db) (organisation_product_entitlements db')"
    using stmt_own_references(4) [of db db'] stmt_frame(13) [OF st] st ok
    by (cases "t = Entitlements") (auto simp: references_ok_def)
  moreover have "list_all (upa_fk db) (user_product_assignments db')"
    using stmt_own_references(5) [of db db'] stmt_frame(14) [OF st] st ok
    by (cases "t = Assignments") (auto simp: references_ok_def)
  moreover have "list_all (session_fk db) (sessions db')"
    using stmt_own_references(6) [of db db'] stmt_frame(2) [OF st] st ok
    by (cases "t = Sessions") (auto simp: references_ok_def)
  ultimately show ?thesis
    using list_all_fk_grow [OF st] by (auto simp: references_ok_def)
qed

section \<open>The outbox\<close>

definition contiguous :: "('r \<Rightarrow> int) \<Rightarrow> 'r list \<Rightarrow> bool" where
  "contiguous f rows \<longleftrightarrow> map f rows = map int [1..<Suc (length rows)]"

definition lane :: "string \<Rightarrow> string \<Rightarrow> outbox_row list \<Rightarrow> outbox_row list" where
  "lane t i rows = filter (\<lambda>r. ob_aggregate_type r = t \<and> ob_aggregate_id r = i) rows"

definition outbox_ok :: "db \<Rightarrow> bool" where
  "outbox_ok db \<longleftrightarrow>
     contiguous ob_id (platform_outbox db) \<and>
     (\<forall>t i. contiguous ob_sequence (lane t i (platform_outbox db))) \<and>
     unique_key every ob_event_id (platform_outbox db) \<and>
     list_all (\<lambda>r. Event_Validate (row_event r) = Inr ()) (platform_outbox db)"

lemma contiguous_snoc:
  "contiguous f (rows @ [r]) \<longleftrightarrow> contiguous f rows \<and> f r = int (length rows) + 1"
  by (auto simp: contiguous_def)

lemma contiguous_max: "contiguous f rows \<Longrightarrow> foldr max (map f rows) 0 = int (length rows)"
proof (induction rows rule: rev_induct)
  case (snoc r rows)
  have "foldr max xs a = max (foldr max xs 0) a" if "0 \<le> a" for xs :: "int list" and a
    using that by (induction xs) auto
  from this [of "int (length rows) + 1" "map f rows"] snoc show ?case by (simp add: contiguous_snoc)
qed (simp add: contiguous_def)

lemma contiguous_next_id: "contiguous f rows \<Longrightarrow> next_id f rows = int (length rows) + 1"
  using contiguous_max [of f rows] by (simp add: next_id_def foldr_map comp_def)

lemma next_sequence_lane:
  "contiguous ob_sequence (lane t i (platform_outbox db)) \<Longrightarrow>
     next_sequence t i db = int (length (lane t i (platform_outbox db))) + 1"
  by (simp add: next_sequence_def lane_def [symmetric] contiguous_max)

lemma contiguous_lane_update:
  assumes "\<And>r. ob_aggregate_type (f r) = ob_aggregate_type r" "\<And>r. ob_aggregate_id (f r) = ob_aggregate_id r"
    "\<And>r. ob_sequence (f r) = ob_sequence r"
  shows "contiguous ob_sequence (lane t i (update_where P f rows)) \<longleftrightarrow> contiguous ob_sequence (lane t i rows)"
proof -
  have *: "map ob_sequence (lane t i (update_where P f rows)) = map ob_sequence (lane t i rows)"
    unfolding lane_def update_where_def using assms by (induction rows) auto
  then have "length (lane t i (update_where P f rows)) = length (lane t i rows)"
    by (metis length_map)
  with * show ?thesis unfolding contiguous_def by (simp only:)
qed

lemma stmt_outbox_ok:
  assumes "stmt t db db'" and ok: "outbox_ok db"
  shows "outbox_ok db'"
proof (cases "t = Outbox")
  case False
  with assms show ?thesis by (simp add: outbox_ok_def stmt_frame)
next
  case True
  from assms(1) [unfolded True]
  consider (insert) ob where "next_event ob db" "insert_outbox ob db = Inr db'"
    | (publish) eid at where "db' = publish_event eid at db"
    by (auto elim: stmt_OutboxE)
  then show ?thesis
  proof cases
    case (insert ob)
    note 1 = insert
    let ?r = "ob\<lparr>ob_id := next_id ob_id (platform_outbox db)\<rparr>"
    have db': "platform_outbox db' = platform_outbox db @ [?r]" and fresh: "\<not> taken every ob_event_id ob (platform_outbox db)"
      using 1(2) by (auto simp: insert_outbox_def insert_row_def split: if_splits)
    have "row_event ?r = row_event ob" by (simp add: row_event_def)
    moreover have "contiguous ob_sequence (lane a i (platform_outbox db'))" for a i
      using ok 1(1) next_sequence_lane [of "ob_aggregate_type ob" "ob_aggregate_id ob" db]
      by (auto simp: outbox_ok_def db' lane_def contiguous_snoc next_event_def)
    ultimately show ?thesis
      using ok 1(1) fresh contiguous_next_id [of ob_id "platform_outbox db"]
      by (auto simp: outbox_ok_def db' contiguous_snoc unique_key_snoc taken_def list_ex_iff next_event_def)
  next
    case (publish eid at)
    let ?f = "\<lambda>r. r\<lparr>ob_published_at := Some at\<rparr>"
    let ?u = "update_where (\<lambda>r. ob_event_id r = eid \<and> ob_published_at r = None) ?f (platform_outbox db)"
    have "contiguous ob_sequence (lane a i ?u) \<longleftrightarrow> contiguous ob_sequence (lane a i (platform_outbox db))" for a i
      by (rule contiguous_lane_update) auto
    moreover have "unique_key every ob_event_id ?u"
      using ok by (intro unique_key_update) (auto simp: outbox_ok_def)
    ultimately show ?thesis
      using ok publish
      by (simp add: outbox_ok_def publish_event_def contiguous_def [of ob_id] map_update_where
          list_all_update_where row_event_def)
  qed
qed

section \<open>All together\<close>

definition db_ok :: "db \<Rightarrow> bool" where
  "db_ok db \<longleftrightarrow>
     users_ok db \<and> sessions_ok db \<and> recovery_ok db \<and> enrollments_ok db \<and> organisations_ok db \<and>
     om_ok db \<and> workspaces_ok db \<and> wm_ok db \<and> products_ok db \<and> ent_ok db \<and> upa_ok db \<and>
     inbox_ok db \<and> checkpoints_ok db \<and> nonces_ok db \<and> commands_ok db \<and> references_ok db \<and> outbox_ok db"

lemma stmt_db_ok: "stmt t db db' \<Longrightarrow> db_ok db \<Longrightarrow> db_ok db'"
  unfolding db_ok_def
  by (blast intro: stmt_users_ok stmt_sessions_ok stmt_recovery_ok stmt_enrollments_ok
      stmt_organisations_ok stmt_om_ok stmt_workspaces_ok stmt_wm_ok stmt_products_ok stmt_ent_ok
      stmt_upa_ok stmt_inbox_ok stmt_checkpoints_ok stmt_nonces_ok stmt_commands_ok
      stmt_references_ok stmt_outbox_ok)

lemma writes_db_ok: "writes S db db' \<Longrightarrow> db_ok db \<Longrightarrow> db_ok db'"
  by (erule writes_invariant) (auto intro: stmt_db_ok)

lemmas table_ok_defs =
  users_ok_def sessions_ok_def recovery_ok_def enrollments_ok_def organisations_ok_def om_ok_def
  workspaces_ok_def wm_ok_def products_ok_def ent_ok_def upa_ok_def inbox_ok_def checkpoints_ok_def
  nonces_ok_def commands_ok_def references_ok_def outbox_ok_def

lemma initial_db_ok: "db_ok initial_db"
  by (simp add: db_ok_def table_ok_defs initial_db_def ids_up_def unique_key_def contiguous_def lane_def)

lemma db_okD:
  assumes "db_ok db"
  shows "users_ok db" "sessions_ok db" "recovery_ok db" "enrollments_ok db" "organisations_ok db"
    "om_ok db" "workspaces_ok db" "wm_ok db" "products_ok db" "ent_ok db" "upa_ok db" "inbox_ok db"
    "checkpoints_ok db" "nonces_ok db" "commands_ok db" "references_ok db" "outbox_ok db"
  using assms by (auto simp: db_ok_def)

end
