(* ===== verification/Outbox.thy ===== *)
theory Outbox
  imports Invariants
begin

text \<open>
  The transactional outbox (\<^verbatim>\<open>internal/db/sqlite/events.go\<close>): appending an event inside the
  transaction of the change it describes, listing and marking pending events, and the cursor
  feed consumers read.
\<close>

section \<open>Appending\<close>

definition event_row :: "Event \<Rightarrow> outbox_row" where
  "event_row e =
     \<lparr>ob_id = 0, ob_event_id = EventID e, ob_event_type = EventType e,
      ob_aggregate_type = AggregateType e, ob_aggregate_id = AggregateID e,
      ob_sequence = Sequence e, ob_schema_version = SchemaVersion e,
      ob_occurred_at = OccurredAt e, ob_payload = Payload e, ob_published_at = None\<rparr>"

definition appendPlatformEventTx ::
    "(nat \<Rightarrow> char) option \<Rightarrow> string \<Rightarrow> string \<Rightarrow> gotime \<Rightarrow> (string \<times> json) list \<Rightarrow> db \<Rightarrow> db result" where
  "appendPlatformEventTx src eventType aggregateID occurredAt payload db =
     attempt (New eventType aggregateID occurredAt payload src) (\<lambda>event.
     let sequence = next_sequence (AggregateType event) (AggregateID event) db in
     attempt (WithSequence sequence event) (\<lambda>event.
     insert_outbox (event_row event) db))"

record organisationMutationDetails =
  OrgD_OrganisationID :: string
  OrgD_MembershipID :: string
  OrgD_UserID :: string
  OrgD_Role :: string
  OrgD_Name :: string
  OrgD_Reason :: string

record workspaceMutationDetails =
  WspD_WorkspaceID :: string
  WspD_MembershipID :: string
  WspD_UserID :: string
  WspD_Role :: string
  WspD_Reason :: string

record productAuditDetails =
  PrdD_ProductKey :: string
  PrdD_OrganisationID :: string
  PrdD_UserID :: string
  PrdD_EntitlementID :: string
  PrdD_AssignmentID :: string
  PrdD_Status :: string
  PrdD_Reason :: string

abbreviation "eventOrganisationCreated \<equiv> ''organisation_created''"
abbreviation "eventMembershipAdded \<equiv> ''membership_added''"
abbreviation "eventMembershipRoleChanged \<equiv> ''membership_role_changed''"
abbreviation "eventMembershipDeactivated \<equiv> ''membership_deactivated''"
abbreviation "eventOrganisationArchived \<equiv> ''organisation_archived''"
abbreviation "eventOrganisationRenamed \<equiv> ''organisation_renamed''"
abbreviation "eventWorkspaceCreated \<equiv> ''workspace_created''"
abbreviation "eventWorkspaceMembershipAdded \<equiv> ''workspace_membership_added''"
abbreviation "eventWorkspaceRoleChanged \<equiv> ''workspace_membership_role_changed''"
abbreviation "eventWorkspaceMemberRemoved \<equiv> ''workspace_membership_deactivated''"
abbreviation "eventWorkspaceArchived \<equiv> ''workspace_archived''"
abbreviation "eventProductCreated \<equiv> ''product_created''"
abbreviation "eventProductRetired \<equiv> ''product_retired''"
abbreviation "eventEntitlementGranted \<equiv> ''product_entitlement_granted''"
abbreviation "eventEntitlementRevoked \<equiv> ''product_entitlement_revoked''"
abbreviation "eventAssignmentGranted \<equiv> ''product_assignment_granted''"
abbreviation "eventAssignmentRevoked \<equiv> ''product_assignment_revoked''"

text \<open>The event type of an audit event and the fields it adds to the payload.\<close>

definition organisation_event :: "string \<Rightarrow> organisationMutationDetails \<Rightarrow> (string \<times> (string \<times> json) list) option" where
  "organisation_event eventName d =
     (let member = (\<lambda>active.
        [(''membership_id'', JStr (OrgD_MembershipID d)), (''user_id'', JStr (OrgD_UserID d)),
         (''role'', JStr (OrgD_Role d)), (''active'', JBool active)])
      in if eventName = eventOrganisationCreated then Some (EventOrganisationCreated, [])
      else if eventName = eventMembershipAdded then Some (EventOrganisationMembershipAdded, member True)
      else if eventName = eventMembershipRoleChanged then Some (EventOrganisationRoleChanged, member True)
      else if eventName = eventMembershipDeactivated then Some (EventOrganisationMembershipRemoved, member False)
      else if eventName = eventOrganisationArchived then
        Some (EventOrganisationArchived, [(''active'', JBool False)])
      else if eventName = eventOrganisationRenamed then
        Some (EventOrganisationRenamed, [(''name'', JStr (OrgD_Name d))])
      else None)"

definition appendOrganisationEventTx ::
    "(nat \<Rightarrow> char) option \<Rightarrow> string \<Rightarrow> organisationMutationDetails \<Rightarrow> gotime \<Rightarrow> db \<Rightarrow> db result" where
  "appendOrganisationEventTx src eventName d at db =
     (case organisation_event eventName d of
        None \<Rightarrow> Inl (ErrNew ''unsupported organisation audit event'')
      | Some (eventType, payload) \<Rightarrow>
          appendPlatformEventTx src eventType (OrgD_OrganisationID d) at
            ((''organisation_id'', JStr (OrgD_OrganisationID d)) # payload) db)"

definition workspace_event :: "string \<Rightarrow> workspaceMutationDetails \<Rightarrow> string \<Rightarrow> (string \<times> (string \<times> json) list) option" where
  "workspace_event eventName d organisationID =
     (let member = (\<lambda>active.
        [(''membership_id'', JStr (WspD_MembershipID d)), (''user_id'', JStr (WspD_UserID d)),
         (''role'', JStr (WspD_Role d)), (''active'', JBool active)])
      in if eventName = eventWorkspaceCreated then
        Some (EventWorkspaceCreated, [(''organisation_id'', JStr organisationID), (''active'', JBool True)])
      else if eventName = eventWorkspaceMembershipAdded then Some (EventWorkspaceMembershipAdded, member True)
      else if eventName = eventWorkspaceRoleChanged then Some (EventWorkspaceRoleChanged, member True)
      else if eventName = eventWorkspaceMemberRemoved then Some (EventWorkspaceMembershipRemoved, member False)
      else if eventName = eventWorkspaceArchived then
        Some (EventWorkspaceArchived, [(''active'', JBool False)])
      else None)"

definition appendWorkspaceEventTx ::
    "(nat \<Rightarrow> char) option \<Rightarrow> string \<Rightarrow> workspaceMutationDetails \<Rightarrow> string \<Rightarrow> gotime \<Rightarrow> db \<Rightarrow> db result" where
  "appendWorkspaceEventTx src eventName d organisationID at db =
     (case workspace_event eventName d organisationID of
        None \<Rightarrow> Inl (ErrNew ''unsupported workspace audit event'')
      | Some (eventType, payload) \<Rightarrow>
          appendPlatformEventTx src eventType (WspD_WorkspaceID d) at
            ((''workspace_id'', JStr (WspD_WorkspaceID d)) # payload) db)"

definition appendProductEventTx ::
    "(nat \<Rightarrow> char) option \<Rightarrow> string \<Rightarrow> productAuditDetails \<Rightarrow> gotime \<Rightarrow> db \<Rightarrow> db result" where
  "appendProductEventTx src eventName d at db =
     (if eventName \<noteq> eventProductRetired \<and> eventName \<noteq> eventProductCreated
      then Inl (ErrNew ''unsupported product audit event'')
      else appendPlatformEventTx src
             (if eventName = eventProductCreated then EventProductCreated else EventProductRetired)
             (PrdD_ProductKey d) at
             [(''product_key'', JStr (PrdD_ProductKey d)), (''status'', JStr (PrdD_Status d))] db)"

definition access_event :: "string \<Rightarrow> productAuditDetails \<Rightarrow> (string \<times> string \<times> (string \<times> json) list) option" where
  "access_event eventName d =
     (let entitlement = [(''entitlement_id'', JStr (PrdD_EntitlementID d))];
          assignment = [(''assignment_id'', JStr (PrdD_AssignmentID d)), (''user_id'', JStr (PrdD_UserID d))]
      in if eventName = eventEntitlementGranted then
        Some (EventEntitlementGranted, PrdD_EntitlementID d, entitlement)
      else if eventName = eventEntitlementRevoked then
        Some (EventEntitlementRevoked, PrdD_EntitlementID d, entitlement)
      else if eventName = eventAssignmentGranted then
        Some (EventAssignmentGranted, PrdD_AssignmentID d, assignment)
      else if eventName = eventAssignmentRevoked then
        Some (EventAssignmentRevoked, PrdD_AssignmentID d, assignment)
      else None)"

definition appendAccessEventTx ::
    "(nat \<Rightarrow> char) option \<Rightarrow> string \<Rightarrow> productAuditDetails \<Rightarrow> gotime \<Rightarrow> db \<Rightarrow> db result" where
  "appendAccessEventTx src eventName d at db =
     (case access_event eventName d of
        None \<Rightarrow> Inl (ErrNew ''unsupported access audit event'')
      | Some (eventType, aggregateID, payload) \<Rightarrow>
          appendPlatformEventTx src eventType aggregateID at
            ([(''organisation_id'', JStr (PrdD_OrganisationID d)),
              (''product_key'', JStr (PrdD_ProductKey d)), (''status'', JStr (PrdD_Status d))] @ payload) db)"

section \<open>Publishing\<close>

record OutboxEvent = Event +
  GlobalCursor :: int
  PublishedAt :: "gotime option"

definition outbox_event :: "int \<Rightarrow> outbox_row \<Rightarrow> OutboxEvent" where
  "outbox_event cursor r =
     Event.extend (row_event r) \<lparr>GlobalCursor = cursor, PublishedAt = ob_published_at r\<rparr>"

text \<open>The row loop of the readers: the first row that fails ends it.\<close>

fun traverse :: "('a \<Rightarrow> 'b result) \<Rightarrow> 'a list \<Rightarrow> 'b list result" where
  "traverse f [] = Inr []"
| "traverse f (x # xs) = attempt (f x) (\<lambda>y. attempt (traverse f xs) (\<lambda>ys. Inr (y # ys)))"

definition ListPendingPlatformEvents :: "int \<Rightarrow> db \<Rightarrow> OutboxEvent list result" where
  "ListPendingPlatformEvents limit db =
     (if limit \<le> 0 \<or> 1000 < limit then Inl (Store ErrInvalidOutboxLimit)
      else traverse (\<lambda>r. attempt (Event_Validate (row_event r)) (\<lambda>_. Inr (outbox_event 0 r)))
             (take (nat limit) (sort_key ob_id
                (filter (\<lambda>r. ob_published_at r = None) (platform_outbox db)))))"

fun mark_published :: "string list \<Rightarrow> string list \<Rightarrow> gotime \<Rightarrow> db \<Rightarrow> (unit \<times> db) result" where
  "mark_published seen [] at db = Inr ((), db)"
| "mark_published seen (x # xs) at db =
     (let eventID = TrimSpace x in
      if eventID = [] then Inl (ErrNew ''platform event ID is required'')
      else if eventID \<in> set seen then Inl (ErrNew ''duplicate platform event ID'')
      else if count_where (\<lambda>r. ob_event_id r = eventID \<and> ob_published_at r = None) (platform_outbox db) \<noteq> 1
      then Inl (ErrNew ''platform event is missing or already published'')
      else mark_published (eventID # seen) xs at (publish_event eventID at db))"

definition MarkPlatformEventsPublished :: "env \<Rightarrow> string list \<Rightarrow> gotime \<Rightarrow> db \<Rightarrow> unit result \<times> db" where
  "MarkPlatformEventsPublished e eventIDs at db =
     (if IsZero at then (Inl (ErrNew ''platform event publication time is required''), db)
      else if eventIDs = [] \<or> 1000 < length eventIDs then (Inl (Store ErrInvalidOutboxLimit), db)
      else with_tx e db (mark_published [] eventIDs at))"

section \<open>The feed\<close>

definition min_cursor :: "outbox_row list \<Rightarrow> int" where \<comment> \<open>\<^verbatim>\<open>COALESCE(MIN(id),0)\<close>\<close>
  "min_cursor rows = (case rows of [] \<Rightarrow> 0 | r # rs \<Rightarrow> foldr (\<lambda>q m. min (ob_id q) m) rs (ob_id r))"

definition max_cursor :: "outbox_row list \<Rightarrow> int" where \<comment> \<open>\<^verbatim>\<open>COALESCE(MAX(id),0)\<close>\<close>
  "max_cursor rows = (case rows of [] \<Rightarrow> 0 | r # rs \<Rightarrow> foldr (\<lambda>q m. max (ob_id q) m) rs (ob_id r))"

definition PlatformEventCursorBounds :: "db \<Rightarrow> int \<times> int" where
  "PlatformEventCursorBounds db =
     (let first = min_cursor (platform_outbox db); current = max_cursor (platform_outbox db) in
      if first = 0 then (current, 0) else (current, first - 1))"

record PlatformEventFeed =
  Feed_Events :: "OutboxEvent list"
  Feed_SourceCursor :: int
  Feed_RetentionHorizon :: int
  Feed_NextCursor :: int
  Feed_HasMore :: bool

fun read_feed :: "int \<Rightarrow> outbox_row list \<Rightarrow> OutboxEvent list result" where
  "read_feed previous [] = Inr []"
| "read_feed previous (r # rs) =
     (if ob_id r \<noteq> previous + 1 then Inl (Store ErrReadAuthoritySourceGap)
      else case Event_Validate (row_event r) of
        Inl _ \<Rightarrow> Inl (Store ErrReadAuthoritySourceInvalid)
      | Inr _ \<Rightarrow> attempt (read_feed (ob_id r) rs) (\<lambda>es. Inr (outbox_event (ob_id r) r # es)))"

definition ListPlatformEventsAfter :: "env \<Rightarrow> int \<Rightarrow> int \<Rightarrow> db \<Rightarrow> PlatformEventFeed result" where
  "ListPlatformEventsAfter e after limit db =
     (if after < 0 \<or> limit \<le> 0 \<or> 500 < limit then Inl (Store ErrInvalidOutboxLimit)
      else if \<not> begin_ok e then Inl ErrBeginTx
      else let first = min_cursor (platform_outbox db); current = max_cursor (platform_outbox db);
               horizon = (if 0 < first then first - 1 else 0) in
        if after < horizon \<or> current < after then Inl (Store ErrReadAuthoritySourceGap)
        else attempt (read_feed after (take (nat (limit + 1)) (sort_key ob_id
                        (filter (\<lambda>r. after < ob_id r) (platform_outbox db))))) (\<lambda>events.
          Inr (if int (length events) > limit
               then let page = take (nat limit) events in
                 \<lparr>Feed_Events = page, Feed_SourceCursor = current, Feed_RetentionHorizon = horizon,
                  Feed_NextCursor = GlobalCursor (last page), Feed_HasMore = True\<rparr>
               else \<lparr>Feed_Events = events, Feed_SourceCursor = current, Feed_RetentionHorizon = horizon,
                     Feed_NextCursor = 0, Feed_HasMore = False\<rparr>)))"

section \<open>What appending does\<close>

lemma row_event_event_row [simp]: "row_event (event_row e) = e"
  by (simp add: row_event_def event_row_def)

lemma event_row_fields [simp]:
  "ob_event_type (event_row e) = EventType e" "ob_aggregate_type (event_row e) = AggregateType e"
  "ob_aggregate_id (event_row e) = AggregateID e" "ob_sequence (event_row e) = Sequence e"
  "ob_occurred_at (event_row e) = OccurredAt e" "ob_payload (event_row e) = Payload e"
  "ob_published_at (event_row e) = None"
  by (simp_all add: event_row_def)

lemma next_sequence_positive [simp]: "0 < next_sequence t i db"
proof -
  have "0 \<le> foldr max xs (0 :: int)" for xs by (induction xs) auto
  then show ?thesis by (simp add: next_sequence_def add_strict_increasing2)
qed

lemma appendPlatformEventTx_Inr:
  assumes "appendPlatformEventTx src t i at p db = Inr db'"
  obtains ob where "next_event ob db" "insert_outbox ob db = Inr db'" "ob_event_type ob = t"
    "ob_aggregate_id ob = TrimSpace i" "ob_occurred_at ob = at" "ob_payload ob = Marshal_map p"
    "ob_sequence ob = next_sequence (ob_aggregate_type ob) (TrimSpace i) db"
    "\<exists>fs. map_of specs t = Some (ob_aggregate_type ob, fs)"
proof -
  from assms obtain ev ev' where new: "New t i at p src = Inr ev"
    and seq: "WithSequence (next_sequence (AggregateType ev) (AggregateID ev) db) ev = Inr ev'"
    and ins: "insert_outbox (event_row ev') db = Inr db'"
    by (auto simp: appendPlatformEventTx_def tx_simps Let_def)
  note n = New_Inr [OF new]
  from seq WithSequence_New [OF new, of "next_sequence (AggregateType ev) (AggregateID ev) db"]
  have ev': "ev' = ev\<lparr>Sequence := next_sequence (AggregateType ev) (AggregateID ev) db\<rparr>" by simp
  have "Event_Validate ev' = Inr ()"
    using n validate_sequence [of ev] by (simp add: ev' Event_Validate_def)
  with n ev' ins show ?thesis
    by (intro that [of "event_row ev'"]) (auto simp: next_event_def)
qed

lemma insert_outbox_Inr:
  "insert_outbox ob db = Inr db' \<Longrightarrow>
     db' = db\<lparr>platform_outbox := platform_outbox db @ [ob\<lparr>ob_id := next_id ob_id (platform_outbox db)\<rparr>]\<rparr>"
  by (auto simp: insert_outbox_def insert_row_def split: if_splits)

lemma appendPlatformEventTx_writes: "appendPlatformEventTx src t i at p db = Inr db' \<Longrightarrow> writes {Outbox} db db'"
  by (erule appendPlatformEventTx_Inr) (auto intro: stmt_writes stmt.intros)

text \<open>What every event-writing helper guarantees: one valid event is appended, nothing else changes.\<close>

definition appends_event :: "gotime \<Rightarrow> db \<Rightarrow> db \<Rightarrow> bool" where
  "appends_event at db db' \<longleftrightarrow>
     writes {Outbox} db db' \<and>
     (\<exists>r. platform_outbox db' = platform_outbox db @ [r] \<and> Event_Validate (row_event r) = Inr () \<and>
          ob_occurred_at r = at \<and> ob_published_at r = None)"

lemma appendPlatformEventTx_appends:
  assumes "appendPlatformEventTx src t i at p db = Inr db'"
  shows "appends_event at db db'"
proof -
  from assms obtain ob where "next_event ob db" "insert_outbox ob db = Inr db'" "ob_occurred_at ob = at"
    by (rule appendPlatformEventTx_Inr)
  then show ?thesis
    using appendPlatformEventTx_writes [OF assms] insert_outbox_Inr [of ob db db']
    by (auto simp: appends_event_def next_event_def row_event_def)
qed

lemma append_helpers:
  "appendOrganisationEventTx src n d1 at db = Inr db' \<Longrightarrow> appends_event at db db'"
  "appendWorkspaceEventTx src n d2 organisationID at db = Inr db' \<Longrightarrow> appends_event at db db'"
  "appendProductEventTx src n d3 at db = Inr db' \<Longrightarrow> appends_event at db db'"
  "appendAccessEventTx src n d3 at db = Inr db' \<Longrightarrow> appends_event at db db'"
  by (auto simp: appendOrganisationEventTx_def appendWorkspaceEventTx_def appendProductEventTx_def
      appendAccessEventTx_def split: option.splits if_splits intro: appendPlatformEventTx_appends)

section \<open>The log is read completely and in order\<close>

lemma contiguous_nth:
  assumes "contiguous f rows" and "k < length rows"
  shows "f (rows ! k) = int k + 1"
proof -
  have "map f rows ! k = map int [1..<Suc (length rows)] ! k"
    using assms(1) by (simp only: contiguous_def)
  with assms(2) show ?thesis by (simp del: upt_Suc)
qed

lemma contiguous_sorted: "contiguous f rows \<Longrightarrow> sorted (map f rows)"
  unfolding contiguous_def by (simp del: upt_Suc add: sorted_map)

lemma sort_key_sorted: "sorted (map f xs) \<Longrightarrow> sort_key f xs = xs"
  by (induction xs) (auto simp: insort_is_Cons)

lemma contiguous_after:
  assumes "contiguous f rows" and "0 \<le> n"
  shows "filter (\<lambda>r. n < f r) rows = drop (nat n) rows"
  using assms
proof (induction rows rule: rev_induct)
  case (snoc r rows)
  then show ?case by (cases "nat n \<le> length rows") (auto simp: contiguous_snoc)
qed simp

lemma sort_key_filter_contiguous: "contiguous f rows \<Longrightarrow> sort_key f (filter P rows) = filter P rows"
  by (simp add: contiguous_sorted sort_key_sorted sorted_filter)

lemma max_cursor_contiguous:
  assumes "contiguous ob_id rows"
  shows "max_cursor rows = int (length rows)"
proof (cases rows)
  case (Cons r rs)
  have "foldr (\<lambda>q m. max (ob_id q) m) qs 1 = max 1 (foldr max (map ob_id qs) 0)" for qs :: "outbox_row list"
    by (induction qs) auto
  moreover have "ob_id r = 1" using assms contiguous_nth [of ob_id rows 0] Cons by simp
  ultimately show ?thesis using contiguous_max [OF assms] Cons by (simp add: max_cursor_def del: foldr_map)
qed (simp add: max_cursor_def)

lemma min_cursor_contiguous:
  assumes "contiguous ob_id rows"
  shows "min_cursor rows = (if rows = [] then 0 else 1)"
proof (cases rows)
  case (Cons r rs)
  have "1 \<le> ob_id q" if "q \<in> set rows" for q
    using that assms by (auto simp: in_set_conv_nth contiguous_nth)
  moreover have "ob_id r = 1" using assms contiguous_nth [of ob_id rows 0] Cons by simp
  moreover have "foldr (\<lambda>q m. min (ob_id q) m) qs 1 = 1" if "\<forall>q \<in> set qs. 1 \<le> ob_id q" for qs :: "outbox_row list"
    using that by (induction qs) (auto simp: min_def)
  ultimately show ?thesis using Cons by (simp add: min_cursor_def)
qed (simp add: min_cursor_def)

lemma read_feed_contiguous:
  assumes "contiguous ob_id rows" and "list_all (\<lambda>r. Event_Validate (row_event r) = Inr ()) rows"
  shows "read_feed (int n) (take m (drop n rows)) =
    Inr (map (\<lambda>r. outbox_event (ob_id r) r) (take m (drop n rows)))"
proof (induction m arbitrary: n)
  case (Suc m)
  show ?case
  proof (cases "n < length rows")
    case True
    then have "drop n rows = rows ! n # drop (Suc n) rows" by (rule Cons_nth_drop_Suc [symmetric])
    moreover have "Event_Validate (row_event (rows ! n)) = Inr ()"
      using True assms(2) by (auto simp: list_all_length)
    ultimately show ?thesis
      using contiguous_nth [OF assms(1) True] Suc [of "Suc n"] by (simp add: add.commute)
  qed simp
qed simp

text \<open>
  C8: The cursor feed is exact. On a database whose outbox is a gap-free log of valid
  events, a read after any cursor of the log succeeds and returns precisely the next events in
  log order, at most the requested number; it says there is more exactly when there is, and
  then gives the cursor of the last event returned, so that reading on from it skips and
  repeats nothing.
\<close>

theorem feed_page:
  assumes "outbox_ok db" and "begin_ok e" and "0 < limit" and "limit \<le> 500"
    and "n \<le> length (platform_outbox db)"
  shows "ListPlatformEventsAfter e (int n) limit db =
    Inr \<lparr>Feed_Events = map (\<lambda>r. outbox_event (ob_id r) r) (take (nat limit) (drop n (platform_outbox db))),
         Feed_SourceCursor = int (length (platform_outbox db)), Feed_RetentionHorizon = 0,
         Feed_NextCursor =
           (if int n + limit < int (length (platform_outbox db)) then int n + limit else 0),
         Feed_HasMore = (int n + limit < int (length (platform_outbox db)))\<rparr>"
proof -
  let ?rows = "platform_outbox db"
  have ok: "contiguous ob_id ?rows" "list_all (\<lambda>r. Event_Validate (row_event r) = Inr ()) ?rows"
    using assms(1) by (auto simp: outbox_ok_def)
  have page: "take (nat (limit + 1)) (sort_key ob_id (filter (\<lambda>r. int n < ob_id r) ?rows)) =
      take (nat (limit + 1)) (drop n ?rows)"
    unfolding sort_key_filter_contiguous [OF ok(1)] by (simp add: contiguous_after [OF ok(1)])
  have last: "GlobalCursor (last (map (\<lambda>r. outbox_event (ob_id r) r) (take (nat limit) (drop n ?rows)))) =
      int n + limit" if "int n + limit < int (length ?rows)"
  proof -
    have "last (take (nat limit) (drop n ?rows)) = ?rows ! (n + nat limit - 1)"
      using that assms(3) by (subst last_conv_nth) (auto simp: min_def)
    with that assms(3) contiguous_nth [OF ok(1), of "n + nat limit - 1"] show ?thesis
      by (subst last_map) (auto simp: outbox_event_def Event.extend_def)
  qed
  show ?thesis
    using assms(2-5) last read_feed_contiguous [OF ok, of n "nat (limit + 1)"]
      max_cursor_contiguous [OF ok(1)] min_cursor_contiguous [OF ok(1)]
    by (auto simp: ListPlatformEventsAfter_def page Let_def min_def take_map take_all_iff)
qed

section \<open>An event is published once\<close>

definition published :: "string list \<Rightarrow> gotime \<Rightarrow> db \<Rightarrow> db" where
  "published ids at db =
     db\<lparr>platform_outbox := update_where (\<lambda>r. ob_event_id r \<in> set ids \<and> ob_published_at r = None)
        (\<lambda>r. r\<lparr>ob_published_at := Some at\<rparr>) (platform_outbox db)\<rparr>"

definition pending :: "db \<Rightarrow> string \<Rightarrow> bool" where
  "pending db i \<longleftrightarrow> list_ex (\<lambda>r. ob_event_id r = i \<and> ob_published_at r = None) (platform_outbox db)"

lemma count_pos: "count_where P rows = 1 \<Longrightarrow> list_ex P rows"
  by (induction rows) (auto simp: count_where_def split: if_splits)

lemma published_Cons: "published ids at (publish_event i at db) = published (i # ids) at db"
  by (simp add: published_def publish_event_def update_where_def)

lemma pending_publish: "pending (publish_event i at db) j \<longleftrightarrow> pending db j \<and> j \<noteq> i"
  by (auto simp: pending_def publish_event_def update_where_def list_ex_iff)

lemma mark_published_writes: "mark_published seen xs at db = Inr (u, db') \<Longrightarrow> writes {Outbox} db db'"
  by (induction seen xs at db rule: mark_published.induct)
    (auto simp: Let_def split: if_splits intro: writes_trans [OF update_writes(15)])

interpretation publish_events: store_op "{Outbox}" "\<lambda>(ids, at) e. MarkPlatformEventsPublished e ids at"
  by unfold_locales
    (auto simp: MarkPlatformEventsPublished_def tx_simps split: if_splits dest: with_tx_Inl mark_published_writes)

lemma mark_published_Inr:
  "mark_published seen xs at db = Inr ((), db') \<Longrightarrow>
     db' = published (map TrimSpace xs) at db \<and> distinct (map TrimSpace xs) \<and>
     (\<forall>i \<in> set (map TrimSpace xs). i \<notin> set seen \<and> pending db i)"
proof (induction seen xs at db rule: mark_published.induct)
  case (1 seen at db)
  then show ?case by (simp add: published_def update_where_none)
next
  case (2 seen x xs at db)
  let ?i = "TrimSpace x"
  from 2(2) have one: "?i \<noteq> []" "?i \<notin> set seen"
      "count_where (\<lambda>r. ob_event_id r = ?i \<and> ob_published_at r = None) (platform_outbox db) = 1"
    and rest: "mark_published (?i # seen) xs at (publish_event ?i at db) = Inr ((), db')"
    by (auto simp: Let_def split: if_splits)
  then show ?case
    using "2.IH" [OF refl _ _ _ rest] count_pos [OF one(3)]
    by (auto simp: published_Cons pending_publish) (auto simp: pending_def)
qed

text \<open>
  C10: Marking events published is exact and happens once. A successful call
  had only pending, pairwise distinct events; it stamps those and changes nothing else; and any
  later call that names one of them again is refused and changes nothing.
\<close>

theorem publish_once:
  assumes "MarkPlatformEventsPublished e ids at db = (Inr (), db')"
  shows "db' = published (map TrimSpace ids) at db \<and> distinct (map TrimSpace ids) \<and>
    list_all (pending db) (map TrimSpace ids) \<and>
    (\<forall>x e2 ids2 at2. x \<in> set ids \<and> x \<in> set ids2 \<longrightarrow>
       (\<exists>err. MarkPlatformEventsPublished e2 ids2 at2 db' = (Inl err, db')))"
proof -
  have m: "mark_published [] ids at db = Inr ((), db')"
    using assms by (auto simp: MarkPlatformEventsPublished_def tx_simps split: if_splits)
  note p = mark_published_Inr [OF m]
  have gone: "\<not> pending db' (TrimSpace x)" if "x \<in> set ids" for x
    using p that by (auto simp: published_def pending_def update_where_def list_ex_iff)
  have "\<exists>err. MarkPlatformEventsPublished e2 ids2 at2 db' = (Inl err, db')"
    if "x \<in> set ids" "x \<in> set ids2" for x e2 ids2 at2
  proof (cases "MarkPlatformEventsPublished e2 ids2 at2 db'")
    case (Pair r d)
    show ?thesis
    proof (cases r)
      case (Inl err)
      with Pair show ?thesis
        by (auto simp: MarkPlatformEventsPublished_def split: if_splits dest: with_tx_Inl)
    next
      case (Inr u)
      with Pair have "mark_published [] ids2 at2 db' = Inr ((), d)"
        by (auto simp: MarkPlatformEventsPublished_def tx_simps split: if_splits)
      from mark_published_Inr [OF this] that gone show ?thesis by auto
    qed
  qed
  with p show ?thesis by (auto simp: list_all_iff)
qed

text \<open>
  C9: Appending an event to a gap-free outbox keeps it gap-free and adds
  exactly one row: its cursor is one above the last, its sequence one above the last of the same
  aggregate, and the event in it is valid and not yet published.
\<close>

theorem append_numbered:
  assumes "outbox_ok db" and "appendPlatformEventTx src t i at p db = Inr db'"
  shows "outbox_ok db' \<and> (\<exists>r. platform_outbox db' = platform_outbox db @ [r] \<and>
      ob_id r = int (length (platform_outbox db)) + 1 \<and>
      ob_sequence r = int (length (lane (ob_aggregate_type r) (ob_aggregate_id r) (platform_outbox db))) + 1 \<and>
      ob_event_type r = t \<and> ob_aggregate_id r = TrimSpace i \<and> ob_payload r = Marshal_map p \<and>
      Event_Validate (row_event r) = Inr () \<and> ob_published_at r = None)"
proof -
  from assms(2) obtain ob where ob: "next_event ob db" "insert_outbox ob db = Inr db'"
      "ob_event_type ob = t" "ob_aggregate_id ob = TrimSpace i" "ob_payload ob = Marshal_map p"
    by (rule appendPlatformEventTx_Inr)
  have "outbox_ok db'"
    using ob(1,2) assms(1) by (blast intro: stmt_outbox_ok stmt.intros)
  with ob insert_outbox_Inr [OF ob(2)] assms(1) show ?thesis
    by (auto simp: next_event_def outbox_ok_def contiguous_next_id next_sequence_lane row_event_def)
qed

end
