(* ===== verification/Domain.thy ===== *)
theory Domain
  imports GoTime
begin

text \<open>
  The entities of \<^verbatim>\<open>internal/domain\<close> with their validators, role predicates and identifier
  constructors. Statuses and roles are strings, as in the source.
\<close>

section \<open>Organisations\<close>

abbreviation "OrganisationActive \<equiv> ''active''"
abbreviation "OrganisationArchived \<equiv> ''archived''"
abbreviation "OrganisationOwner \<equiv> ''owner''"
abbreviation "OrganisationAdmin \<equiv> ''admin''"
abbreviation "OrganisationMember \<equiv> ''member''"

record Organisation =
  Org_ID :: string
  Org_Name :: string
  Org_Status :: string
  Org_CreatedAt :: gotime
  Org_ArchivedAt :: "gotime option"

record OrganisationMembership =
  OMem_ID :: string
  OMem_OrganisationID :: string
  OMem_UserID :: string
  OMem_Role :: string
  OMem_Active :: bool
  OMem_AssignedBy :: string
  OMem_AssignedAt :: gotime
  OMem_RemovedBy :: string
  OMem_RemovedAt :: "gotime option"
  OMem_RemovalReason :: string

definition NewOrganisationID :: "(nat \<Rightarrow> char) option \<Rightarrow> string result" where
  "NewOrganisationID src = random_id ''org_'' src"

definition NewOrganisationMembershipID :: "(nat \<Rightarrow> char) option \<Rightarrow> string result" where
  "NewOrganisationMembershipID src = random_id ''omem_'' src"

definition OrganisationRole_Valid :: "string \<Rightarrow> bool" where
  "OrganisationRole_Valid r \<longleftrightarrow> r = OrganisationOwner \<or> r = OrganisationAdmin \<or> r = OrganisationMember"

definition OrganisationRole_CanAdminister :: "string \<Rightarrow> bool" where
  "OrganisationRole_CanAdminister r \<longleftrightarrow> r = OrganisationOwner \<or> r = OrganisationAdmin"

definition Organisation_Validate :: "Organisation \<Rightarrow> unit result" where
  "Organisation_Validate x =
     (if \<not> valid_id ''org_'' (Org_ID x) then Inl (Domain ErrInvalidOrganisationID)
      else if TrimSpace (Org_Name x) = [] \<or> 200 < length (TrimSpace (Org_Name x))
      then Inl (Domain ErrInvalidOrganisationName)
      else if Org_Status x \<noteq> OrganisationActive \<and> Org_Status x \<noteq> OrganisationArchived
      then Inl (Domain ErrInvalidOrganisationStatus)
      else if Org_Status x = OrganisationArchived \<and> Org_ArchivedAt x = None
      then Inl (Domain ErrInvalidOrganisation)
      else Inr ())"

definition OrganisationMembership_Validate :: "OrganisationMembership \<Rightarrow> unit result" where
  "OrganisationMembership_Validate m =
     (if \<not> valid_id ''omem_'' (OMem_ID m) then Inl (Domain ErrInvalidMembership)
      else if \<not> valid_id ''org_'' (OMem_OrganisationID m) then Inl (Domain ErrInvalidMembership)
      else if \<not> valid_id ''usr_'' (OMem_UserID m) then Inl (Domain ErrInvalidMembership)
      else if \<not> valid_id ''usr_'' (OMem_AssignedBy m) then Inl (Domain ErrInvalidMembership)
      else if OMem_Role m \<noteq> OrganisationOwner \<and> OMem_Role m \<noteq> OrganisationAdmin \<and>
              OMem_Role m \<noteq> OrganisationMember
      then Inl (Domain ErrInvalidOrganisationRole)
      else if IsZero (OMem_AssignedAt m) then Inl (Domain ErrInvalidMembership)
      else if \<not> OMem_Active m \<and>
              (OMem_RemovedAt m = None \<or> TrimSpace (OMem_RemovedBy m) = [] \<or>
               TrimSpace (OMem_RemovalReason m) = [])
      then Inl (Domain ErrInvalidMembership)
      else Inr ())"

section \<open>Workspaces\<close>

abbreviation "WorkspaceActive \<equiv> ''active''"
abbreviation "WorkspaceArchived \<equiv> ''archived''"
abbreviation "WorkspaceAdmin \<equiv> ''admin''"
abbreviation "WorkspaceMember \<equiv> ''member''"
abbreviation "WorkspaceViewer \<equiv> ''viewer''"

record Workspace =
  Wsp_ID :: string
  Wsp_OrganisationID :: string
  Wsp_Name :: string
  Wsp_Status :: string
  Wsp_CreatedAt :: gotime
  Wsp_ArchivedAt :: "gotime option"

record WorkspaceMembership =
  WMem_ID :: string
  WMem_WorkspaceID :: string
  WMem_UserID :: string
  WMem_Role :: string
  WMem_Active :: bool
  WMem_AssignedBy :: string
  WMem_AssignedAt :: gotime
  WMem_RemovedBy :: string
  WMem_RemovedAt :: "gotime option"
  WMem_RemovalReason :: string

definition NewWorkspaceID :: "(nat \<Rightarrow> char) option \<Rightarrow> string result" where
  "NewWorkspaceID src = random_id ''wsp_'' src"

definition NewWorkspaceMembershipID :: "(nat \<Rightarrow> char) option \<Rightarrow> string result" where
  "NewWorkspaceMembershipID src = random_id ''wmem_'' src"

definition WorkspaceRole_Valid :: "string \<Rightarrow> bool" where
  "WorkspaceRole_Valid r \<longleftrightarrow> r = WorkspaceAdmin \<or> r = WorkspaceMember \<or> r = WorkspaceViewer"

definition WorkspaceRole_CanAdminister :: "string \<Rightarrow> bool" where
  "WorkspaceRole_CanAdminister r \<longleftrightarrow> r = WorkspaceAdmin"

definition Workspace_Validate :: "Workspace \<Rightarrow> unit result" where
  "Workspace_Validate w =
     (if \<not> valid_id ''wsp_'' (Wsp_ID w) then Inl (Domain ErrInvalidWorkspaceID)
      else if \<not> valid_id ''org_'' (Wsp_OrganisationID w) then Inl (Domain ErrInvalidWorkspace)
      else if TrimSpace (Wsp_Name w) = [] \<or> 200 < length (TrimSpace (Wsp_Name w))
      then Inl (Domain ErrInvalidWorkspaceName)
      else if Wsp_Status w \<noteq> WorkspaceActive \<and> Wsp_Status w \<noteq> WorkspaceArchived
      then Inl (Domain ErrInvalidWorkspaceStatus)
      else if Wsp_Status w = WorkspaceArchived \<and> Wsp_ArchivedAt w = None
      then Inl (Domain ErrInvalidWorkspace)
      else if IsZero (Wsp_CreatedAt w) then Inl (Domain ErrInvalidWorkspace)
      else Inr ())"

definition WorkspaceMembership_Validate :: "WorkspaceMembership \<Rightarrow> unit result" where
  "WorkspaceMembership_Validate m =
     (if \<not> valid_id ''wmem_'' (WMem_ID m) then Inl (Domain ErrInvalidWorkspaceMember)
      else if \<not> valid_id ''wsp_'' (WMem_WorkspaceID m) then Inl (Domain ErrInvalidWorkspaceMember)
      else if \<not> valid_id ''usr_'' (WMem_UserID m) then Inl (Domain ErrInvalidWorkspaceMember)
      else if \<not> valid_id ''usr_'' (WMem_AssignedBy m) then Inl (Domain ErrInvalidWorkspaceMember)
      else if \<not> WorkspaceRole_Valid (WMem_Role m) \<or> IsZero (WMem_AssignedAt m)
      then Inl (Domain ErrInvalidWorkspaceMember)
      else if \<not> WMem_Active m \<and>
              (WMem_RemovedAt m = None \<or> \<not> HasPrefix (WMem_RemovedBy m) ''usr_'' \<or>
               TrimSpace (WMem_RemovalReason m) = [])
      then Inl (Domain ErrInvalidWorkspaceMember)
      else Inr ())"

section \<open>Products\<close>

abbreviation "ProductActive \<equiv> ''active''"
abbreviation "ProductRetired \<equiv> ''retired''"
abbreviation "EntitlementActive \<equiv> ''active''"
abbreviation "EntitlementRevoked \<equiv> ''revoked''"
abbreviation "AssignmentActive \<equiv> ''active''"
abbreviation "AssignmentRevoked \<equiv> ''revoked''"

record Product =
  Prod_Key :: string
  Prod_DisplayName :: string
  Prod_Status :: string
  Prod_CreatedAt :: gotime
  Prod_RetiredAt :: "gotime option"

record OrganisationProductEntitlement =
  Ent_ID :: string
  Ent_OrganisationID :: string
  Ent_ProductKey :: string
  Ent_Status :: string
  Ent_Active :: bool
  Ent_GrantedBy :: string
  Ent_GrantedAt :: gotime
  Ent_RevokedBy :: string
  Ent_RevokedAt :: "gotime option"
  Ent_RevocationReason :: string

record UserProductAssignment =
  Asg_ID :: string
  Asg_UserID :: string
  Asg_OrganisationID :: string
  Asg_ProductKey :: string
  Asg_Status :: string
  Asg_Active :: bool
  Asg_AssignedBy :: string
  Asg_AssignedAt :: gotime
  Asg_RevokedBy :: string
  Asg_RevokedAt :: "gotime option"
  Asg_RevocationReason :: string

definition NewOrganisationProductEntitlementID :: "(nat \<Rightarrow> char) option \<Rightarrow> string result" where
  "NewOrganisationProductEntitlementID src = random_id ''ent_'' src"

definition NewUserProductAssignmentID :: "(nat \<Rightarrow> char) option \<Rightarrow> string result" where
  "NewUserProductAssignmentID src = random_id ''upa_'' src"

definition Product_Validate :: "Product \<Rightarrow> unit result" where
  "Product_Validate p =
     (if \<not> valid_id ''product.'' (Prod_Key p) then Inl (Domain ErrInvalidProductKey)
      else if TrimSpace (Prod_DisplayName p) = [] \<or> 200 < length (Prod_DisplayName p)
      then Inl (Domain ErrInvalidProduct)
      else if Prod_Status p \<noteq> ProductActive \<and> Prod_Status p \<noteq> ProductRetired
      then Inl (Domain ErrInvalidProductStatus)
      else if Prod_Status p = ProductRetired \<and> Prod_RetiredAt p = None then Inl (Domain ErrInvalidProduct)
      else if Prod_Status p = ProductActive \<and> Prod_RetiredAt p \<noteq> None then Inl (Domain ErrInvalidProduct)
      else if IsZero (Prod_CreatedAt p) then Inl (Domain ErrInvalidProduct)
      else Inr ())"

definition OrganisationProductEntitlement_Validate :: "OrganisationProductEntitlement \<Rightarrow> unit result" where
  "OrganisationProductEntitlement_Validate x =
     (if \<not> valid_id ''ent_'' (Ent_ID x) then Inl (Domain ErrInvalidEntitlementID)
      else if \<not> valid_id ''org_'' (Ent_OrganisationID x) \<or> \<not> valid_id ''product.'' (Ent_ProductKey x) \<or>
              \<not> valid_id ''usr_'' (Ent_GrantedBy x)
      then Inl (Domain ErrInvalidEntitlement)
      else if Ent_Status x \<noteq> EntitlementActive \<and> Ent_Status x \<noteq> EntitlementRevoked
      then Inl (Domain ErrInvalidEntitlementStatus)
      else if IsZero (Ent_GrantedAt x) then Inl (Domain ErrInvalidEntitlement)
      else if Ent_Status x = EntitlementRevoked \<and>
              (Ent_RevokedAt x = None \<or> \<not> HasPrefix (Ent_RevokedBy x) ''usr_'' \<or>
               TrimSpace (Ent_RevocationReason x) = [])
      then Inl (Domain ErrInvalidEntitlement)
      else if Ent_Status x = EntitlementActive \<and>
              (Ent_RevokedAt x \<noteq> None \<or> Ent_RevokedBy x \<noteq> [] \<or> Ent_RevocationReason x \<noteq> [])
      then Inl (Domain ErrInvalidEntitlement)
      else Inr ())"

definition UserProductAssignment_Validate :: "UserProductAssignment \<Rightarrow> unit result" where
  "UserProductAssignment_Validate a =
     (if \<not> valid_id ''upa_'' (Asg_ID a) then Inl (Domain ErrInvalidProductAssignmentID)
      else if \<not> valid_id ''usr_'' (Asg_UserID a) \<or> \<not> valid_id ''org_'' (Asg_OrganisationID a) \<or>
              \<not> valid_id ''product.'' (Asg_ProductKey a) \<or> \<not> valid_id ''usr_'' (Asg_AssignedBy a)
      then Inl (Domain ErrInvalidProductAssignment)
      else if Asg_Status a \<noteq> AssignmentActive \<and> Asg_Status a \<noteq> AssignmentRevoked
      then Inl (Domain ErrInvalidProductAssignmentStatus)
      else if IsZero (Asg_AssignedAt a) then Inl (Domain ErrInvalidProductAssignment)
      else if Asg_Status a = AssignmentRevoked \<and>
              (Asg_RevokedAt a = None \<or> \<not> HasPrefix (Asg_RevokedBy a) ''usr_'' \<or>
               TrimSpace (Asg_RevocationReason a) = [])
      then Inl (Domain ErrInvalidProductAssignment)
      else if Asg_Status a = AssignmentActive \<and>
              (Asg_RevokedAt a \<noteq> None \<or> Asg_RevokedBy a \<noteq> [] \<or> Asg_RevocationReason a \<noteq> [])
      then Inl (Domain ErrInvalidProductAssignment)
      else Inr ())"

section \<open>Users\<close>

text \<open>
  \<^verbatim>\<open>strings.ToLower\<close> and \<^verbatim>\<open>strings.ToUpper\<close> on ASCII text change letters byte by byte. On text
  outside ASCII they follow the Unicode case tables of Go's \<^verbatim>\<open>unicode\<close> package, which are a
  parameter here.
\<close>

definition ToLower :: "(string \<Rightarrow> string) \<Rightarrow> string \<Rightarrow> string" where
  "ToLower unicode_lower s = (if is_ascii s then map ascii_lower s else unicode_lower s)"

definition ToUpper :: "(string \<Rightarrow> string) \<Rightarrow> string \<Rightarrow> string" where
  "ToUpper unicode_upper s = (if is_ascii s then map ascii_upper s else unicode_upper s)"

record User =
  Usr_ID :: string
  Usr_Email :: string
  Usr_DisplayName :: string
  Usr_PasswordHash :: string
  Usr_Active :: bool
  Usr_MFAEnabled :: bool
  Usr_CreatedAt :: gotime
  Usr_LastLoginAt :: "gotime option"

definition NewUserID :: "(nat \<Rightarrow> char) option \<Rightarrow> string result" where
  "NewUserID src = random_id ''usr_'' src"

definition NormalizeEmail :: "(string \<Rightarrow> string) \<Rightarrow> string \<Rightarrow> string" where
  "NormalizeEmail unicode_lower email = ToLower unicode_lower (TrimSpace email)"

definition User_Validate :: "(string \<Rightarrow> string) \<Rightarrow> User \<Rightarrow> unit result" where
  "User_Validate unicode_lower u =
     (if \<not> valid_id ''usr_'' (Usr_ID u) then Inl (Domain ErrInvalidPublicID)
      else if CHR ''@'' \<notin> set (NormalizeEmail unicode_lower (Usr_Email u)) then Inl (Domain ErrInvalidEmail)
      else if TrimSpace (Usr_DisplayName u) = [] then Inl (Domain ErrInvalidUser)
      else Inr ())"

section \<open>Facts\<close>

lemma OrganisationRole_admin_valid: "OrganisationRole_CanAdminister r \<Longrightarrow> OrganisationRole_Valid r"
  by (auto simp: OrganisationRole_CanAdminister_def OrganisationRole_Valid_def)

lemma WorkspaceRole_admin_valid: "WorkspaceRole_CanAdminister r \<Longrightarrow> WorkspaceRole_Valid r"
  by (simp add: WorkspaceRole_CanAdminister_def WorkspaceRole_Valid_def)

lemma ascii_lower_idem: "ascii_lower (ascii_lower c) = ascii_lower c"
proof (cases "65 \<le> (of_char c :: nat) \<and> (of_char c :: nat) \<le> 90")
  case True
  then have "of_char (ascii_lower c) = (of_char c + 32 :: nat)"
    by (simp add: ascii_lower_def Let_def)
  with True show ?thesis by (simp add: ascii_lower_def Let_def)
next
  case False
  then show ?thesis by (auto simp: ascii_lower_def Let_def)
qed

end
