(* ===== verification/Organisation.thy ===== *)
theory Organisation
  imports Outbox Domain
begin

text \<open>
  Organisations and their memberships (\<^verbatim>\<open>internal/db/sqlite/organisation.go\<close>): creation,
  membership changes, archiving, renaming and the reads, with their authority checks. Every
  mutation writes its audit row and its outbox event in the same transaction.
\<close>

section \<open>Shared helpers\<close>

abbreviation "auditOrganisation \<equiv> ''Organisation''"

definition validateMutationReason :: "string \<Rightarrow> unit result" where
  "validateMutationReason reason =
     (if TrimSpace reason = [] \<or> 500 < length (TrimSpace reason) then Inl (Domain ErrInvalidReason)
      else Inr ())"

text \<open>\<^verbatim>\<open>EXISTS(SELECT 1 FROM system_role_assignments WHERE user_id=? AND role='system_admin' AND active=1)\<close>\<close>

definition system_admin :: "int \<Rightarrow> db \<Rightarrow> bool" where
  "system_admin uid db =
     list_ex (\<lambda>s. sra_user_id s = uid \<and> sra_role s = ''system_admin'' \<and> sra_active s)
       (system_role_assignments db)"

text \<open>\<^verbatim>\<open>SELECT id FROM users WHERE public_id=? AND active=1\<close>\<close>

definition active_user :: "string \<Rightarrow> db \<Rightarrow> int option" where
  "active_user pid db = map_option u_id (find (\<lambda>u. u_public_id u = pid \<and> u_active u) (users db))"

definition organisation_row :: "string \<Rightarrow> db \<Rightarrow> org_row option" where
  "organisation_row pid db = find (\<lambda>r. o_public_id r = pid) (organisations db)"

text \<open>\<^verbatim>\<open>SELECT role FROM organisation_memberships WHERE organisation_id=? AND user_id=? AND active=1\<close>\<close>

definition current_role :: "int \<Rightarrow> int \<Rightarrow> db \<Rightarrow> string option" where
  "current_role org uid db =
     map_option om_role (find (\<lambda>m. om_organisation_id m = org \<and> om_user_id m = uid \<and> om_active m)
       (organisation_memberships db))"

text \<open>
  \<^verbatim>\<open>FROM organisation_memberships m JOIN users u ON u.id=m.user_id AND u.active=1
  WHERE m.organisation_id=? AND u.public_id=? AND m.active=1\<close>
\<close>

definition current_membership :: "int \<Rightarrow> string \<Rightarrow> db \<Rightarrow> om_row option" where
  "current_membership org pid db =
     find (\<lambda>m. om_organisation_id m = org \<and> om_active m \<and>
               list_ex (\<lambda>u. u_id u = om_user_id m \<and> u_active u \<and> u_public_id u = pid) (users db))
       (organisation_memberships db)"

definition activeUserIDTx :: "string \<Rightarrow> db \<Rightarrow> int result" where
  "activeUserIDTx publicID db =
     need (Store ErrUnauthorisedOrganisationAction) (active_user (TrimSpace publicID) db)"

definition authorisedOrganisationMutationTx ::
    "string \<Rightarrow> string \<Rightarrow> db \<Rightarrow> (int \<times> string \<times> int \<times> bool) result" where
  "authorisedOrganisationMutationTx actorUserID organisationID db =
     attempt (need (Store ErrUnauthorisedOrganisationAction) (active_user actorUserID db)) (\<lambda>actor.
     attempt (need (Store ErrOrganisationNotFound) (organisation_row organisationID db)) (\<lambda>org.
     if o_status org \<noteq> OrganisationActive then Inl (Store ErrOrganisationArchived)
     else if system_admin actor db then Inr (actor, [], o_id org, True)
     else attempt (need (Store ErrUnauthorisedOrganisationAction) (current_role (o_id org) actor db)) (\<lambda>role.
       if \<not> OrganisationRole_CanAdminister role then Inl (Store ErrUnauthorisedOrganisationAction)
       else Inr (actor, role, o_id org, False))))"

definition authorisedOrganisationRead :: "string \<Rightarrow> string \<Rightarrow> bool \<Rightarrow> db \<Rightarrow> int result" where
  "authorisedOrganisationRead requesterUserID organisationID adminOnly db =
     attempt (need (Store ErrOrganisationNotFound) (organisation_row organisationID db)) (\<lambda>org.
     if o_status org \<noteq> OrganisationActive then Inl (Store ErrOrganisationArchived)
     else attempt (need (Store ErrUnauthorisedOrganisationAction) (active_user requesterUserID db)) (\<lambda>uid.
       if system_admin uid db then Inr (o_id org)
       else attempt (need (Store ErrUnauthorisedOrganisationAction) (current_role (o_id org) uid db)) (\<lambda>role.
         if adminOnly \<and> \<not> OrganisationRole_CanAdminister role
         then Inl (Store ErrUnauthorisedOrganisationAction)
         else Inr (o_id org))))"

definition organisation_details :: "organisationMutationDetails \<Rightarrow> string" where
  "organisation_details d =
     Marshal (JObj ([(''organisation_id'', JStr (OrgD_OrganisationID d))] @
       omitempty ''membership_id'' (OrgD_MembershipID d) @ omitempty ''user_id'' (OrgD_UserID d) @
       omitempty ''role'' (OrgD_Role d) @ omitempty ''name'' (OrgD_Name d) @
       omitempty ''reason'' (OrgD_Reason d)))"

definition recordOrganisationAuditTx ::
    "(nat \<Rightarrow> char) option \<Rightarrow> int \<Rightarrow> string \<Rightarrow> string \<Rightarrow> organisationMutationDetails \<Rightarrow> gotime \<Rightarrow> db \<Rightarrow> db result" where
  "recordOrganisationAuditTx src actor organisationID event d at db =
     appendOrganisationEventTx src event d at
       (insert_audit actor auditOrganisation organisationID event (organisation_details d) at db)"

definition no_details :: "string \<Rightarrow> string \<Rightarrow> organisationMutationDetails" where
  "no_details organisationID reason =
     \<lparr>OrgD_OrganisationID = organisationID, OrgD_MembershipID = [], OrgD_UserID = [], OrgD_Role = [],
      OrgD_Name = [], OrgD_Reason = TrimSpace reason\<rparr>"

definition member_details :: "string \<Rightarrow> string \<Rightarrow> string \<Rightarrow> string \<Rightarrow> string \<Rightarrow> organisationMutationDetails" where
  "member_details organisationID membershipID userID role reason =
     (no_details organisationID reason)
       \<lparr>OrgD_MembershipID := membershipID, OrgD_UserID := userID, OrgD_Role := role\<rparr>"

definition new_om :: "string \<Rightarrow> int \<Rightarrow> int \<Rightarrow> string \<Rightarrow> int \<Rightarrow> gotime \<Rightarrow> int \<Rightarrow> om_row" where
  "new_om public_id org uid role assigned_by at version =
     \<lparr>om_id = 0, om_public_id = public_id, om_organisation_id = org, om_user_id = uid, om_role = role,
      om_active = True, om_assigned_by = assigned_by, om_assigned_at = at, om_removed_by = None,
      om_removed_at = None, om_removal_reason = [], om_version = version\<rparr>"

definition membership_value :: "string \<Rightarrow> string \<Rightarrow> string \<Rightarrow> string \<Rightarrow> bool \<Rightarrow> string \<Rightarrow> gotime \<Rightarrow> OrganisationMembership" where
  "membership_value i organisationID userID role active assignedBy at =
     \<lparr>OMem_ID = i, OMem_OrganisationID = organisationID, OMem_UserID = userID, OMem_Role = role,
      OMem_Active = active, OMem_AssignedBy = assignedBy, OMem_AssignedAt = at,
      OMem_RemovedBy = [], OMem_RemovedAt = None, OMem_RemovalReason = []\<rparr>"

text \<open>\<^verbatim>\<open>expectedVersion != nil && *expectedVersion != currentVersion\<close>\<close>

definition version_conflict :: "int option \<Rightarrow> int \<Rightarrow> bool" where
  "version_conflict expected current = (case expected of None \<Rightarrow> False | Some v \<Rightarrow> v \<noteq> current)"

section \<open>Mutations\<close>

definition createOrganisationTx ::
    "env \<Rightarrow> string \<Rightarrow> Organisation \<Rightarrow> string \<Rightarrow> string \<Rightarrow> db \<Rightarrow> ((Organisation \<times> OrganisationMembership) \<times> db) result" where
  "createOrganisationTx e actorUserID organisation membershipID reason db =
     attempt (activeUserIDTx actorUserID db) (\<lambda>actor.
     exec (insert_organisation
       \<lparr>o_id = 0, o_public_id = Org_ID organisation, o_name = Org_Name organisation,
        o_status = Org_Status organisation, o_created_at = Org_CreatedAt organisation,
        o_archived_at = None\<rparr> db) (\<lambda>db.
     attempt (need ErrNoRows (organisation_row (Org_ID organisation) db)) (\<lambda>org.
     exec (insert_om (new_om membershipID (o_id org) actor OrganisationOwner actor
            (Org_CreatedAt organisation) 1) db) (\<lambda>db.
     exec (recordOrganisationAuditTx (rand_read e 2) actor (Org_ID organisation) eventOrganisationCreated
            (no_details (Org_ID organisation) reason) (Org_CreatedAt organisation) db) (\<lambda>db.
     exec (recordOrganisationAuditTx (rand_read e 3) actor (Org_ID organisation) eventMembershipAdded
            (member_details (Org_ID organisation) membershipID actorUserID OrganisationOwner reason)
            (Org_CreatedAt organisation) db) (\<lambda>db.
     Inr ((organisation, membership_value membershipID (Org_ID organisation) actorUserID
             OrganisationOwner True actorUserID (Org_CreatedAt organisation)), db)))))))"

definition CreateOrganisation ::
    "env \<Rightarrow> string \<Rightarrow> Organisation \<Rightarrow> string \<Rightarrow> gotime \<Rightarrow> db \<Rightarrow>
     (Organisation \<times> OrganisationMembership) result \<times> db" where
  "CreateOrganisation e actorUserID organisation0 reason at db =
     prepare db
      (attempt (validateMutationReason reason) (\<lambda>_.
       attempt (if Org_ID organisation0 = [] then NewOrganisationID (rand_read e 0)
                else Inr (Org_ID organisation0)) (\<lambda>oid.
       let organisation = \<lparr>Org_ID = oid, Org_Name = TrimSpace (Org_Name organisation0),
                           Org_Status = OrganisationActive, Org_CreatedAt = at, Org_ArchivedAt = None\<rparr> in
       attempt (Organisation_Validate organisation) (\<lambda>_.
       if IsZero (Org_CreatedAt organisation) then Inl (ErrNew ''organisation creation time is required'')
       else attempt (NewOrganisationMembershipID (rand_read e 1)) (\<lambda>mid.
       Inr (organisation, mid))))))
      (\<lambda>(organisation, mid). with_tx e db (createOrganisationTx e actorUserID organisation mid reason))"

definition assignable_role :: "string \<Rightarrow> bool" where
  "assignable_role role \<longleftrightarrow> role = OrganisationAdmin \<or> role = OrganisationMember"

definition addOrganisationMemberTx ::
    "env \<Rightarrow> string \<Rightarrow> string \<Rightarrow> string \<Rightarrow> string \<Rightarrow> string \<Rightarrow> gotime \<Rightarrow> db \<Rightarrow> (OrganisationMembership \<times> db) result" where
  "addOrganisationMemberTx e actorUserID organisationID targetUserID role reason at db =
     (if \<not> assignable_role role then Inl (Domain ErrInvalidOrganisationRole)
      else attempt (validateMutationReason reason) (\<lambda>_.
      if IsZero at then Inl (ErrNew ''membership assignment time is required'')
      else attempt (NewOrganisationMembershipID (rand_read e 0)) (\<lambda>membershipID.
      attempt (authorisedOrganisationMutationTx actorUserID organisationID db)
        (\<lambda>(actor, actorRole, org, systemAdmin).
      if \<not> systemAdmin \<and> actorRole = OrganisationAdmin \<and> role = OrganisationAdmin
      then Inl (Store ErrUnauthorisedOrganisationAction)
      else attempt (activeUserIDTx targetUserID db) (\<lambda>target.
      if count_where (\<lambda>m. om_organisation_id m = org \<and> om_user_id m = target \<and> om_active m)
           (organisation_memberships db) \<noteq> 0
      then Inl (Store ErrDuplicateOrganisationMember)
      else exec (insert_om (new_om membershipID org target role actor at 1) db) (\<lambda>db.
      exec (recordOrganisationAuditTx (rand_read e 1) actor organisationID eventMembershipAdded
             (member_details organisationID membershipID targetUserID role reason) at db) (\<lambda>db.
      Inr (membership_value membershipID organisationID targetUserID role True actorUserID at, db))))))))"

definition AddOrganisationMember ::
    "env \<Rightarrow> string \<Rightarrow> string \<Rightarrow> string \<Rightarrow> string \<Rightarrow> string \<Rightarrow> gotime \<Rightarrow> db \<Rightarrow> OrganisationMembership result \<times> db" where
  "AddOrganisationMember e actorUserID organisationID targetUserID role reason at db =
     prepare db
      (if \<not> assignable_role role then Inl (Domain ErrInvalidOrganisationRole)
       else attempt (validateMutationReason reason) (\<lambda>_.
       if IsZero at then Inl (ErrNew ''membership assignment time is required'') else Inr ()))
      (\<lambda>_. with_tx e db (addOrganisationMemberTx e actorUserID organisationID targetUserID role reason at))"

definition changeOrganisationMemberRoleTx ::
    "env \<Rightarrow> string \<Rightarrow> string \<Rightarrow> string \<Rightarrow> string \<Rightarrow> string \<Rightarrow> gotime \<Rightarrow> int option \<Rightarrow> db \<Rightarrow>
     (OrganisationMembership \<times> db) result" where
  "changeOrganisationMemberRoleTx e actorUserID organisationID targetUserID role reason at expectedVersion db =
     (if \<not> assignable_role role then Inl (Domain ErrInvalidOrganisationRole)
      else attempt (validateMutationReason reason) (\<lambda>_.
      if IsZero at then Inl (ErrNew ''membership role change time is required'')
      else attempt (NewOrganisationMembershipID (rand_read e 0)) (\<lambda>membershipID.
      attempt (authorisedOrganisationMutationTx actorUserID organisationID db)
        (\<lambda>(actor, actorRole, org, systemAdmin).
      attempt (need (Store ErrMembershipNotFound) (current_membership org targetUserID db)) (\<lambda>current.
      if version_conflict expectedVersion (om_version current)
      then Inl (Store ErrMembershipCommandConflict)
      else if om_role current = OrganisationOwner then Inl (Store ErrOwnerMutationNotAuthorised)
      else if \<not> systemAdmin \<and> actorRole = OrganisationAdmin \<and> om_role current \<noteq> OrganisationMember
      then Inl (Store ErrUnauthorisedOrganisationAction)
      else if om_role current = role then Inl (Store ErrDuplicateOrganisationMember)
      else attempt (activeUserIDTx targetUserID db) (\<lambda>target.
      exec (deactivate_om (\<lambda>m. om_id m = om_id current) actor at (TrimSpace reason) db) (\<lambda>db.
      exec (insert_om (new_om membershipID org target role actor at (om_version current + 1)) db) (\<lambda>db.
      exec (recordOrganisationAuditTx (rand_read e 1) actor organisationID eventMembershipRoleChanged
             (member_details organisationID membershipID targetUserID role reason) at db) (\<lambda>db.
      Inr (membership_value membershipID organisationID targetUserID role True actorUserID at, db))))))))))"

definition ChangeOrganisationMemberRole ::
    "env \<Rightarrow> string \<Rightarrow> string \<Rightarrow> string \<Rightarrow> string \<Rightarrow> string \<Rightarrow> gotime \<Rightarrow> db \<Rightarrow> OrganisationMembership result \<times> db" where
  "ChangeOrganisationMemberRole e actorUserID organisationID targetUserID role reason at db =
     prepare db
      (if \<not> assignable_role role then Inl (Domain ErrInvalidOrganisationRole)
       else attempt (validateMutationReason reason) (\<lambda>_.
       if IsZero at then Inl (ErrNew ''membership role change time is required'') else Inr ()))
      (\<lambda>_. with_tx e db
        (changeOrganisationMemberRoleTx e actorUserID organisationID targetUserID role reason at None))"

definition deactivateOrganisationMemberTx ::
    "env \<Rightarrow> string \<Rightarrow> string \<Rightarrow> string \<Rightarrow> string \<Rightarrow> gotime \<Rightarrow> int option \<Rightarrow> db \<Rightarrow>
     (OrganisationMembership \<times> db) result" where
  "deactivateOrganisationMemberTx e actorUserID organisationID targetUserID reason at expectedVersion db =
     attempt (validateMutationReason reason) (\<lambda>_.
     if IsZero at then Inl (ErrNew ''membership deactivation time is required'')
     else attempt (authorisedOrganisationMutationTx actorUserID organisationID db)
       (\<lambda>(actor, actorRole, org, systemAdmin).
     attempt (need (Store ErrMembershipNotFound) (current_membership org targetUserID db)) (\<lambda>current.
     if version_conflict expectedVersion (om_version current)
     then Inl (Store ErrMembershipCommandConflict)
     else if om_role current = OrganisationOwner then Inl (Store ErrOwnerMutationNotAuthorised)
     else if \<not> systemAdmin \<and> actorRole = OrganisationAdmin \<and> om_role current \<noteq> OrganisationMember
     then Inl (Store ErrUnauthorisedOrganisationAction)
     else if count_where (\<lambda>m. om_id m = om_id current \<and> om_active m) (organisation_memberships db) \<noteq> 1
     then Inl (Store ErrMembershipNotFound)
     else exec (deactivate_om (\<lambda>m. om_id m = om_id current) actor at (TrimSpace reason) db) (\<lambda>db.
     exec (recordOrganisationAuditTx (rand_read e 0) actor organisationID eventMembershipDeactivated
            (member_details organisationID (om_public_id current) targetUserID (om_role current) reason)
            at db) (\<lambda>db.
     Inr (membership_value (om_public_id current) organisationID targetUserID (om_role current) False
            actorUserID at, db))))))"

definition DeactivateOrganisationMember ::
    "env \<Rightarrow> string \<Rightarrow> string \<Rightarrow> string \<Rightarrow> string \<Rightarrow> gotime \<Rightarrow> db \<Rightarrow> unit result \<times> db" where
  "DeactivateOrganisationMember e actorUserID organisationID targetUserID reason at db =
     prepare db
      (attempt (validateMutationReason reason) (\<lambda>_.
       if IsZero at then Inl (ErrNew ''membership deactivation time is required'') else Inr ()))
      (\<lambda>_. with_tx e db (\<lambda>db.
        call (deactivateOrganisationMemberTx e actorUserID organisationID targetUserID reason at None db)
          (\<lambda>_ db. Inr ((), db))))"

text \<open>
  The memberships an archive closes: \<^verbatim>\<open>SELECT m.public_id,u.public_id,m.role FROM
  organisation_memberships m JOIN users u ON u.id=m.user_id WHERE m.organisation_id=? AND m.active=1
  ORDER BY m.id\<close>.
\<close>

definition active_memberships :: "int \<Rightarrow> db \<Rightarrow> (string \<times> string \<times> string) list" where
  "active_memberships org db =
     concat (map (\<lambda>m. map (\<lambda>u. (om_public_id m, u_public_id u, om_role m))
                        (filter (\<lambda>u. u_id u = om_user_id m) (users db)))
       (sort_key om_id (filter (\<lambda>m. om_organisation_id m = org \<and> om_active m)
          (organisation_memberships db))))"

definition archiveOrganisationTx ::
    "env \<Rightarrow> string \<Rightarrow> string \<Rightarrow> string \<Rightarrow> gotime \<Rightarrow> db \<Rightarrow> (unit \<times> db) result" where
  "archiveOrganisationTx e actorUserID organisationID reason at db =
     attempt (authorisedOrganisationMutationTx actorUserID organisationID db)
       (\<lambda>(actor, actorRole, org, systemAdmin).
     if \<not> systemAdmin \<and> actorRole \<noteq> OrganisationOwner then Inl (Store ErrUnauthorisedOrganisationAction)
     else if count_where (\<lambda>r. o_id r = org \<and> o_status r = ''active'') (organisations db) \<noteq> 1
     then Inl (Store ErrOrganisationArchived)
     else let db = archive_organisation org at db; members = active_memberships org db in
     exec (deactivate_om (\<lambda>m. om_organisation_id m = org) actor at (TrimSpace reason) db) (\<lambda>db.
     exec (for_each (\<lambda>k (mid, uid, role). recordOrganisationAuditTx (rand_read e k) actor organisationID
             eventMembershipDeactivated (member_details organisationID mid uid role reason) at)
             0 members db) (\<lambda>db.
     exec (recordOrganisationAuditTx (rand_read e (length members)) actor organisationID
             eventOrganisationArchived (no_details organisationID reason) at db) (\<lambda>db.
     Inr ((), db)))))"

definition ArchiveOrganisation ::
    "env \<Rightarrow> string \<Rightarrow> string \<Rightarrow> string \<Rightarrow> gotime \<Rightarrow> db \<Rightarrow> unit result \<times> db" where
  "ArchiveOrganisation e actorUserID organisationID reason at db =
     prepare db
      (attempt (validateMutationReason reason) (\<lambda>_.
       if IsZero at then Inl (ErrNew ''organisation archive time is required'') else Inr ()))
      (\<lambda>_. with_tx e db (archiveOrganisationTx e actorUserID organisationID reason at))"

definition renameOrganisationTx ::
    "env \<Rightarrow> string \<Rightarrow> string \<Rightarrow> string \<Rightarrow> string \<Rightarrow> gotime \<Rightarrow> db \<Rightarrow> (Organisation \<times> db) result" where
  "renameOrganisationTx e actorUserID organisationID name reason at db =
     attempt (authorisedOrganisationMutationTx actorUserID organisationID db) (\<lambda>(actor, _, org, _).
     if count_where (\<lambda>r. o_id r = org \<and> o_status r = ''active'') (organisations db) \<noteq> 1
     then Inl (Store ErrOrganisationArchived)
     else exec (recordOrganisationAuditTx (rand_read e 0) actor organisationID eventOrganisationRenamed
             ((no_details organisationID reason)\<lparr>OrgD_Name := name\<rparr>) at
             (rename_organisation org name db)) (\<lambda>db.
     Inr (\<lparr>Org_ID = organisationID, Org_Name = name, Org_Status = OrganisationActive,
           Org_CreatedAt = zero_time, Org_ArchivedAt = None\<rparr>, db)))"

definition RenameOrganisation ::
    "env \<Rightarrow> string \<Rightarrow> string \<Rightarrow> string \<Rightarrow> string \<Rightarrow> gotime \<Rightarrow> db \<Rightarrow> Organisation result \<times> db" where
  "RenameOrganisation e actorUserID organisationID name0 reason at db =
     (let name = TrimSpace name0 in
      prepare db
       (if name = [] \<or> 200 < length name then Inl (Domain ErrInvalidOrganisationName)
        else attempt (validateMutationReason reason) (\<lambda>_.
        if IsZero at then Inl (ErrNew ''organisation rename time is required'') else Inr ()))
       (\<lambda>_. with_tx e db (renameOrganisationTx e actorUserID organisationID name reason at)))"

section \<open>Reads\<close>

definition organisation_view :: "org_row \<Rightarrow> Organisation" where
  "organisation_view r =
     \<lparr>Org_ID = o_public_id r, Org_Name = o_name r, Org_Status = o_status r,
      Org_CreatedAt = o_created_at r, Org_ArchivedAt = o_archived_at r\<rparr>"

text \<open>\<^verbatim>\<open>FROM users u JOIN system_role_assignments ... WHERE u.public_id=? AND u.active=1\<close>\<close>

definition system_admin_public :: "string \<Rightarrow> db \<Rightarrow> bool" where
  "system_admin_public pid db =
     list_ex (\<lambda>u. u_public_id u = pid \<and> u_active u \<and> system_admin (u_id u) db) (users db)"

text \<open>\<^verbatim>\<open>organisation_memberships m JOIN users u ... WHERE m.organisation_id=? AND m.active=1 AND u.public_id=?\<close>\<close>

definition member_public :: "int \<Rightarrow> string \<Rightarrow> db \<Rightarrow> bool" where
  "member_public org pid db = (current_membership org pid db \<noteq> None)"

text \<open>
  \<^verbatim>\<open>organisations o LEFT JOIN organisation_memberships m ON m.organisation_id=o.id AND m.active=1 AND
  m.user_id=(SELECT id FROM users WHERE public_id=? AND active=1) WHERE m.id IS NOT NULL OR EXISTS (...)\<close>
\<close>

definition organisation_join :: "string \<Rightarrow> db \<Rightarrow> org_row \<Rightarrow> (org_row \<times> string) list" where
  "organisation_join pid db r =
     (let ms = filter (\<lambda>m. om_organisation_id m = o_id r \<and> om_active m \<and>
                          active_user pid db = Some (om_user_id m)) (organisation_memberships db)
      in if ms \<noteq> [] then map (\<lambda>m. (r, om_role m)) ms
         else if system_admin_public pid db then [(r, [])] else [])"

definition ListUserOrganisations :: "string \<Rightarrow> db \<Rightarrow> (Organisation \<times> string) list" where
  "ListUserOrganisations requesterUserID db =
     map (\<lambda>(r, role). (organisation_view r, role))
       (sort_key (\<lambda>(r, _). (o_name r, o_public_id r))
         (concat (map (organisation_join (TrimSpace requesterUserID) db)
           (filter (\<lambda>r. o_status r = ''active'') (organisations db)))))"

definition GetOrganisation :: "string \<Rightarrow> string \<Rightarrow> db \<Rightarrow> Organisation result" where
  "GetOrganisation requesterUserID organisationID db =
     (case find (\<lambda>r. o_public_id r = organisationID \<and> o_status r = ''active'' \<and>
                     (member_public (o_id r) requesterUserID db \<or> system_admin_public requesterUserID db))
             (organisations db) of
        Some r \<Rightarrow> Inr (organisation_view r)
      | None \<Rightarrow> if count_where (\<lambda>r. o_public_id r = organisationID) (organisations db) = 0
                then Inl (Store ErrOrganisationNotFound)
                else Inl (Store ErrUnauthorisedOrganisationAction))"

definition user_public :: "int \<Rightarrow> db \<Rightarrow> string" where
  "user_public uid db = (case find (\<lambda>u. u_id u = uid) (users db) of None \<Rightarrow> [] | Some u \<Rightarrow> u_public_id u)"

definition GetOrganisationMembership :: "string \<Rightarrow> string \<Rightarrow> string \<Rightarrow> db \<Rightarrow> OrganisationMembership result" where
  "GetOrganisationMembership requesterUserID organisationID targetUserID db =
     attempt (need (Store ErrMembershipNotFound)
       (find (\<lambda>r. o_public_id r = organisationID \<and> o_status r = ''active'') (organisations db))) (\<lambda>org.
     attempt (need (Store ErrMembershipNotFound) (current_membership (o_id org) targetUserID db)) (\<lambda>m.
     if \<not> has_user db (om_assigned_by m) \<or>
        \<not> (member_public (o_id org) requesterUserID db \<or> system_admin_public requesterUserID db)
     then Inl (Store ErrMembershipNotFound)
     else Inr (membership_value (om_public_id m) organisationID targetUserID (om_role m) (om_active m)
                 (user_public (om_assigned_by m) db) (om_assigned_at m))))"

record OrganisationMemberRecord =
  OMR_MembershipID :: string
  OMR_OrganisationID :: string
  OMR_UserID :: string
  OMR_Email :: string
  OMR_DisplayName :: string
  OMR_Role :: string
  OMR_AssignedAt :: gotime

definition ListOrganisationMembers :: "string \<Rightarrow> string \<Rightarrow> db \<Rightarrow> OrganisationMemberRecord list result" where
  "ListOrganisationMembers requesterUserID organisationID db =
     attempt (authorisedOrganisationRead requesterUserID organisationID True db) (\<lambda>org.
     Inr (map (\<lambda>(m, r, u).
            \<lparr>OMR_MembershipID = om_public_id m, OMR_OrganisationID = o_public_id r, OMR_UserID = u_public_id u,
             OMR_Email = u_email u, OMR_DisplayName = u_display_name u, OMR_Role = om_role m,
             OMR_AssignedAt = om_assigned_at m\<rparr>)
       (sort_key (\<lambda>(m, r, u). (u_display_name u, u_public_id u))
         [(m, r, u). m \<leftarrow> organisation_memberships db, om_organisation_id m = org \<and> om_active m,
                     r \<leftarrow> organisations db, o_id r = om_organisation_id m \<and> o_status r = ''active'',
                     u \<leftarrow> users db, u_id u = om_user_id m \<and> u_active u])))"

record OrganisationAuditRecord =
  OAR_ID :: int
  OAR_OrganisationID :: string
  OAR_ActorUserID :: string
  OAR_Event :: string
  OAR_Details :: string
  OAR_OccurredAt :: gotime

text \<open>\<^verbatim>\<open>COALESCE(NULLIF(a.actor_user_public_id,''),actor.public_id,'')\<close>\<close>

definition audit_actor :: "audit_row \<Rightarrow> db \<Rightarrow> string" where
  "audit_actor a db =
     (if a_actor_public_id a \<noteq> [] then a_actor_public_id a
      else case a_actor_user_id a of None \<Rightarrow> [] | Some uid \<Rightarrow> user_public uid db)"

text \<open>\<^verbatim>\<open>ORDER BY a.occurred_at DESC,a.id DESC LIMIT ?\<close>\<close>

definition latest_audit :: "nat \<Rightarrow> audit_row list \<Rightarrow> audit_row list" where
  "latest_audit limit rows = take limit (rev (sort_key (\<lambda>a. (formatTime (a_occurred_at a), a_id a)) rows))"

definition ListOrganisationAudit ::
    "string \<Rightarrow> string \<Rightarrow> int \<Rightarrow> db \<Rightarrow> OrganisationAuditRecord list result" where
  "ListOrganisationAudit requesterUserID organisationID limit db =
     attempt (authorisedOrganisationRead requesterUserID organisationID True db) (\<lambda>org.
     if limit \<le> 0 \<or> 100 < limit then Inl (ErrNew ''organisation audit limit must be between 1 and 100'')
     else Inr (map (\<lambda>a. \<lparr>OAR_ID = a_id a, OAR_OrganisationID = a_aggregate_id a,
                          OAR_ActorUserID = audit_actor a db, OAR_Event = a_event a,
                          OAR_Details = a_details a, OAR_OccurredAt = a_occurred_at a\<rparr>)
       (latest_audit (nat limit)
         (filter (\<lambda>a. a_aggregate_type a = auditOrganisation \<and> a_aggregate_id a = organisationID \<and>
                      list_ex (\<lambda>r. o_public_id r = a_aggregate_id a \<and> o_id r = org) (organisations db))
           (audit_events db)))))"

definition organisationAuditCount :: "string \<Rightarrow> string \<Rightarrow> db \<Rightarrow> nat" where
  "organisationAuditCount organisationID event db =
     count_where (\<lambda>a. a_aggregate_type a = auditOrganisation \<and> a_aggregate_id a = organisationID \<and>
                      a_event a = event) (audit_events db)"

section \<open>Recording a mutation\<close>

text \<open>
  What a client gets from the helper that writes a mutation's audit row and outbox event: both
  logs grow by one entry that says what was done, and no other table changes.
\<close>

definition recorded :: "string \<Rightarrow> int \<Rightarrow> string \<Rightarrow> string \<Rightarrow> gotime \<Rightarrow> db \<Rightarrow> db \<Rightarrow> bool" where
  "recorded kind actor aid ev at db db' \<longleftrightarrow>
     writes {AuditEvents, Outbox} db db' \<and>
     (\<exists>r. platform_outbox db' = platform_outbox db @ [r] \<and> Event_Validate (row_event r) = Inr () \<and>
          ob_occurred_at r = at \<and> ob_published_at r = None) \<and>
     (has_user db actor \<longrightarrow>
        (\<exists>a. audit_events db' = audit_events db @ [a] \<and> a_actor_user_id a = Some actor \<and>
             a_aggregate_type a = kind \<and> a_aggregate_id a = aid \<and> a_event a = ev \<and> a_occurred_at a = at))"

lemma insert_audit_user:
  assumes "has_user db actor"
  obtains a where "audit_events (insert_audit actor kind aid ev det at db) = audit_events db @ [a]"
    "a_actor_user_id a = Some actor" "a_aggregate_type a = kind" "a_aggregate_id a = aid"
    "a_event a = ev" "a_occurred_at a = at"
proof -
  from assms obtain u where "find (\<lambda>u. u_id u = actor) (users db) = Some u"
    by (cases "find (\<lambda>u. u_id u = actor) (users db)") (auto simp: find_None_iff list_ex_iff)
  then show ?thesis by (intro that) (auto simp: insert_audit_def insert_row_def)
qed

lemma recordedI:
  assumes "appends_event at (insert_audit actor kind aid ev det at db) db'"
  shows "recorded kind actor aid ev at db db'"
proof -
  let ?m = "insert_audit actor kind aid ev det at db"
  have out: "writes {Outbox} ?m db'" using assms by (simp add: appends_event_def)
  have "writes {AuditEvents, Outbox} db ?m" by (auto intro: stmt_writes stmt.intros)
  also have "writes {AuditEvents, Outbox} ?m db'" by (rule writes_mono [OF out]) simp
  finally have w: "writes {AuditEvents, Outbox} db db'" .
  have "platform_outbox ?m = platform_outbox db"
    by (simp add: insert_audit_def split: option.splits)
  with assms have ev: "\<exists>r. platform_outbox db' = platform_outbox db @ [r] \<and>
      Event_Validate (row_event r) = Inr () \<and> ob_occurred_at r = at \<and> ob_published_at r = None"
    by (simp add: appends_event_def)
  have aud: "audit_events db' = audit_events ?m" using writes_frame(8) [OF out] by simp
  have "\<exists>a. audit_events db' = audit_events db @ [a] \<and> a_actor_user_id a = Some actor \<and>
      a_aggregate_type a = kind \<and> a_aggregate_id a = aid \<and> a_event a = ev \<and> a_occurred_at a = at"
    if u: "has_user db actor"
    by (rule insert_audit_user [OF u, of kind aid ev det at]) (auto simp: aud)
  with w ev show ?thesis by (simp add: recorded_def)
qed

locale recorder =
  fixes rec :: "(nat \<Rightarrow> char) option \<Rightarrow> int \<Rightarrow> string \<Rightarrow> string \<Rightarrow> 'd \<Rightarrow> gotime \<Rightarrow> db \<Rightarrow> db result"
    and kind :: string
  assumes records: "rec src actor aid ev d at db = Inr db' \<Longrightarrow> recorded kind actor aid ev at db db'"
begin

lemma rec_writes: "rec src actor aid ev d at db = Inr db' \<Longrightarrow> {AuditEvents, Outbox} \<subseteq> S \<Longrightarrow> writes S db db'"
  by (auto dest!: records simp: recorded_def elim: writes_mono)

lemma rec_same:
  assumes "rec src actor aid ev d at db = Inr db'"
  shows "users db' = users db" "organisations db' = organisations db"
    "organisation_memberships db' = organisation_memberships db" "workspaces db' = workspaces db"
    "workspace_memberships db' = workspace_memberships db" "products db' = products db"
    "organisation_product_entitlements db' = organisation_product_entitlements db"
    "user_product_assignments db' = user_product_assignments db"
    "system_role_assignments db' = system_role_assignments db"
  using writes_frame [OF rec_writes [OF assms order_refl]] by auto

lemma rec_logs:
  assumes "rec src actor aid ev d at db = Inr db'"
  shows "length (platform_outbox db') = Suc (length (platform_outbox db))"
    and "has_user db actor \<Longrightarrow> length (audit_events db') = Suc (length (audit_events db))"
  using records [OF assms] by (auto simp: recorded_def)

lemma for_each_writes:
  "for_each (\<lambda>k x. rec (src k) actor aid ev (det x) at) k xs db = Inr db' \<Longrightarrow>
     {AuditEvents, Outbox} \<subseteq> S \<Longrightarrow> writes S db db'"
  by (induction xs arbitrary: k db) (auto simp: tx_simps intro: writes_trans rec_writes)

lemma for_each_logs:
  assumes "for_each (\<lambda>k x. rec (src k) actor aid ev (det x) at) k xs db = Inr db'"
  shows "length (platform_outbox db') = length (platform_outbox db) + length xs"
    and "has_user db actor \<Longrightarrow> length (audit_events db') = length (audit_events db) + length xs"
  using assms
proof (induction xs arbitrary: k db)
  case (Cons x xs)
  {
    case 1
    with Cons.IH(1) show ?case by (auto simp: tx_simps dest: rec_logs(1))
  next
    case 2
    then obtain s where s: "rec (src k) actor aid ev (det x) at db = Inr s"
      and rest: "for_each (\<lambda>k x. rec (src k) actor aid ev (det x) at) (Suc k) xs s = Inr db'"
      by (auto simp: tx_simps)
    have "has_user s actor" using 2 rec_same(1) [OF s] by simp
    with Cons.IH(2) [OF _ rest] rec_logs(2) [OF s 2(1)] show ?case by simp
  }
qed simp_all

end

interpretation org_rec: recorder recordOrganisationAuditTx auditOrganisation
  by unfold_locales (auto simp: recordOrganisationAuditTx_def intro: recordedI append_helpers)

section \<open>Every mutation is a sequence of statements\<close>

abbreviation org_tables :: "tbl set" where
  "org_tables \<equiv> {Organisations, OrganisationMemberships, AuditEvents, Outbox}"

lemmas step_rules = only_writes_rules only_writes_Inr
lemmas org_leaves = exec_writes org_rec.rec_writes

lemma createOrganisationTx_writes: "only_writes org_tables db (createOrganisationTx e a x mid reason db)"
  unfolding createOrganisationTx_def by (auto intro!: step_rules intro: org_leaves)

lemma addOrganisationMemberTx_writes:
  "only_writes org_tables db (addOrganisationMemberTx e a i u role reason at db)"
  unfolding addOrganisationMemberTx_def by (auto intro!: step_rules intro: org_leaves)

lemma changeOrganisationMemberRoleTx_writes:
  "only_writes org_tables db (changeOrganisationMemberRoleTx e a i u role reason at v db)"
  unfolding changeOrganisationMemberRoleTx_def by (auto intro!: step_rules intro: org_leaves)

lemma deactivateOrganisationMemberTx_writes:
  "only_writes org_tables db (deactivateOrganisationMemberTx e a i u reason at v db)"
  unfolding deactivateOrganisationMemberTx_def by (auto intro!: step_rules intro: org_leaves)

lemma archive_for_each_writes:
  "for_each (\<lambda>k (mid, uid, role). recordOrganisationAuditTx (src k) actor i ev (det mid uid role) at) k xs db =
     Inr db' \<Longrightarrow> writes org_tables db db'"
  using org_rec.for_each_writes [of src actor i ev "\<lambda>(mid, uid, role). det mid uid role" at k xs db db' org_tables]
  by (simp add: split_def)

lemma archiveOrganisationTx_writes: "only_writes org_tables db (archiveOrganisationTx e a i reason at db)"
  unfolding archiveOrganisationTx_def Let_def
  by (auto intro!: only_writes_attempt only_writes_if only_writes_Inr only_writes_exec
      intro: exec_writes org_rec.rec_writes archive_for_each_writes
        writes_trans [OF update_writes(11) exec_writes(8)])

lemma renameOrganisationTx_writes: "only_writes org_tables db (renameOrganisationTx e a i name reason at db)"
  unfolding renameOrganisationTx_def
  by (auto intro!: only_writes_attempt only_writes_if only_writes_Inr only_writes_exec
      intro: org_rec.rec_writes writes_trans [OF update_writes(12)])

lemma deactivate_body_writes:
  "only_writes org_tables db (call (deactivateOrganisationMemberTx e a i u reason at v db) (\<lambda>_ db. Inr ((), db)))"
  by (intro only_writes_call deactivateOrganisationMemberTx_writes only_writes_Inr writes_refl)

lemmas org_op_defs =
  CreateOrganisation_def AddOrganisationMember_def ChangeOrganisationMemberRole_def
  DeactivateOrganisationMember_def ArchiveOrganisation_def RenameOrganisation_def

interpretation create_organisation: store_op org_tables
    "\<lambda>(actor, x, reason, at) e. CreateOrganisation e actor x reason at"
  by unfold_locales
    (auto simp: CreateOrganisation_def split_def dest: tx_method_atomic
      dest!: tx_method_traced [OF _ createOrganisationTx_writes])

interpretation add_organisation_member: store_op org_tables
    "\<lambda>(actor, i, u, role, reason, at) e. AddOrganisationMember e actor i u role reason at"
  by unfold_locales
    (auto simp: AddOrganisationMember_def dest: tx_method_atomic
      dest!: tx_method_traced [OF _ addOrganisationMemberTx_writes])

interpretation change_organisation_role: store_op org_tables
    "\<lambda>(actor, i, u, role, reason, at) e. ChangeOrganisationMemberRole e actor i u role reason at"
  by unfold_locales
    (auto simp: ChangeOrganisationMemberRole_def dest: tx_method_atomic
      dest!: tx_method_traced [OF _ changeOrganisationMemberRoleTx_writes])

interpretation deactivate_organisation_member: store_op org_tables
    "\<lambda>(actor, i, u, reason, at) e. DeactivateOrganisationMember e actor i u reason at"
  by unfold_locales
    (auto simp: DeactivateOrganisationMember_def dest: tx_method_atomic
      dest!: tx_method_traced [OF _ deactivate_body_writes])

interpretation archive_organisation: store_op org_tables
    "\<lambda>(actor, i, reason, at) e. ArchiveOrganisation e actor i reason at"
  by unfold_locales
    (auto simp: ArchiveOrganisation_def dest: tx_method_atomic
      dest!: tx_method_traced [OF _ archiveOrganisationTx_writes])

interpretation rename_organisation: store_op org_tables
    "\<lambda>(actor, i, name, reason, at) e. RenameOrganisation e actor i name reason at"
  by unfold_locales
    (auto simp: RenameOrganisation_def Let_def dest: tx_method_atomic
      dest!: tx_method_traced [OF _ renameOrganisationTx_writes])

section \<open>Authority\<close>

text \<open>
  The specification of authority over an organisation: an active user who is a system
  administrator or holds a current membership with one of the roles, in an active organisation.
\<close>

definition administers :: "string set \<Rightarrow> string \<Rightarrow> string \<Rightarrow> db \<Rightarrow> bool" where
  "administers roles actor i db \<longleftrightarrow>
     (\<exists>u \<in> set (users db). \<exists>r \<in> set (organisations db).
        u_public_id u = actor \<and> u_active u \<and> o_public_id r = i \<and> o_status r = ''active'' \<and>
        (system_admin (u_id u) db \<or>
         (\<exists>m \<in> set (organisation_memberships db). om_organisation_id m = o_id r \<and>
            om_user_id m = u_id u \<and> om_active m \<and> om_role m \<in> roles)))"

lemma active_user_Some: "active_user pid db = Some i \<Longrightarrow> \<exists>u \<in> set (users db). u_public_id u = pid \<and> u_active u \<and> u_id u = i"
  by (auto simp: active_user_def dest: find_SomeD)

lemma organisation_row_Some: "organisation_row pid db = Some r \<Longrightarrow> r \<in> set (organisations db) \<and> o_public_id r = pid"
  by (auto simp: organisation_row_def dest: find_SomeD)

lemma current_role_Some:
  "current_role org uid db = Some role \<Longrightarrow>
     \<exists>m \<in> set (organisation_memberships db). om_organisation_id m = org \<and> om_user_id m = uid \<and>
       om_active m \<and> om_role m = role"
  by (auto simp: current_role_def dest: find_SomeD)

lemma current_membership_Some:
  "current_membership org pid db = Some m \<Longrightarrow>
     m \<in> set (organisation_memberships db) \<and> om_organisation_id m = org \<and> om_active m \<and>
     (\<exists>u \<in> set (users db). u_id u = om_user_id m \<and> u_active u \<and> u_public_id u = pid)"
  by (auto simp: current_membership_def list_ex_iff dest: find_SomeD)

lemma authorised_Inr:
  assumes "authorisedOrganisationMutationTx a i db = Inr (actor, role, org, sys)"
  obtains u r where "u \<in> set (users db)" "u_public_id u = a" "u_active u" "u_id u = actor"
    "organisation_row i db = Some r" "o_status r = ''active''" "o_id r = org"
    "sys \<and> system_admin actor db \<or>
     \<not> sys \<and> \<not> system_admin actor db \<and> current_role org actor db = Some role \<and>
       OrganisationRole_CanAdminister role"
proof -
  from assms have "active_user a db = Some actor"
    and r: "\<exists>r. organisation_row i db = Some r \<and> o_status r = ''active'' \<and> o_id r = org \<and>
      (sys \<and> system_admin actor db \<or> \<not> sys \<and> \<not> system_admin actor db \<and>
        current_role org actor db = Some role \<and> OrganisationRole_CanAdminister role)"
    by (auto simp: authorisedOrganisationMutationTx_def tx_simps split: if_splits)
  with active_user_Some [of a db actor] that show ?thesis by blast
qed

lemma authorised_administers:
  assumes "authorisedOrganisationMutationTx a i db = Inr (actor, role, org, sys)"
    and "sys \<or> role \<in> roles"
  shows "administers roles a i db"
  using assms(1)
proof (rule authorised_Inr)
  fix u r
  assume "u \<in> set (users db)" "u_public_id u = a" "u_active u" "u_id u = actor"
    "organisation_row i db = Some r" "o_status r = ''active''" "o_id r = org"
    "sys \<and> system_admin actor db \<or> \<not> sys \<and> \<not> system_admin actor db \<and>
      current_role org actor db = Some role \<and> OrganisationRole_CanAdminister role"
  then show ?thesis
    using assms(2) current_role_Some [of org actor db role] organisation_row_Some [of i db r]
    unfolding administers_def by (intro bexI [of _ u] bexI [of _ r]) auto
qed

lemma authorised_role:
  "authorisedOrganisationMutationTx a i db = Inr (actor, role, org, sys) \<Longrightarrow>
     sys \<or> role = ''owner'' \<or> role = ''admin''"
  by (erule authorised_Inr) (auto simp: OrganisationRole_CanAdminister_def)

lemma authorised_has_user:
  "authorisedOrganisationMutationTx a i db = Inr (actor, role, org, sys) \<Longrightarrow> has_user db actor"
  by (erule authorised_Inr) (auto simp: list_ex_iff)

text \<open>The transaction inside each public method.\<close>

lemma op_body:
  "CreateOrganisation e a x reason at db = (Inr res, db') \<Longrightarrow>
     \<exists>y mid. createOrganisationTx e a y mid reason db = Inr (res, db') \<and> Organisation_Validate y = Inr () \<and>
       Org_Status y = ''active'' \<and> Org_CreatedAt y = at"
  "AddOrganisationMember e a i u role reason at db = (Inr m, db') \<Longrightarrow>
     addOrganisationMemberTx e a i u role reason at db = Inr (m, db')"
  "ChangeOrganisationMemberRole e a i u role reason at db = (Inr m, db') \<Longrightarrow>
     changeOrganisationMemberRoleTx e a i u role reason at None db = Inr (m, db')"
  "DeactivateOrganisationMember e a i u reason at db = (Inr v, db') \<Longrightarrow>
     \<exists>m. deactivateOrganisationMemberTx e a i u reason at None db = Inr (m, db')"
  "ArchiveOrganisation e a i reason at db = (Inr v, db') \<Longrightarrow>
     archiveOrganisationTx e a i reason at db = Inr (v, db')"
  "RenameOrganisation e a i name reason at db = (Inr y, db') \<Longrightarrow>
     renameOrganisationTx e a i (TrimSpace name) reason at db = Inr (y, db')"
  by (auto simp: org_op_defs tx_simps Let_def split: if_splits)

text \<open>
  C4: Nobody changes an organisation without authority. A membership is
  added, changed or closed, or the organisation renamed, only by a system administrator or a
  current owner or administrator of that (active) organisation; giving the administrator role and
  archiving take the owner or a system administrator.
\<close>

theorem organisation_authority:
  "(AddOrganisationMember e a i u role reason at db = (Inr m, db') \<longrightarrow>
      administers {''owner'', ''admin''} a i db \<and> (role = ''admin'' \<longrightarrow> administers {''owner''} a i db)) \<and>
   (ChangeOrganisationMemberRole e a i u role reason at db = (Inr m, db') \<longrightarrow>
      administers {''owner'', ''admin''} a i db) \<and>
   (DeactivateOrganisationMember e a i u reason at db = (Inr v, db') \<longrightarrow>
      administers {''owner'', ''admin''} a i db) \<and>
   (RenameOrganisation e a i name reason at db = (Inr y, db') \<longrightarrow>
      administers {''owner'', ''admin''} a i db) \<and>
   (ArchiveOrganisation e a i reason at db = (Inr v, db') \<longrightarrow> administers {''owner''} a i db)"
proof (intro conjI impI)
  assume add: "AddOrganisationMember e a i u role reason at db = (Inr m, db')"
  then obtain actor ar org sys where au: "authorisedOrganisationMutationTx a i db = Inr (actor, ar, org, sys)"
    and esc: "\<not> (\<not> sys \<and> ar = ''admin'' \<and> role = ''admin'')"
    by (auto dest!: op_body simp: addOrganisationMemberTx_def tx_simps)
  show "administers {''owner'', ''admin''} a i db"
    using authorised_role [OF au] by (intro authorised_administers [OF au]) auto
  show "administers {''owner''} a i db" if "role = ''admin''"
    using authorised_role [OF au] esc that by (intro authorised_administers [OF au]) auto
next
  assume "ChangeOrganisationMemberRole e a i u role reason at db = (Inr m, db')"
  then obtain actor ar org sys where au: "authorisedOrganisationMutationTx a i db = Inr (actor, ar, org, sys)"
    by (auto dest!: op_body simp: changeOrganisationMemberRoleTx_def tx_simps)
  show "administers {''owner'', ''admin''} a i db"
    using authorised_role [OF au] by (intro authorised_administers [OF au]) auto
next
  assume "DeactivateOrganisationMember e a i u reason at db = (Inr v, db')"
  then obtain actor ar org sys where au: "authorisedOrganisationMutationTx a i db = Inr (actor, ar, org, sys)"
    by (auto dest!: op_body simp: deactivateOrganisationMemberTx_def tx_simps)
  show "administers {''owner'', ''admin''} a i db"
    using authorised_role [OF au] by (intro authorised_administers [OF au]) auto
next
  assume "RenameOrganisation e a i name reason at db = (Inr y, db')"
  then obtain actor ar org sys where au: "authorisedOrganisationMutationTx a i db = Inr (actor, ar, org, sys)"
    by (auto dest!: op_body simp: renameOrganisationTx_def tx_simps)
  show "administers {''owner'', ''admin''} a i db"
    using authorised_role [OF au] by (intro authorised_administers [OF au]) auto
next
  assume "ArchiveOrganisation e a i reason at db = (Inr v, db')"
  then obtain actor ar org sys where au: "authorisedOrganisationMutationTx a i db = Inr (actor, ar, org, sys)"
    and "\<not> (\<not> sys \<and> ar \<noteq> ''owner'')"
    by (auto dest!: op_body simp: archiveOrganisationTx_def tx_simps)
  then show "administers {''owner''} a i db"
    by (intro authorised_administers [OF au]) auto
qed

section \<open>Effects\<close>

definition retired :: "int \<Rightarrow> gotime \<Rightarrow> string \<Rightarrow> om_row \<Rightarrow> om_row" where
  "retired by_id at reason m =
     m\<lparr>om_active := False, om_removed_by := Some by_id, om_removed_at := Some at, om_removal_reason := reason\<rparr>"

lemma insert_om_Inr:
  "insert_om r db = Inr db' \<Longrightarrow>
     db' = db\<lparr>organisation_memberships := organisation_memberships db @
               [r\<lparr>om_id := next_id om_id (organisation_memberships db)\<rparr>]\<rparr>"
  by (auto simp: insert_om_def insert_row_def split: if_splits)

lemma deactivate_om_Inr:
  "deactivate_om P by_id at reason db = Inr db' \<Longrightarrow>
     db' = db\<lparr>organisation_memberships :=
               update_where (\<lambda>m. P m \<and> om_active m) (retired by_id at reason) (organisation_memberships db)\<rparr>"
  by (auto simp: deactivate_om_def retired_def [abs_def] split: if_splits)

text \<open>
  Adding a member adds exactly one current membership, for the active user
  named, in the organisation named, with the role given and version 1, assigned by the actor; the
  user had no current membership there; the change is recorded once in the audit log and once in
  the outbox, and nothing else changes.
\<close>

lemma add_member_effect:
  assumes "AddOrganisationMember e a i u role reason at db = (Inr m, db')"
  shows "\<exists>org actor target row. organisation_row i db = Some org \<and> o_status org = ''active'' \<and>
     active_user a db = Some actor \<and> active_user (TrimSpace u) db = Some target \<and>
     row = (new_om (OMem_ID m) (o_id org) target role actor at 1)
             \<lparr>om_id := next_id om_id (organisation_memberships db)\<rparr> \<and>
     (role = ''admin'' \<or> role = ''member'') \<and> valid_id ''omem_'' (OMem_ID m) \<and>
     (\<forall>q \<in> set (organisation_memberships db). om_scope q = (o_id org, target) \<longrightarrow> \<not> om_active q) \<and>
     recorded ''Organisation'' actor i eventMembershipAdded at
       (db\<lparr>organisation_memberships := organisation_memberships db @ [row]\<rparr>) db'"
proof -
  from op_body(2) [OF assms] obtain mid actor ar org sys target db1 where
    mid: "NewOrganisationMembershipID (rand_read e 0) = Inr mid"
    and au: "authorisedOrganisationMutationTx a i db = Inr (actor, ar, org, sys)"
    and tg: "activeUserIDTx u db = Inr target"
    and none: "count_where (\<lambda>m. om_organisation_id m = org \<and> om_user_id m = target \<and> om_active m)
        (organisation_memberships db) = 0"
    and ins: "insert_om (new_om mid org target role actor at 1) db = Inr db1"
    and rec: "recordOrganisationAuditTx (rand_read e 1) actor i eventMembershipAdded
        (member_details i mid u role reason) at db1 = Inr db'"
    and m: "m = membership_value mid i u role True a at" and role: "assignable_role role"
    by (auto simp: addOrganisationMemberTx_def tx_simps)
  from au obtain r where r: "organisation_row i db = Some r" "o_status r = ''active''" "o_id r = org"
      "active_user a db = Some actor"
    by (auto simp: authorisedOrganisationMutationTx_def tx_simps split: if_splits)
  have "\<not> om_active q" if "q \<in> set (organisation_memberships db)" "om_scope q = (org, target)" for q
    using none that by (auto simp: count_where_def filter_empty_conv)
  with r mid role tg org_rec.records [OF rec] insert_om_Inr [OF ins] m show ?thesis
    by (auto simp: activeUserIDTx_def tx_simps assignable_role_def membership_value_def
        NewOrganisationMembershipID_def dest: random_id_valid)
qed

text \<open>
  C11: Changing a role closes the member's current membership and opens one
  with the new role and the next version, and records it once in each log. The owner's membership
  is never changed this way, and an administrator (who is not a system administrator) can only
  change plain members.
\<close>

theorem change_role_effect:
  assumes "ChangeOrganisationMemberRole e a i u role reason at db = (Inr m, db')"
  shows "\<exists>org actor target old row db1. organisation_row i db = Some org \<and>
     active_user a db = Some actor \<and> active_user (TrimSpace u) db = Some target \<and>
     current_membership (o_id org) u db = Some old \<and> om_role old \<noteq> ''owner'' \<and> om_role old \<noteq> role \<and>
     (role = ''admin'' \<or> role = ''member'') \<and>
     (\<not> system_admin actor db \<and> current_role (o_id org) actor db = Some ''admin'' \<longrightarrow> om_role old = ''member'') \<and>
     row = new_om (OMem_ID m) (o_id org) target role actor at (om_version old + 1) \<and>
     db1 = db\<lparr>organisation_memberships :=
        update_where (\<lambda>q. om_id q = om_id old \<and> om_active q) (retired actor at (TrimSpace reason))
          (organisation_memberships db)\<rparr> \<and>
     recorded ''Organisation'' actor i eventMembershipRoleChanged at
       (db1\<lparr>organisation_memberships := organisation_memberships db1 @
          [row\<lparr>om_id := next_id om_id (organisation_memberships db1)\<rparr>]\<rparr>) db'"
proof -
  from op_body(3) [OF assms] obtain mid actor ar org sys old target db1 db2 where
    au: "authorisedOrganisationMutationTx a i db = Inr (actor, ar, org, sys)"
    and old: "current_membership org u db = Some old" "om_role old \<noteq> ''owner''" "om_role old \<noteq> role"
    and esc: "\<not> (\<not> sys \<and> ar = ''admin'' \<and> om_role old \<noteq> ''member'')"
    and tg: "activeUserIDTx u db = Inr target"
    and de: "deactivate_om (\<lambda>m. om_id m = om_id old) actor at (TrimSpace reason) db = Inr db1"
    and ins: "insert_om (new_om mid org target role actor at (om_version old + 1)) db1 = Inr db2"
    and rec: "recordOrganisationAuditTx (rand_read e 1) actor i eventMembershipRoleChanged
        (member_details i mid u role reason) at db2 = Inr db'"
    and m: "m = membership_value mid i u role True a at" and role: "assignable_role role"
    by (auto simp: changeOrganisationMemberRoleTx_def tx_simps)
  from au obtain r where r: "organisation_row i db = Some r" "o_id r = org" "active_user a db = Some actor"
      "\<not> system_admin actor db \<longrightarrow> \<not> sys \<and> current_role org actor db = Some ar"
    by (auto simp: authorisedOrganisationMutationTx_def tx_simps split: if_splits)
  have target: "active_user (TrimSpace u) db = Some target" using tg by (simp add: activeUserIDTx_def tx_simps)
  have mid: "mid = OMem_ID m" by (simp add: m membership_value_def)
  have role': "role = ''admin'' \<or> role = ''member''" using role by (simp add: assignable_role_def)
  have esc': "\<not> system_admin actor db \<and> current_role (o_id r) actor db = Some ''admin'' \<longrightarrow> om_role old = ''member''"
    using esc r by auto
  note rec' = org_rec.records [OF rec, unfolded insert_om_Inr [OF ins]]
  let ?row = "new_om mid (o_id r) target role actor at (om_version old + 1)"
  have "organisation_row i db = Some r \<and> active_user a db = Some actor \<and>
      active_user (TrimSpace u) db = Some target \<and> current_membership (o_id r) u db = Some old \<and>
      om_role old \<noteq> ''owner'' \<and> om_role old \<noteq> role \<and> (role = ''admin'' \<or> role = ''member'') \<and>
      (\<not> system_admin actor db \<and> current_role (o_id r) actor db = Some ''admin'' \<longrightarrow> om_role old = ''member'')"
    using r(1-3) target old role' esc' by blast
  moreover have "?row = new_om (OMem_ID m) (o_id r) target role actor at (om_version old + 1)"
    by (simp only: mid)
  ultimately show ?thesis
    using deactivate_om_Inr [OF de] rec' [folded r(2)] by blast
qed

text \<open>Closing a membership that is not the owner's leaves the owners alone.\<close>

lemma owners_after_retire:
  assumes "om_ok db" and "old \<in> set (organisation_memberships db)" and "om_role old \<noteq> ''owner''"
  shows "filter om_owner (update_where (\<lambda>q. om_id q = om_id old \<and> om_active q) (retired x at reason)
      (organisation_memberships db)) = filter om_owner (organisation_memberships db)"
proof -
  have same: "q = old" if "q \<in> set (organisation_memberships db)" "om_id q = om_id old" for q
    using assms(1,2) that unique_keyD [OF om_t.unique_id, of "organisation_memberships db" q old]
    by (auto simp: om_ok_def)
  have "filter om_owner (update_where P f rows) = filter om_owner rows"
    if "\<And>q. q \<in> set rows \<Longrightarrow> P q \<Longrightarrow> \<not> om_owner q \<and> \<not> om_owner (f q)" for P f and rows :: "om_row list"
    using that by (induction rows) (auto simp: update_where_def)
  note keep = this
  show ?thesis
    by (rule keep) (use same assms(3) in \<open>auto simp: om_owner_def retired_def\<close>)
qed

lemma deactivate_member_Inr:
  assumes "deactivateOrganisationMemberTx e a i u reason at v db = Inr (m, db')"
  obtains org actor old where "organisation_row i db = Some org" "active_user a db = Some actor"
    "current_membership (o_id org) u db = Some old" "om_role old \<noteq> ''owner''"
    "\<not> version_conflict v (om_version old)"
    "recorded ''Organisation'' actor i eventMembershipDeactivated at
       (db\<lparr>organisation_memberships :=
          update_where (\<lambda>q. om_id q = om_id old \<and> om_active q) (retired actor at (TrimSpace reason))
            (organisation_memberships db)\<rparr>) db'"
proof -
  from assms obtain actor ar org sys old db1 where
    au: "authorisedOrganisationMutationTx a i db = Inr (actor, ar, org, sys)"
    and old: "current_membership org u db = Some old" "om_role old \<noteq> ''owner''"
      "\<not> version_conflict v (om_version old)"
    and de: "deactivate_om (\<lambda>m. om_id m = om_id old) actor at (TrimSpace reason) db = Inr db1"
    and rec: "recordOrganisationAuditTx (rand_read e 0) actor i eventMembershipDeactivated
        (member_details i (om_public_id old) u (om_role old) reason) at db1 = Inr db'"
    by (auto simp: deactivateOrganisationMemberTx_def tx_simps)
  from au obtain r where "organisation_row i db = Some r" "o_id r = org" "active_user a db = Some actor"
    by (auto simp: authorisedOrganisationMutationTx_def tx_simps split: if_splits)
  with old org_rec.records [OF rec] deactivate_om_Inr [OF de] show ?thesis
    by (intro that [of r actor old]) auto
qed

lemma recorded_same:
  assumes "recorded kind actor aid ev at db db'"
  shows "users db' = users db" "organisations db' = organisations db"
    "organisation_memberships db' = organisation_memberships db" "workspaces db' = workspaces db"
    "workspace_memberships db' = workspace_memberships db" "products db' = products db"
    "organisation_product_entitlements db' = organisation_product_entitlements db"
    "user_product_assignments db' = user_product_assignments db"
    "system_role_assignments db' = system_role_assignments db"
  using assms writes_frame [of "{AuditEvents, Outbox}" db db'] by (auto simp: recorded_def)

text \<open>
  C5: The owner of an organisation is safe from membership changes. Whether they
  succeed or fail, adding a member, changing a role and closing a membership leave the current
  owner memberships of every organisation exactly as they were.
\<close>

theorem owner_protected:
  assumes "om_ok db"
  shows "filter om_owner (organisation_memberships (snd (AddOrganisationMember e a i u role reason at db))) =
      filter om_owner (organisation_memberships db) \<and>
    filter om_owner (organisation_memberships (snd (ChangeOrganisationMemberRole e a i u role reason at db))) =
      filter om_owner (organisation_memberships db) \<and>
    filter om_owner (organisation_memberships (snd (DeactivateOrganisationMember e a i u reason at db))) =
      filter om_owner (organisation_memberships db)"
proof (intro conjI)
  show "filter om_owner (organisation_memberships (snd (AddOrganisationMember e a i u role reason at db))) =
      filter om_owner (organisation_memberships db)"
  proof (cases "fst (AddOrganisationMember e a i u role reason at db)")
    case (Inl x)
    then show ?thesis using add_organisation_member.atomic [of "(a, i, u, role, reason, at)"]
      by (metis old.prod.case prod.collapse)
  next
    case (Inr m)
    then have "AddOrganisationMember e a i u role reason at db =
        (Inr m, snd (AddOrganisationMember e a i u role reason at db))" by (metis prod.collapse)
    from op_body(2) [OF this] show ?thesis
      by (auto simp: addOrganisationMemberTx_def tx_simps om_owner_def new_om_def assignable_role_def
          dest!: insert_om_Inr org_rec.rec_same(3))
  qed
next
  show "filter om_owner (organisation_memberships (snd (ChangeOrganisationMemberRole e a i u role reason at db))) =
      filter om_owner (organisation_memberships db)"
  proof (cases "fst (ChangeOrganisationMemberRole e a i u role reason at db)")
    case (Inl x)
    then show ?thesis using change_organisation_role.atomic [of "(a, i, u, role, reason, at)"]
      by (metis old.prod.case prod.collapse)
  next
    case (Inr m)
    then have "ChangeOrganisationMemberRole e a i u role reason at db =
        (Inr m, snd (ChangeOrganisationMemberRole e a i u role reason at db))" by (metis prod.collapse)
    from op_body(3) [OF this] show ?thesis
      using owners_after_retire [OF assms]
      by (auto simp: changeOrganisationMemberRoleTx_def tx_simps om_owner_def new_om_def assignable_role_def
          dest!: insert_om_Inr deactivate_om_Inr org_rec.rec_same(3) current_membership_Some)
  qed
next
  show "filter om_owner (organisation_memberships (snd (DeactivateOrganisationMember e a i u reason at db))) =
      filter om_owner (organisation_memberships db)"
  proof (cases "fst (DeactivateOrganisationMember e a i u reason at db)")
    case (Inl x)
    then show ?thesis using deactivate_organisation_member.atomic [of "(a, i, u, reason, at)"]
      by (metis old.prod.case prod.collapse)
  next
    case (Inr v)
    then have "DeactivateOrganisationMember e a i u reason at db =
        (Inr v, snd (DeactivateOrganisationMember e a i u reason at db))" by (metis prod.collapse)
    from op_body(4) [OF this] show ?thesis
      using owners_after_retire [OF assms]
      by (auto elim!: deactivate_member_Inr dest!: recorded_same(3) current_membership_Some)
  qed
qed

section \<open>Archiving\<close>

lemma archive_Inr:
  assumes "archiveOrganisationTx e a i reason at db = Inr (v, db')"
  obtains org actor where "organisation_row i db = Some org" "active_user a db = Some actor"
    "organisations db' = update_where (\<lambda>r. o_id r = o_id org \<and> o_status r = ''active'')
       (\<lambda>r. r\<lparr>o_status := ''archived'', o_archived_at := Some at\<rparr>) (organisations db)"
    "o_status org = ''active''" "users db' = users db"
    "organisation_memberships db' = update_where (\<lambda>m. om_organisation_id m = o_id org \<and> om_active m)
       (retired actor at (TrimSpace reason)) (organisation_memberships db)"
    "length (platform_outbox db') =
       Suc (length (platform_outbox db) + length (active_memberships (o_id org) db))"
    "length (audit_events db') = Suc (length (audit_events db) + length (active_memberships (o_id org) db))"
proof -
  from assms obtain actor ar org sys db1 db2 where
    au: "authorisedOrganisationMutationTx a i db = Inr (actor, ar, org, sys)"
    and de: "deactivate_om (\<lambda>m. om_organisation_id m = org) actor at (TrimSpace reason)
        (archive_organisation org at db) = Inr db1"
    and each: "for_each (\<lambda>k x. recordOrganisationAuditTx (rand_read e k) actor i eventMembershipDeactivated
        ((\<lambda>(mid, uid, role). member_details i mid uid role reason) x) at) 0
        (active_memberships org (archive_organisation org at db)) db1 = Inr db2"
    and rec: "recordOrganisationAuditTx (rand_read e (length (active_memberships org (archive_organisation org at db))))
        actor i eventOrganisationArchived (no_details i reason) at db2 = Inr db'"
    by (auto simp: archiveOrganisationTx_def tx_simps Let_def split_def)
  from au obtain r where r: "organisation_row i db = Some r" "o_id r = org" "o_status r = ''active''"
      "active_user a db = Some actor"
    by (auto simp: authorisedOrganisationMutationTx_def tx_simps split: if_splits)
  have same: "active_memberships org (archive_organisation org at db) = active_memberships org db"
    by (simp add: active_memberships_def archive_organisation_def)
  have actor: "has_user db1 actor"
    using authorised_has_user [OF au] deactivate_om_Inr [OF de] by (simp add: archive_organisation_def)
  note w = org_rec.for_each_writes [OF each order_refl]
  have "has_user db2 actor" using actor writes_frame(1) [OF w] by simp
  note logs = org_rec.for_each_logs [OF each] org_rec.rec_logs [OF rec]
  show ?thesis
  proof (rule that [OF r(1) r(4)])
    show "organisations db' = update_where (\<lambda>q. o_id q = o_id r \<and> o_status q = ''active'')
       (\<lambda>q. q\<lparr>o_status := ''archived'', o_archived_at := Some at\<rparr>) (organisations db)"
      using org_rec.rec_same(2) [OF rec] writes_frame(6) [OF w] deactivate_om_Inr [OF de] r(2)
      by (simp add: archive_organisation_def)
    show "o_status r = ''active''" by (rule r(3))
    show "users db' = users db"
      using org_rec.rec_same(1) [OF rec] writes_frame(1) [OF w] deactivate_om_Inr [OF de]
      by (simp add: archive_organisation_def)
    show "organisation_memberships db' = update_where (\<lambda>m. om_organisation_id m = o_id r \<and> om_active m)
       (retired actor at (TrimSpace reason)) (organisation_memberships db)"
      using org_rec.rec_same(3) [OF rec] writes_frame(7) [OF w] deactivate_om_Inr [OF de] r(2)
      by (simp add: archive_organisation_def)
    show "length (platform_outbox db') =
       Suc (length (platform_outbox db) + length (active_memberships (o_id r) db))"
      using logs deactivate_om_Inr [OF de] r(2) same by (simp add: archive_organisation_def)
    show "length (audit_events db') =
       Suc (length (audit_events db) + length (active_memberships (o_id r) db))"
      using logs actor \<open>has_user db2 actor\<close> deactivate_om_Inr [OF de] r(2) same
      by (simp add: archive_organisation_def)
  qed
qed

lemma archived_row:
  assumes "archiveOrganisationTx e a i reason at db = Inr (v, db')"
  shows "\<exists>org. organisation_row i db = Some org \<and>
    organisation_row i db' = Some (org\<lparr>o_status := ''archived'', o_archived_at := Some at\<rparr>)"
  using assms by (rule archive_Inr) (simp add: organisation_row_def find_update_where)

text \<open>
  Archiving an organisation closes it completely: it becomes archived, every one
  of its memberships is inactive afterwards, the memberships of other organisations are untouched,
  and each closed membership and the archive itself are recorded in both logs.
\<close>

theorem archive_effect:
  assumes "ArchiveOrganisation e a i reason at db = (Inr v, db')"
  shows "\<exists>org. organisation_row i db = Some org \<and>
     organisation_row i db' = Some (org\<lparr>o_status := ''archived'', o_archived_at := Some at\<rparr>) \<and>
     (\<forall>m \<in> set (organisation_memberships db'). om_organisation_id m = o_id org \<longrightarrow> \<not> om_active m) \<and>
     filter (\<lambda>m. om_organisation_id m \<noteq> o_id org) (organisation_memberships db') =
       filter (\<lambda>m. om_organisation_id m \<noteq> o_id org) (organisation_memberships db) \<and>
     length (platform_outbox db') =
       Suc (length (platform_outbox db) + length (active_memberships (o_id org) db)) \<and>
     length (audit_events db') = Suc (length (audit_events db) + length (active_memberships (o_id org) db))"
proof -
  from op_body(5) [OF assms] obtain org actor where
    ar: "organisation_row i db = Some org" "o_status org = ''active''"
      "organisations db' = update_where (\<lambda>r. o_id r = o_id org \<and> o_status r = ''active'')
         (\<lambda>r. r\<lparr>o_status := ''archived'', o_archived_at := Some at\<rparr>) (organisations db)"
      "organisation_memberships db' = update_where (\<lambda>m. om_organisation_id m = o_id org \<and> om_active m)
         (retired actor at (TrimSpace reason)) (organisation_memberships db)"
      "length (platform_outbox db') =
         Suc (length (platform_outbox db) + length (active_memberships (o_id org) db))"
      "length (audit_events db') = Suc (length (audit_events db) + length (active_memberships (o_id org) db))"
    by (rule archive_Inr)
  have "organisation_row i db' = Some (org\<lparr>o_status := ''archived'', o_archived_at := Some at\<rparr>)"
    using archived_row [OF op_body(5) [OF assms]] ar(1) by simp
  moreover have "\<not> om_active m" if "m \<in> set (organisation_memberships db')" "om_organisation_id m = o_id org" for m
    using that by (auto simp: ar(4) update_where_def retired_def)
  moreover have "filter (\<lambda>m. om_organisation_id m \<noteq> o_id org) (organisation_memberships db') =
       filter (\<lambda>m. om_organisation_id m \<noteq> o_id org) (organisation_memberships db)"
  proof -
    have "filter (\<lambda>m. om_organisation_id m \<noteq> k) (update_where (\<lambda>m. om_organisation_id m = k \<and> om_active m)
        (retired x t y) rows) = filter (\<lambda>m. om_organisation_id m \<noteq> k) rows" for k x t y rows
      by (induction rows) (auto simp: update_where_def retired_def)
    then show ?thesis by (simp add: ar(4))
  qed
  ultimately show ?thesis using ar by blast
qed

lemma authorised_archived:
  "organisation_row i db = Some org \<Longrightarrow> o_status org \<noteq> ''active'' \<Longrightarrow>
     authorisedOrganisationMutationTx a i db =
       Inl (Store (if active_user a db = None then ErrUnauthorisedOrganisationAction else ErrOrganisationArchived))"
  by (cases "active_user a db") (auto simp: authorisedOrganisationMutationTx_def)


section \<open>Creation\<close>

text \<open>
  Creating an organisation gives it a fresh public identifier with one
  active row, and makes the actor, an active user, its first member with the owner role, and no
  one else. Both steps are recorded.
\<close>

lemma create_organisation_effect:
  assumes "CreateOrganisation e a x reason at db = (Inr (y, m), db')"
  shows "\<exists>actor org mid. active_user (TrimSpace a) db = Some actor \<and>
     Organisation_Validate y = Inr () \<and> Org_Status y = ''active'' \<and> Org_CreatedAt y = at \<and>
     organisation_row (Org_ID y) db = None \<and> organisation_row (Org_ID y) db' = Some org \<and>
     organisation_view org = y \<and> organisations db' = organisations db @ [org] \<and>
     organisation_memberships db' = organisation_memberships db @
       [(new_om mid (o_id org) actor ''owner'' actor at 1)
          \<lparr>om_id := next_id om_id (organisation_memberships db)\<rparr>] \<and>
     m = membership_value mid (Org_ID y) a ''owner'' True a at \<and>
     length (platform_outbox db') = length (platform_outbox db) + 2 \<and>
     length (audit_events db') = length (audit_events db) + 2"
proof -
  from op_body(1) [OF assms] obtain z mid where tx: "createOrganisationTx e a z mid reason db = Inr ((y, m), db')"
    and z: "Organisation_Validate z = Inr ()" "Org_Status z = ''active''" "Org_CreatedAt z = at"
    by blast
  let ?row = "\<lparr>o_id = next_id o_id (organisations db), o_public_id = Org_ID z, o_name = Org_Name z,
      o_status = Org_Status z, o_created_at = Org_CreatedAt z, o_archived_at = None\<rparr>"
  from tx obtain actor org db1 db2 db3 where
    act: "active_user (TrimSpace a) db = Some actor"
    and ins: "insert_organisation \<lparr>o_id = 0, o_public_id = Org_ID z, o_name = Org_Name z,
        o_status = Org_Status z, o_created_at = Org_CreatedAt z, o_archived_at = None\<rparr> db = Inr db1"
    and org: "organisation_row (Org_ID z) db1 = Some org"
    and om: "insert_om (new_om mid (o_id org) actor ''owner'' actor (Org_CreatedAt z) 1) db1 = Inr db2"
    and r1: "recordOrganisationAuditTx (rand_read e 2) actor (Org_ID z) eventOrganisationCreated
        (no_details (Org_ID z) reason) (Org_CreatedAt z) db2 = Inr db3"
    and r2: "recordOrganisationAuditTx (rand_read e 3) actor (Org_ID z) eventMembershipAdded
        (member_details (Org_ID z) mid a ''owner'' reason) (Org_CreatedAt z) db3 = Inr db'"
    and ym: "y = z" "m = membership_value mid (Org_ID z) a ''owner'' True a (Org_CreatedAt z)"
    by (auto simp: createOrganisationTx_def tx_simps activeUserIDTx_def)
  from ins have db1: "db1 = db\<lparr>organisations := organisations db @ [?row]\<rparr>"
    and fresh: "organisation_row (Org_ID z) db = None"
    by (auto simp: insert_organisation_def insert_row_def organisation_row_def find_None_iff taken_def list_ex_iff
        split: if_splits)
  have find_snoc: "find P (xs @ [x]) = (case find P xs of None \<Rightarrow> if P x then Some x else None | Some w \<Rightarrow> Some w)"
    for P :: "org_row \<Rightarrow> bool" and xs x
    by (induction xs) auto
  have orgrow: "org = ?row"
    using org fresh by (auto simp: organisation_row_def db1 find_snoc)
  note db2 = insert_om_Inr [OF om]
  have "has_user db2 actor"
    using active_user_Some [OF act] by (auto simp: db1 db2 list_ex_iff)
  moreover have "has_user db3 actor" using calculation org_rec.rec_same(1) [OF r1] by simp
  ultimately have logs: "length (audit_events db') = length (audit_events db) + 2"
      "length (platform_outbox db') = length (platform_outbox db) + 2"
    using org_rec.rec_logs [OF r1] org_rec.rec_logs [OF r2] by (simp_all add: db1 db2)
  have tabs: "organisations db' = organisations db @ [?row]"
      "organisation_memberships db' = organisation_memberships db @
       [(new_om mid (o_id org) actor ''owner'' actor (Org_CreatedAt z) 1)
          \<lparr>om_id := next_id om_id (organisation_memberships db)\<rparr>]"
    using org_rec.rec_same(2,3) [OF r1] org_rec.rec_same(2,3) [OF r2] by (simp_all add: db1 db2)
  have "Org_ArchivedAt z = None"
    using assms ym(1) by (auto simp: CreateOrganisation_def tx_simps Let_def createOrganisationTx_def)
  then have "organisation_view ?row = y" by (simp add: organisation_view_def ym(1))
  moreover have "organisation_row (Org_ID y) db' = Some ?row"
    using fresh by (simp add: organisation_row_def tabs(1) find_snoc ym(1))
  ultimately show ?thesis
    using act z fresh tabs logs ym unfolding orgrow
    by (intro exI [of _ actor] exI [of _ ?row] exI [of _ mid]) simp
qed

section \<open>Reads\<close>

text \<open>The specification of who may read an organisation.\<close>

definition may_read_organisation :: "string \<Rightarrow> org_row \<Rightarrow> db \<Rightarrow> bool" where
  "may_read_organisation pid r db \<longleftrightarrow>
     o_status r = ''active'' \<and>
     (\<exists>u \<in> set (users db). u_public_id u = pid \<and> u_active u \<and>
        (system_admin (u_id u) db \<or>
         (\<exists>m \<in> set (organisation_memberships db).
            om_organisation_id m = o_id r \<and> om_user_id m = u_id u \<and> om_active m)))"

lemma member_public_iff:
  "member_public org pid db \<longleftrightarrow>
     (\<exists>u \<in> set (users db). \<exists>m \<in> set (organisation_memberships db).
        u_public_id u = pid \<and> u_active u \<and> om_organisation_id m = org \<and> om_user_id m = u_id u \<and> om_active m)"
  unfolding member_public_def current_membership_def find_None_iff list_ex_iff by fastforce

lemma reader_iff:
  "o_status r = ''active'' \<and> (member_public (o_id r) pid db \<or> system_admin_public pid db) \<longleftrightarrow>
     may_read_organisation pid r db"
  by (auto simp: may_read_organisation_def member_public_iff system_admin_public_def list_ex_iff)

lemma active_user_iff:
  assumes "users_ok db"
  shows "active_user pid db = Some i \<longleftrightarrow> (\<exists>u \<in> set (users db). u_public_id u = pid \<and> u_active u \<and> u_id u = i)"
proof -
  have "unique_key every u_public_id (users db)" using assms by (simp add: users_ok_def)
  note find_key_and [OF this, of pid u_active] find_key_iff [OF this, of pid]
  then show ?thesis by (auto simp: active_user_def)
qed

lemma GetOrganisation_iff:
  assumes "organisations_ok db"
  shows "GetOrganisation pid i db = Inr y \<longleftrightarrow>
    (\<exists>r. organisation_row i db = Some r \<and> may_read_organisation pid r db \<and> y = organisation_view r)"
proof -
  have read: "find (\<lambda>r. o_public_id r = i \<and> o_status r = ''active'' \<and>
        (member_public (o_id r) pid db \<or> system_admin_public pid db)) (organisations db) =
      find (\<lambda>r. o_public_id r = i \<and> may_read_organisation pid r db) (organisations db)"
    by (simp only: reader_iff)
  have "find (\<lambda>r. o_public_id r = i \<and> may_read_organisation pid r db) (organisations db) = Some r \<longleftrightarrow>
      organisation_row i db = Some r \<and> may_read_organisation pid r db" for r
    unfolding organisation_row_def
    by (rule find_key_and) (use assms in \<open>simp add: organisations_ok_def\<close>)
  then show ?thesis by (auto simp: GetOrganisation_def read split: option.splits)
qed

text \<open>
  An organisation is returned exactly to those who may read it: the active
  users who hold a current membership in it or are system administrators, and only while it is
  active. Everyone else gets an error that tells only whether the identifier exists.
\<close>

lemma get_organisation_access:
  assumes "organisations_ok db"
  shows "GetOrganisation pid i db =
    (case organisation_row i db of
       None \<Rightarrow> Inl (Store ErrOrganisationNotFound)
     | Some r \<Rightarrow> if may_read_organisation pid r db then Inr (organisation_view r)
                 else Inl (Store ErrUnauthorisedOrganisationAction))"
proof (cases "GetOrganisation pid i db")
  case (Inl x)
  have "count_where (\<lambda>r. o_public_id r = i) (organisations db) = 0 \<longleftrightarrow> organisation_row i db = None"
    by (auto simp: count_where_def organisation_row_def find_None_iff filter_empty_conv)
  with Inl GetOrganisation_iff [OF assms, of pid i] show ?thesis
    by (auto simp: GetOrganisation_def split: option.splits if_splits)
next
  case (Inr y)
  with GetOrganisation_iff [OF assms, of pid i y] show ?thesis by auto
qed

text \<open>
  The list of a user's organisations and the single read agree: the list
  contains an organisation exactly when reading that organisation succeeds with the same value.
\<close>

lemma list_organisations_agree:
  assumes "organisations_ok db" and "users_ok db"
  shows "y \<in> fst ` set (ListUserOrganisations pid db) \<longleftrightarrow>
    GetOrganisation (TrimSpace pid) (Org_ID y) db = Inr y"
proof -
  let ?p = "TrimSpace pid"
  note act = active_user_iff [OF assms(2), of ?p]
  have join: "(\<exists>role. (q, role) \<in> set (organisation_join ?p db r)) \<and> o_status r = ''active'' \<longleftrightarrow>
      q = r \<and> may_read_organisation ?p r db" for q r
    by (auto simp: organisation_join_def Let_def may_read_organisation_def system_admin_public_def
        list_ex_iff filter_empty_conv act) metis+
  have "y \<in> fst ` set (ListUserOrganisations pid db) \<longleftrightarrow>
      (\<exists>r \<in> set (organisations db). \<exists>q. ((\<exists>role. (q, role) \<in> set (organisation_join ?p db r)) \<and>
         o_status r = ''active'') \<and> y = organisation_view q)"
    by (auto simp: ListUserOrganisations_def image_iff Bex_def)
  then have list: "y \<in> fst ` set (ListUserOrganisations pid db) \<longleftrightarrow>
      (\<exists>r \<in> set (organisations db). may_read_organisation ?p r db \<and> y = organisation_view r)"
    unfolding join by blast
  have "unique_key every o_public_id (organisations db)" using assms(1) by (simp add: organisations_ok_def)
  note row = find_key_iff [OF this]
  show ?thesis
    unfolding list GetOrganisation_iff [OF assms(1)] organisation_row_def row
    by (auto simp: organisation_view_def)
qed

end
