(* ===== verification/Workspace.thy ===== *)
theory Workspace
  imports Organisation
begin

text \<open>
  Workspaces: the proof of access scope (\<^verbatim>\<open>internal/db/sqlite/access_scope.go\<close>) and the workspace
  operations built on it (\<^verbatim>\<open>internal/db/sqlite/workspace.go\<close>).
\<close>

section \<open>Access scope\<close>

record WorkspaceScope =
  Scope_UserID :: string
  Scope_OrganisationID :: string
  Scope_WorkspaceID :: string
  Scope_OrganisationRole :: string
  Scope_WorkspaceRole :: string
  Scope_SystemAdmin :: bool

record workspaceScopeProof =
  Proof_userInternalID :: int
  Proof_organisationInternalID :: int
  Proof_workspaceInternalID :: int
  Proof_scope :: WorkspaceScope

definition coalesce :: "string option \<Rightarrow> string" where \<comment> \<open>\<^verbatim>\<open>COALESCE(x,'')\<close>\<close>
  "coalesce x = (case x of None \<Rightarrow> [] | Some s \<Rightarrow> s)"

definition workspace_role :: "int \<Rightarrow> int \<Rightarrow> db \<Rightarrow> string option" where
  "workspace_role ws uid db =
     map_option wm_role (find (\<lambda>m. wm_workspace_id m = ws \<and> wm_user_id m = uid \<and> wm_active m)
       (workspace_memberships db))"

text \<open>
  The joined row of the query: the active user, the active workspace and its active organisation,
  with the roles the user holds in each.
\<close>

definition scope_proof :: "user_row \<Rightarrow> ws_row \<Rightarrow> org_row \<Rightarrow> db \<Rightarrow> workspaceScopeProof" where
  "scope_proof u w r db =
     \<lparr>Proof_userInternalID = u_id u, Proof_organisationInternalID = o_id r,
      Proof_workspaceInternalID = w_id w,
      Proof_scope = \<lparr>Scope_UserID = u_public_id u, Scope_OrganisationID = o_public_id r,
        Scope_WorkspaceID = w_public_id w,
        Scope_OrganisationRole = coalesce (current_role (o_id r) (u_id u) db),
        Scope_WorkspaceRole = coalesce (workspace_role (w_id w) (u_id u) db),
        Scope_SystemAdmin = system_admin (u_id u) db\<rparr>\<rparr>"

definition scope_row :: "string \<Rightarrow> string \<Rightarrow> db \<Rightarrow> workspaceScopeProof option" where
  "scope_row requesterUserID workspaceID db =
     (case find (\<lambda>u. u_public_id u = requesterUserID \<and> u_active u) (users db) of None \<Rightarrow> None
      | Some u \<Rightarrow>
     (case find (\<lambda>w. w_public_id w = workspaceID \<and> w_status w = ''active'') (workspaces db) of None \<Rightarrow> None
      | Some w \<Rightarrow>
     (case find (\<lambda>r. o_id r = w_organisation_id w \<and> o_status r = ''active'') (organisations db) of None \<Rightarrow> None
      | Some r \<Rightarrow>
        Some (scope_proof u w r db))))"

definition proveWorkspaceScopeQuery :: "string \<Rightarrow> string \<Rightarrow> bool \<Rightarrow> db \<Rightarrow> workspaceScopeProof result" where
  "proveWorkspaceScopeQuery requesterUserID workspaceID adminOnly db =
     attempt (need (Store ErrAccessScopeDenied) (scope_row requesterUserID workspaceID db)) (\<lambda>p.
     let s = Proof_scope p in
     if \<not> Scope_SystemAdmin s \<and> \<not> OrganisationRole_Valid (Scope_OrganisationRole s)
     then Inl (Store ErrAccessScopeDenied)
     else if adminOnly \<and> \<not> Scope_SystemAdmin s \<and> \<not> OrganisationRole_CanAdminister (Scope_OrganisationRole s) \<and>
             \<not> WorkspaceRole_CanAdminister (Scope_WorkspaceRole s)
     then Inl (Store ErrAccessScopeDenied)
     else if \<not> adminOnly \<and> \<not> Scope_SystemAdmin s \<and> \<not> OrganisationRole_CanAdminister (Scope_OrganisationRole s) \<and>
             \<not> WorkspaceRole_Valid (Scope_WorkspaceRole s)
     then Inl (Store ErrAccessScopeDenied)
     else Inr p)"

definition ProveWorkspaceScope :: "string \<Rightarrow> string \<Rightarrow> bool \<Rightarrow> db \<Rightarrow> WorkspaceScope result" where
  "ProveWorkspaceScope requesterUserID workspaceID adminOnly db =
     attempt (proveWorkspaceScopeQuery requesterUserID workspaceID adminOnly db) (\<lambda>p. Inr (Proof_scope p))"

section \<open>Authority\<close>

abbreviation "auditWorkspace \<equiv> ''Workspace''"

text \<open>\<^verbatim>\<open>FROM workspaces w JOIN organisations o ON o.id=w.organisation_id WHERE w.public_id=?\<close>\<close>

definition workspace_with_organisation :: "string \<Rightarrow> db \<Rightarrow> (ws_row \<times> org_row) option" where
  "workspace_with_organisation workspaceID db =
     (case find (\<lambda>w. w_public_id w = workspaceID \<and> has_organisation db (w_organisation_id w)) (workspaces db) of
        None \<Rightarrow> None
      | Some w \<Rightarrow> map_option (Pair w) (find (\<lambda>r. o_id r = w_organisation_id w) (organisations db)))"

definition classifyWorkspaceScopeError :: "string \<Rightarrow> err \<Rightarrow> db \<Rightarrow> err" where
  "classifyWorkspaceScopeError workspaceID x db =
     (if x \<noteq> Store ErrAccessScopeDenied then x
      else case workspace_with_organisation workspaceID db of
        None \<Rightarrow> Store ErrWorkspaceNotFound
      | Some (w, r) \<Rightarrow>
          if w_status w \<noteq> WorkspaceActive \<or> o_status r \<noteq> OrganisationActive then Store ErrWorkspaceArchived
          else Store ErrUnauthorisedWorkspaceAction)"

definition authorisedWorkspaceRead :: "string \<Rightarrow> string \<Rightarrow> bool \<Rightarrow> db \<Rightarrow> int result" where
  "authorisedWorkspaceRead requesterUserID workspaceID adminOnly db =
     (case proveWorkspaceScopeQuery requesterUserID workspaceID adminOnly db of
        Inl x \<Rightarrow> Inl (classifyWorkspaceScopeError workspaceID x db)
      | Inr p \<Rightarrow> Inr (Proof_workspaceInternalID p))"

definition authorisedWorkspaceMutationTx ::
    "string \<Rightarrow> string \<Rightarrow> bool \<Rightarrow> db \<Rightarrow> (int \<times> int \<times> int \<times> bool) result" where
  "authorisedWorkspaceMutationTx actorUserID workspaceID allowWorkspaceAdmin db =
     (case proveWorkspaceScopeQuery actorUserID workspaceID True db of
        Inl x \<Rightarrow> Inl (classifyWorkspaceScopeError workspaceID x db)
      | Inr p \<Rightarrow>
          if \<not> allowWorkspaceAdmin \<and> \<not> Scope_SystemAdmin (Proof_scope p) \<and>
             \<not> OrganisationRole_CanAdminister (Scope_OrganisationRole (Proof_scope p))
          then Inl (Store ErrUnauthorisedWorkspaceAction)
          else Inr (Proof_userInternalID p, Proof_organisationInternalID p, Proof_workspaceInternalID p,
                    Scope_SystemAdmin (Proof_scope p)))"

definition activeWorkspaceTargetUserTx :: "int \<Rightarrow> string \<Rightarrow> db \<Rightarrow> unit result" where
  "activeWorkspaceTargetUserTx ws targetUserID db =
     (if list_ex (\<lambda>u. u_public_id u = targetUserID \<and> u_active u \<and>
           list_ex (\<lambda>r. Some (o_id r) = map_option w_organisation_id (find (\<lambda>w. w_id w = ws) (workspaces db)) \<and>
                        o_status r = ''active'' \<and>
                        list_ex (\<lambda>m. om_organisation_id m = o_id r \<and> om_user_id m = u_id u \<and> om_active m)
                          (organisation_memberships db)) (organisations db)) (users db)
      then Inr () else Inl (Store ErrUnauthorisedWorkspaceAction))"

definition targetUserIDInternal :: "string \<Rightarrow> db \<Rightarrow> int result" where
  "targetUserIDInternal targetUserID db = need ErrNoRows (active_user targetUserID db)"

text \<open>
  \<^verbatim>\<open>FROM workspace_memberships m JOIN users u ON u.id=m.user_id AND u.active=1 WHERE m.workspace_id=? AND
  u.public_id=? AND m.active=1\<close>
\<close>

definition workspace_membership :: "int \<Rightarrow> string \<Rightarrow> db \<Rightarrow> wm_row option" where
  "workspace_membership ws pid db =
     find (\<lambda>m. wm_workspace_id m = ws \<and> wm_active m \<and>
               list_ex (\<lambda>u. u_id u = wm_user_id m \<and> u_active u \<and> u_public_id u = pid) (users db))
       (workspace_memberships db)"

section \<open>Recording\<close>

definition workspace_details :: "workspaceMutationDetails \<Rightarrow> string" where
  "workspace_details d =
     Marshal (JObj ([(''workspace_id'', JStr (WspD_WorkspaceID d))] @
       omitempty ''membership_id'' (WspD_MembershipID d) @ omitempty ''user_id'' (WspD_UserID d) @
       omitempty ''role'' (WspD_Role d) @ omitempty ''reason'' (WspD_Reason d)))"

definition recordWorkspaceAuditTx ::
    "(nat \<Rightarrow> char) option \<Rightarrow> int \<Rightarrow> string \<Rightarrow> string \<Rightarrow> workspaceMutationDetails \<Rightarrow> gotime \<Rightarrow> db \<Rightarrow> db result" where
  "recordWorkspaceAuditTx src actor workspaceID event d at db =
     (let db = insert_audit actor auditWorkspace workspaceID event (workspace_details d) at db in
      attempt (need ErrNoRows (workspace_with_organisation workspaceID db)) (\<lambda>(w, r).
      appendWorkspaceEventTx src event d (o_public_id r) at db))"

definition wsp_details :: "string \<Rightarrow> string \<Rightarrow> workspaceMutationDetails" where
  "wsp_details workspaceID reason =
     \<lparr>WspD_WorkspaceID = workspaceID, WspD_MembershipID = [], WspD_UserID = [], WspD_Role = [],
      WspD_Reason = TrimSpace reason\<rparr>"

definition wsp_member_details :: "string \<Rightarrow> string \<Rightarrow> string \<Rightarrow> string \<Rightarrow> string \<Rightarrow> workspaceMutationDetails" where
  "wsp_member_details workspaceID membershipID userID role reason =
     (wsp_details workspaceID reason)
       \<lparr>WspD_MembershipID := membershipID, WspD_UserID := userID, WspD_Role := role\<rparr>"

definition new_wm :: "string \<Rightarrow> int \<Rightarrow> int \<Rightarrow> string \<Rightarrow> int \<Rightarrow> gotime \<Rightarrow> int \<Rightarrow> wm_row" where
  "new_wm public_id ws uid role assigned_by at version =
     \<lparr>wm_id = 0, wm_public_id = public_id, wm_workspace_id = ws, wm_user_id = uid, wm_role = role,
      wm_active = True, wm_assigned_by = assigned_by, wm_assigned_at = at, wm_removed_by = None,
      wm_removed_at = None, wm_removal_reason = [], wm_version = version\<rparr>"

definition wsp_membership_value ::
    "string \<Rightarrow> string \<Rightarrow> string \<Rightarrow> string \<Rightarrow> bool \<Rightarrow> string \<Rightarrow> gotime \<Rightarrow> WorkspaceMembership" where
  "wsp_membership_value i workspaceID userID role active assignedBy at =
     \<lparr>WMem_ID = i, WMem_WorkspaceID = workspaceID, WMem_UserID = userID, WMem_Role = role,
      WMem_Active = active, WMem_AssignedBy = assignedBy, WMem_AssignedAt = at,
      WMem_RemovedBy = [], WMem_RemovedAt = None, WMem_RemovalReason = []\<rparr>"

section \<open>Mutations\<close>

definition createWorkspaceTx ::
    "env \<Rightarrow> string \<Rightarrow> string \<Rightarrow> Workspace \<Rightarrow> string \<Rightarrow> string \<Rightarrow> db \<Rightarrow> ((Workspace \<times> WorkspaceMembership) \<times> db) result" where
  "createWorkspaceTx e actorUserID organisationID workspace membershipID reason db =
     attempt (authorisedOrganisationMutationTx actorUserID organisationID db) (\<lambda>(actor, _, org, _).
     exec (insert_workspace
       \<lparr>w_id = 0, w_public_id = Wsp_ID workspace, w_organisation_id = org, w_name = Wsp_Name workspace,
        w_status = Wsp_Status workspace, w_created_at = Wsp_CreatedAt workspace,
        w_archived_at = None\<rparr> db) (\<lambda>db.
     attempt (need ErrNoRows (find (\<lambda>w. w_public_id w = Wsp_ID workspace) (workspaces db))) (\<lambda>w.
     exec (insert_wm (new_wm membershipID (w_id w) actor WorkspaceAdmin actor (Wsp_CreatedAt workspace) 1) db) (\<lambda>db.
     exec (recordWorkspaceAuditTx (rand_read e 2) actor (Wsp_ID workspace) eventWorkspaceCreated
            (wsp_details (Wsp_ID workspace) reason) (Wsp_CreatedAt workspace) db) (\<lambda>db.
     exec (recordWorkspaceAuditTx (rand_read e 3) actor (Wsp_ID workspace) eventWorkspaceMembershipAdded
            (wsp_member_details (Wsp_ID workspace) membershipID actorUserID WorkspaceAdmin reason)
            (Wsp_CreatedAt workspace) db) (\<lambda>db.
     Inr ((workspace, wsp_membership_value membershipID (Wsp_ID workspace) actorUserID WorkspaceAdmin True
             actorUserID (Wsp_CreatedAt workspace)), db)))))))"

definition CreateWorkspace ::
    "env \<Rightarrow> string \<Rightarrow> string \<Rightarrow> Workspace \<Rightarrow> string \<Rightarrow> gotime \<Rightarrow> db \<Rightarrow>
     (Workspace \<times> WorkspaceMembership) result \<times> db" where
  "CreateWorkspace e actorUserID organisationID workspace0 reason at db =
     prepare db
      (attempt (validateMutationReason reason) (\<lambda>_.
       if IsZero at then Inl (ErrNew ''workspace creation time is required'')
       else attempt (if Wsp_ID workspace0 = [] then NewWorkspaceID (rand_read e 0)
                     else Inr (Wsp_ID workspace0)) (\<lambda>wid.
       let workspace = \<lparr>Wsp_ID = wid, Wsp_OrganisationID = organisationID,
                        Wsp_Name = TrimSpace (Wsp_Name workspace0), Wsp_Status = WorkspaceActive,
                        Wsp_CreatedAt = at, Wsp_ArchivedAt = None\<rparr> in
       attempt (Workspace_Validate workspace) (\<lambda>_.
       attempt (NewWorkspaceMembershipID (rand_read e 1)) (\<lambda>mid.
       Inr (workspace, mid))))))
      (\<lambda>p. with_tx e db (createWorkspaceTx e actorUserID organisationID (fst p) (snd p) reason))"

definition addWorkspaceMemberTx ::
    "env \<Rightarrow> string \<Rightarrow> string \<Rightarrow> string \<Rightarrow> string \<Rightarrow> string \<Rightarrow> gotime \<Rightarrow> db \<Rightarrow> (WorkspaceMembership \<times> db) result" where
  "addWorkspaceMemberTx e actorUserID workspaceID targetUserID role reason at db =
     (if \<not> WorkspaceRole_Valid role then Inl (Domain ErrInvalidWorkspaceRole)
      else attempt (validateMutationReason reason) (\<lambda>_.
      if IsZero at then Inl (ErrNew ''workspace membership assignment time is required'')
      else attempt (NewWorkspaceMembershipID (rand_read e 0)) (\<lambda>membershipID.
      attempt (authorisedWorkspaceMutationTx actorUserID workspaceID True db) (\<lambda>(actor, _, ws, _).
      attempt (activeWorkspaceTargetUserTx ws targetUserID db) (\<lambda>_.
      if workspace_membership ws targetUserID db \<noteq> None then Inl (Store ErrDuplicateWorkspaceMember)
      else attempt (targetUserIDInternal targetUserID db) (\<lambda>target.
      exec (insert_wm (new_wm membershipID ws target role actor at 1) db) (\<lambda>db.
      exec (recordWorkspaceAuditTx (rand_read e 1) actor workspaceID eventWorkspaceMembershipAdded
             (wsp_member_details workspaceID membershipID targetUserID role reason) at db) (\<lambda>db.
      Inr (wsp_membership_value membershipID workspaceID targetUserID role True actorUserID at, db)))))))))"

definition AddWorkspaceMember ::
    "env \<Rightarrow> string \<Rightarrow> string \<Rightarrow> string \<Rightarrow> string \<Rightarrow> string \<Rightarrow> gotime \<Rightarrow> db \<Rightarrow> WorkspaceMembership result \<times> db" where
  "AddWorkspaceMember e actorUserID workspaceID targetUserID role reason at db =
     prepare db
      (if \<not> WorkspaceRole_Valid role then Inl (Domain ErrInvalidWorkspaceRole)
       else attempt (validateMutationReason reason) (\<lambda>_.
       if IsZero at then Inl (ErrNew ''workspace membership assignment time is required'') else Inr ()))
      (\<lambda>_. with_tx e db (addWorkspaceMemberTx e actorUserID workspaceID targetUserID role reason at))"

definition changeWorkspaceMemberRoleTx ::
    "env \<Rightarrow> string \<Rightarrow> string \<Rightarrow> string \<Rightarrow> string \<Rightarrow> string \<Rightarrow> gotime \<Rightarrow> int option \<Rightarrow> db \<Rightarrow>
     (WorkspaceMembership \<times> db) result" where
  "changeWorkspaceMemberRoleTx e actorUserID workspaceID targetUserID role reason at expectedVersion db =
     (if \<not> WorkspaceRole_Valid role then Inl (Domain ErrInvalidWorkspaceRole)
      else attempt (validateMutationReason reason) (\<lambda>_.
      if IsZero at then Inl (ErrNew ''workspace membership role-change time is required'')
      else attempt (NewWorkspaceMembershipID (rand_read e 0)) (\<lambda>membershipID.
      attempt (authorisedWorkspaceMutationTx actorUserID workspaceID True db) (\<lambda>(actor, _, ws, _).
      attempt (activeWorkspaceTargetUserTx ws targetUserID db) (\<lambda>_.
      attempt (need (Store ErrWorkspaceMembershipNotFound) (workspace_membership ws targetUserID db)) (\<lambda>current.
      if version_conflict expectedVersion (wm_version current) then Inl (Store ErrMembershipCommandConflict)
      else if wm_role current = role then Inl (Store ErrDuplicateWorkspaceMember)
      else exec (deactivate_wm (\<lambda>m. wm_id m = wm_id current) actor at (TrimSpace reason) db) (\<lambda>db.
      attempt (targetUserIDInternal targetUserID db) (\<lambda>target.
      exec (insert_wm (new_wm membershipID ws target role actor at (wm_version current + 1)) db) (\<lambda>db.
      exec (recordWorkspaceAuditTx (rand_read e 1) actor workspaceID eventWorkspaceRoleChanged
             (wsp_member_details workspaceID membershipID targetUserID role reason) at db) (\<lambda>db.
      Inr (wsp_membership_value membershipID workspaceID targetUserID role True actorUserID at, db)))))))))))"

definition ChangeWorkspaceMemberRole ::
    "env \<Rightarrow> string \<Rightarrow> string \<Rightarrow> string \<Rightarrow> string \<Rightarrow> string \<Rightarrow> gotime \<Rightarrow> db \<Rightarrow> WorkspaceMembership result \<times> db" where
  "ChangeWorkspaceMemberRole e actorUserID workspaceID targetUserID role reason at db =
     prepare db
      (if \<not> WorkspaceRole_Valid role then Inl (Domain ErrInvalidWorkspaceRole)
       else attempt (validateMutationReason reason) (\<lambda>_.
       if IsZero at then Inl (ErrNew ''workspace membership role-change time is required'') else Inr ()))
      (\<lambda>_. with_tx e db
        (changeWorkspaceMemberRoleTx e actorUserID workspaceID targetUserID role reason at None))"

definition deactivateWorkspaceMemberTx ::
    "env \<Rightarrow> string \<Rightarrow> string \<Rightarrow> string \<Rightarrow> string \<Rightarrow> gotime \<Rightarrow> int option \<Rightarrow> db \<Rightarrow> (WorkspaceMembership \<times> db) result" where
  "deactivateWorkspaceMemberTx e actorUserID workspaceID targetUserID reason at expectedVersion db =
     attempt (validateMutationReason reason) (\<lambda>_.
     if IsZero at then Inl (ErrNew ''workspace membership deactivation time is required'')
     else attempt (authorisedWorkspaceMutationTx actorUserID workspaceID True db) (\<lambda>(actor, _, ws, _).
     attempt (activeWorkspaceTargetUserTx ws targetUserID db) (\<lambda>_.
     attempt (need (Store ErrWorkspaceMembershipNotFound) (workspace_membership ws targetUserID db)) (\<lambda>current.
     if version_conflict expectedVersion (wm_version current) then Inl (Store ErrMembershipCommandConflict)
     else if count_where (\<lambda>m. wm_id m = wm_id current \<and> wm_active m) (workspace_memberships db) \<noteq> 1
     then Inl (Store ErrWorkspaceMembershipNotFound)
     else exec (deactivate_wm (\<lambda>m. wm_id m = wm_id current) actor at (TrimSpace reason) db) (\<lambda>db.
     exec (recordWorkspaceAuditTx (rand_read e 0) actor workspaceID eventWorkspaceMemberRemoved
            (wsp_member_details workspaceID (wm_public_id current) targetUserID (wm_role current) reason)
            at db) (\<lambda>db.
     Inr (wsp_membership_value (wm_public_id current) workspaceID targetUserID (wm_role current) False
            actorUserID at, db)))))))"

definition DeactivateWorkspaceMember ::
    "env \<Rightarrow> string \<Rightarrow> string \<Rightarrow> string \<Rightarrow> string \<Rightarrow> gotime \<Rightarrow> db \<Rightarrow> unit result \<times> db" where
  "DeactivateWorkspaceMember e actorUserID workspaceID targetUserID reason at db =
     prepare db
      (attempt (validateMutationReason reason) (\<lambda>_.
       if IsZero at then Inl (ErrNew ''workspace membership deactivation time is required'') else Inr ()))
      (\<lambda>_. with_tx e db (\<lambda>db.
        call (deactivateWorkspaceMemberTx e actorUserID workspaceID targetUserID reason at None db)
          (\<lambda>_ db. Inr ((), db))))"

text \<open>
  \<^verbatim>\<open>SELECT m.public_id,u.public_id,m.role FROM workspace_memberships m JOIN users u ON u.id=m.user_id
  WHERE m.workspace_id=? AND m.active=1\<close>. The statement has no \<^verbatim>\<open>ORDER BY\<close>; the model takes the
  rows in the order of their numbers, and no theorem depends on the order.
\<close>

definition active_workspace_memberships :: "int \<Rightarrow> db \<Rightarrow> (string \<times> string \<times> string) list" where
  "active_workspace_memberships ws db =
     concat (map (\<lambda>m. map (\<lambda>u. (wm_public_id m, u_public_id u, wm_role m))
                        (filter (\<lambda>u. u_id u = wm_user_id m) (users db)))
       (filter (\<lambda>m. wm_workspace_id m = ws \<and> wm_active m) (workspace_memberships db)))"

definition archiveWorkspaceTx :: "env \<Rightarrow> string \<Rightarrow> string \<Rightarrow> string \<Rightarrow> gotime \<Rightarrow> db \<Rightarrow> (unit \<times> db) result" where
  "archiveWorkspaceTx e actorUserID workspaceID reason at db =
     attempt (authorisedWorkspaceMutationTx actorUserID workspaceID False db) (\<lambda>(actor, _, ws, _).
     let orgRole = coalesce (case find (\<lambda>w. w_id w = ws) (workspaces db) of
           None \<Rightarrow> None | Some w \<Rightarrow> current_role (w_organisation_id w) actor db) in
     if \<not> system_admin actor db \<and> \<not> OrganisationRole_CanAdminister orgRole
     then Inl (Store ErrUnauthorisedWorkspaceAction)
     else if count_where (\<lambda>w. w_id w = ws \<and> w_status w = ''active'') (workspaces db) \<noteq> 1
     then Inl (Store ErrWorkspaceArchived)
     else let db = archive_workspace ws at db; members = active_workspace_memberships ws db in
     exec (deactivate_wm (\<lambda>m. wm_workspace_id m = ws) actor at (TrimSpace reason) db) (\<lambda>db.
     exec (for_each (\<lambda>k x. recordWorkspaceAuditTx (rand_read e k) actor workspaceID
             eventWorkspaceMemberRemoved
             (wsp_member_details workspaceID (fst x) (fst (snd x)) (snd (snd x)) reason) at)
             0 members db) (\<lambda>db.
     exec (recordWorkspaceAuditTx (rand_read e (length members)) actor workspaceID eventWorkspaceArchived
             (wsp_details workspaceID reason) at db) (\<lambda>db.
     Inr ((), db)))))"

definition ArchiveWorkspace :: "env \<Rightarrow> string \<Rightarrow> string \<Rightarrow> string \<Rightarrow> gotime \<Rightarrow> db \<Rightarrow> unit result \<times> db" where
  "ArchiveWorkspace e actorUserID workspaceID reason at db =
     prepare db
      (attempt (validateMutationReason reason) (\<lambda>_.
       if IsZero at then Inl (ErrNew ''workspace archive time is required'') else Inr ()))
      (\<lambda>_. with_tx e db (archiveWorkspaceTx e actorUserID workspaceID reason at))"

section \<open>Reads\<close>

definition workspace_view :: "ws_row \<Rightarrow> string \<Rightarrow> Workspace" where
  "workspace_view w organisationID =
     \<lparr>Wsp_ID = w_public_id w, Wsp_OrganisationID = organisationID, Wsp_Name = w_name w,
      Wsp_Status = w_status w, Wsp_CreatedAt = w_created_at w, Wsp_ArchivedAt = w_archived_at w\<rparr>"

definition GetWorkspace :: "string \<Rightarrow> string \<Rightarrow> db \<Rightarrow> Workspace result" where
  "GetWorkspace requesterUserID workspaceID db =
     attempt (authorisedWorkspaceRead requesterUserID workspaceID False db) (\<lambda>_.
     case [(w, r). w \<leftarrow> workspaces db, w_public_id w = workspaceID \<and> w_status w = ''active'',
                   r \<leftarrow> organisations db, o_id r = w_organisation_id w \<and> o_status r = ''active''] of
       [] \<Rightarrow> Inl ErrNoRows
     | (w, r) # _ \<Rightarrow> Inr (workspace_view w (o_public_id r)))"

definition GetWorkspaceMembership :: "string \<Rightarrow> string \<Rightarrow> string \<Rightarrow> db \<Rightarrow> WorkspaceMembership result" where
  "GetWorkspaceMembership requesterUserID workspaceID targetUserID db =
     attempt (authorisedWorkspaceRead requesterUserID workspaceID
                (TrimSpace requesterUserID \<noteq> TrimSpace targetUserID) db) (\<lambda>_.
     case [(m, g). w \<leftarrow> workspaces db, w_public_id w = workspaceID \<and> w_status w = ''active'',
                   r \<leftarrow> organisations db, o_id r = w_organisation_id w \<and> o_status r = ''active'',
                   m \<leftarrow> workspace_memberships db, wm_workspace_id m = w_id w \<and> wm_active m,
                   u \<leftarrow> users db, u_id u = wm_user_id m \<and> u_active u \<and> u_public_id u = targetUserID,
                   g \<leftarrow> users db, u_id g = wm_assigned_by m] of
       [] \<Rightarrow> Inl (Store ErrWorkspaceMembershipNotFound)
     | (m, g) # _ \<Rightarrow> Inr (wsp_membership_value (wm_public_id m) workspaceID targetUserID (wm_role m)
                            (wm_active m) (u_public_id g) (wm_assigned_at m)))"

text \<open>\<^verbatim>\<open>(SELECT id FROM users WHERE public_id=?)\<close>\<close>

definition any_user :: "string \<Rightarrow> db \<Rightarrow> int option" where
  "any_user pid db = map_option u_id (find (\<lambda>u. u_public_id u = pid) (users db))"

definition ListOrganisationWorkspaces :: "string \<Rightarrow> string \<Rightarrow> db \<Rightarrow> Workspace list result" where
  "ListOrganisationWorkspaces requesterUserID organisationID db =
     attempt (authorisedOrganisationRead requesterUserID organisationID False db) (\<lambda>org.
     let uid = any_user requesterUserID db;
         role = coalesce (case uid of None \<Rightarrow> None | Some i \<Rightarrow> current_role org i db);
         systemAdmin = (case uid of None \<Rightarrow> False | Some i \<Rightarrow> system_admin i db);
         every_workspace = systemAdmin \<or> OrganisationRole_CanAdminister role
     in Inr (map (\<lambda>(w, r). workspace_view w (o_public_id r))
       (sort_key (\<lambda>(w, r). (w_name w, w_public_id w))
         [(w, r). w \<leftarrow> workspaces db, w_organisation_id w = org \<and> w_status w = ''active'' \<and>
                    (every_workspace \<or>
                     list_ex (\<lambda>m. wm_workspace_id m = w_id w \<and> wm_active m \<and> uid = Some (wm_user_id m) \<and>
                                  list_ex (\<lambda>u. u_id u = wm_user_id m \<and> u_active u) (users db))
                       (workspace_memberships db)),
                  r \<leftarrow> organisations db, o_id r = w_organisation_id w \<and> o_status r = ''active''])))"

record WorkspaceMemberRecord =
  WMR_MembershipID :: string
  WMR_WorkspaceID :: string
  WMR_UserID :: string
  WMR_Email :: string
  WMR_DisplayName :: string
  WMR_Role :: string
  WMR_AssignedAt :: gotime

definition ListWorkspaceMembers :: "string \<Rightarrow> string \<Rightarrow> db \<Rightarrow> WorkspaceMemberRecord list result" where
  "ListWorkspaceMembers requesterUserID workspaceID db =
     attempt (authorisedWorkspaceRead requesterUserID workspaceID True db) (\<lambda>ws.
     Inr (map (\<lambda>(m, w, u).
            \<lparr>WMR_MembershipID = wm_public_id m, WMR_WorkspaceID = w_public_id w, WMR_UserID = u_public_id u,
             WMR_Email = u_email u, WMR_DisplayName = u_display_name u, WMR_Role = wm_role m,
             WMR_AssignedAt = wm_assigned_at m\<rparr>)
       (sort_key (\<lambda>(m, w, u). (u_display_name u, u_public_id u))
         [(m, w, u). m \<leftarrow> workspace_memberships db, wm_workspace_id m = ws \<and> wm_active m,
                     w \<leftarrow> workspaces db, w_id w = wm_workspace_id m \<and> w_status w = ''active'',
                     r \<leftarrow> organisations db, o_id r = w_organisation_id w \<and> o_status r = ''active'',
                     u \<leftarrow> users db, u_id u = wm_user_id m \<and> u_active u])))"

record WorkspaceAuditRecord =
  WAR_ID :: int
  WAR_WorkspaceID :: string
  WAR_ActorUserID :: string
  WAR_Event :: string
  WAR_Details :: string
  WAR_OccurredAt :: gotime

definition ListWorkspaceAudit :: "string \<Rightarrow> string \<Rightarrow> int \<Rightarrow> db \<Rightarrow> WorkspaceAuditRecord list result" where
  "ListWorkspaceAudit requesterUserID workspaceID limit db =
     attempt (authorisedWorkspaceRead requesterUserID workspaceID True db) (\<lambda>ws.
     if limit \<le> 0 \<or> 100 < limit then Inl (ErrNew ''workspace audit limit must be between 1 and 100'')
     else Inr (map (\<lambda>a. \<lparr>WAR_ID = a_id a, WAR_WorkspaceID = a_aggregate_id a,
                          WAR_ActorUserID = audit_actor a db, WAR_Event = a_event a,
                          WAR_Details = a_details a, WAR_OccurredAt = a_occurred_at a\<rparr>)
       (latest_audit (nat limit)
         (filter (\<lambda>a. a_aggregate_type a = auditWorkspace \<and> a_aggregate_id a = workspaceID \<and>
                      list_ex (\<lambda>w. w_public_id w = a_aggregate_id a \<and> w_id w = ws) (workspaces db))
           (audit_events db)))))"

definition workspaceAuditCount :: "string \<Rightarrow> string \<Rightarrow> db \<Rightarrow> nat" where
  "workspaceAuditCount workspaceID event db =
     count_where (\<lambda>a. a_aggregate_type a = auditWorkspace \<and> a_aggregate_id a = workspaceID \<and>
                      a_event a = event) (audit_events db)"

record OrganisationWorkspaceEntry =
  OWE_OrganisationID :: string
  OWE_Resource :: string
  OWE_Available :: bool
  OWE_DefaultWorkspaceID :: string
  OWE_Workspaces :: "Workspace list"

definition GetOrganisationWorkspaceEntry :: "string \<Rightarrow> string \<Rightarrow> db \<Rightarrow> OrganisationWorkspaceEntry result" where
  "GetOrganisationWorkspaceEntry requesterUserID organisationID db =
     attempt (GetOrganisation requesterUserID organisationID db) (\<lambda>_.
     attempt (ListOrganisationWorkspaces requesterUserID organisationID db) (\<lambda>ws.
     Inr \<lparr>OWE_OrganisationID = organisationID, OWE_Resource = ''workspaces'', OWE_Available = (ws \<noteq> []),
          OWE_DefaultWorkspaceID = (case ws of [] \<Rightarrow> [] | w # _ \<Rightarrow> Wsp_ID w), OWE_Workspaces = ws\<rparr>))"

section \<open>Every mutation is a sequence of statements\<close>

abbreviation wsp_tables :: "tbl set" where
  "wsp_tables \<equiv> {Workspaces, WorkspaceMemberships, AuditEvents, Outbox}"

interpretation wsp_rec: recorder recordWorkspaceAuditTx auditWorkspace
  by unfold_locales
    (auto simp: recordWorkspaceAuditTx_def Let_def tx_simps intro: recordedI append_helpers)

lemma createWorkspaceTx_writes: "only_writes wsp_tables db (createWorkspaceTx e a i x mid reason db)"
  unfolding createWorkspaceTx_def by (auto intro!: step_rules intro: exec_writes wsp_rec.rec_writes)

lemma addWorkspaceMemberTx_writes: "only_writes wsp_tables db (addWorkspaceMemberTx e a i u role reason at db)"
  unfolding addWorkspaceMemberTx_def by (auto intro!: step_rules intro: exec_writes wsp_rec.rec_writes)

lemma changeWorkspaceMemberRoleTx_writes:
  "only_writes wsp_tables db (changeWorkspaceMemberRoleTx e a i u role reason at v db)"
  unfolding changeWorkspaceMemberRoleTx_def by (auto intro!: step_rules intro: exec_writes wsp_rec.rec_writes)

lemma deactivateWorkspaceMemberTx_writes:
  "only_writes wsp_tables db (deactivateWorkspaceMemberTx e a i u reason at v db)"
  unfolding deactivateWorkspaceMemberTx_def by (auto intro!: step_rules intro: exec_writes wsp_rec.rec_writes)

lemma archiveWorkspaceTx_writes: "only_writes wsp_tables db (archiveWorkspaceTx e a i reason at db)"
  unfolding archiveWorkspaceTx_def Let_def
  by (auto intro!: only_writes_attempt only_writes_if only_writes_Inr only_writes_exec
      intro: exec_writes wsp_rec.rec_writes wsp_rec.for_each_writes
        writes_trans [OF update_writes(13) exec_writes(11)])

lemma deactivate_wsp_body_writes:
  "only_writes wsp_tables db (call (deactivateWorkspaceMemberTx e a i u reason at v db) (\<lambda>_ db. Inr ((), db)))"
  by (intro only_writes_call deactivateWorkspaceMemberTx_writes only_writes_Inr writes_refl)

interpretation create_workspace: store_op wsp_tables
    "\<lambda>(actor, i, x, reason, at) e. CreateWorkspace e actor i x reason at"
  by unfold_locales
    (auto simp: CreateWorkspace_def dest: tx_method_atomic dest!: tx_method_traced [OF _ createWorkspaceTx_writes])

interpretation add_workspace_member: store_op wsp_tables
    "\<lambda>(actor, i, u, role, reason, at) e. AddWorkspaceMember e actor i u role reason at"
  by unfold_locales
    (auto simp: AddWorkspaceMember_def dest: tx_method_atomic
      dest!: tx_method_traced [OF _ addWorkspaceMemberTx_writes])

interpretation change_workspace_role: store_op wsp_tables
    "\<lambda>(actor, i, u, role, reason, at) e. ChangeWorkspaceMemberRole e actor i u role reason at"
  by unfold_locales
    (auto simp: ChangeWorkspaceMemberRole_def dest: tx_method_atomic
      dest!: tx_method_traced [OF _ changeWorkspaceMemberRoleTx_writes])

interpretation deactivate_workspace_member: store_op wsp_tables
    "\<lambda>(actor, i, u, reason, at) e. DeactivateWorkspaceMember e actor i u reason at"
  by unfold_locales
    (auto simp: DeactivateWorkspaceMember_def dest: tx_method_atomic
      dest!: tx_method_traced [OF _ deactivate_wsp_body_writes])

interpretation archive_workspace: store_op wsp_tables
    "\<lambda>(actor, i, reason, at) e. ArchiveWorkspace e actor i reason at"
  by unfold_locales
    (auto simp: ArchiveWorkspace_def dest: tx_method_atomic
      dest!: tx_method_traced [OF _ archiveWorkspaceTx_writes])

section \<open>The scope proof decides the specification\<close>

text \<open>
  Who is in the scope of a workspace: an active user, while the workspace and its organisation are
  active, who is a system administrator, or a current member of the organisation that is its owner
  or administrator or has a current membership of the workspace itself (as its administrator when
  administration is asked for).
\<close>

definition in_scope :: "bool \<Rightarrow> user_row \<Rightarrow> ws_row \<Rightarrow> org_row \<Rightarrow> db \<Rightarrow> bool" where
  "in_scope admin u w r db \<longleftrightarrow>
     u_active u \<and> w_status w = ''active'' \<and> o_status r = ''active'' \<and> o_id r = w_organisation_id w \<and>
     (system_admin (u_id u) db \<or>
      (\<exists>m \<in> set (organisation_memberships db). om_scope m = (o_id r, u_id u) \<and> om_active m \<and>
         (om_role m \<in> {''owner'', ''admin''} \<or>
          (\<exists>q \<in> set (workspace_memberships db). wm_scope q = (w_id w, u_id u) \<and> wm_active q \<and>
             (admin \<longrightarrow> wm_role q = ''admin'')))))"

definition scope_allowed :: "bool \<Rightarrow> string \<Rightarrow> string \<Rightarrow> db \<Rightarrow> bool" where
  "scope_allowed admin pid wid db \<longleftrightarrow>
     (\<exists>u \<in> set (users db). \<exists>w \<in> set (workspaces db). \<exists>r \<in> set (organisations db).
        u_public_id u = pid \<and> w_public_id w = wid \<and> in_scope admin u w r db)"

lemma current_role_iff:
  assumes "om_ok db"
  shows "current_role org uid db = Some role \<longleftrightarrow>
    (\<exists>m \<in> set (organisation_memberships db). om_scope m = (org, uid) \<and> om_active m \<and> om_role m = role)"
proof
  assume "\<exists>m \<in> set (organisation_memberships db). om_scope m = (org, uid) \<and> om_active m \<and> om_role m = role"
  then obtain m where m: "m \<in> set (organisation_memberships db)" "om_scope m = (org, uid)" "om_active m"
      "om_role m = role" by blast
  have "find (\<lambda>m. om_organisation_id m = org \<and> om_user_id m = uid \<and> om_active m)
      (organisation_memberships db) = Some m"
    by (rule find_unique_key [where P = om_active and k = om_scope, OF _ m(1,3)]) (use m(2) assms in \<open>auto simp: om_ok_def\<close>)
  with m show "current_role org uid db = Some role" by (simp add: current_role_def)
qed (auto dest: current_role_Some)

lemma workspace_role_iff:
  assumes "wm_ok db"
  shows "workspace_role ws uid db = Some role \<longleftrightarrow>
    (\<exists>m \<in> set (workspace_memberships db). wm_scope m = (ws, uid) \<and> wm_active m \<and> wm_role m = role)"
proof
  assume "\<exists>m \<in> set (workspace_memberships db). wm_scope m = (ws, uid) \<and> wm_active m \<and> wm_role m = role"
  then obtain m where m: "m \<in> set (workspace_memberships db)" "wm_scope m = (ws, uid)" "wm_active m"
      "wm_role m = role" by blast
  have "find (\<lambda>m. wm_workspace_id m = ws \<and> wm_user_id m = uid \<and> wm_active m)
      (workspace_memberships db) = Some m"
    by (rule find_unique_key [where P = wm_active and k = wm_scope, OF _ m(1,3)]) (use m(2) assms in \<open>auto simp: wm_ok_def\<close>)
  with m show "workspace_role ws uid db = Some role" by (simp add: workspace_role_def)
qed (auto simp: workspace_role_def dest: find_SomeD)

lemma coalesce_eq: "s \<noteq> [] \<Longrightarrow> coalesce x = s \<longleftrightarrow> x = Some s"
  by (auto simp: coalesce_def split: option.splits)

lemma role_of_membership:
  assumes "om_ok db"
  shows "OrganisationRole_CanAdminister (coalesce (current_role org uid db)) \<longleftrightarrow>
      (\<exists>m \<in> set (organisation_memberships db). om_scope m = (org, uid) \<and> om_active m \<and> om_role m \<in> {''owner'', ''admin''})"
    and "OrganisationRole_Valid (coalesce (current_role org uid db)) \<longleftrightarrow>
      (\<exists>m \<in> set (organisation_memberships db). om_scope m = (org, uid) \<and> om_active m)"
proof -
  show "OrganisationRole_CanAdminister (coalesce (current_role org uid db)) \<longleftrightarrow>
      (\<exists>m \<in> set (organisation_memberships db). om_scope m = (org, uid) \<and> om_active m \<and> om_role m \<in> {''owner'', ''admin''})"
    unfolding OrganisationRole_CanAdminister_def by (simp add: coalesce_eq current_role_iff [OF assms]) blast
  have "\<forall>m \<in> set (organisation_memberships db). check_om_role (om_role m)" using assms by (simp add: om_ok_def)
  then show "OrganisationRole_Valid (coalesce (current_role org uid db)) \<longleftrightarrow>
      (\<exists>m \<in> set (organisation_memberships db). om_scope m = (org, uid) \<and> om_active m)"
    unfolding OrganisationRole_Valid_def check_om_role_def
    by (simp add: coalesce_eq current_role_iff [OF assms]) blast
qed

lemma role_of_workspace_membership:
  assumes "wm_ok db"
  shows "WorkspaceRole_CanAdminister (coalesce (workspace_role ws uid db)) \<longleftrightarrow>
      (\<exists>m \<in> set (workspace_memberships db). wm_scope m = (ws, uid) \<and> wm_active m \<and> wm_role m = ''admin'')"
    and "WorkspaceRole_Valid (coalesce (workspace_role ws uid db)) \<longleftrightarrow>
      (\<exists>m \<in> set (workspace_memberships db). wm_scope m = (ws, uid) \<and> wm_active m)"
proof -
  show "WorkspaceRole_CanAdminister (coalesce (workspace_role ws uid db)) \<longleftrightarrow>
      (\<exists>m \<in> set (workspace_memberships db). wm_scope m = (ws, uid) \<and> wm_active m \<and> wm_role m = ''admin'')"
    unfolding WorkspaceRole_CanAdminister_def by (simp add: coalesce_eq workspace_role_iff [OF assms])
  have "\<forall>m \<in> set (workspace_memberships db). check_wm_role (wm_role m)" using assms by (simp add: wm_ok_def)
  then show "WorkspaceRole_Valid (coalesce (workspace_role ws uid db)) \<longleftrightarrow>
      (\<exists>m \<in> set (workspace_memberships db). wm_scope m = (ws, uid) \<and> wm_active m)"
    unfolding WorkspaceRole_Valid_def check_wm_role_def
    by (simp add: coalesce_eq workspace_role_iff [OF assms]) blast
qed

lemma scope_row_iff:
  assumes "db_ok db"
  shows "scope_row pid wid db = Some p \<longleftrightarrow>
    (\<exists>u \<in> set (users db). \<exists>w \<in> set (workspaces db). \<exists>r \<in> set (organisations db).
       u_public_id u = pid \<and> u_active u \<and> w_public_id w = wid \<and> w_status w = ''active'' \<and>
       o_id r = w_organisation_id w \<and> o_status r = ''active'' \<and> p = scope_proof u w r db)"
proof -
  have u: "unique_key every u_public_id (users db)" and w: "unique_key every w_public_id (workspaces db)"
    and r: "unique_key every o_id (organisations db)"
    using db_okD [OF assms] org_t.unique_id [of "organisations db"]
    by (auto simp: users_ok_def workspaces_ok_def organisations_ok_def)
  note fu = find_key_and [OF u, of pid u_active, unfolded find_key_iff [OF u]]
  note fw = find_key_and [OF w, of wid "\<lambda>w. w_status w = ''active''", unfolded find_key_iff [OF w]]
  note fr = find_key_and [OF r, of _ "\<lambda>r. o_status r = ''active''", unfolded find_key_iff [OF r]]
  have "scope_row pid wid db = Some p \<longleftrightarrow>
    (\<exists>u. find (\<lambda>u. u_public_id u = pid \<and> u_active u) (users db) = Some u \<and>
      (\<exists>w. find (\<lambda>w. w_public_id w = wid \<and> w_status w = ''active'') (workspaces db) = Some w \<and>
        (\<exists>r. find (\<lambda>r. o_id r = w_organisation_id w \<and> o_status r = ''active'') (organisations db) = Some r \<and>
          p = scope_proof u w r db)))"
    by (auto simp: scope_row_def split: option.splits)
  then show ?thesis unfolding fu fw fr by blast
qed

definition proof_suffices :: "bool \<Rightarrow> WorkspaceScope \<Rightarrow> bool" where
  "proof_suffices admin s \<longleftrightarrow>
     Scope_SystemAdmin s \<or> OrganisationRole_Valid (Scope_OrganisationRole s) \<and>
       (OrganisationRole_CanAdminister (Scope_OrganisationRole s) \<or>
        (if admin then WorkspaceRole_CanAdminister (Scope_WorkspaceRole s)
         else WorkspaceRole_Valid (Scope_WorkspaceRole s)))"

lemma prove_Inr:
  "proveWorkspaceScopeQuery pid wid admin db = Inr p \<longleftrightarrow>
     scope_row pid wid db = Some p \<and> proof_suffices admin (Proof_scope p)"
  by (auto simp: proveWorkspaceScopeQuery_def proof_suffices_def tx_simps Let_def)

lemma prove_Inl:
  "proveWorkspaceScopeQuery pid wid admin db = Inl x \<Longrightarrow> x = Store ErrAccessScopeDenied"
  by (auto simp: proveWorkspaceScopeQuery_def Let_def need_def attempt_def split: option.splits if_splits)

lemma scope_proof_suffices:
  assumes "db_ok db" and "u_active u" "w_status w = ''active''" "o_status r = ''active''" "o_id r = w_organisation_id w"
  shows "proof_suffices admin (Proof_scope (scope_proof u w r db)) \<longleftrightarrow> in_scope admin u w r db"
  using assms(2-5) role_of_membership [OF db_okD(6) [OF assms(1)], of "o_id r" "u_id u"]
    role_of_workspace_membership [OF db_okD(8) [OF assms(1)], of "w_id w" "u_id u"]
  by (cases admin) (auto simp: proof_suffices_def scope_proof_def in_scope_def)

lemma proof_allowed:
  assumes "db_ok db"
  shows "(\<exists>p. proveWorkspaceScopeQuery pid wid admin db = Inr p) \<longleftrightarrow> scope_allowed admin pid wid db"
proof
  assume "\<exists>p. proveWorkspaceScopeQuery pid wid admin db = Inr p"
  then show "scope_allowed admin pid wid db"
    unfolding prove_Inr scope_row_iff [OF assms] scope_allowed_def
    using scope_proof_suffices [OF assms] by blast
next
  assume "scope_allowed admin pid wid db"
  then obtain u w r where "u \<in> set (users db)" "w \<in> set (workspaces db)" "r \<in> set (organisations db)"
      "u_public_id u = pid" "w_public_id w = wid" "in_scope admin u w r db"
    by (auto simp: scope_allowed_def)
  moreover from this have "u_active u" "w_status w = ''active''" "o_status r = ''active''" "o_id r = w_organisation_id w"
    by (auto simp: in_scope_def)
  ultimately have "scope_row pid wid db = Some (scope_proof u w r db)"
      "proof_suffices admin (Proof_scope (scope_proof u w r db))"
    using scope_proof_suffices [OF assms] by (auto simp: scope_row_iff [OF assms])
  then show "\<exists>p. proveWorkspaceScopeQuery pid wid admin db = Inr p" by (auto simp: prove_Inr)
qed

text \<open>
  C2: Workspace access is decided exactly as specified. On a well-formed
  database the scope proof succeeds for precisely the users in the scope of the workspace, and a
  proof returned names that user, that workspace and the organisation that owns it; in every other
  case the answer is the single error that access is denied.
\<close>

theorem workspace_scope_decides:
  assumes "db_ok db"
  shows "(if scope_allowed admin pid wid db
    then \<exists>s. ProveWorkspaceScope pid wid admin db = Inr s \<and> Scope_UserID s = pid \<and> Scope_WorkspaceID s = wid \<and>
      (\<exists>w \<in> set (workspaces db). \<exists>r \<in> set (organisations db). w_public_id w = wid \<and>
         o_id r = w_organisation_id w \<and> Scope_OrganisationID s = o_public_id r)
    else ProveWorkspaceScope pid wid admin db = Inl (Store ErrAccessScopeDenied))"
proof (cases "scope_allowed admin pid wid db")
  case True
  then obtain p where p: "proveWorkspaceScopeQuery pid wid admin db = Inr p" using proof_allowed [OF assms] by blast
  then obtain u w r where "w \<in> set (workspaces db)" "r \<in> set (organisations db)" "u_public_id u = pid"
      "w_public_id w = wid" "o_id r = w_organisation_id w" "p = scope_proof u w r db"
    by (auto simp: prove_Inr scope_row_iff [OF assms])
  with True p show ?thesis by (auto simp: ProveWorkspaceScope_def scope_proof_def)
next
  case False
  then have "\<nexists>p. proveWorkspaceScopeQuery pid wid admin db = Inr p" using proof_allowed [OF assms] by blast
  then have "proveWorkspaceScopeQuery pid wid admin db = Inl (Store ErrAccessScopeDenied)"
    using prove_Inl [of pid wid admin db] by (cases "proveWorkspaceScopeQuery pid wid admin db") auto
  with False show ?thesis by (simp add: ProveWorkspaceScope_def)
qed

lemma authorised_workspace:
  assumes "authorisedWorkspaceMutationTx a i allow db = Inr (actor, org, ws, sys)"
  obtains p where "proveWorkspaceScopeQuery a i True db = Inr p" "Proof_userInternalID p = actor"
    "Proof_organisationInternalID p = org" "Proof_workspaceInternalID p = ws"
    "\<not> allow \<longrightarrow> Scope_SystemAdmin (Proof_scope p) \<or>
       OrganisationRole_CanAdminister (Scope_OrganisationRole (Proof_scope p))"
  using assms by (auto simp: authorisedWorkspaceMutationTx_def split: sum.splits if_splits)

lemma wsp_op_body:
  "AddWorkspaceMember e a i u role reason at db = (Inr m, db') \<Longrightarrow>
     addWorkspaceMemberTx e a i u role reason at db = Inr (m, db')"
  "ChangeWorkspaceMemberRole e a i u role reason at db = (Inr m, db') \<Longrightarrow>
     changeWorkspaceMemberRoleTx e a i u role reason at None db = Inr (m, db')"
  "DeactivateWorkspaceMember e a i u reason at db = (Inr v, db') \<Longrightarrow>
     \<exists>m. deactivateWorkspaceMemberTx e a i u reason at None db = Inr (m, db')"
  "ArchiveWorkspace e a i reason at db = (Inr v, db') \<Longrightarrow>
     archiveWorkspaceTx e a i reason at db = Inr (v, db')"
  "CreateWorkspace e a i x reason at db = (Inr p, db') \<Longrightarrow>
     \<exists>y mid. createWorkspaceTx e a i y mid reason db = Inr (p, db') \<and> Workspace_Validate y = Inr ()"
  by (auto simp: AddWorkspaceMember_def ChangeWorkspaceMemberRole_def DeactivateWorkspaceMember_def
      ArchiveWorkspace_def CreateWorkspace_def tx_simps Let_def split: if_splits)

lemma authorised_scope_allowed:
  "db_ok db \<Longrightarrow> authorisedWorkspaceMutationTx a i allow db = Inr (actor, org, ws, sys) \<Longrightarrow> scope_allowed True a i db"
  using proof_allowed by (blast elim: authorised_workspace)

text \<open>An active member of the organisation that owns the workspace.\<close>

definition organisation_member_of :: "string \<Rightarrow> string \<Rightarrow> db \<Rightarrow> bool" where
  "organisation_member_of pid wid db \<longleftrightarrow>
     (\<exists>u \<in> set (users db). \<exists>w \<in> set (workspaces db). \<exists>r \<in> set (organisations db).
        \<exists>m \<in> set (organisation_memberships db).
        u_public_id u = pid \<and> u_active u \<and> w_public_id w = wid \<and> o_id r = w_organisation_id w \<and>
        o_status r = ''active'' \<and> om_scope m = (o_id r, u_id u) \<and> om_active m)"

lemma target_is_member:
  assumes "db_ok db" and "authorisedWorkspaceMutationTx a i allow db = Inr (actor, org, ws, sys)"
    and "activeWorkspaceTargetUserTx ws u db = Inr ()"
  shows "organisation_member_of u i db"
proof -
  from assms(2) obtain p where "proveWorkspaceScopeQuery a i True db = Inr p" "Proof_workspaceInternalID p = ws"
    by (rule authorised_workspace)
  then obtain x w r0 where "w \<in> set (workspaces db)" "w_public_id w = i" "w_id w = ws"
    by (auto simp: prove_Inr scope_row_iff [OF assms(1)] scope_proof_def)
  moreover have "unique_key every w_id (workspaces db)"
    using db_okD(7) [OF assms(1)] ws_t.unique_id by (auto simp: workspaces_ok_def)
  ultimately have "find (\<lambda>w. w_id w = ws) (workspaces db) = Some w"
    by (simp add: find_key_iff)
  with assms(3) obtain v r m where "v \<in> set (users db)" "u_public_id v = u" "u_active v"
      "r \<in> set (organisations db)" "o_id r = w_organisation_id w" "o_status r = ''active''"
      "m \<in> set (organisation_memberships db)" "om_scope m = (o_id r, u_id v)" "om_active m"
    by (auto simp: activeWorkspaceTargetUserTx_def list_ex_iff split: if_splits)
  then show ?thesis
    using \<open>w \<in> set (workspaces db)\<close> \<open>w_public_id w = i\<close> unfolding organisation_member_of_def by blast
qed

text \<open>
  C6: Nobody changes a workspace from outside its scope. Adding, changing and
  closing a workspace membership take a user with administrative scope over that workspace, and
  the user they are about must be a current member of the organisation that owns it, so no
  membership crosses organisations; creating a workspace takes authority over the organisation, and
  archiving takes administrative scope over the workspace.
\<close>

theorem workspace_authority:
  assumes "db_ok db"
  shows "(AddWorkspaceMember e a i u role reason at db = (Inr m, db') \<longrightarrow>
      scope_allowed True a i db \<and> organisation_member_of u i db) \<and>
    (ChangeWorkspaceMemberRole e a i u role reason at db = (Inr m, db') \<longrightarrow>
      scope_allowed True a i db \<and> organisation_member_of u i db) \<and>
    (DeactivateWorkspaceMember e a i u reason at db = (Inr v, db') \<longrightarrow>
      scope_allowed True a i db \<and> organisation_member_of u i db) \<and>
    (ArchiveWorkspace e a i reason at db = (Inr v, db') \<longrightarrow> scope_allowed True a i db) \<and>
    (CreateWorkspace e a i x reason at db = (Inr p, db') \<longrightarrow> administers {''owner'', ''admin''} a i db)"
proof (intro conjI impI)
  assume "AddWorkspaceMember e a i u role reason at db = (Inr m, db')"
  then obtain actor org ws sys where *: "authorisedWorkspaceMutationTx a i True db = Inr (actor, org, ws, sys)"
      "activeWorkspaceTargetUserTx ws u db = Inr ()"
    by (auto dest!: wsp_op_body simp: addWorkspaceMemberTx_def tx_simps)
  then show "scope_allowed True a i db" "organisation_member_of u i db"
    using authorised_scope_allowed [OF assms] target_is_member [OF assms] by blast+
next
  assume "ChangeWorkspaceMemberRole e a i u role reason at db = (Inr m, db')"
  then obtain actor org ws sys where *: "authorisedWorkspaceMutationTx a i True db = Inr (actor, org, ws, sys)"
      "activeWorkspaceTargetUserTx ws u db = Inr ()"
    by (auto dest!: wsp_op_body simp: changeWorkspaceMemberRoleTx_def tx_simps)
  then show "scope_allowed True a i db" "organisation_member_of u i db"
    using authorised_scope_allowed [OF assms] target_is_member [OF assms] by blast+
next
  assume "DeactivateWorkspaceMember e a i u reason at db = (Inr v, db')"
  then obtain actor org ws sys where *: "authorisedWorkspaceMutationTx a i True db = Inr (actor, org, ws, sys)"
      "activeWorkspaceTargetUserTx ws u db = Inr ()"
    by (auto dest!: wsp_op_body simp: deactivateWorkspaceMemberTx_def tx_simps)
  then show "scope_allowed True a i db" "organisation_member_of u i db"
    using authorised_scope_allowed [OF assms] target_is_member [OF assms] by blast+
next
  assume "ArchiveWorkspace e a i reason at db = (Inr v, db')"
  then show "scope_allowed True a i db"
    using authorised_scope_allowed [OF assms]
    by (auto dest!: wsp_op_body simp: archiveWorkspaceTx_def tx_simps)
next
  assume "CreateWorkspace e a i x reason at db = (Inr p, db')"
  then obtain actor ar org sys where au: "authorisedOrganisationMutationTx a i db = Inr (actor, ar, org, sys)"
    by (auto dest!: wsp_op_body simp: createWorkspaceTx_def tx_simps)
  show "administers {''owner'', ''admin''} a i db"
    using authorised_role [OF au] by (intro authorised_administers [OF au]) auto
qed

section \<open>Effects\<close>

definition wm_retired :: "int \<Rightarrow> gotime \<Rightarrow> string \<Rightarrow> wm_row \<Rightarrow> wm_row" where
  "wm_retired by_id at reason m =
     m\<lparr>wm_active := False, wm_removed_by := Some by_id, wm_removed_at := Some at, wm_removal_reason := reason\<rparr>"

lemma insert_wm_Inr:
  "insert_wm r db = Inr db' \<Longrightarrow>
     db' = db\<lparr>workspace_memberships := workspace_memberships db @
               [r\<lparr>wm_id := next_id wm_id (workspace_memberships db)\<rparr>]\<rparr>"
  by (auto simp: insert_wm_def insert_row_def split: if_splits)

lemma deactivate_wm_Inr:
  "deactivate_wm P by_id at reason db = Inr db' \<Longrightarrow>
     db' = db\<lparr>workspace_memberships :=
               update_where (\<lambda>m. P m \<and> wm_active m) (wm_retired by_id at reason) (workspace_memberships db)\<rparr>"
  by (auto simp: deactivate_wm_def wm_retired_def [abs_def] split: if_splits)

lemma archive_workspace_Inr:
  assumes "archiveWorkspaceTx e a i reason at db = Inr (v, db')"
  obtains actor ws where
    "workspaces db' = update_where (\<lambda>w. w_id w = ws \<and> w_status w = ''active'')
       (\<lambda>w. w\<lparr>w_status := ''archived'', w_archived_at := Some at\<rparr>) (workspaces db)"
    "workspace_memberships db' = update_where (\<lambda>m. wm_workspace_id m = ws \<and> wm_active m)
       (wm_retired actor at (TrimSpace reason)) (workspace_memberships db)"
    "\<exists>p. proveWorkspaceScopeQuery a i True db = Inr p \<and> Proof_workspaceInternalID p = ws"
    "length (platform_outbox db') =
       Suc (length (platform_outbox db) + length (active_workspace_memberships ws db))"
proof -
  from assms obtain actor org ws sys db1 db2 where
    au: "authorisedWorkspaceMutationTx a i False db = Inr (actor, org, ws, sys)"
    and de: "deactivate_wm (\<lambda>m. wm_workspace_id m = ws) actor at (TrimSpace reason)
        (archive_workspace ws at db) = Inr db1"
    and each: "for_each (\<lambda>k x. recordWorkspaceAuditTx (rand_read e k) actor i eventWorkspaceMemberRemoved
        (wsp_member_details i (fst x) (fst (snd x)) (snd (snd x)) reason) at) 0
        (active_workspace_memberships ws (archive_workspace ws at db)) db1 = Inr db2"
    and rec: "recordWorkspaceAuditTx (rand_read e (length (active_workspace_memberships ws (archive_workspace ws at db))))
        actor i eventWorkspaceArchived (wsp_details i reason) at db2 = Inr db'"
    by (auto simp: archiveWorkspaceTx_def tx_simps Let_def)
  have same: "active_workspace_memberships ws (archive_workspace ws at db) = active_workspace_memberships ws db"
    by (simp add: active_workspace_memberships_def archive_workspace_def)
  from au obtain p where p: "proveWorkspaceScopeQuery a i True db = Inr p" "Proof_workspaceInternalID p = ws"
    by (rule authorised_workspace)
  note w = wsp_rec.for_each_writes [OF each order_refl] and db1 = deactivate_wm_Inr [OF de]
  show ?thesis
  proof (rule that [of ws actor])
    show "workspaces db' = update_where (\<lambda>w. w_id w = ws \<and> w_status w = ''active'')
       (\<lambda>w. w\<lparr>w_status := ''archived'', w_archived_at := Some at\<rparr>) (workspaces db)"
      using wsp_rec.rec_same(4) [OF rec] writes_frame(10) [OF w] by (simp add: db1 archive_workspace_def)
    show "workspace_memberships db' = update_where (\<lambda>m. wm_workspace_id m = ws \<and> wm_active m)
       (wm_retired actor at (TrimSpace reason)) (workspace_memberships db)"
      using wsp_rec.rec_same(5) [OF rec] writes_frame(11) [OF w] by (simp add: db1 archive_workspace_def)
    show "\<exists>p. proveWorkspaceScopeQuery a i True db = Inr p \<and> Proof_workspaceInternalID p = ws"
      using p by blast
    show "length (platform_outbox db') =
       Suc (length (platform_outbox db) + length (active_workspace_memberships ws db))"
      using wsp_rec.for_each_logs(1) [OF each] wsp_rec.rec_logs(1) [OF rec]
      by (simp add: db1 same) (simp add: archive_workspace_def)
  qed
qed

text \<open>
  C7: Archiving a workspace closes it for everyone: all its memberships are
  inactive afterwards, memberships of other workspaces are untouched, each closed membership is
  announced in the outbox, and no user, system administrators included, can be proved in its
  scope any more.
\<close>

theorem archived_workspace_closed:
  assumes "db_ok db" and "ArchiveWorkspace e a i reason at db = (Inr v, db')"
  shows "\<exists>w \<in> set (workspaces db). w_public_id w = i \<and>
    (\<forall>m \<in> set (workspace_memberships db'). wm_workspace_id m = w_id w \<longrightarrow> \<not> wm_active m) \<and>
    filter (\<lambda>m. wm_workspace_id m \<noteq> w_id w) (workspace_memberships db') =
      filter (\<lambda>m. wm_workspace_id m \<noteq> w_id w) (workspace_memberships db) \<and>
    length (platform_outbox db') =
      Suc (length (platform_outbox db) + length (active_workspace_memberships (w_id w) db)) \<and>
    (\<forall>pid admin. ProveWorkspaceScope pid i admin db' = Inl (Store ErrAccessScopeDenied))"
proof -
  from wsp_op_body(4) [OF assms(2)] obtain actor ws where
    ar: "workspaces db' = update_where (\<lambda>w. w_id w = ws \<and> w_status w = ''active'')
         (\<lambda>w. w\<lparr>w_status := ''archived'', w_archived_at := Some at\<rparr>) (workspaces db)"
      "workspace_memberships db' = update_where (\<lambda>m. wm_workspace_id m = ws \<and> wm_active m)
         (wm_retired actor at (TrimSpace reason)) (workspace_memberships db)"
      "\<exists>p. proveWorkspaceScopeQuery a i True db = Inr p \<and> Proof_workspaceInternalID p = ws"
      "length (platform_outbox db') =
         Suc (length (platform_outbox db) + length (active_workspace_memberships ws db))"
    by (rule archive_workspace_Inr)
  from ar(3) obtain w where w: "w \<in> set (workspaces db)" "w_public_id w = i" "w_id w = ws" "w_status w = ''active''"
    by (auto simp: prove_Inr scope_row_iff [OF assms(1)] scope_proof_def)
  have uniq: "unique_key every w_public_id (workspaces db)"
    using db_okD(7) [OF assms(1)] by (simp add: workspaces_ok_def)
  have one: "q = w" if "q \<in> set (workspaces db)" "w_public_id q = i" for q
    using unique_keyD [OF uniq that(1) w(1)] that(2) w(2) by simp
  have none: "find (\<lambda>w. w_public_id w = i \<and> w_status w = ''active'') (workspaces db') = None"
    unfolding find_None_iff ar(1) update_where_def by (auto split: if_splits dest!: one simp: w)
  have "proveWorkspaceScopeQuery pid i admin db' = Inl (Store ErrAccessScopeDenied)" for pid admin
    by (auto simp: proveWorkspaceScopeQuery_def scope_row_def none split: option.splits)
  then have closed: "\<forall>pid admin. ProveWorkspaceScope pid i admin db' = Inl (Store ErrAccessScopeDenied)"
    by (simp add: ProveWorkspaceScope_def)
  have others: "filter (\<lambda>m. wm_workspace_id m \<noteq> k) (update_where (\<lambda>m. wm_workspace_id m = k \<and> wm_active m)
      (wm_retired x t y) rows) = filter (\<lambda>m. wm_workspace_id m \<noteq> k) rows" for k x t y rows
    by (induction rows) (auto simp: update_where_def wm_retired_def)
  have gone: "\<forall>m \<in> set (workspace_memberships db'). wm_workspace_id m = ws \<longrightarrow> \<not> wm_active m"
    unfolding ar(2) ball_update_where by (simp add: wm_retired_def)
  have kept: "filter (\<lambda>m. wm_workspace_id m \<noteq> ws) (workspace_memberships db') =
      filter (\<lambda>m. wm_workspace_id m \<noteq> ws) (workspace_memberships db)"
    unfolding ar(2) by (rule others)
  show ?thesis
    using gone kept ar(4) closed w(2) unfolding w(3) [symmetric] by (intro bexI [OF _ w(1)] conjI)
qed

end
