(* ===== verification/Products.thy ===== *)
theory Products
  imports Workspace
begin

text \<open>
  The product catalogue with organisation entitlements (\<^verbatim>\<open>internal/db/sqlite/product.go\<close>) and the
  user assignments with the effective access predicate
  (\<^verbatim>\<open>internal/db/sqlite/product_access.go\<close>).
\<close>

section \<open>Helpers\<close>

abbreviation "auditProduct \<equiv> ''Product''"

definition validProductKey :: "string \<Rightarrow> bool" where
  "validProductKey value = valid_id ''product.'' value"

definition product_value :: "product_row \<Rightarrow> Product" where
  "product_value p =
     \<lparr>Prod_Key = p_key p, Prod_DisplayName = p_display_name p, Prod_Status = p_status p,
      Prod_CreatedAt = p_created_at p, Prod_RetiredAt = p_retired_at p\<rparr>"

definition requireSystemAdmin :: "string \<Rightarrow> db \<Rightarrow> unit result" where
  "requireSystemAdmin requesterUserID db =
     (if list_ex (\<lambda>u. u_public_id u = TrimSpace requesterUserID \<and> u_active u \<and> system_admin (u_id u) db) (users db)
      then Inr () else Inl (Store ErrUnauthorisedProductAction))"

definition systemAdminInternalTx :: "string \<Rightarrow> db \<Rightarrow> int result" where
  "systemAdminInternalTx actorUserID db =
     need (Store ErrUnauthorisedProductAction)
       (map_option u_id (find (\<lambda>u. u_public_id u = TrimSpace actorUserID \<and> u_active u \<and>
          system_admin (u_id u) db) (users db)))"

definition product_details :: "productAuditDetails \<Rightarrow> string" where
  "product_details d =
     Marshal (JObj ([(''product_key'', JStr (PrdD_ProductKey d))] @
       omitempty ''organisation_id'' (PrdD_OrganisationID d) @ omitempty ''user_id'' (PrdD_UserID d) @
       omitempty ''entitlement_id'' (PrdD_EntitlementID d) @ omitempty ''assignment_id'' (PrdD_AssignmentID d) @
       omitempty ''status'' (PrdD_Status d) @ omitempty ''reason'' (PrdD_Reason d)))"

definition recordProductAuditTx ::
    "(nat \<Rightarrow> char) option \<Rightarrow> int \<Rightarrow> string \<Rightarrow> string \<Rightarrow> productAuditDetails \<Rightarrow> gotime \<Rightarrow> db \<Rightarrow> db result" where
  "recordProductAuditTx src actor productKey event d at db =
     appendProductEventTx src event d at
       (insert_audit actor auditProduct productKey event (product_details d) at db)"

definition recordOrganisationProductAuditTx ::
    "(nat \<Rightarrow> char) option \<Rightarrow> int \<Rightarrow> string \<Rightarrow> string \<Rightarrow> productAuditDetails \<Rightarrow> gotime \<Rightarrow> db \<Rightarrow> db result" where
  "recordOrganisationProductAuditTx src actor organisationID event d at db =
     appendAccessEventTx src event d at
       (insert_audit actor auditOrganisation organisationID event (product_details d) at db)"

definition prd_details :: "string \<Rightarrow> string \<Rightarrow> string \<Rightarrow> productAuditDetails" where
  "prd_details productKey status reason =
     \<lparr>PrdD_ProductKey = productKey, PrdD_OrganisationID = [], PrdD_UserID = [], PrdD_EntitlementID = [],
      PrdD_AssignmentID = [], PrdD_Status = status, PrdD_Reason = TrimSpace reason\<rparr>"

text \<open>\<^verbatim>\<open>SELECT status FROM products WHERE product_key=?\<close>, and the two errors it can give.\<close>

definition product_status :: "string \<Rightarrow> db \<Rightarrow> string option" where
  "product_status key db = map_option p_status (find (\<lambda>p. p_key p = key) (products db))"

definition active_product :: "string \<Rightarrow> db \<Rightarrow> unit result" where
  "active_product key db =
     attempt (need (Store ErrProductNotFound) (product_status key db)) (\<lambda>status.
     if status \<noteq> ProductActive then Inl (Store ErrProductRetired) else Inr ())"

section \<open>Catalogue and entitlements\<close>

definition ListProducts :: "string \<Rightarrow> db \<Rightarrow> Product list result" where
  "ListProducts requesterUserID db =
     attempt (requireSystemAdmin requesterUserID db) (\<lambda>_.
     Inr (map product_value (sort_key p_key (products db))))"

definition retireProductTx :: "env \<Rightarrow> string \<Rightarrow> string \<Rightarrow> string \<Rightarrow> gotime \<Rightarrow> db \<Rightarrow> (unit \<times> db) result" where
  "retireProductTx e actorUserID productKey reason at db =
     attempt (systemAdminInternalTx actorUserID db) (\<lambda>actor.
     if count_where (\<lambda>p. p_key p = productKey \<and> p_status p = ''active'') (products db) = 0
     then (case product_status productKey db of
             None \<Rightarrow> Inl (Store ErrProductNotFound)
           | Some status \<Rightarrow> if status = ProductRetired then Inl (Store ErrProductRetired)
                            else Inl (Store ErrProductNotFound))
     else exec (recordProductAuditTx (rand_read e 0) actor productKey eventProductRetired
            (prd_details productKey ProductRetired reason) at (retire_product productKey at db)) (\<lambda>db.
     Inr ((), db)))"

definition RetireProduct :: "env \<Rightarrow> string \<Rightarrow> string \<Rightarrow> string \<Rightarrow> gotime \<Rightarrow> db \<Rightarrow> unit result \<times> db" where
  "RetireProduct e actorUserID productKey0 reason at db =
     prepare db
      (let productKey = TrimSpace productKey0 in
       if \<not> valid_id ''product.'' productKey then Inl (Domain ErrInvalidProductKey)
       else attempt (validateMutationReason reason) (\<lambda>_.
       if IsZero at then Inl (ErrNew ''product retirement time is required'') else Inr productKey))
      (\<lambda>productKey. with_tx e db (retireProductTx e actorUserID productKey reason at))"

definition entitlement_granted :: "string \<Rightarrow> string \<Rightarrow> string \<Rightarrow> string \<Rightarrow> gotime \<Rightarrow> OrganisationProductEntitlement" where
  "entitlement_granted i organisationID productKey grantedBy at =
     \<lparr>Ent_ID = i, Ent_OrganisationID = organisationID, Ent_ProductKey = productKey,
      Ent_Status = EntitlementActive, Ent_Active = True, Ent_GrantedBy = grantedBy, Ent_GrantedAt = at,
      Ent_RevokedBy = [], Ent_RevokedAt = None, Ent_RevocationReason = []\<rparr>"

definition entitleOrganisationTx ::
    "env \<Rightarrow> string \<Rightarrow> string \<Rightarrow> string \<Rightarrow> string \<Rightarrow> string \<Rightarrow> gotime \<Rightarrow> db \<Rightarrow>
     (OrganisationProductEntitlement \<times> db) result" where
  "entitleOrganisationTx e actorUserID organisationID productKey entitlementID reason at db =
     attempt (authorisedOrganisationMutationTx actorUserID organisationID db) (\<lambda>(actor, _, org, _).
     attempt (active_product productKey db) (\<lambda>_.
     if list_ex (\<lambda>x. ent_organisation_id x = org \<and> ent_product_key x = productKey \<and> ent_status x = ''active'')
          (organisation_product_entitlements db)
     then Inl (Store ErrDuplicateOrganisationEntitlement)
     else exec (insert_ent
       \<lparr>ent_id = 0, ent_public_id = entitlementID, ent_organisation_id = org, ent_product_key = productKey,
        ent_status = ''active'', ent_granted_by = actor, ent_granted_at = at, ent_revoked_by = None,
        ent_revoked_at = None, ent_reason = []\<rparr> db) (\<lambda>db.
     exec (recordOrganisationProductAuditTx (rand_read e 1) actor organisationID eventEntitlementGranted
            ((prd_details productKey EntitlementActive reason)
               \<lparr>PrdD_OrganisationID := organisationID, PrdD_EntitlementID := entitlementID\<rparr>) at db) (\<lambda>db.
     Inr (entitlement_granted entitlementID organisationID productKey actorUserID at, db)))))"

definition EntitleOrganisation ::
    "env \<Rightarrow> string \<Rightarrow> string \<Rightarrow> string \<Rightarrow> string \<Rightarrow> gotime \<Rightarrow> db \<Rightarrow> OrganisationProductEntitlement result \<times> db" where
  "EntitleOrganisation e actorUserID organisationID productKey0 reason at db =
     prepare db
      (let productKey = TrimSpace productKey0 in
       if \<not> valid_id ''product.'' productKey then Inl (Domain ErrInvalidProductKey)
       else attempt (validateMutationReason reason) (\<lambda>_.
       if IsZero at then Inl (ErrNew ''product entitlement time is required'')
       else attempt (NewOrganisationProductEntitlementID (rand_read e 0)) (\<lambda>i. Inr (productKey, i))))
      (\<lambda>p. with_tx e db (entitleOrganisationTx e actorUserID organisationID (fst p) (snd p) reason at))"

text \<open>
  \<^verbatim>\<open>FROM organisation_product_entitlements e JOIN organisations o ON o.id=e.organisation_id
  WHERE o.public_id=? AND e.public_id=?\<close>
\<close>

definition entitlement_row :: "string \<Rightarrow> string \<Rightarrow> db \<Rightarrow> ent_row option" where
  "entitlement_row organisationID entitlementID db =
     find (\<lambda>x. ent_public_id x = entitlementID \<and>
               list_ex (\<lambda>r. o_id r = ent_organisation_id x \<and> o_public_id r = organisationID) (organisations db))
       (organisation_product_entitlements db)"

definition revokeOrganisationEntitlementTx ::
    "env \<Rightarrow> string \<Rightarrow> string \<Rightarrow> string \<Rightarrow> string \<Rightarrow> gotime \<Rightarrow> db \<Rightarrow> (unit \<times> db) result" where
  "revokeOrganisationEntitlementTx e actorUserID organisationID entitlementID reason at db =
     attempt (need (Store ErrEntitlementNotFound)
       (entitlement_row organisationID (TrimSpace entitlementID) db)) (\<lambda>x.
     attempt (authorisedOrganisationMutationTx actorUserID organisationID db) (\<lambda>(actor, _, _, _).
     if ent_status x \<noteq> EntitlementActive then Inl (Store ErrEntitlementInactive)
     else exec (revoke_ent (ent_id x) actor at (TrimSpace reason) db) (\<lambda>db.
     exec (recordOrganisationProductAuditTx (rand_read e 0) actor organisationID eventEntitlementRevoked
            ((prd_details (ent_product_key x) EntitlementRevoked reason)
               \<lparr>PrdD_OrganisationID := organisationID, PrdD_EntitlementID := entitlementID\<rparr>) at db) (\<lambda>db.
     Inr ((), db)))))"

definition RevokeOrganisationEntitlement ::
    "env \<Rightarrow> string \<Rightarrow> string \<Rightarrow> string \<Rightarrow> string \<Rightarrow> gotime \<Rightarrow> db \<Rightarrow> unit result \<times> db" where
  "RevokeOrganisationEntitlement e actorUserID organisationID entitlementID reason at db =
     prepare db
      (attempt (validateMutationReason reason) (\<lambda>_.
       if IsZero at then Inl (ErrNew ''product entitlement revocation time is required'') else Inr ()))
      (\<lambda>_. with_tx e db (revokeOrganisationEntitlementTx e actorUserID organisationID entitlementID reason at))"

text \<open>\<^verbatim>\<open>LEFT JOIN users revoked ON revoked.id=e.revoked_by\<close>, scanned into an empty string when NULL.\<close>

definition revoker :: "int option \<Rightarrow> db \<Rightarrow> string" where
  "revoker uid db = (case uid of None \<Rightarrow> [] | Some i \<Rightarrow> user_public i db)"

definition ListOrganisationProductEntitlements ::
    "string \<Rightarrow> string \<Rightarrow> db \<Rightarrow> OrganisationProductEntitlement list result" where
  "ListOrganisationProductEntitlements requesterUserID organisationID db =
     attempt (authorisedOrganisationRead requesterUserID organisationID True db) (\<lambda>org.
     Inr (map (\<lambda>(x, r, p, g).
            \<lparr>Ent_ID = ent_public_id x, Ent_OrganisationID = o_public_id r, Ent_ProductKey = ent_product_key x,
             Ent_Status = ent_status x,
             Ent_Active = (ent_status x = ''active'' \<and> o_status r = ''active'' \<and> p_status p = ''active''),
             Ent_GrantedBy = u_public_id g, Ent_GrantedAt = ent_granted_at x,
             Ent_RevokedBy = revoker (ent_revoked_by x) db, Ent_RevokedAt = ent_revoked_at x,
             Ent_RevocationReason = ent_reason x\<rparr>)
       (sort_key (\<lambda>(x, r, p, g). (formatTime (ent_granted_at x), ent_id x))
         [(x, r, p, g). x \<leftarrow> organisation_product_entitlements db, ent_organisation_id x = org,
                        r \<leftarrow> organisations db, o_id r = ent_organisation_id x,
                        p \<leftarrow> products db, p_key p = ent_product_key x,
                        g \<leftarrow> users db, u_id g = ent_granted_by x])))"

section \<open>User assignments\<close>

text \<open>
  \<^verbatim>\<open>SELECT u.id FROM users u JOIN organisation_memberships m ON m.user_id=u.id AND
  m.organisation_id=? AND m.active=1 WHERE u.public_id=? AND u.active=1\<close>
\<close>

definition member_user :: "int \<Rightarrow> string \<Rightarrow> db \<Rightarrow> int option" where
  "member_user org pid db =
     map_option u_id (find (\<lambda>u. u_public_id u = pid \<and> u_active u \<and>
       list_ex (\<lambda>m. om_user_id m = u_id u \<and> om_organisation_id m = org \<and> om_active m)
         (organisation_memberships db)) (users db))"

definition assignment_granted ::
    "string \<Rightarrow> string \<Rightarrow> string \<Rightarrow> string \<Rightarrow> string \<Rightarrow> gotime \<Rightarrow> UserProductAssignment" where
  "assignment_granted i userID organisationID productKey assignedBy at =
     \<lparr>Asg_ID = i, Asg_UserID = userID, Asg_OrganisationID = organisationID, Asg_ProductKey = productKey,
      Asg_Status = AssignmentActive, Asg_Active = True, Asg_AssignedBy = assignedBy, Asg_AssignedAt = at,
      Asg_RevokedBy = [], Asg_RevokedAt = None, Asg_RevocationReason = []\<rparr>"

definition assignUserProductTx ::
    "env \<Rightarrow> string \<Rightarrow> string \<Rightarrow> string \<Rightarrow> string \<Rightarrow> string \<Rightarrow> string \<Rightarrow> gotime \<Rightarrow> db \<Rightarrow>
     (UserProductAssignment \<times> db) result" where
  "assignUserProductTx e actorUserID organisationID targetUserID productKey assignmentID reason at db =
     attempt (authorisedOrganisationMutationTx actorUserID organisationID db) (\<lambda>(actor, _, org, _).
     attempt (active_product productKey db) (\<lambda>_.
     attempt (need (Store ErrUnauthorisedOrganisationAction)
       (member_user org (TrimSpace targetUserID) db)) (\<lambda>target.
     if list_ex (\<lambda>x. upa_user_id x = target \<and> upa_organisation_id x = org \<and>
                     upa_product_key x = productKey \<and> upa_status x = ''active'') (user_product_assignments db)
     then Inl (Store ErrDuplicateUserProductAssignment)
     else exec (insert_upa
       \<lparr>upa_id = 0, upa_public_id = assignmentID, upa_user_id = target, upa_organisation_id = org,
        upa_product_key = productKey, upa_status = ''active'', upa_assigned_by = actor,
        upa_assigned_at = at, upa_revoked_by = None, upa_revoked_at = None, upa_reason = []\<rparr> db) (\<lambda>db.
     exec (recordOrganisationProductAuditTx (rand_read e 1) actor organisationID eventAssignmentGranted
            ((prd_details productKey AssignmentActive reason)
               \<lparr>PrdD_OrganisationID := organisationID, PrdD_UserID := targetUserID,
                PrdD_AssignmentID := assignmentID\<rparr>) at db) (\<lambda>db.
     Inr (assignment_granted assignmentID targetUserID organisationID productKey actorUserID at, db))))))"

definition AssignUserProduct ::
    "env \<Rightarrow> string \<Rightarrow> string \<Rightarrow> string \<Rightarrow> string \<Rightarrow> string \<Rightarrow> gotime \<Rightarrow> db \<Rightarrow> UserProductAssignment result \<times> db" where
  "AssignUserProduct e actorUserID organisationID targetUserID0 productKey0 reason at db =
     prepare db
      (let targetUserID = TrimSpace targetUserID0; productKey = TrimSpace productKey0 in
       if \<not> validProductKey productKey then Inl (Domain ErrInvalidProductKey)
       else attempt (validateMutationReason reason) (\<lambda>_.
       if IsZero at then Inl (ErrNew ''user product assignment time is required'')
       else attempt (NewUserProductAssignmentID (rand_read e 0)) (\<lambda>i. Inr (targetUserID, productKey, i))))
      (\<lambda>p. with_tx e db (assignUserProductTx e actorUserID organisationID (fst p) (fst (snd p))
             (snd (snd p)) reason at))"

text \<open>
  \<^verbatim>\<open>FROM user_product_assignments a JOIN organisations o ON o.id=a.organisation_id
  JOIN users u ON u.id=a.user_id WHERE o.public_id=? AND a.public_id=?\<close>
\<close>

definition assignment_row :: "string \<Rightarrow> string \<Rightarrow> db \<Rightarrow> upa_row option" where
  "assignment_row organisationID assignmentID db =
     find (\<lambda>x. upa_public_id x = assignmentID \<and> has_user db (upa_user_id x) \<and>
               list_ex (\<lambda>r. o_id r = upa_organisation_id x \<and> o_public_id r = organisationID) (organisations db))
       (user_product_assignments db)"

definition revokeUserProductTx ::
    "env \<Rightarrow> string \<Rightarrow> string \<Rightarrow> string \<Rightarrow> string \<Rightarrow> gotime \<Rightarrow> db \<Rightarrow> (unit \<times> db) result" where
  "revokeUserProductTx e actorUserID organisationID assignmentID reason at db =
     attempt (need (Store ErrProductAssignmentNotFound)
       (assignment_row (TrimSpace organisationID) (TrimSpace assignmentID) db)) (\<lambda>x.
     attempt (authorisedOrganisationMutationTx actorUserID organisationID db) (\<lambda>(actor, _, _, _).
     if upa_status x \<noteq> AssignmentActive then Inl (Store ErrProductAssignmentInactive)
     else exec (revoke_upa (upa_id x) actor at (TrimSpace reason) db) (\<lambda>db'.
     exec (recordOrganisationProductAuditTx (rand_read e 0) actor organisationID eventAssignmentRevoked
            ((prd_details (upa_product_key x) AssignmentRevoked reason)
               \<lparr>PrdD_OrganisationID := organisationID, PrdD_UserID := user_public (upa_user_id x) db,
                PrdD_AssignmentID := assignmentID\<rparr>) at db') (\<lambda>db.
     Inr ((), db)))))"

definition RevokeUserProduct ::
    "env \<Rightarrow> string \<Rightarrow> string \<Rightarrow> string \<Rightarrow> string \<Rightarrow> gotime \<Rightarrow> db \<Rightarrow> unit result \<times> db" where
  "RevokeUserProduct e actorUserID organisationID assignmentID reason at db =
     prepare db
      (attempt (validateMutationReason reason) (\<lambda>_.
       if IsZero at then Inl (ErrNew ''user product assignment revocation time is required'') else Inr ()))
      (\<lambda>_. with_tx e db (revokeUserProductTx e actorUserID organisationID assignmentID reason at))"

definition ListUserProductAssignments :: "string \<Rightarrow> string \<Rightarrow> db \<Rightarrow> UserProductAssignment list result" where
  "ListUserProductAssignments requesterUserID organisationID db =
     attempt (authorisedOrganisationRead requesterUserID organisationID True db) (\<lambda>org.
     Inr (map (\<lambda>(x, u, r, g).
            \<lparr>Asg_ID = upa_public_id x, Asg_UserID = u_public_id u, Asg_OrganisationID = o_public_id r,
             Asg_ProductKey = upa_product_key x, Asg_Status = upa_status x,
             Asg_Active = (upa_status x = AssignmentActive), Asg_AssignedBy = u_public_id g,
             Asg_AssignedAt = upa_assigned_at x, Asg_RevokedBy = revoker (upa_revoked_by x) db,
             Asg_RevokedAt = upa_revoked_at x, Asg_RevocationReason = upa_reason x\<rparr>)
       (sort_key (\<lambda>(x, u, r, g). (formatTime (upa_assigned_at x), upa_id x))
         [(x, u, r, g). x \<leftarrow> user_product_assignments db, upa_organisation_id x = org,
                        u \<leftarrow> users db, u_id u = upa_user_id x,
                        r \<leftarrow> organisations db, o_id r = upa_organisation_id x,
                        p \<leftarrow> products db, p_key p = upa_product_key x,
                        g \<leftarrow> users db, u_id g = upa_assigned_by x])))"

section \<open>Effective access\<close>

text \<open>\<^verbatim>\<open>LEFT JOIN workspace_memberships wm ON wm.workspace_id=w.id AND wm.user_id=... AND wm.active=1\<close>\<close>

definition left_join :: "('r \<Rightarrow> bool) \<Rightarrow> 'r list \<Rightarrow> 'r option list" where
  "left_join P rows = (let xs = filter P rows in if xs = [] then [None] else map Some xs)"

definition launchable_rows :: "string \<Rightarrow> string \<Rightarrow> string \<Rightarrow> db \<Rightarrow> product_row list" where
  "launchable_rows organisationID userID workspaceID db =
     [p. p \<leftarrow> products db, p_status p = ''active'',
         x \<leftarrow> organisation_product_entitlements db, ent_product_key x = p_key p \<and> ent_status x = ''active'',
         r \<leftarrow> organisations db, o_id r = ent_organisation_id x \<and> o_public_id r = organisationID \<and> o_status r = ''active'',
         om \<leftarrow> organisation_memberships db,
           om_organisation_id om = o_id r \<and> Some (om_user_id om) = active_user userID db \<and> om_active om,
         a \<leftarrow> user_product_assignments db,
           upa_user_id a = om_user_id om \<and> upa_organisation_id a = o_id r \<and> upa_product_key a = p_key p \<and>
           upa_status a = ''active'',
         w \<leftarrow> workspaces db,
           w_public_id w = workspaceID \<and> w_organisation_id w = o_id r \<and> w_status w = ''active'',
         wm \<leftarrow> left_join (\<lambda>m. wm_workspace_id m = w_id w \<and> wm_user_id m = om_user_id om \<and> wm_active m)
                 (workspace_memberships db),
           om_role om \<in> set [''owner'', ''admin''] \<or> wm \<noteq> None]"

definition ListLaunchableProducts :: "string \<Rightarrow> string \<Rightarrow> string \<Rightarrow> db \<Rightarrow> Product list result" where
  "ListLaunchableProducts userID organisationID workspaceID db =
     (if TrimSpace userID = [] \<or> TrimSpace organisationID = [] \<or> TrimSpace workspaceID = []
      then Inl (Store ErrProductAccessDenied)
      else Inr (sort_key Prod_Key (remdups (map product_value
             (launchable_rows (TrimSpace organisationID) (TrimSpace userID) (TrimSpace workspaceID) db)))))"

record ProductAccess =
  PA_UserID :: string
  PA_OrganisationID :: string
  PA_ProductKey :: string
  PA_WorkspaceID :: string
  PA_OrganisationRole :: string
  PA_WorkspaceRole :: string

definition access_rows :: "string \<Rightarrow> string \<Rightarrow> string \<Rightarrow> string \<Rightarrow> db \<Rightarrow> ProductAccess list" where
  "access_rows userID organisationID productKey workspaceID db =
     [\<lparr>PA_UserID = u_public_id u, PA_OrganisationID = o_public_id r, PA_ProductKey = p_key p,
       PA_WorkspaceID = w_public_id w, PA_OrganisationRole = om_role om,
       PA_WorkspaceRole = coalesce (map_option wm_role wm)\<rparr>.
       u \<leftarrow> users db, u_public_id u = userID \<and> u_active u,
       r \<leftarrow> organisations db, o_public_id r = organisationID \<and> o_status r = ''active'',
       om \<leftarrow> organisation_memberships db, om_organisation_id om = o_id r \<and> om_user_id om = u_id u \<and> om_active om,
       p \<leftarrow> products db, p_key p = productKey \<and> p_status p = ''active'',
       x \<leftarrow> organisation_product_entitlements db,
         ent_organisation_id x = o_id r \<and> ent_product_key x = p_key p \<and> ent_status x = ''active'',
       a \<leftarrow> user_product_assignments db,
         upa_user_id a = u_id u \<and> upa_organisation_id a = o_id r \<and> upa_product_key a = p_key p \<and>
         upa_status a = ''active'',
       w \<leftarrow> workspaces db, w_public_id w = workspaceID \<and> w_organisation_id w = o_id r \<and> w_status w = ''active'',
       wm \<leftarrow> left_join (\<lambda>m. wm_workspace_id m = w_id w \<and> wm_user_id m = u_id u \<and> wm_active m)
               (workspace_memberships db),
         om_role om \<in> set [''owner'', ''admin''] \<or> wm \<noteq> None]"

definition ProveProductAccess :: "env \<Rightarrow> string \<Rightarrow> string \<Rightarrow> string \<Rightarrow> string \<Rightarrow> db \<Rightarrow> ProductAccess result" where
  "ProveProductAccess e userID organisationID productKey workspaceID db =
     (if \<not> validProductKey (TrimSpace productKey) then Inl (Store ErrProductAccessDenied)
      else if \<not> begin_ok e then Inl ErrBeginTx
      else case access_rows userID organisationID (TrimSpace productKey) workspaceID db of
        [] \<Rightarrow> Inl (Store ErrProductAccessDenied)
      | access # _ \<Rightarrow> Inr access)"

section \<open>Every mutation is a sequence of statements\<close>

interpretation product_rec: recorder recordProductAuditTx auditProduct
  by unfold_locales (auto simp: recordProductAuditTx_def intro: recordedI append_helpers)

interpretation access_rec: recorder recordOrganisationProductAuditTx auditOrganisation
  by unfold_locales (auto simp: recordOrganisationProductAuditTx_def intro: recordedI append_helpers)

abbreviation product_tables :: "tbl set" where
  "product_tables \<equiv> {Products, Entitlements, Assignments, AuditEvents, Outbox}"

lemmas product_leaves = exec_writes access_rec.rec_writes

lemma retireProductTx_writes: "only_writes product_tables db (retireProductTx e a k reason at db)"
  unfolding retireProductTx_def
  by (auto intro!: only_writes_attempt only_writes_if only_writes_Inr only_writes_Inl only_writes_exec
      intro: product_rec.rec_writes writes_trans [OF update_writes(14)] split: option.splits)

lemma entitleOrganisationTx_writes: "only_writes product_tables db (entitleOrganisationTx e a i k x reason at db)"
  unfolding entitleOrganisationTx_def by (auto intro!: step_rules intro: product_leaves)

lemma revokeOrganisationEntitlementTx_writes:
  "only_writes product_tables db (revokeOrganisationEntitlementTx e a i x reason at db)"
  unfolding revokeOrganisationEntitlementTx_def by (auto intro!: step_rules intro: product_leaves)

lemma assignUserProductTx_writes: "only_writes product_tables db (assignUserProductTx e a i u k x reason at db)"
  unfolding assignUserProductTx_def by (auto intro!: step_rules intro: product_leaves)

lemma revokeUserProductTx_writes: "only_writes product_tables db (revokeUserProductTx e a i x reason at db)"
  unfolding revokeUserProductTx_def by (auto intro!: step_rules intro: product_leaves)

interpretation retire_product: store_op product_tables
    "\<lambda>(actor, k, reason, at) e. RetireProduct e actor k reason at"
  by unfold_locales
    (auto simp: RetireProduct_def dest: tx_method_atomic dest!: tx_method_traced [OF _ retireProductTx_writes])

interpretation entitle_organisation: store_op product_tables
    "\<lambda>(actor, i, k, reason, at) e. EntitleOrganisation e actor i k reason at"
  by unfold_locales
    (auto simp: EntitleOrganisation_def dest: tx_method_atomic
      dest!: tx_method_traced [OF _ entitleOrganisationTx_writes])

interpretation revoke_entitlement: store_op product_tables
    "\<lambda>(actor, i, x, reason, at) e. RevokeOrganisationEntitlement e actor i x reason at"
  by unfold_locales
    (auto simp: RevokeOrganisationEntitlement_def dest: tx_method_atomic
      dest!: tx_method_traced [OF _ revokeOrganisationEntitlementTx_writes])

interpretation assign_product: store_op product_tables
    "\<lambda>(actor, i, u, k, reason, at) e. AssignUserProduct e actor i u k reason at"
  by unfold_locales
    (auto simp: AssignUserProduct_def dest: tx_method_atomic
      dest!: tx_method_traced [OF _ assignUserProductTx_writes])

interpretation revoke_product: store_op product_tables
    "\<lambda>(actor, i, x, reason, at) e. RevokeUserProduct e actor i x reason at"
  by unfold_locales
    (auto simp: RevokeUserProduct_def dest: tx_method_atomic
      dest!: tx_method_traced [OF _ revokeUserProductTx_writes])

section \<open>The access predicate\<close>

text \<open>
  Effective access as \<^verbatim>\<open>internal/store/product_access.go\<close> promises it: the user, the organisation,
  the product and the workspace are active, the workspace belongs to the organisation, the
  organisation is entitled to the product, the user is a current member assigned to it, and is
  either an owner or administrator of the organisation or a current member of the workspace.
\<close>

definition accesses :: "user_row \<Rightarrow> org_row \<Rightarrow> product_row \<Rightarrow> ws_row \<Rightarrow> om_row \<Rightarrow> db \<Rightarrow> bool" where
  "accesses u r p w m db \<longleftrightarrow>
     u_active u \<and> o_status r = ''active'' \<and> p_status p = ''active'' \<and> w_status w = ''active'' \<and>
     w_organisation_id w = o_id r \<and>
     (\<exists>x \<in> set (organisation_product_entitlements db). ent_scope x = (o_id r, p_key p) \<and> ent_active x) \<and>
     om_scope m = (o_id r, u_id u) \<and> om_active m \<and>
     (\<exists>a \<in> set (user_product_assignments db). upa_scope a = (u_id u, o_id r, p_key p) \<and> upa_active a) \<and>
     (om_role m \<in> {''owner'', ''admin''} \<or>
      (\<exists>q \<in> set (workspace_memberships db). wm_scope q = (w_id w, u_id u) \<and> wm_active q))"

definition has_access :: "string \<Rightarrow> string \<Rightarrow> string \<Rightarrow> string \<Rightarrow> db \<Rightarrow> bool" where
  "has_access pid oid key wid db \<longleftrightarrow>
     (\<exists>u \<in> set (users db). \<exists>r \<in> set (organisations db). \<exists>p \<in> set (products db).
        \<exists>w \<in> set (workspaces db). \<exists>m \<in> set (organisation_memberships db).
        u_public_id u = pid \<and> o_public_id r = oid \<and> p_key p = key \<and> w_public_id w = wid \<and>
        accesses u r p w m db)"

lemma left_join_some: "(\<exists>x \<in> set (left_join P rows). c \<or> x \<noteq> None) \<longleftrightarrow> c \<or> (\<exists>r \<in> set rows. P r)"
  by (auto simp: left_join_def Let_def filter_empty_conv)

lemma in_join:
  "y \<in> set (concat (map (\<lambda>x. if P x then f x else []) xs)) \<longleftrightarrow> (\<exists>x \<in> set xs. P x \<and> y \<in> set (f x))"
  by auto

lemma access_rows_iff:
  "y \<in> set (access_rows pid oid key wid db) \<longleftrightarrow>
    (\<exists>u \<in> set (users db). (u_public_id u = pid \<and> u_active u) \<and>
    (\<exists>r \<in> set (organisations db). (o_public_id r = oid \<and> o_status r = ''active'') \<and>
    (\<exists>m \<in> set (organisation_memberships db). (om_organisation_id m = o_id r \<and> om_user_id m = u_id u \<and> om_active m) \<and>
    (\<exists>p \<in> set (products db). (p_key p = key \<and> p_status p = ''active'') \<and>
    (\<exists>x \<in> set (organisation_product_entitlements db).
       (ent_organisation_id x = o_id r \<and> ent_product_key x = p_key p \<and> ent_status x = ''active'') \<and>
    (\<exists>a \<in> set (user_product_assignments db).
       (upa_user_id a = u_id u \<and> upa_organisation_id a = o_id r \<and> upa_product_key a = p_key p \<and>
        upa_status a = ''active'') \<and>
    (\<exists>w \<in> set (workspaces db). (w_public_id w = wid \<and> w_organisation_id w = o_id r \<and> w_status w = ''active'') \<and>
    (\<exists>wm \<in> set (left_join (\<lambda>m. wm_workspace_id m = w_id w \<and> wm_user_id m = u_id u \<and> wm_active m)
               (workspace_memberships db)). (om_role m \<in> set [''owner'', ''admin''] \<or> wm \<noteq> None) \<and>
       y \<in> set [\<lparr>PA_UserID = u_public_id u, PA_OrganisationID = o_public_id r, PA_ProductKey = p_key p,
             PA_WorkspaceID = w_public_id w, PA_OrganisationRole = om_role m,
             PA_WorkspaceRole = coalesce (map_option wm_role wm)\<rparr>]))))))))"
  unfolding access_rows_def in_join by (rule refl)

lemma access_rows_nonempty: "access_rows pid oid key wid db \<noteq> [] \<longleftrightarrow> has_access pid oid key wid db"
proof -
  have "access_rows pid oid key wid db \<noteq> [] \<longleftrightarrow> (\<exists>y. y \<in> set (access_rows pid oid key wid db))"
    by (simp add: ex_in_conv)
  also have "\<dots> \<longleftrightarrow>
    (\<exists>u \<in> set (users db). (u_public_id u = pid \<and> u_active u) \<and>
    (\<exists>r \<in> set (organisations db). (o_public_id r = oid \<and> o_status r = ''active'') \<and>
    (\<exists>m \<in> set (organisation_memberships db). (om_organisation_id m = o_id r \<and> om_user_id m = u_id u \<and> om_active m) \<and>
    (\<exists>p \<in> set (products db). (p_key p = key \<and> p_status p = ''active'') \<and>
    (\<exists>x \<in> set (organisation_product_entitlements db).
       (ent_organisation_id x = o_id r \<and> ent_product_key x = p_key p \<and> ent_status x = ''active'') \<and>
    (\<exists>a \<in> set (user_product_assignments db).
       (upa_user_id a = u_id u \<and> upa_organisation_id a = o_id r \<and> upa_product_key a = p_key p \<and>
        upa_status a = ''active'') \<and>
    (\<exists>w \<in> set (workspaces db). (w_public_id w = wid \<and> w_organisation_id w = o_id r \<and> w_status w = ''active'') \<and>
    (\<exists>wm \<in> set (left_join (\<lambda>m. wm_workspace_id m = w_id w \<and> wm_user_id m = u_id u \<and> wm_active m)
               (workspace_memberships db)). om_role m \<in> set [''owner'', ''admin''] \<or> wm \<noteq> None))))))))"
    unfolding access_rows_iff list.set singleton_iff by blast
  also have "\<dots> \<longleftrightarrow> has_access pid oid key wid db"
    unfolding left_join_some has_access_def accesses_def ent_active_def upa_active_def list.set prod.inject by blast
  finally show ?thesis .
qed

text \<open>
  C1: Product access is decided exactly by the effective access predicate.
  A proof is returned for precisely the users who have access, it names the user, organisation,
  product and workspace that were asked about, and the role in it is the role of a current
  membership of that organisation; every other request gets the single error that access is denied.
\<close>

theorem product_access_decides:
  assumes "begin_ok e"
  shows "(if validProductKey (TrimSpace key) \<and> has_access pid oid (TrimSpace key) wid db
    then \<exists>x. ProveProductAccess e pid oid key wid db = Inr x \<and> PA_UserID x = pid \<and> PA_OrganisationID x = oid \<and>
      PA_ProductKey x = TrimSpace key \<and> PA_WorkspaceID x = wid \<and>
      (\<exists>m \<in> set (organisation_memberships db). om_active m \<and> om_role m = PA_OrganisationRole x \<and>
         (\<exists>u \<in> set (users db). u_public_id u = pid \<and> om_user_id m = u_id u) \<and>
         (\<exists>r \<in> set (organisations db). o_public_id r = oid \<and> om_organisation_id m = o_id r))
    else ProveProductAccess e pid oid key wid db = Inl (Store ErrProductAccessDenied))"
proof (cases "access_rows pid oid (TrimSpace key) wid db")
  case Nil
  then have "\<not> has_access pid oid (TrimSpace key) wid db" by (simp flip: access_rows_nonempty)
  with Nil assms show ?thesis by (simp add: ProveProductAccess_def)
next
  case (Cons x xs)
  then have yes: "has_access pid oid (TrimSpace key) wid db" by (simp flip: access_rows_nonempty)
  have "x \<in> set (access_rows pid oid (TrimSpace key) wid db)" by (simp add: Cons)
  then obtain u r m where "u \<in> set (users db)" "r \<in> set (organisations db)" "m \<in> set (organisation_memberships db)"
      "u_public_id u = pid" "o_public_id r = oid" "om_organisation_id m = o_id r" "om_user_id m = u_id u" "om_active m"
      "om_role m = PA_OrganisationRole x" "PA_UserID x = pid" "PA_OrganisationID x = oid"
      "PA_ProductKey x = TrimSpace key" "PA_WorkspaceID x = wid"
    unfolding access_rows_iff list.set singleton_iff by fastforce
  moreover have "ProveProductAccess e pid oid key wid db = Inr x" if "validProductKey (TrimSpace key)"
    using that assms by (simp add: ProveProductAccess_def Cons)
  moreover have "ProveProductAccess e pid oid key wid db = Inl (Store ErrProductAccessDenied)"
    if "\<not> validProductKey (TrimSpace key)"
    using that by (simp add: ProveProductAccess_def)
  ultimately show ?thesis using yes by auto
qed

lemma launchable_rows_iff:
  assumes "users_ok db"
  shows "(\<exists>p \<in> set (launchable_rows oid pid wid db). p_key p = key) \<longleftrightarrow> has_access pid oid key wid db"
proof -
  have user: "Some i = active_user pid db \<longleftrightarrow> (\<exists>u \<in> set (users db). u_public_id u = pid \<and> u_active u \<and> u_id u = i)" for i
    using active_user_iff [OF assms, of pid i] by auto
  have "(\<exists>p \<in> set (launchable_rows oid pid wid db). p_key p = key) \<longleftrightarrow>
      (\<exists>y. y \<in> set (launchable_rows oid pid wid db) \<and> p_key y = key)"
    by blast
  also have "\<dots> \<longleftrightarrow>
    (\<exists>p \<in> set (products db). (p_key p = key \<and> p_status p = ''active'') \<and>
    (\<exists>x \<in> set (organisation_product_entitlements db). (ent_product_key x = p_key p \<and> ent_status x = ''active'') \<and>
    (\<exists>r \<in> set (organisations db).
       (o_id r = ent_organisation_id x \<and> o_public_id r = oid \<and> o_status r = ''active'') \<and>
    (\<exists>m \<in> set (organisation_memberships db).
       (om_organisation_id m = o_id r \<and> Some (om_user_id m) = active_user pid db \<and> om_active m) \<and>
    (\<exists>a \<in> set (user_product_assignments db).
       (upa_user_id a = om_user_id m \<and> upa_organisation_id a = o_id r \<and> upa_product_key a = p_key p \<and>
        upa_status a = ''active'') \<and>
    (\<exists>w \<in> set (workspaces db). (w_public_id w = wid \<and> w_organisation_id w = o_id r \<and> w_status w = ''active'') \<and>
    (\<exists>wm \<in> set (left_join (\<lambda>q. wm_workspace_id q = w_id w \<and> wm_user_id q = om_user_id m \<and> wm_active q)
               (workspace_memberships db)). om_role m \<in> set [''owner'', ''admin''] \<or> wm \<noteq> None)))))))"
    unfolding launchable_rows_def in_join list.set singleton_iff by blast
  also have "\<dots> \<longleftrightarrow> has_access pid oid key wid db" (is "?L \<longleftrightarrow> _")
  proof
    assume ?L
    then obtain p x r m a w where row: "p \<in> set (products db)" "p_key p = key" "p_status p = ''active''"
        "x \<in> set (organisation_product_entitlements db)" "ent_product_key x = p_key p" "ent_status x = ''active''"
        "r \<in> set (organisations db)" "o_id r = ent_organisation_id x" "o_public_id r = oid" "o_status r = ''active''"
        "m \<in> set (organisation_memberships db)" "om_organisation_id m = o_id r" "om_active m"
        "a \<in> set (user_product_assignments db)" "upa_user_id a = om_user_id m" "upa_organisation_id a = o_id r"
        "upa_product_key a = p_key p" "upa_status a = ''active''"
        "w \<in> set (workspaces db)" "w_public_id w = wid" "w_organisation_id w = o_id r" "w_status w = ''active''"
        "om_role m \<in> {''owner'', ''admin''} \<or>
         (\<exists>q \<in> set (workspace_memberships db). wm_workspace_id q = w_id w \<and> wm_user_id q = om_user_id m \<and> wm_active q)"
      and "Some (om_user_id m) = active_user pid db"
      unfolding left_join_some list.set by blast
    then obtain u where u: "u \<in> set (users db)" "u_public_id u = pid" "u_active u" "u_id u = om_user_id m"
      unfolding user by blast
    have "accesses u r p w m db" unfolding accesses_def u(4) ent_active_def upa_active_def using row u(3) by auto
    then show "has_access pid oid key wid db" unfolding has_access_def using row u by blast
  next
    assume "has_access pid oid key wid db"
    then obtain u r p w m where row: "u \<in> set (users db)" "r \<in> set (organisations db)" "p \<in> set (products db)"
        "w \<in> set (workspaces db)" "m \<in> set (organisation_memberships db)"
        "u_public_id u = pid" "o_public_id r = oid" "p_key p = key" "w_public_id w = wid" "accesses u r p w m db"
      unfolding has_access_def by blast
    then obtain x a where *: "x \<in> set (organisation_product_entitlements db)" "ent_scope x = (o_id r, p_key p)" "ent_active x"
        "a \<in> set (user_product_assignments db)" "upa_scope a = (u_id u, o_id r, p_key p)" "upa_active a"
      unfolding accesses_def by blast
    have "Some (om_user_id m) = active_user pid db" unfolding user using row by (auto simp: accesses_def)
    then show ?L
      unfolding left_join_some using row *
      by (intro bexI [of _ p] conjI bexI [of _ x] bexI [of _ r] bexI [of _ m] bexI [of _ a] bexI [of _ w])
        (auto simp: accesses_def ent_active_def upa_active_def)
  qed
  finally show ?thesis .
qed

text \<open>
  The list of launchable products and the access proof are two views of one
  predicate: for a user, an organisation and a workspace, the list shows a product key exactly
  when proving access to that key succeeds, and it shows each product once, in key order.
\<close>

lemma launchable_agrees:
  assumes "db_ok db" and "begin_ok e"
    and "TrimSpace pid = pid" "pid \<noteq> []" "TrimSpace oid = oid" "oid \<noteq> []" "TrimSpace wid = wid" "wid \<noteq> []"
  shows "\<exists>ps. ListLaunchableProducts pid oid wid db = Inr ps \<and> distinct ps \<and> sorted (map Prod_Key ps) \<and>
    (\<forall>key. validProductKey key \<and> TrimSpace key = key \<longrightarrow>
       (key \<in> Prod_Key ` set ps \<longleftrightarrow> (\<exists>x. ProveProductAccess e pid oid key wid db = Inr x)))"
proof (intro exI conjI allI impI)
  let ?ps = "sort_key Prod_Key (remdups (map product_value (launchable_rows oid pid wid db)))"
  show "ListLaunchableProducts pid oid wid db = Inr ?ps"
    using assms(3-) by (simp add: ListLaunchableProducts_def)
  show "distinct ?ps" "sorted (map Prod_Key ?ps)" by simp_all
  fix key
  assume "validProductKey key \<and> TrimSpace key = key"
  then have "(\<exists>x. ProveProductAccess e pid oid key wid db = Inr x) \<longleftrightarrow> has_access pid oid key wid db"
    using assms(2) by (auto simp: ProveProductAccess_def simp flip: access_rows_nonempty split: list.splits)
  moreover have "key \<in> Prod_Key ` set ?ps \<longleftrightarrow> (\<exists>p \<in> set (launchable_rows oid pid wid db). p_key p = key)"
    by (auto simp: product_value_def image_iff)
  ultimately show "key \<in> Prod_Key ` set ?ps \<longleftrightarrow> (\<exists>x. ProveProductAccess e pid oid key wid db = Inr x)"
    using launchable_rows_iff [OF db_okD(1) [OF assms(1)]] by simp
qed

lemma has_accessE:
  assumes "has_access pid oid key wid db"
  obtains u r w m x a where "u \<in> set (users db)" "u_public_id u = pid" "u_active u"
    "r \<in> set (organisations db)" "o_public_id r = oid" "o_status r = ''active''"
    "w \<in> set (workspaces db)" "w_public_id w = wid" "w_status w = ''active''" "w_organisation_id w = o_id r"
    "m \<in> set (organisation_memberships db)" "om_scope m = (o_id r, u_id u)" "om_active m"
    "x \<in> set (organisation_product_entitlements db)" "ent_scope x = (o_id r, key)" "ent_active x"
    "a \<in> set (user_product_assignments db)" "upa_scope a = (u_id u, o_id r, key)" "upa_active a"
proof -
  from assms obtain u r p w m where row: "u \<in> set (users db)" "r \<in> set (organisations db)"
      "w \<in> set (workspaces db)" "m \<in> set (organisation_memberships db)"
      "u_public_id u = pid" "o_public_id r = oid" "p_key p = key" "w_public_id w = wid" and acc: "accesses u r p w m db"
    unfolding has_access_def by blast
  from acc obtain x a where "x \<in> set (organisation_product_entitlements db)" "ent_scope x = (o_id r, p_key p)" "ent_active x"
      "a \<in> set (user_product_assignments db)" "upa_scope a = (u_id u, o_id r, p_key p)" "upa_active a"
    unfolding accesses_def by blast
  moreover from acc have "u_active u" "o_status r = ''active''" "w_status w = ''active''" "w_organisation_id w = o_id r"
      "om_scope m = (o_id r, u_id u)" "om_active m"
    unfolding accesses_def by blast+
  ultimately show ?thesis using row by (intro that [of u r w m x a]) simp_all
qed

lemma no_access_denied:
  "begin_ok e \<Longrightarrow> \<not> has_access pid oid (TrimSpace key) wid db \<Longrightarrow>
     ProveProductAccess e pid oid key wid db = Inl (Store ErrProductAccessDenied)"
  by (simp add: ProveProductAccess_def flip: access_rows_nonempty)

section \<open>Withdrawing access\<close>

lemma product_op_body:
  "RetireProduct e a k reason at db = (Inr v, db') \<Longrightarrow> retireProductTx e a (TrimSpace k) reason at db = Inr (v, db')"
  "EntitleOrganisation e a i k reason at db = (Inr x, db') \<Longrightarrow>
     \<exists>eid. entitleOrganisationTx e a i (TrimSpace k) eid reason at db = Inr (x, db')"
  "RevokeOrganisationEntitlement e a i eid reason at db = (Inr v, db') \<Longrightarrow>
     revokeOrganisationEntitlementTx e a i eid reason at db = Inr (v, db')"
  "AssignUserProduct e a i u k reason at db = (Inr y, db') \<Longrightarrow>
     \<exists>aid. assignUserProductTx e a i (TrimSpace u) (TrimSpace k) aid reason at db = Inr (y, db')"
  "RevokeUserProduct e a i aid reason at db = (Inr v, db') \<Longrightarrow>
     revokeUserProductTx e a i aid reason at db = Inr (v, db')"
  by (auto simp: RetireProduct_def EntitleOrganisation_def RevokeOrganisationEntitlement_def
      AssignUserProduct_def RevokeUserProduct_def tx_simps Let_def split: if_splits)

lemma retired_product_gone:
  assumes "retireProductTx e a k reason at db = Inr (v, db')"
  shows "\<not> has_access pid oid k wid db'"
proof -
  from assms obtain actor where "recordProductAuditTx (rand_read e 0) actor k eventProductRetired
      (prd_details k ProductRetired reason) at (retire_product k at db) = Inr db'"
    by (auto simp: retireProductTx_def tx_simps split: if_splits option.splits)
  then have "products db' = products (retire_product k at db)" by (rule product_rec.rec_same(6))
  then have "\<forall>p \<in> set (products db'). p_key p = k \<longrightarrow> p_status p \<noteq> ''active''"
    by (simp add: retire_product_def ball_update_where)
  then show ?thesis unfolding has_access_def accesses_def by blast
qed

lemma revoked_entitlement_gone:
  assumes "db_ok db" and "revokeOrganisationEntitlementTx e a i eid reason at db = Inr (v, db')"
  obtains x where "x \<in> set (organisation_product_entitlements db)" "ent_public_id x = TrimSpace eid" "ent_active x"
    "\<And>pid wid. \<not> has_access pid i (ent_product_key x) wid db'"
proof -
  from assms(2) obtain x actor db1 where x: "entitlement_row i (TrimSpace eid) db = Some x" "ent_status x = ''active''"
    and rv: "revoke_ent (ent_id x) actor at (TrimSpace reason) db = Inr db1"
    and rec: "recordOrganisationProductAuditTx (rand_read e 0) actor i eventEntitlementRevoked
      ((prd_details (ent_product_key x) EntitlementRevoked reason)
         \<lparr>PrdD_OrganisationID := i, PrdD_EntitlementID := eid\<rparr>) at db1 = Inr db'"
    by (auto simp: revokeOrganisationEntitlementTx_def tx_simps)
  then have mem: "x \<in> set (organisation_product_entitlements db)" "ent_public_id x = TrimSpace eid" "ent_active x"
    and org: "\<exists>r \<in> set (organisations db). o_id r = ent_organisation_id x \<and> o_public_id r = i"
    by (auto simp: entitlement_row_def list_ex_iff ent_active_def dest!: find_SomeD)
  note rows = rv [unfolded revoke_ent_def] access_rec.rec_same [OF rec]
  have orgs: "organisations db' = organisations db" using rows by (auto split: if_splits)
  have gone: "ent_scope y \<noteq> ent_scope x" if "y \<in> set (organisation_product_entitlements db')" "ent_active y" for y
  proof
    assume same: "ent_scope y = ent_scope x"
    have "y \<in> set (organisation_product_entitlements db)" "\<not> (ent_id y = ent_id x \<and> ent_active y)"
      using that rows by (auto simp: set_update_where ent_active_def split: if_splits)
    moreover have "unique_key ent_active ent_scope (organisation_product_entitlements db)"
      using db_okD(10) [OF assms(1)] by (simp add: ent_ok_def)
    ultimately show False using unique_keyD [of ent_active ent_scope _ y x] that(2) same mem by blast
  qed
  have uniq: "unique_key every o_public_id (organisations db)"
    using db_okD(5) [OF assms(1)] by (simp add: organisations_ok_def)
  have "\<not> has_access pid i (ent_product_key x) wid db'" for pid wid
  proof
    assume "has_access pid i (ent_product_key x) wid db'"
    then obtain r y where r: "r \<in> set (organisations db)" "o_public_id r = i"
      and y: "y \<in> set (organisation_product_entitlements db')" "ent_scope y = (o_id r, ent_product_key x)" "ent_active y"
      by (rule has_accessE) (unfold orgs, blast)
    from org obtain q where q: "q \<in> set (organisations db)" "o_id q = ent_organisation_id x" "o_public_id q = i" by blast
    then have "q = r" using unique_keyD [OF uniq q(1) r(1)] r(2) by simp
    with gone [OF y(1,3)] y(2) q(2) show False by simp
  qed
  then show ?thesis using mem that by blast
qed

lemma revoked_assignment_gone:
  assumes "db_ok db" and "revokeUserProductTx e a i aid reason at db = Inr (v, db')"
  obtains x u where "x \<in> set (user_product_assignments db)" "upa_public_id x = TrimSpace aid" "upa_active x"
    "u \<in> set (users db)" "u_id u = upa_user_id x"
    "\<And>wid. \<not> has_access (u_public_id u) (TrimSpace i) (upa_product_key x) wid db'"
proof -
  from assms(2) obtain x actor db1 where x: "assignment_row (TrimSpace i) (TrimSpace aid) db = Some x"
      "upa_status x = ''active''"
    and rv: "revoke_upa (upa_id x) actor at (TrimSpace reason) db = Inr db1"
    and rec: "recordOrganisationProductAuditTx (rand_read e 0) actor i eventAssignmentRevoked
      ((prd_details (upa_product_key x) AssignmentRevoked reason)
         \<lparr>PrdD_OrganisationID := i, PrdD_UserID := user_public (upa_user_id x) db,
          PrdD_AssignmentID := aid\<rparr>) at db1 = Inr db'"
    by (auto simp: revokeUserProductTx_def tx_simps)
  then have mem: "x \<in> set (user_product_assignments db)" "upa_public_id x = TrimSpace aid" "upa_active x"
    and org: "\<exists>r \<in> set (organisations db). o_id r = upa_organisation_id x \<and> o_public_id r = TrimSpace i"
    and usr: "\<exists>u \<in> set (users db). u_id u = upa_user_id x"
    by (auto simp: assignment_row_def list_ex_iff upa_active_def dest!: find_SomeD)
  from usr obtain u where u: "u \<in> set (users db)" "u_id u = upa_user_id x" by blast
  note rows = rv [unfolded revoke_upa_def] access_rec.rec_same [OF rec]
  have orgs: "organisations db' = organisations db" "users db' = users db" using rows by (auto split: if_splits)
  have gone: "upa_scope y \<noteq> upa_scope x" if "y \<in> set (user_product_assignments db')" "upa_active y" for y
  proof
    assume same: "upa_scope y = upa_scope x"
    have "y \<in> set (user_product_assignments db)" "\<not> (upa_id y = upa_id x \<and> upa_active y)"
      using that rows by (auto simp: set_update_where upa_active_def split: if_splits)
    moreover have "unique_key upa_active upa_scope (user_product_assignments db)"
      using db_okD(11) [OF assms(1)] by (simp add: upa_ok_def)
    ultimately show False using unique_keyD [of upa_active upa_scope _ y x] that(2) same mem by blast
  qed
  have uniq: "unique_key every o_public_id (organisations db)" "unique_key every u_public_id (users db)"
    using db_okD [OF assms(1)] by (simp_all add: organisations_ok_def users_ok_def)
  have "\<not> has_access (u_public_id u) (TrimSpace i) (upa_product_key x) wid db'" for wid
  proof
    assume "has_access (u_public_id u) (TrimSpace i) (upa_product_key x) wid db'"
    then obtain r v y where r: "r \<in> set (organisations db)" "o_public_id r = TrimSpace i"
      and v: "v \<in> set (users db)" "u_public_id v = u_public_id u"
      and y: "y \<in> set (user_product_assignments db')" "upa_scope y = (u_id v, o_id r, upa_product_key x)" "upa_active y"
      by (rule has_accessE) (unfold orgs, blast)
    from org obtain q where q: "q \<in> set (organisations db)" "o_id q = upa_organisation_id x" "o_public_id q = TrimSpace i"
      by blast
    have "q = r" "v = u" using unique_keyD [OF uniq(1) q(1) r(1)] unique_keyD [OF uniq(2) v(1) u(1)] r(2) q(3) v(2)
      by simp_all
    with gone [OF y(1,3)] y(2) q(2) u(2) show False by simp
  qed
  then show ?thesis using mem u that by blast
qed

text \<open>
  C3: Withdrawing a product takes effect at once. As soon as a product is retired, no
  one is given access to it; when an organisation's entitlement is revoked, no one is given access
  to that product in that organisation; when a user's assignment is revoked, that user is refused
  the product in that organisation, in every workspace.
\<close>

theorem access_withdrawn:
  assumes "db_ok db" and "begin_ok f"
  shows "(RetireProduct e a k reason at db = (Inr v, db') \<longrightarrow>
      ProveProductAccess f pid oid k wid db' = Inl (Store ErrProductAccessDenied)) \<and>
    (RevokeOrganisationEntitlement e a i eid reason at db = (Inr v, db') \<longrightarrow>
      (\<exists>x \<in> set (organisation_product_entitlements db). ent_public_id x = TrimSpace eid \<and> ent_active x \<and>
         (\<forall>key. TrimSpace key = ent_product_key x \<longrightarrow>
            ProveProductAccess f pid i key wid db' = Inl (Store ErrProductAccessDenied)))) \<and>
    (RevokeUserProduct e a i aid reason at db = (Inr v, db') \<longrightarrow>
      (\<exists>x \<in> set (user_product_assignments db). \<exists>u \<in> set (users db). upa_public_id x = TrimSpace aid \<and> upa_active x \<and>
         u_id u = upa_user_id x \<and>
         (\<forall>key. TrimSpace key = upa_product_key x \<longrightarrow>
            ProveProductAccess f (u_public_id u) (TrimSpace i) key wid db' = Inl (Store ErrProductAccessDenied))))"
proof (intro conjI impI)
  assume "RetireProduct e a k reason at db = (Inr v, db')"
  then show "ProveProductAccess f pid oid k wid db' = Inl (Store ErrProductAccessDenied)"
    by (intro no_access_denied [OF assms(2)] retired_product_gone product_op_body(1))
next
  assume "RevokeOrganisationEntitlement e a i eid reason at db = (Inr v, db')"
  from revoked_entitlement_gone [OF assms(1) product_op_body(3) [OF this]]
  obtain x where "x \<in> set (organisation_product_entitlements db)" "ent_public_id x = TrimSpace eid" "ent_active x"
    "\<And>pid wid. \<not> has_access pid i (ent_product_key x) wid db'" by blast
  then show "\<exists>x \<in> set (organisation_product_entitlements db). ent_public_id x = TrimSpace eid \<and> ent_active x \<and>
         (\<forall>key. TrimSpace key = ent_product_key x \<longrightarrow>
            ProveProductAccess f pid i key wid db' = Inl (Store ErrProductAccessDenied))"
    by (intro bexI [of _ x]) (simp_all add: no_access_denied [OF assms(2)])
next
  assume "RevokeUserProduct e a i aid reason at db = (Inr v, db')"
  from revoked_assignment_gone [OF assms(1) product_op_body(5) [OF this]]
  obtain x u where "x \<in> set (user_product_assignments db)" "upa_public_id x = TrimSpace aid" "upa_active x"
    "u \<in> set (users db)" "u_id u = upa_user_id x"
    "\<And>wid. \<not> has_access (u_public_id u) (TrimSpace i) (upa_product_key x) wid db'" by blast
  then show "\<exists>x \<in> set (user_product_assignments db). \<exists>u \<in> set (users db). upa_public_id x = TrimSpace aid \<and> upa_active x \<and>
         u_id u = upa_user_id x \<and>
         (\<forall>key. TrimSpace key = upa_product_key x \<longrightarrow>
            ProveProductAccess f (u_public_id u) (TrimSpace i) key wid db' = Inl (Store ErrProductAccessDenied))"
    by (intro bexI [of _ x] bexI [of _ u]) (simp_all add: no_access_denied [OF assms(2)])
qed

end
