(* ===== verification/Evaluation.thy ===== *)
theory Evaluation
  imports Prelude "HOL-Library.Code_Target_Nat"
begin

text \<open>
  Code equations that let concrete runs of the model be evaluated by the simplifier: naturals in
  binary, white space tested by the first and last byte only, and the base64 alphabet by
  arithmetic. Each equation is a theorem about the definition it stands for.
\<close>

lemma TrimSpace_code [code]:
  "TrimSpace s =
     (if s = [] then []
      else if graphic (hd s) \<and> graphic (last s) then s
      else rev (strip_any (map rev space_runes) (rev (strip_any space_runes s))))"
proof (cases "s = []")
  case True
  have "strip_any ps [] = []" for ps by (rule strip_any_id) simp
  with True show ?thesis by (simp add: TrimSpace_def)
next
  case False
  then show ?thesis using TrimSpace_graphic [of s] by (simp add: TrimSpace_def)
qed

lemma b64_char_code [code]:
  "b64_char n =
     (let k = n mod 64 in
      if k < 26 then char_of (k + 65) else if k < 52 then char_of (k + 71)
      else if k < 62 then char_of (k - 4) else if k = 62 then CHR ''-'' else CHR ''_'')"
proof -
  have "\<forall>k \<in> set [0..<64]. b64_alphabet ! k =
     (if k < 26 then char_of (k + 65) else if k < 52 then char_of (k + 71)
      else if k < 62 then char_of (k - 4) else if k = 62 then CHR ''-'' else CHR ''_'')"
    by code_simp
  then show ?thesis by (simp add: b64_char_def Let_def)
qed

text \<open>A call that did not fail returned a value and a database.\<close>

lemma ranE:
  assumes "\<not> isl (fst p)"
  obtains a d where "p = (Inr a, d)"
  using assms by (cases p; cases "fst p") auto

end
