(* ===== verification/Demo.thy ===== *)
theory Demo
  imports Workspace Evaluation
begin

text \<open>
  A small well-formed database for the concrete runs of the scenario theories: four users, one of
  them a system administrator, and one organisation with a workspace, an entitlement and an
  assignment.
\<close>

definition demo_env :: "nat \<Rightarrow> env" where
  "demo_env n =
     \<lparr>rand_read = (\<lambda>k. Some (\<lambda>i. char_of (n + 16 * k + i))), begin_ok = True, commit_ok = True, time_now = 0\<rparr>"

abbreviation demo_time :: gotime where
  "demo_time \<equiv> seconds 1790000000"

definition demo_user :: "int \<Rightarrow> string \<Rightarrow> string \<Rightarrow> user_row" where
  "demo_user i pid mail =
     \<lparr>u_id = i, u_public_id = pid, u_email = mail, u_display_name = pid, u_password_hash = ''h'',
      u_active = True, u_created_at = demo_time, u_last_login_at = None, u_mfa_enabled = False,
      u_mfa_secret = None, u_mfa_last_step = 0\<rparr>"

definition demo_db :: db where
  "demo_db = initial_db
     \<lparr>users := [demo_user 1 ''usr_ann'' ''ann@x.io'', demo_user 2 ''usr_bob'' ''bob@x.io'',
                demo_user 3 ''usr_eve'' ''eve@x.io'', demo_user 4 ''usr_sys'' ''sys@x.io''],
      system_role_assignments := [\<lparr>sra_user_id = 4, sra_role = ''system_admin'', sra_active = True\<rparr>],
      organisations := [\<lparr>o_id = 1, o_public_id = ''org_a'', o_name = ''Acme'', o_status = ''active'',
                         o_created_at = demo_time, o_archived_at = None\<rparr>],
      organisation_memberships :=
        [(new_om ''omem_1'' 1 1 ''owner'' 1 demo_time 1)\<lparr>om_id := 1\<rparr>,
         (new_om ''omem_2'' 1 2 ''member'' 1 demo_time 1)\<lparr>om_id := 2\<rparr>],
      workspaces := [\<lparr>w_id = 1, w_public_id = ''wsp_w'', w_organisation_id = 1, w_name = ''Main'',
                      w_status = ''active'', w_created_at = demo_time, w_archived_at = None\<rparr>],
      workspace_memberships := [(new_wm ''wmem_1'' 1 2 ''member'' 1 demo_time 1)\<lparr>wm_id := 1\<rparr>],
      organisation_product_entitlements :=
        [\<lparr>ent_id = 1, ent_public_id = ''ent_1'', ent_organisation_id = 1, ent_product_key = ''product.tockrims'',
          ent_status = ''active'', ent_granted_by = 1, ent_granted_at = demo_time, ent_revoked_by = None,
          ent_revoked_at = None, ent_reason = []\<rparr>],
      user_product_assignments :=
        [\<lparr>upa_id = 1, upa_public_id = ''upa_1'', upa_user_id = 2, upa_organisation_id = 1,
          upa_product_key = ''product.tockrims'', upa_status = ''active'', upa_assigned_by = 1,
          upa_assigned_at = demo_time, upa_revoked_by = None, upa_revoked_at = None, upa_reason = []\<rparr>]\<rparr>"

lemma demo_db_ok: "db_ok demo_db"
  by (simp add: db_ok_def table_ok_defs demo_db_def initial_db_def demo_user_def new_om_def new_wm_def ids_up_def
      unique_key_def contiguous_def lane_def nocase_def ascii_lower_def check_om_role_def check_wm_role_def
      om_owner_def ent_active_def upa_active_def fk_defs fk_def)

lemma demo_env_begin: "begin_ok (demo_env n)"
  by (simp add: demo_env_def)

end
