(* ===== verification/Scenario.thy ===== *)
theory Scenario
  imports Products Demo
begin

text \<open>
  Runs of the organisation, workspace, product and outbox operations on the example database: every
  property of those components that has a hypothesis is applied to an input where it holds.
\<close>

section \<open>Runs\<close>

abbreviation "demo_add \<equiv>
  AddOrganisationMember (demo_env 1) ''usr_ann'' ''org_a'' ''usr_eve'' ''member'' ''join'' demo_time demo_db"
abbreviation "demo_change \<equiv>
  ChangeOrganisationMemberRole (demo_env 1) ''usr_ann'' ''org_a'' ''usr_bob'' ''admin'' ''promote'' demo_time demo_db"
abbreviation "demo_leave \<equiv>
  DeactivateOrganisationMember (demo_env 1) ''usr_ann'' ''org_a'' ''usr_bob'' ''leave'' demo_time demo_db"
abbreviation "demo_archive \<equiv>
  ArchiveOrganisation (demo_env 1) ''usr_ann'' ''org_a'' ''close'' demo_time demo_db"
abbreviation "demo_create \<equiv>
  CreateOrganisation (demo_env 1) ''usr_eve''
    \<lparr>Org_ID = ''org_b'', Org_Name = ''Beta'', Org_Status = [], Org_CreatedAt = zero_time, Org_ArchivedAt = None\<rparr>
    ''start'' demo_time demo_db"
abbreviation "demo_join_workspace \<equiv>
  AddWorkspaceMember (demo_env 1) ''usr_ann'' ''wsp_w'' ''usr_ann'' ''viewer'' ''look'' demo_time demo_db"
abbreviation "demo_close_workspace \<equiv>
  ArchiveWorkspace (demo_env 1) ''usr_ann'' ''wsp_w'' ''close'' demo_time demo_db"
abbreviation "demo_retire \<equiv>
  RetireProduct (demo_env 1) ''usr_sys'' ''product.tockrims'' ''end'' demo_time demo_db"

lemma demo_add_runs: "\<not> isl (fst demo_add)"
  by code_simp

lemma demo_change_runs: "\<not> isl (fst demo_change)"
  by code_simp

lemma demo_archive_runs: "\<not> isl (fst demo_archive)"
  by code_simp

lemma demo_create_runs: "\<not> isl (fst demo_create)"
  by code_simp

lemma demo_join_workspace_runs: "\<not> isl (fst demo_join_workspace)"
  by code_simp

lemma demo_close_workspace_runs: "\<not> isl (fst demo_close_workspace)"
  by code_simp

lemma demo_retire_runs: "\<not> isl (fst demo_retire)"
  by code_simp

definition demo_db2 :: db where
  "demo_db2 = snd demo_add"

lemma demo_db2_ok: "db_ok demo_db2"
  using writes_db_ok [OF add_organisation_member.run_writes demo_db_ok,
      of "(''usr_ann'', ''org_a'', ''usr_eve'', ''member'', ''join'', demo_time)" "demo_env 1"]
  by (simp add: demo_db2_def)

lemma demo_db2_outbox: "length (platform_outbox demo_db2) = 1"
  by code_simp

section \<open>Outbox\<close>

theorem feed_page_witness:
  "ListPlatformEventsAfter (demo_env 1) 0 10 demo_db2 =
    Inr \<lparr>Feed_Events = map (\<lambda>r. outbox_event (ob_id r) r) (take 10 (platform_outbox demo_db2)),
         Feed_SourceCursor = 1, Feed_RetentionHorizon = 0, Feed_NextCursor = 0, Feed_HasMore = False\<rparr>"
  using feed_page [OF db_okD(17) [OF demo_db2_ok], of "demo_env 1" 10 0]
  by (simp add: demo_db2_outbox demo_env_def)

lemma demo_publish_runs:
  "fst (MarkPlatformEventsPublished (demo_env 1) (map ob_event_id (platform_outbox demo_db2)) demo_time demo_db2) = Inr ()"
  by code_simp

theorem publish_once_witness:
  "\<exists>db'. MarkPlatformEventsPublished (demo_env 1) (map ob_event_id (platform_outbox demo_db2)) demo_time demo_db2 =
      (Inr (), db') \<and>
    db' = published (map TrimSpace (map ob_event_id (platform_outbox demo_db2))) demo_time demo_db2 \<and>
    list_all (pending demo_db2) (map TrimSpace (map ob_event_id (platform_outbox demo_db2)))"
proof -
  obtain db' where run: "MarkPlatformEventsPublished (demo_env 1) (map ob_event_id (platform_outbox demo_db2))
      demo_time demo_db2 = (Inr (), db')"
    using demo_publish_runs by (metis prod.collapse)
  with publish_once [OF run] show ?thesis by blast
qed

lemma demo_append_runs:
  "\<not> isl (appendPlatformEventTx (Some (\<lambda>i. CHR ''x'')) EventOrganisationRenamed ''org_a'' demo_time
     [(''organisation_id'', JStr ''org_a''), (''name'', JStr ''Acme'')] demo_db)"
  by code_simp

theorem append_numbered_witness:
  "\<exists>db'. appendPlatformEventTx (Some (\<lambda>i. CHR ''x'')) EventOrganisationRenamed ''org_a'' demo_time
     [(''organisation_id'', JStr ''org_a''), (''name'', JStr ''Acme'')] demo_db = Inr db' \<and> outbox_ok db' \<and>
     (\<exists>r. platform_outbox db' = [r] \<and> ob_id r = 1 \<and> ob_sequence r = 1)"
proof -
  obtain db' where run: "appendPlatformEventTx (Some (\<lambda>i. CHR ''x'')) EventOrganisationRenamed ''org_a'' demo_time
     [(''organisation_id'', JStr ''org_a''), (''name'', JStr ''Acme'')] demo_db = Inr db'"
    using demo_append_runs by (metis sum.collapse(2))
  have "platform_outbox demo_db = []" by (simp add: demo_db_def initial_db_def)
  with append_numbered [OF db_okD(17) [OF demo_db_ok] run] run show ?thesis by (auto simp: lane_def)
qed

section \<open>Organisations\<close>

theorem organisation_authority_witness:
  "\<not> isl (fst demo_add) \<and> administers {''owner'', ''admin''} ''usr_ann'' ''org_a'' demo_db"
proof -
  obtain m db' where "demo_add = (Inr m, db')" using demo_add_runs by (rule ranE)
  with organisation_authority [of "demo_env 1" "''usr_ann''" "''org_a''" "''usr_eve''" "''member''" "''join''"
      demo_time demo_db m db' undefined undefined undefined] demo_add_runs
  show ?thesis by blast
qed

theorem add_member_effect_witness:
  "\<exists>m db'. demo_add = (Inr m, db') \<and> valid_id ''omem_'' (OMem_ID m) \<and>
    (\<exists>target. active_user ''usr_eve'' demo_db = Some target)"
proof -
  obtain m db' where run: "demo_add = (Inr m, db')" using demo_add_runs by (rule ranE)
  moreover have "TrimSpace ''usr_eve'' = ''usr_eve''" by code_simp
  ultimately show ?thesis using add_member_effect [OF run] by auto
qed

theorem change_role_effect_witness:
  "\<exists>m db'. demo_change = (Inr m, db') \<and>
    (\<exists>(org :: org_row) old. current_membership (o_id org) ''usr_bob'' demo_db = Some old \<and> om_role old \<noteq> ''owner'')"
proof -
  obtain m db' where run: "demo_change = (Inr m, db')" using demo_change_runs by (rule ranE)
  from change_role_effect [OF run] obtain org :: org_row and old where
    "current_membership (o_id org) ''usr_bob'' demo_db = Some old" "om_role old \<noteq> ''owner''"
    by blast
  with run show ?thesis by blast
qed

theorem owner_protected_witness:
  "filter om_owner (organisation_memberships (snd demo_leave)) = filter om_owner (organisation_memberships demo_db)"
  using owner_protected [OF db_okD(6) [OF demo_db_ok], of "demo_env 1" "''usr_ann''" "''org_a''" "''usr_bob''"
      "''admin''" "''leave''" demo_time] by blast

theorem archive_effect_witness:
  "\<exists>db'. demo_archive = (Inr (), db') \<and>
    (\<exists>org. organisation_row ''org_a'' db' = Some org \<and>
       (\<forall>m \<in> set (organisation_memberships db'). om_organisation_id m = o_id org \<longrightarrow> \<not> om_active m))"
proof -
  obtain v db' where run: "demo_archive = (Inr v, db')" using demo_archive_runs by (rule ranE)
  from archive_effect [OF run] obtain org where
    "organisation_row ''org_a'' db' = Some (org\<lparr>o_status := ''archived'', o_archived_at := Some demo_time\<rparr>)"
    "\<forall>m \<in> set (organisation_memberships db'). om_organisation_id m = o_id org \<longrightarrow> \<not> om_active m"
    by blast
  with run show ?thesis by auto
qed


theorem create_organisation_effect_witness:
  "\<exists>y m db'. demo_create = (Inr (y, m), db') \<and> organisation_row (Org_ID y) demo_db = None \<and>
    length (platform_outbox db') = 2"
proof -
  obtain p db' where "demo_create = (Inr p, db')" using demo_create_runs by (rule ranE)
  then obtain y m where run: "demo_create = (Inr (y, m), db')" by (metis surj_pair)
  have "platform_outbox demo_db = []" by (simp add: demo_db_def initial_db_def)
  with create_organisation_effect [OF run] run show ?thesis by auto
qed

theorem list_organisations_agree_witness:
  "\<forall>y. y \<in> fst ` set (ListUserOrganisations ''usr_bob'' demo_db) \<longleftrightarrow>
    GetOrganisation (TrimSpace ''usr_bob'') (Org_ID y) demo_db = Inr y"
  using list_organisations_agree [OF db_okD(5) [OF demo_db_ok] db_okD(1) [OF demo_db_ok]] by blast

section \<open>Workspaces\<close>

lemma demo_scope: "\<not> isl (ProveWorkspaceScope ''usr_bob'' ''wsp_w'' False demo_db)"
  by code_simp

theorem workspace_scope_decides_witness:
  "scope_allowed False ''usr_bob'' ''wsp_w'' demo_db \<and>
    (\<exists>s. ProveWorkspaceScope ''usr_bob'' ''wsp_w'' False demo_db = Inr s \<and> Scope_UserID s = ''usr_bob'')"
  using workspace_scope_decides [OF demo_db_ok, of False "''usr_bob''" "''wsp_w''"] demo_scope
  by (auto split: if_splits)

theorem workspace_authority_witness:
  "\<not> isl (fst demo_join_workspace) \<and> scope_allowed True ''usr_ann'' ''wsp_w'' demo_db \<and>
    organisation_member_of ''usr_ann'' ''wsp_w'' demo_db"
proof -
  obtain m db' where "demo_join_workspace = (Inr m, db')" using demo_join_workspace_runs by (rule ranE)
  with workspace_authority [OF demo_db_ok, of "demo_env 1" "''usr_ann''" "''wsp_w''" "''usr_ann''" "''viewer''"
      "''look''" demo_time m db'] demo_join_workspace_runs
  show ?thesis by blast
qed

theorem archived_workspace_closed_witness:
  "\<exists>db'. demo_close_workspace = (Inr (), db') \<and>
    ProveWorkspaceScope ''usr_sys'' ''wsp_w'' False db' = Inl (Store ErrAccessScopeDenied)"
proof -
  obtain v db' where run: "demo_close_workspace = (Inr v, db')" using demo_close_workspace_runs by (rule ranE)
  with archived_workspace_closed [OF demo_db_ok run] show ?thesis by auto
qed

section \<open>Products\<close>

lemma demo_access: "\<not> isl (ProveProductAccess (demo_env 1) ''usr_bob'' ''org_a'' ''product.tockrims'' ''wsp_w'' demo_db)"
  by code_simp

theorem product_access_decides_witness:
  "\<exists>x. ProveProductAccess (demo_env 1) ''usr_bob'' ''org_a'' ''product.tockrims'' ''wsp_w'' demo_db = Inr x \<and>
    PA_UserID x = ''usr_bob'' \<and> PA_WorkspaceID x = ''wsp_w''"
  using product_access_decides [OF demo_env_begin [of 1], of "''product.tockrims''" "''usr_bob''" "''org_a''"
      "''wsp_w''" demo_db] demo_access
  by (auto split: if_splits)

lemma demo_trimmed:
  "TrimSpace ''usr_bob'' = ''usr_bob''" "TrimSpace ''org_a'' = ''org_a''" "TrimSpace ''wsp_w'' = ''wsp_w''"
  "TrimSpace ''product.tockrims'' = ''product.tockrims''"
  by code_simp+

theorem launchable_agrees_witness:
  "\<exists>ps. ListLaunchableProducts ''usr_bob'' ''org_a'' ''wsp_w'' demo_db = Inr ps \<and>
    ''product.tockrims'' \<in> Prod_Key ` set ps"
proof -
  from launchable_agrees [OF demo_db_ok demo_env_begin [of 1] demo_trimmed(1) _ demo_trimmed(2) _ demo_trimmed(3)]
  obtain ps where "ListLaunchableProducts ''usr_bob'' ''org_a'' ''wsp_w'' demo_db = Inr ps"
    "\<forall>key. validProductKey key \<and> TrimSpace key = key \<longrightarrow>
       (key \<in> Prod_Key ` set ps \<longleftrightarrow>
        (\<exists>x. ProveProductAccess (demo_env 1) ''usr_bob'' ''org_a'' key ''wsp_w'' demo_db = Inr x))"
    by auto
  moreover have "validProductKey ''product.tockrims''" by code_simp
  moreover have "\<exists>x. ProveProductAccess (demo_env 1) ''usr_bob'' ''org_a'' ''product.tockrims'' ''wsp_w'' demo_db = Inr x"
    using demo_access by (metis sum.collapse(2))
  ultimately show ?thesis using demo_trimmed(4) by blast
qed

theorem access_withdrawn_witness:
  "\<exists>db'. demo_retire = (Inr (), db') \<and>
    ProveProductAccess (demo_env 2) ''usr_bob'' ''org_a'' ''product.tockrims'' ''wsp_w'' db' =
      Inl (Store ErrProductAccessDenied)"
proof -
  obtain v db' where run: "demo_retire = (Inr v, db')" using demo_retire_runs by (rule ranE)
  with access_withdrawn [OF demo_db_ok demo_env_begin [of 2], of "demo_env 1" "''usr_sys''" "''product.tockrims''"
      "''end''" demo_time v db' "''usr_bob''" "''org_a''" "''wsp_w''"] show ?thesis by auto
qed

end
