(* ===== verification/Identity.thy ===== *)
theory Identity
  imports Outbox Domain
begin

text \<open>
  Users, passwords, tokens and sessions: \<^verbatim>\<open>internal/auth/password.go\<close>, \<^verbatim>\<open>internal/auth/token.go\<close>,
  \<^verbatim>\<open>internal/db/sqlite/users.go\<close>, \<^verbatim>\<open>sessions.go\<close> and \<^verbatim>\<open>audit.go\<close>.

  The cryptographic functions the code calls are parameters (\<open>crypto\<close>): every theorem holds for
  any functions in their place unless it names a hypothesis about them. A statement the code runs
  outside a transaction is a transaction of its own.
\<close>

section \<open>Cryptography\<close>

record crypto =
  sha256 :: "string \<Rightarrow> string"
  hmac_sha1 :: "string \<Rightarrow> string \<Rightarrow> string" \<comment> \<open>key, message\<close>
  gcm_seal :: "string \<Rightarrow> string \<Rightarrow> string \<Rightarrow> string" \<comment> \<open>key, nonce, plain text\<close>
  gcm_open :: "string \<Rightarrow> string \<Rightarrow> string \<Rightarrow> string option" \<comment> \<open>key, nonce, sealed text\<close>
  bcrypt_generate :: "string \<Rightarrow> string option"
  bcrypt_compare :: "string \<Rightarrow> string \<Rightarrow> bool" \<comment> \<open>hash, password\<close>
  unicode_lower :: "string \<Rightarrow> string"
  unicode_upper :: "string \<Rightarrow> string"

section \<open>Passwords and tokens\<close>

text \<open>\<^verbatim>\<open>len([]rune(s))\<close>: a byte that starts no valid UTF-8 sequence is a rune of its own.\<close>

function rune_count :: "string \<Rightarrow> nat" where
  "rune_count s = (if s = [] then 0 else 1 + rune_count (drop (max 1 (utf8_size s)) s))"
  by pat_completeness auto
termination
  by (relation "measure length") auto

declare rune_count.simps [simp del]

definition ValidatePassword :: "string \<Rightarrow> unit result" where
  "ValidatePassword password =
     (if rune_count password < 12 \<or> TrimSpace password = []
      then Inl (ErrNew ''password does not meet Platform policy'') else Inr ())"

definition HashPassword :: "crypto \<Rightarrow> string \<Rightarrow> string result" where
  "HashPassword c password =
     attempt (ValidatePassword password) (\<lambda>_.
     need (ErrNew ''bcrypt'') (bcrypt_generate c password))"

definition CheckPassword :: "crypto \<Rightarrow> string \<Rightarrow> string \<Rightarrow> bool" where
  "CheckPassword c hash password = bcrypt_compare c hash password"

definition NewOpaqueToken :: "(nat \<Rightarrow> char) option \<Rightarrow> int \<Rightarrow> string result" where
  "NewOpaqueToken src bytes =
     (let n = (if bytes < 32 then 32 else bytes) in
      case src of
        None \<Rightarrow> Inl ErrRandom
      | Some f \<Rightarrow> Inr (RawURLEncoding (map f [0..<nat n])))"

definition HashToken :: "crypto \<Rightarrow> string \<Rightarrow> string" where
  "HashToken c token = RawURLEncoding (sha256 c token)"

definition VerifyTokenHash :: "crypto \<Rightarrow> string \<Rightarrow> string \<Rightarrow> bool" where
  "VerifyTokenHash c expectedHash token \<longleftrightarrow> expectedHash = HashToken c token"

section \<open>Users\<close>

definition user_insert :: "crypto \<Rightarrow> User \<Rightarrow> string \<Rightarrow> user_row" where
  "user_insert c user hash =
     \<lparr>u_id = 0, u_public_id = Usr_ID user, u_email = NormalizeEmail (unicode_lower c) (Usr_Email user),
      u_display_name = TrimSpace (Usr_DisplayName user), u_password_hash = hash,
      u_active = Usr_Active user, u_created_at = Usr_CreatedAt user, u_last_login_at = None,
      u_mfa_enabled = False, u_mfa_secret = None, u_mfa_last_step = -1\<rparr>"

definition CreateUser :: "crypto \<Rightarrow> env \<Rightarrow> User \<Rightarrow> string \<Rightarrow> db \<Rightarrow> User result \<times> db" where
  "CreateUser c e user0 password db =
     prepare db
      (attempt (User_Validate (unicode_lower c) user0) (\<lambda>_.
       case ValidatePassword password of
         Inl _ \<Rightarrow> Inl (Domain ErrInvalidPassword)
       | Inr _ \<Rightarrow> attempt (HashPassword c password) (\<lambda>hash.
           Inr (if IsZero (Usr_CreatedAt user0) then user0\<lparr>Usr_CreatedAt := time_now e\<rparr> else user0, hash))))
      (\<lambda>p. with_tx e db (\<lambda>db. let user = fst p; hash = snd p in
         exec (insert_user (user_insert c user hash) db) (\<lambda>db.
         exec (appendPlatformEventTx (rand_read e 0) EventUserCreated (Usr_ID user) (Usr_CreatedAt user)
           [(''user_id'', JStr (Usr_ID user)), (''active'', JBool (Usr_Active user))] db) (\<lambda>db.
         Inr (user\<lparr>Usr_Email := NormalizeEmail (unicode_lower c) (Usr_Email user), Usr_PasswordHash := []\<rparr>, db)))))"

definition user_value :: "user_row \<Rightarrow> User" where
  "user_value u =
     \<lparr>Usr_ID = u_public_id u, Usr_Email = u_email u, Usr_DisplayName = u_display_name u,
      Usr_PasswordHash = u_password_hash u, Usr_Active = u_active u, Usr_MFAEnabled = u_mfa_enabled u,
      Usr_CreatedAt = u_created_at u, Usr_LastLoginAt = u_last_login_at u\<rparr>"

definition findUser :: "(user_row \<Rightarrow> bool) \<Rightarrow> db \<Rightarrow> User option" where
  "findUser P db = map_option user_value (find P (users db))"

definition FindUserByEmail :: "crypto \<Rightarrow> string \<Rightarrow> db \<Rightarrow> User option" where
  "FindUserByEmail c email db =
     findUser (\<lambda>u. nocase (u_email u) = nocase (NormalizeEmail (unicode_lower c) email)) db"

definition FindUserByID :: "string \<Rightarrow> db \<Rightarrow> User option" where
  "FindUserByID publicID db = findUser (\<lambda>u. u_public_id u = TrimSpace publicID) db"

record LoginCredential =
  Cred_User :: User
  Cred_PasswordHash :: string

definition FindLoginCredential :: "crypto \<Rightarrow> string \<Rightarrow> db \<Rightarrow> LoginCredential option" where
  "FindLoginCredential c email db =
     map_option (\<lambda>u. \<lparr>Cred_User = (user_value u)\<lparr>Usr_PasswordHash := []\<rparr>, Cred_PasswordHash = u_password_hash u\<rparr>)
       (find (\<lambda>u. nocase (u_email u) = nocase (NormalizeEmail (unicode_lower c) email)) (users db))"

definition SetUserActive :: "env \<Rightarrow> string \<Rightarrow> bool \<Rightarrow> db \<Rightarrow> unit result \<times> db" where
  "SetUserActive e publicID0 active db =
     (let publicID = TrimSpace publicID0 in
      run_tx e db (\<lambda>db.
        attempt (need ErrNoRows (find (\<lambda>u. u_public_id u = publicID) (users db))) (\<lambda>u.
        if u_active u = active then Inr ((), None)
        else if count_where (\<lambda>u. u_public_id u = publicID) (users db) \<noteq> 1 then Inl ErrNoRows
        else exec (appendPlatformEventTx (rand_read e 0) EventUserStatusChanged publicID (time_now e)
               [(''user_id'', JStr publicID), (''active'', JBool active)] (update_user_active active publicID db)) (\<lambda>db.
        Inr ((), Some db)))))"

definition TouchLogin :: "env \<Rightarrow> string \<Rightarrow> gotime \<Rightarrow> db \<Rightarrow> unit result \<times> db" where
  "TouchLogin e publicID at db =
     with_tx e db (\<lambda>db. Inr ((), update_last_login (\<lambda>u. u_public_id u = TrimSpace publicID) at db))"

section \<open>Sessions\<close>

abbreviation maxSessionLifetime :: int where
  "maxSessionLifetime \<equiv> 30 * 24 * 3600 * 1000000000"

definition validateSessionExpiry :: "gotime \<Rightarrow> gotime \<Rightarrow> unit result" where
  "validateSessionExpiry createdAt expiresAt =
     (if \<not> createdAt < expiresAt \<or> createdAt + maxSessionLifetime < expiresAt
      then Inl (ErrNew ''session expiry is outside the bounded lifetime'') else Inr ())"

definition session_user :: "string \<Rightarrow> db \<Rightarrow> int result" where
  "session_user userID db =
     need ErrNoRows (map_option u_id (find (\<lambda>u. u_public_id u = userID \<and> u_active u) (users db)))"

definition new_session :: "crypto \<Rightarrow> int \<Rightarrow> string \<Rightarrow> string \<Rightarrow> gotime \<Rightarrow> gotime \<Rightarrow> session_row" where
  "new_session c uid token csrfToken createdAt expiresAt =
     \<lparr>s_id = 0, s_user_id = uid, s_token_hash = HashToken c token, s_csrf_token_hash = HashToken c csrfToken,
      s_created_at = createdAt, s_expires_at = expiresAt, s_revoked_at = None\<rparr>"

definition session_inputs :: "string \<Rightarrow> string \<Rightarrow> string \<Rightarrow> gotime \<Rightarrow> gotime \<Rightarrow> unit result" where
  "session_inputs userID token csrfToken createdAt expiresAt =
     (if TrimSpace userID = [] \<or> TrimSpace token = [] \<or> TrimSpace csrfToken = []
      then Inl (ErrNew ''session user and tokens are required'')
      else validateSessionExpiry createdAt expiresAt)"

definition CreateSession ::
    "crypto \<Rightarrow> env \<Rightarrow> string \<Rightarrow> string \<Rightarrow> string \<Rightarrow> gotime \<Rightarrow> db \<Rightarrow> unit result \<times> db" where
  "CreateSession c e userID token csrfToken expiresAt db =
     prepare db
      (attempt (session_inputs userID token csrfToken (time_now e) expiresAt) (\<lambda>_. session_user userID db))
      (\<lambda>uid. with_tx e db (\<lambda>db.
         exec (insert_session (new_session c uid token csrfToken (time_now e) expiresAt) db) (\<lambda>db. Inr ((), db))))"

definition security_event :: "int option \<Rightarrow> string \<Rightarrow> string \<Rightarrow> gotime \<Rightarrow> security_event_row" where
  "security_event uid event details at =
     \<lparr>se_id = 0, se_user_id = uid, se_event = event, se_details = details, se_occurred_at = at\<rparr>"

definition EstablishSession ::
    "crypto \<Rightarrow> env \<Rightarrow> string \<Rightarrow> string \<Rightarrow> string \<Rightarrow> gotime \<Rightarrow> gotime \<Rightarrow> db \<Rightarrow> unit result \<times> db" where
  "EstablishSession c e userID token csrfToken expiresAt loginAt db =
     prepare db
      (session_inputs userID token csrfToken loginAt expiresAt)
      (\<lambda>_. with_tx e db (\<lambda>db.
         attempt (session_user userID db) (\<lambda>uid.
         exec (insert_session (new_session c uid token csrfToken loginAt expiresAt) db) (\<lambda>db.
         exec (insert_security_event (security_event (Some uid) ''login'' ''password'' loginAt)
                 (update_last_login (\<lambda>u. u_id u = uid) loginAt db)) (\<lambda>db.
         Inr ((), db))))))"

record Session =
  Ses_UserID :: string
  Ses_CSRFToken :: string
  Ses_ExpiresAt :: gotime

record Authenticated_Session =
  Auth_Session :: Session
  Auth_User :: User

text \<open>\<^verbatim>\<open>FROM sessions s JOIN users u ON u.id=s.user_id WHERE ... AND u.active=1\<close>\<close>

definition live_session :: "string \<Rightarrow> gotime \<Rightarrow> db \<Rightarrow> (session_row \<times> user_row) option" where
  "live_session token_hash now db =
     (case find (\<lambda>s. s_token_hash s = token_hash \<and> s_revoked_at s = None \<and> time_text_less now (s_expires_at s) \<and>
                     list_ex (\<lambda>u. u_id u = s_user_id s \<and> u_active u) (users db)) (sessions db) of
        None \<Rightarrow> None
      | Some s \<Rightarrow> map_option (Pair s) (find (\<lambda>u. u_id u = s_user_id s \<and> u_active u) (users db)))"

definition AuthenticatedSession :: "crypto \<Rightarrow> string \<Rightarrow> gotime \<Rightarrow> db \<Rightarrow> Authenticated_Session result" where
  "AuthenticatedSession c token now db =
     attempt (need ErrNoRows (live_session (HashToken c token) now db)) (\<lambda>(s, u).
     Inr \<lparr>Auth_Session = \<lparr>Ses_UserID = u_public_id u, Ses_CSRFToken = [], Ses_ExpiresAt = s_expires_at s\<rparr>,
          Auth_User = (user_value u)\<lparr>Usr_PasswordHash := []\<rparr>\<rparr>)"

definition SessionCSRFHash :: "crypto \<Rightarrow> string \<Rightarrow> db \<Rightarrow> string result" where
  "SessionCSRFHash c token db =
     need ErrNoRows (map_option s_csrf_token_hash
       (find (\<lambda>s. s_token_hash s = HashToken c token \<and> s_revoked_at s = None) (sessions db)))"

definition VerifySessionCSRF :: "crypto \<Rightarrow> string \<Rightarrow> string \<Rightarrow> db \<Rightarrow> bool result" where
  "VerifySessionCSRF c token csrfToken db =
     attempt (SessionCSRFHash c token db) (\<lambda>hash. Inr (VerifyTokenHash c hash csrfToken))"

definition RevokeSession :: "crypto \<Rightarrow> env \<Rightarrow> string \<Rightarrow> gotime \<Rightarrow> db \<Rightarrow> unit result \<times> db" where
  "RevokeSession c e token at db =
     with_tx e db (\<lambda>db. Inr ((), revoke_sessions (\<lambda>s. s_token_hash s = HashToken c token) at db))"

definition user_number :: "string \<Rightarrow> db \<Rightarrow> int option" where
  "user_number pid db = map_option u_id (find (\<lambda>u. u_public_id u = pid) (users db))"

definition RevokeSessionAndRecordLogout ::
    "crypto \<Rightarrow> env \<Rightarrow> string \<Rightarrow> string \<Rightarrow> gotime \<Rightarrow> db \<Rightarrow> unit result \<times> db" where
  "RevokeSessionAndRecordLogout c e token userID at db =
     with_tx e db (\<lambda>db.
       let P = (\<lambda>s. s_token_hash s = HashToken c token \<and> user_number userID db = Some (s_user_id s)) in
       if count_where P (sessions db) \<noteq> 1 then Inl ErrNoRows
       else let db = revoke_sessions P at db in
         attempt (need ErrNoRows (user_number userID db)) (\<lambda>uid.
         exec (insert_security_event (security_event (Some uid) ''logout'' ''session revoked'' at) db) (\<lambda>db.
         Inr ((), db))))"

definition expired_sessions :: "gotime \<Rightarrow> nat \<Rightarrow> db \<Rightarrow> int list" where
  "expired_sessions now limit db =
     take limit (map s_id (sort_key (\<lambda>s. (formatTime (s_expires_at s), s_id s))
       (filter (\<lambda>s. time_text_le (s_expires_at s) now) (sessions db))))"

definition CleanupExpiredSessions :: "env \<Rightarrow> gotime \<Rightarrow> int \<Rightarrow> db \<Rightarrow> int result \<times> db" where
  "CleanupExpiredSessions e now limit db =
     prepare db
      (if limit \<le> 0 then Inl (ErrNew ''session cleanup limit must be positive'') else Inr ())
      (\<lambda>_. with_tx e db (\<lambda>db.
         let ids = expired_sessions now (nat limit) db in
         Inr (int (count_where (\<lambda>s. s_id s \<in> set ids) (sessions db)), delete_sessions ids db)))"

section \<open>Security events\<close>

definition RecordSecurityEvent ::
    "env \<Rightarrow> string option \<Rightarrow> string \<Rightarrow> string \<Rightarrow> gotime \<Rightarrow> db \<Rightarrow> unit result \<times> db" where
  "RecordSecurityEvent e publicUserID event details at db =
     prepare db
      (case publicUserID of
         None \<Rightarrow> Inr None
       | Some pid \<Rightarrow> if pid = [] then Inr None
                    else attempt (need ErrNoRows (user_number pid db)) (\<lambda>uid. Inr (Some uid)))
      (\<lambda>uid. with_tx e db (\<lambda>db.
         exec (insert_security_event (security_event uid event details at) db) (\<lambda>db. Inr ((), db))))"

definition SecurityEventCount :: "string \<Rightarrow> db \<Rightarrow> nat" where
  "SecurityEventCount event db = count_where (\<lambda>r. se_event r = event) (security_events db)"

definition UserCount :: "db \<Rightarrow> nat" where
  "UserCount db = length (users db)"

section \<open>Every mutation is a sequence of statements\<close>

lemma append_event_writes:
  "appendPlatformEventTx src t i at p db = Inr db' \<Longrightarrow> Outbox \<in> S \<Longrightarrow> writes S db db'"
  by (drule appendPlatformEventTx_appends) (auto simp: appends_event_def elim: writes_mono)

abbreviation user_tables :: "tbl set" where
  "user_tables \<equiv> {Users, Outbox}"

abbreviation session_tables :: "tbl set" where
  "session_tables \<equiv> {Users, Sessions, SecurityEvents}"

lemma insert_user_append_writes:
  "only_writes user_tables db (exec (insert_user r db) (\<lambda>db.
     exec (appendPlatformEventTx src t i at p db) (\<lambda>db. Inr (x, db))))"
  by (auto intro!: only_writes_rules only_writes_Inr intro: exec_writes append_event_writes)

interpretation create_user: store_op user_tables "\<lambda>(c, u, p) e. CreateUser c e u p"
  by unfold_locales
    (auto simp: CreateUser_def Let_def split_def dest: tx_method_atomic
      dest!: tx_method_traced [OF _ insert_user_append_writes])

interpretation set_user_active: store_op user_tables "\<lambda>(pid, active) e. SetUserActive e pid active"
proof unfold_locales
  fix i e db x db'
  assume "(case i of (pid, active) \<Rightarrow> \<lambda>e. SetUserActive e pid active) e db = (Inl x :: unit result, db')"
  then show "db' = db" by (auto simp: SetUserActive_def Let_def split: prod.splits dest: run_tx_Inl)
next
  fix i e db a db'
  assume "(case i of (pid, active) \<Rightarrow> \<lambda>e. SetUserActive e pid active) e db = (Inr a :: unit result, db')"
  then show "writes user_tables db db'"
    by (auto simp: SetUserActive_def Let_def tx_simps split: prod.splits if_splits
        intro: writes_trans [OF update_writes(1) append_event_writes])
qed

interpretation touch_login: store_op session_tables "\<lambda>(pid, at) e. TouchLogin e pid at"
  by unfold_locales (auto simp: TouchLogin_def tx_simps dest: with_tx_Inl intro: update_writes)

lemma insert_session_writes:
  "only_writes session_tables db (exec (insert_session r db) (\<lambda>db. Inr (x, db)))"
  by (auto intro!: only_writes_rules only_writes_Inr intro: exec_writes)

interpretation create_session: store_op session_tables
    "\<lambda>(c, u, t, k, x) e. CreateSession c e u t k x"
  by unfold_locales
    (auto simp: CreateSession_def dest: tx_method_atomic dest!: tx_method_traced [OF _ insert_session_writes])

lemma establish_writes:
  "only_writes session_tables db
     (attempt m (\<lambda>uid. exec (insert_session (r uid) db) (\<lambda>db.
        exec (insert_security_event (v uid) (update_last_login (P uid) at db)) (\<lambda>db. Inr (x, db)))))"
  by (auto intro!: only_writes_attempt only_writes_exec only_writes_Inr
      intro: exec_writes writes_trans [OF update_writes(2) exec_writes(3)])

interpretation establish_session: store_op session_tables
    "\<lambda>(c, u, t, k, x, l) e. EstablishSession c e u t k x l"
  by unfold_locales
    (auto simp: EstablishSession_def dest: tx_method_atomic dest!: tx_method_traced [OF _ establish_writes])

interpretation revoke_session: store_op session_tables "\<lambda>(c, t, at) e. RevokeSession c e t at"
  by unfold_locales (auto simp: RevokeSession_def tx_simps dest: with_tx_Inl intro: update_writes)

interpretation logout: store_op session_tables
    "\<lambda>(c, t, u, at) e. RevokeSessionAndRecordLogout c e t u at"
  by unfold_locales
    (auto simp: RevokeSessionAndRecordLogout_def Let_def tx_simps dest: with_tx_Inl
      intro: writes_trans [OF update_writes(5) exec_writes(3)])

interpretation cleanup_sessions: store_op session_tables "\<lambda>(now, limit) e. CleanupExpiredSessions e now limit"
  by unfold_locales
    (auto simp: CleanupExpiredSessions_def Let_def tx_simps dest: tx_method_atomic intro: update_writes)

interpretation record_security_event: store_op session_tables
    "\<lambda>(u, ev, det, at) e. RecordSecurityEvent e u ev det at"
  by unfold_locales
    (auto simp: RecordSecurityEvent_def tx_simps dest: tx_method_atomic intro: exec_writes)

section \<open>Sessions\<close>

text \<open>The session of a token that is live at an instant, with its user.\<close>

definition live :: "string \<Rightarrow> gotime \<Rightarrow> session_row \<Rightarrow> user_row \<Rightarrow> db \<Rightarrow> bool" where
  "live token_hash now s u db \<longleftrightarrow>
     s \<in> set (sessions db) \<and> u \<in> set (users db) \<and> s_token_hash s = token_hash \<and> s_revoked_at s = None \<and>
     time_text_less now (s_expires_at s) \<and> u_id u = s_user_id s \<and> u_active u"

definition authenticated :: "session_row \<Rightarrow> user_row \<Rightarrow> Authenticated_Session" where
  "authenticated s u =
     \<lparr>Auth_Session = \<lparr>Ses_UserID = u_public_id u, Ses_CSRFToken = [], Ses_ExpiresAt = s_expires_at s\<rparr>,
      Auth_User = (user_value u)\<lparr>Usr_PasswordHash := []\<rparr>\<rparr>"

lemma live_session_Some: "live_session h now db = Some (s, u) \<Longrightarrow> live h now s u db"
  by (auto simp: live_session_def live_def split: option.splits dest!: find_SomeD)

lemma live_session_iff:
  assumes "db_ok db"
  shows "live_session h now db = Some (s, u) \<longleftrightarrow> live h now s u db"
proof
  assume l: "live h now s u db"
  have "find (\<lambda>s. s_token_hash s = h \<and> s_revoked_at s = None \<and> time_text_less now (s_expires_at s) \<and>
      list_ex (\<lambda>u. u_id u = s_user_id s \<and> u_active u) (users db)) (sessions db) = Some s"
    using l db_okD(2) [OF assms]
    by (intro find_unique) (auto simp: live_def list_ex_iff sessions_ok_def dest: unique_keyD)
  moreover have "find (\<lambda>u. u_id u = s_user_id s \<and> u_active u) (users db) = Some u"
    using l user_t.unique_id [of "users db"] db_okD(1) [OF assms]
    by (intro find_unique) (auto simp: live_def users_ok_def dest: unique_keyD)
  ultimately show "live_session h now db = Some (s, u)" by (simp add: live_session_def)
qed (rule live_session_Some)

lemma AuthenticatedSession_Inr:
  "AuthenticatedSession c token now db = Inr a \<longleftrightarrow>
     (\<exists>s u. live_session (HashToken c token) now db = Some (s, u) \<and> a = authenticated s u)"
  by (auto simp: AuthenticatedSession_def tx_simps authenticated_def)

lemma AuthenticatedSession_Inl:
  "AuthenticatedSession c token now db = Inl x \<longleftrightarrow> x = ErrNoRows \<and> live_session (HashToken c token) now db = None"
  by (cases "live_session (HashToken c token) now db") (auto simp: AuthenticatedSession_def)

text \<open>
  C14: A session token authenticates exactly while its session is live. On a well-formed
  database the lookup succeeds if and only if there is an unrevoked session with the hash of the
  token, not yet expired in the order the database compares times in, whose user is active; the
  answer is that user, without the password hash, and every failure is the same error.
\<close>

theorem session_decides:
  assumes "db_ok db"
  shows "(AuthenticatedSession c token now db = Inr a \<longleftrightarrow>
      (\<exists>s u. live (HashToken c token) now s u db \<and> a = authenticated s u)) \<and>
    (\<nexists>s u. live (HashToken c token) now s u db) = (AuthenticatedSession c token now db = Inl ErrNoRows) \<and>
    (AuthenticatedSession c token now db = Inr a \<longrightarrow> Usr_PasswordHash (Auth_User a) = [] \<and> Usr_Active (Auth_User a))"
proof -
  have "(\<nexists>s u. live (HashToken c token) now s u db) = (AuthenticatedSession c token now db = Inl ErrNoRows)"
    unfolding AuthenticatedSession_Inl live_session_iff [OF assms, symmetric]
    by (cases "live_session (HashToken c token) now db") auto
  moreover have "u_active u" if "live h now s u db" for h s u using that by (simp add: live_def)
  ultimately show ?thesis
    unfolding AuthenticatedSession_Inr live_session_iff [OF assms] by (auto simp: authenticated_def user_value_def)
qed

text \<open>
  A session outlives its expiry by less than a second. Times are compared as
  texts, so a token may still be accepted inside the second of its expiry, but never in a later
  second; and it is always accepted before the second of the expiry begins.
\<close>

theorem session_expiry_bound:
  assumes "db_ok db" and "plain_time now" and "s \<in> set (sessions db)" and "plain_time (s_expires_at s)"
    and "s_token_hash s = HashToken c token"
  shows "(AuthenticatedSession c token now db = Inr a \<longrightarrow> Unix now \<le> Unix (s_expires_at s)) \<and>
    (Unix now < Unix (s_expires_at s) \<and> s_revoked_at s = None \<and>
       (\<exists>u \<in> set (users db). u_id u = s_user_id s \<and> u_active u) \<longrightarrow>
     (\<exists>a. AuthenticatedSession c token now db = Inr a))"
proof (intro conjI impI)
  assume "AuthenticatedSession c token now db = Inr a"
  then obtain q u where "live (HashToken c token) now q u db"
    unfolding AuthenticatedSession_Inr live_session_iff [OF assms(1)] by blast
  moreover have "unique_key every s_token_hash (sessions db)"
    using db_okD(2) [OF assms(1)] by (simp add: sessions_ok_def)
  from unique_keyD [OF this _ assms(3), of q] calculation have "q = s"
    using assms(5) by (simp add: live_def)
  ultimately show "Unix now \<le> Unix (s_expires_at s)"
    using time_text_less_imp_seconds [OF assms(2,4)] by (simp add: live_def)
next
  assume r: "Unix now < Unix (s_expires_at s) \<and> s_revoked_at s = None \<and>
       (\<exists>u \<in> set (users db). u_id u = s_user_id s \<and> u_active u)"
  then obtain u where "live (HashToken c token) now s u db"
    using assms(3,5) time_text_less_seconds [OF assms(2,4)] by (auto simp: live_def)
  then show "\<exists>a. AuthenticatedSession c token now db = Inr a"
    unfolding AuthenticatedSession_Inr live_session_iff [OF assms(1)] by blast
qed

lemma revoked_not_live:
  assumes "\<And>s. s \<in> set (sessions db) \<Longrightarrow> s_token_hash s = HashToken c token \<Longrightarrow> s_revoked_at s \<noteq> None"
  shows "AuthenticatedSession c token now db = Inl ErrNoRows" "SessionCSRFHash c token db = Inl ErrNoRows"
proof -
  have "live_session (HashToken c token) now db = None"
  proof (rule ccontr)
    assume "live_session (HashToken c token) now db \<noteq> None"
    then obtain s u where "live_session (HashToken c token) now db = Some (s, u)" by auto
    from live_session_Some [OF this] assms [of s] show False by (simp add: live_def)
  qed
  then show "AuthenticatedSession c token now db = Inl ErrNoRows" by (simp add: AuthenticatedSession_Inl)
  have "find (\<lambda>s. s_token_hash s = HashToken c token \<and> s_revoked_at s = None) (sessions db) = None"
    using assms by (auto simp: find_None_iff)
  then show "SessionCSRFHash c token db = Inl ErrNoRows" by (simp add: SessionCSRFHash_def)
qed

text \<open>
  A revoked token is dead. After a session is revoked, or after a logout, the token
  authenticates nobody at any time and its CSRF check fails; sessions of other tokens are
  untouched.
\<close>

lemma session_revoked:
  assumes "db_ok db" and "RevokeSession c e token at db = (Inr v, db') \<or>
      RevokeSessionAndRecordLogout c e token userID at db = (Inr v, db')"
  shows "AuthenticatedSession c token now db' = Inl ErrNoRows \<and> VerifySessionCSRF c token k db' = Inl ErrNoRows \<and>
    filter (\<lambda>s. s_token_hash s \<noteq> HashToken c token) (sessions db') =
      filter (\<lambda>s. s_token_hash s \<noteq> HashToken c token) (sessions db)"
proof -
  let ?h = "HashToken c token"
  from assms(2) obtain P where rows: "sessions db' = sessions (revoke_sessions P at db)"
    and sub: "\<And>s. P s \<Longrightarrow> s_token_hash s = ?h"
    and hit: "\<And>s. s \<in> set (sessions db) \<Longrightarrow> s_token_hash s = ?h \<Longrightarrow> P s"
  proof
    assume "RevokeSession c e token at db = (Inr v, db')"
    then show ?thesis by (intro that [of "\<lambda>s. s_token_hash s = ?h"]) (auto simp: RevokeSession_def tx_simps)
  next
    let ?P = "\<lambda>s. s_token_hash s = ?h \<and> user_number userID db = Some (s_user_id s)"
    assume "RevokeSessionAndRecordLogout c e token userID at db = (Inr v, db')"
    then have one: "count_where ?P (sessions db) = 1"
      and rows: "sessions db' = sessions (revoke_sessions ?P at db)"
      by (auto simp: RevokeSessionAndRecordLogout_def Let_def tx_simps insert_security_event_def split: if_splits)
    obtain s where "s \<in> set (sessions db)" "?P s"
      using count_where_ex [OF one] by blast
    then have "?P q" if "q \<in> set (sessions db)" "s_token_hash q = ?h" for q
      using that db_okD(2) [OF assms(1)] by (auto simp: sessions_ok_def dest: unique_keyD)
    with rows show ?thesis by (intro that [of ?P]) auto
  qed
  have gone: "\<And>s. s \<in> set (sessions db') \<Longrightarrow> s_token_hash s = ?h \<Longrightarrow> s_revoked_at s \<noteq> None"
    using hit unfolding rows revoke_sessions_def by (auto simp: set_update_where split: option.splits)
  have "filter (\<lambda>s. s_token_hash s \<noteq> ?h) (update_where P f xs) = filter (\<lambda>s. s_token_hash s \<noteq> ?h) xs"
    if "\<And>r. s_token_hash (f r) = s_token_hash r" for f and xs :: "session_row list"
    unfolding update_where_def by (induction xs) (auto simp: that dest: sub)
  then have "filter (\<lambda>s. s_token_hash s \<noteq> ?h) (sessions db') = filter (\<lambda>s. s_token_hash s \<noteq> ?h) (sessions db)"
    unfolding rows revoke_sessions_def by simp
  with revoked_not_live [OF gone] show ?thesis by (simp add: VerifySessionCSRF_def)
qed

lemma insert_session_Inr:
  "insert_session r db = Inr db' \<Longrightarrow>
     db' = db\<lparr>sessions := sessions db @ [r\<lparr>s_id := next_id s_id (sessions db)\<rparr>]\<rparr> \<and>
     (\<forall>q \<in> set (sessions db). s_token_hash q \<noteq> s_token_hash r)"
  by (auto simp: insert_session_def insert_row_def taken_def list_ex_iff split: if_splits)

lemma insert_security_event_Inr:
  "insert_security_event r db = Inr db' \<Longrightarrow> users db' = users db \<and> sessions db' = sessions db \<and>
     length (security_events db') = Suc (length (security_events db))"
  by (auto simp: insert_security_event_def insert_row_def split: if_splits)

lemma established_session:
  assumes "db_ok db" and "EstablishSession c e userID token csrfToken expiresAt loginAt db = (Inr v, db')"
  obtains row where "sessions db' = sessions db @ [row]" and "\<forall>q \<in> set (sessions db). s_token_hash q \<noteq> HashToken c token"
    and "s_token_hash row = HashToken c token" and "s_revoked_at row = None" and "s_expires_at row = expiresAt"
    and "s_csrf_token_hash row = HashToken c csrfToken"
    and "\<And>now. time_text_less now expiresAt \<Longrightarrow> \<exists>a. AuthenticatedSession c token now db' = Inr a \<and>
           Usr_ID (Auth_User a) = userID \<and> Ses_ExpiresAt (Auth_Session a) = expiresAt"
    and "validateSessionExpiry loginAt expiresAt = Inr ()"
    and "length (security_events db') = Suc (length (security_events db))"
proof -
  from assms(2) obtain uid db1 where ex: "validateSessionExpiry loginAt expiresAt = Inr ()"
    and su: "session_user userID db = Inr uid"
    and ins: "insert_session (new_session c uid token csrfToken loginAt expiresAt) db = Inr db1"
    and sec: "insert_security_event (security_event (Some uid) ''login'' ''password'' loginAt)
        (update_last_login (\<lambda>u. u_id u = uid) loginAt db1) = Inr db'"
    by (auto simp: EstablishSession_def session_inputs_def tx_simps split: if_splits)
  define row where "row = (new_session c uid token csrfToken loginAt expiresAt)\<lparr>s_id := next_id s_id (sessions db)\<rparr>"
  note ins' = insert_session_Inr [OF ins]
  have ses: "sessions db' = sessions db @ [row]" and us: "users db' = users (update_last_login (\<lambda>u. u_id u = uid) loginAt db)"
    and log: "length (security_events db') = Suc (length (security_events db))"
    using ins' insert_security_event_Inr [OF sec] by (auto simp: row_def update_last_login_def)
  have fresh: "\<forall>q \<in> set (sessions db). s_token_hash q \<noteq> HashToken c token" using ins' by (simp add: new_session_def)
  have row: "s_token_hash row = HashToken c token" "s_revoked_at row = None" "s_expires_at row = expiresAt"
      "s_user_id row = uid" "s_csrf_token_hash row = HashToken c csrfToken"
    by (simp_all add: row_def new_session_def)
  have ok': "db_ok db'"
    using writes_db_ok [OF establish_session.traced assms(1), of "(c, userID, token, csrfToken, expiresAt, loginAt)" e]
      assms(2) by auto
  from su obtain u where u: "u \<in> set (users db)" "u_public_id u = userID" "u_active u" "u_id u = uid"
    by (auto simp: session_user_def tx_simps dest: find_SomeD)
  let ?u = "u\<lparr>u_last_login_at := Some loginAt\<rparr>"
  have "?u \<in> set (users db')" unfolding us update_last_login_def using u by (auto simp: set_update_where)
  then have "live (HashToken c token) now row ?u db'" if "time_text_less now expiresAt" for now
    using that u row by (simp add: live_def ses)
  then have "\<exists>a. AuthenticatedSession c token now db' = Inr a \<and> Usr_ID (Auth_User a) = userID \<and>
      Ses_ExpiresAt (Auth_Session a) = expiresAt" if "time_text_less now expiresAt" for now
    unfolding AuthenticatedSession_Inr live_session_iff [OF ok'] using that u(2) row(3)
    by (fastforce simp: authenticated_def user_value_def)
  from that [OF ses fresh row(1-3,5) this ex log] show ?thesis .
qed


section \<open>Users\<close>

lemma set_user_active_users:
  assumes "SetUserActive e pid active db = (Inr v, db')"
  shows "\<exists>u \<in> set (users db'). u_public_id u = TrimSpace pid"
    and "db_ok db \<Longrightarrow> u \<in> set (users db') \<Longrightarrow> u_public_id u = TrimSpace pid \<Longrightarrow> u_active u = active"
    and "sessions db' = sessions db"
proof -
  from assms obtain u where f: "find (\<lambda>u. u_public_id u = TrimSpace pid) (users db) = Some u"
    and r: "u_active u = active \<and> db' = db \<or>
      (\<exists>src at p. appendPlatformEventTx src EventUserStatusChanged (TrimSpace pid) at p
         (update_user_active active (TrimSpace pid) db) = Inr db')"
    by (auto simp: SetUserActive_def Let_def tx_simps split: if_splits)
  from r have r': "u_active u = active \<and> db' = db \<or>
      users db' = users (update_user_active active (TrimSpace pid) db) \<and>
      sessions db' = sessions (update_user_active active (TrimSpace pid) db)"
    using append_event_writes [THEN writes_frame(1), of _ _ _ _ _ _ _ "{Outbox}"]
      append_event_writes [THEN writes_frame(2), of _ _ _ _ _ _ _ "{Outbox}"] by auto
  note find_SomeD [OF f]
  with r' show "\<exists>u \<in> set (users db'). u_public_id u = TrimSpace pid"
    by (auto simp: update_user_active_def bex_update_where)
  show "sessions db' = sessions db" using r' by (auto simp: update_user_active_def)
  show "u_active w = active" if "db_ok db" "w \<in> set (users db')" "u_public_id w = TrimSpace pid" for w
  proof (cases "users db' = users (update_user_active active (TrimSpace pid) db)")
    case True
    have "\<forall>w \<in> set (users db'). u_public_id w = TrimSpace pid \<longrightarrow> u_active w = active"
      unfolding True update_user_active_def by (simp add: ball_update_where)
    with that show ?thesis by blast
  next
    case False
    with r' have "u_active u = active" "db' = db" by auto
    moreover have "unique_key every u_public_id (users db)" using db_okD(1) [OF that(1)] by (simp add: users_ok_def)
    from unique_keyD [OF this, of w u] find_SomeD [OF f] that calculation have "w = u" by simp
    ultimately show ?thesis by simp
  qed
qed

text \<open>
  C15: Deactivating a user locks them out at once: none of their sessions
  authenticates any more, whatever the token and the time, and no new session can be opened for
  them; their sessions are kept, so activating them again restores exactly those.
\<close>

theorem deactivated_locked_out:
  assumes "db_ok db" and "SetUserActive e pid False db = (Inr v, db')"
  shows "(AuthenticatedSession c token now db' = Inr a \<longrightarrow> Usr_ID (Auth_User a) \<noteq> TrimSpace pid) \<and>
    isl (fst (EstablishSession c f (TrimSpace pid) t k expiresAt loginAt db')) \<and>
    isl (fst (CreateSession c f (TrimSpace pid) t k expiresAt db')) \<and> sessions db' = sessions db"
proof -
  note off = set_user_active_users(2) [OF assms(2,1)]
  have none: "session_user (TrimSpace pid) db' = Inl ErrNoRows"
  proof -
    have "find (\<lambda>u. u_public_id u = TrimSpace pid \<and> u_active u) (users db') = None"
      using off by (auto simp: find_None_iff)
    then show ?thesis by (simp add: session_user_def)
  qed
  have "Usr_ID (Auth_User a) \<noteq> TrimSpace pid" if auth: "AuthenticatedSession c token now db' = Inr a"
  proof -
    from auth obtain s u where "live_session (HashToken c token) now db' = Some (s, u)" "a = authenticated s u"
      unfolding AuthenticatedSession_Inr by blast
    with live_session_Some [of _ now db' s u] off [of u] show ?thesis
      by (auto simp: live_def authenticated_def user_value_def)
  qed
  with none set_user_active_users(3) [OF assms(2)] show ?thesis
    by (auto simp: EstablishSession_def CreateSession_def prepare_def with_tx_def attempt_Inr split: sum.splits)
qed

lemma CreateUser_Inr:
  assumes "CreateUser c e user password db = (Inr u, db')"
  obtains hash db1 where "bcrypt_generate c password = Some hash"
    "insert_user (user_insert c (if IsZero (Usr_CreatedAt user)
       then user\<lparr>Usr_CreatedAt := time_now e\<rparr> else user) hash) db = Inr db1"
    "appendPlatformEventTx (rand_read e 0) EventUserCreated
       (Usr_ID (if IsZero (Usr_CreatedAt user) then user\<lparr>Usr_CreatedAt := time_now e\<rparr> else user))
       (Usr_CreatedAt (if IsZero (Usr_CreatedAt user) then user\<lparr>Usr_CreatedAt := time_now e\<rparr> else user))
       [(''user_id'', JStr (Usr_ID (if IsZero (Usr_CreatedAt user) then user\<lparr>Usr_CreatedAt := time_now e\<rparr> else user))),
        (''active'', JBool (Usr_Active (if IsZero (Usr_CreatedAt user)
           then user\<lparr>Usr_CreatedAt := time_now e\<rparr> else user)))] db1 = Inr db'"
    "Usr_PasswordHash u = []"
  using assms
  by (auto simp: CreateUser_def Let_def HashPassword_def tx_simps split: sum.splits if_splits)

lemma user_insert_email:
  "u_email (user_insert c (if b then user\<lparr>Usr_CreatedAt := t\<rparr> else user) h) =
     NormalizeEmail (unicode_lower c) (Usr_Email user)"
  by (simp add: user_insert_def)

text \<open>
  C16: A new user can log in with what they signed up with, and nobody can take
  their address. After a user is created, looking the credential up by any spelling of the address
  with the same normal form finds that user, and the password check accepts the password; creating
  another user with an address that differs from it only in the case of letters fails.
\<close>

theorem credential_roundtrip:
  assumes "db_ok db" and "CreateUser c e user password db = (Inr u, db')"
    and "\<And>p h. bcrypt_generate c p = Some h \<Longrightarrow> bcrypt_compare c h p"
    and "nocase (NormalizeEmail (unicode_lower c) email) = nocase (NormalizeEmail (unicode_lower c) (Usr_Email user))"
  shows "\<exists>cred. FindLoginCredential c email db' = Some cred \<and> Usr_ID (Cred_User cred) = Usr_ID user \<and>
      Usr_Active (Cred_User cred) = Usr_Active user \<and> CheckPassword c (Cred_PasswordHash cred) password \<and>
      Usr_PasswordHash u = [] \<and>
      (Usr_Email other = email \<longrightarrow> isl (fst (CreateUser c f other pw db')))"
proof -
  let ?user = "if IsZero (Usr_CreatedAt user) then user\<lparr>Usr_CreatedAt := time_now e\<rparr> else user"
  from assms(2) obtain hash db1 where h: "bcrypt_generate c password = Some hash"
    and ins: "insert_user (user_insert c ?user hash) db = Inr db1"
    and ev: "appendPlatformEventTx (rand_read e 0) EventUserCreated (Usr_ID ?user) (Usr_CreatedAt ?user)
        [(''user_id'', JStr (Usr_ID ?user)), (''active'', JBool (Usr_Active ?user))] db1 = Inr db'"
    and pw: "Usr_PasswordHash u = []"
    by (rule CreateUser_Inr)
  define row where "row = user_insert c ?user hash"
  have row: "u_public_id row = Usr_ID user" "u_email row = NormalizeEmail (unicode_lower c) (Usr_Email user)"
      "u_password_hash row = hash" "u_active row = Usr_Active user"
    by (simp_all add: row_def user_insert_def)
  define new where "new = row\<lparr>u_id := next_id u_id (users db)\<rparr>"
  have us: "users db' = users db @ [new]"
    using ins writes_frame(1) [OF append_event_writes [OF ev, of "{Outbox}"]]
    by (auto simp: insert_user_def insert_row_def new_def row_def split: if_splits)
  have ok': "db_ok db'"
    using writes_db_ok [OF create_user.traced assms(1), of "(c, user, password)" e u db'] assms(2) by simp
  then have "unique_key every (\<lambda>u. nocase (u_email u)) (users db')" using db_okD(1) by (auto simp: users_ok_def)
  then have f: "find (\<lambda>u. nocase (u_email u) = nocase (NormalizeEmail (unicode_lower c) email)) (users db') = Some new"
    using assms(4) row(2) by (simp add: find_key_iff us new_def)
  have taken: "isl (fst (CreateUser c f other pw db'))" if "Usr_Email other = email"
  proof (rule ccontr)
    assume "\<not> isl (fst (CreateUser c f other pw db'))"
    then obtain r where "CreateUser c f other pw db' = (Inr r, snd (CreateUser c f other pw db'))"
      by (metis prod.collapse sum.collapse(2))
    then obtain h2 d where ins2: "insert_user (user_insert c (if IsZero (Usr_CreatedAt other)
        then other\<lparr>Usr_CreatedAt := time_now f\<rparr> else other) h2) db' = Inr d"
      by (rule CreateUser_Inr)
    define q where "q = user_insert c (if IsZero (Usr_CreatedAt other)
        then other\<lparr>Usr_CreatedAt := time_now f\<rparr> else other) h2"
    have q: "insert_user q db' = Inr d" "u_email q = NormalizeEmail (unicode_lower c) email"
      using ins2 that by (simp_all only: q_def user_insert_email)
    have "taken every (\<lambda>u. nocase (u_email u)) q (users db')"
      using find_SomeD [OF f] q(2) unfolding taken_def list_ex_iff by (intro conjI bexI [of _ new]) simp_all
    with q(1) show False by (simp add: insert_user_def split: if_splits)
  qed
  show ?thesis
    unfolding FindLoginCredential_def f using row h assms(3) [OF h] pw taken
    by (simp add: new_def user_value_def CheckPassword_def)
qed

end
