(* ===== verification/Mfa.thy ===== *)
theory Mfa
  imports Identity "HOL-Library.Signed_Division"
begin

text \<open>
  Second factors: one-time codes, recovery codes and sealed secrets (\<^verbatim>\<open>internal/auth/mfa.go\<close>), and the
  store operations on them (\<^verbatim>\<open>internal/db/sqlite/mfa.go\<close>). Go's integer division truncates
  towards zero (\<open>sdiv\<close>).
\<close>

section \<open>Base 32\<close>

definition b32_alphabet :: string where
  "b32_alphabet = ''ABCDEFGHIJKLMNOPQRSTUVWXYZ234567''"

definition b32_char :: "nat \<Rightarrow> char" where
  "b32_char n = b32_alphabet ! (n mod 32)"

text \<open>\<^verbatim>\<open>base32.StdEncoding.WithPadding(base32.NoPadding)\<close>\<close>

fun b32_encode :: "string \<Rightarrow> string" where
  "b32_encode (a # b # c # d # e # xs) =
     (let n = (((byte a * 256 + byte b) * 256 + byte c) * 256 + byte d) * 256 + byte e
      in map b32_char [n div 32 ^ 7, n div 32 ^ 6, n div 32 ^ 5, n div 32 ^ 4, n div 32 ^ 3, n div 32 ^ 2, n div 32, n]
         @ b32_encode xs)"
| "b32_encode [a, b, c, d] =
     (let n = ((byte a * 256 + byte b) * 256 + byte c) * 256 + byte d
      in map b32_char [n div 2 ^ 27, n div 2 ^ 22, n div 2 ^ 17, n div 2 ^ 12, n div 2 ^ 7, n div 4, n * 8])"
| "b32_encode [a, b, c] =
     (let n = (byte a * 256 + byte b) * 256 + byte c
      in map b32_char [n div 2 ^ 19, n div 2 ^ 14, n div 2 ^ 9, n div 2 ^ 4, n * 2])"
| "b32_encode [a, b] =
     (let n = byte a * 256 + byte b in map b32_char [n div 2 ^ 11, n div 2 ^ 6, n div 2, n * 16])"
| "b32_encode [a] = (let n = byte a in map b32_char [n div 8, n * 4])"
| "b32_encode [] = []"

definition b32_value :: "char \<Rightarrow> nat option" where
  "b32_value c =
     (let n = byte c in
      if 65 \<le> n \<and> n \<le> 90 then Some (n - 65) else if 50 \<le> n \<and> n \<le> 55 then Some (n - 24) else None)"

text \<open>One quantum of eight characters, and the shorter last one; one, three or six characters give nothing more.\<close>

fun b32_decode_values :: "nat list \<Rightarrow> string" where
  "b32_decode_values (a # b # c # d # e # f # g # h # xs) =
     (let n = ((((((a * 32 + b) * 32 + c) * 32 + d) * 32 + e) * 32 + f) * 32 + g) * 32 + h
      in map (\<lambda>k. char_of (n div 256 ^ k)) [4, 3, 2, 1, 0] @ b32_decode_values xs)"
| "b32_decode_values [a, b, c, d, e, f, g] =
     (let n = (((((a * 32 + b) * 32 + c) * 32 + d) * 32 + e) * 32 + f) * 32 + g
      in map (\<lambda>k. char_of (n div 8 div 256 ^ k)) [3, 2, 1, 0])"
| "b32_decode_values [a, b, c, d, e] =
     (let n = (((a * 32 + b) * 32 + c) * 32 + d) * 32 + e in map (\<lambda>k. char_of (n div 2 div 256 ^ k)) [2, 1, 0])"
| "b32_decode_values [a, b, c, d] =
     (let n = ((a * 32 + b) * 32 + c) * 32 + d in map (\<lambda>k. char_of (n div 16 div 256 ^ k)) [1, 0])"
| "b32_decode_values [a, b] = [char_of ((a * 32 + b) div 4)]"
| "b32_decode_values xs = []"

definition b32_decode :: "string \<Rightarrow> string option" where
  "b32_decode s =
     (let vs = map b32_value (filter (\<lambda>c. byte c \<noteq> 10 \<and> byte c \<noteq> 13) s) in
      if None \<in> set vs then None else Some (b32_decode_values (map the vs)))"

section \<open>One-time codes\<close>

definition GenerateTOTPSecret :: "(nat \<Rightarrow> char) option \<Rightarrow> string result" where
  "GenerateTOTPSecret src =
     (case src of None \<Rightarrow> Inl ErrRandom | Some f \<Rightarrow> Inr (b32_encode (map f [0..<20])))"

definition be_bytes :: "nat \<Rightarrow> string" where \<comment> \<open>\<^verbatim>\<open>binary.BigEndian.PutUint64\<close>\<close>
  "be_bytes n = map (\<lambda>k. char_of (n div 256 ^ k)) [7, 6, 5, 4, 3, 2, 1, 0]"

definition truncate :: "string \<Rightarrow> nat" where
  "truncate digest =
     (let off = byte (last digest) mod 16 in
      (byte (digest ! off) mod 128) * 2 ^ 24 + byte (digest ! (off + 1)) * 2 ^ 16 +
      byte (digest ! (off + 2)) * 2 ^ 8 + byte (digest ! (off + 3)))"

definition TOTPCode :: "crypto \<Rightarrow> string \<Rightarrow> gotime \<Rightarrow> string result" where
  "TOTPCode c secret at =
     (case b32_decode (ToUpper (unicode_upper c) (TrimSpace secret)) of
        None \<Rightarrow> Inl (ErrNew ''invalid MFA secret'')
      | Some decoded \<Rightarrow>
          if decoded = [] then Inl (ErrNew ''invalid MFA secret'')
          else let counter = nat ((Unix at sdiv 30) mod 2 ^ 64) in
            Inr (digits 6 (truncate (hmac_sha1 c decoded (be_bytes counter)) mod 1000000)))"

text \<open>The loop over the three steps; the first that matches is returned.\<close>

definition MatchTOTP :: "crypto \<Rightarrow> string \<Rightarrow> string \<Rightarrow> gotime \<Rightarrow> int \<times> bool" where
  "MatchTOTP c secret code0 at =
     (let code = TrimSpace code0; baseStep = Unix at sdiv 30 in
      if length code \<noteq> 6 then (0, False)
      else case find (\<lambda>step. TOTPCode c secret (seconds (step * 30)) = Inr code)
                  [baseStep - 1, baseStep, baseStep + 1] of
        Some step \<Rightarrow> (step, True)
      | None \<Rightarrow> (0, False))"

definition VerifyTOTP :: "crypto \<Rightarrow> string \<Rightarrow> string \<Rightarrow> gotime \<Rightarrow> bool" where
  "VerifyTOTP c secret code at = snd (MatchTOTP c secret code at)"

section \<open>Recovery codes\<close>

definition hex_upper :: "nat \<Rightarrow> char" where
  "hex_upper n = ''0123456789ABCDEF'' ! (n mod 16)"

definition hex_of :: "string \<Rightarrow> string" where \<comment> \<open>\<^verbatim>\<open>strings.ToUpper(hex.EncodeToString(raw))\<close>\<close>
  "hex_of raw = concat (map (\<lambda>b. [hex_upper (byte b div 16), hex_upper (byte b)]) raw)"

definition recovery_code :: "string \<Rightarrow> string" where
  "recovery_code raw =
     (let h = hex_of raw in
      take 4 h @ ''-'' @ take 4 (drop 4 h) @ ''-'' @ take 4 (drop 8 h) @ ''-'' @ drop 12 h)"

fun recovery_codes :: "(nat \<Rightarrow> (nat \<Rightarrow> char) option) \<Rightarrow> nat \<Rightarrow> nat \<Rightarrow> string list result" where
  "recovery_codes rand i 0 = Inr []"
| "recovery_codes rand i (Suc n) =
     (case rand i of
        None \<Rightarrow> Inl ErrRandom
      | Some f \<Rightarrow> attempt (recovery_codes rand (Suc i) n) (\<lambda>cs. Inr (recovery_code (map f [0..<8]) # cs)))"

definition GenerateRecoveryCodes :: "(nat \<Rightarrow> (nat \<Rightarrow> char) option) \<Rightarrow> int \<Rightarrow> string list result" where
  "GenerateRecoveryCodes rand count =
     (if count < 1 \<or> 10 < count then Inl (ErrNew ''recovery code count must be between 1 and 10'')
      else recovery_codes rand 0 (nat count))"

definition NormalizeRecoveryCode :: "crypto \<Rightarrow> string \<Rightarrow> string" where
  "NormalizeRecoveryCode c code =
     ToUpper (unicode_upper c)
       (filter (\<lambda>x. x \<noteq> CHR ''-'' \<and> x \<noteq> CHR '' '' \<and> byte x \<noteq> 9) (TrimSpace code))"

section \<open>Sealed secrets\<close>

definition EncryptSecret :: "crypto \<Rightarrow> (nat \<Rightarrow> char) option \<Rightarrow> string \<Rightarrow> string \<Rightarrow> string result" where
  "EncryptSecret c src key plaintext =
     (if length key \<noteq> 32 then Inl (ErrNew ''MFA encryption key is unavailable'')
      else case src of
        None \<Rightarrow> Inl ErrRandom
      | Some f \<Rightarrow> (let nonce = map f [0..<12] in Inr (nonce @ gcm_seal c key nonce plaintext)))"

definition DecryptSecret :: "crypto \<Rightarrow> string \<Rightarrow> string \<Rightarrow> string result" where
  "DecryptSecret c key ciphertext =
     (if length key \<noteq> 32 then Inl (ErrNew ''MFA encryption key is unavailable'')
      else if length ciphertext < 12 then Inl (ErrNew ''invalid encrypted MFA secret'')
      else need (ErrNew ''invalid encrypted MFA secret'')
             (gcm_open c key (take 12 ciphertext) (drop 12 ciphertext)))"

section \<open>Verification at sign-in\<close>

definition active_row :: "string \<Rightarrow> db \<Rightarrow> user_row option" where
  "active_row pid db = find (\<lambda>u. u_public_id u = pid \<and> u_active u) (users db)"

definition verifyMFATx :: "crypto \<Rightarrow> string \<Rightarrow> env \<Rightarrow> string \<Rightarrow> string \<Rightarrow> db \<Rightarrow> (bool \<times> db option) result" where
  "verifyMFATx c secretKey e userID code db =
     (case active_row userID db of
        None \<Rightarrow> Inr (False, None)
      | Some u \<Rightarrow>
          if \<not> u_mfa_enabled u \<or> u_mfa_secret u = None \<or> u_mfa_secret u = Some [] then Inr (False, None)
          else attempt (DecryptSecret c secretKey (the (u_mfa_secret u))) (\<lambda>secret.
            let (step, valid) = MatchTOTP c secret code (time_now e);
                P = (\<lambda>u. u_public_id u = userID \<and> u_active u \<and> u_mfa_last_step u < step) in
            if \<not> valid \<or> step \<le> u_mfa_last_step u then Inr (False, Some db)
            else if count_where P (users db) \<noteq> 1 then Inr (False, Some (update_mfa_step P step db))
            else Inr (True, Some (update_mfa_step P step db))))"

definition VerifyMFA :: "crypto \<Rightarrow> string \<Rightarrow> env \<Rightarrow> string \<Rightarrow> string \<Rightarrow> db \<Rightarrow> bool result \<times> db" where
  "VerifyMFA c secretKey e userID code db = run_tx e db (verifyMFATx c secretKey e userID code)"

definition unused_codes :: "int \<Rightarrow> db \<Rightarrow> recovery_row list" where
  "unused_codes uid db =
     take 10 (sort_key rc_id (filter (\<lambda>r. rc_user_id r = uid \<and> rc_used_at r = None) (mfa_recovery_codes db)))"

definition match_code :: "crypto \<Rightarrow> string \<Rightarrow> recovery_row list \<Rightarrow> int" where
  "match_code c code rows =
     foldl (\<lambda>matched r. if matched = 0 \<and> CheckPassword c (rc_code_hash r) code then rc_id r else matched) 0 rows"

definition useRecoveryCodeTx :: "crypto \<Rightarrow> string \<Rightarrow> string \<Rightarrow> gotime \<Rightarrow> db \<Rightarrow> (bool \<times> db option) result" where
  "useRecoveryCodeTx c userID code at db =
     (case active_row userID db of
        None \<Rightarrow> Inr (False, None)
      | Some u \<Rightarrow>
          if \<not> u_mfa_enabled u then Inr (False, None)
          else let matched = match_code c code (unused_codes (u_id u) db) in
            if matched = 0 then Inr (False, Some db)
            else exec (insert_security_event (security_event (Some (u_id u)) ''mfa_recovery_used'' ''recovery code'' at)
                    (use_recovery matched at db)) (\<lambda>db. Inr (True, Some db)))"

definition UseRecoveryCode :: "crypto \<Rightarrow> env \<Rightarrow> string \<Rightarrow> string \<Rightarrow> gotime \<Rightarrow> db \<Rightarrow> bool result \<times> db" where
  "UseRecoveryCode c e userID code0 at db =
     (let code = NormalizeRecoveryCode c code0 in
      if code = [] then (Inr False, db)
      else run_tx e db (useRecoveryCodeTx c userID code at))"

section \<open>Enrollment\<close>

abbreviation maxMFAEnrollmentAttempts :: int where
  "maxMFAEnrollmentAttempts \<equiv> 5"

definition createMFAEnrollmentTx :: "crypto \<Rightarrow> string \<Rightarrow> string \<Rightarrow> string \<Rightarrow> gotime \<Rightarrow> gotime \<Rightarrow> db \<Rightarrow> (string \<times> db) result" where
  "createMFAEnrollmentTx c userID ciphertext token now expiresAt db =
     attempt (need ErrNoRows (active_row userID db)) (\<lambda>u.
     if u_mfa_enabled u then Inl (ErrNew ''MFA is already enabled'')
     else exec (insert_enrollment
       \<lparr>e_id = 0, e_user_id = u_id u, e_token_hash = HashToken c token, e_secret = ciphertext,
        e_expires_at = expiresAt, e_attempts = 0, e_created_at = now, e_used_at = None\<rparr>
       (close_enrollments (\<lambda>r. e_user_id r = u_id u \<and> e_used_at r = None) now db)) (\<lambda>db.
     Inr (token, db)))"

definition CreateMFAEnrollment ::
    "crypto \<Rightarrow> string \<Rightarrow> env \<Rightarrow> string \<Rightarrow> string \<Rightarrow> gotime \<Rightarrow> db \<Rightarrow> string result \<times> db" where
  "CreateMFAEnrollment c secretKey e userID secret expiresAt db =
     prepare db
      (attempt (TOTPCode c secret (time_now e)) (\<lambda>_.
       attempt (EncryptSecret c (rand_read e 0) secretKey secret) (\<lambda>ciphertext.
       attempt (NewOpaqueToken (rand_read e 1) 32) (\<lambda>token.
       if \<not> time_now e < expiresAt \<or> time_now e + 30 * 60 * 1000000000 < expiresAt
       then Inl (ErrNew ''MFA enrollment expiry is outside the bounded lifetime'')
       else Inr (ciphertext, token)))))
      (\<lambda>p. with_tx e db (createMFAEnrollmentTx c userID (fst p) (snd p) (time_now e) expiresAt))"

text \<open>\<^verbatim>\<open>WHERE e.token_hash=? AND e.used_at IS NULL AND u.public_id=? AND u.active=1 ORDER BY e.id DESC LIMIT 1\<close>\<close>

definition open_enrollment :: "string \<Rightarrow> string \<Rightarrow> db \<Rightarrow> (enrollment_row \<times> user_row) option" where
  "open_enrollment token_hash userID db =
     (case find (\<lambda>r. e_token_hash r = token_hash \<and> e_used_at r = None \<and>
             list_ex (\<lambda>u. u_id u = e_user_id r \<and> u_public_id u = userID \<and> u_active u) (users db))
           (rev (sort_key e_id (mfa_enrollments db))) of
        None \<Rightarrow> None
      | Some r \<Rightarrow> map_option (Pair r)
          (find (\<lambda>u. u_id u = e_user_id r \<and> u_public_id u = userID \<and> u_active u) (users db)))"

definition store_recovery :: "int \<Rightarrow> gotime \<Rightarrow> nat \<Rightarrow> string \<Rightarrow> db \<Rightarrow> db result" where
  "store_recovery uid at k hash db =
     (if TrimSpace hash = [] then Inl (ErrNew ''recovery code hash is empty'')
      else insert_recovery \<lparr>rc_id = 0, rc_user_id = uid, rc_code_hash = hash, rc_created_at = at, rc_used_at = None\<rparr> db)"

definition completeMFAEnrollmentTx ::
    "crypto \<Rightarrow> string \<Rightarrow> string \<Rightarrow> string \<Rightarrow> string \<Rightarrow> string list \<Rightarrow> gotime \<Rightarrow> db \<Rightarrow> (bool \<times> db option) result" where
  "completeMFAEnrollmentTx c secretKey userID token code recoveryHashes at db =
     (let h = HashToken c token in
      case open_enrollment h userID db of
        None \<Rightarrow> Inr (False, None)
      | Some (r, u) \<Rightarrow>
          if u_mfa_enabled u \<or> \<not> at < e_expires_at r \<or> e_attempts r \<ge> maxMFAEnrollmentAttempts
          then Inr (False, Some (close_enrollments (\<lambda>q. e_token_hash q = h \<and> e_used_at q = None) at db))
          else attempt (DecryptSecret c secretKey (e_secret r)) (\<lambda>secret.
            if \<not> VerifyTOTP c secret code at
            then let attempts = e_attempts r + 1 in
              Inr (False, Some (fail_enrollment h attempts
                (if attempts \<ge> maxMFAEnrollmentAttempts then Some at else None) db))
            else exec (for_each (store_recovery (e_user_id r) at) 0 recoveryHashes
                   (delete_recovery (e_user_id r)
                     (enable_mfa (e_secret r) (Unix at sdiv 30 - 1) (e_user_id r) db))) (\<lambda>db.
            exec (insert_security_event
                   (security_event (Some (e_user_id r)) ''mfa_enabled'' ''totp and recovery codes'' at)
                   (close_enrollments (\<lambda>q. e_token_hash q = h) at db)) (\<lambda>db.
            Inr (True, Some db)))))"

definition CompleteMFAEnrollment ::
    "crypto \<Rightarrow> string \<Rightarrow> env \<Rightarrow> string \<Rightarrow> string \<Rightarrow> string \<Rightarrow> string list \<Rightarrow> gotime \<Rightarrow> db \<Rightarrow> bool result \<times> db" where
  "CompleteMFAEnrollment c secretKey e userID token code recoveryHashes at db =
     (if length recoveryHashes \<noteq> 10 then (Inl (ErrNew ''exactly 10 recovery codes are required''), db)
      else run_tx e db (completeMFAEnrollmentTx c secretKey userID token code recoveryHashes at))"

section \<open>Every mutation is a sequence of statements\<close>

abbreviation mfa_tables :: "tbl set" where
  "mfa_tables \<equiv> {Users, SecurityEvents, Enrollments, RecoveryCodes}"

interpretation verify_mfa: store_op mfa_tables "\<lambda>(c, key, u, code) e. VerifyMFA c key e u code"
  by unfold_locales
    (auto simp: VerifyMFA_def verifyMFATx_def tx_simps Let_def split_def dest: run_tx_Inl
      intro: update_writes split: option.splits if_splits)

interpretation use_recovery_code: store_op mfa_tables "\<lambda>(c, u, code, at) e. UseRecoveryCode c e u code at"
  by unfold_locales
    (auto simp: UseRecoveryCode_def useRecoveryCodeTx_def tx_simps Let_def dest: run_tx_Inl
      intro: writes_trans [OF update_writes(10) exec_writes(3)] split: option.splits if_splits)

lemma createMFAEnrollmentTx_writes:
  "only_writes mfa_tables db (createMFAEnrollmentTx c u x t now expiresAt db)"
  unfolding createMFAEnrollmentTx_def
  by (auto intro!: only_writes_rules only_writes_Inr intro: writes_trans [OF update_writes(7) exec_writes(4)])

interpretation create_enrollment: store_op mfa_tables
    "\<lambda>(c, key, u, secret, x) e. CreateMFAEnrollment c key e u secret x"
  by unfold_locales
    (auto simp: CreateMFAEnrollment_def dest: tx_method_atomic
      dest!: tx_method_traced [OF _ createMFAEnrollmentTx_writes])

lemma store_recovery_writes:
  "for_each (store_recovery uid at) k hs db = Inr db' \<Longrightarrow> writes mfa_tables db db'"
  by (induction hs arbitrary: k db)
    (auto simp: tx_simps store_recovery_def intro: writes_trans exec_writes(5) split: if_splits)

lemma enable_writes:
  assumes "for_each (store_recovery uid at) k hs (delete_recovery uid (enable_mfa x step uid db)) = Inr db1"
    and "insert_security_event v (close_enrollments P at db1) = Inr db'"
  shows "writes mfa_tables db db'"
proof -
  have "writes mfa_tables db (delete_recovery uid (enable_mfa x step uid db))"
    by (rule writes_trans [OF update_writes(4) update_writes(9)]) simp_all
  also have "writes mfa_tables (delete_recovery uid (enable_mfa x step uid db)) db1"
    by (rule store_recovery_writes [OF assms(1)])
  also have "writes mfa_tables db1 (close_enrollments P at db1)" by (rule update_writes) simp
  also have "writes mfa_tables (close_enrollments P at db1) db'" by (rule exec_writes(3) [OF assms(2)]) simp
  finally show ?thesis .
qed

lemma completeMFAEnrollmentTx_writes:
  assumes "completeMFAEnrollmentTx c key u t code hs at db = Inr (b, Some d)"
  shows "writes mfa_tables db d"
proof -
  from assms obtain r v where v: "open_enrollment (HashToken c t) u db = Some (r, v)"
    by (auto simp: completeMFAEnrollmentTx_def Let_def split: option.splits)
  from assms consider
      P where "d = close_enrollments P at db"
    | n x where "d = fail_enrollment (HashToken c t) n x db"
    | uid x step sv P db1 where
        "for_each (store_recovery uid at) 0 hs (delete_recovery uid (enable_mfa x step uid db)) = Inr db1"
        "insert_security_event sv (close_enrollments P at db1) = Inr d"
    unfolding completeMFAEnrollmentTx_def Let_def v option.case prod.case
    by (simp only: tx_simps split: if_splits) auto
  then show ?thesis
  proof cases
    case 1
    then show ?thesis by (simp add: update_writes)
  next
    case 2
    then show ?thesis by (simp add: update_writes)
  next
    case 3
    then show ?thesis by (rule enable_writes)
  qed
qed

interpretation complete_enrollment: store_op mfa_tables
    "\<lambda>(c, key, u, t, code, hs, at) e. CompleteMFAEnrollment c key e u t code hs at"
  by unfold_locales
    (auto simp: CompleteMFAEnrollment_def tx_simps dest: run_tx_Inl
      intro: completeMFAEnrollmentTx_writes split: if_splits)

section \<open>One-time codes\<close>

lemma MatchTOTP_True:
  assumes "MatchTOTP c secret code at = (step, True)"
  shows "\<bar>step - Unix at sdiv 30\<bar> \<le> 1" "TOTPCode c secret (seconds (step * 30)) = Inr (TrimSpace code)"
proof -
  let ?b = "Unix at sdiv 30"
  from assms have "find (\<lambda>step. TOTPCode c secret (seconds (step * 30)) = Inr (TrimSpace code))
      [?b - 1, ?b, ?b + 1] = Some step"
    by (auto simp: MatchTOTP_def Let_def simp del: find.simps split: if_splits option.splits)
  from find_SomeD [OF this] show "\<bar>step - ?b\<bar> \<le> 1" "TOTPCode c secret (seconds (step * 30)) = Inr (TrimSpace code)"
    by auto
qed

text \<open>
  A one-time code is accepted exactly when it is the code of the current thirty-second
  step or of one of its two neighbours; what is returned is such a step, and every accepted code
  has six digits.
\<close>

lemma totp_window:
  "(VerifyTOTP c secret code at \<longleftrightarrow>
      length (TrimSpace code) = 6 \<and>
      (\<exists>d \<in> {-1, 0, 1}. TOTPCode c secret (seconds ((Unix at sdiv 30 + d) * 30)) = Inr (TrimSpace code))) \<and>
   (MatchTOTP c secret code at = (step, True) \<longrightarrow>
      \<bar>step - Unix at sdiv 30\<bar> \<le> 1 \<and> TOTPCode c secret (seconds (step * 30)) = Inr (TrimSpace code) \<and>
      list_all (\<lambda>x. 48 \<le> byte x \<and> byte x \<le> 57) (TrimSpace code))"
proof (intro conjI impI)
  let ?b = "Unix at sdiv 30"
  show "VerifyTOTP c secret code at \<longleftrightarrow> length (TrimSpace code) = 6 \<and>
      (\<exists>d \<in> {-1, 0, 1}. TOTPCode c secret (seconds ((?b + d) * 30)) = Inr (TrimSpace code))"
    by (simp add: VerifyTOTP_def MatchTOTP_def Let_def diff_conv_add_uminus del: add_uminus_conv_diff)
  assume m: "MatchTOTP c secret code at = (step, True)"
  note t = MatchTOTP_True [OF m]
  show "\<bar>step - ?b\<bar> \<le> 1" "TOTPCode c secret (seconds (step * 30)) = Inr (TrimSpace code)" by (rule t)+
  have "list_all (\<lambda>x. 48 \<le> byte x \<and> byte x \<le> 57) (digits w n)" for w n
    by (induction w arbitrary: n) (auto simp: byte_def)
  moreover have "\<exists>n. digits 6 n = TrimSpace code"
    using t(2) by (auto simp: TOTPCode_def Let_def split: option.splits if_splits)
  ultimately show "list_all (\<lambda>x. 48 \<le> byte x \<and> byte x \<le> 57) (TrimSpace code)" by metis
qed

text \<open>
  A sealed secret opens again: what is encrypted under the store's key decrypts to
  the same secret, given that the cipher opens what it sealed; under a key of any other length than
  32 bytes neither direction works, and a text shorter than a nonce is refused.
\<close>

lemma secret_roundtrip:
  assumes "\<And>n p. gcm_open c key n (gcm_seal c key n p) = Some p" and "EncryptSecret c src key secret = Inr x"
  shows "DecryptSecret c key x = Inr secret \<and> length key = 32 \<and> 12 \<le> length x \<and>
    (length other \<noteq> 32 \<longrightarrow> isl (EncryptSecret c src other secret) \<and> isl (DecryptSecret c other x)) \<and>
    (length short < 12 \<longrightarrow> isl (DecryptSecret c key short))"
  using assms by (auto simp: EncryptSecret_def DecryptSecret_def Let_def split: if_splits option.splits)

section \<open>Replay\<close>

lemma active_row_iff:
  assumes "db_ok db"
  shows "active_row pid db = Some u \<longleftrightarrow> u \<in> set (users db) \<and> u_public_id u = pid \<and> u_active u"
proof -
  have uniq: "unique_key every u_public_id (users db)" using db_okD(1) [OF assms] by (simp add: users_ok_def)
  show ?thesis unfolding active_row_def find_key_and [OF uniq] find_key_iff [OF uniq] by blast
qed

lemma active_row_update_step:
  "active_row pid (update_mfa_step P step db) =
    map_option (\<lambda>u. if P u then u\<lparr>u_mfa_last_step := step\<rparr> else u) (active_row pid db)"
  by (simp add: active_row_def update_mfa_step_def find_update_where)

lemma verifyMFATx_True:
  assumes "verifyMFATx c key e pid code db = Inr (True, d)"
  obtains u secret step where "active_row pid db = Some u" "u_mfa_enabled u"
    "u_mfa_secret u \<noteq> None" "u_mfa_secret u \<noteq> Some []"
    "DecryptSecret c key (the (u_mfa_secret u)) = Inr secret"
    "MatchTOTP c secret code (time_now e) = (step, True)" "u_mfa_last_step u < step"
    "d = Some (update_mfa_step (\<lambda>u. u_public_id u = pid \<and> u_active u \<and> u_mfa_last_step u < step) step db)"
proof -
  from assms obtain u where u: "active_row pid db = Some u" "u_mfa_enabled u" "u_mfa_secret u \<noteq> None"
      "u_mfa_secret u \<noteq> Some []"
    by (cases "active_row pid db") (simp_all add: verifyMFATx_def split: if_splits)
  with assms obtain secret where s: "DecryptSecret c key (the (u_mfa_secret u)) = Inr secret"
    by (cases "DecryptSecret c key (the (u_mfa_secret u))") (simp_all add: verifyMFATx_def)
  obtain step valid where m: "MatchTOTP c secret code (time_now e) = (step, valid)" by force
  from assms u s m have "valid" "u_mfa_last_step u < step"
      "d = Some (update_mfa_step (\<lambda>u. u_public_id u = pid \<and> u_active u \<and> u_mfa_last_step u < step) step db)"
    by (simp_all add: verifyMFATx_def Let_def split: if_splits)
  with u s m show ?thesis by (intro that [of u secret step]) simp_all
qed

text \<open>
  C17: A one-time code works once. When a code is accepted, the step it belongs to is later
  than every step the user used before, lies within one step of the clock, and becomes the last
  used step; from then on a code of that step or of an earlier one is refused, whenever it is
  presented, and the refusal changes nothing.
\<close>

theorem mfa_no_replay:
  assumes "db_ok db" and "VerifyMFA c key e pid code db = (Inr True, db')" and "begin_ok f" "commit_ok f"
  shows "\<exists>u u' step. active_row pid db = Some u \<and> active_row pid db' = Some u' \<and>
    u_mfa_last_step u < step \<and> u_mfa_last_step u' = step \<and> \<bar>step - Unix (time_now e) sdiv 30\<bar> \<le> 1 \<and>
    (\<forall>code2 secret. DecryptSecret c key (the (u_mfa_secret u)) = Inr secret \<and>
       fst (MatchTOTP c secret code2 (time_now f)) \<le> step \<longrightarrow>
       VerifyMFA c key f pid code2 db' = (Inr False, db'))"
proof -
  from assms(2) obtain d where tx: "verifyMFATx c key e pid code db = Inr (True, d)"
    and d: "d = None \<and> db' = db \<or> d = Some db'"
    by (auto simp: VerifyMFA_def tx_simps)
  from tx obtain u secret step where u: "active_row pid db = Some u" "u_mfa_enabled u"
      "u_mfa_secret u \<noteq> None" "u_mfa_secret u \<noteq> Some []"
      "DecryptSecret c key (the (u_mfa_secret u)) = Inr secret"
      "MatchTOTP c secret code (time_now e) = (step, True)" "u_mfa_last_step u < step"
    and d': "d = Some (update_mfa_step (\<lambda>u. u_public_id u = pid \<and> u_active u \<and> u_mfa_last_step u < step) step db)"
    by (rule verifyMFATx_True)
  define u' where "u' = u\<lparr>u_mfa_last_step := step\<rparr>"
  have u': "active_row pid db' = Some u'"
  proof -
    have "db' = update_mfa_step (\<lambda>u. u_public_id u = pid \<and> u_active u \<and> u_mfa_last_step u < step) step db"
      using d d' by auto
    then show ?thesis
      using u(1,7) active_row_iff [OF assms(1), of pid u] by (simp only: active_row_update_step u'_def) simp
  qed
  have refuse: "VerifyMFA c key f pid code2 db' = (Inr False, db')"
    if "fst (MatchTOTP c secret code2 (time_now f)) \<le> step" for code2
  proof -
    obtain st v where m: "MatchTOTP c secret code2 (time_now f) = (st, v)" by force
    with that have "st \<le> step" by simp
    then have "verifyMFATx c key f pid code2 db' = Inr (False, Some db')"
      using u u' m by (simp add: verifyMFATx_def u'_def)
    with assms(3,4) show ?thesis by (simp add: VerifyMFA_def run_tx_def)
  qed
  show ?thesis
    by (rule exI [of _ u], rule exI [of _ u'], rule exI [of _ step])
      (use u u' refuse MatchTOTP_True(1) [OF u(6)] in \<open>auto simp: u'_def\<close>)
qed

section \<open>Recovery codes\<close>

lemma match_code_foldl:
  assumes "foldl (\<lambda>matched r. if matched = 0 \<and> CheckPassword c (rc_code_hash r) code then rc_id r else matched) m rows = i"
    and "i \<noteq> 0"
  shows "i = m \<or> (\<exists>r \<in> set rows. rc_id r = i \<and> CheckPassword c (rc_code_hash r) code)"
  using assms
proof (induction rows arbitrary: m)
  case (Cons a rows)
  show ?case
  proof (cases "m = 0 \<and> CheckPassword c (rc_code_hash a) code")
    case True
    with Cons.prems Cons.IH [of "rc_id a"] have "i = rc_id a \<or>
        (\<exists>r \<in> set rows. rc_id r = i \<and> CheckPassword c (rc_code_hash r) code)" by simp
    with True show ?thesis by auto
  next
    case False
    with Cons.prems(1) have "foldl (\<lambda>matched r. if matched = 0 \<and> CheckPassword c (rc_code_hash r) code
        then rc_id r else matched) m rows = i" by simp
    from Cons.IH [OF this Cons.prems(2)] show ?thesis by auto
  qed
qed simp

lemma match_code_Some:
  "match_code c code rows \<noteq> 0 \<Longrightarrow>
     \<exists>r \<in> set rows. rc_id r = match_code c code rows \<and> CheckPassword c (rc_code_hash r) code"
  using match_code_foldl [OF refl, of c code 0 rows] unfolding match_code_def by blast

lemma count_where_update_one:
  assumes "unique_key every k rows" and "r \<in> set rows" and "P r" and "\<not> P (f r)"
  shows "count_where P rows = Suc (count_where P (update_where (\<lambda>q. k q = k r) f rows))"
  using assms
proof (induction rows)
  case (Cons q rows)
  have q: "k q \<notin> k ` set rows" and u: "unique_key every k rows" using Cons.prems(1) by (auto simp: unique_key_def)
  show ?case
  proof (cases "q = r")
    case True
    with q have "update_where (\<lambda>q. k q = k r) f rows = rows" by (intro update_where_none) (metis True imageI)
    with True Cons.prems(3,4) show ?thesis by (simp add: count_where_def update_where_def)
  next
    case False
    with Cons.prems(2) have r: "r \<in> set rows" by simp
    with q have "k q \<noteq> k r" by force
    with Cons.IH [OF u r Cons.prems(3,4)] show ?thesis by (simp add: count_where_def update_where_def)
  qed
qed simp

text \<open>
  C18: A recovery code is spent by its use. An accepted code matches an unused recovery
  code of that active user; exactly that code is marked used, so one unused code fewer remains, and
  the use is recorded. A refused code changes nothing.
\<close>

theorem recovery_single_use:
  assumes "db_ok db" and "UseRecoveryCode c e pid code at db = (Inr ok, db')"
  shows "if ok then \<exists>u r. active_row pid db = Some u \<and> u_mfa_enabled u \<and> r \<in> set (mfa_recovery_codes db) \<and>
      rc_user_id r = u_id u \<and> rc_used_at r = None \<and> CheckPassword c (rc_code_hash r) (NormalizeRecoveryCode c code) \<and>
      mfa_recovery_codes db' =
        update_where (\<lambda>q. rc_id q = rc_id r) (\<lambda>q. q\<lparr>rc_used_at := Some at\<rparr>) (mfa_recovery_codes db) \<and>
      count_where (\<lambda>q. rc_used_at q = None) (mfa_recovery_codes db) =
        Suc (count_where (\<lambda>q. rc_used_at q = None) (mfa_recovery_codes db')) \<and>
      length (security_events db') = Suc (length (security_events db))
    else db' = db"
proof (cases ok)
  case False
  with assms(2) show ?thesis
    by (auto simp: UseRecoveryCode_def useRecoveryCodeTx_def tx_simps Let_def split: if_splits option.splits)
next
  case True
  let ?code = "NormalizeRecoveryCode c code"
  from assms(2) True obtain u where u: "active_row pid db = Some u" "u_mfa_enabled u"
    and m: "match_code c ?code (unused_codes (u_id u) db) \<noteq> 0"
    and sec: "insert_security_event (security_event (Some (u_id u)) ''mfa_recovery_used'' ''recovery code'' at)
        (use_recovery (match_code c ?code (unused_codes (u_id u) db)) at db) = Inr db'"
    by (auto simp: UseRecoveryCode_def useRecoveryCodeTx_def tx_simps Let_def split: if_splits option.splits)
  from match_code_Some [OF m] obtain r where r: "r \<in> set (unused_codes (u_id u) db)"
      "rc_id r = match_code c ?code (unused_codes (u_id u) db)" "CheckPassword c (rc_code_hash r) ?code" by blast
  then have mem: "r \<in> set (mfa_recovery_codes db)" "rc_user_id r = u_id u" "rc_used_at r = None"
    unfolding unused_codes_def by (auto dest!: in_set_takeD)
  have uniq: "unique_key every rc_id (mfa_recovery_codes db)"
    using db_okD(3) [OF assms(1)] recovery_t.unique_id by (auto simp: recovery_ok_def)
  have same: "q = r" if "q \<in> set (mfa_recovery_codes db)" "rc_id q = rc_id r" for q
    using unique_keyD [OF uniq that(1) mem(1)] that(2) by simp
  have "update_where (\<lambda>q. rc_id q = rc_id r \<and> rc_used_at q = None) f (mfa_recovery_codes db) =
      update_where (\<lambda>q. rc_id q = rc_id r) f (mfa_recovery_codes db)" for f
    unfolding update_where_def
  proof (rule map_cong [OF refl])
    fix q
    assume "q \<in> set (mfa_recovery_codes db)"
    with same [of q] mem(3) show "(if rc_id q = rc_id r \<and> rc_used_at q = None then f q else q) =
        (if rc_id q = rc_id r then f q else q)"
      by (cases "rc_id q = rc_id r") simp_all
  qed
  with sec have codes: "mfa_recovery_codes db' =
      update_where (\<lambda>q. rc_id q = rc_id r) (\<lambda>q. q\<lparr>rc_used_at := Some at\<rparr>) (mfa_recovery_codes db)"
    and log: "length (security_events db') = Suc (length (security_events db))"
    by (auto simp: insert_security_event_def insert_row_def use_recovery_def r(2) split: if_splits)
  have "count_where (\<lambda>q. rc_used_at q = None) (mfa_recovery_codes db) =
      Suc (count_where (\<lambda>q. rc_used_at q = None) (mfa_recovery_codes db'))"
    unfolding codes by (rule count_where_update_one [OF uniq mem(1)]) (simp_all add: mem(3))
  with True u mem r(3) codes log show ?thesis by auto
qed

section \<open>Enrollment\<close>

definition attempts_bounded :: "db \<Rightarrow> bool" where
  "attempts_bounded db \<longleftrightarrow>
     (\<forall>r \<in> set (mfa_enrollments db). 0 \<le> e_attempts r \<and> e_attempts r \<le> maxMFAEnrollmentAttempts \<and>
        (e_used_at r = None \<longrightarrow> e_attempts r < maxMFAEnrollmentAttempts))"

lemma store_recovery_enrollments:
  "for_each (store_recovery uid at) k hs db = Inr db' \<Longrightarrow>
     mfa_enrollments db' = mfa_enrollments db \<and> users db' = users db \<and>
     (\<exists>rows. mfa_recovery_codes db' = mfa_recovery_codes db @ rows \<and> length rows = length hs \<and>
        list_all2 (\<lambda>r h. rc_user_id r = uid \<and> rc_code_hash r = h \<and> rc_used_at r = None) rows hs)"
proof (induction hs arbitrary: k db)
  case (Cons h hs)
  then obtain d where d: "store_recovery uid at k h db = Inr d" "for_each (store_recovery uid at) (Suc k) hs d = Inr db'"
    by (auto simp: tx_simps)
  from Cons.IH [OF d(2)] obtain rows where rows: "mfa_enrollments db' = mfa_enrollments d" "users db' = users d"
      "mfa_recovery_codes db' = mfa_recovery_codes d @ rows" "length rows = length hs"
      "list_all2 (\<lambda>r h. rc_user_id r = uid \<and> rc_code_hash r = h \<and> rc_used_at r = None) rows hs" by blast
  from d(1) obtain r where r: "mfa_enrollments d = mfa_enrollments db" "users d = users db"
      "mfa_recovery_codes d = mfa_recovery_codes db @ [r]" "rc_user_id r = uid" "rc_code_hash r = h" "rc_used_at r = None"
    by (auto simp: store_recovery_def insert_recovery_def insert_row_def split: if_splits)
  show ?case
    using rows r by (intro conjI exI [of _ "r # rows"]) simp_all
qed simp

lemma open_enrollment_row:
  assumes "open_enrollment h pid db = Some (r, u)"
  shows "r \<in> set (mfa_enrollments db)" "e_token_hash r = h" "e_used_at r = None"
    "u \<in> set (users db)" "u_id u = e_user_id r" "u_public_id u = pid" "u_active u"
proof -
  from assms have f: "find (\<lambda>r. e_token_hash r = h \<and> e_used_at r = None \<and>
      list_ex (\<lambda>u. u_id u = e_user_id r \<and> u_public_id u = pid \<and> u_active u) (users db))
      (rev (sort_key e_id (mfa_enrollments db))) = Some r"
    and g: "find (\<lambda>u. u_id u = e_user_id r \<and> u_public_id u = pid \<and> u_active u) (users db) = Some u"
    by (auto simp: open_enrollment_def split: option.splits)
  from find_SomeD [OF f] show "r \<in> set (mfa_enrollments db)" "e_token_hash r = h" "e_used_at r = None" by simp_all
  from find_SomeD [OF g] show "u \<in> set (users db)" "u_id u = e_user_id r" "u_public_id u = pid" "u_active u" by simp_all
qed

lemma attempts_bounded_close: "attempts_bounded db \<Longrightarrow> attempts_bounded (close_enrollments P at db)"
  unfolding attempts_bounded_def close_enrollments_def by (simp add: ball_update_where)

lemma create_rows:
  assumes "CreateMFAEnrollment c key e pid secret expiresAt db = (Inr token, d)"
  obtains P at row where "mfa_enrollments d = mfa_enrollments (close_enrollments P at db) @ [row]" "e_attempts row = 0"
proof -
  from assms obtain ciphertext token' where
    "createMFAEnrollmentTx c pid ciphertext token' (time_now e) expiresAt db = Inr (token, d)"
    by (auto simp: CreateMFAEnrollment_def prepare_def with_tx_def split: sum.splits if_splits)
  then obtain u :: user_row where "insert_enrollment \<lparr>e_id = 0, e_user_id = u_id u, e_token_hash = HashToken c token,
      e_secret = ciphertext, e_expires_at = expiresAt, e_attempts = 0, e_created_at = time_now e, e_used_at = None\<rparr>
      (close_enrollments (\<lambda>r. e_user_id r = u_id u \<and> e_used_at r = None) (time_now e) db) = Inr d"
    unfolding createMFAEnrollmentTx_def by (auto simp: attempt_Inr exec_Inr split: if_splits)
  then show ?thesis
    using that by (auto simp: insert_enrollment_def insert_row_def split: if_splits)
qed

lemma complete_outcomes:
  assumes "completeMFAEnrollmentTx c key u t code hs at db = Inr (ok, Some d)"
  obtains r v where "open_enrollment (HashToken c t) u db = Some (r, v)"
    "\<not> ok \<and> d = close_enrollments (\<lambda>q. e_token_hash q = HashToken c t \<and> e_used_at q = None) at db \<or>
     \<not> ok \<and> e_attempts r < maxMFAEnrollmentAttempts \<and> d = fail_enrollment (HashToken c t) (e_attempts r + 1)
        (if e_attempts r + 1 \<ge> maxMFAEnrollmentAttempts then Some at else None) db \<or>
     ok \<and> \<not> u_mfa_enabled v \<and> at < e_expires_at r \<and> e_attempts r < maxMFAEnrollmentAttempts \<and>
       (\<exists>secret. DecryptSecret c key (e_secret r) = Inr secret \<and> VerifyTOTP c secret code at) \<and>
       (\<exists>db1. for_each (store_recovery (e_user_id r) at) 0 hs (delete_recovery (e_user_id r)
            (enable_mfa (e_secret r) (Unix at sdiv 30 - 1) (e_user_id r) db)) = Inr db1 \<and>
          insert_security_event (security_event (Some (e_user_id r)) ''mfa_enabled'' ''totp and recovery codes'' at)
            (close_enrollments (\<lambda>q. e_token_hash q = HashToken c t) at db1) = Inr d)"
proof -
  from assms obtain r v where v: "open_enrollment (HashToken c t) u db = Some (r, v)"
    by (auto simp: completeMFAEnrollmentTx_def Let_def split: option.splits)
  show ?thesis
    by (rule that [OF v], insert assms, unfold completeMFAEnrollmentTx_def Let_def v option.case prod.case)
      (simp only: tx_simps not_le split: if_splits, auto)
qed

lemma create_attempts_bounded:
  assumes "attempts_bounded db"
  shows "attempts_bounded (snd (CreateMFAEnrollment c key e pid secret expiresAt db))"
proof (cases "CreateMFAEnrollment c key e pid secret expiresAt db")
  case (Pair r d)
  show ?thesis
  proof (cases r)
    case (Inl x)
    with Pair create_enrollment.atomic [of "(c, key, pid, secret, expiresAt)" e db x d] assms show ?thesis by simp
  next
    case (Inr a)
    with Pair obtain P at' row where "mfa_enrollments d = mfa_enrollments (close_enrollments P at' db) @ [row]"
        "e_attempts row = 0"
      using create_rows by metis
    with attempts_bounded_close [OF assms, of P at'] Pair show ?thesis
      by (simp add: attempts_bounded_def)
  qed
qed

lemma completeTx_attempts_bounded:
  assumes "attempts_bounded db" and "completeMFAEnrollmentTx c key pid token code hashes at db = Inr (ok, Some d)"
  shows "attempts_bounded d"
  using assms(2)
proof (rule complete_outcomes, elim disjE conjE exE)
  fix r v
  assume "d = fail_enrollment (HashToken c token) (e_attempts r + 1)
      (if maxMFAEnrollmentAttempts \<le> e_attempts r + 1 then Some at else None) db"
    "e_attempts r < maxMFAEnrollmentAttempts" "open_enrollment (HashToken c token) pid db = Some (r, v)"
  then show ?thesis
    using assms open_enrollment_row(1) [of _ pid db r v] unfolding attempts_bounded_def fail_enrollment_def
    by (auto simp: ball_update_where)
next
  fix r v db1
  assume "for_each (store_recovery (e_user_id r) at) 0 hashes (delete_recovery (e_user_id r)
      (enable_mfa (e_secret r) (Unix at sdiv 30 - 1) (e_user_id r) db)) = Inr db1"
    "insert_security_event (security_event (Some (e_user_id r)) ''mfa_enabled'' ''totp and recovery codes'' at)
      (close_enrollments (\<lambda>q. e_token_hash q = HashToken c token) at db1) = Inr d"
  then have "mfa_enrollments db1 = mfa_enrollments db"
    "mfa_enrollments d = mfa_enrollments (close_enrollments (\<lambda>q. e_token_hash q = HashToken c token) at db1)"
    by (auto simp: insert_security_event_def delete_recovery_def enable_mfa_def
        dest!: store_recovery_enrollments split: if_splits)
  then show ?thesis
    using assms attempts_bounded_close [of db1] by (simp add: attempts_bounded_def)
qed (use assms attempts_bounded_close in simp)

text \<open>
  Guessing an enrollment code is bounded. Enrollments count at most five failed
  confirmations, and one that is still open has fewer than five; starting an enrollment and trying
  to confirm one keep this, whatever the outcome.
\<close>

lemma complete_attempts_bounded:
  assumes "attempts_bounded db"
  shows "attempts_bounded (snd (CompleteMFAEnrollment c key e pid token code hashes at db))"
proof (cases "CompleteMFAEnrollment c key e pid token code hashes at db")
  case (Pair r d)
  show ?thesis
  proof (cases r)
    case (Inl x)
    with Pair complete_enrollment.atomic [of "(c, key, pid, token, code, hashes, at)" e db x d] assms
    show ?thesis by simp
  next
    case (Inr ok)
    with Pair have "d = db \<or> completeMFAEnrollmentTx c key pid token code hashes at db = Inr (ok, Some d)"
      by (auto simp: CompleteMFAEnrollment_def tx_simps split: if_splits)
    with completeTx_attempts_bounded [OF assms] assms Pair show ?thesis by auto
  qed
qed

text \<open>
  A confirmed enrollment switches the second factor on for the right user with ten
  fresh recovery codes. It takes an open, unexpired enrollment of that active user with fewer than
  five failures and a code that matches its secret; afterwards the user has the factor enabled with
  that secret, exactly the ten given recovery codes, all unused, and the enrollment is closed.
\<close>

lemma enrollment_completes:
  assumes "CompleteMFAEnrollment c key e pid token code hashes at db = (Inr True, db')"
  shows "\<exists>r u. open_enrollment (HashToken c token) pid db = Some (r, u) \<and> \<not> u_mfa_enabled u \<and>
    at < e_expires_at r \<and> e_attempts r < maxMFAEnrollmentAttempts \<and>
    (\<exists>secret. DecryptSecret c key (e_secret r) = Inr secret \<and> VerifyTOTP c secret code at) \<and>
    (\<forall>w \<in> set (users db'). u_id w = u_id u \<longrightarrow> u_mfa_enabled w \<and> u_mfa_secret w = Some (e_secret r) \<and>
       u_mfa_last_step w = Unix at sdiv 30 - 1) \<and>
    map rc_code_hash (filter (\<lambda>q. rc_user_id q = u_id u \<and> rc_used_at q = None) (mfa_recovery_codes db')) = hashes \<and>
    length hashes = 10 \<and> (\<forall>q \<in> set (mfa_enrollments db'). e_token_hash q = HashToken c token \<longrightarrow> e_used_at q \<noteq> None)"
proof -
  let ?h = "HashToken c token"
  from assms have "length hashes = 10" and tx: "completeMFAEnrollmentTx c key pid token code hashes at db = Inr (True, Some db')
      \<or> completeMFAEnrollmentTx c key pid token code hashes at db = Inr (True, None)"
    by (auto simp: CompleteMFAEnrollment_def tx_simps split: if_splits)
  moreover have "completeMFAEnrollmentTx c key pid token code hashes at db \<noteq> Inr (True, None)"
    unfolding completeMFAEnrollmentTx_def Let_def by (auto simp: attempt_Inr exec_Inr split: option.splits)
  ultimately obtain r u db1 where o': "open_enrollment ?h pid db = Some (r, u)" "\<not> u_mfa_enabled u" "at < e_expires_at r"
      "e_attempts r < maxMFAEnrollmentAttempts"
      "\<exists>secret. DecryptSecret c key (e_secret r) = Inr secret \<and> VerifyTOTP c secret code at"
    and st: "for_each (store_recovery (e_user_id r) at) 0 hashes (delete_recovery (e_user_id r)
        (enable_mfa (e_secret r) (Unix at sdiv 30 - 1) (e_user_id r) db)) = Inr db1"
    and sec: "insert_security_event (security_event (Some (e_user_id r)) ''mfa_enabled'' ''totp and recovery codes'' at)
        (close_enrollments (\<lambda>q. e_token_hash q = ?h) at db1) = Inr db'"
    by (metis (no_types, lifting) complete_outcomes)
  note uid = open_enrollment_row(5) [OF o'(1)]
  from store_recovery_enrollments [OF st] obtain rows where
    us: "users db1 = users (enable_mfa (e_secret r) (Unix at sdiv 30 - 1) (e_user_id r) db)"
    and codes: "mfa_recovery_codes db1 = filter (\<lambda>q. rc_user_id q \<noteq> e_user_id r) (mfa_recovery_codes db) @ rows"
    and rows: "list_all2 (\<lambda>r' h. rc_user_id r' = e_user_id r \<and> rc_code_hash r' = h \<and> rc_used_at r' = None) rows hashes"
    by (auto simp: delete_recovery_def enable_mfa_def)
  from sec have out: "users db' = users db1" "mfa_recovery_codes db' = mfa_recovery_codes db1"
      "mfa_enrollments db' = mfa_enrollments (close_enrollments (\<lambda>q. e_token_hash q = ?h) at db1)"
    by (auto simp: insert_security_event_def close_enrollments_def split: if_splits)
  have "map rc_code_hash (filter (\<lambda>q. rc_user_id q = e_user_id r \<and> rc_used_at q = None) rows) = hashes"
    using rows by (induction rows hashes rule: list_all2_induct) auto
  then have 1: "map rc_code_hash (filter (\<lambda>q. rc_user_id q = u_id u \<and> rc_used_at q = None) (mfa_recovery_codes db')) = hashes"
    by (simp add: out(2) codes uid filter_False)
  have 2: "\<forall>w \<in> set (users db'). u_id w = u_id u \<longrightarrow> u_mfa_enabled w \<and> u_mfa_secret w = Some (e_secret r) \<and>
       u_mfa_last_step w = Unix at sdiv 30 - 1"
    unfolding out(1) us enable_mfa_def by (simp add: ball_update_where uid)
  have 3: "\<forall>q \<in> set (mfa_enrollments db'). e_token_hash q = ?h \<longrightarrow> e_used_at q \<noteq> None"
    unfolding out(3) close_enrollments_def by (simp add: ball_update_where)
  show ?thesis
    by (rule exI [of _ r], rule exI [of _ u]) (use o' 1 2 3 \<open>length hashes = 10\<close> in simp)
qed

end
