(* ===== verification/Limiter.thy ===== *)
theory Limiter
  imports Identity "HOL-Library.AList"
begin

text \<open>
  The limiter of failed logins (\<^verbatim>\<open>internal/auth/limiter.go\<close>). The Go map of entries is an association
  list with distinct keys; the order in which \<^verbatim>\<open>range\<close> visits the map is a parameter of the operations
  that may evict. Every method holds the mutex for its whole body, so a run is a sequence of calls.
  Go's \<^verbatim>\<open>int\<close> and \<^verbatim>\<open>time.Duration\<close> are 64-bit: \<open>int64\<close> wraps.
\<close>

section \<open>Configuration and state\<close>

definition int64 :: "int \<Rightarrow> int" where
  "int64 n = signed_take_bit 63 n"

record LoginLimiterConfig =
  FailureThreshold :: int
  BaseBackoff :: int
  MaxBackoff :: int
  EntryTTL :: int
  MaxEntries :: int

record loginEntry =
  failures :: int
  blockedUntil :: gotime
  lastSeen :: gotime

record LoginLimiter =
  entries :: "(string \<times> loginEntry) list"
  config :: LoginLimiterConfig

definition NewLoginLimiter :: "LoginLimiterConfig \<Rightarrow> LoginLimiter" where
  "NewLoginLimiter cfg =
     (let cfg = (if FailureThreshold cfg < 1 then cfg\<lparr>FailureThreshold := 5\<rparr> else cfg);
          cfg = (if BaseBackoff cfg \<le> 0 then cfg\<lparr>BaseBackoff := seconds 2\<rparr> else cfg);
          cfg = (if MaxBackoff cfg < BaseBackoff cfg then cfg\<lparr>MaxBackoff := seconds 60\<rparr> else cfg);
          cfg = (if EntryTTL cfg \<le> 0 then cfg\<lparr>EntryTTL := seconds (15 * 60)\<rparr> else cfg);
          cfg = (if MaxEntries cfg < 1 then cfg\<lparr>MaxEntries := 4096\<rparr> else cfg)
      in \<lparr>entries = [], config = cfg\<rparr>)"

section \<open>Keys\<close>

text \<open>\<^verbatim>\<open>net.SplitHostPort\<close>: the host, or \<open>None\<close> for an error.\<close>

definition index_byte :: "char \<Rightarrow> string \<Rightarrow> nat option" where
  "index_byte b s = (let k = length (takeWhile (\<lambda>x. x \<noteq> b) s) in if k = length s then None else Some k)"

definition last_index_byte :: "char \<Rightarrow> string \<Rightarrow> nat option" where
  "last_index_byte b s = map_option (\<lambda>k. length s - 1 - k) (index_byte b (rev s))"

definition SplitHostPort :: "string \<Rightarrow> string option" where
  "SplitHostPort hostport =
     (case last_index_byte CHR '':'' hostport of
        None \<Rightarrow> None
      | Some i \<Rightarrow>
          if hd hostport = CHR ''[''
          then (case index_byte CHR '']'' hostport of
                  None \<Rightarrow> None
                | Some end' \<Rightarrow>
                    if end' + 1 \<noteq> i \<or> CHR ''['' \<in> set (drop 1 hostport) \<or> CHR '']'' \<in> set (drop (end' + 1) hostport)
                    then None else Some (take (end' - 1) (drop 1 hostport)))
          else if CHR '':'' \<in> set (take i hostport) \<or> CHR ''['' \<in> set hostport \<or> CHR '']'' \<in> set hostport
          then None else Some (take i hostport))"

definition hex_encode :: "string \<Rightarrow> string" where
  "hex_encode s = concat (map (\<lambda>b. [hex_digit (byte b div 16), hex_digit (byte b)]) s)"

definition abuse_host :: "string \<Rightarrow> string" where
  "abuse_host remoteAddr =
     (let host = TrimSpace remoteAddr;
          host = (case SplitHostPort host of Some parsed \<Rightarrow> if parsed \<noteq> [] then parsed else host | None \<Rightarrow> host)
      in if host = [] then ''unknown'' else host)"

definition LoginAbuseKey :: "crypto \<Rightarrow> string \<Rightarrow> string \<Rightarrow> string" where
  "LoginAbuseKey c identity remoteAddr =
     hex_encode (sha256 c (ToLower (unicode_lower c) (TrimSpace identity) @ CHR 0x00 # abuse_host remoteAddr))"

section \<open>Operations\<close>

definition pruneLocked :: "gotime \<Rightarrow> LoginLimiter \<Rightarrow> LoginLimiter" where
  "pruneLocked now l =
     l\<lparr>entries := filter (\<lambda>(_, entry). \<not> time_Sub now (lastSeen entry) \<ge> EntryTTL (config l)) (entries l)\<rparr>"

text \<open>The scan keeps the key and the instant of the oldest entry so far; the empty key means none.\<close>

fun oldest_of :: "string \<Rightarrow> gotime \<Rightarrow> (string \<times> loginEntry) list \<Rightarrow> string" where
  "oldest_of key oldest [] = key"
| "oldest_of key oldest ((candidate, entry) # es) =
     (if key = [] \<or> lastSeen entry < oldest then oldest_of candidate (lastSeen entry) es
      else oldest_of key oldest es)"

type_synonym visit = "(string \<times> loginEntry) list \<Rightarrow> (string \<times> loginEntry) list"

definition evictOldestLocked :: "visit \<Rightarrow> LoginLimiter \<Rightarrow> LoginLimiter" where
  "evictOldestLocked visit l =
     (let key = oldest_of [] zero_time (visit (entries l)) in
      if key \<noteq> [] then l\<lparr>entries := AList.delete key (entries l)\<rparr> else l)"

definition RetryAfter :: "string \<Rightarrow> gotime \<Rightarrow> LoginLimiter \<Rightarrow> (int \<times> bool) \<times> LoginLimiter" where
  "RetryAfter key now l =
     (let l = pruneLocked now l in
      case map_of (entries l) key of
        None \<Rightarrow> ((0, False), l)
      | Some entry \<Rightarrow>
          if \<not> now < blockedUntil entry then ((0, False), l)
          else ((time_Sub (blockedUntil entry) now, True),
                l\<lparr>entries := AList.update key (entry\<lparr>lastSeen := now\<rparr>) (entries l)\<rparr>))"

text \<open>\<^verbatim>\<open>for i := FailureThreshold; i < entry.failures && delay < MaxBackoff; i++\<close>\<close>

function backoff :: "int \<Rightarrow> int \<Rightarrow> int \<Rightarrow> int \<Rightarrow> int" where
  "backoff maxBackoff fails i delay =
     (if i < fails \<and> delay < maxBackoff
      then let delay = int64 (delay * 2) in
        backoff maxBackoff fails (i + 1) (if delay > maxBackoff then maxBackoff else delay)
      else delay)"
  by pat_completeness auto
termination
  by (relation "measure (\<lambda>(m, f, i, d). nat (f - i))") auto

declare backoff.simps [simp del]

definition RecordFailure :: "visit \<Rightarrow> string \<Rightarrow> gotime \<Rightarrow> LoginLimiter \<Rightarrow> (int \<times> bool) \<times> LoginLimiter" where
  "RecordFailure visit key now l =
     (let l = pruneLocked now l;
          found = map_of (entries l) key;
          l = (if found = None \<and> MaxEntries (config l) \<le> int (length (entries l))
               then evictOldestLocked visit l else l);
          entry = (case found of
              Some entry \<Rightarrow> entry | None \<Rightarrow> \<lparr>failures = 0, blockedUntil = zero_time, lastSeen = zero_time\<rparr>);
          entry = entry\<lparr>failures := int64 (failures entry + 1), lastSeen := now\<rparr>
      in if failures entry \<ge> FailureThreshold (config l)
         then let delay = backoff (MaxBackoff (config l)) (failures entry) (FailureThreshold (config l))
                    (BaseBackoff (config l));
                  entry = entry\<lparr>blockedUntil := now + delay\<rparr>
              in ((delay, True), l\<lparr>entries := AList.update key entry (entries l)\<rparr>)
         else ((0, False), l\<lparr>entries := AList.update key entry (entries l)\<rparr>))"

definition RecordSuccess :: "string \<Rightarrow> LoginLimiter \<Rightarrow> LoginLimiter" where
  "RecordSuccess key l = l\<lparr>entries := AList.delete key (entries l)\<rparr>"

section \<open>The delay\<close>

lemma int64_id: "- (2 ^ 63) \<le> n \<Longrightarrow> n < 2 ^ 63 \<Longrightarrow> int64 n = n"
  unfolding int64_def by (rule signed_take_bit_int_eq_self) simp_all

lemma backoff_closed_form:
  assumes "0 < d" "d \<le> m" "m < 2 ^ 62" "i \<le> f"
  shows "backoff m f i d = min m (d * 2 ^ nat (f - i))"
  using assms
proof (induction m f i d rule: backoff.induct)
  case (1 m f i d)
  show ?case
  proof (cases "i < f \<and> d < m")
    case True
    then have two: "int64 (d * 2) = d * 2" using "1.prems" by (intro int64_id) simp_all
    have exp: "nat (f - i) = Suc (nat (f - (i + 1)))" using True by arith
    have step: "(if m < int64 (d * 2) then m else int64 (d * 2)) = min m (d * 2)" by (simp add: two min_def)
    have "backoff m f i d = backoff m f (i + 1) (min m (d * 2))"
      using True step by (simp add: backoff.simps [of m f i d] Let_def)
    also have "\<dots> = min m (min m (d * 2) * 2 ^ nat (f - (i + 1)))"
      using "1.IH" [OF True refl, unfolded step] True "1.prems" by simp
    also have "\<dots> = min m (d * 2 ^ nat (f - i))"
    proof (cases "m \<le> d * 2")
      case True
      have "m \<le> m * 2 ^ nat (f - (i + 1))" using "1.prems" by simp
      moreover have "m \<le> d * 2 * 2 ^ nat (f - (i + 1))"
        using True "1.prems" by (smt (verit) mult_le_cancel_left1 one_le_power)
      ultimately show ?thesis using True by (simp add: exp)
    qed (simp add: exp)
    finally show ?thesis .
  next
    case False
    then have "d * 2 ^ nat (f - i) \<ge> m \<or> i = f" using "1.prems" by auto
    with False "1.prems" show ?thesis by (auto simp: backoff.simps [of m f i d])
  qed
qed

section \<open>Reachable limiters\<close>

definition limiter_ok :: "LoginLimiter \<Rightarrow> bool" where
  "limiter_ok l \<longleftrightarrow>
     distinct (map fst (entries l)) \<and> int (length (entries l)) \<le> MaxEntries (config l) \<and>
     [] \<notin> fst ` set (entries l) \<and> 1 \<le> MaxEntries (config l) \<and>
     1 \<le> FailureThreshold (config l) \<and> 0 < BaseBackoff (config l) \<and> 0 < EntryTTL (config l)"

definition visits :: "visit \<Rightarrow> bool" where \<comment> \<open>\<^verbatim>\<open>range\<close> yields every entry of a map once\<close>
  "visits f \<longleftrightarrow> (\<forall>xs. distinct (f xs) = distinct xs \<and> set (f xs) = set xs)"

inductive limiter_run :: "LoginLimiterConfig \<Rightarrow> LoginLimiter \<Rightarrow> bool" for cfg where
  start: "limiter_run cfg (NewLoginLimiter cfg)"
| retry: "limiter_run cfg l \<Longrightarrow> limiter_run cfg (snd (RetryAfter key now l))"
| failure: "limiter_run cfg l \<Longrightarrow> visits f \<Longrightarrow> key \<noteq> [] \<Longrightarrow> limiter_run cfg (snd (RecordFailure f key now l))"
| success: "limiter_run cfg l \<Longrightarrow> limiter_run cfg (RecordSuccess key l)"

lemma length_update:
  "length (AList.update k v xs) = (if k \<in> fst ` set xs then length xs else Suc (length xs))"
  by (induction xs) auto

lemma prune_config [simp]: "config (pruneLocked now l) = config l"
  by (simp add: pruneLocked_def)

lemma evict_config [simp]: "config (evictOldestLocked f l) = config l"
  by (simp add: evictOldestLocked_def Let_def)

lemma prune_ok: "limiter_ok l \<Longrightarrow> limiter_ok (pruneLocked now l)"
  unfolding limiter_ok_def pruneLocked_def
  by (auto intro: distinct_map_filter order.trans [OF of_nat_mono [OF length_filter_le]])

lemma delete_length: "length (AList.delete k xs) \<le> length xs"
  by (simp add: AList.delete_eq)

lemma delete_ok: "limiter_ok l \<Longrightarrow> limiter_ok (l\<lparr>entries := AList.delete key (entries l)\<rparr>)"
  unfolding limiter_ok_def
  by (auto simp: AList.delete_eq intro: distinct_map_filter order.trans [OF of_nat_mono [OF length_filter_le]])

lemma update_ok:
  assumes "limiter_ok l" "key \<noteq> []"
    "key \<in> fst ` set (entries l) \<or> int (length (entries l)) < MaxEntries (config l)"
  shows "limiter_ok (l\<lparr>entries := AList.update key entry (entries l)\<rparr>)"
  using assms unfolding limiter_ok_def by (auto simp: length_update AList.dom_update AList.distinct_update)

lemma oldest_of_mem:
  "oldest_of k t es = k \<or> oldest_of k t es \<in> fst ` set es"
  by (induction k t es rule: oldest_of.induct) auto

lemma oldest_of_not_Nil: "[] \<notin> fst ` set es \<Longrightarrow> es \<noteq> [] \<or> k \<noteq> [] \<Longrightarrow> oldest_of k t es \<noteq> []"
  by (induction k t es rule: oldest_of.induct) auto

lemma oldest_of_oldest:
  "k \<noteq> [] \<Longrightarrow> [] \<notin> fst ` set es \<Longrightarrow>
   \<exists>u. (oldest_of k t es = k \<and> u = t \<or> (\<exists>e. (oldest_of k t es, e) \<in> set es \<and> u = lastSeen e)) \<and> u \<le> t \<and>
     (\<forall>e \<in> snd ` set es. u \<le> lastSeen e)"
proof (induction es arbitrary: k t)
  case (Cons p es)
  obtain candidate entry where p: "p = (candidate, entry)" by fastforce
  show ?case
  proof (cases "lastSeen entry < t")
    case True
    have "candidate \<noteq> []" "[] \<notin> fst ` set es" using Cons.prems p by auto
    from Cons.IH [OF this, of "lastSeen entry"] obtain u where
      "oldest_of candidate (lastSeen entry) es = candidate \<and> u = lastSeen entry \<or>
        (\<exists>e. (oldest_of candidate (lastSeen entry) es, e) \<in> set es \<and> u = lastSeen e)"
      "u \<le> lastSeen entry" "\<forall>e \<in> snd ` set es. u \<le> lastSeen e" by blast
    with True p show ?thesis by (intro exI [of _ u]) auto
  next
    case False
    have "[] \<notin> fst ` set es" using Cons.prems by simp
    from Cons.IH [OF Cons.prems(1) this, of t] obtain u where
      "oldest_of k t es = k \<and> u = t \<or> (\<exists>e. (oldest_of k t es, e) \<in> set es \<and> u = lastSeen e)"
      "u \<le> t" "\<forall>e \<in> snd ` set es. u \<le> lastSeen e" by blast
    with False p Cons.prems(1) show ?thesis by (intro exI [of _ u]) auto
  qed
qed simp

lemma evict_ok:
  assumes "limiter_ok l" "visits f" "entries l \<noteq> []"
  obtains e where "(oldest_of [] zero_time (f (entries l)), e) \<in> set (entries l)"
    "\<forall>e' \<in> snd ` set (entries l). lastSeen e \<le> lastSeen e'"
    "entries (evictOldestLocked f l) = AList.delete (oldest_of [] zero_time (f (entries l))) (entries l)"
    "limiter_ok (evictOldestLocked f l)" "length (entries (evictOldestLocked f l)) < length (entries l)"
proof -
  let ?k = "oldest_of [] zero_time (f (entries l))"
  from assms(2) have st: "set (f (entries l)) = set (entries l)" by (simp add: visits_def)
  with assms(3) obtain k e es where f: "f (entries l) = (k, e) # es" by (cases "f (entries l)") auto
  have nil: "[] \<notin> fst ` set (f (entries l))" using assms(1) st by (simp add: limiter_ok_def)
  with f have "k \<noteq> []" "[] \<notin> fst ` set es" by auto
  from oldest_of_oldest [OF this, of "lastSeen e"] obtain u where
    u: "oldest_of k (lastSeen e) es = k \<and> u = lastSeen e \<or>
        (\<exists>d. (oldest_of k (lastSeen e) es, d) \<in> set es \<and> u = lastSeen d)"
      "u \<le> lastSeen e" "\<forall>e' \<in> snd ` set es. u \<le> lastSeen e'" by blast
  then obtain d where "u = lastSeen d" "(?k, d) \<in> set (f (entries l))" unfolding f by auto
  with u(2,3) st f have d: "(?k, d) \<in> set (entries l)" "\<forall>e' \<in> snd ` set (entries l). lastSeen d \<le> lastSeen e'"
    by (simp_all flip: st)
  have k: "?k \<noteq> []" using nil d(1) st by force
  then have del: "entries (evictOldestLocked f l) = AList.delete ?k (entries l)"
    by (simp add: evictOldestLocked_def Let_def)
  have "evictOldestLocked f l = l\<lparr>entries := AList.delete ?k (entries l)\<rparr>"
    using k by (simp add: evictOldestLocked_def Let_def)
  with delete_ok [OF assms(1)] have ok: "limiter_ok (evictOldestLocked f l)" by simp
  have "length (AList.delete ?k (entries l)) < length (entries l)"
    using d(1) unfolding AList.delete_eq by (intro length_filter_less) auto
  with d del ok show ?thesis using that by simp
qed

definition room :: "visit \<Rightarrow> string \<Rightarrow> gotime \<Rightarrow> LoginLimiter \<Rightarrow> LoginLimiter" where
  "room f key now l =
     (let l = pruneLocked now l in
      if map_of (entries l) key = None \<and> MaxEntries (config l) \<le> int (length (entries l))
      then evictOldestLocked f l else l)"

definition failures_of :: "string \<Rightarrow> gotime \<Rightarrow> LoginLimiter \<Rightarrow> int" where
  "failures_of key now l = (case map_of (entries (pruneLocked now l)) key of Some e \<Rightarrow> failures e | None \<Rightarrow> 0)"

lemma room_config [simp]: "config (room f key now l) = config l"
  by (simp add: room_def Let_def)

lemma RecordFailure_cases:
  obtains e d b where "RecordFailure f key now l =
      ((d, b), (room f key now l)\<lparr>entries := AList.update key e (entries (room f key now l))\<rparr>)"
    "failures e = int64 (failures_of key now l + 1)" "lastSeen e = now"
    "b \<longleftrightarrow> FailureThreshold (config l) \<le> failures e"
    "d = (if b then backoff (MaxBackoff (config l)) (failures e) (FailureThreshold (config l)) (BaseBackoff (config l)) else 0)"
    "b \<Longrightarrow> blockedUntil e = now + d"
proof -
  let ?found = "map_of (entries (pruneLocked now l)) key"
  let ?e = "(case ?found of Some e \<Rightarrow> e | None \<Rightarrow> \<lparr>failures = 0, blockedUntil = zero_time, lastSeen = zero_time\<rparr>)
    \<lparr>failures := int64 (failures_of key now l + 1), lastSeen := now\<rparr>"
  let ?b = "FailureThreshold (config l) \<le> failures ?e"
  let ?d = "if ?b then backoff (MaxBackoff (config l)) (failures ?e) (FailureThreshold (config l)) (BaseBackoff (config l)) else 0"
  have entry: "(case ?found of Some e \<Rightarrow> e | None \<Rightarrow> \<lparr>failures = 0, blockedUntil = zero_time, lastSeen = zero_time\<rparr>)
      \<lparr>failures := int64 (failures (case ?found of Some e \<Rightarrow> e |
         None \<Rightarrow> \<lparr>failures = 0, blockedUntil = zero_time, lastSeen = zero_time\<rparr>) + 1), lastSeen := now\<rparr> = ?e"
    by (simp add: failures_of_def split: option.splits)
  have run: "RecordFailure f key now l = ((?d, ?b), (room f key now l)
      \<lparr>entries := AList.update key (if ?b then ?e\<lparr>blockedUntil := now + ?d\<rparr> else ?e) (entries (room f key now l))\<rparr>)"
    unfolding RecordFailure_def Let_def entry by (simp add: room_def Let_def)
  show ?thesis
    by (rule that [OF run]) simp_all
qed

lemma room_ok:
  assumes "limiter_ok l" "visits f"
  shows "limiter_ok (room f key now l)"
    "key \<in> fst ` set (entries (room f key now l)) \<or> int (length (entries (room f key now l))) < MaxEntries (config l)"
proof -
  let ?l = "pruneLocked now l"
  note ok = prune_ok [OF assms(1), of now]
  have "limiter_ok (room f key now l) \<and> (key \<in> fst ` set (entries (room f key now l)) \<or>
      int (length (entries (room f key now l))) < MaxEntries (config l))"
  proof (cases "map_of (entries ?l) key = None \<and> MaxEntries (config ?l) \<le> int (length (entries ?l))")
    case True
    with ok have "entries ?l \<noteq> []" by (auto simp: limiter_ok_def)
    then have "limiter_ok (evictOldestLocked f ?l)" "length (entries (evictOldestLocked f ?l)) < length (entries ?l)"
      by (blast intro: evict_ok [OF ok assms(2)])+
    moreover have "int (length (entries ?l)) \<le> MaxEntries (config l)" using ok by (simp add: limiter_ok_def)
    ultimately show ?thesis using True by (simp add: room_def)
  next
    case False
    with ok show ?thesis by (auto simp: room_def Let_def map_of_eq_None_iff)
  qed
  then show "limiter_ok (room f key now l)" "key \<in> fst ` set (entries (room f key now l)) \<or>
      int (length (entries (room f key now l))) < MaxEntries (config l)" by simp_all
qed

lemma new_ok: "limiter_ok (NewLoginLimiter cfg)"
  by (simp add: NewLoginLimiter_def limiter_ok_def Let_def)

lemma retry_ok: "limiter_ok l \<Longrightarrow> limiter_ok (snd (RetryAfter key now l))"
  using prune_ok [of l now]
  by (auto simp: RetryAfter_def Let_def limiter_ok_def length_update AList.dom_update AList.distinct_update
      dest!: map_of_SomeD split: option.splits) (auto simp: rev_image_eqI)

lemma failure_ok:
  assumes "limiter_ok l" "visits f" "key \<noteq> []"
  shows "limiter_ok (snd (RecordFailure f key now l)) \<and> config (snd (RecordFailure f key now l)) = config l"
proof -
  obtain e d b where "RecordFailure f key now l =
      ((d, b), (room f key now l)\<lparr>entries := AList.update key e (entries (room f key now l))\<rparr>)"
    by (rule RecordFailure_cases)
  with update_ok [OF room_ok(1) [OF assms(1,2)] assms(3), of key now e] room_ok(2) [OF assms(1,2), of key now]
  show ?thesis by simp
qed

text \<open>
  C19: The limiter's memory is bounded. Whatever the sequence of calls and the order in which the
  map is visited, it holds at most the configured number of entries, one per key, and its configuration stays the
  normalised one, in which every limit is positive.
\<close>

theorem limiter_bounded:
  assumes "limiter_run cfg l"
  shows "distinct (map fst (entries l)) \<and> int (length (entries l)) \<le> MaxEntries (config l) \<and>
    config l = config (NewLoginLimiter cfg) \<and> 1 \<le> MaxEntries (config l) \<and> 1 \<le> FailureThreshold (config l) \<and>
    0 < BaseBackoff (config l) \<and> 0 < EntryTTL (config l)"
proof -
  from assms have "limiter_ok l \<and> config l = config (NewLoginLimiter cfg)"
  proof (induction rule: limiter_run.induct)
    case (retry l key now)
    moreover have "config (snd (RetryAfter key now l)) = config l"
      by (simp add: RetryAfter_def Let_def split: option.splits)
    ultimately show ?case using retry_ok by simp
  next
    case (failure l f key now)
    with failure_ok show ?case by simp
  next
    case (success l key)
    then show ?case using delete_ok [of l key] by (simp add: RecordSuccess_def)
  qed (simp add: new_ok)
  then show ?thesis by (auto simp: limiter_ok_def)
qed

text \<open>
  C20: Failures back off exponentially. A failure raises the count of its key by one; from the
  threshold on it blocks the key for the base delay doubled once per failure beyond the threshold,
  capped at the configured maximum.
\<close>

theorem failure_backoff:
  assumes "0 < BaseBackoff (config l)" "BaseBackoff (config l) \<le> MaxBackoff (config l)" "MaxBackoff (config l) < 2 ^ 62"
    and "0 \<le> failures_of key now l" "failures_of key now l < 2 ^ 63 - 1"
    and "RecordFailure f key now l = ((d, b), l')"
  shows "let n = failures_of key now l + 1 in
    b = (FailureThreshold (config l) \<le> n) \<and>
    d = (if b then min (MaxBackoff (config l)) (BaseBackoff (config l) * 2 ^ nat (n - FailureThreshold (config l))) else 0) \<and>
    (\<exists>e. map_of (entries l') key = Some e \<and> failures e = n \<and> lastSeen e = now \<and> (b \<longrightarrow> blockedUntil e = now + d))"
proof -
  have n: "int64 (failures_of key now l + 1) = failures_of key now l + 1"
    using assms(4,5) by (intro int64_id) simp_all
  from assms(6) show ?thesis
    by (rule_tac RecordFailure_cases [of f key now l])
      (auto simp: n Let_def AList.update_conv' backoff_closed_form [OF assms(1-3)])
qed

text \<open>
  A block lasts as announced. After a failure that blocks its key for some time, asking again within
  the life of the entry reports exactly the time left until the block ends and nothing afterwards;
  a successful login forgets the key at once.
\<close>

theorem lockout_holds:
  assumes "0 < BaseBackoff (config l)" "BaseBackoff (config l) \<le> MaxBackoff (config l)" "MaxBackoff (config l) < 2 ^ 62"
    and "RecordFailure f key now l = ((d, True), l')"
    and "now \<le> t" "t - now < EntryTTL (config l)" "EntryTTL (config l) < 2 ^ 63"
  shows "fst (RetryAfter key t l') = (if t < now + d then (now + d - t, True) else (0, False)) \<and>
    fst (RetryAfter key t (RecordSuccess key l')) = (0, False) \<and> failures_of key t (RecordSuccess key l') = 0"
proof (rule RecordFailure_cases [of f key now l])
  fix e d' b
  assume run: "RecordFailure f key now l =
      ((d', b), (room f key now l)\<lparr>entries := AList.update key e (entries (room f key now l))\<rparr>)"
    and e: "lastSeen e = now" "b \<longleftrightarrow> FailureThreshold (config l) \<le> failures e"
      "d' = (if b then backoff (MaxBackoff (config l)) (failures e) (FailureThreshold (config l)) (BaseBackoff (config l)) else 0)"
      "b \<Longrightarrow> blockedUntil e = now + d'"
  from run assms(4) have b: "b" "d' = d" and l': "config l' = config l" "map_of (entries l') key = Some e"
    by (auto simp: AList.update_conv')
  with e assms(1-3) have "d \<le> MaxBackoff (config l)" by (simp add: backoff_closed_form)
  with assms have sub: "time_Sub (now + d) t = now + d - t" if "t < now + d"
    using that by (simp add: time_Sub_def)
  have alive: "\<not> EntryTTL (config l) \<le> time_Sub t now"
    using assms(5-7) by (simp add: time_Sub_def)
  have kept: "map_of (filter (\<lambda>(_, e). \<not> EntryTTL c \<le> time_Sub t (lastSeen e)) es) key = Some e"
    if "map_of es key = Some e" "\<not> EntryTTL c \<le> time_Sub t (lastSeen e)" for es c
    using that by (induction es) auto
  have gone: "map_of (filter P (AList.delete key es)) key = None" for P es
    using AList.delete_notin_dom [of key es] by (auto simp: map_of_eq_None_iff)
  show ?thesis
    using kept [OF l'(2), of "config l"] alive b e(1,4) sub
    by (auto simp: RetryAfter_def RecordSuccess_def failures_of_def pruneLocked_def l'(1) gone Let_def)
qed

section \<open>Keys and configuration\<close>

lemma index_byte_split: "b \<notin> set xs \<Longrightarrow> index_byte b (xs @ b # ys) = Some (length xs)"
  by (simp add: index_byte_def takeWhile_append2 Let_def) (induction xs, auto)

lemma last_index_byte_split: "b \<notin> set ys \<Longrightarrow> last_index_byte b (xs @ b # ys) = Some (length xs)"
  using index_byte_split [of b "rev ys" "rev xs"] by (simp add: last_index_byte_def)

lemma SplitHostPort_plain:
  assumes "host \<noteq> []" "set (host @ port) \<inter> {CHR '':'', CHR ''['', CHR '']''} = {}"
  shows "SplitHostPort (host @ CHR '':'' # port) = Some host"
proof -
  have "hd (host @ CHR '':'' # port) \<noteq> CHR ''[''" using assms by (cases host) auto
  moreover have "last_index_byte CHR '':'' (host @ CHR '':'' # port) = Some (length host)"
    using assms by (intro last_index_byte_split) auto
  ultimately show ?thesis using assms by (auto simp: SplitHostPort_def)
qed

text \<open>
  Failures are counted per identity and address, not per connection. The key is the same
  for every source port of a host and for every spelling of the identity that differs only in
  case and surrounding white space, and it is a hexadecimal text twice as long as the digest.
\<close>

lemma abuse_key_port:
  assumes "host \<noteq> []" "set (host @ port @ port') \<inter> {CHR '':'', CHR ''['', CHR '']''} = {}"
    and "TrimSpace (host @ CHR '':'' # port) = host @ CHR '':'' # port"
    and "TrimSpace (host @ CHR '':'' # port') = host @ CHR '':'' # port'"
    and "ToLower (unicode_lower c) (TrimSpace identity) = ToLower (unicode_lower c) (TrimSpace identity')"
  shows "LoginAbuseKey c identity (host @ CHR '':'' # port) = LoginAbuseKey c identity' (host @ CHR '':'' # port') \<and>
    length (LoginAbuseKey c identity (host @ CHR '':'' # port)) =
      2 * length (sha256 c (ToLower (unicode_lower c) (TrimSpace identity) @ CHR 0x00 # host))"
proof -
  have len: "length (hex_encode s) = 2 * length s" for s
    by (induction s) (simp_all add: hex_encode_def)
  have "abuse_host (host @ CHR '':'' # port) = host" "abuse_host (host @ CHR '':'' # port') = host"
    using assms SplitHostPort_plain [of host port] SplitHostPort_plain [of host port']
    by (auto simp: abuse_host_def Int_Un_distrib2)
  then show ?thesis
    using assms(5) by (simp add: LoginAbuseKey_def len)
qed

text \<open>
  The normalised maximum can be below the normalised base: a base above one minute with a smaller
  maximum. The first block then lasts for the base, longer than the maximum.
\<close>

lemma backoff_exceeds_maximum:
  assumes "seconds 60 < BaseBackoff cfg" "MaxBackoff cfg < BaseBackoff cfg" "FailureThreshold cfg = 1"
  shows "fst (fst (RecordFailure f key now (NewLoginLimiter cfg))) > MaxBackoff (config (NewLoginLimiter cfg))"
proof -
  have cfg: "MaxBackoff (config (NewLoginLimiter cfg)) = seconds 60" "BaseBackoff (config (NewLoginLimiter cfg)) = BaseBackoff cfg"
    "FailureThreshold (config (NewLoginLimiter cfg)) = 1" "failures_of key now (NewLoginLimiter cfg) = 0"
    using assms by (simp_all add: NewLoginLimiter_def Let_def failures_of_def pruneLocked_def)
  show ?thesis
    by (rule RecordFailure_cases [of f key now "NewLoginLimiter cfg"])
      (use assms(1) in \<open>auto simp: cfg int64_id backoff.simps [of _ 1]\<close>)
qed

end
