(* ===== verification/ScenarioIdentity.thy ===== *)
theory ScenarioIdentity
  imports Mfa Limiter Demo
begin

text \<open>
  Runs of the identity, second-factor and limiter operations on the example database: every property
  of those components that has a hypothesis is applied to an input where it holds. The cryptographic
  functions are replaced by simple ones that satisfy what the properties ask of them.
\<close>

definition demo_crypto :: crypto where
  "demo_crypto =
     \<lparr>sha256 = (\<lambda>s. s), hmac_sha1 = (\<lambda>k m. replicate 20 (CHR 0x00)), gcm_seal = (\<lambda>k n p. p), gcm_open = (\<lambda>k n x. Some x),
      bcrypt_generate = (\<lambda>p. Some p), bcrypt_compare = (\<lambda>h p. h = p), unicode_lower = (\<lambda>s. s), unicode_upper = (\<lambda>s. s)\<rparr>"

abbreviation demo_key :: string where
  "demo_key \<equiv> replicate 32 (CHR ''k'')"

abbreviation demo_expiry :: gotime where
  "demo_expiry \<equiv> demo_time + seconds 3600"

section \<open>Sessions\<close>

abbreviation "demo_login \<equiv>
  EstablishSession demo_crypto (demo_env 1) ''usr_ann'' ''tok'' ''csrf'' demo_expiry demo_time demo_db"

lemma demo_login_runs: "\<not> isl (fst demo_login)"
  by code_simp

definition demo_session_db :: db where
  "demo_session_db = snd demo_login"

lemma demo_session_db_ok: "db_ok demo_session_db"
  using writes_db_ok [OF establish_session.run_writes demo_db_ok,
      of "(demo_crypto, ''usr_ann'', ''tok'', ''csrf'', demo_expiry, demo_time)" "demo_env 1"]
  by (simp add: demo_session_db_def)

lemma demo_authenticated: "\<not> isl (AuthenticatedSession demo_crypto ''tok'' demo_time demo_session_db)"
  by code_simp

theorem session_decides_witness:
  "\<exists>a. AuthenticatedSession demo_crypto ''tok'' demo_time demo_session_db = Inr a \<and> Usr_Active (Auth_User a)"
  using session_decides [OF demo_session_db_ok, of demo_crypto "''tok''" demo_time] demo_authenticated
  by (metis sum.collapse(2))

lemma demo_before_expiry: "time_text_less demo_time demo_expiry"
  by code_simp


lemma demo_sessions:
  "sessions demo_session_db = [(new_session demo_crypto 1 ''tok'' ''csrf'' demo_time demo_expiry)\<lparr>s_id := 1\<rparr>]"
  by code_simp

lemma demo_plain_times: "plain_time demo_time" "plain_time demo_expiry"
  by code_simp+

theorem session_expiry_bound_witness:
  "\<exists>a. AuthenticatedSession demo_crypto ''tok'' demo_time demo_session_db = Inr a \<and> Unix demo_time \<le> Unix demo_expiry"
proof -
  let ?s = "(new_session demo_crypto 1 ''tok'' ''csrf'' demo_time demo_expiry)\<lparr>s_id := 1\<rparr>"
  obtain a where a: "AuthenticatedSession demo_crypto ''tok'' demo_time demo_session_db = Inr a"
    using demo_authenticated by (metis sum.collapse(2))
  have "?s \<in> set (sessions demo_session_db)" "plain_time (s_expires_at ?s)" "s_token_hash ?s = HashToken demo_crypto ''tok''"
    using demo_plain_times(2) by (simp_all add: demo_sessions new_session_def)
  from session_expiry_bound [OF demo_session_db_ok demo_plain_times(1) this, of a] a show ?thesis
    by (simp add: new_session_def)
qed

theorem session_revoked_witness:
  "\<exists>db'. RevokeSession demo_crypto (demo_env 2) ''tok'' demo_time demo_session_db = (Inr (), db') \<and>
     AuthenticatedSession demo_crypto ''tok'' demo_time db' = Inl ErrNoRows"
proof -
  obtain db' where run: "RevokeSession demo_crypto (demo_env 2) ''tok'' demo_time demo_session_db = (Inr (), db')"
    by (simp add: RevokeSession_def with_tx_def demo_env_def)
  from session_revoked [OF demo_session_db_ok disjI1 [OF run]] run show ?thesis by blast
qed

abbreviation "demo_deactivate \<equiv> SetUserActive (demo_env 2) ''usr_ann'' False demo_session_db"

lemma demo_deactivate_runs: "\<not> isl (fst demo_deactivate)"
  by code_simp

theorem deactivated_locked_out_witness:
  "\<exists>db'. demo_deactivate = (Inr (), db') \<and> sessions db' = sessions demo_session_db \<and>
     isl (fst (CreateSession demo_crypto (demo_env 3) (TrimSpace ''usr_ann'') ''t'' ''k'' demo_expiry db'))"
proof -
  obtain v db' where run: "demo_deactivate = (Inr v, db')" using demo_deactivate_runs by (rule ranE)
  from deactivated_locked_out [OF demo_session_db_ok run, of demo_crypto "''tok''" demo_time undefined "demo_env 3"] run
  show ?thesis by auto
qed

abbreviation "demo_signup \<equiv>
  CreateUser demo_crypto (demo_env 1)
    \<lparr>Usr_ID = ''usr_new'', Usr_Email = ''New@x.io'', Usr_DisplayName = ''New'', Usr_PasswordHash = [], Usr_Active = True,
     Usr_MFAEnabled = False, Usr_CreatedAt = demo_time, Usr_LastLoginAt = None\<rparr> ''correct horse battery'' demo_db"

lemma demo_signup_runs: "\<not> isl (fst demo_signup)"
  by code_simp

theorem credential_roundtrip_witness:
  "\<exists>u db' cred. demo_signup = (Inr u, db') \<and> FindLoginCredential demo_crypto ''New@x.io'' db' = Some cred \<and>
     CheckPassword demo_crypto (Cred_PasswordHash cred) ''correct horse battery''"
proof -
  obtain u db' where run: "demo_signup = (Inr u, db')" using demo_signup_runs by (rule ranE)
  have "bcrypt_compare demo_crypto h p" if "bcrypt_generate demo_crypto p = Some h" for p h
    using that by (simp add: demo_crypto_def)
  from credential_roundtrip [OF demo_db_ok run this, of "''New@x.io''" undefined "demo_env 2" "[]"] run
  show ?thesis by auto
qed

section \<open>Second factors\<close>

abbreviation demo_sealed :: string where
  "demo_sealed \<equiv> replicate 12 (CHR ''n'') @ ''JBSWY3DPEHPK3PXP''"

definition demo_mfa_db :: db where
  "demo_mfa_db = demo_db
     \<lparr>users := [(demo_user 1 ''usr_ann'' ''ann@x.io'')\<lparr>u_mfa_enabled := True, u_mfa_secret := Some demo_sealed\<rparr>,
                demo_user 2 ''usr_bob'' ''bob@x.io'', demo_user 3 ''usr_eve'' ''eve@x.io'', demo_user 4 ''usr_sys'' ''sys@x.io''],
      mfa_recovery_codes := [\<lparr>rc_id = 1, rc_user_id = 1, rc_code_hash = ''ABCD'', rc_created_at = demo_time, rc_used_at = None\<rparr>],
      mfa_enrollments := [\<lparr>e_id = 1, e_user_id = 2, e_token_hash = HashToken demo_crypto ''enrol'', e_secret = demo_sealed,
                           e_expires_at = demo_expiry, e_attempts = 0, e_created_at = demo_time, e_used_at = None\<rparr>]\<rparr>"

lemma demo_mfa_db_ok: "db_ok demo_mfa_db"
  by (simp add: db_ok_def table_ok_defs demo_mfa_db_def demo_db_def initial_db_def demo_user_def new_om_def new_wm_def
      ids_up_def unique_key_def contiguous_def lane_def nocase_def ascii_lower_def check_om_role_def check_wm_role_def
      om_owner_def ent_active_def upa_active_def fk_defs fk_def)

abbreviation "demo_verify \<equiv>
  VerifyMFA demo_crypto demo_key ((demo_env 1)\<lparr>time_now := seconds 90\<rparr>) ''usr_ann'' ''000000'' demo_mfa_db"

lemma demo_verify_runs: "fst demo_verify = Inr True"
  by code_simp

theorem mfa_no_replay_witness:
  "\<exists>db' u'. demo_verify = (Inr True, db') \<and> active_row ''usr_ann'' db' = Some u' \<and> 0 < u_mfa_last_step u'"
proof -
  obtain db' where run: "demo_verify = (Inr True, db')" using demo_verify_runs by (metis prod.collapse)
  have "active_row ''usr_ann'' demo_mfa_db = Some ((demo_user 1 ''usr_ann'' ''ann@x.io'')
      \<lparr>u_mfa_enabled := True, u_mfa_secret := Some demo_sealed\<rparr>)"
    by (simp add: active_row_def demo_mfa_db_def demo_user_def)
  with mfa_no_replay [OF demo_mfa_db_ok run demo_env_begin [of 2]] run show ?thesis
    by (auto simp: demo_env_def demo_user_def)
qed

abbreviation "demo_recover \<equiv> UseRecoveryCode demo_crypto (demo_env 1) ''usr_ann'' ''ab-cd'' demo_time demo_mfa_db"

lemma demo_recover_runs: "fst demo_recover = Inr True"
  by code_simp

theorem recovery_single_use_witness:
  "\<exists>db'. demo_recover = (Inr True, db') \<and> count_where (\<lambda>q. rc_used_at q = None) (mfa_recovery_codes db') = 0"
proof -
  obtain db' where run: "demo_recover = (Inr True, db')" using demo_recover_runs by (metis prod.collapse)
  have "count_where (\<lambda>q. rc_used_at q = None) (mfa_recovery_codes demo_mfa_db) = 1"
    by (simp add: count_where_def demo_mfa_db_def)
  with recovery_single_use [OF demo_mfa_db_ok run] run show ?thesis by auto
qed

abbreviation demo_hashes :: "string list" where
  "demo_hashes \<equiv> [''h0'', ''h1'', ''h2'', ''h3'', ''h4'', ''h5'', ''h6'', ''h7'', ''h8'', ''h9'']"

abbreviation "demo_enrol \<equiv>
  CompleteMFAEnrollment demo_crypto demo_key (demo_env 1) ''usr_bob'' ''enrol'' ''000000'' demo_hashes demo_time demo_mfa_db"

lemma demo_enrol_runs: "fst demo_enrol = Inr True"
  by code_simp

theorem enrollment_completes_witness:
  "\<exists>db' r u. demo_enrol = (Inr True, db') \<and>
    open_enrollment (HashToken demo_crypto ''enrol'') ''usr_bob'' demo_mfa_db = Some (r, u) \<and>
    map rc_code_hash (filter (\<lambda>q. rc_user_id q = u_id u \<and> rc_used_at q = None) (mfa_recovery_codes db')) = demo_hashes"
proof -
  obtain db' where run: "demo_enrol = (Inr True, db')" using demo_enrol_runs by (metis prod.collapse)
  from enrollment_completes [OF run] obtain r u where
    "open_enrollment (HashToken demo_crypto ''enrol'') ''usr_bob'' demo_mfa_db = Some (r, u)"
    "map rc_code_hash (filter (\<lambda>q. rc_user_id q = u_id u \<and> rc_used_at q = None) (mfa_recovery_codes db')) = demo_hashes"
    by (elim exE conjE)
  with run show ?thesis by (intro exI conjI)
qed

section \<open>The limiter\<close>

abbreviation demo_limits :: LoginLimiterConfig where
  "demo_limits \<equiv> \<lparr>FailureThreshold = 1, BaseBackoff = 10, MaxBackoff = 100, EntryTTL = 1000, MaxEntries = 2\<rparr>"

abbreviation "demo_failure \<equiv> RecordFailure (\<lambda>xs. xs) ''key'' 0 (NewLoginLimiter demo_limits)"

lemma demo_limits_kept: "config (NewLoginLimiter demo_limits) = demo_limits"
  by (simp add: NewLoginLimiter_def)

theorem limiter_bounded_witness:
  "length (entries (snd demo_failure)) \<le> 2"
proof -
  have "visits (\<lambda>xs. xs)" by (simp add: visits_def)
  then have "limiter_run demo_limits (snd demo_failure)"
    by (intro limiter_run.failure limiter_run.start) simp_all
  note bounds = limiter_bounded [OF this, unfolded demo_limits_kept, THEN conjunct2]
  from bounds [THEN conjunct1] bounds [THEN conjunct2, THEN conjunct1] show ?thesis by simp
qed

lemma demo_failure_runs: "fst demo_failure = (10, True)"
  by code_simp

theorem failure_backoff_witness:
  "\<exists>l' e. demo_failure = ((10, True), l') \<and> map_of (entries l') ''key'' = Some e \<and> failures e = 1 \<and> blockedUntil e = 10"
proof -
  obtain l' where run: "demo_failure = ((10, True), l')" using demo_failure_runs by (metis prod.collapse)
  have "failures_of ''key'' 0 (NewLoginLimiter demo_limits) = 0"
    by (simp add: failures_of_def pruneLocked_def NewLoginLimiter_def)
  with failure_backoff [OF _ _ _ _ _ run] run show ?thesis by (auto simp: demo_limits_kept Let_def)
qed

theorem lockout_holds_witness:
  "\<exists>l'. demo_failure = ((10, True), l') \<and> fst (RetryAfter ''key'' 4 l') = (6, True) \<and>
     fst (RetryAfter ''key'' 4 (RecordSuccess ''key'' l')) = (0, False)"
proof -
  obtain l' where run: "demo_failure = ((10, True), l')" using demo_failure_runs by (metis prod.collapse)
  from lockout_holds [OF _ _ _ run, of 4] run show ?thesis by (simp add: demo_limits_kept)
qed

end
