(* ===== verification/Projections.thy ===== *)
theory Projections
  imports Outbox "HOL-Library.Multiset"
begin

text \<open>
  The consumer side of the event feed (\<^verbatim>\<open>internal/db/sqlite/projections.go\<close>, types in
  \<^verbatim>\<open>internal/store/projections.go\<close>): every consumer keeps an inbox of events and one checkpoint per
  aggregate, its lane. Events of a lane may arrive in any order and more than once; the checkpoint
  says up to which sequence number they have been applied.

  Sequence numbers are 64-bit in the code and unbounded here: a lane only reaches a number after
  all the smaller ones have been applied.
\<close>

section \<open>Validation\<close>

definition consumer_char :: "char \<Rightarrow> bool" where
  "consumer_char c \<longleftrightarrow>
     (let n = byte c in (97 \<le> n \<and> n \<le> 122) \<or> (48 \<le> n \<and> n \<le> 57) \<or> c = CHR ''.'' \<or> c = CHR ''_'' \<or> c = CHR ''-'')"

definition validateProjectionConsumer :: "string \<Rightarrow> unit result" where
  "validateProjectionConsumer value0 =
     (let value = TrimSpace value0 in
      if value = [] \<or> 100 < length value \<or> \<not> list_all consumer_char value
      then Inl (Store ErrInvalidProjectionConsumer) else Inr ())"

definition validateProjectionAggregate :: "string \<Rightarrow> string \<Rightarrow> unit result" where
  "validateProjectionAggregate aggregateType aggregateID =
     (if TrimSpace aggregateType = [] \<or> 50 < length aggregateType \<or> TrimSpace aggregateID = [] \<or> 200 < length aggregateID
      then Inl (ErrNew ''projection aggregate identity is invalid'') else Inr ())"

text \<open>The result is the reason to block the event, empty for none.\<close>

definition validateProjectionSourceEvent :: "OutboxEvent \<Rightarrow> string result" where
  "validateProjectionSourceEvent event =
     (if \<not> valid_id ''evt_'' (EventID event) \<or> MaxEventIDLength < length (EventID event)
      then Inl (ErrNew ''projection event identity is invalid'')
      else if TrimSpace (EventType event) = [] \<or> 200 < length (EventType event) \<or> Sequence event \<le> 0 \<or>
              SchemaVersion event \<le> 0 \<or> IsZero (OccurredAt event)
      then Inl (ErrNew ''projection event envelope is invalid'')
      else attempt (validateProjectionAggregate (AggregateType event) (AggregateID event)) (\<lambda>_.
        if Payload event = [] \<or> MaxPayloadBytes < length (Payload event) \<or> \<not> json_Valid (Payload event)
        then Inl (ErrNew ''projection event payload is invalid'')
        else if SchemaVersion event \<noteq> SchemaVersion1 then Inr ''unknown_schema_version''
        else if isl (Event_Validate event) then Inr ''invalid_event''
        else Inr []))"

section \<open>Records\<close>

record ProjectionInboxEvent =
  Pie_ConsumerKey :: string
  Pie_EventID :: string
  Pie_EventType :: string
  Pie_AggregateType :: string
  Pie_AggregateID :: string
  Pie_Sequence :: int
  Pie_SchemaVersion :: int
  Pie_OccurredAt :: gotime
  Pie_Payload :: string
  Pie_State :: string
  Pie_Reason :: string
  Pie_ReceivedAt :: gotime
  Pie_AppliedAt :: "gotime option"

record ProjectionIngestResult =
  Ingest_Outcome :: string
  Ingest_State :: string
  Ingest_Reason :: string

text \<open>\<^verbatim>\<open>store.ProjectionCheckpoint\<close> has the columns of its table.\<close>

type_synonym ProjectionCheckpoint = checkpoint_row

record ProjectionReconciliation =
  Recon_Checkpoint :: ProjectionCheckpoint
  Recon_Promoted :: nat

section \<open>Reading\<close>

definition scanProjectionInbox :: "inbox_row \<Rightarrow> ProjectionInboxEvent" where
  "scanProjectionInbox r =
     \<lparr>Pie_ConsumerKey = ib_consumer_key r, Pie_EventID = ib_event_id r, Pie_EventType = ib_event_type r,
      Pie_AggregateType = ib_aggregate_type r, Pie_AggregateID = ib_aggregate_id r, Pie_Sequence = ib_sequence r,
      Pie_SchemaVersion = ib_schema_version r, Pie_OccurredAt = ib_occurred_at r, Pie_Payload = ib_payload r,
      Pie_State = ib_state r, Pie_Reason = ib_reason r, Pie_ReceivedAt = ib_received_at r,
      Pie_AppliedAt = ib_applied_at r\<rparr>"

definition readProjectionInboxByEvent :: "string \<Rightarrow> string \<Rightarrow> db \<Rightarrow> ProjectionInboxEvent option" where
  "readProjectionInboxByEvent consumerKey eventID db =
     map_option scanProjectionInbox
       (find (\<lambda>r. ib_consumer_key r = consumerKey \<and> ib_event_id r = eventID) (platform_projection_inbox db))"

definition sameProjectionEvent :: "ProjectionInboxEvent \<Rightarrow> OutboxEvent \<Rightarrow> bool" where
  "sameProjectionEvent existing event \<longleftrightarrow>
     Pie_EventID existing = EventID event \<and> Pie_EventType existing = EventType event \<and>
     Pie_AggregateType existing = AggregateType event \<and> Pie_AggregateID existing = AggregateID event \<and>
     Pie_Sequence existing = Sequence event \<and> Pie_SchemaVersion existing = SchemaVersion event \<and>
     Pie_OccurredAt existing = OccurredAt event \<and> Pie_Payload existing = Payload event"

definition readProjectionCheckpoint :: "string \<Rightarrow> string \<Rightarrow> string \<Rightarrow> db \<Rightarrow> ProjectionCheckpoint option" where
  "readProjectionCheckpoint consumerKey aggregateType aggregateID db =
     find (\<lambda>r. cp_key r = (consumerKey, aggregateType, aggregateID)) (platform_projection_checkpoints db)"

definition zero_checkpoint :: "string \<Rightarrow> string \<Rightarrow> string \<Rightarrow> ProjectionCheckpoint" where
  "zero_checkpoint consumerKey aggregateType aggregateID =
     \<lparr>cp_consumer_key = consumerKey, cp_aggregate_type = aggregateType, cp_aggregate_id = aggregateID,
      cp_last_sequence = 0, cp_last_event_id = [], cp_state = [], cp_reason = [], cp_updated_at = zero_time\<rparr>"

definition unavailableProjectionCheckpoint :: "string \<Rightarrow> string \<Rightarrow> string \<Rightarrow> gotime \<Rightarrow> ProjectionCheckpoint" where
  "unavailableProjectionCheckpoint consumerKey aggregateType aggregateID at =
     (zero_checkpoint consumerKey aggregateType aggregateID)
       \<lparr>cp_state := ''unavailable'', cp_reason := ''not_initialized'', cp_updated_at := at\<rparr>"

section \<open>Checkpoints\<close>

definition upsertProjectionCheckpointTx :: "ProjectionCheckpoint \<Rightarrow> db \<Rightarrow> db result" where
  "upsertProjectionCheckpointTx checkpoint db = upsert_checkpoint checkpoint db"

definition upsertProjectionCheckpointAfterIngest ::
    "string \<Rightarrow> string \<Rightarrow> string \<Rightarrow> ProjectionCheckpoint option \<Rightarrow> string \<Rightarrow> string \<Rightarrow> gotime \<Rightarrow> db \<Rightarrow> db result" where
  "upsertProjectionCheckpointAfterIngest consumerKey aggregateType aggregateID found inboxState reason at db =
     (let c = (case found of Some c \<Rightarrow> c | None \<Rightarrow> zero_checkpoint consumerKey aggregateType aggregateID);
          c = (if cp_state c \<noteq> ''unavailable'' \<and> cp_state c \<noteq> ''blocked''
               then if inboxState = ''blocked'' then c\<lparr>cp_state := ''blocked'', cp_reason := reason\<rparr>
                    else if inboxState = ''gap'' then c\<lparr>cp_state := ''gap'', cp_reason := reason\<rparr>
                    else if inboxState = ''pending''
                    then if cp_state c \<noteq> ''gap'' then c\<lparr>cp_state := ''stale'', cp_reason := reason\<rparr> else c
                    else c
               else c)
      in upsertProjectionCheckpointTx (c\<lparr>cp_updated_at := at\<rparr>) db)"

text \<open>\<^verbatim>\<open>WHERE consumer_key=? AND aggregate_type=? AND aggregate_id=? AND state IN (...) ORDER BY sequence,id LIMIT 1\<close>\<close>

definition in_lane :: "string \<times> string \<times> string \<Rightarrow> inbox_row \<Rightarrow> bool" where
  "in_lane k r \<longleftrightarrow> (ib_consumer_key r, ib_aggregate_type r, ib_aggregate_id r) = k"

definition first_waiting :: "string \<times> string \<times> string \<Rightarrow> string list \<Rightarrow> db \<Rightarrow> inbox_row option" where
  "first_waiting k states db =
     find (\<lambda>r. in_lane k r \<and> ib_state r \<in> set states)
       (sort_key ib_sequence (sort_key ib_id (platform_projection_inbox db)))"

definition refreshed :: "ProjectionCheckpoint \<Rightarrow> inbox_row option \<Rightarrow> gotime \<Rightarrow> ProjectionCheckpoint" where
  "refreshed c found at =
     (let c = (case found of
           None \<Rightarrow> c\<lparr>cp_state := ''current'', cp_reason := []\<rparr>
         | Some r \<Rightarrow>
             if ib_state r = ''blocked'' then c\<lparr>cp_state := ''blocked'', cp_reason := ib_reason r\<rparr>
             else if ib_state r = ''gap'' then c\<lparr>cp_state := ''gap'', cp_reason := ib_reason r\<rparr>
             else if ib_sequence r = cp_last_sequence c + 1 then c\<lparr>cp_state := ''stale'', cp_reason := ib_reason r\<rparr>
             else c\<lparr>cp_state := ''gap'', cp_reason := ''missing_prior_sequence''\<rparr>)
      in c\<lparr>cp_updated_at := at\<rparr>)"

definition refreshProjectionCheckpointTx :: "ProjectionCheckpoint \<Rightarrow> gotime \<Rightarrow> db \<Rightarrow> (ProjectionCheckpoint \<times> db) result" where
  "refreshProjectionCheckpointTx c at db =
     (let c' = refreshed c (first_waiting (cp_key c) [''blocked'', ''gap'', ''pending''] db) at in
      exec (upsertProjectionCheckpointTx c' db) (\<lambda>db. Inr (c', db)))"

section \<open>Operations\<close>

text \<open>The state, outcome and reason a new event gets.\<close>

definition classify :: "string \<Rightarrow> ProjectionCheckpoint option \<Rightarrow> int \<Rightarrow> string \<times> string \<times> string" where
  "classify blockedReason found sequence =
     (if blockedReason \<noteq> [] then (''blocked'', ''blocked'', blockedReason)
      else case found of
        None \<Rightarrow> if sequence > 1 then (''gap'', ''gap'', ''missing_prior_sequence'')
                else (''pending'', ''accepted'', ''awaiting_apply'')
      | Some c \<Rightarrow>
          if cp_state c = ''blocked'' then (''blocked'', ''blocked'', ''prior_blocked_event'')
          else if sequence \<le> cp_last_sequence c then (''stale'', ''stale'', ''sequence_already_applied'')
          else if sequence > cp_last_sequence c + 1 then (''gap'', ''gap'', ''missing_prior_sequence'')
          else (''pending'', ''accepted'', ''awaiting_apply''))"

definition new_inbox_row :: "string \<Rightarrow> OutboxEvent \<Rightarrow> string \<Rightarrow> string \<Rightarrow> gotime \<Rightarrow> inbox_row" where
  "new_inbox_row consumerKey event state reason receivedAt =
     \<lparr>ib_id = 0, ib_consumer_key = consumerKey, ib_event_id = EventID event, ib_event_type = EventType event,
      ib_aggregate_type = AggregateType event, ib_aggregate_id = AggregateID event, ib_sequence = Sequence event,
      ib_schema_version = SchemaVersion event, ib_occurred_at = OccurredAt event, ib_payload = Payload event,
      ib_state = state, ib_reason = reason, ib_received_at = receivedAt, ib_applied_at = None\<rparr>"

definition ingestTx :: "string \<Rightarrow> OutboxEvent \<Rightarrow> string \<Rightarrow> gotime \<Rightarrow> db \<Rightarrow> (ProjectionIngestResult \<times> db option) result" where
  "ingestTx consumerKey event blockedReason receivedAt db =
     (case readProjectionInboxByEvent consumerKey (EventID event) db of
        Some existing \<Rightarrow>
          if \<not> sameProjectionEvent existing event then Inl (Store ErrProjectionEventConflict)
          else Inr (\<lparr>Ingest_Outcome = ''duplicate'', Ingest_State = Pie_State existing,
                     Ingest_Reason = Pie_Reason existing\<rparr>, None)
      | None \<Rightarrow>
          let found = readProjectionCheckpoint consumerKey (AggregateType event) (AggregateID event) db;
              (inboxState, outcome, reason) = classify blockedReason found (Sequence event)
          in exec (insert_inbox (new_inbox_row consumerKey event inboxState reason receivedAt) db) (\<lambda>db.
             exec (upsertProjectionCheckpointAfterIngest consumerKey (AggregateType event) (AggregateID event)
                     found inboxState reason receivedAt db) (\<lambda>db.
             Inr (\<lparr>Ingest_Outcome = outcome, Ingest_State = inboxState, Ingest_Reason = reason\<rparr>, Some db))))"

definition IngestPlatformProjectionEvent ::
    "env \<Rightarrow> string \<Rightarrow> OutboxEvent \<Rightarrow> gotime \<Rightarrow> db \<Rightarrow> ProjectionIngestResult result \<times> db" where
  "IngestPlatformProjectionEvent e consumerKey0 event receivedAt db =
     (let consumerKey = TrimSpace consumerKey0 in
      prepare db
       (attempt (validateProjectionConsumer consumerKey) (\<lambda>_.
        if IsZero receivedAt then Inl (ErrNew ''projection receive time is required'')
        else validateProjectionSourceEvent event))
       (\<lambda>blockedReason. run_tx e db (ingestTx consumerKey event blockedReason receivedAt)))"

definition ListPlatformProjectionInbox :: "string \<Rightarrow> int \<Rightarrow> db \<Rightarrow> ProjectionInboxEvent list result" where
  "ListPlatformProjectionInbox consumerKey0 limit db =
     (let consumerKey = TrimSpace consumerKey0 in
      attempt (validateProjectionConsumer consumerKey) (\<lambda>_.
      if limit \<le> 0 \<or> 1000 < limit then Inl (Store ErrInvalidProjectionLimit)
      else Inr (map scanProjectionInbox (take (nat limit)
        (filter (\<lambda>r. ib_consumer_key r = consumerKey) (sort_key ib_id (platform_projection_inbox db)))))))"

definition applyTx :: "string \<Rightarrow> string \<Rightarrow> gotime \<Rightarrow> db \<Rightarrow> (unit \<times> db option) result" where
  "applyTx consumerKey eventID appliedAt db =
     attempt (need (Store ErrProjectionInboxNotFound) (readProjectionInboxByEvent consumerKey (TrimSpace eventID) db)) (\<lambda>event.
     if Pie_State event = ''applied'' then Inr ((), None)
     else if Pie_State event = ''blocked'' then Inl (Store ErrProjectionBlocked)
     else if Pie_State event = ''gap'' then Inl (Store ErrProjectionGap)
     else if Pie_State event \<noteq> ''pending'' then Inl (Store ErrProjectionNotReady)
     else case readProjectionCheckpoint consumerKey (Pie_AggregateType event) (Pie_AggregateID event) db of
       None \<Rightarrow> Inl (Store ErrProjectionBlocked)
     | Some c \<Rightarrow>
         if cp_state c = ''blocked'' then Inl (Store ErrProjectionBlocked)
         else if cp_state c = ''unavailable'' then Inl (Store ErrProjectionUnavailable)
         else if Pie_Sequence event \<noteq> cp_last_sequence c + 1
         then (if Pie_Sequence event > cp_last_sequence c + 1 then Inl (Store ErrProjectionGap)
               else Inl (Store ErrProjectionNotReady))
         else call (refreshProjectionCheckpointTx
                 (c\<lparr>cp_last_sequence := Pie_Sequence event, cp_last_event_id := Pie_EventID event\<rparr>) appliedAt
                 (apply_inbox consumerKey (Pie_EventID event) appliedAt db)) (\<lambda>_ db.
              Inr ((), Some db)))"

definition MarkPlatformProjectionEventApplied :: "env \<Rightarrow> string \<Rightarrow> string \<Rightarrow> gotime \<Rightarrow> db \<Rightarrow> unit result \<times> db" where
  "MarkPlatformProjectionEventApplied e consumerKey0 eventID appliedAt db =
     (let consumerKey = TrimSpace consumerKey0 in
      prepare db
       (attempt (validateProjectionConsumer consumerKey) (\<lambda>_.
        if TrimSpace eventID = [] \<or> IsZero appliedAt then Inl (ErrNew ''projection event and apply time are required'')
        else Inr ()))
       (\<lambda>_. run_tx e db (applyTx consumerKey eventID appliedAt)))"

text \<open>
  The loop \<^verbatim>\<open>for promoted < limit\<close> leaves after its first round in every case, and the limit is
  at least one: it promotes the first gap when that is the next event of the lane.
\<close>

definition reconcileTx ::
    "string \<Rightarrow> string \<Rightarrow> string \<Rightarrow> gotime \<Rightarrow> db \<Rightarrow> (ProjectionReconciliation \<times> db option) result" where
  "reconcileTx consumerKey aggregateType aggregateID at db =
     (case readProjectionCheckpoint consumerKey aggregateType aggregateID db of
        None \<Rightarrow> Inr (\<lparr>Recon_Checkpoint = unavailableProjectionCheckpoint consumerKey aggregateType aggregateID at,
                      Recon_Promoted = 0\<rparr>, None)
      | Some c \<Rightarrow>
          if cp_state c = ''blocked'' \<or> cp_state c = ''unavailable''
          then Inr (\<lparr>Recon_Checkpoint = c, Recon_Promoted = 0\<rparr>, None)
          else let (promoted, db) =
                 (case first_waiting (consumerKey, aggregateType, aggregateID) [''gap''] db of
                    None \<Rightarrow> (0, db)
                  | Some r \<Rightarrow> if ib_sequence r \<noteq> cp_last_sequence c + 1 then (0, db) else (1, promote_inbox (ib_id r) db))
               in call (refreshProjectionCheckpointTx c at db) (\<lambda>c db.
                  Inr (\<lparr>Recon_Checkpoint = c, Recon_Promoted = promoted\<rparr>, Some db)))"

definition lane_inputs :: "string \<Rightarrow> string \<Rightarrow> string \<Rightarrow> unit result" where
  "lane_inputs consumerKey aggregateType aggregateID =
     attempt (validateProjectionConsumer consumerKey) (\<lambda>_. validateProjectionAggregate aggregateType aggregateID)"

definition ReconcilePlatformProjection ::
    "env \<Rightarrow> string \<Rightarrow> string \<Rightarrow> string \<Rightarrow> int \<Rightarrow> gotime \<Rightarrow> db \<Rightarrow> ProjectionReconciliation result \<times> db" where
  "ReconcilePlatformProjection e consumerKey0 aggregateType aggregateID limit reconciledAt db =
     (let consumerKey = TrimSpace consumerKey0 in
      prepare db
       (attempt (lane_inputs consumerKey aggregateType aggregateID) (\<lambda>_.
        if limit \<le> 0 \<or> 1000 < limit then Inl (Store ErrInvalidProjectionLimit)
        else if IsZero reconciledAt then Inl (ErrNew ''projection reconciliation time is required'')
        else Inr ()))
       (\<lambda>_. run_tx e db (reconcileTx consumerKey aggregateType aggregateID reconciledAt)))"

definition GetPlatformProjectionCheckpoint ::
    "env \<Rightarrow> string \<Rightarrow> string \<Rightarrow> string \<Rightarrow> db \<Rightarrow> ProjectionCheckpoint result" where
  "GetPlatformProjectionCheckpoint e consumerKey0 aggregateType aggregateID db =
     (let consumerKey = TrimSpace consumerKey0 in
      attempt (lane_inputs consumerKey aggregateType aggregateID) (\<lambda>_.
      case readProjectionCheckpoint consumerKey aggregateType aggregateID db of
        None \<Rightarrow> Inr (unavailableProjectionCheckpoint consumerKey aggregateType aggregateID (time_now e))
      | Some c \<Rightarrow> Inr c))"

definition MarkPlatformProjectionUnavailable ::
    "env \<Rightarrow> string \<Rightarrow> string \<Rightarrow> string \<Rightarrow> string \<Rightarrow> gotime \<Rightarrow> db \<Rightarrow> unit result \<times> db" where
  "MarkPlatformProjectionUnavailable e consumerKey0 aggregateType aggregateID reason0 at db =
     (let consumerKey = TrimSpace consumerKey0; reason = TrimSpace reason0 in
      prepare db
       (attempt (lane_inputs consumerKey aggregateType aggregateID) (\<lambda>_.
        if reason = [] \<or> 500 < length reason \<or> IsZero at
        then Inl (ErrNew ''projection unavailable reason and time are required'') else Inr ()))
       (\<lambda>_. with_tx e db (\<lambda>db.
          let c = (case readProjectionCheckpoint consumerKey aggregateType aggregateID db of
                None \<Rightarrow> zero_checkpoint consumerKey aggregateType aggregateID | Some c \<Rightarrow> c)
          in exec (upsertProjectionCheckpointTx
                (c\<lparr>cp_state := ''unavailable'', cp_reason := reason, cp_updated_at := at\<rparr>) db) (\<lambda>db.
             Inr ((), db)))))"

definition resumeTx :: "string \<Rightarrow> string \<Rightarrow> string \<Rightarrow> gotime \<Rightarrow> db \<Rightarrow> (ProjectionCheckpoint \<times> db option) result" where
  "resumeTx consumerKey aggregateType aggregateID at db =
     (case readProjectionCheckpoint consumerKey aggregateType aggregateID db of
        None \<Rightarrow> Inr (unavailableProjectionCheckpoint consumerKey aggregateType aggregateID at, None)
      | Some c \<Rightarrow>
          if cp_state c \<noteq> ''unavailable'' then Inr (c, None)
          else call (refreshProjectionCheckpointTx c at db) (\<lambda>c db. Inr (c, Some db)))"

definition ResumePlatformProjection ::
    "env \<Rightarrow> string \<Rightarrow> string \<Rightarrow> string \<Rightarrow> gotime \<Rightarrow> db \<Rightarrow> ProjectionCheckpoint result \<times> db" where
  "ResumePlatformProjection e consumerKey0 aggregateType aggregateID at db =
     (let consumerKey = TrimSpace consumerKey0 in
      prepare db
       (attempt (lane_inputs consumerKey aggregateType aggregateID) (\<lambda>_.
        if IsZero at then Inl (ErrNew ''projection resume time is required'') else Inr ()))
       (\<lambda>_. run_tx e db (resumeTx consumerKey aggregateType aggregateID at)))"

section \<open>Every operation is a sequence of statements\<close>

abbreviation lane_tables :: "tbl set" where
  "lane_tables \<equiv> {Inbox, Checkpoints}"

lemma upsert_writes: "upsertProjectionCheckpointTx c db = Inr db' \<Longrightarrow> writes lane_tables db db'"
  by (auto simp: upsertProjectionCheckpointTx_def intro: exec_writes)

lemma refresh_Inr:
  "refreshProjectionCheckpointTx c at db = Inr (c', db') \<longleftrightarrow>
     c' = refreshed c (first_waiting (cp_key c) [''blocked'', ''gap'', ''pending''] db) at \<and>
     upsertProjectionCheckpointTx c' db = Inr db'"
  by (auto simp: refreshProjectionCheckpointTx_def Let_def tx_simps)

lemma ingestTx_writes: "ingestTx k ev b at db = Inr (a, Some d) \<Longrightarrow> writes lane_tables db d"
  unfolding ingestTx_def upsertProjectionCheckpointAfterIngest_def
  by (auto simp: tx_simps Let_def split: option.splits prod.splits if_splits
      intro: writes_trans [OF exec_writes(16) upsert_writes])

lemma applyTx_writes: "applyTx k i at db = Inr (a, Some d) \<Longrightarrow> writes lane_tables db d"
  unfolding applyTx_def
  by (auto simp: tx_simps refresh_Inr split: option.splits if_splits
      intro: writes_trans [OF update_writes(16) upsert_writes])

lemma reconcileTx_writes: "reconcileTx k t i at db = Inr (a, Some d) \<Longrightarrow> writes lane_tables db d"
  unfolding reconcileTx_def
  by (auto simp: tx_simps refresh_Inr Let_def split: option.splits if_splits prod.splits
      intro: upsert_writes writes_trans [OF update_writes(17) upsert_writes])

lemma resumeTx_writes: "resumeTx k t i at db = Inr (a, Some d) \<Longrightarrow> writes lane_tables db d"
  unfolding resumeTx_def
  by (auto simp: tx_simps refresh_Inr split: option.splits if_splits intro: upsert_writes)

section \<open>Events are applied once and in order\<close>

definition applied_sequences :: "string \<times> string \<times> string \<Rightarrow> db \<Rightarrow> int list" where
  "applied_sequences k db =
     map ib_sequence (filter (\<lambda>r. in_lane k r \<and> ib_state r = ''applied'') (platform_projection_inbox db))"

definition last_applied :: "string \<times> string \<times> string \<Rightarrow> db \<Rightarrow> int" where
  "last_applied k db =
     (case find (\<lambda>c. cp_key c = k) (platform_projection_checkpoints db) of None \<Rightarrow> 0 | Some c \<Rightarrow> cp_last_sequence c)"

text \<open>In every lane the applied events are those numbered from one up to the checkpoint, each once.\<close>

definition applied_in_order :: "db \<Rightarrow> bool" where
  "applied_in_order db \<longleftrightarrow> (\<forall>k. 0 \<le> last_applied k db \<and> mset (applied_sequences k db) = mset [1..last_applied k db])"

lemma find_replace:
  "find (\<lambda>c. cp_key c = k) (update_where (\<lambda>q. cp_key q = cp_key r) (\<lambda>_. r) rows) =
     (if k = cp_key r \<and> (\<exists>q \<in> set rows. cp_key q = k) then Some r else find (\<lambda>c. cp_key c = k) rows)"
  by (induction rows) (auto simp: update_where_def)

lemma find_snoc: "find P (rows @ [r]) = (case find P rows of Some q \<Rightarrow> Some q | None \<Rightarrow> if P r then Some r else None)"
  by (induction rows) auto

lemma find_upsert:
  "find (\<lambda>c. cp_key c = k) (if taken every cp_key r rows then update_where (\<lambda>q. cp_key q = cp_key r) (\<lambda>_. r) rows
      else rows @ [r]) =
   (if k = cp_key r then Some r else find (\<lambda>c. cp_key c = k) rows)"
proof (cases "taken every cp_key r rows")
  case True
  then have "\<exists>q \<in> set rows. cp_key q = cp_key r" by (simp add: taken_def list_ex_iff)
  then show ?thesis using True by (simp only: find_replace if_True) auto
next
  case False
  then have "find (\<lambda>c. cp_key c = cp_key r) rows = None" by (auto simp: taken_def list_ex_iff find_None_iff)
  with False show ?thesis by (simp add: find_snoc split: option.splits)
qed

lemma last_applied_upsert:
  assumes "upsertProjectionCheckpointTx c db = Inr db'"
  shows "last_applied k db' = (if k = cp_key c then cp_last_sequence c else last_applied k db)"
    "applied_sequences k db' = applied_sequences k db"
  using assms find_upsert [of k c "platform_projection_checkpoints db"]
  by (auto simp: upsertProjectionCheckpointTx_def upsert_checkpoint_def last_applied_def applied_sequences_def
      split: if_splits)

lemma last_applied_read:
  "last_applied (ck, t, i) db = (case readProjectionCheckpoint ck t i db of None \<Rightarrow> 0 | Some c \<Rightarrow> cp_last_sequence c)"
  by (simp add: last_applied_def readProjectionCheckpoint_def)

lemma readProjectionCheckpoint_key: "readProjectionCheckpoint ck t i db = Some c \<Longrightarrow> cp_key c = (ck, t, i)"
  by (auto simp: readProjectionCheckpoint_def dest: find_SomeD)

lemma refreshed_fields [simp]:
  "cp_consumer_key (refreshed c f at) = cp_consumer_key c" "cp_aggregate_type (refreshed c f at) = cp_aggregate_type c"
  "cp_aggregate_id (refreshed c f at) = cp_aggregate_id c" "cp_last_sequence (refreshed c f at) = cp_last_sequence c"
  by (simp_all add: refreshed_def Let_def split: option.splits)

lemma same_lane_state:
  assumes "upsertProjectionCheckpointTx c db1 = Inr db'" "cp_last_sequence c = last_applied (cp_key c) db1"
    "\<And>k. applied_sequences k db1 = applied_sequences k db" "\<And>k. last_applied k db1 = last_applied k db"
    "applied_in_order db"
  shows "applied_in_order db'"
  using assms by (auto simp: applied_in_order_def last_applied_upsert [OF assms(1)])

lemma insert_inbox_state:
  assumes "insert_inbox r db = Inr db'" "ib_state r \<noteq> ''applied''"
  shows "applied_sequences k db' = applied_sequences k db" "last_applied k db' = last_applied k db"
  using assms by (auto simp: insert_inbox_def insert_row_def applied_sequences_def last_applied_def split: if_splits)

lemma promote_inbox_state:
  "applied_sequences k (promote_inbox i db) = applied_sequences k db" "last_applied k (promote_inbox i db) = last_applied k db"
proof -
  have "map ib_sequence (filter (\<lambda>r. in_lane k r \<and> ib_state r = ''applied'') (update_where (\<lambda>r. ib_id r = i \<and> ib_state r = ''gap'')
      (\<lambda>r. r\<lparr>ib_state := ''pending'', ib_reason := ''awaiting_apply''\<rparr>) rows)) =
    map ib_sequence (filter (\<lambda>r. in_lane k r \<and> ib_state r = ''applied'') rows)" for rows
    by (induction rows) (auto simp: update_where_def)
  then show "applied_sequences k (promote_inbox i db) = applied_sequences k db"
    by (simp add: applied_sequences_def promote_inbox_def)
qed (simp add: last_applied_def promote_inbox_def)

lemma filter_update_one:
  assumes "unique_key every k rows" "r \<in> set rows" "S r" "\<not> Q r" "Q (f r)"
  shows "mset (filter Q (update_where (\<lambda>q. k q = k r \<and> S q) f rows)) = add_mset (f r) (mset (filter Q rows))"
  using assms
proof (induction rows)
  case (Cons q rows)
  show ?case
  proof (cases "q = r")
    case True
    with Cons.prems(1) have "k r \<notin> k ` set rows" by (simp add: unique_key_def)
    then have "update_where (\<lambda>q. k q = k r \<and> S q) f rows = rows" by (intro update_where_none) (metis imageI)
    with True Cons.prems show ?thesis by (simp add: update_where_def)
  next
    case False
    with Cons.prems have q: "r \<in> set rows" "k q \<noteq> k r" "unique_key every k rows"
      by (auto simp: unique_key_def)
    with Cons show ?thesis by (simp add: update_where_def)
  qed
qed simp

lemma apply_inbox_state:
  assumes "inbox_ok db" "readProjectionInboxByEvent ck eid db = Some ev" "Pie_State ev = ''pending''"
  shows "mset (applied_sequences k (apply_inbox ck (Pie_EventID ev) at db)) =
      (if k = (ck, Pie_AggregateType ev, Pie_AggregateID ev) then {#Pie_Sequence ev#} else {#}) + mset (applied_sequences k db)"
    "last_applied k (apply_inbox ck (Pie_EventID ev) at db) = last_applied k db"
proof -
  let ?key = "\<lambda>r. (ib_consumer_key r, ib_event_id r)"
  let ?f = "\<lambda>r. r\<lparr>ib_state := ''applied'', ib_reason := [], ib_applied_at := Some at\<rparr>"
  let ?Q = "\<lambda>r. in_lane k r \<and> ib_state r = ''applied''"
  from assms(2) obtain r where r: "find (\<lambda>r. ib_consumer_key r = ck \<and> ib_event_id r = eid) (platform_projection_inbox db) = Some r"
    and ev: "ev = scanProjectionInbox r"
    by (auto simp: readProjectionInboxByEvent_def)
  from find_SomeD [OF r] have mem: "r \<in> set (platform_projection_inbox db)" "ib_consumer_key r = ck" "ib_event_id r = eid"
    by simp_all
  have pend: "ib_state r = ''pending''" using assms(3) ev by (simp add: scanProjectionInbox_def)
  have uniq: "unique_key every ?key (platform_projection_inbox db)" using assms(1) by (simp add: inbox_ok_def)
  have rows: "platform_projection_inbox (apply_inbox ck (Pie_EventID ev) at db) =
      update_where (\<lambda>q. ?key q = ?key r \<and> ib_state q = ''pending'') ?f (platform_projection_inbox db)"
    using mem by (simp add: apply_inbox_def ev scanProjectionInbox_def conj_assoc)
  have off: "filter ?Q (update_where U ?f rows) = filter ?Q rows"
    if "\<And>q. q \<in> set rows \<Longrightarrow> U q \<Longrightarrow> \<not> in_lane k q" for U rows
    using that by (induction rows) (auto simp: update_where_def in_lane_def)
  show "mset (applied_sequences k (apply_inbox ck (Pie_EventID ev) at db)) =
      (if k = (ck, Pie_AggregateType ev, Pie_AggregateID ev) then {#Pie_Sequence ev#} else {#}) + mset (applied_sequences k db)"
  proof (cases "in_lane k r")
    case True
    with filter_update_one [OF uniq mem(1), of "\<lambda>q. ib_state q = ''pending''" ?Q ?f] pend mem
    show ?thesis
      unfolding applied_sequences_def rows mset_map by (auto simp: in_lane_def ev scanProjectionInbox_def)
  next
    case False
    have "filter ?Q (update_where (\<lambda>q. ?key q = ?key r \<and> ib_state q = ''pending'') ?f (platform_projection_inbox db)) =
        filter ?Q (platform_projection_inbox db)"
      using unique_keyD [OF uniq _ mem(1)] False by (intro off) auto
    with False mem show ?thesis
      unfolding applied_sequences_def rows by (auto simp: in_lane_def ev scanProjectionInbox_def)
  qed
  show "last_applied k (apply_inbox ck (Pie_EventID ev) at db) = last_applied k db"
    by (simp add: last_applied_def apply_inbox_def)
qed

text \<open>
  The contract the five operations on lanes share: they are store operations on the two projection
  tables, and what they do keeps the applied events of every lane in order.
\<close>

locale lane_op = store_op lane_tables run
  for run :: "'i \<Rightarrow> env \<Rightarrow> db \<Rightarrow> 'a result \<times> db" +
  assumes ordered: "inbox_ok db \<Longrightarrow> applied_in_order db \<Longrightarrow> run i e db = (Inr a, db') \<Longrightarrow> applied_in_order db'"
begin

lemma keeps_order:
  assumes "inbox_ok db" and "applied_in_order db"
  shows "applied_in_order (snd (run i e db)) \<and> inbox_ok (snd (run i e db))"
proof -
  have "applied_in_order (snd (run i e db))"
  proof (cases "run i e db")
    case (Pair r db')
    then show ?thesis
      using assms ordered [OF assms] by (cases r) (auto dest: atomic)
  qed
  moreover have "inbox_ok (snd (run i e db))"
    using assms(1) by (rule keeps_invariant) (rule stmt_inbox_ok)
  ultimately show ?thesis by simp
qed

end

lemma after_ingest_Inr:
  assumes "upsertProjectionCheckpointAfterIngest k t i found st rs at db1 = Inr d"
    and "\<And>c. found = Some c \<Longrightarrow> cp_key c = (k, t, i)"
  obtains c where "upsertProjectionCheckpointTx c db1 = Inr d" "cp_key c = (k, t, i)"
    "cp_last_sequence c = (case found of None \<Rightarrow> 0 | Some c \<Rightarrow> cp_last_sequence c)"
proof -
  define c0 where "c0 = (case found of Some c \<Rightarrow> c | None \<Rightarrow> zero_checkpoint k t i)"
  define c1 where "c1 = (if cp_state c0 \<noteq> ''unavailable'' \<and> cp_state c0 \<noteq> ''blocked''
      then if st = ''blocked'' then c0\<lparr>cp_state := ''blocked'', cp_reason := rs\<rparr>
           else if st = ''gap'' then c0\<lparr>cp_state := ''gap'', cp_reason := rs\<rparr>
           else if st = ''pending'' then if cp_state c0 \<noteq> ''gap'' then c0\<lparr>cp_state := ''stale'', cp_reason := rs\<rparr> else c0
           else c0
      else c0)"
  have up: "upsertProjectionCheckpointTx (c1\<lparr>cp_updated_at := at\<rparr>) db1 = Inr d"
    using assms(1) unfolding upsertProjectionCheckpointAfterIngest_def Let_def c0_def [symmetric] c1_def [symmetric] .
  have "cp_key c1 = cp_key c0" "cp_last_sequence c1 = cp_last_sequence c0" by (simp_all add: c1_def)
  moreover have "cp_key c0 = (k, t, i)" using assms(2) by (cases found) (simp_all add: c0_def zero_checkpoint_def)
  moreover have "cp_last_sequence c0 = (case found of None \<Rightarrow> 0 | Some c \<Rightarrow> cp_last_sequence c)"
    by (cases found) (simp_all add: c0_def zero_checkpoint_def)
  ultimately show ?thesis by (intro that [OF up]) simp_all
qed

lemma ingestTx_order:
  assumes "applied_in_order db" "ingestTx k ev b at db = Inr (a, Some d)"
  shows "applied_in_order d"
proof -
  let ?found = "readProjectionCheckpoint k (AggregateType ev) (AggregateID ev) db"
  obtain st out rs where cl: "classify b ?found (Sequence ev) = (st, out, rs)" by (metis prod_cases3)
  have st: "st \<noteq> ''applied''" using cl by (auto simp: classify_def split: option.splits if_splits)
  from assms(2) cl obtain db1 where ins: "insert_inbox (new_inbox_row k ev st rs at) db = Inr db1"
    and af: "upsertProjectionCheckpointAfterIngest k (AggregateType ev) (AggregateID ev) ?found st rs at db1 = Inr d"
    by (auto simp: ingestTx_def tx_simps split: option.splits if_splits)
  from af obtain c where up: "upsertProjectionCheckpointTx c db1 = Inr d" and c: "cp_key c = (k, AggregateType ev, AggregateID ev)"
      "cp_last_sequence c = (case ?found of None \<Rightarrow> 0 | Some c \<Rightarrow> cp_last_sequence c)"
    by (rule after_ingest_Inr) (use readProjectionCheckpoint_key in blast)
  have "ib_state (new_inbox_row k ev st rs at) \<noteq> ''applied''" using st by (simp add: new_inbox_row_def)
  note same = insert_inbox_state [OF ins this]
  have "cp_last_sequence c = last_applied (cp_key c) db1" unfolding same(2) c(1) last_applied_read c(2) ..
  then show ?thesis by (rule same_lane_state [OF up _ same assms(1)])
qed

lemma refresh_order:
  assumes "refreshProjectionCheckpointTx c at db1 = Inr (c', d)" "cp_last_sequence c = last_applied (cp_key c) db"
    "\<And>k. applied_sequences k db1 = applied_sequences k db" "\<And>k. last_applied k db1 = last_applied k db"
    "applied_in_order db"
  shows "applied_in_order d"
proof -
  from assms(1) have up: "upsertProjectionCheckpointTx c' d' = Inr d" and "cp_key c' = cp_key c" "cp_last_sequence c' = cp_last_sequence c"
    if "d' = db1" for d' using that by (auto simp: refresh_Inr)
  then show ?thesis using assms by (intro same_lane_state [OF up [OF refl] _ assms(3-5)]) simp
qed

lemma applyTx_order:
  assumes "inbox_ok db" "applied_in_order db" "applyTx k i at db = Inr (a, Some d)"
  shows "applied_in_order d"
proof -
  from assms(3) obtain ev c where ev: "readProjectionInboxByEvent k (TrimSpace i) db = Some ev" "Pie_State ev = ''pending''"
    and c: "readProjectionCheckpoint k (Pie_AggregateType ev) (Pie_AggregateID ev) db = Some c"
      "Pie_Sequence ev = cp_last_sequence c + 1"
    and up: "upsertProjectionCheckpointTx (refreshed (c\<lparr>cp_last_sequence := Pie_Sequence ev, cp_last_event_id := Pie_EventID ev\<rparr>)
        (first_waiting (cp_key c) [''blocked'', ''gap'', ''pending''] (apply_inbox k (Pie_EventID ev) at db)) at)
        (apply_inbox k (Pie_EventID ev) at db) = Inr d"
    unfolding applyTx_def by (auto simp: tx_simps refresh_Inr split: option.splits if_splits)
  note key = readProjectionCheckpoint_key [OF c(1)]
  have last: "last_applied (k, Pie_AggregateType ev, Pie_AggregateID ev) db = cp_last_sequence c"
    by (simp add: last_applied_read c(1))
  from assms(2) last have "0 \<le> cp_last_sequence c" unfolding applied_in_order_def by metis
  then have up1: "mset [1..cp_last_sequence c + 1] = {#cp_last_sequence c + 1#} + mset [1..cp_last_sequence c]"
    by (simp add: upto_rec2 [of 1 "cp_last_sequence c + 1"])
  show ?thesis
    unfolding applied_in_order_def
  proof
    fix l
    show "0 \<le> last_applied l d \<and> mset (applied_sequences l d) = mset [1..last_applied l d]"
      using assms(2) [unfolded applied_in_order_def, rule_format, of l] key last c(2) \<open>0 \<le> cp_last_sequence c\<close> up1
      by (auto simp: last_applied_upsert [OF up] apply_inbox_state [OF assms(1) ev])
  qed
qed

lemma promote_step_state:
  assumes "(case f of None \<Rightarrow> (0, db) | Some r \<Rightarrow> if P r then (0, db) else (1, promote_inbox (ib_id r) db)) = (n :: nat, db1)"
  shows "applied_sequences k db1 = applied_sequences k db" "last_applied k db1 = last_applied k db"
  using assms by (auto simp: promote_inbox_state split: option.splits if_splits)

lemma reconcileTx_order:
  assumes "applied_in_order db" "reconcileTx k t i at db = Inr (a, Some d)"
  shows "applied_in_order d"
proof -
  from assms(2) obtain c n db1 c' where c: "readProjectionCheckpoint k t i db = Some c"
    and step: "(case first_waiting (k, t, i) [''gap''] db of None \<Rightarrow> (0, db)
        | Some r \<Rightarrow> if ib_sequence r \<noteq> cp_last_sequence c + 1 then (0, db) else (1, promote_inbox (ib_id r) db)) = (n :: nat, db1)"
    and up: "refreshProjectionCheckpointTx c at db1 = Inr (c', d)"
    unfolding reconcileTx_def
    by (auto simp: tx_simps split: option.splits if_splits prod.splits)
  have "cp_last_sequence c = last_applied (cp_key c) db"
    using readProjectionCheckpoint_key [OF c] by (simp add: last_applied_read c)
  then show ?thesis
    by (rule refresh_order [OF up _ promote_step_state [OF step] assms(1)])
qed

lemma resumeTx_order:
  assumes "applied_in_order db" "resumeTx k t i at db = Inr (a, Some d)"
  shows "applied_in_order d"
proof -
  from assms(2) obtain c c' where c: "readProjectionCheckpoint k t i db = Some c"
    and up: "refreshProjectionCheckpointTx c at db = Inr (c', d)"
    unfolding resumeTx_def by (auto simp: tx_simps split: option.splits if_splits)
  have "cp_last_sequence c = last_applied (cp_key c) db"
    using readProjectionCheckpoint_key [OF c] by (simp add: last_applied_read c)
  then show ?thesis by (rule refresh_order [OF up _ refl refl assms(1)])
qed

interpretation ingest: lane_op "\<lambda>(ck, ev, at) e. IngestPlatformProjectionEvent e ck ev at"
  by unfold_locales
    (auto simp: IngestPlatformProjectionEvent_def Let_def dest: run_method_atomic
      dest!: run_method_Inr intro: ingestTx_writes ingestTx_order)

interpretation apply_event: lane_op "\<lambda>(ck, i, at) e. MarkPlatformProjectionEventApplied e ck i at"
  by unfold_locales
    (auto simp: MarkPlatformProjectionEventApplied_def Let_def dest: run_method_atomic
      dest!: run_method_Inr intro: applyTx_writes applyTx_order)

interpretation reconcile: lane_op "\<lambda>(ck, t, i, n, at) e. ReconcilePlatformProjection e ck t i n at"
  by unfold_locales
    (auto simp: ReconcilePlatformProjection_def Let_def dest: run_method_atomic
      dest!: run_method_Inr intro: reconcileTx_writes reconcileTx_order)

interpretation resume: lane_op "\<lambda>(ck, t, i, at) e. ResumePlatformProjection e ck t i at"
  by unfold_locales
    (auto simp: ResumePlatformProjection_def Let_def dest: run_method_atomic
      dest!: run_method_Inr intro: resumeTx_writes resumeTx_order)

lemma unavailable_order:
  assumes "applied_in_order db" "upsertProjectionCheckpointTx
      ((case readProjectionCheckpoint ck t i db of None \<Rightarrow> zero_checkpoint ck t i | Some c \<Rightarrow> c)
        \<lparr>cp_state := s, cp_reason := r, cp_updated_at := at\<rparr>) db = Inr d"
  shows "applied_in_order d"
  by (rule same_lane_state [OF assms(2) _ refl refl assms(1)])
    (cases "readProjectionCheckpoint ck t i db",
      use readProjectionCheckpoint_key [of ck t i db] in \<open>simp_all add: last_applied_read zero_checkpoint_def\<close>)

interpretation unavailable: lane_op "\<lambda>(ck, t, i, r, at) e. MarkPlatformProjectionUnavailable e ck t i r at"
  by unfold_locales
    (auto simp: MarkPlatformProjectionUnavailable_def Let_def tx_simps prepare_def split: sum.splits
      dest: with_tx_Inl intro: upsert_writes unavailable_order)

text \<open>
  C21: Every consumer applies the events of an aggregate exactly once and in sequence. In each
  lane the applied events are those numbered from one to the checkpoint, no number missing and none
  twice; receiving events in any order, applying them, reconciling, and suspending and resuming a
  lane all keep this, whether the call succeeds or fails.
\<close>

theorem projection_in_order:
  assumes "inbox_ok db" and "applied_in_order db"
  shows "applied_in_order (snd (IngestPlatformProjectionEvent e ck event at db)) \<and>
    applied_in_order (snd (MarkPlatformProjectionEventApplied e ck eventID at db)) \<and>
    applied_in_order (snd (ReconcilePlatformProjection e ck aggregateType aggregateID limit at db)) \<and>
    applied_in_order (snd (MarkPlatformProjectionUnavailable e ck aggregateType aggregateID reason at db)) \<and>
    applied_in_order (snd (ResumePlatformProjection e ck aggregateType aggregateID at db))"
  using ingest.keeps_order [OF assms, of "(ck, event, at)" e] apply_event.keeps_order [OF assms, of "(ck, eventID, at)" e]
    reconcile.keeps_order [OF assms, of "(ck, aggregateType, aggregateID, limit, at)" e]
    unavailable.keeps_order [OF assms, of "(ck, aggregateType, aggregateID, reason, at)" e]
    resume.keeps_order [OF assms, of "(ck, aggregateType, aggregateID, at)" e]
  by simp

text \<open>
  Receiving an event is idempotent and never guesses. An event already in the inbox is reported
  as a duplicate and changes nothing, unless its content differs, which is a conflict. A new event is
  stored once: blocked when its schema or content is unknown or its lane is blocked, stale when its
  number was already applied, ready when it is the next of its lane, and a gap otherwise. The
  checkpoint's position does not move.
\<close>

theorem ingest_effect:
  assumes "IngestPlatformProjectionEvent e ck event at db = (Inr res, db')"
  shows "\<exists>b. validateProjectionSourceEvent event = Inr b \<and>
    (case find (\<lambda>r. ib_consumer_key r = TrimSpace ck \<and> ib_event_id r = EventID event) (platform_projection_inbox db) of
       Some r \<Rightarrow> db' = db \<and> Ingest_Outcome res = ''duplicate'' \<and> sameProjectionEvent (scanProjectionInbox r) event
     | None \<Rightarrow>
         (\<exists>i. platform_projection_inbox db' = platform_projection_inbox db @
            [(new_inbox_row (TrimSpace ck) event (Ingest_State res) (Ingest_Reason res) at)\<lparr>ib_id := i\<rparr>]) \<and>
         (\<forall>k. last_applied k db' = last_applied k db) \<and>
         Ingest_State res =
           (let n = last_applied (TrimSpace ck, AggregateType event, AggregateID event) db in
            if b \<noteq> [] \<or> (\<exists>c. readProjectionCheckpoint (TrimSpace ck) (AggregateType event) (AggregateID event) db = Some c \<and>
                           cp_state c = ''blocked'') then ''blocked''
            else if Sequence event \<le> n then ''stale'' else if Sequence event = n + 1 then ''pending'' else ''gap''))"
proof -
  let ?ck = "TrimSpace ck"
  let ?found = "readProjectionCheckpoint ?ck (AggregateType event) (AggregateID event) db"
  let ?n = "last_applied (?ck, AggregateType event, AggregateID event) db"
  from assms obtain b where b: "validateProjectionSourceEvent event = Inr b"
    and tx: "ingestTx ?ck event b at db = Inr (res, None) \<and> db' = db \<or> ingestTx ?ck event b at db = Inr (res, Some db')"
    by (auto simp: IngestPlatformProjectionEvent_def Let_def tx_simps split: if_splits)
  have pos: "0 < Sequence event" using b by (auto simp: validateProjectionSourceEvent_def split: if_splits)
  show ?thesis
  proof (cases "find (\<lambda>r. ib_consumer_key r = ?ck \<and> ib_event_id r = EventID event) (platform_projection_inbox db)")
    case (Some r)
    with tx b show ?thesis
      by (auto simp: ingestTx_def readProjectionInboxByEvent_def split: if_splits)
  next
    case None
    obtain st out rs where cl: "classify b ?found (Sequence event) = (st, out, rs)" by (metis prod_cases3)
    from tx None cl obtain db1 where ins: "insert_inbox (new_inbox_row ?ck event st rs at) db = Inr db1"
      and up: "upsertProjectionCheckpointAfterIngest ?ck (AggregateType event) (AggregateID event) ?found st rs at db1 = Inr db'"
      and res: "Ingest_State res = st" "Ingest_Reason res = rs"
      by (auto simp: ingestTx_def readProjectionInboxByEvent_def tx_simps)
    have "st \<noteq> ''applied''" using cl by (auto simp: classify_def split: option.splits if_splits)
    then have "ib_state (new_inbox_row ?ck event st rs at) \<noteq> ''applied''" by (simp add: new_inbox_row_def)
    note same = insert_inbox_state(2) [OF ins this]
    from up obtain c where c: "upsertProjectionCheckpointTx c db1 = Inr db'" "cp_key c = (?ck, AggregateType event, AggregateID event)"
        "cp_last_sequence c = (case ?found of None \<Rightarrow> 0 | Some c \<Rightarrow> cp_last_sequence c)"
      by (rule after_ingest_Inr) (use readProjectionCheckpoint_key in blast)
    have last: "last_applied k db' = last_applied k db" for k
      by (simp add: last_applied_upsert(1) [OF c(1)] same c(2,3) last_applied_read)
    from ins obtain i where "platform_projection_inbox db1 = platform_projection_inbox db @
        [(new_inbox_row ?ck event st rs at)\<lparr>ib_id := i\<rparr>]"
      by (auto simp: insert_inbox_def insert_row_def split: if_splits)
    moreover have "platform_projection_inbox db' = platform_projection_inbox db1"
      using c(1) by (auto simp: upsertProjectionCheckpointTx_def upsert_checkpoint_def split: if_splits)
    moreover have "st = (if b \<noteq> [] \<or> (\<exists>c. ?found = Some c \<and> cp_state c = ''blocked'') then ''blocked''
        else if Sequence event \<le> ?n then ''stale'' else if Sequence event = ?n + 1 then ''pending'' else ''gap'')"
      using cl pos by (auto simp: classify_def last_applied_read split: option.splits if_splits)
    ultimately show ?thesis using None b res last by (auto simp: Let_def)
  qed
qed

text \<open>
  Applying an event succeeds only for the next event of a lane that is neither blocked nor
  unavailable, and then advances the checkpoint to it; applying an applied event again does nothing.
\<close>

lemma apply_effect:
  assumes "inbox_ok db" and "MarkPlatformProjectionEventApplied e ck eventID at db = (Inr (), db')"
  shows "\<exists>r \<in> set (platform_projection_inbox db). ib_consumer_key r = TrimSpace ck \<and> ib_event_id r = TrimSpace eventID \<and>
    (ib_state r = ''applied'' \<and> db' = db \<or>
     ib_state r = ''pending'' \<and>
     (let k = (TrimSpace ck, ib_aggregate_type r, ib_aggregate_id r) in
      ib_sequence r = last_applied k db + 1 \<and> last_applied k db' = ib_sequence r \<and>
      (\<forall>l. l \<noteq> k \<longrightarrow> last_applied l db' = last_applied l db) \<and>
      (\<exists>c. find (\<lambda>c. cp_key c = k) (platform_projection_checkpoints db) = Some c \<and>
           cp_state c \<noteq> ''blocked'' \<and> cp_state c \<noteq> ''unavailable'')))"
proof -
  let ?ck = "TrimSpace ck"
  from assms(2) have tx: "applyTx ?ck eventID at db = Inr ((), None) \<and> db' = db \<or> applyTx ?ck eventID at db = Inr ((), Some db')"
    by (auto simp: MarkPlatformProjectionEventApplied_def Let_def tx_simps split: if_splits)
  then obtain r where r: "find (\<lambda>r. ib_consumer_key r = ?ck \<and> ib_event_id r = TrimSpace eventID) (platform_projection_inbox db) = Some r"
    by (auto simp: applyTx_def readProjectionInboxByEvent_def tx_simps)
  note mem = find_SomeD [OF r]
  let ?k = "(?ck, ib_aggregate_type r, ib_aggregate_id r)"
  show ?thesis
  proof (cases "ib_state r = ''applied''")
    case True
    with tx r mem show ?thesis
      by (auto simp: applyTx_def readProjectionInboxByEvent_def tx_simps scanProjectionInbox_def)
  next
    case False
    with tx r obtain c where pend: "ib_state r = ''pending''"
      and c: "find (\<lambda>c. cp_key c = ?k) (platform_projection_checkpoints db) = Some c" "cp_state c \<noteq> ''blocked''"
        "cp_state c \<noteq> ''unavailable''" "ib_sequence r = cp_last_sequence c + 1"
      and up: "upsertProjectionCheckpointTx (refreshed (c\<lparr>cp_last_sequence := ib_sequence r, cp_last_event_id := ib_event_id r\<rparr>)
          (first_waiting (cp_key c) [''blocked'', ''gap'', ''pending''] (apply_inbox ?ck (ib_event_id r) at db)) at)
          (apply_inbox ?ck (ib_event_id r) at db) = Inr db'"
      by (auto simp: applyTx_def readProjectionInboxByEvent_def readProjectionCheckpoint_def tx_simps refresh_Inr
          scanProjectionInbox_def split: option.splits if_splits)
    have key: "cp_key c = ?k" using find_SomeD [OF c(1)] by simp
    have frame: "last_applied l (apply_inbox ?ck (ib_event_id r) at db) = last_applied l db" for l
      by (simp add: last_applied_def apply_inbox_def)
    have "last_applied ?k db = cp_last_sequence c" using c(1) by (simp add: last_applied_def)
    then have "ib_sequence r = last_applied ?k db + 1" "last_applied ?k db' = ib_sequence r"
      "\<forall>l. l \<noteq> ?k \<longrightarrow> last_applied l db' = last_applied l db"
      using key c(4) by (simp_all add: last_applied_upsert(1) [OF up] frame)
    with mem pend c show ?thesis by (intro bexI [of _ r]) (simp_all add: Let_def)
  qed
qed

section \<open>Lanes that stand still\<close>

text \<open>
  Reconciling looks at the first gap of a lane only. Once a gap's number lies at or below the
  checkpoint (another event with the same number was applied), it stays the first gap, and no later
  event is promoted any more.
\<close>

lemma stale_gap_stops_reconciliation:
  assumes "ReconcilePlatformProjection e ck t i limit at db = (Inr res, db')"
    and "first_waiting (TrimSpace ck, t, i) [''gap''] db = Some r"
    and "ib_sequence r \<le> last_applied (TrimSpace ck, t, i) db"
  shows "Recon_Promoted res = 0 \<and> platform_projection_inbox db' = platform_projection_inbox db"
proof -
  from assms(1) have "db' = db \<and> reconcileTx (TrimSpace ck) t i at db = Inr (res, None) \<or>
      reconcileTx (TrimSpace ck) t i at db = Inr (res, Some db')"
    by (auto simp: ReconcilePlatformProjection_def Let_def tx_simps split: if_splits)
  with assms(2,3) show ?thesis
    by (auto simp: reconcileTx_def tx_simps last_applied_read refresh_Inr upsertProjectionCheckpointTx_def
        upsert_checkpoint_def split: option.splits if_splits)
qed

text \<open>A lane suspended before its first event is reported as current at position 0 once it is resumed.\<close>

lemma resume_empty_lane_current:
  assumes "readProjectionCheckpoint (TrimSpace ck) t i db = Some c" "cp_state c = ''unavailable''" "cp_last_sequence c = 0"
    and "\<forall>r \<in> set (platform_projection_inbox db). \<not> in_lane (TrimSpace ck, t, i) r"
    and "ResumePlatformProjection e ck t i at db = (Inr c', db')"
  shows "cp_state c' = ''current'' \<and> cp_last_sequence c' = 0"
proof -
  have "first_waiting (cp_key c) [''blocked'', ''gap'', ''pending''] db = None"
    using assms(4) readProjectionCheckpoint_key [OF assms(1)]
    by (auto simp: first_waiting_def find_None_iff)
  with assms(1-3,5) show ?thesis
    by (auto simp: ResumePlatformProjection_def Let_def tx_simps resumeTx_def refresh_Inr refreshed_def split: if_splits)
qed

end
