(* ===== verification/Decoding.thy ===== *)
theory Decoding
  imports Json
begin

text \<open>
  Reading back what the program writes, each decoder of Go's library with its round trip:

  \<^item> integers and the fields of a struct (\<^verbatim>\<open>encoding/json\<close>), with the names matched as that package
    matches them and, for \<^verbatim>\<open>Decoder.Token\<close> and \<^verbatim>\<open>RawMessage\<close>, the members of an object with their raw text;
  \<^item> times: the parser behind \<^verbatim>\<open>Time.UnmarshalJSON\<close> (\<^verbatim>\<open>parseStrictRFC3339\<close>), which takes a date, a time of
    day, an optional fraction of any length and a zone, and the calendar it needs: every instant of the
    years 0 to 9999 is read back exactly;
  \<^item> \<^verbatim>\<open>base64.RawURLEncoding.DecodeString\<close> and \<^verbatim>\<open>strings.Split\<close>.
\<close>

section \<open>Numbers\<close>

fun digits_value :: "nat \<Rightarrow> string \<Rightarrow> nat option" where
  "digits_value n [] = Some n"
| "digits_value n (c # cs) = (if is_digit c then digits_value (10 * n + (byte c - 48)) cs else None)"

lemma digits_value_append: "digits_value n (xs @ ys) = (case digits_value n xs of None \<Rightarrow> None | Some m \<Rightarrow> digits_value m ys)"
  by (induction xs arbitrary: n) auto

lemma digits_value_decimal: "digits_value 0 (decimal n) = Some n"
proof (induction n rule: decimal.induct)
  case (1 n)
  have d: "is_digit (char_of (48 + n mod 10))" "byte (char_of (48 + n mod 10)) - 48 = n mod 10"
    by (simp_all add: is_digit_char)
  show ?case
  proof (cases "n < 10")
    case True
    with d show ?thesis by (simp add: decimal.simps [of n])
  next
    case False
    with d 1 show ?thesis by (simp add: decimal.simps [of n] digits_value_append)
  qed
qed

lemma digits_value_digits: "digits_value a (digits w n) = Some (a * 10 ^ w + n mod 10 ^ w)"
proof (induction w arbitrary: a n)
  case 0
  then show ?case by simp
next
  case (Suc w)
  let ?d = "(n div 10 ^ w) mod 10"
  have d: "is_digit (char_of (48 + ?d))" "byte (char_of (48 + ?d)) - 48 = ?d"
    by (simp_all add: is_digit_char)
  have "n mod 10 ^ Suc w = 10 ^ w * ?d + n mod 10 ^ w"
    using mod_mult2_eq [of n "10 ^ w" 10] by (simp add: mult.commute)
  with d Suc [of "10 * a + ?d" "n mod 10 ^ w"] show ?case by (simp add: algebra_simps)
qed

text \<open>\<^verbatim>\<open>parseUint\<close>: digits only, and the number in the given range.\<close>

definition parseUint :: "string \<Rightarrow> int \<Rightarrow> int \<Rightarrow> int option" where
  "parseUint s lo hi =
     (case digits_value 0 s of
        None \<Rightarrow> None
      | Some n \<Rightarrow> if lo \<le> int n \<and> int n \<le> hi then Some (int n) else None)"

definition ParseInt :: "string \<Rightarrow> int option" where
  "ParseInt s =
     (let (neg, ds) = (if s \<noteq> [] \<and> hd s = CHR ''-'' then (True, tl s) else (False, s)) in
      case digits_value 0 ds of
        None \<Rightarrow> None
      | Some n \<Rightarrow> let v = (if neg then - int n else int n) in
          if ds = [] \<or> v < - (2 ^ 63) \<or> 2 ^ 63 \<le> v then None else Some v)"

definition Atoi :: "string \<Rightarrow> int option" where \<comment> \<open>\<^verbatim>\<open>strconv.Atoi\<close> and \<^verbatim>\<open>strconv.ParseInt\<close> with base ten and 64 bits: one optional sign\<close>
  "Atoi s =
     (if s \<noteq> [] \<and> hd s = CHR ''+''
      then if tl s \<noteq> [] \<and> hd (tl s) = CHR ''-'' then None else ParseInt (tl s)
      else ParseInt s)"

section \<open>Struct fields\<close>

text \<open>\<^verbatim>\<open>null\<close> leaves a field alone; a value of another type is an error.\<close>

fun set_string :: "((string \<Rightarrow> string) \<Rightarrow> 'r \<Rightarrow> 'r) \<Rightarrow> json \<Rightarrow> 'r \<Rightarrow> 'r option" where
  "set_string upd (JStr s) r = Some (upd (\<lambda>_. s) r)"
| "set_string upd JNull r = Some r"
| "set_string upd v r = None"

fun set_bool :: "((bool \<Rightarrow> bool) \<Rightarrow> 'r \<Rightarrow> 'r) \<Rightarrow> json \<Rightarrow> 'r \<Rightarrow> 'r option" where
  "set_bool upd (JBool b) r = Some (upd (\<lambda>_. b) r)"
| "set_bool upd JNull r = Some r"
| "set_bool upd v r = None"

fun set_int :: "((int \<Rightarrow> int) \<Rightarrow> 'r \<Rightarrow> 'r) \<Rightarrow> json \<Rightarrow> 'r \<Rightarrow> 'r option" where
  "set_int upd (JNum s) r = map_option (\<lambda>n. upd (\<lambda>_. n) r) (ParseInt s)"
| "set_int upd JNull r = Some r"
| "set_int upd v r = None"

lemma ParseInt_JInt:
  assumes "- (2 ^ 63) \<le> n" "n < 2 ^ 63"
  shows "set_int upd (JInt n) r = Some (upd (\<lambda>_. n) r)"
proof -
  have "\<not> (decimal m \<noteq> [] \<and> hd (decimal m) = CHR ''-'')" for m
    using decimal_digits [of m] by (cases "decimal m") (auto simp: is_digit_def byte_def)
  then have "ParseInt (if n < 0 then ''-'' @ decimal (nat (- n)) else decimal (nat n)) = Some n"
    using assms unfolding ParseInt_def Let_def by (cases "n < 0") (simp_all add: digits_value_decimal)
  then show ?thesis by (simp add: JInt_def)
qed

text \<open>
  The name of a member matches a field whatever its case. Go folds both with Unicode's simple folding;
  the only letters outside ASCII that fold into it are U+017F (to S) and U+212A (to K), and the
  names of the fields are ASCII.
\<close>

function foldName :: "string \<Rightarrow> string" where
  "foldName s =
     (if s = [] then []
      else if take 2 s = map char_of [197 :: nat, 191] then CHR ''S'' # foldName (drop 2 s)
      else if take 3 s = map char_of [226 :: nat, 132, 170] then CHR ''K'' # foldName (drop 3 s)
      else ascii_upper (hd s) # foldName (tl s))"
  by pat_completeness auto
termination
  by (relation "measure length") auto

declare foldName.simps [simp del]

section \<open>The calendar\<close>

definition leap_year :: "int \<Rightarrow> bool" where
  "leap_year y \<longleftrightarrow> y mod 4 = 0 \<and> (y mod 100 \<noteq> 0 \<or> y mod 400 = 0)"

definition daysIn :: "int \<Rightarrow> int \<Rightarrow> int" where
  "daysIn m y =
     (if m = 2 then (if leap_year y then 29 else 28)
      else if m = 4 \<or> m = 6 \<or> m = 9 \<or> m = 11 then 30 else 31)"

text \<open>The day of a date, counted from 1970-01-01; a year starts in March.\<close>

definition days_of :: "int \<Rightarrow> int \<Rightarrow> int \<Rightarrow> int" where
  "days_of y m d =
     (let (y', mp) = (if 2 < m then (y, m - 3) else (y - 1, m + 9))
      in year_start y' + (153 * mp + 2) div 5 + d - 1 - 719468)"

lemma days_of_civil: "civil n = (y, m, d) \<Longrightarrow> days_of y m d = n"
proof -
  assume c: "civil n = (y, m, d)"
  obtain mp dd where md: "month_day (n + 719468 - year_start (year_of (n + 719468))) = (mp, dd)"
    by force
  note b = month_day_bounds [OF day_of_year md]
  have "(153 * mp + 2) div 5 + dd - 1 = n + 719468 - year_start (year_of (n + 719468))"
    using md by (auto simp: month_day_def Let_def)
  with b c md show ?thesis
    by (auto simp: civil_month_day days_of_def Let_def split: if_splits)
qed

lemma int_div_step:
  assumes "0 < (k :: int)"
  shows "(y + 1) div k = y div k + (if (y + 1) mod k = 0 then 1 else 0)"
  using int_div_bounds [OF assms, of y] int_div_bounds [OF assms, of "y + 1"] int_div_succ [OF assms, of y]
  by (smt (verit, best) mult_div_mod_eq assms pos_mod_sign)

lemma year_start_succ: "year_start (y + 1) = year_start y + (if leap_year (y + 1) then 366 else 365)"
proof -
  have m: "(y + 1) mod 4 = 0" if "(y + 1) mod 100 = 0"
    using that mod_mod_cancel [of 4 100 "y + 1"] by simp
  have n: "(y + 1) mod 100 = 0" if "(y + 1) mod 400 = 0"
    using that mod_mod_cancel [of 100 400 "y + 1"] by simp
  define a b c where "a \<longleftrightarrow> (y + 1) mod 4 = 0" and "b \<longleftrightarrow> (y + 1) mod 100 = 0" and "c \<longleftrightarrow> (y + 1) mod 400 = 0"
  define u v w where "u = y div 4" and "v = y div 100" and "w = y div 400"
  have "year_start (y + 1) = 365 * (y + 1) + (u + (if a then 1 else 0)) - (v + (if b then 1 else 0)) +
      (w + (if c then 1 else 0))"
    by (simp only: year_start_def int_div_step [of 4] int_div_step [of 100] int_div_step [of 400]
        a_def b_def c_def u_def v_def w_def zero_less_numeral)
  moreover have "year_start y = 365 * y + u - v + w" by (simp only: year_start_def u_def v_def w_def)
  moreover have "leap_year (y + 1) \<longleftrightarrow> a \<and> (\<not> b \<or> c)" by (simp only: leap_year_def a_def b_def c_def)
  moreover have "b \<longrightarrow> a" "c \<longrightarrow> b" unfolding a_def b_def c_def using m n by blast+
  ultimately show ?thesis by (smt (verit))
qed

lemma civil_day: "civil n = (y, m, d) \<Longrightarrow> d \<le> daysIn m y"
proof -
  assume c: "civil n = (y, m, d)"
  let ?z = "n + 719468"
  define y' doy where "y' = year_of ?z" and "doy = ?z - year_start y'"
  obtain mp dd where md: "month_day doy = (mp, dd)" by force
  note b = month_day_bounds [OF day_of_year [of ?z, folded y'_def, folded doy_def] md]
  have mp: "mp = (5 * doy + 2) div 153" "dd = doy - (153 * mp + 2) div 5 + 1"
    using md by (auto simp: month_day_def Let_def)
  have bound: "5 * doy + 2 < 153 * mp + 153"
    using int_div_bounds [of 153 "5 * doy + 2"] mp(1) by simp
  have top: "doy < (if leap_year (y' + 1) then 366 else 365)"
    using year_of_bounds(2) [of ?z] year_start_succ [of y'] by (simp add: y'_def doy_def)
  have e: "(y, m, d) = (if mp < 10 then (y', mp + 3, dd) else (y' + 1, mp - 9, dd))"
    using c md by (cases "mp < 10") (simp_all add: civil_month_day Let_def y'_def doy_def)
  have "mp = 0 \<or> mp = 1 \<or> mp = 2 \<or> mp = 3 \<or> mp = 4 \<or> mp = 5 \<or> mp = 6 \<or> mp = 7 \<or> mp = 8 \<or> mp = 9 \<or>
    mp = 10 \<or> mp = 11" using b by arith
  then show ?thesis
    using e bound top mp(2) by (elim disjE) (auto simp: daysIn_def split: if_splits)
qed

section \<open>The parser\<close>

text \<open>The fraction: its first nine digits, as nanoseconds.\<close>

definition parse_fraction :: "string \<Rightarrow> int \<times> string" where
  "parse_fraction s =
     (case s of
        [] \<Rightarrow> (0, s)
      | c # cs \<Rightarrow>
          if c = CHR ''.'' \<and> cs \<noteq> [] \<and> is_digit (hd cs)
          then (let ds = take 9 (takeWhile is_digit cs)
                in (case digits_value 0 ds of None \<Rightarrow> 0 | Some n \<Rightarrow> int n * 10 ^ (9 - length ds),
                    dropWhile is_digit cs))
          else (0, s))"

definition parse_zone :: "string \<Rightarrow> int option" where
  "parse_zone s =
     (if s = ''Z'' then Some 0
      else if length s \<noteq> 6 \<or> (s ! 0 \<noteq> CHR ''-'' \<and> s ! 0 \<noteq> CHR ''+'') \<or> s ! 3 \<noteq> CHR '':'' then None
      else case (parseUint (take 2 (drop 1 s)) 0 23, parseUint (take 2 (drop 4 s)) 0 59) of
        (Some hr, Some mm) \<Rightarrow>
          let offset = (hr * 60 + mm) * 60 in Some (if s ! 0 = CHR ''-'' then - offset else offset)
      | _ \<Rightarrow> None)"

definition parseStrictRFC3339 :: "string \<Rightarrow> gotime option" where
  "parseStrictRFC3339 s =
     (if length s < 19 \<or> s ! 4 \<noteq> CHR ''-'' \<or> s ! 7 \<noteq> CHR ''-'' \<or> s ! 10 \<noteq> CHR ''T'' \<or>
         s ! 13 \<noteq> CHR '':'' \<or> s ! 16 \<noteq> CHR '':'' then None
      else case (parseUint (take 4 s) 0 9999, parseUint (take 2 (drop 5 s)) 1 12) of
        (Some y, Some m) \<Rightarrow>
          (case (parseUint (take 2 (drop 8 s)) 1 (daysIn m y), parseUint (take 2 (drop 11 s)) 0 23,
                 parseUint (take 2 (drop 14 s)) 0 59, parseUint (take 2 (drop 17 s)) 0 59) of
             (Some d, Some hh, Some mm, Some ss) \<Rightarrow>
               (let (nsec, zone) = parse_fraction (drop 19 s) in
                map_option (\<lambda>offset. seconds (days_of y m d * 86400 + hh * 3600 + mm * 60 + ss - offset) + nsec)
                  (parse_zone zone))
           | _ \<Rightarrow> None)
      | _ \<Rightarrow> None)"

section \<open>Round trip\<close>

lemma parseUint_digits:
  assumes "0 \<le> n" "n < 10 ^ w" "lo \<le> n" "n \<le> hi"
  shows "parseUint (digits w (nat n)) lo hi = Some n"
proof -
  have "nat n < 10 ^ w" using assms(1,2) by (simp add: nat_less_iff)
  with assms show ?thesis by (simp add: parseUint_def digits_value_digits)
qed

lemma digits_digit: "c \<in> set (digits w n) \<Longrightarrow> is_digit c"
  by (induction w arbitrary: n) (auto simp: is_digit_char)

lemma digits_value_zeros: "digits_value n (replicate k (CHR ''0'')) = Some (n * 10 ^ k)"
  by (induction k arbitrary: n) (simp_all add: is_digit_def byte_def)

text \<open>The trailing zeros that \<^const>\<open>fraction\<close> leaves out are put back.\<close>

lemma parse_fraction_zero: "parse_fraction (fraction 0 @ ''Z'') = (0, ''Z'')"
  by (simp add: parse_fraction_def fraction_def)

lemma parse_fraction_fraction:
  assumes "0 < n" "n < 1000000000"
  shows "parse_fraction (fraction n @ ''Z'') = (n, ''Z'')"
proof -
  let ?all = "digits 9 (nat n)"
  define ds zs where "ds = rev (dropWhile (\<lambda>c. c = CHR ''0'') (rev ?all))"
    and "zs = rev (takeWhile (\<lambda>c. c = CHR ''0'') (rev ?all))"
  have all: "?all = ds @ zs"
    unfolding ds_def zs_def by (metis rev_append rev_rev_ident takeWhile_dropWhile_id)
  then have len: "length ds + length zs = 9" by (metis length_append length_digits)
  have "zs = replicate (length zs) (CHR ''0'')"
    by (rule replicate_eqI) (auto simp: zs_def dest: set_takeWhileD)
  with all obtain k where k: "?all = ds @ replicate k (CHR ''0'')" "length ds + k = 9" using len by metis
  have "nat n < 10 ^ 9" using assms by (simp add: nat_less_iff)
  then have "digits_value 0 ?all = Some (nat n)" by (simp add: digits_value_digits del: digits.simps)
  then obtain v where v: "digits_value 0 ds = Some v" "v * 10 ^ k = nat n"
    using k by (auto simp: digits_value_append digits_value_zeros split: option.splits)
  have dig: "\<forall>c \<in> set ds. is_digit c" using digits_digit [of _ 9 "nat n"] k(1) by (metis Un_iff set_append)
  have ne: "ds \<noteq> []" using v assms by auto
  have "\<not> is_digit (CHR ''Z'')" by (simp add: is_digit_def byte_def)
  with dig have tw: "takeWhile is_digit (ds @ ''Z'') = ds" "dropWhile is_digit (ds @ ''Z'') = ''Z''"
    by (auto simp: takeWhile_append dropWhile_append)
  have "int v * 10 ^ k = n"
    using v(2) assms by (metis int_nat_eq of_nat_mult of_nat_numeral of_nat_power less_imp_le)
  moreover have "9 - length ds = k" "take 9 ds = ds" using k(2) by auto
  moreover have "fraction n = CHR ''.'' # ds" using assms by (simp add: fraction_def ds_def)
  ultimately show ?thesis
    using ne dig v(1) tw by (auto simp: parse_fraction_def Let_def hd_append)
qed

lemma clock_split:
  assumes "0 \<le> r" "r < (86400 :: int)"
  shows "0 \<le> r div 3600" "r div 3600 < 24" "0 \<le> r mod 3600 div 60" "r mod 3600 div 60 < 60"
    "0 \<le> r mod 60" "r mod 60 < 60" "r div 3600 * 3600 + r mod 3600 div 60 * 60 + r mod 60 = r"
proof -
  have m: "r mod 3600 mod 60 = r mod 60" by (simp add: mod_mod_cancel)
  have q: "r mod 3600 < 3600" by simp
  have "3600 * (r div 3600) \<le> r" using int_div_bounds [of 3600 r] by simp
  moreover have "60 * (r mod 3600 div 60) \<le> r mod 3600" using int_div_bounds [of 60 "r mod 3600"] by simp
  ultimately show "r div 3600 < 24" "r mod 3600 div 60 < 60" using assms q by linarith+
  show "0 \<le> r div 3600" "0 \<le> r mod 3600 div 60" using clock_ranges [OF assms] by simp_all
  show "r div 3600 * 3600 + r mod 3600 div 60 * 60 + r mod 60 = r"
    unfolding m [symmetric] add.assoc by (simp only: div_mult_mod_eq)
  show "0 \<le> r mod 60" "r mod 60 < 60" by simp_all
qed

lemma parse_formatTime:
  assumes "plain_time t"
  shows "parseStrictRFC3339 (formatTime t) = Some t"
proof -
  let ?s = "Unix t" and ?r = "Unix t mod 86400"
  obtain y m d where c: "civil (?s div 86400) = (y, m, d)" by (metis prod.exhaust)
  have y: "0 \<le> y" "y < 10000" using assms c by (auto simp: plain_time_def)
  note md = civil_bounds [OF c] civil_day [OF c]
  define hh mm ss where "hh = ?r div 3600" and "mm = ?r mod 3600 div 60" and "ss = ?r mod 60"
  have r: "0 \<le> ?r" "?r < 86400" by simp_all
  have clock: "0 \<le> hh" "hh < 24" "0 \<le> mm" "mm < 60" "0 \<le> ss" "ss < 60" "hh * 3600 + mm * 60 + ss = ?r"
    unfolding hh_def mm_def ss_def by (fact clock_split [OF r])+
  let ?Y = "digits 4 (nat y)" and ?M = "digits 2 (nat m)" and ?D = "digits 2 (nat d)"
    and ?H = "digits 2 (nat hh)" and ?N = "digits 2 (nat mm)" and ?S = "digits 2 (nat ss)"
  define rest where "rest = fraction (nanos t) @ ''Z''"
  have written: "formatTime t = ?Y @ ''-'' @ ?M @ ''-'' @ ?D @ ''T'' @ ?H @ '':'' @ ?N @ '':'' @ ?S @ rest"
    using c y by (simp add: formatTime_def stamp_def year_string_def rest_def hh_def mm_def ss_def Let_def)
  have fields: "parseUint ?Y 0 9999 = Some y" "parseUint ?M 1 12 = Some m" "parseUint ?D 1 (daysIn m y) = Some d"
    "parseUint ?H 0 23 = Some hh" "parseUint ?N 0 59 = Some mm" "parseUint ?S 0 59 = Some ss"
    using y md clock by (auto intro!: parseUint_digits)
  have "0 \<le> nanos t" "nanos t < 1000000000" by (simp_all add: nanos_def)
  then have frac: "parse_fraction rest = (nanos t, ''Z'')"
    using parse_fraction_fraction [of "nanos t"] parse_fraction_zero
    by (cases "nanos t = 0") (simp_all add: rest_def)
  have total: "seconds (days_of y m d * 86400 + hh * 3600 + mm * 60 + ss) + nanos t = t"
  proof -
    have "days_of y m d * 86400 + hh * 3600 + mm * 60 + ss = ?s div 86400 * 86400 + (hh * 3600 + mm * 60 + ss)"
      by (simp only: days_of_civil [OF c] add.assoc)
    also have "\<dots> = Unix t" by (simp only: clock(7) div_mult_mod_eq)
    finally show ?thesis by (simp only: Unix_def nanos_def div_mult_mod_eq)
  qed
  have cut: "take 4 (formatTime t) = ?Y" "take 2 (drop 5 (formatTime t)) = ?M" "take 2 (drop 8 (formatTime t)) = ?D"
    "take 2 (drop 11 (formatTime t)) = ?H" "take 2 (drop 14 (formatTime t)) = ?N" "take 2 (drop 17 (formatTime t)) = ?S"
    "drop 19 (formatTime t) = rest" "19 \<le> length (formatTime t)"
    "formatTime t ! 4 = CHR ''-''" "formatTime t ! 7 = CHR ''-''" "formatTime t ! 10 = CHR ''T''"
    "formatTime t ! 13 = CHR '':''" "formatTime t ! 16 = CHR '':''"
    unfolding written by (simp_all add: nth_append del: digits.simps)
  show ?thesis
    unfolding parseStrictRFC3339_def cut fields
    using cut(8) frac fields total by (simp add: parse_zone_def)
qed

section \<open>Raw members\<close>

text \<open>
  The members of an object as \<^verbatim>\<open>Decoder.Token\<close> and \<^verbatim>\<open>Decode(&raw)\<close> see them: name, value and the
  text of the value.
\<close>

fun raw_members :: "nat \<Rightarrow> string \<Rightarrow> ((string \<times> json \<times> string) list \<times> string) option" where
  "raw_members 0 s = None"
| "raw_members (Suc fuel) s =
     (case skip_ws s of
        [] \<Rightarrow> None
      | q # qs \<Rightarrow>
          if q \<noteq> quote_char then None
          else (case parse_string (Suc (length qs)) qs of None \<Rightarrow> None | Some (k, t) \<Rightarrow>
            (case skip_ws t of
               [] \<Rightarrow> None
             | c # cs \<Rightarrow>
                 if c \<noteq> CHR '':'' then None
                 else (case parse_value fuel cs of None \<Rightarrow> None | Some (v, u) \<Rightarrow>
                   (let raw = take (length (skip_ws cs) - length u) (skip_ws cs) in
                    case skip_ws u of
                      [] \<Rightarrow> None
                    | d # ds \<Rightarrow>
                        if d = CHR ''}'' then Some ([(k, v, raw)], ds)
                        else if d = CHR '','' then
                          map_option (\<lambda>(fs, w). ((k, v, raw) # fs, w)) (raw_members fuel ds)
                        else None)))))"

definition raw_object :: "string \<Rightarrow> ((string \<times> json \<times> string) list \<times> string) option" where
  "raw_object s =
     (case skip_ws s of
        [] \<Rightarrow> None
      | c # cs \<Rightarrow>
          if c \<noteq> CHR ''{'' then None
          else (case skip_ws cs of
             [] \<Rightarrow> None
           | d # ds \<Rightarrow> if d = CHR ''}'' then Some ([], ds) else raw_members (2 * length s + 2) (d # ds)))"

text \<open>The raw walk accepts what the parser of \<^const>\<open>Unmarshal\<close> accepts, with the same names and values.\<close>

lemma raw_members_parse:
  "parse_members fuel s = map_option (\<lambda>(fs, t). (map (\<lambda>(k, v, _). (k, v)) fs, t)) (raw_members fuel s)"
  by (induction fuel s rule: raw_members.induct)
    (auto simp: Let_def option.map_comp comp_def case_prod_beta split: list.splits option.splits)

lemma skip_ws_scalar: "plain_scalar v \<Longrightarrow> skip_ws (Marshal v @ t) = Marshal v @ t"
proof -
  assume "plain_scalar v"
  then consider b where "v = JBool b" | s where "v = JStr s" | n where "v = JInt n" by (auto simp: plain_scalar_def)
  then show ?thesis
  proof cases
    case 1
    then show ?thesis by simp
  next
    case 2
    then show ?thesis by (simp add: quote_def)
  next
    case 3
    have "ends_scalar (CHR '','' # [])" by (simp add: ends_scalar_def)
    from parse_number_JInt(1) [OF this, of n] obtain c cs
      where c: "Marshal (JInt n) = c # cs" "is_digit c \<or> c = CHR ''-''" by blast
    then have "byte c \<notin> {32, 9, 10, 13}" by (auto simp: is_digit_def byte_def)
    with c 3 show ?thesis by simp
  qed
qed

lemma raw_members_fields:
  "fs \<noteq> [] \<Longrightarrow> plain_fields fs \<Longrightarrow> length fs < fuel \<Longrightarrow>
   raw_members fuel (join_comma (map (\<lambda>(k, v). quote k @ '':'' @ Marshal v) fs) @ CHR ''}'' # t)
     = Some (map (\<lambda>(k, v). (k, v, Marshal v)) fs, t)"
proof (induction fs arbitrary: fuel)
  case Nil
  then show ?case by simp
next
  case (Cons f fs)
  obtain k v where f: "f = (k, v)" by force
  with Cons.prems have k: "is_ascii k" "plain_scalar v" "plain_fields fs"
    by (auto simp: plain_fields_def)
  obtain n where n: "fuel = Suc (Suc n)" "length fs < Suc n"
    using Cons.prems(3) by (cases fuel; cases "fuel - 1") auto
  note IH = Cons.IH [OF _ k(3), of "Suc n"]
  have head: "parse_value (Suc n) (Marshal v @ u) = Some (v, u)" if "ends_scalar u" for u
    using k(2) that by (rule parse_value_scalar)
  note ws = skip_ws_scalar [OF k(2)]
  show ?case
  proof (cases fs)
    case Nil
    have "ends_scalar (CHR ''}'' # t)" by (simp add: ends_scalar_def)
    with head ws parse_string_quoted [OF k(1), of "CHR '':'' # Marshal v @ CHR ''}'' # t"] Nil f n(1)
    show ?thesis by (simp add: quote_def Let_def del: parse_value.simps)
  next
    case (Cons g gs)
    let ?rest = "join_comma (map (\<lambda>(k, v). quote k @ '':'' @ Marshal v) fs) @ CHR ''}'' # t"
    have rest: "raw_members (Suc n) ?rest = Some (map (\<lambda>(k, v). (k, v, Marshal v)) fs, t)"
      using n Cons by (intro IH) simp_all
    have "join_comma (map (\<lambda>(k, v). quote k @ '':'' @ Marshal v) (f # fs)) @ CHR ''}'' # t =
      quote_char # escape k @ quote_char # CHR '':'' # Marshal v @ CHR '','' # ?rest"
      using Cons f by (cases g) (simp add: quote_def)
    moreover have "ends_scalar (CHR '','' # ?rest)" by (simp add: ends_scalar_def)
    ultimately show ?thesis
      using head ws parse_string_quoted [OF k(1), of "CHR '':'' # Marshal v @ CHR '','' # ?rest"] rest n(1) f
      by (simp del: parse_value.simps raw_members.simps add: Let_def raw_members.simps(2) [of "Suc n"])
  qed
qed

lemma raw_object_Marshal:
  assumes "fs \<noteq> []" "plain_fields fs"
  shows "raw_object (Marshal (JObj fs)) = Some (map (\<lambda>(k, v). (k, v, Marshal v)) fs, [])"
proof -
  let ?body = "join_comma (map (\<lambda>(k, v). quote k @ '':'' @ Marshal v) fs) @ CHR ''}'' # []"
  obtain cs where first: "?body = quote_char # cs"
  proof -
    obtain k v gs where "fs = (k, v) # gs" using assms(1) by (metis list.exhaust surj_pair)
    then show ?thesis using that by (cases gs) (auto simp: quote_def)
  qed
  have "raw_members (2 * length (Marshal (JObj fs)) + 2) ?body = Some (map (\<lambda>(k, v). (k, v, Marshal v)) fs, [])"
    using fields_length [of fs] by (intro raw_members_fields [OF assms]) simp
  moreover have "Marshal (JObj fs) = CHR ''{'' # ?body" by simp
  ultimately show ?thesis
    unfolding raw_object_def first by (simp del: raw_members.simps Marshal.simps)
qed

section \<open>base64\<close>

definition b64_value :: "char \<Rightarrow> nat option" where
  "b64_value c =
     (let n = byte c in
      if 65 \<le> n \<and> n \<le> 90 then Some (n - 65)
      else if 97 \<le> n \<and> n \<le> 122 then Some (n - 71)
      else if 48 \<le> n \<and> n \<le> 57 then Some (n + 4)
      else if n = 45 then Some 62
      else if n = 95 then Some 63
      else None)"

fun b64_values :: "string \<Rightarrow> nat list option" where
  "b64_values [] = Some []"
| "b64_values (c # cs) =
     (case (b64_value c, b64_values cs) of (Some v, Some vs) \<Rightarrow> Some (v # vs) | _ \<Rightarrow> None)"

fun b64_bytes :: "nat list \<Rightarrow> string option" where
  "b64_bytes (a # b # c # d # vs) =
     (let n = a * 262144 + b * 4096 + c * 64 + d
      in map_option (\<lambda>s. char_of (n div 65536) # char_of (n div 256 mod 256) # char_of (n mod 256) # s) (b64_bytes vs))"
| "b64_bytes [a, b, c] =
     (let n = a * 4096 + b * 64 + c in Some [char_of (n div 1024), char_of (n div 4 mod 256)])"
| "b64_bytes [a, b] = (let n = a * 64 + b in Some [char_of (n div 16)])"
| "b64_bytes [a] = None"
| "b64_bytes [] = Some []"

text \<open>Line breaks are skipped; the bits beyond the last byte are ignored.\<close>

definition RawURLDecode :: "string \<Rightarrow> string option" where
  "RawURLDecode s =
     (case b64_values (filter (\<lambda>c. byte c \<noteq> 10 \<and> byte c \<noteq> 13) s) of None \<Rightarrow> None | Some vs \<Rightarrow> b64_bytes vs)"

lemma b64_alphabet_values: "map b64_value b64_alphabet = map Some [0..<64]"
  by (simp add: b64_alphabet_def b64_value_def byte_def upt_conv_Cons)

lemma b64_alphabet_length: "length b64_alphabet = 64"
  using arg_cong [OF b64_alphabet_values, of length] by simp

lemma b64_value_char [simp]: "b64_value (b64_char n) = Some (n mod 64)"
proof -
  have "n mod 64 < 64" by simp
  then show ?thesis
    using arg_cong [OF b64_alphabet_values, of "\<lambda>xs. xs ! (n mod 64)"]
    by (simp add: b64_char_def b64_alphabet_length del: upt.simps)
qed

lemma b64_char_graphic [simp]: "b64_char n \<noteq> CHR ''.''" "byte (b64_char n) \<noteq> 10" "byte (b64_char n) \<noteq> 13"
proof -
  have "b64_value (CHR ''.'') = None" "b64_value c = None" if "byte c = 10 \<or> byte c = 13" for c
    using that by (auto simp: b64_value_def byte_def)
  then show "b64_char n \<noteq> CHR ''.''" "byte (b64_char n) \<noteq> 10" "byte (b64_char n) \<noteq> 13"
    using b64_value_char [of n] by (auto simp: b64_value_def byte_def)
qed

lemma RawURLEncoding_chars: "c \<in> set (RawURLEncoding s) \<Longrightarrow> \<exists>n. c = b64_char n"
  by (induction s rule: RawURLEncoding.induct) (auto simp: Let_def)

lemma RawURLEncoding_no_dot: "CHR ''.'' \<notin> set (RawURLEncoding s)"
  by (metis RawURLEncoding_chars b64_char_graphic(1))

lemma sextets4: "n < 16777216 \<Longrightarrow>
  n div 262144 mod 64 * 262144 + n div 4096 mod 64 * 4096 + n div 64 mod 64 * 64 + n mod 64 = (n :: nat)"
proof -
  assume "n < 16777216"
  then have "n div 262144 mod 64 = n div 64 div 64 div 64" by (simp add: div_mult2_eq [symmetric] less_mult_imp_div_less)
  moreover have "n div 4096 mod 64 = n div 64 div 64 mod 64" by (simp add: div_mult2_eq [symmetric])
  ultimately show ?thesis
    using div_mult_mod_eq [of n 64] div_mult_mod_eq [of "n div 64" 64] div_mult_mod_eq [of "n div 64 div 64" 64]
    by linarith
qed

lemma bytes3:
  fixes a b c :: nat
  assumes "a < 256" "b < 256" "c < 256"
  shows "a * 65536 + b * 256 + c < 16777216" "(a * 65536 + b * 256 + c) div 65536 = a"
    "(a * 65536 + b * 256 + c) div 256 mod 256 = b" "(a * 65536 + b * 256 + c) mod 256 = c"
proof -
  show "a * 65536 + b * 256 + c < 16777216" using assms by linarith
  have low: "(c + x * 256) div 256 = x" "(c + x * 256) mod 256 = c" for x using assms(3) by simp_all
  have eq: "a * 65536 + b * 256 + c = c + (a * 256 + b) * 256" by simp
  have q: "(a * 65536 + b * 256 + c) div 256 = a * 256 + b" "(a * 65536 + b * 256 + c) mod 256 = c"
    unfolding eq by (rule low)+
  then show "(a * 65536 + b * 256 + c) mod 256 = c" by simp
  have "a * 256 + b = b + a * 256" by simp
  then have r: "(a * 256 + b) div 256 = a" "(a * 256 + b) mod 256 = b" using assms(2) by simp_all
  with q show "(a * 65536 + b * 256 + c) div 256 mod 256 = b" by simp
  have "(a * 65536 + b * 256 + c) div 65536 = (a * 65536 + b * 256 + c) div 256 div 256" by (simp flip: div_mult2_eq)
  with q r show "(a * 65536 + b * 256 + c) div 65536 = a" by simp
qed

lemma byte_less [simp]: "(of_char c :: nat) < 256"
  using byte_lt [of c] by (simp add: byte_def)

lemma b64_roundtrip: "Option.bind (b64_values (RawURLEncoding s)) b64_bytes = Some s"
proof (induction s rule: RawURLEncoding.induct)
  case (1 a b c xs)
  define n where "n = of_char a * 65536 + of_char b * 256 + (of_char c :: nat)"
  have n: "n < 16777216" "n div 65536 = of_char a" "n div 256 mod 256 = of_char b" "n mod 256 = of_char c"
    unfolding n_def by (intro bytes3 byte_less)+
  have "char_of (n div 256) = b" "char_of n = c"
    using arg_cong [OF n(3), of char_of] arg_cong [OF n(4), of char_of] by simp_all
  moreover from 1 obtain vs where vs: "b64_values (RawURLEncoding xs) = Some vs" "b64_bytes vs = Some xs"
    by (auto simp: bind_eq_Some_conv n_def Let_def)
  ultimately show ?case
    using vs n sextets4 [OF n(1)] by (simp add: Let_def flip: n_def)
next
  case (2 a b)
  define n where "n = of_char a * 1024 + (of_char b :: nat) * 4"
  have b: "(of_char a :: nat) < 256" "(of_char b :: nat) < 256" by simp_all
  have "n < 262144" using b unfolding n_def by linarith
  have "n div 4 = of_char b + of_char a * 256" by (simp add: n_def)
  then have q: "n div 4 div 256 = of_char a" "n div 4 mod 256 = of_char b" using b by simp_all
  have "n div 1024 = of_char a" using q(1) by (simp flip: div_mult2_eq)
  moreover have "char_of (n div 4) = b" using arg_cong [OF q(2), of char_of] by simp
  moreover have "n div 4096 < 64" using \<open>n < 262144\<close> by (simp add: less_mult_imp_div_less)
  moreover have "n div 4096 mod 64 * 4096 + n div 64 mod 64 * 64 + n mod 64 = n"
    using sextets4 [of n] \<open>n < 262144\<close> by simp
  ultimately show ?case by (simp add: Let_def flip: n_def)
next
  case (3 a)
  define n where "n = (of_char a :: nat) * 16"
  have "n < 4096" "n div 16 = of_char a" using byte_less [of a] by (auto simp: n_def)
  moreover have "n div 64 mod 64 * 64 + n mod 64 = n" using sextets4 [of n] \<open>n < 4096\<close> by simp
  ultimately show ?case by (simp add: Let_def flip: n_def)
qed simp

lemma RawURLDecode_encode [simp]: "RawURLDecode (RawURLEncoding s) = Some s"
proof -
  have "filter (\<lambda>c. byte c \<noteq> 10 \<and> byte c \<noteq> 13) (RawURLEncoding s) = RawURLEncoding s"
    by (rule filter_True) (auto dest: RawURLEncoding_chars)
  with b64_roundtrip [of s] show ?thesis
    by (auto simp: RawURLDecode_def bind_eq_Some_conv)
qed

lemma RawURLEncoding_length: "3 * length (RawURLEncoding s) \<le> 4 * length s + 4"
  by (induction s rule: RawURLEncoding.induct) (auto simp: Let_def)

section \<open>Splitting\<close>

text \<open>\<^verbatim>\<open>strings.Split\<close> at a single character.\<close>

fun split_on :: "char \<Rightarrow> string \<Rightarrow> string list" where
  "split_on c [] = [[]]"
| "split_on c (x # xs) =
     (if x = c then [] # split_on c xs
      else case split_on c xs of [] \<Rightarrow> [[x]] | y # ys \<Rightarrow> (x # y) # ys)"

lemma split_on_append: "c \<notin> set a \<Longrightarrow> split_on c (a @ c # s) = a # split_on c s"
  by (induction a) auto

lemma split_on_single: "c \<notin> set a \<Longrightarrow> split_on c a = [a]"
  by (induction a) auto

end
