(* ===== verification/Replay.thy ===== *)
theory Replay
  imports Main
begin

text \<open>
  What a guard against replay promises its clients. Something is presented at an instant; the guard
  accepts or refuses it and remembers the key of what it accepted. \<open>held k t s\<close> says that the
  state still holds the key \<open>k\<close> at the instant \<open>t\<close>, and \<open>live p t\<close> that what was presented has not
  expired at \<open>t\<close>. Two components provide it: the reservation of request nonces and the verification
  of platform assertions.
\<close>

text \<open>The answers of a guard to a sequence of presentations.\<close>

fun accepted :: "('t \<Rightarrow> 'p \<Rightarrow> 's \<Rightarrow> bool \<times> 's) \<Rightarrow> ('t \<times> 'p) list \<Rightarrow> 's \<Rightarrow> bool list" where
  "accepted present [] s = []"
| "accepted present ((t, p) # ps) s = (let (ok, s') = present t p s in ok # accepted present ps s')"

lemma length_accepted [simp]: "length (accepted present ps s) = length ps"
  by (induction present ps s rule: accepted.induct) (auto simp: Let_def split: prod.splits)

lemma accepted_present:
  assumes "i < length ps" "accepted present ps s ! i"
  shows "\<exists>s' s''. present (fst (ps ! i)) (snd (ps ! i)) s' = (True, s'')"
  using assms
proof (induction ps arbitrary: s i)
  case (Cons q ps)
  obtain t p where q: "q = (t, p)" by force
  obtain ok s' where s': "present t p s = (ok, s')" by force
  with Cons q show ?case by (cases i) (auto simp: Let_def)
qed simp

locale replay_guard =
  fixes present :: "'t \<Rightarrow> 'p \<Rightarrow> 's \<Rightarrow> bool \<times> 's"
    and key :: "'p \<Rightarrow> 'k"
    and held :: "'k \<Rightarrow> 't \<Rightarrow> 's \<Rightarrow> bool"
    and live :: "'p \<Rightarrow> 't \<Rightarrow> bool"
    and before :: "'t \<Rightarrow> 't \<Rightarrow> bool"
  assumes refuses_held: "present t p s = (True, s') \<Longrightarrow> \<not> held (key p) t s"
    and holds_accepted: "present t p s = (True, s') \<Longrightarrow> live p u \<Longrightarrow> held (key p) u s'"
    and keeps_held: "present t p s = (ok, s') \<Longrightarrow> before t u \<Longrightarrow> held k u s \<Longrightarrow> held k u s'"
begin

lemma held_refused:
  assumes "held (key p) t s" "\<forall>q \<in> set ps. before (fst q) t"
  shows "\<not> accepted present (ps @ [(t, p)]) s ! length ps"
  using assms
proof (induction ps arbitrary: s)
  case Nil
  then show ?case using refuses_held [of t p s] by (auto simp: Let_def split: prod.splits)
next
  case (Cons q ps)
  obtain u r where q: "q = (u, r)" by force
  obtain ok s' where s': "present u r s = (ok, s')" by force
  have "held (key p) t s'" using Cons.prems q by (auto intro: keeps_held [OF s'])
  with Cons s' q show ?case by (simp add: Let_def)
qed

lemma prefix_accepted: "i < length ps \<Longrightarrow> accepted present (ps @ qs) s ! i = accepted present ps s ! i"
proof (induction ps arbitrary: s i)
  case (Cons q ps)
  then show ?case by (cases q; cases i) (auto simp: Let_def split: prod.splits)
qed simp

text \<open>Whatever is presented in between: a key accepted once is refused as long as it is live.\<close>

lemma refused_after:
  assumes "accepted present (xs @ (t, p) # ys @ [(u, q)]) s ! length xs" "key q = key p" "live p u"
    and "\<forall>r \<in> set ys. before (fst r) u"
  shows "\<not> accepted present (xs @ (t, p) # ys @ [(u, q)]) s ! Suc (length xs + length ys)"
  using assms
proof (induction xs arbitrary: s)
  case Nil
  obtain ok s' where s': "present t p s = (ok, s')" by force
  with Nil.prems have "held (key q) u s'" using holds_accepted [of t p s s' u] by (simp add: Let_def)
  from held_refused [OF this Nil.prems(4)] s' show ?case by (simp add: Let_def)
next
  case (Cons x xs)
  obtain v r where x: "x = (v, r)" by force
  obtain ok s' where "present v r s = (ok, s')" by force
  with Cons x show ?case by (simp add: Let_def)
qed

lemma accepted_once:
  assumes "i < j" "j < length ps" "accepted present ps s ! i" "accepted present ps s ! j"
    and "key (snd (ps ! i)) = key (snd (ps ! j))" and "\<forall>k < j. before (fst (ps ! k)) (fst (ps ! j))"
  shows "\<not> live (snd (ps ! i)) (fst (ps ! j))"
proof
  assume l: "live (snd (ps ! i)) (fst (ps ! j))"
  define xs ys where "xs = take i ps" and "ys = take (j - Suc i) (drop (Suc i) ps)"
  let ?qs = "xs @ ps ! i # ys @ [ps ! j]"
  have len: "length xs = i" "Suc (i + length ys) = j" using assms(1,2) by (simp_all add: xs_def ys_def)
  have "take (Suc j) ps = ?qs"
  proof -
    have "take (Suc j) ps = take j ps @ [ps ! j]" using assms(2) by (rule take_Suc_conv_app_nth)
    moreover have "take j ps = take (Suc i) ps @ ys"
      using assms(1) take_add [of "Suc i" "j - Suc i" ps] by (simp add: ys_def)
    moreover have "take (Suc i) ps = xs @ [ps ! i]"
      using assms(1,2) by (simp add: xs_def take_Suc_conv_app_nth)
    ultimately show ?thesis by simp
  qed
  then have ps: "ps = ?qs @ drop (Suc j) ps" by (metis append_take_drop_id)
  have acc: "accepted present ?qs s ! k = accepted present ps s ! k" if "k \<le> j" for k
    using prefix_accepted [of k ?qs "drop (Suc j) ps" s] that len ps by simp
  have "before (fst r) (fst (ps ! j))" if "r \<in> set ys" for r
  proof -
    have "r \<in> set (take j ps)" using that assms(1) unfolding ys_def
      by (metis in_set_dropD in_set_takeD drop_take take_add le_add_diff_inverse2 less_iff_Suc_add set_drop_subset subsetD)
    then show ?thesis using assms(2,6) by (auto simp: in_set_conv_nth)
  qed
  then have "\<not> accepted present ?qs s ! Suc (length xs + length ys)"
    using assms(3,5) l acc [of i] assms(1) len
    by (intro refused_after [of xs "fst (ps ! i)" "snd (ps ! i)" ys "fst (ps ! j)" "snd (ps ! j)" s, simplified]) auto
  with acc [of j] assms(4) len show False by simp
qed

end

end
