(* ===== verification/MembershipCommand.thy ===== *)
theory MembershipCommand
  imports Workspace Limiter Decoding Replay
begin

text \<open>
  Machine-authenticated membership commands: the wire contract
  (\<^verbatim>\<open>internal/platform/membershipcommand/contract.go\<close>), the nonces that make a signed request
  single-use (\<^verbatim>\<open>internal/db/sqlite/platform_read_authority_auth.go\<close>) and the idempotent execution
  of a command (\<^verbatim>\<open>internal/db/sqlite/membership_command.go\<close>, types in
  \<^verbatim>\<open>internal/store/membership_command.go\<close>). Versions are 64-bit in the code and unbounded here.
\<close>

section \<open>The contract\<close>

record Request =
  Cmd_Scope :: string
  Cmd_Operation :: string
  Cmd_OrganisationID :: string
  Cmd_WorkspaceID :: string
  Cmd_UserID :: string
  Cmd_Role :: string
  Cmd_Reason :: string
  Cmd_IdempotencyKey :: string
  Cmd_ExpectedVersion :: int

datatype contract_err = InvalidRequest string | InvalidSignature

definition token_char :: "char \<Rightarrow> bool" where
  "token_char c \<longleftrightarrow>
     (let n = byte c in (65 \<le> n \<and> n \<le> 90) \<or> (97 \<le> n \<and> n \<le> 122) \<or> (48 \<le> n \<and> n \<le> 57) \<or>
       c = CHR ''.'' \<or> c = CHR ''_'' \<or> c = CHR ''~'' \<or> c = CHR ''-'')"

definition validToken :: "string \<Rightarrow> bool" where
  "validToken value \<longleftrightarrow> value \<noteq> [] \<and> list_all token_char value"

abbreviation newline :: char where "newline \<equiv> CHR 0x0A"
abbreviation carriage_return :: char where "carriage_return \<equiv> CHR 0x0D"

definition validID :: "string \<Rightarrow> string \<Rightarrow> bool" where
  "validID value prefix \<longleftrightarrow>
     HasPrefix value prefix \<and> length prefix < length value \<and> length value \<le> 200 \<and>
     set value \<inter> {carriage_return, newline, CHR '' '', CHR 0x09} = {}"

definition hex_char :: "char \<Rightarrow> bool" where
  "hex_char c \<longleftrightarrow> (let n = byte c in (48 \<le> n \<and> n \<le> 57) \<or> (97 \<le> n \<and> n \<le> 102) \<or> (65 \<le> n \<and> n \<le> 70))"

definition validSHA256 :: "string \<Rightarrow> bool" where
  "validSHA256 value \<longleftrightarrow> length value = 64 \<and> list_all hex_char value"

abbreviation "ScopeOrganisation \<equiv> ''organisation_membership''"
abbreviation "ScopeWorkspace \<equiv> ''workspace_membership''"
abbreviation "OperationAdd \<equiv> ''add''"
abbreviation "OperationRole \<equiv> ''change_role''"
abbreviation "OperationRemove \<equiv> ''deactivate''"

definition ValidateRequest :: "Request \<Rightarrow> contract_err + unit" where
  "ValidateRequest r =
     (if Cmd_Scope r \<noteq> ScopeOrganisation \<and> Cmd_Scope r \<noteq> ScopeWorkspace then Inl (InvalidRequest ''scope'')
      else if Cmd_Operation r \<noteq> OperationAdd \<and> Cmd_Operation r \<noteq> OperationRole \<and> Cmd_Operation r \<noteq> OperationRemove
      then Inl (InvalidRequest ''operation'')
      else if \<not> validID (Cmd_UserID r) ''usr_'' \<or>
              (\<not> validID (Cmd_OrganisationID r) ''org_'' \<and> Cmd_Scope r = ScopeOrganisation) \<or>
              (\<not> validID (Cmd_WorkspaceID r) ''wsp_'' \<and> Cmd_Scope r = ScopeWorkspace)
      then Inl (InvalidRequest ''target identity'')
      else if Cmd_Scope r = ScopeOrganisation \<and> Cmd_WorkspaceID r \<noteq> [] \<or>
              Cmd_Scope r = ScopeWorkspace \<and> Cmd_OrganisationID r \<noteq> []
      then Inl (InvalidRequest ''mixed scope'')
      else if TrimSpace (Cmd_Reason r) = [] \<or> 500 < length (Cmd_Reason r) \<or>
              set (Cmd_Reason r) \<inter> {carriage_return, newline} \<noteq> {}
      then Inl (InvalidRequest ''reason'')
      else if \<not> validToken (Cmd_IdempotencyKey r) \<or> 128 < length (Cmd_IdempotencyKey r)
      then Inl (InvalidRequest ''idempotency key'')
      else if Cmd_Operation r = OperationAdd
      then (if Cmd_ExpectedVersion r \<noteq> 0 \<or> TrimSpace (Cmd_Role r) = [] then Inl (InvalidRequest ''add version or role'')
            else Inr ())
      else if Cmd_ExpectedVersion r \<le> 0 \<or> (Cmd_Operation r = OperationRole \<and> TrimSpace (Cmd_Role r) = []) \<or>
              (Cmd_Operation r = OperationRemove \<and> TrimSpace (Cmd_Role r) \<noteq> [])
      then Inl (InvalidRequest ''mutation version or role'')
      else Inr ())"

fun join_lines :: "string list \<Rightarrow> string" where \<comment> \<open>\<^verbatim>\<open>strings.Join\<close> with a newline\<close>
  "join_lines [] = []"
| "join_lines [x] = x"
| "join_lines (x # y # xs) = x @ newline # join_lines (y # xs)"

definition CanonicalRequest ::
    "crypto \<Rightarrow> string \<Rightarrow> string \<Rightarrow> string \<Rightarrow> string \<Rightarrow> string \<Rightarrow> string \<Rightarrow> string \<Rightarrow> contract_err + string" where
  "CanonicalRequest c method path bodyDigest consumer keyID timestamp nonce =
     (if TrimSpace method = [] \<or> \<not> HasPrefix path ''/'' \<or> \<not> validToken consumer \<or> \<not> validToken keyID \<or>
         \<not> validToken timestamp \<or> \<not> validToken nonce \<or> \<not> validSHA256 bodyDigest
      then Inl InvalidSignature
      else Inr (join_lines [ToUpper (unicode_upper c) (TrimSpace method), TrimSpace path, TrimSpace bodyDigest,
             TrimSpace consumer, TrimSpace keyID, TrimSpace timestamp, TrimSpace nonce]))"

definition CanonicalRequestWithActor ::
    "crypto \<Rightarrow> string \<Rightarrow> string \<Rightarrow> string \<Rightarrow> string \<Rightarrow> string \<Rightarrow> string \<Rightarrow> string \<Rightarrow> string \<Rightarrow> contract_err + string" where
  "CanonicalRequestWithActor c method path bodyDigest actorDigest consumer keyID timestamp nonce =
     (if \<not> validSHA256 actorDigest then Inl InvalidSignature
      else case CanonicalRequest c method path bodyDigest consumer keyID timestamp nonce of
        Inl x \<Rightarrow> Inl x
      | Inr base \<Rightarrow> Inr (join_lines [base, TrimSpace actorDigest]))"

definition BodyDigest :: "crypto \<Rightarrow> string \<Rightarrow> string" where
  "BodyDigest c body = hex_encode (sha256 c body)"

definition ValidateConsumer :: "string \<Rightarrow> bool" where
  "ValidateConsumer value \<longleftrightarrow> value = ''tockrctrl'' \<or> value = ''tockrims''"

definition ValidateKeyID :: "string \<Rightarrow> bool" where
  "ValidateKeyID value \<longleftrightarrow> validToken value \<and> length value \<le> 100"

definition ValidateNonce :: "string \<Rightarrow> bool" where
  "ValidateNonce value \<longleftrightarrow> validToken value \<and> length value \<le> 128"

definition ValidateTimestamp :: "string \<Rightarrow> bool" where
  "ValidateTimestamp value \<longleftrightarrow> validToken value \<and> length value \<le> 20"

definition StatusForCode :: "string \<Rightarrow> nat" where
  "StatusForCode code =
     (if code = ''version_mismatch'' then 406 else if code = ''unauthenticated'' then 401
      else if code = ''forbidden'' then 403 else if code = ''invalid_request'' then 400
      else if code = ''conflict'' then 409 else if code = ''stale'' then 409
      else if code = ''limit_exceeded'' then 429 else if code = ''unavailable'' then 503 else 500)"

section \<open>Nonces\<close>

definition reserveNonceTx :: "string \<Rightarrow> string \<Rightarrow> gotime \<Rightarrow> gotime \<Rightarrow> db \<Rightarrow> (unit \<times> db) result" where
  "reserveNonceTx consumer nonce reservedAt expiresAt db0 =
     (let db = delete_nonces reservedAt db0 in
      if list_ex (\<lambda>r. nc_consumer_key r = consumer \<and> nc_nonce r = nonce) (platform_read_authority_nonces db)
      then Inl (Store ErrReadAuthorityNonceReplay)
      else exec (insert_nonce \<lparr>nc_consumer_key = consumer, nc_nonce = nonce, nc_reserved_at = reservedAt,
                               nc_expires_at = expiresAt\<rparr> db) (\<lambda>db. Inr ((), db)))"

definition ReserveReadAuthorityNonce ::
    "env \<Rightarrow> string \<Rightarrow> string \<Rightarrow> gotime \<Rightarrow> gotime \<Rightarrow> db \<Rightarrow> unit result \<times> db" where
  "ReserveReadAuthorityNonce e consumer0 nonce0 reservedAt expiresAt db =
     (let consumer = TrimSpace consumer0; nonce = TrimSpace nonce0 in
      prepare db
       (if consumer = [] \<or> 100 < length consumer \<or> nonce = [] \<or> 128 < length nonce \<or>
           IsZero reservedAt \<or> IsZero expiresAt \<or> \<not> reservedAt < expiresAt
        then Inl (Store ErrInvalidReadAuthorityNonce) else Inr ())
       (\<lambda>_. with_tx e db (reserveNonceTx consumer nonce reservedAt expiresAt)))"

section \<open>Results as JSON\<close>

record MembershipCommandRequest =
  Req_Consumer :: string
  Req_Scope :: string
  Req_Operation :: string
  Req_OrganisationID :: string
  Req_WorkspaceID :: string
  Req_UserID :: string
  Req_Role :: string
  Req_Reason :: string
  Req_IdempotencyKey :: string
  Req_ExpectedVersion :: int
  Req_RequestHash :: string
  Req_ActorUserID :: string
  Req_OccurredAt :: gotime

record MembershipCommandResult =
  Res_MembershipID :: string
  Res_OrganisationID :: string
  Res_WorkspaceID :: string
  Res_UserID :: string
  Res_Role :: string
  Res_Active :: bool
  Res_MembershipVersion :: int
  Res_Replay :: bool

definition encode_result :: "MembershipCommandResult \<Rightarrow> string" where
  "encode_result r = Marshal (JObj
     [(''MembershipID'', JStr (Res_MembershipID r)), (''OrganisationID'', JStr (Res_OrganisationID r)),
      (''WorkspaceID'', JStr (Res_WorkspaceID r)), (''UserID'', JStr (Res_UserID r)), (''Role'', JStr (Res_Role r)),
      (''Active'', JBool (Res_Active r)), (''MembershipVersion'', JInt (Res_MembershipVersion r)),
      (''Replay'', JBool (Res_Replay r))])"

text \<open>
  Decoding into the struct: the keys of the object in order, a key matches a field whatever its
  case, \<^verbatim>\<open>null\<close> leaves a field alone, another type is an error, an unknown key is skipped.
\<close>

definition zero_result :: MembershipCommandResult where
  "zero_result = \<lparr>Res_MembershipID = [], Res_OrganisationID = [], Res_WorkspaceID = [], Res_UserID = [], Res_Role = [],
     Res_Active = False, Res_MembershipVersion = 0, Res_Replay = False\<rparr>"

definition set_field :: "string \<Rightarrow> json \<Rightarrow> MembershipCommandResult \<Rightarrow> MembershipCommandResult option" where
  "set_field k v r =
     (let k = map ascii_lower k in
      if k = ''membershipid'' then set_string Res_MembershipID_update v r
      else if k = ''organisationid'' then set_string Res_OrganisationID_update v r
      else if k = ''workspaceid'' then set_string Res_WorkspaceID_update v r
      else if k = ''userid'' then set_string Res_UserID_update v r
      else if k = ''role'' then set_string Res_Role_update v r
      else if k = ''active'' then set_bool Res_Active_update v r
      else if k = ''membershipversion'' then set_int Res_MembershipVersion_update v r
      else if k = ''replay'' then set_bool Res_Replay_update v r
      else Some r)"

fun set_fields :: "(string \<times> json) list \<Rightarrow> MembershipCommandResult \<Rightarrow> MembershipCommandResult option" where
  "set_fields [] r = Some r"
| "set_fields ((k, v) # fs) r = (case set_field k v r of None \<Rightarrow> None | Some r \<Rightarrow> set_fields fs r)"

definition decode_result :: "string \<Rightarrow> MembershipCommandResult result" where
  "decode_result s =
     (case Unmarshal s of
        Some (JObj fs) \<Rightarrow> need (ErrNew ''decode stored membership command result'') (set_fields fs zero_result)
      | Some JNull \<Rightarrow> Inr zero_result
      | _ \<Rightarrow> Inl (ErrNew ''decode stored membership command result''))"

section \<open>Execution\<close>

definition validateMembershipCommandActorTx :: "MembershipCommandRequest \<Rightarrow> db \<Rightarrow> unit result" where
  "validateMembershipCommandActorTx r db =
     (if Req_Scope r = ScopeOrganisation
      then attempt (authorisedOrganisationMutationTx (Req_ActorUserID r) (Req_OrganisationID r) db) (\<lambda>_. Inr ())
      else if Req_Scope r = ScopeWorkspace
      then attempt (authorisedWorkspaceMutationTx (Req_ActorUserID r) (Req_WorkspaceID r) True db) (\<lambda>_. Inr ())
      else Inl (Store ErrMembershipCommandUnsupported))"

definition organisation_result :: "OrganisationMembership \<Rightarrow> int \<Rightarrow> MembershipCommandResult" where
  "organisation_result m version =
     \<lparr>Res_MembershipID = OMem_ID m, Res_OrganisationID = OMem_OrganisationID m, Res_WorkspaceID = [],
      Res_UserID = OMem_UserID m, Res_Role = OMem_Role m, Res_Active = OMem_Active m,
      Res_MembershipVersion = version, Res_Replay = False\<rparr>"

definition executeOrganisationMembershipCommandTx ::
    "env \<Rightarrow> MembershipCommandRequest \<Rightarrow> db \<Rightarrow> (MembershipCommandResult \<times> db) result" where
  "executeOrganisationMembershipCommandTx e r db =
     (if Req_Operation r = OperationAdd
      then call (addOrganisationMemberTx e (Req_ActorUserID r) (Req_OrganisationID r) (Req_UserID r) (Req_Role r)
             (Req_Reason r) (Req_OccurredAt r) db) (\<lambda>m db. Inr (organisation_result m 1, db))
      else if Req_Operation r = OperationRole
      then call (changeOrganisationMemberRoleTx e (Req_ActorUserID r) (Req_OrganisationID r) (Req_UserID r) (Req_Role r)
             (Req_Reason r) (Req_OccurredAt r) (Some (Req_ExpectedVersion r)) db)
             (\<lambda>m db. Inr (organisation_result m (Req_ExpectedVersion r + 1), db))
      else if Req_Operation r = OperationRemove
      then call (deactivateOrganisationMemberTx e (Req_ActorUserID r) (Req_OrganisationID r) (Req_UserID r)
             (Req_Reason r) (Req_OccurredAt r) (Some (Req_ExpectedVersion r)) db)
             (\<lambda>m db. Inr (organisation_result m (Req_ExpectedVersion r), db))
      else Inl (Store ErrMembershipCommandUnsupported))"

definition workspace_result :: "WorkspaceMembership \<Rightarrow> int \<Rightarrow> MembershipCommandResult" where
  "workspace_result m version =
     \<lparr>Res_MembershipID = WMem_ID m, Res_OrganisationID = [], Res_WorkspaceID = WMem_WorkspaceID m,
      Res_UserID = WMem_UserID m, Res_Role = WMem_Role m, Res_Active = WMem_Active m,
      Res_MembershipVersion = version, Res_Replay = False\<rparr>"

definition executeWorkspaceMembershipCommandTx ::
    "env \<Rightarrow> MembershipCommandRequest \<Rightarrow> db \<Rightarrow> (MembershipCommandResult \<times> db) result" where
  "executeWorkspaceMembershipCommandTx e r db =
     (if Req_Operation r = OperationAdd
      then call (addWorkspaceMemberTx e (Req_ActorUserID r) (Req_WorkspaceID r) (Req_UserID r) (Req_Role r)
             (Req_Reason r) (Req_OccurredAt r) db) (\<lambda>m db. Inr (workspace_result m 1, db))
      else if Req_Operation r = OperationRole
      then call (changeWorkspaceMemberRoleTx e (Req_ActorUserID r) (Req_WorkspaceID r) (Req_UserID r) (Req_Role r)
             (Req_Reason r) (Req_OccurredAt r) (Some (Req_ExpectedVersion r)) db)
             (\<lambda>m db. Inr (workspace_result m (Req_ExpectedVersion r + 1), db))
      else if Req_Operation r = OperationRemove
      then call (deactivateWorkspaceMemberTx e (Req_ActorUserID r) (Req_WorkspaceID r) (Req_UserID r)
             (Req_Reason r) (Req_OccurredAt r) (Some (Req_ExpectedVersion r)) db)
             (\<lambda>m db. Inr (workspace_result m (Req_ExpectedVersion r), db))
      else Inl (Store ErrMembershipCommandUnsupported))"

definition stored_command :: "string \<Rightarrow> string \<Rightarrow> db \<Rightarrow> command_row option" where
  "stored_command consumer key db =
     find (\<lambda>r. cr_consumer_key r = consumer \<and> cr_idempotency_key r = key) (platform_membership_command_results db)"

definition runCommandTx :: "env \<Rightarrow> MembershipCommandRequest \<Rightarrow> db \<Rightarrow> (MembershipCommandResult \<times> db) result" where
  "runCommandTx e r db =
     (if Req_Scope r = ScopeOrganisation then executeOrganisationMembershipCommandTx e r db
      else if Req_Scope r = ScopeWorkspace then executeWorkspaceMembershipCommandTx e r db
      else Inl (Store ErrMembershipCommandUnsupported))"

definition commandTx ::
    "env \<Rightarrow> MembershipCommandRequest \<Rightarrow> db \<Rightarrow> (MembershipCommandResult \<times> db option) result" where
  "commandTx e r0 db =
     (case stored_command (Req_Consumer r0) (Req_IdempotencyKey r0) db of
        Some stored \<Rightarrow>
          if cr_request_hash stored \<noteq> Req_RequestHash r0 then Inl (Store ErrMembershipCommandReplayMismatch)
          else attempt (validateMembershipCommandActorTx r0 db) (\<lambda>_.
               attempt (decode_result (cr_result_json stored)) (\<lambda>result.
               Inr (result\<lparr>Res_Replay := True\<rparr>, None)))
      | None \<Rightarrow>
          let r = r0\<lparr>Req_Reason := TrimSpace (Req_Reason r0)\<rparr> in
          call (runCommandTx e r db) (\<lambda>result db.
          exec (insert_command \<lparr>cr_id = 0, cr_consumer_key = Req_Consumer r, cr_idempotency_key = Req_IdempotencyKey r,
                  cr_request_hash = Req_RequestHash r, cr_result_json = encode_result result,
                  cr_created_at = Req_OccurredAt r\<rparr> db) (\<lambda>db.
          Inr (result, Some db))))"

definition ExecuteMembershipCommand ::
    "env \<Rightarrow> MembershipCommandRequest \<Rightarrow> db \<Rightarrow> MembershipCommandResult result \<times> db" where
  "ExecuteMembershipCommand e r db =
     prepare db
      (if TrimSpace (Req_Consumer r) = [] \<or> TrimSpace (Req_RequestHash r) = [] \<or> TrimSpace (Req_IdempotencyKey r) = [] \<or>
          IsZero (Req_OccurredAt r)
       then Inl (Store ErrMembershipCommandConflict) else Inr ())
      (\<lambda>_. run_tx e db (commandTx e r))"

abbreviation membershipCommandResultRetention :: int where
  "membershipCommandResultRetention \<equiv> seconds (24 * 60 * 60)"

definition old_commands :: "gotime \<Rightarrow> nat \<Rightarrow> db \<Rightarrow> int list" where
  "old_commands before limit db =
     take limit (map cr_id (sort_key (\<lambda>r. (formatTime (cr_created_at r), cr_id r))
       (filter (\<lambda>r. time_text_le (cr_created_at r) before) (platform_membership_command_results db))))"

definition CleanupMembershipCommandResults :: "env \<Rightarrow> gotime \<Rightarrow> int \<Rightarrow> db \<Rightarrow> int result \<times> db" where
  "CleanupMembershipCommandResults e before limit db =
     prepare db
      (if IsZero before \<or> time_now e - membershipCommandResultRetention < before \<or> limit < 1 \<or> 1000 < limit
       then Inl (Store ErrInvalidReadAuthorityRequest) else Inr ())
      (\<lambda>_. with_tx e db (\<lambda>db.
         let ids = old_commands before (nat limit) db in
         Inr (int (count_where (\<lambda>r. cr_id r \<in> set ids) (platform_membership_command_results db)), delete_commands ids db)))"

section \<open>Every operation is a sequence of statements\<close>

abbreviation command_tables :: "tbl set" where
  "command_tables \<equiv>
     {CommandResults, Organisations, OrganisationMemberships, Workspaces, WorkspaceMemberships, AuditEvents, Outbox}"

lemma only_writes_mono: "only_writes S db m \<Longrightarrow> S \<subseteq> T \<Longrightarrow> only_writes T db m"
  by (auto simp: only_writes_def intro: writes_mono)

lemmas member_tx_writes =
  addOrganisationMemberTx_writes changeOrganisationMemberRoleTx_writes deactivateOrganisationMemberTx_writes
  addWorkspaceMemberTx_writes changeWorkspaceMemberRoleTx_writes deactivateWorkspaceMemberTx_writes

lemma runCommandTx_writes: "only_writes (org_tables \<union> wsp_tables) db (runCommandTx e r db)"
  unfolding runCommandTx_def executeOrganisationMembershipCommandTx_def executeWorkspaceMembershipCommandTx_def
  by (auto intro!: only_writes_if only_writes_call only_writes_Inr intro: member_tx_writes [THEN only_writes_mono])

lemma commandTx_writes: "commandTx e r db = Inr (a, Some d) \<Longrightarrow> writes command_tables db d"
  unfolding commandTx_def
  by (auto simp: tx_simps Let_def split: option.splits if_splits
      dest!: only_writesD [OF runCommandTx_writes] exec_writes(19) [where S = command_tables]
      intro: writes_trans elim: writes_mono)

interpretation membership_command: store_op command_tables "\<lambda>r e. ExecuteMembershipCommand e r"
  by unfold_locales
    (auto simp: ExecuteMembershipCommand_def dest: run_method_atomic dest!: run_method_Inr intro: commandTx_writes)

interpretation cleanup_commands: store_op "{CommandResults}" "\<lambda>(b, n) e. CleanupMembershipCommandResults e b n"
  by unfold_locales
    (auto simp: CleanupMembershipCommandResults_def Let_def prepare_def tx_simps split: sum.splits if_splits
      dest: with_tx_Inl intro: update_writes)

lemma reserveNonceTx_writes: "only_writes {Nonces} db (reserveNonceTx c n at x db)"
  unfolding reserveNonceTx_def Let_def
  by (rule only_writes_then [OF update_writes(18)])
    (auto intro!: only_writes_rules only_writes_Inr intro: exec_writes)

interpretation reserve_nonce: store_op "{Nonces}" "\<lambda>(c, n, at, x) e. ReserveReadAuthorityNonce e c n at x"
  by unfold_locales
    (auto simp: ReserveReadAuthorityNonce_def Let_def dest: tx_method_atomic
      dest!: tx_method_traced [OF _ reserveNonceTx_writes])

section \<open>Nonces are single-use\<close>

definition reserved :: "string \<Rightarrow> string \<Rightarrow> gotime \<Rightarrow> db \<Rightarrow> bool" where
  "reserved consumer nonce t db \<longleftrightarrow>
     (\<exists>r \<in> set (platform_read_authority_nonces db). nc_consumer_key r = consumer \<and> nc_nonce r = nonce \<and>
        time_text_less t (nc_expires_at r))"

lemma kept_nonces: "platform_read_authority_nonces (delete_nonces at db) =
    filter (\<lambda>q. time_text_less at (nc_expires_at q)) (platform_read_authority_nonces db)"
  by (simp add: delete_nonces_def time_text_le_not_less)

lemma reserved_iff: "reserved c n at db \<longleftrightarrow>
    list_ex (\<lambda>r. nc_consumer_key r = c \<and> nc_nonce r = n) (platform_read_authority_nonces (delete_nonces at db))"
  unfolding kept_nonces by (auto simp: reserved_def list_ex_iff)

lemma reserve_rows:
  assumes "ReserveReadAuthorityNonce e consumer nonce at expiresAt db = (Inr u, db')"
  shows "platform_read_authority_nonces db' =
      filter (\<lambda>q. time_text_less at (nc_expires_at q)) (platform_read_authority_nonces db) @
      [\<lparr>nc_consumer_key = TrimSpace consumer, nc_nonce = TrimSpace nonce, nc_reserved_at = at, nc_expires_at = expiresAt\<rparr>]"
  using assms
  by (auto simp: ReserveReadAuthorityNonce_def Let_def tx_simps reserveNonceTx_def insert_nonce_def kept_nonces
      split: if_splits)

lemma reserve_ok:
  assumes "ReserveReadAuthorityNonce e consumer nonce at expiresAt db = (Inr u, db')"
  shows "\<not> reserved (TrimSpace consumer) (TrimSpace nonce) at db"
    "time_text_less t expiresAt \<Longrightarrow> reserved (TrimSpace consumer) (TrimSpace nonce) t db'"
    "\<not> time_text_less t at \<Longrightarrow> reserved c n t db \<Longrightarrow> reserved c n t db'"
proof -
  let ?c = "TrimSpace consumer" and ?n = "TrimSpace nonce"
  from assms show "\<not> reserved ?c ?n at db"
    by (auto simp: ReserveReadAuthorityNonce_def Let_def tx_simps reserveNonceTx_def reserved_iff split: if_splits)
  note rows = reserve_rows [OF assms]
  show "time_text_less t expiresAt \<Longrightarrow> reserved ?c ?n t db'" unfolding reserved_def rows by simp
  have "time_text_less at x" if "\<not> time_text_less t at" "time_text_less t x" for x
    using that by (auto simp: time_text_less_def)
  then show "\<not> time_text_less t at \<Longrightarrow> reserved c n t db \<Longrightarrow> reserved c n t db'"
    unfolding reserved_def rows by auto
qed

text \<open>
  The guard a signed request meets: a consumer, a nonce and an expiry are presented at an instant, and
  instants are ordered as the text the columns hold.
\<close>

definition present_nonce :: "env \<Rightarrow> gotime \<Rightarrow> string \<times> string \<times> gotime \<Rightarrow> db \<Rightarrow> bool \<times> db" where
  "present_nonce e at p db =
     (case p of (consumer, nonce, expiresAt) \<Rightarrow>
        (let (r, db') = ReserveReadAuthorityNonce e consumer nonce at expiresAt db in (r = Inr (), db')))"

interpretation nonces: replay_guard "present_nonce e" "\<lambda>(c, n, _). (TrimSpace c, TrimSpace n)"
  "\<lambda>(c, n) t db. reserved c n t db" "\<lambda>(_, _, x) t. time_text_less t x" "\<lambda>t u. \<not> time_text_less u t"
  for e
proof unfold_locales
  fix e and t u :: gotime and p :: "string \<times> string \<times> gotime" and s s' :: db and ok and k :: "string \<times> string"
  obtain c n x where p: "p = (c, n, x)" by (metis prod.exhaust)
  obtain r d where r: "ReserveReadAuthorityNonce e c n t x s = (r, d)" by force
  have refused: "d = s" if "r \<noteq> Inr ()"
    using that r reserve_nonce.atomic [of "(c, n, t, x)" e s _ d] by (cases r) auto
  { assume "present_nonce e t p s = (True, s')"
    then have "ReserveReadAuthorityNonce e c n t x s = (Inr (), s')" using r p by (simp add: present_nonce_def)
    note ok = reserve_ok [OF this]
    show "\<not> (case case p of (c, n, uu_) \<Rightarrow> (TrimSpace c, TrimSpace n) of (c, n) \<Rightarrow> \<lambda>t db. reserved c n t db) t s"
      using ok(1) p by simp
    show "(case p of (uu_, uua_, x) \<Rightarrow> \<lambda>t. time_text_less t x) u \<Longrightarrow>
        (case case p of (c, n, uu_) \<Rightarrow> (TrimSpace c, TrimSpace n) of (c, n) \<Rightarrow> \<lambda>t db. reserved c n t db) u s'"
      using ok(2) p by simp }
  show "present_nonce e t p s = (ok, s') \<Longrightarrow> \<not> time_text_less u t \<Longrightarrow>
      (case k of (c, n) \<Rightarrow> \<lambda>t db. reserved c n t db) u s \<Longrightarrow> (case k of (c, n) \<Rightarrow> \<lambda>t db. reserved c n t db) u s'"
    using r p refused reserve_ok(3) [of e c n t x s "()" d u] by (cases "r = Inr ()"; cases k) (auto simp: present_nonce_def)
qed

text \<open>
  A nonce can be reserved once until it expires. A reservation that succeeds is in force
  until its expiry; while one is in force, reserving the same nonce for the same consumer is refused
  as a replay; and no other reservation made at or before an instant lifts one that is still in force then.
\<close>

theorem nonce_single_use:
  assumes "begin_ok e" and "ReserveReadAuthorityNonce e consumer nonce at expiresAt db = (r, db')"
  shows "(r = Inr () \<and> time_text_less t expiresAt \<longrightarrow> reserved (TrimSpace consumer) (TrimSpace nonce) t db') \<and>
    (reserved (TrimSpace consumer) (TrimSpace nonce) at db \<longrightarrow> r \<noteq> Inr ()) \<and>
    (reserved (TrimSpace consumer) (TrimSpace nonce) at db \<and> length (TrimSpace consumer) \<le> 100 \<and> TrimSpace consumer \<noteq> [] \<and>
       length (TrimSpace nonce) \<le> 128 \<and> TrimSpace nonce \<noteq> [] \<and> \<not> IsZero at \<and> \<not> IsZero expiresAt \<and> at < expiresAt \<longrightarrow>
       r = Inl (Store ErrReadAuthorityNonceReplay)) \<and>
    (reserved c n at db \<longrightarrow> reserved c n at db')"
proof -
  let ?c = "TrimSpace consumer" and ?n = "TrimSpace nonce"
  show ?thesis
  proof (cases "r = Inr ()")
    case True
    with reserve_ok [of e consumer nonce at expiresAt db "()" db'] assms(2) show ?thesis
      by (auto simp: time_text_less_def)
  next
    case False
    with assms(2) obtain x where r: "r = Inl x" by (cases r) auto
    with assms(2) have same: "db' = db"
      using reserve_nonce.atomic [of "(consumer, nonce, at, expiresAt)" e db x db'] by simp
    have "x = Store ErrReadAuthorityNonceReplay"
      if "reserved ?c ?n at db" "length ?c \<le> 100" "?c \<noteq> []" "length ?n \<le> 128" "?n \<noteq> []" "\<not> IsZero at"
        "\<not> IsZero expiresAt" "at < expiresAt"
      using assms that r
      by (auto simp: ReserveReadAuthorityNonce_def Let_def prepare_def with_tx_def reserveNonceTx_def reserved_iff
          split: if_splits)
    with False r same show ?thesis by auto
  qed
qed

section \<open>Canonical requests are unambiguous\<close>

lemma first_line:
  assumes "b \<notin> set x" "b \<notin> set y" "x @ b # u = y @ b # v"
  shows "x = y \<and> u = v"
  using assms
proof (induction x arbitrary: y)
  case Nil
  then show ?case by (cases y) auto
next
  case (Cons a x)
  then show ?case by (cases y) auto
qed

lemma join_lines_inj:
  assumes "length xs = length ys" "\<forall>x \<in> set xs. newline \<notin> set x" "\<forall>y \<in> set ys. newline \<notin> set y"
    and "join_lines xs = join_lines ys"
  shows "xs = ys"
  using assms
proof (induction xs arbitrary: ys rule: join_lines.induct)
  case (2 x)
  then show ?case by (cases ys) auto
next
  case (3 x x' xs)
  then obtain y y' ys' where ys: "ys = y # y' # ys'" by (metis length_Suc_conv)
  have eq: "x @ newline # join_lines (x' # xs) = y @ newline # join_lines (y' # ys')"
    using 3 ys by simp
  have "newline \<notin> set x" "newline \<notin> set y" using 3(3,4) ys by simp_all
  from first_line [OF this eq] have "x = y" "join_lines (x' # xs) = join_lines (y' # ys')" by simp_all
  moreover have "x' # xs = y' # ys'" using 3(2-4) ys calculation(2) by (intro 3(1)) simp_all
  ultimately show ?case using ys by simp
qed simp

lemma join_lines_snoc: "xs \<noteq> [] \<Longrightarrow> join_lines [join_lines xs, y] = join_lines (xs @ [y])"
  by (induction xs rule: join_lines.induct) (simp_all)

lemma graphic_plain:
  assumes "s \<noteq> []" "list_all graphic s"
  shows "TrimSpace s = s \<and> newline \<notin> set s"
proof -
  have "graphic (hd s)" "graphic (last s)" using assms by (simp_all add: list_all_iff)
  moreover have "\<not> graphic newline" by (simp add: graphic_def)
  ultimately show ?thesis using assms TrimSpace_graphic by (auto simp: list_all_iff)
qed

lemma validToken_plain: "validToken s \<Longrightarrow> TrimSpace s = s \<and> newline \<notin> set s"
  by (rule graphic_plain)
    (auto simp: validToken_def token_char_def list_all_iff Let_def byte_def graphic_def)

lemma validSHA256_plain: "validSHA256 s \<Longrightarrow> TrimSpace s = s \<and> newline \<notin> set s"
  by (rule graphic_plain)
    (auto simp: validSHA256_def hex_char_def list_all_iff Let_def byte_def graphic_def)

text \<open>
  C24: The signed text of a command determines the request. Two accepted requests with the same
  canonical text agree in method, path, body digest, actor digest, consumer, key, timestamp and nonce,
  provided neither the method nor the path holds a line break.
\<close>

theorem canonical_unambiguous:
  assumes "CanonicalRequestWithActor c m p b a co k t n = Inr s" "CanonicalRequestWithActor c m' p' b' a' co' k' t' n' = Inr s"
    and "newline \<notin> set (ToUpper (unicode_upper c) (TrimSpace m) @ TrimSpace p)" "newline \<notin> set (ToUpper (unicode_upper c) (TrimSpace m') @ TrimSpace p')"
  shows "ToUpper (unicode_upper c) (TrimSpace m) = ToUpper (unicode_upper c) (TrimSpace m') \<and> TrimSpace p = TrimSpace p' \<and>
    (b, a, co, k, t, n) = (b', a', co', k', t', n')"
proof -
  have shape: "join_lines [ToUpper (unicode_upper c) (TrimSpace m), TrimSpace p, b, co, k, t, n, a] = s \<and>
      newline \<notin> set b \<and> newline \<notin> set co \<and> newline \<notin> set k \<and> newline \<notin> set t \<and> newline \<notin> set n \<and> newline \<notin> set a"
    if "CanonicalRequestWithActor c m p b a co k t n = Inr s" for m p b a co k t n
    using that join_lines_snoc [of "[ToUpper (unicode_upper c) (TrimSpace m), TrimSpace p, b, co, k, t, n]" a]
    by (auto simp: CanonicalRequestWithActor_def CanonicalRequest_def validToken_plain validSHA256_plain
        split: if_splits sum.splits)
  have "[ToUpper (unicode_upper c) (TrimSpace m), TrimSpace p, b, co, k, t, n, a] =
      [ToUpper (unicode_upper c) (TrimSpace m'), TrimSpace p', b', co', k', t', n', a']"
    using shape [OF assms(1)] shape [OF assms(2)] assms(3,4) by (intro join_lines_inj) auto
  then show ?thesis by simp
qed

section \<open>Stored results\<close>

definition plain_result :: "MembershipCommandResult \<Rightarrow> bool" where
  "plain_result r \<longleftrightarrow>
     is_ascii (Res_MembershipID r) \<and> is_ascii (Res_OrganisationID r) \<and> is_ascii (Res_WorkspaceID r) \<and>
     is_ascii (Res_UserID r) \<and> is_ascii (Res_Role r) \<and>
     - (2 ^ 63) \<le> Res_MembershipVersion r \<and> Res_MembershipVersion r < 2 ^ 63"

lemma field_names:
  "map ascii_lower ''MembershipID'' = ''membershipid''" "map ascii_lower ''OrganisationID'' = ''organisationid''"
  "map ascii_lower ''WorkspaceID'' = ''workspaceid''" "map ascii_lower ''UserID'' = ''userid''"
  "map ascii_lower ''Role'' = ''role''" "map ascii_lower ''Active'' = ''active''"
  "map ascii_lower ''MembershipVersion'' = ''membershipversion''" "map ascii_lower ''Replay'' = ''replay''"
  by code_simp+

lemma set_field_names:
  "set_field ''MembershipID'' v r = set_string Res_MembershipID_update v r"
  "set_field ''OrganisationID'' v r = set_string Res_OrganisationID_update v r"
  "set_field ''WorkspaceID'' v r = set_string Res_WorkspaceID_update v r"
  "set_field ''UserID'' v r = set_string Res_UserID_update v r"
  "set_field ''Role'' v r = set_string Res_Role_update v r"
  "set_field ''Active'' v r = set_bool Res_Active_update v r"
  "set_field ''MembershipVersion'' v r = set_int Res_MembershipVersion_update v r"
  "set_field ''Replay'' v r = set_bool Res_Replay_update v r"
  unfolding set_field_def Let_def field_names by simp_all

lemma decode_encode:
  assumes "plain_result r"
  shows "decode_result (encode_result r) = Inr r"
proof -
  have "plain_fields [(''MembershipID'', JStr (Res_MembershipID r)), (''OrganisationID'', JStr (Res_OrganisationID r)),
      (''WorkspaceID'', JStr (Res_WorkspaceID r)), (''UserID'', JStr (Res_UserID r)), (''Role'', JStr (Res_Role r)),
      (''Active'', JBool (Res_Active r)), (''MembershipVersion'', JInt (Res_MembershipVersion r)),
      (''Replay'', JBool (Res_Replay r))]"
    using assms by (auto simp: plain_fields_def plain_scalar_def plain_result_def is_ascii_def)
  from Unmarshal_Marshal [OF this] assms show ?thesis
    unfolding decode_result_def encode_result_def
    by (simp add: set_field_names ParseInt_JInt plain_result_def zero_result_def)
qed

section \<open>Commands\<close>

lemma changeOrganisation_versioned:
  assumes "changeOrganisationMemberRoleTx e a i u role reason at (Some v) db = Inr x"
  shows "changeOrganisationMemberRoleTx e a i u role reason at None db = Inr x"
    "\<exists>org m. organisation_row i db = Some org \<and> current_membership (o_id org) u db = Some m \<and> om_version m = v"
  using assms unfolding changeOrganisationMemberRoleTx_def
  by (auto simp: tx_simps version_conflict_def authorisedOrganisationMutationTx_def split: if_splits)

lemma deactivateOrganisation_versioned:
  assumes "deactivateOrganisationMemberTx e a i u reason at (Some v) db = Inr x"
  shows "deactivateOrganisationMemberTx e a i u reason at None db = Inr x"
    "\<exists>org m. organisation_row i db = Some org \<and> current_membership (o_id org) u db = Some m \<and> om_version m = v"
  using assms unfolding deactivateOrganisationMemberTx_def
  by (auto simp: tx_simps version_conflict_def authorisedOrganisationMutationTx_def split: if_splits)

lemma insert_command_Inr:
  assumes "insert_command row db = Inr db'"
  shows "\<exists>i. db' = db\<lparr>platform_membership_command_results := platform_membership_command_results db @ [row\<lparr>cr_id := i\<rparr>]\<rparr>"
  using assms by (auto simp: insert_command_def insert_row_def split: if_splits)

definition command_row_for :: "MembershipCommandRequest \<Rightarrow> MembershipCommandResult \<Rightarrow> int \<Rightarrow> command_row" where
  "command_row_for r res i =
     \<lparr>cr_id = i, cr_consumer_key = Req_Consumer r, cr_idempotency_key = Req_IdempotencyKey r,
      cr_request_hash = Req_RequestHash r, cr_result_json = encode_result res, cr_created_at = Req_OccurredAt r\<rparr>"

lemma fresh_command:
  assumes "ExecuteMembershipCommand e r db = (Inr res, db')" "stored_command (Req_Consumer r) (Req_IdempotencyKey r) db = None"
  obtains db1 i where "runCommandTx e (r\<lparr>Req_Reason := TrimSpace (Req_Reason r)\<rparr>) db = Inr (res, db1)"
    "db' = db1\<lparr>platform_membership_command_results := platform_membership_command_results db @ [command_row_for r res i]\<rparr>"
    "begin_ok e" "commit_ok e"
    "TrimSpace (Req_Consumer r) \<noteq> []" "TrimSpace (Req_RequestHash r) \<noteq> []" "TrimSpace (Req_IdempotencyKey r) \<noteq> []"
    "\<not> IsZero (Req_OccurredAt r)"
proof -
  let ?r = "r\<lparr>Req_Reason := TrimSpace (Req_Reason r)\<rparr>"
  from assms obtain db1 where run: "runCommandTx e ?r db = Inr (res, db1)"
    and ins: "insert_command (command_row_for r res 0) db1 = Inr db'" and ok: "begin_ok e" "commit_ok e"
    and inputs: "TrimSpace (Req_Consumer r) \<noteq> []" "TrimSpace (Req_RequestHash r) \<noteq> []" "TrimSpace (Req_IdempotencyKey r) \<noteq> []"
      "\<not> IsZero (Req_OccurredAt r)"
    by (auto simp: ExecuteMembershipCommand_def commandTx_def tx_simps Let_def command_row_for_def split: if_splits)
  have same: "platform_membership_command_results db1 = platform_membership_command_results db"
    using writes_frame(19) [OF only_writesD [OF runCommandTx_writes run]] by simp
  from insert_command_Inr [OF ins] obtain i where
    "db' = db1\<lparr>platform_membership_command_results := platform_membership_command_results db @ [command_row_for r res i]\<rparr>"
    by (auto simp: same command_row_for_def)
  with that run ok inputs show ?thesis by blast
qed

text \<open>
  C22: A machine command does what the interactive operation does, under a version check. A fresh
  command on an organisation membership has exactly the effect of adding, changing or deactivating the
  member as the acting user, plus one stored result; a change or deactivation only goes through when the
  expected version is the current one, and the result carries the version after the command.
\<close>

theorem command_refines:
  assumes "ExecuteMembershipCommand e r db = (Inr res, db')" "stored_command (Req_Consumer r) (Req_IdempotencyKey r) db = None"
    and "Req_Scope r = ''organisation_membership''"
  shows "\<exists>db1 i. db' = db1\<lparr>platform_membership_command_results := platform_membership_command_results db @ [command_row_for r res i]\<rparr> \<and>
    (let a = Req_ActorUserID r; o' = Req_OrganisationID r; u = Req_UserID r; role = Req_Role r;
         reason = TrimSpace (Req_Reason r); at = Req_OccurredAt r; v = Req_ExpectedVersion r;
         current = (\<exists>org m. organisation_row o' db = Some org \<and> current_membership (o_id org) u db = Some m \<and> om_version m = v)
     in Req_Operation r = ''add'' \<and>
          (\<exists>m. AddOrganisationMember e a o' u role reason at db = (Inr m, db1) \<and> res = organisation_result m 1) \<or>
        Req_Operation r = ''change_role'' \<and> current \<and>
          (\<exists>m. ChangeOrganisationMemberRole e a o' u role reason at db = (Inr m, db1) \<and> res = organisation_result m (v + 1)) \<or>
        Req_Operation r = ''deactivate'' \<and> current \<and>
          DeactivateOrganisationMember e a o' u reason at db = (Inr (), db1) \<and> Res_MembershipVersion res = v \<and> \<not> Res_Active res)"
proof -
  let ?r = "r\<lparr>Req_Reason := TrimSpace (Req_Reason r)\<rparr>"
  from assms(1,2) obtain db1 i where run: "runCommandTx e ?r db = Inr (res, db1)"
    and db': "db' = db1\<lparr>platform_membership_command_results := platform_membership_command_results db @ [command_row_for r res i]\<rparr>"
    and ok: "begin_ok e" "commit_ok e"
    by (rule fresh_command)
  from run assms(3) consider
      m where "Req_Operation r = ''add''" "addOrganisationMemberTx e (Req_ActorUserID r) (Req_OrganisationID r) (Req_UserID r)
        (Req_Role r) (TrimSpace (Req_Reason r)) (Req_OccurredAt r) db = Inr (m, db1)" "res = organisation_result m 1"
    | m where "Req_Operation r = ''change_role''" "changeOrganisationMemberRoleTx e (Req_ActorUserID r) (Req_OrganisationID r)
        (Req_UserID r) (Req_Role r) (TrimSpace (Req_Reason r)) (Req_OccurredAt r) (Some (Req_ExpectedVersion r)) db = Inr (m, db1)"
        "res = organisation_result m (Req_ExpectedVersion r + 1)"
    | m where "Req_Operation r = ''deactivate''" "deactivateOrganisationMemberTx e (Req_ActorUserID r) (Req_OrganisationID r)
        (Req_UserID r) (TrimSpace (Req_Reason r)) (Req_OccurredAt r) (Some (Req_ExpectedVersion r)) db = Inr (m, db1)"
        "res = organisation_result m (Req_ExpectedVersion r)"
    by (auto simp: runCommandTx_def executeOrganisationMembershipCommandTx_def tx_simps split: if_splits)
  then show ?thesis
  proof cases
    case 1
    then have "AddOrganisationMember e (Req_ActorUserID r) (Req_OrganisationID r) (Req_UserID r) (Req_Role r)
        (TrimSpace (Req_Reason r)) (Req_OccurredAt r) db = (Inr m, db1)"
      using ok by (auto simp: AddOrganisationMember_def addOrganisationMemberTx_def tx_simps)
    with 1 db' show ?thesis by (auto simp: Let_def)
  next
    case 2
    note plain = changeOrganisation_versioned(1) [OF 2(2)]
    then have "ChangeOrganisationMemberRole e (Req_ActorUserID r) (Req_OrganisationID r) (Req_UserID r) (Req_Role r)
        (TrimSpace (Req_Reason r)) (Req_OccurredAt r) db = (Inr m, db1)"
      using ok by (auto simp: ChangeOrganisationMemberRole_def changeOrganisationMemberRoleTx_def tx_simps)
    with 2 changeOrganisation_versioned(2) [OF 2(2)] db' show ?thesis by (auto simp: Let_def)
  next
    case 3
    note plain = deactivateOrganisation_versioned(1) [OF 3(2)]
    then have "DeactivateOrganisationMember e (Req_ActorUserID r) (Req_OrganisationID r) (Req_UserID r)
        (TrimSpace (Req_Reason r)) (Req_OccurredAt r) db = (Inr (), db1)"
      using ok by (auto simp: DeactivateOrganisationMember_def deactivateOrganisationMemberTx_def tx_simps)
    moreover have "\<not> OMem_Active m"
      using plain by (auto simp: deactivateOrganisationMemberTx_def tx_simps membership_value_def)
    ultimately show ?thesis
      using 3 deactivateOrganisation_versioned(2) [OF 3(2)] db' by (auto simp: Let_def organisation_result_def)
  qed
qed

text \<open>
  C23: A command is executed once. Repeating a command that went through, with the same consumer,
  idempotency key and request hash, by an actor who still has the authority, returns the first result
  marked as a replay and changes nothing; the same key with another request is refused.
\<close>

theorem command_idempotent:
  assumes "ExecuteMembershipCommand e r db = (Inr res, db')" "stored_command (Req_Consumer r) (Req_IdempotencyKey r) db = None"
    and "plain_result res" and "begin_ok e2"
    and "Req_Consumer r2 = Req_Consumer r" "Req_IdempotencyKey r2 = Req_IdempotencyKey r"
    and "TrimSpace (Req_RequestHash r2) \<noteq> []" "\<not> IsZero (Req_OccurredAt r2)"
  shows "(Req_RequestHash r2 = Req_RequestHash r \<and> validateMembershipCommandActorTx r2 db' = Inr () \<longrightarrow>
      ExecuteMembershipCommand e2 r2 db' = (Inr (res\<lparr>Res_Replay := True\<rparr>), db')) \<and>
    (Req_RequestHash r2 \<noteq> Req_RequestHash r \<longrightarrow>
      ExecuteMembershipCommand e2 r2 db' = (Inl (Store ErrMembershipCommandReplayMismatch), db'))"
proof -
  from assms(1,2) obtain db1 i where
    db': "db' = db1\<lparr>platform_membership_command_results := platform_membership_command_results db @ [command_row_for r res i]\<rparr>"
    and inputs: "TrimSpace (Req_Consumer r) \<noteq> []" "TrimSpace (Req_IdempotencyKey r) \<noteq> []"
    by (rule fresh_command)
  have "stored_command (Req_Consumer r) (Req_IdempotencyKey r) db' = Some (command_row_for r res i)"
    using assms(2) by (auto simp: stored_command_def db' command_row_for_def find_None_iff find_Some_iff nth_append
        intro!: exI [of _ "length (platform_membership_command_results db)"])
  then show ?thesis
    using assms(4-) inputs decode_encode [OF assms(3)]
    by (auto simp: ExecuteMembershipCommand_def prepare_def run_tx_def commandTx_def command_row_for_def)
qed

end
