(* ===== verification/ScenarioFeed.thy ===== *)
theory ScenarioFeed
  imports Projections MembershipCommand Demo
begin

text \<open>
  Runs of the projection, nonce and membership-command operations on the example database: every
  property of those components that has a hypothesis is applied to an input where it holds.
\<close>

section \<open>Projections\<close>

definition demo_event :: "string \<Rightarrow> int \<Rightarrow> OutboxEvent" where
  "demo_event i n =
     \<lparr>EventID = i, EventType = EventOrganisationRenamed, AggregateType = ''Organisation'', AggregateID = ''org_a'',
      Sequence = n, SchemaVersion = 1, OccurredAt = demo_time,
      Payload = Marshal_map [(''organisation_id'', JStr ''org_a''), (''name'', JStr ''Acme'')],
      GlobalCursor = n, PublishedAt = None\<rparr>"

abbreviation "demo_ingest \<equiv>
  IngestPlatformProjectionEvent (demo_env 1) ''tockr.ctrl'' (demo_event ''evt_1'' 1) demo_time demo_db"

lemma demo_ingest_runs: "\<not> isl (fst demo_ingest)"
  by code_simp

theorem ingest_effect_witness:
  "\<exists>res db'. demo_ingest = (Inr res, db') \<and> (\<forall>k. last_applied k db' = last_applied k demo_db)"
proof -
  obtain res db' where run: "demo_ingest = (Inr res, db')" using demo_ingest_runs by (rule ranE)
  have "platform_projection_inbox demo_db = []" by (simp add: demo_db_def initial_db_def)
  with ingest_effect [OF run] run show ?thesis by auto
qed

definition demo_inbox_db :: db where
  "demo_inbox_db = snd demo_ingest"

lemma demo_inbox_db_ok: "db_ok demo_inbox_db"
  using writes_db_ok [OF ingest.run_writes demo_db_ok, of "(''tockr.ctrl'', demo_event ''evt_1'' 1, demo_time)" "demo_env 1"]
  by (simp add: demo_inbox_db_def)

abbreviation "demo_apply \<equiv>
  MarkPlatformProjectionEventApplied (demo_env 2) ''tockr.ctrl'' ''evt_1'' demo_time demo_inbox_db"

lemma demo_apply_runs: "fst demo_apply = Inr ()"
  by code_simp

theorem apply_effect_witness:
  "\<exists>db' r. demo_apply = (Inr (), db') \<and> r \<in> set (platform_projection_inbox demo_inbox_db) \<and> ib_event_id r = TrimSpace ''evt_1''"
proof -
  obtain db' where run: "demo_apply = (Inr (), db')" using demo_apply_runs by (metis prod.collapse)
  from apply_effect [OF db_okD(12) [OF demo_inbox_db_ok] run] run show ?thesis by blast
qed

theorem projection_in_order_witness:
  "applied_in_order (snd (MarkPlatformProjectionEventApplied (demo_env 2) ''tockr.ctrl'' ''evt_1'' demo_time demo_db))"
proof -
  have "applied_in_order demo_db"
    by (simp add: applied_in_order_def last_applied_def applied_sequences_def demo_db_def initial_db_def)
  from projection_in_order [OF db_okD(12) [OF demo_db_ok] this] show ?thesis by blast
qed

section \<open>Nonces and canonical requests\<close>

abbreviation "demo_reserve \<equiv>
  ReserveReadAuthorityNonce (demo_env 1) ''tockrctrl'' ''n1'' demo_time (demo_time + seconds 300) demo_db"

lemma demo_reserve_runs: "fst demo_reserve = Inr ()"
  by code_simp

lemma demo_reserve_window: "time_text_less demo_time (demo_time + seconds 300)"
  by code_simp

theorem nonce_single_use_witness:
  "\<exists>db'. demo_reserve = (Inr (), db') \<and> reserved (TrimSpace ''tockrctrl'') (TrimSpace ''n1'') demo_time db'"
proof -
  obtain db' where run: "demo_reserve = (Inr (), db')" using demo_reserve_runs by (metis prod.collapse)
  from nonce_single_use [OF demo_env_begin run, of demo_time] run demo_reserve_window show ?thesis by blast
qed

definition plain_crypto :: crypto where
  "plain_crypto =
     \<lparr>sha256 = (\<lambda>s. s), hmac_sha1 = (\<lambda>k m. m), gcm_seal = (\<lambda>k n p. p), gcm_open = (\<lambda>k n x. Some x),
      bcrypt_generate = (\<lambda>p. Some p), bcrypt_compare = (\<lambda>h p. h = p), unicode_lower = (\<lambda>s. s), unicode_upper = (\<lambda>s. s)\<rparr>"

abbreviation demo_digest :: string where
  "demo_digest \<equiv> replicate 64 (CHR ''a'')"

abbreviation "demo_canonical \<equiv>
  CanonicalRequestWithActor plain_crypto ''post'' ''/x'' demo_digest demo_digest ''tockrctrl'' ''k1'' ''1790000000'' ''n1''"

lemma demo_canonical_runs:
  "\<not> isl demo_canonical" "CHR 0x0A \<notin> set (ToUpper (unicode_upper plain_crypto) (TrimSpace ''post'') @ TrimSpace ''/x'')"
  by code_simp+

theorem canonical_unambiguous_witness:
  "\<exists>s. demo_canonical = Inr s \<and> TrimSpace ''/x'' = TrimSpace ''/x''"
proof -
  obtain s where run: "demo_canonical = Inr s" using demo_canonical_runs(1) by (metis sum.collapse(2))
  from canonical_unambiguous [OF run run demo_canonical_runs(2) demo_canonical_runs(2)] run show ?thesis by simp
qed

section \<open>Commands\<close>

definition demo_request :: MembershipCommandRequest where
  "demo_request =
     \<lparr>Req_Consumer = ''tockrctrl'', Req_Scope = ''organisation_membership'', Req_Operation = ''change_role'',
      Req_OrganisationID = ''org_a'', Req_WorkspaceID = [], Req_UserID = ''usr_bob'', Req_Role = ''admin'',
      Req_Reason = ''promote'', Req_IdempotencyKey = ''key1'', Req_ExpectedVersion = 1, Req_RequestHash = demo_digest,
      Req_ActorUserID = ''usr_ann'', Req_OccurredAt = demo_time\<rparr>"

abbreviation "demo_command \<equiv> ExecuteMembershipCommand (demo_env 1) demo_request demo_db"

lemma demo_command_runs: "case fst demo_command of Inr res \<Rightarrow> plain_result res | Inl _ \<Rightarrow> False"
  by code_simp

lemma demo_command_ran:
  obtains res db' where "demo_command = (Inr res, db')" "plain_result res"
  using demo_command_runs by (cases demo_command; cases "fst demo_command") auto

lemma demo_command_fresh: "stored_command (Req_Consumer demo_request) (Req_IdempotencyKey demo_request) demo_db = None"
  by (simp add: stored_command_def demo_db_def initial_db_def)

lemma demo_request_scope: "Req_Scope demo_request = ''organisation_membership''"
  by (simp add: demo_request_def)

theorem command_refines_witness:
  "\<exists>res db' db1 i. demo_command = (Inr res, db') \<and> db' = db1\<lparr>platform_membership_command_results :=
      platform_membership_command_results demo_db @ [command_row_for demo_request res i]\<rparr>"
proof -
  obtain res db' where run: "demo_command = (Inr res, db')" by (rule demo_command_ran)
  from command_refines [OF run demo_command_fresh demo_request_scope] run show ?thesis by blast
qed

lemma demo_request_inputs: "TrimSpace (Req_RequestHash demo_request) \<noteq> []" "\<not> IsZero (Req_OccurredAt demo_request)"
  by code_simp+

theorem command_idempotent_witness:
  "\<exists>res db'. demo_command = (Inr res, db') \<and>
    ExecuteMembershipCommand (demo_env 2) (demo_request\<lparr>Req_RequestHash := ''other''\<rparr>) db' =
      (Inl (Store ErrMembershipCommandReplayMismatch), db')"
proof -
  obtain res db' where run: "demo_command = (Inr res, db')" and plain: "plain_result res" by (rule demo_command_ran)
  have "TrimSpace ''other'' = ''other''" by code_simp
  moreover have "''other'' \<noteq> demo_digest" by (auto dest: arg_cong [of _ _ length])
  ultimately show ?thesis
    using command_idempotent [OF run demo_command_fresh plain demo_env_begin [of 2],
        of "demo_request\<lparr>Req_RequestHash := ''other''\<rparr>"] run demo_request_inputs(2)
    by (simp add: demo_request_def)
qed

section \<open>An administrator appoints an administrator\<close>

text \<open>
  Adding a member as administrator is refused to an administrator, and yet changing a member's role to
  administrator is not: on the example database with a second administrator the two calls end
  differently.
\<close>

definition demo_admin_db :: db where
  "demo_admin_db = demo_db
     \<lparr>organisation_memberships :=
        [(new_om ''omem_1'' 1 1 ''owner'' 1 demo_time 1)\<lparr>om_id := 1\<rparr>,
         (new_om ''omem_2'' 1 2 ''admin'' 1 demo_time 1)\<lparr>om_id := 2\<rparr>,
         (new_om ''omem_3'' 1 3 ''member'' 1 demo_time 1)\<lparr>om_id := 3\<rparr>]\<rparr>"

lemma admin_cannot_add_admin:
  "fst (AddOrganisationMember (demo_env 1) ''usr_bob'' ''org_a'' ''usr_sys'' ''admin'' ''add'' demo_time demo_admin_db) =
     Inl (Store ErrUnauthorisedOrganisationAction)"
  by code_simp

lemma admin_promotes_to_admin:
  "\<not> isl (fst (ChangeOrganisationMemberRole (demo_env 1) ''usr_bob'' ''org_a'' ''usr_eve'' ''admin'' ''up'' demo_time
     demo_admin_db))"
  by code_simp

end
