(* ===== verification/Assertion.thy ===== *)
theory Assertion
  imports Decoding Replay "HOL-Library.AList"
begin

text \<open>
  The signed, short-lived hand-off to the products (\<^verbatim>\<open>internal/platform/assertion\<close>): issuing a token,
  verifying it once, and the contract a product uses (\<^verbatim>\<open>consumer.go\<close>).

  Ed25519 is a parameter (\<open>ed25519\<close>): signing and verifying on byte strings. A private key is
  sixty-four bytes whose second half is the public key, as the library documents. A Go map is an
  association list in the order \<^verbatim>\<open>range\<close> visits it; \<^verbatim>\<open>replayed\<close> is the only state, and \<^verbatim>\<open>Verify\<close> changes
  it under a mutex. Errors that wrap a sentinel with a detail are the sentinel.
\<close>

section \<open>Data\<close>

record ed25519 =
  ed_sign :: "string \<Rightarrow> string \<Rightarrow> string"             \<comment> \<open>private key, message\<close>
  ed_verify :: "string \<Rightarrow> string \<Rightarrow> string \<Rightarrow> bool"   \<comment> \<open>public key, message, signature\<close>

abbreviation "PrivateKeySize \<equiv> 64 :: nat"
abbreviation "PublicKeySize \<equiv> 32 :: nat"
abbreviation "SignatureSize \<equiv> 64 :: nat"

definition public_half :: "string \<Rightarrow> string" where \<comment> \<open>\<^verbatim>\<open>PrivateKey.Public()\<close>\<close>
  "public_half key = drop 32 key"

abbreviation "Algorithm \<equiv> ''Ed25519''"
abbreviation "Type \<equiv> ''TockrPlatformAssertion''"
abbreviation "CurrentVersion \<equiv> 1 :: int"
abbreviation "DefaultLifetime \<equiv> seconds 120"

datatype assertion_err =
    ErrConfiguration | ErrInvalidAssertion | ErrInvalidAudience | ErrInvalidScope
  | ErrAssertionExpired | ErrAssertionNotYetValid | ErrAssertionReplay
  | ErrAssertionVersionMismatch
  | ErrMarshalAssertion       \<comment> \<open>\<^verbatim>\<open>json.Marshal\<close> refuses a year outside 0 to 9999\<close>
  | ErrAssertionRandom        \<comment> \<open>\<^verbatim>\<open>crypto/rand\<close> failed\<close>

record Claims =
  Cl_Issuer :: string
  Cl_Audience :: string
  Cl_PlatformUserID :: string
  Cl_PlatformOrganisationID :: string
  Cl_PlatformWorkspaceID :: string
  Cl_IssuedAt :: gotime
  Cl_ExpiresAt :: gotime
  Cl_AssertionID :: string
  Cl_AssertionVersion :: int

record header =
  Hd_Algorithm :: string
  Hd_KeyID :: string
  Hd_Type :: string

record IssueRequest =
  Irq_Audience :: string
  Irq_PlatformUserID :: string
  Irq_OrganisationID :: string
  Irq_WorkspaceID :: string
  Irq_Lifetime :: int

record Config =
  Cfg_Issuer :: string
  Cfg_ActiveKeyID :: string
  Cfg_ActivePrivateKey :: string
  Cfg_VerificationKeys :: "(string \<times> string) list"
  Cfg_Audiences :: "string list"
  Cfg_MaxLifetime :: int
  Cfg_ClockSkew :: int

record VerifierConfig =
  Vcf_Issuer :: string
  Vcf_VerificationKeys :: "(string \<times> string) list"
  Vcf_Audiences :: "string list"
  Vcf_MaxLifetime :: int
  Vcf_ClockSkew :: int

record Issuer =
  Iss_issuer :: string
  Iss_activeKeyID :: string
  Iss_privateKey :: string
  Iss_publicKeys :: "(string \<times> string) list"
  Iss_audiences :: "string list"
  Iss_maxLifetime :: int
  Iss_clockSkew :: int
  Iss_replayed :: "(string \<times> gotime) list"

record VerificationKey =
  Vk_KeyID :: string
  Vk_Algorithm :: string
  Vk_PublicKey :: string

section \<open>Validation\<close>

definition ContainsAny :: "string \<Rightarrow> nat list \<Rightarrow> bool" where \<comment> \<open>\<^verbatim>\<open>strings.ContainsAny\<close>, by character codes\<close>
  "ContainsAny s cs \<longleftrightarrow> list_ex (\<lambda>c. byte c \<in> set cs) s"

definition validText :: "string \<Rightarrow> nat \<Rightarrow> bool" where
  "validText value0 m =
     (let value = TrimSpace value0 in
      value \<noteq> [] \<and> length value \<le> m \<and> \<not> ContainsAny value [13, 10, 9, 32])"

definition validScopeID :: "string \<Rightarrow> string \<Rightarrow> bool" where
  "validScopeID value prefix \<longleftrightarrow>
     HasPrefix value prefix \<and> length prefix < length value \<and> length value \<le> 200 \<and>
     \<not> ContainsAny value [13, 10, 32, 9]"

definition newAssertionID :: "(nat \<Rightarrow> char) option \<Rightarrow> assertion_err + string" where
  "newAssertionID src =
     (case src of None \<Rightarrow> Inl ErrAssertionRandom | Some f \<Rightarrow> Inr (''ast_'' @ RawURLEncoding (map f [0..<18])))"

section \<open>Configuration\<close>

definition max_lifetime :: "int \<Rightarrow> assertion_err + int" where
  "max_lifetime configured =
     (let m = (if configured = 0 then seconds 300 else configured) in
      if m < DefaultLifetime \<or> seconds 900 < m then Inl ErrConfiguration else Inr m)"

definition clock_skew :: "int \<Rightarrow> assertion_err + int" where
  "clock_skew configured =
     (let m = (if configured = 0 then seconds 5 else configured) in
      if m < 0 \<or> seconds 60 < m then Inl ErrConfiguration else Inr m)"

fun collect_audiences :: "string list \<Rightarrow> string list \<Rightarrow> assertion_err + string list" where
  "collect_audiences seen [] = Inr seen"
| "collect_audiences seen (v # vs) =
     (let value = TrimSpace v in
      if \<not> validText value 100 \<or> ContainsAny value [13, 10] then Inl ErrConfiguration
      else if value \<in> set seen then Inl ErrConfiguration
      else collect_audiences (seen @ [value]) vs)"

fun collect_keys :: "(string \<Rightarrow> string) \<Rightarrow> (string \<times> string) list \<Rightarrow> (string \<times> string) list \<Rightarrow>
    assertion_err + (string \<times> string) list" where
  "collect_keys f keys [] = Inr keys"
| "collect_keys f keys ((k, publicKey) # ks) =
     (let keyID = f k in
      if \<not> validText keyID 100 \<or> length publicKey \<noteq> PublicKeySize then Inl ErrConfiguration
      else collect_keys f (AList.update keyID publicKey keys) ks)"

definition New_issuer :: "Config \<Rightarrow> assertion_err + Issuer" where
  "New_issuer config =
     (let issuer = TrimSpace (Cfg_Issuer config); activeKeyID = TrimSpace (Cfg_ActiveKeyID config);
          activePublic = public_half (Cfg_ActivePrivateKey config) in
      if \<not> validText issuer 200 \<or> ContainsAny issuer [13, 10] then Inl ErrConfiguration
      else if \<not> validText activeKeyID 100 then Inl ErrConfiguration
      else if length (Cfg_ActivePrivateKey config) \<noteq> PrivateKeySize then Inl ErrConfiguration
      else attempt (max_lifetime (Cfg_MaxLifetime config)) (\<lambda>maxLifetime.
      attempt (clock_skew (Cfg_ClockSkew config)) (\<lambda>clockSkew.
      if Cfg_Audiences config = [] then Inl ErrConfiguration
      else attempt (collect_audiences [] (Cfg_Audiences config)) (\<lambda>audiences.
      if length activePublic \<noteq> PublicKeySize then Inl ErrConfiguration
      else attempt (collect_keys (\<lambda>k. k) [] (Cfg_VerificationKeys config)) (\<lambda>publicKeys.
      if (case map_of publicKeys activeKeyID of None \<Rightarrow> False | Some existing \<Rightarrow> existing \<noteq> activePublic)
      then Inl ErrConfiguration
      else Inr \<lparr>Iss_issuer = issuer, Iss_activeKeyID = activeKeyID, Iss_privateKey = Cfg_ActivePrivateKey config,
                Iss_publicKeys = AList.update activeKeyID activePublic publicKeys, Iss_audiences = audiences,
                Iss_maxLifetime = maxLifetime, Iss_clockSkew = clockSkew, Iss_replayed = []\<rparr>)))))"

definition NewVerifier :: "VerifierConfig \<Rightarrow> assertion_err + Issuer" where
  "NewVerifier config =
     (let issuer = TrimSpace (Vcf_Issuer config) in
      if \<not> validText issuer 200 \<or> ContainsAny issuer [13, 10] then Inl ErrConfiguration
      else attempt (max_lifetime (Vcf_MaxLifetime config)) (\<lambda>maxLifetime.
      attempt (clock_skew (Vcf_ClockSkew config)) (\<lambda>clockSkew.
      if Vcf_Audiences config = [] \<or> Vcf_VerificationKeys config = [] then Inl ErrConfiguration
      else attempt (collect_audiences [] (Vcf_Audiences config)) (\<lambda>audiences.
      attempt (collect_keys TrimSpace [] (Vcf_VerificationKeys config)) (\<lambda>publicKeys.
      Inr \<lparr>Iss_issuer = issuer, Iss_activeKeyID = [], Iss_privateKey = [], Iss_publicKeys = publicKeys,
           Iss_audiences = audiences, Iss_maxLifetime = maxLifetime, Iss_clockSkew = clockSkew, Iss_replayed = []\<rparr>)))))"

definition verification_key :: "string \<times> string \<Rightarrow> VerificationKey" where
  "verification_key k = \<lparr>Vk_KeyID = fst k, Vk_Algorithm = Algorithm, Vk_PublicKey = snd k\<rparr>"

text \<open>The active key first, the others by key id.\<close>

definition PublicKeys :: "Issuer option \<Rightarrow> VerificationKey list" where
  "PublicKeys issuer =
     (case issuer of
        None \<Rightarrow> []
      | Some i \<Rightarrow>
          let active = (case map_of (Iss_publicKeys i) (Iss_activeKeyID i) of
                          None \<Rightarrow> [] | Some k \<Rightarrow> [verification_key (Iss_activeKeyID i, k)]);
              others = map verification_key (filter (\<lambda>k. fst k \<noteq> Iss_activeKeyID i) (Iss_publicKeys i));
              keys = active @ others in
          if 1 < length keys then hd keys # sort_key Vk_KeyID (tl keys) else keys)"

section \<open>Issuing\<close>

definition header_json :: "header \<Rightarrow> string" where
  "header_json h = Marshal (JObj [(''alg'', JStr (Hd_Algorithm h)), (''kid'', JStr (Hd_KeyID h)), (''typ'', JStr (Hd_Type h))])"

definition claims_json :: "Claims \<Rightarrow> string" where
  "claims_json c = Marshal (JObj
     [(''issuer'', JStr (Cl_Issuer c)), (''audience'', JStr (Cl_Audience c)),
      (''platform_user_id'', JStr (Cl_PlatformUserID c)), (''platform_organisation_id'', JStr (Cl_PlatformOrganisationID c)),
      (''platform_workspace_id'', JStr (Cl_PlatformWorkspaceID c)), (''issued_at'', JStr (formatTime (Cl_IssuedAt c))),
      (''expires_at'', JStr (formatTime (Cl_ExpiresAt c))), (''assertion_id'', JStr (Cl_AssertionID c)),
      (''assertion_version'', JInt (Cl_AssertionVersion c))])"

definition sign :: "ed25519 \<Rightarrow> Issuer \<Rightarrow> Claims \<Rightarrow> assertion_err + (string \<times> Claims)" where
  "sign ed i claims =
     (if \<not> plain_time (Cl_IssuedAt claims) \<or> \<not> plain_time (Cl_ExpiresAt claims) then Inl ErrMarshalAssertion
      else let headerEncoded = RawURLEncoding
                 (header_json \<lparr>Hd_Algorithm = Algorithm, Hd_KeyID = Iss_activeKeyID i, Hd_Type = Type\<rparr>);
               payloadEncoded = RawURLEncoding (claims_json claims);
               signed = headerEncoded @ ''.'' @ payloadEncoded;
               signature = ed_sign ed (Iss_privateKey i) signed
           in Inr (signed @ ''.'' @ RawURLEncoding signature, claims))"

definition Issue :: "ed25519 \<Rightarrow> env \<Rightarrow> Issuer option \<Rightarrow> IssueRequest \<Rightarrow> gotime \<Rightarrow> assertion_err + (string \<times> Claims)" where
  "Issue ed e issuer request at0 =
     (case issuer of
        None \<Rightarrow> Inl ErrConfiguration
      | Some i \<Rightarrow>
          if length (Iss_privateKey i) \<noteq> PrivateKeySize then Inl ErrConfiguration
          else let audience = TrimSpace (Irq_Audience request) in
          if audience \<notin> set (Iss_audiences i) then Inl ErrInvalidAudience
          else if \<not> validScopeID (Irq_PlatformUserID request) ''usr_'' \<or>
                  \<not> validScopeID (Irq_OrganisationID request) ''org_'' \<or>
                  \<not> validScopeID (Irq_WorkspaceID request) ''wsp_'' then Inl ErrInvalidScope
          else let at = (if IsZero at0 then time_now e else at0);
                   lifetime = (if Irq_Lifetime request = 0 then DefaultLifetime else Irq_Lifetime request) in
          if lifetime \<le> 0 \<or> Iss_maxLifetime i < lifetime then Inl ErrInvalidAssertion
          else attempt (newAssertionID (rand_read e 0)) (\<lambda>assertionID.
          sign ed i \<lparr>Cl_Issuer = Iss_issuer i, Cl_Audience = audience, Cl_PlatformUserID = Irq_PlatformUserID request,
                     Cl_PlatformOrganisationID = Irq_OrganisationID request,
                     Cl_PlatformWorkspaceID = Irq_WorkspaceID request, Cl_IssuedAt = at, Cl_ExpiresAt = at + lifetime,
                     Cl_AssertionID = assertionID, Cl_AssertionVersion = CurrentVersion\<rparr>))"

section \<open>Verifying\<close>

text \<open>One JSON object, no name twice, nothing after it.\<close>

definition rejectDuplicateObjectKeys :: "string \<Rightarrow> bool" where
  "rejectDuplicateObjectKeys data \<longleftrightarrow>
     (case raw_object data of
        None \<Rightarrow> False
      | Some (members, rest) \<Rightarrow> distinct (map fst members) \<and> skip_ws rest = [])"

text \<open>\<^verbatim>\<open>DisallowUnknownFields\<close>: \<open>put\<close> refuses a name the struct does not have.\<close>

fun set_members :: "(string \<Rightarrow> json \<Rightarrow> string \<Rightarrow> 'r \<Rightarrow> 'r option) \<Rightarrow> (string \<times> json \<times> string) list \<Rightarrow> 'r \<Rightarrow> 'r option" where
  "set_members put [] r = Some r"
| "set_members put ((k, v, raw) # ms) r = (case put k v raw r of None \<Rightarrow> None | Some r \<Rightarrow> set_members put ms r)"

definition decodeStrict :: "(string \<Rightarrow> json \<Rightarrow> string \<Rightarrow> 'r \<Rightarrow> 'r option) \<Rightarrow> 'r \<Rightarrow> string \<Rightarrow> 'r option" where
  "decodeStrict put zero data =
     (if \<not> rejectDuplicateObjectKeys data then None
      else case raw_object data of None \<Rightarrow> None | Some (members, _) \<Rightarrow> set_members put members zero)"

text \<open>\<^verbatim>\<open>Time.UnmarshalJSON\<close> reads the raw text between the quotes.\<close>

definition set_time :: "((gotime \<Rightarrow> gotime) \<Rightarrow> 'r \<Rightarrow> 'r) \<Rightarrow> string \<Rightarrow> 'r \<Rightarrow> 'r option" where
  "set_time upd raw r =
     (if raw = ''null'' then Some r
      else if length raw < 2 \<or> hd raw \<noteq> quote_char \<or> last raw \<noteq> quote_char then None
      else map_option (\<lambda>t. upd (\<lambda>_. t) r) (parseStrictRFC3339 (butlast (tl raw))))"

definition set_header :: "string \<Rightarrow> json \<Rightarrow> string \<Rightarrow> header \<Rightarrow> header option" where
  "set_header k0 v raw r =
     (let k = foldName k0 in
      if k = ''ALG'' then set_string Hd_Algorithm_update v r
      else if k = ''KID'' then set_string Hd_KeyID_update v r
      else if k = ''TYP'' then set_string Hd_Type_update v r
      else None)"

definition set_claim :: "string \<Rightarrow> json \<Rightarrow> string \<Rightarrow> Claims \<Rightarrow> Claims option" where
  "set_claim k0 v raw r =
     (let k = foldName k0 in
      if k = ''ISSUER'' then set_string Cl_Issuer_update v r
      else if k = ''AUDIENCE'' then set_string Cl_Audience_update v r
      else if k = ''PLATFORM_USER_ID'' then set_string Cl_PlatformUserID_update v r
      else if k = ''PLATFORM_ORGANISATION_ID'' then set_string Cl_PlatformOrganisationID_update v r
      else if k = ''PLATFORM_WORKSPACE_ID'' then set_string Cl_PlatformWorkspaceID_update v r
      else if k = ''ISSUED_AT'' then set_time Cl_IssuedAt_update raw r
      else if k = ''EXPIRES_AT'' then set_time Cl_ExpiresAt_update raw r
      else if k = ''ASSERTION_ID'' then set_string Cl_AssertionID_update v r
      else if k = ''ASSERTION_VERSION'' then set_int Cl_AssertionVersion_update v r
      else None)"

definition zero_header :: header where
  "zero_header = \<lparr>Hd_Algorithm = [], Hd_KeyID = [], Hd_Type = []\<rparr>"

definition zero_claims :: Claims where
  "zero_claims = \<lparr>Cl_Issuer = [], Cl_Audience = [], Cl_PlatformUserID = [], Cl_PlatformOrganisationID = [],
     Cl_PlatformWorkspaceID = [], Cl_IssuedAt = zero_time, Cl_ExpiresAt = zero_time, Cl_AssertionID = [],
     Cl_AssertionVersion = 0\<rparr>"

text \<open>The claims of a token whose header, key and signature are in order.\<close>

definition token_claims :: "ed25519 \<Rightarrow> Issuer \<Rightarrow> string \<Rightarrow> assertion_err + Claims" where
  "token_claims ed i token =
     (case split_on (CHR ''.'') token of
        [h, p, s] \<Rightarrow>
          if 2048 < length h \<or> 4096 < length p \<or> 4096 < length s then Inl ErrInvalidAssertion
          else attempt (need ErrInvalidAssertion (RawURLDecode h)) (\<lambda>headerBytes.
          attempt (need ErrInvalidAssertion (decodeStrict set_header zero_header headerBytes)) (\<lambda>value.
          if Hd_Algorithm value \<noteq> Algorithm \<or> Hd_Type value \<noteq> Type \<or> \<not> validText (Hd_KeyID value) 100
          then Inl ErrInvalidAssertion
          else attempt (need ErrInvalidAssertion (map_of (Iss_publicKeys i) (Hd_KeyID value))) (\<lambda>publicKey.
          attempt (need ErrInvalidAssertion (RawURLDecode s)) (\<lambda>signature.
          if length signature \<noteq> SignatureSize \<or> \<not> ed_verify ed publicKey (h @ ''.'' @ p) signature
          then Inl ErrInvalidAssertion
          else attempt (need ErrInvalidAssertion (RawURLDecode p)) (\<lambda>payload.
          need ErrInvalidAssertion (decodeStrict set_claim zero_claims payload))))))
      | _ \<Rightarrow> Inl ErrInvalidAssertion)"

definition validateClaims :: "Issuer \<Rightarrow> Claims \<Rightarrow> gotime \<Rightarrow> assertion_err + unit" where
  "validateClaims i claims now =
     (if Cl_AssertionVersion claims \<noteq> CurrentVersion then Inl ErrAssertionVersionMismatch
      else if Cl_Issuer claims \<noteq> Iss_issuer i then Inl ErrInvalidAssertion
      else if Cl_Audience claims \<notin> set (Iss_audiences i) then Inl ErrInvalidAudience
      else if \<not> validScopeID (Cl_PlatformUserID claims) ''usr_'' \<or>
              \<not> validScopeID (Cl_PlatformOrganisationID claims) ''org_'' \<or>
              \<not> validScopeID (Cl_PlatformWorkspaceID claims) ''wsp_'' \<or>
              \<not> validScopeID (Cl_AssertionID claims) ''ast_'' then Inl ErrInvalidScope
      else if IsZero (Cl_IssuedAt claims) \<or> IsZero (Cl_ExpiresAt claims) \<or>
              \<not> Cl_IssuedAt claims < Cl_ExpiresAt claims \<or>
              Iss_maxLifetime i < time_Sub (Cl_ExpiresAt claims) (Cl_IssuedAt claims) then Inl ErrInvalidAssertion
      else if now + Iss_clockSkew i < Cl_IssuedAt claims then Inl ErrAssertionNotYetValid
      else if \<not> now < Cl_ExpiresAt claims then Inl ErrAssertionExpired
      else Inr ())"

definition prune_replayed :: "gotime \<Rightarrow> (string \<times> gotime) list \<Rightarrow> (string \<times> gotime) list" where
  "prune_replayed now replayed = filter (\<lambda>(_, expiresAt). now < expiresAt) replayed"

definition Verify :: "ed25519 \<Rightarrow> env \<Rightarrow> Issuer option \<Rightarrow> string \<Rightarrow> gotime \<Rightarrow> (assertion_err + Claims) \<times> Issuer option" where
  "Verify ed e issuer token now0 =
     (case issuer of
        None \<Rightarrow> (Inl ErrConfiguration, None)
      | Some i \<Rightarrow>
          let now = (if IsZero now0 then time_now e else now0) in
          case attempt (token_claims ed i token) (\<lambda>claims. attempt (validateClaims i claims now) (\<lambda>_. Inr claims)) of
            Inl x \<Rightarrow> (Inl x, Some i)
          | Inr claims \<Rightarrow>
              let replayed = prune_replayed now (Iss_replayed i) in
              if map_of replayed (Cl_AssertionID claims) \<noteq> None
              then (Inl ErrAssertionReplay, Some (i\<lparr>Iss_replayed := replayed\<rparr>))
              else (Inr claims, Some (i\<lparr>Iss_replayed :=
                      AList.update (Cl_AssertionID claims) (Cl_ExpiresAt claims) replayed\<rparr>)))"

section \<open>The consumer contract\<close>

datatype FailureClass =
    FailureUnauthenticated | FailureForbidden | FailureStale | FailureUnavailable | FailureVersionMismatch

definition ProductForAudience :: "string \<Rightarrow> string option" where
  "ProductForAudience audience =
     (if TrimSpace audience = ''tockrctrl'' then Some ''product.tockrctrl''
      else if TrimSpace audience = ''tockrims'' then Some ''product.tockrims'' else None)"

fun classifyVerificationFailure :: "assertion_err \<Rightarrow> FailureClass" where
  "classifyVerificationFailure ErrConfiguration = FailureUnavailable"
| "classifyVerificationFailure ErrAssertionVersionMismatch = FailureVersionMismatch"
| "classifyVerificationFailure ErrAssertionExpired = FailureStale"
| "classifyVerificationFailure ErrAssertionNotYetValid = FailureStale"
| "classifyVerificationFailure ErrAssertionReplay = FailureStale"
| "classifyVerificationFailure ErrInvalidAudience = FailureForbidden"
| "classifyVerificationFailure ErrInvalidScope = FailureForbidden"
| "classifyVerificationFailure _ = FailureUnauthenticated"

definition VerifyForProduct :: "ed25519 \<Rightarrow> env \<Rightarrow> Issuer option \<Rightarrow> string \<Rightarrow> string \<Rightarrow> string \<Rightarrow> gotime \<Rightarrow>
    (FailureClass + Claims) \<times> Issuer option" where
  "VerifyForProduct ed e issuer token expectedAudience expectedProductKey now =
     (case ProductForAudience expectedAudience of
        None \<Rightarrow> (Inl FailureForbidden, issuer)
      | Some productKey \<Rightarrow>
          if productKey \<noteq> TrimSpace expectedProductKey then (Inl FailureForbidden, issuer)
          else case Verify ed e issuer token now of
            (Inl x, issuer') \<Rightarrow> (Inl (classifyVerificationFailure x), issuer')
          | (Inr claims, issuer') \<Rightarrow>
              if Cl_Audience claims \<noteq> TrimSpace expectedAudience then (Inl FailureForbidden, issuer')
              else (Inr claims, issuer'))"

lemma split_on_join: "concat (map (\<lambda>x. x @ [c]) (split_on c s)) = s @ [c]"
  by (induction s) (auto split: list.splits)

lemma update_append_new: "k \<notin> fst ` set xs \<Longrightarrow> AList.update k v xs = xs @ [(k, v)]"
  by (induction xs) auto

lemma update_entry: "(k, v) \<in> set (AList.update k v xs)"
  by (induction xs) auto

section \<open>What is verified\<close>

lemma Verify_Inr:
  assumes "Verify ed e (Some i) token now = (Inr claims, i')" "\<not> IsZero now"
  shows "token_claims ed i token = Inr claims" "validateClaims i claims now = Inr ()"
    "map_of (prune_replayed now (Iss_replayed i)) (Cl_AssertionID claims) = None"
    "i' = Some (i\<lparr>Iss_replayed := AList.update (Cl_AssertionID claims) (Cl_ExpiresAt claims)
            (prune_replayed now (Iss_replayed i))\<rparr>)"
  using assms by (auto simp: Verify_def Let_def attempt_def split: sum.splits if_splits)

text \<open>
  C31: A token is accepted only if it is signed and in force: its first two segments carry a valid
  signature under one of the configured keys, the one its header names; its claims name this issuer, a
  configured audience and well-formed identifiers, in the supported version; it was issued, at most the
  tolerated skew ahead, and expires later than now, within the maximum lifetime; and its identifier is
  not among those accepted and not yet expired.
\<close>

theorem assertion_trusted:
  assumes "Verify ed e (Some i) token now = (Inr claims, i')" and "\<not> IsZero now"
  shows "(\<exists>h p s header signature key. token = h @ ''.'' @ p @ ''.'' @ s \<and>
      Option.bind (RawURLDecode h) (decodeStrict set_header zero_header) = Some header \<and>
      Hd_Algorithm header = ''Ed25519'' \<and> map_of (Iss_publicKeys i) (Hd_KeyID header) = Some key \<and>
      RawURLDecode s = Some signature \<and> ed_verify ed key (h @ ''.'' @ p) signature \<and>
      Option.bind (RawURLDecode p) (decodeStrict set_claim zero_claims) = Some claims) \<and>
    Cl_AssertionVersion claims = 1 \<and> Cl_Issuer claims = Iss_issuer i \<and> Cl_Audience claims \<in> set (Iss_audiences i) \<and>
    HasPrefix (Cl_PlatformUserID claims) ''usr_'' \<and> HasPrefix (Cl_PlatformOrganisationID claims) ''org_'' \<and>
    HasPrefix (Cl_PlatformWorkspaceID claims) ''wsp_'' \<and>
    Cl_IssuedAt claims \<le> now + Iss_clockSkew i \<and> now < Cl_ExpiresAt claims \<and>
    time_Sub (Cl_ExpiresAt claims) (Cl_IssuedAt claims) \<le> Iss_maxLifetime i \<and>
    (\<forall>t. (Cl_AssertionID claims, t) \<in> set (Iss_replayed i) \<longrightarrow> t \<le> now)"
proof -
  note v = Verify_Inr [OF assms]
  from v(1) obtain h p s where parts: "split_on (CHR ''.'') token = [h, p, s]"
    by (auto simp: token_claims_def split: list.splits)
  then have token: "token = h @ ''.'' @ p @ ''.'' @ s"
    using split_on_join [of "CHR ''.''" token] by simp
  from v(1) parts obtain header signature key where
    "Option.bind (RawURLDecode h) (decodeStrict set_header zero_header) = Some header" "Hd_Algorithm header = Algorithm"
    "map_of (Iss_publicKeys i) (Hd_KeyID header) = Some key" "RawURLDecode s = Some signature"
    "ed_verify ed key (h @ ''.'' @ p) signature"
    "Option.bind (RawURLDecode p) (decodeStrict set_claim zero_claims) = Some claims"
    by (auto simp: token_claims_def attempt_def need_def split: sum.splits option.splits if_splits)
  with token have "\<exists>h p s header signature key. token = h @ ''.'' @ p @ ''.'' @ s \<and>
      Option.bind (RawURLDecode h) (decodeStrict set_header zero_header) = Some header \<and>
      Hd_Algorithm header = ''Ed25519'' \<and> map_of (Iss_publicKeys i) (Hd_KeyID header) = Some key \<and>
      RawURLDecode s = Some signature \<and> ed_verify ed key (h @ ''.'' @ p) signature \<and>
      Option.bind (RawURLDecode p) (decodeStrict set_claim zero_claims) = Some claims" by blast
  moreover have "t \<le> now" if "(Cl_AssertionID claims, t) \<in> set (Iss_replayed i)" for t
    using v(3) that by (force simp: map_of_eq_None_iff prune_replayed_def)
  ultimately show ?thesis
    using v(2) by (auto simp: validateClaims_def validScopeID_def split: if_splits)
qed

section \<open>A token is accepted once\<close>

definition token_id :: "ed25519 \<Rightarrow> Issuer \<Rightarrow> string \<Rightarrow> string" where
  "token_id ed i token = (case token_claims ed i token of Inl _ \<Rightarrow> [] | Inr c \<Rightarrow> Cl_AssertionID c)"

definition token_expiry :: "ed25519 \<Rightarrow> Issuer \<Rightarrow> string \<Rightarrow> gotime" where
  "token_expiry ed i token = (case token_claims ed i token of Inl _ \<Rightarrow> zero_time | Inr c \<Rightarrow> Cl_ExpiresAt c)"

text \<open>Presenting a token to a verifier whose configuration is that of \<open>i\<close>; its state is what it has accepted.\<close>

definition present_token :: "ed25519 \<Rightarrow> Issuer \<Rightarrow> gotime \<Rightarrow> string \<Rightarrow> (string \<times> gotime) list \<Rightarrow> bool \<times> (string \<times> gotime) list" where
  "present_token ed i now token replayed =
     (if IsZero now then (False, replayed)
      else case Verify ed \<lparr>rand_read = \<lambda>_. None, begin_ok = False, commit_ok = False, time_now = now\<rparr>
                  (Some (i\<lparr>Iss_replayed := replayed\<rparr>)) token now of
        (r, None) \<Rightarrow> (False, replayed)
      | (r, Some i') \<Rightarrow> (\<not> isl r, Iss_replayed i'))"

lemma token_claims_replayed [simp]: "token_claims ed (i\<lparr>Iss_replayed := r\<rparr>) token = token_claims ed i token"
  by (simp add: token_claims_def cong: if_cong list.case_cong)

lemma validateClaims_replayed [simp]: "validateClaims (i\<lparr>Iss_replayed := r\<rparr>) c now = validateClaims i c now"
  by (simp add: validateClaims_def)

lemma present_token_cases:
  "present_token ed i now token replayed =
     (if IsZero now then (False, replayed)
      else case attempt (token_claims ed i token) (\<lambda>c. attempt (validateClaims i c now) (\<lambda>_. Inr c)) of
        Inl _ \<Rightarrow> (False, replayed)
      | Inr c \<Rightarrow> let kept = prune_replayed now replayed in
          if map_of kept (Cl_AssertionID c) \<noteq> None then (False, kept)
          else (True, AList.update (Cl_AssertionID c) (Cl_ExpiresAt c) kept))"
  by (auto simp: present_token_def Verify_def Let_def split: sum.splits)

interpretation assertions: replay_guard "present_token ed i" "token_id ed i"
  "\<lambda>k t replayed. \<exists>x. (k, x) \<in> set replayed \<and> t < x" "\<lambda>token t. t < token_expiry ed i token" "\<lambda>t u. t \<le> u"
  for ed i
proof unfold_locales
  fix ed i and t u :: gotime and p and s s' :: "(string \<times> gotime) list" and ok and k :: string
  { assume "present_token ed i t p s = (True, s')"
    then obtain c where c: "token_claims ed i p = Inr c" "map_of (prune_replayed t s) (Cl_AssertionID c) = None"
        "s' = AList.update (Cl_AssertionID c) (Cl_ExpiresAt c) (prune_replayed t s)"
      by (auto simp: present_token_cases attempt_def Let_def split: sum.splits if_splits)
    then show "\<not> (\<exists>x. (token_id ed i p, x) \<in> set s \<and> t < x)"
      by (force simp: token_id_def map_of_eq_None_iff prune_replayed_def)
    from c show "u < token_expiry ed i p \<Longrightarrow> \<exists>x. (token_id ed i p, x) \<in> set s' \<and> u < x"
      using update_entry [of "Cl_AssertionID c" "Cl_ExpiresAt c" "prune_replayed t s"]
      by (simp add: token_id_def token_expiry_def) blast }
  assume pr: "present_token ed i t p s = (ok, s')" and t: "t \<le> u" and "\<exists>x. (k, x) \<in> set s \<and> u < x"
  then obtain x where x: "(k, x) \<in> set s" "u < x" by blast
  then have kept: "(k, x) \<in> set (prune_replayed t s)" using t by (auto simp: prune_replayed_def)
  have "s' = s \<or> s' = prune_replayed t s \<or>
      (\<exists>c :: Claims. map_of (prune_replayed t s) (Cl_AssertionID c) = None \<and>
        s' = AList.update (Cl_AssertionID c) (Cl_ExpiresAt c) (prune_replayed t s))"
    using pr unfolding present_token_cases Let_def by (simp split: sum.splits if_splits) blast
  then consider "s' = s" | "s' = prune_replayed t s" |
    c :: Claims where "map_of (prune_replayed t s) (Cl_AssertionID c) = None"
      "s' = AList.update (Cl_AssertionID c) (Cl_ExpiresAt c) (prune_replayed t s)"
    by blast
  then show "\<exists>x. (k, x) \<in> set s' \<and> u < x"
  proof cases
    case 3
    then have "s' = prune_replayed t s @ [(Cl_AssertionID c, Cl_ExpiresAt c)]"
      by (simp add: map_of_eq_None_iff update_append_new)
    with kept x show ?thesis by auto
  qed (use kept x in auto)
qed

text \<open>
  C32: No token is accepted twice. Whatever tokens are presented to a verifier, at instants that never
  go back, the verifier accepts no identifier again before the expiry of the token it accepted, and so
  never the same token.
\<close>

theorem assertion_single_use:
  assumes "i < j" and "j < length ps" and "sorted (map fst ps)"
    and "accepted (present_token ed v) ps replayed ! i" and "accepted (present_token ed v) ps replayed ! j"
    and "token_id ed v (snd (ps ! i)) = token_id ed v (snd (ps ! j))"
  shows "token_expiry ed v (snd (ps ! i)) \<le> fst (ps ! j) \<and> snd (ps ! i) \<noteq> snd (ps ! j)"
proof -
  have "fst (ps ! k) \<le> fst (ps ! j)" if "k < j" for k
    using assms(2,3) that by (auto simp: sorted_iff_nth_mono)
  then have "\<not> fst (ps ! j) < token_expiry ed v (snd (ps ! i))"
    using assertions.accepted_once [OF assms(1,2,4,5,6)] by blast
  moreover have "fst (ps ! j) < token_expiry ed v (snd (ps ! j))"
    using accepted_present [OF assms(2,5)]
    by (auto simp: present_token_cases attempt_def token_expiry_def Let_def validateClaims_def split: sum.splits if_splits)
  ultimately show ?thesis by auto
qed

section \<open>An issued token is accepted\<close>

definition plain_char :: "char \<Rightarrow> bool" where \<comment> \<open>written by \<^verbatim>\<open>encoding/json\<close> as it is\<close>
  "plain_char c \<longleftrightarrow> 32 \<le> byte c \<and> byte c < 128 \<and> byte c \<notin> {34, 38, 60, 62, 92}"

lemma escape_plain: "list_all plain_char s \<Longrightarrow> escape s = s"
proof (induction s)
  case Nil
  then show ?case by (simp add: escape.simps)
next
  case (Cons c cs)
  then show ?case by (auto simp: escape_Cons_ascii escape_ascii_def plain_char_def Let_def)
qed

lemma plain_ascii: "list_all plain_char s \<Longrightarrow> is_ascii s"
  by (auto simp: is_ascii_def list_all_iff plain_char_def byte_def)

lemma digits_plain: "list_all plain_char (digits w n)"
  using digits_digit by (fastforce simp: list_all_iff plain_char_def is_digit_def)

lemma formatTime_plain: "plain_time t \<Longrightarrow> list_all plain_char (formatTime t)"
proof -
  assume "plain_time t"
  moreover have "list_all plain_char (fraction n)" for n
  proof -
    have "set (rev (dropWhile P (rev xs))) \<subseteq> set xs" for P and xs :: string
      using set_dropWhileD by fastforce
    with digits_plain [of 9 "nat n"] show ?thesis
      by (fastforce simp: fraction_def list_all_iff plain_char_def byte_def)
  qed
  moreover have "list_all plain_char ''-T:Z''" by (simp add: plain_char_def byte_def)
  ultimately show ?thesis
    by (auto simp: formatTime_def stamp_def Let_def plain_time_def year_string_def digits_plain split: prod.splits)
qed

lemma formatTime_length: "plain_time t \<Longrightarrow> length (formatTime t) \<le> 30"
proof -
  assume "plain_time t"
  moreover have "length (fraction n) \<le> 10" for n
    using length_dropWhile_le [of _ "rev (digits 9 (nat n))"] by (simp add: fraction_def)
  ultimately show ?thesis using length_stamp [of t] by (simp add: formatTime_def)
qed

lemma quote_plain: "list_all plain_char s \<Longrightarrow> quote s = quote_char # s @ [quote_char]"
  by (simp add: quote_def escape_plain)

lemma set_time_format:
  "plain_time t \<Longrightarrow> set_time upd (Marshal (JStr (formatTime t))) r = Some (upd (\<lambda>_. t) r)"
  using formatTime_plain [of t]
  by (simp add: set_time_def quote_plain parse_formatTime butlast_append quote_char_def)

lemma decodeStrict_Marshal:
  assumes "fs \<noteq> []" "plain_fields fs" "distinct (map fst fs)"
  shows "decodeStrict put zero (Marshal (JObj fs)) = set_members put (map (\<lambda>(k, v). (k, v, Marshal v)) fs) zero"
  using assms by (simp add: decodeStrict_def rejectDuplicateObjectKeys_def raw_object_Marshal comp_def case_prod_beta
      del: Marshal.simps)

lemma foldName_ascii: "is_ascii s \<Longrightarrow> foldName s = map ascii_upper s"
proof (induction s)
  case Nil
  then show ?case by (simp add: foldName.simps)
next
  case (Cons c cs)
  then have c: "byte c < 128" "is_ascii cs" by (simp_all add: is_ascii_def byte_def)
  have "c \<noteq> char_of (197 :: nat)" "c \<noteq> char_of (226 :: nat)" using c(1) by (auto simp: byte_def)
  with Cons.IH c(2) show ?case by (subst foldName.simps) (cases cs; simp)
qed

lemma header_names: "foldName ''alg'' = ''ALG''" "foldName ''kid'' = ''KID''" "foldName ''typ'' = ''TYP''"
  by (simp_all add: foldName_ascii is_ascii_def ascii_upper_def char_of_def bit_0)

lemma claim_names:
  "foldName ''issuer'' = ''ISSUER''" "foldName ''audience'' = ''AUDIENCE''"
  "foldName ''platform_user_id'' = ''PLATFORM_USER_ID''"
  "foldName ''platform_organisation_id'' = ''PLATFORM_ORGANISATION_ID''"
  "foldName ''platform_workspace_id'' = ''PLATFORM_WORKSPACE_ID''" "foldName ''issued_at'' = ''ISSUED_AT''"
  "foldName ''expires_at'' = ''EXPIRES_AT''" "foldName ''assertion_id'' = ''ASSERTION_ID''"
  "foldName ''assertion_version'' = ''ASSERTION_VERSION''"
  by (simp_all add: foldName_ascii is_ascii_def ascii_upper_def char_of_def bit_0)

lemma decode_header:
  assumes "is_ascii (Hd_Algorithm h)" "is_ascii (Hd_KeyID h)" "is_ascii (Hd_Type h)"
  shows "decodeStrict set_header zero_header (header_json h) = Some h"
proof -
  have "plain_fields [(''alg'', JStr (Hd_Algorithm h)), (''kid'', JStr (Hd_KeyID h)), (''typ'', JStr (Hd_Type h))]"
    using assms by (auto simp: plain_fields_def plain_scalar_def is_ascii_def)
  from decodeStrict_Marshal [OF _ this, of set_header zero_header] show ?thesis
    by (simp add: header_json_def set_header_def header_names zero_header_def)
qed

definition plain_claims :: "Claims \<Rightarrow> bool" where
  "plain_claims c \<longleftrightarrow>
     list_all plain_char (Cl_Issuer c @ Cl_Audience c @ Cl_PlatformUserID c @ Cl_PlatformOrganisationID c @
       Cl_PlatformWorkspaceID c @ Cl_AssertionID c) \<and>
     plain_time (Cl_IssuedAt c) \<and> plain_time (Cl_ExpiresAt c) \<and> Cl_AssertionVersion c = CurrentVersion"

lemma decode_claims:
  assumes "plain_claims c"
  shows "decodeStrict set_claim zero_claims (claims_json c) = Some c"
proof -
  have p: "is_ascii (Cl_Issuer c)" "is_ascii (Cl_Audience c)" "is_ascii (Cl_PlatformUserID c)"
    "is_ascii (Cl_PlatformOrganisationID c)" "is_ascii (Cl_PlatformWorkspaceID c)" "is_ascii (Cl_AssertionID c)"
    "is_ascii (formatTime (Cl_IssuedAt c))" "is_ascii (formatTime (Cl_ExpiresAt c))"
    using assms by (auto simp: plain_claims_def intro: plain_ascii formatTime_plain)
  then have "plain_fields
     [(''issuer'', JStr (Cl_Issuer c)), (''audience'', JStr (Cl_Audience c)),
      (''platform_user_id'', JStr (Cl_PlatformUserID c)), (''platform_organisation_id'', JStr (Cl_PlatformOrganisationID c)),
      (''platform_workspace_id'', JStr (Cl_PlatformWorkspaceID c)), (''issued_at'', JStr (formatTime (Cl_IssuedAt c))),
      (''expires_at'', JStr (formatTime (Cl_ExpiresAt c))), (''assertion_id'', JStr (Cl_AssertionID c)),
      (''assertion_version'', JInt (Cl_AssertionVersion c))]"
    by (auto simp: plain_fields_def plain_scalar_def is_ascii_def)
  from decodeStrict_Marshal [OF _ this, of set_claim zero_claims] assms show ?thesis
    by (simp add: claims_json_def set_claim_def claim_names zero_claims_def set_time_format plain_claims_def
        ParseInt_JInt del: Marshal.simps)
qed

lemma header_length:
  "list_all plain_char k \<Longrightarrow> length (header_json \<lparr>Hd_Algorithm = Algorithm, Hd_KeyID = k, Hd_Type = Type\<rparr>) \<le> 60 + length k"
proof -
  assume "list_all plain_char k"
  moreover have "list_all plain_char Algorithm" "list_all plain_char Type" "list_all plain_char ''alg''"
    "list_all plain_char ''kid''" "list_all plain_char ''typ''" by (simp_all add: plain_char_def byte_def)
  ultimately show ?thesis by (simp add: header_json_def quote_plain)
qed

lemma claims_length:
  assumes "plain_claims c"
  shows "length (claims_json c) \<le> 300 + length (Cl_Issuer c) + length (Cl_Audience c) + length (Cl_PlatformUserID c) +
    length (Cl_PlatformOrganisationID c) + length (Cl_PlatformWorkspaceID c) + length (Cl_AssertionID c)"
proof -
  have "list_all plain_char ''issuer''" "list_all plain_char ''audience''" "list_all plain_char ''platform_user_id''"
    "list_all plain_char ''platform_organisation_id''" "list_all plain_char ''platform_workspace_id''"
    "list_all plain_char ''issued_at''" "list_all plain_char ''expires_at''" "list_all plain_char ''assertion_id''"
    "list_all plain_char ''assertion_version''"
    by (simp_all add: plain_char_def byte_def)
  note names = this [THEN quote_plain]
  have "length (Marshal (JInt 1)) = 1" by (simp add: JInt_def decimal.simps)
  with assms formatTime_length [of "Cl_IssuedAt c"] formatTime_length [of "Cl_ExpiresAt c"] show ?thesis
    by (simp add: claims_json_def names quote_plain formatTime_plain plain_claims_def JInt_def)
qed

lemma b64_char_plain: "plain_char (b64_char n)" "byte (b64_char n) \<notin> {13, 10, 9, 32}"
  using b64_value_char [of n] by (auto simp: b64_value_def plain_char_def Let_def split: if_splits)

lemma new_id_valid:
  assumes "newAssertionID src = Inr x"
  shows "validScopeID x ''ast_''" "list_all plain_char x" "length x \<le> 100"
proof -
  obtain bs where x: "x = ''ast_'' @ RawURLEncoding bs" "length bs = 18"
    using assms by (auto simp: newAssertionID_def split: option.splits)
  have len: "length (RawURLEncoding bs) \<le> 25" using RawURLEncoding_length [of bs] x(2) by simp
  have "RawURLEncoding bs \<noteq> []" using x(2) by auto
  moreover have "\<not> ContainsAny (RawURLEncoding bs) [13, 10, 32, 9]"
    using b64_char_plain(2) by (fastforce simp: ContainsAny_def list_ex_iff dest: RawURLEncoding_chars)
  ultimately show "validScopeID x ''ast_''"
    using len by (auto simp: x validScopeID_def HasPrefix_def ContainsAny_def byte_def)
  have "list_all plain_char (RawURLEncoding bs)"
    using b64_char_plain(1) by (auto simp: list_all_iff dest: RawURLEncoding_chars)
  then show "list_all plain_char x" by (simp add: x plain_char_def byte_def)
  show "length x \<le> 100" using len by (simp add: x)
qed

text \<open>A verifier trusts an issuer if it knows its name and its active key and allows its lifetimes.\<close>

definition trusts :: "Issuer \<Rightarrow> Issuer \<Rightarrow> bool" where
  "trusts v i \<longleftrightarrow> Iss_issuer v = Iss_issuer i \<and> Iss_maxLifetime i \<le> Iss_maxLifetime v \<and>
     map_of (Iss_publicKeys v) (Iss_activeKeyID i) = Some (public_half (Iss_privateKey i))"

text \<open>The key pair is one of Ed25519: what the private key signs, its public half verifies.\<close>

definition key_pair :: "ed25519 \<Rightarrow> string \<Rightarrow> bool" where
  "key_pair ed k \<longleftrightarrow>
     (\<forall>m. length (ed_sign ed k m) = SignatureSize \<and> ed_verify ed (public_half k) m (ed_sign ed k m))"

lemma New_issuer_ok:
  assumes "New_issuer config = Inr i"
  shows "trusts i i" "validText (Iss_activeKeyID i) 100" "length (Iss_activeKeyID i) \<le> 100"
    "length (Iss_issuer i) \<le> 200" "0 \<le> Iss_clockSkew i" "Iss_maxLifetime i \<le> seconds 900"
    "a \<in> set (Iss_audiences i) \<Longrightarrow> length a \<le> 100"
proof -
  have audiences: "length a \<le> 100"
    if "collect_audiences seen vs = Inr as" "a \<in> set as" "\<forall>b \<in> set seen. length b \<le> 100" for seen vs as
    using that
    by (induction seen vs rule: collect_audiences.induct) (auto simp: Let_def validText_def split: if_splits)
  show "trusts i i" "validText (Iss_activeKeyID i) 100" "length (Iss_activeKeyID i) \<le> 100"
    "length (Iss_issuer i) \<le> 200" "0 \<le> Iss_clockSkew i" "Iss_maxLifetime i \<le> seconds 900"
    using assms
    by (auto simp: New_issuer_def trusts_def Let_def attempt_def validText_def max_lifetime_def clock_skew_def update_conv
        split: sum.splits if_splits)
  show "a \<in> set (Iss_audiences i) \<Longrightarrow> length a \<le> 100"
    using assms audiences [of "[]"]
    by (auto simp: New_issuer_def Let_def attempt_def split: sum.splits if_splits)
qed

lemma token_claims_sign:
  assumes "New_issuer config = Inr i" "sign ed i c = Inr (token, c')" "plain_claims c" "trusts v i"
    and "key_pair ed (Iss_privateKey i)" "list_all plain_char (Iss_activeKeyID i)"
    and "length (claims_json c) \<le> 3000"
  shows "token_claims ed v token = Inr c"
proof -
  let ?hd = "\<lparr>Hd_Algorithm = Algorithm, Hd_KeyID = Iss_activeKeyID i, Hd_Type = Type\<rparr>"
  let ?h = "RawURLEncoding (header_json ?hd)" and ?p = "RawURLEncoding (claims_json c)"
  let ?s = "RawURLEncoding (ed_sign ed (Iss_privateKey i) (?h @ ''.'' @ ?p))"
  note ok = New_issuer_ok [OF assms(1)]
  have token: "token = ?h @ CHR ''.'' # ?p @ CHR ''.'' # ?s" using assms(2) by (auto simp: sign_def Let_def split: if_splits)
  have parts: "split_on (CHR ''.'') token = [?h, ?p, ?s]"
    unfolding token by (simp add: split_on_append split_on_single RawURLEncoding_no_dot)
  have "length ?h \<le> 2048" using RawURLEncoding_length [of "header_json ?hd"] header_length [OF assms(6)] ok(3) by simp
  moreover have "length ?p \<le> 4096" using RawURLEncoding_length [of "claims_json c"] assms(7) by simp
  moreover have "length ?s \<le> 4096"
    using RawURLEncoding_length [of "ed_sign ed (Iss_privateKey i) (?h @ ''.'' @ ?p)"] assms(5) by (simp add: key_pair_def)
  moreover have "decodeStrict set_header zero_header (header_json ?hd) = Some ?hd"
    using plain_ascii [OF assms(6)] by (intro decode_header) (simp_all add: is_ascii_def)
  ultimately show ?thesis
    using parts ok(2) assms(4,5) decode_claims [OF assms(3)]
    by (simp add: token_claims_def attempt_def need_def trusts_def key_pair_def)
qed

lemma issued:
  assumes "Issue ed e (Some i) request at = Inr (token, claims)"
  shows "newAssertionID (rand_read e 0) = Inr (Cl_AssertionID claims)" "sign ed i claims = Inr (token, claims)"
    "Cl_Issuer claims = Iss_issuer i" "Cl_Audience claims = TrimSpace (Irq_Audience request)"
    "Cl_Audience claims \<in> set (Iss_audiences i)" "Cl_PlatformUserID claims = Irq_PlatformUserID request"
    "Cl_PlatformOrganisationID claims = Irq_OrganisationID request" "Cl_PlatformWorkspaceID claims = Irq_WorkspaceID request"
    "Cl_AssertionVersion claims = 1" "0 < Cl_ExpiresAt claims - Cl_IssuedAt claims"
    "Cl_ExpiresAt claims - Cl_IssuedAt claims \<le> Iss_maxLifetime i"
    "validScopeID (Irq_PlatformUserID request) ''usr_''" "validScopeID (Irq_OrganisationID request) ''org_''"
    "validScopeID (Irq_WorkspaceID request) ''wsp_''"
  using assms by (auto simp: Issue_def Let_def attempt_def sign_def split: if_splits sum.splits)

lemma issued_decodes:
  assumes "New_issuer config = Inr i" and "Issue ed e (Some i) request at = Inr (token, claims)"
    and "key_pair ed (Iss_privateKey i)" and "trusts v i"
    and "list_all plain_char (Iss_issuer i @ Iss_activeKeyID i @ Cl_Audience claims @ Irq_PlatformUserID request @
           Irq_OrganisationID request @ Irq_WorkspaceID request)"
  shows "token_claims ed v token = Inr claims"
proof -
  note ok = New_issuer_ok [OF assms(1)] and c = issued [OF assms(2)] and id = new_id_valid [OF issued(1) [OF assms(2)]]
  have plain: "plain_claims claims"
    using assms(5) c id by (auto simp: plain_claims_def sign_def split: if_splits)
  have "length (claims_json claims) \<le> 3000"
    using claims_length [OF plain] ok(4) ok(7) [OF c(5)] c id(3) by (simp add: validScopeID_def)
  with token_claims_sign [OF assms(1) c(2) plain assms(4,3)] assms(5) show ?thesis by simp
qed

lemma issued_valid:
  assumes "Issue ed e (Some i) request at = Inr (token, claims)" and "trusts v i" and "Cl_Audience claims \<in> set (Iss_audiences v)"
    and "0 < Cl_IssuedAt claims" and "Cl_IssuedAt claims \<le> now + Iss_clockSkew v" and "now < Cl_ExpiresAt claims"
  shows "validateClaims v claims now = Inr ()"
  using issued [OF assms(1)] new_id_valid(1) [OF issued(1) [OF assms(1)]] assms(2-)
  by (auto simp: validateClaims_def trusts_def IsZero_def zero_time_def time_Sub_def)

definition replayed_after :: "Claims \<Rightarrow> gotime \<Rightarrow> Issuer \<Rightarrow> Issuer" where
  "replayed_after claims now v =
     v\<lparr>Iss_replayed := AList.update (Cl_AssertionID claims) (Cl_ExpiresAt claims) (prune_replayed now (Iss_replayed v))\<rparr>"

lemma Verify_accepts:
  assumes "token_claims ed v token = Inr claims" and "validateClaims v claims now = Inr ()" and "0 < now"
    and "map_of (prune_replayed now (Iss_replayed v)) (Cl_AssertionID claims) = None"
  shows "Verify ed f (Some v) token now = (Inr claims, Some (replayed_after claims now v))"
  using assms by (simp add: Verify_def attempt_def Let_def IsZero_def zero_time_def replayed_after_def)

text \<open>
  C33: What the platform issues, a verifier that trusts it accepts. A token issued for a user, an
  organisation and a workspace carries exactly these, the requested audience and a lifetime of at most a quarter of an
  hour. Every verifier that knows the issuer's active key accepts it from the instant of issue, give
  or take the skew, until it expires, and gets back the very claims; presented again before it expires, it is refused as a replay.
\<close>

theorem assertion_roundtrip:
  assumes "New_issuer config = Inr i" and "Issue ed e (Some i) request at = Inr (token, claims)"
    and "key_pair ed (Iss_privateKey i)" and "trusts v i" and "Cl_Audience claims \<in> set (Iss_audiences v)"
    and "list_all plain_char (Iss_issuer i @ Iss_activeKeyID i @ Cl_Audience claims @ Irq_PlatformUserID request @
           Irq_OrganisationID request @ Irq_WorkspaceID request)"
    and "0 < Cl_IssuedAt claims" and "Cl_IssuedAt claims \<le> now + Iss_clockSkew v" and "now < Cl_ExpiresAt claims"
    and "0 < now" and "Cl_AssertionID claims \<notin> fst ` set (Iss_replayed v)" and "now \<le> later" and "later < Cl_ExpiresAt claims"
  shows "Cl_PlatformUserID claims = Irq_PlatformUserID request \<and>
    Cl_PlatformOrganisationID claims = Irq_OrganisationID request \<and>
    Cl_PlatformWorkspaceID claims = Irq_WorkspaceID request \<and> Cl_Audience claims = TrimSpace (Irq_Audience request) \<and>
    0 < Cl_ExpiresAt claims - Cl_IssuedAt claims \<and> Cl_ExpiresAt claims - Cl_IssuedAt claims \<le> seconds 900 \<and>
    (\<exists>v'. Verify ed f (Some v) token now = (Inr claims, Some v') \<and>
       fst (Verify ed f (Some v') token later) = Inl ErrAssertionReplay)"
proof -
  note ok = New_issuer_ok [OF assms(1)] and c = issued [OF assms(2)]
  note tc = issued_decodes [OF assms(1-4,6)]
  have valid: "validateClaims v claims t = Inr ()" if "now \<le> t" "t < Cl_ExpiresAt claims" for t
    using issued_valid [OF assms(2,4,5,7), of t] assms(8) that by simp
  have fresh: "map_of (prune_replayed now (Iss_replayed v)) (Cl_AssertionID claims) = None"
    using assms(11) by (force simp: map_of_eq_None_iff prune_replayed_def)
  let ?v = "replayed_after claims now v"
  have first: "Verify ed f (Some v) token now = (Inr claims, Some ?v)"
    using Verify_accepts [OF tc valid [OF order_refl assms(9)] assms(10) fresh] .
  have "(Cl_AssertionID claims, Cl_ExpiresAt claims) \<in> set (prune_replayed later (Iss_replayed ?v))"
    using update_entry [of "Cl_AssertionID claims" "Cl_ExpiresAt claims"] assms(13)
    by (simp add: prune_replayed_def replayed_after_def)
  then have "map_of (prune_replayed later (Iss_replayed ?v)) (Cl_AssertionID claims) \<noteq> None"
    by (metis map_of_eq_None_iff fst_conv imageI)
  moreover have "validateClaims ?v claims later = Inr ()" "token_claims ed ?v token = Inr claims"
    using valid [OF assms(12,13)] tc by (simp_all add: replayed_after_def)
  moreover have "\<not> IsZero later" using assms(10,12) by (auto simp: IsZero_def zero_time_def)
  ultimately have "fst (Verify ed f (Some ?v) token later) = Inl ErrAssertionReplay"
    by (auto simp: Verify_def attempt_def Let_def)
  with first have "\<exists>v'. Verify ed f (Some v) token now = (Inr claims, Some v') \<and>
      fst (Verify ed f (Some v') token later) = Inl ErrAssertionReplay" by blast
  with c ok(6) show ?thesis by simp
qed

end
