(* ===== verification/ScenarioAssertion.thy ===== *)
theory ScenarioAssertion
  imports Assertion Demo
begin

text \<open>
  Runs of the assertion issuer and verifier: every property of that component is applied to a token
  that is really issued and presented. The signature scheme is replaced by a fixed signature.
\<close>

definition demo_ed :: ed25519 where
  "demo_ed = \<lparr>ed_sign = (\<lambda>k m. replicate 64 (CHR ''S'')), ed_verify = (\<lambda>k m s. s = replicate 64 (CHR ''S''))\<rparr>"

definition demo_issuer_config :: Config where
  "demo_issuer_config =
     \<lparr>Cfg_Issuer = ''https://p.io'', Cfg_ActiveKeyID = ''k1'', Cfg_ActivePrivateKey = replicate 64 (CHR ''K''),
      Cfg_VerificationKeys = [], Cfg_Audiences = [''tockrims'', ''tockrctrl''], Cfg_MaxLifetime = 0, Cfg_ClockSkew = 0\<rparr>"

definition demo_issuer :: Issuer where
  "demo_issuer =
     \<lparr>Iss_issuer = ''https://p.io'', Iss_activeKeyID = ''k1'', Iss_privateKey = replicate 64 (CHR ''K''),
      Iss_publicKeys = [(''k1'', replicate 32 (CHR ''K''))], Iss_audiences = [''tockrims'', ''tockrctrl''],
      Iss_maxLifetime = seconds 300, Iss_clockSkew = seconds 5, Iss_replayed = []\<rparr>"

lemma demo_issuer_new: "New_issuer demo_issuer_config = Inr demo_issuer"
  by code_simp

abbreviation "demo_issue at \<equiv>
  Issue demo_ed (demo_env 1) (Some demo_issuer)
    \<lparr>Irq_Audience = ''tockrims'', Irq_PlatformUserID = ''usr_bob'', Irq_OrganisationID = ''org_a'',
     Irq_WorkspaceID = ''wsp_w'', Irq_Lifetime = 0\<rparr> at"

definition demo_token :: "gotime \<Rightarrow> string" where
  "demo_token at = fst (projr (demo_issue at))"

definition demo_claims :: "gotime \<Rightarrow> Claims" where
  "demo_claims at = snd (projr (demo_issue at))"

lemma demo_issued:
  assumes "plain_time at" "plain_time (at + DefaultLifetime)" "0 < at"
  shows "demo_issue at = Inr (demo_token at, demo_claims at)"
    "Cl_IssuedAt (demo_claims at) = at" "Cl_ExpiresAt (demo_claims at) = at + DefaultLifetime"
    "Cl_Audience (demo_claims at) = ''tockrims''"
    "Cl_AssertionID (demo_claims at) = ''ast_'' @ RawURLEncoding (map (\<lambda>i. char_of (1 + i)) [0..<18])"
proof -
  have "validScopeID ''usr_bob'' ''usr_''" "validScopeID ''org_a'' ''org_''" "validScopeID ''wsp_w'' ''wsp_''"
      "TrimSpace ''tockrims'' = ''tockrims''"
    by code_simp+
  then show "demo_issue at = Inr (demo_token at, demo_claims at)"
    "Cl_IssuedAt (demo_claims at) = at" "Cl_ExpiresAt (demo_claims at) = at + DefaultLifetime"
    "Cl_Audience (demo_claims at) = ''tockrims''"
    "Cl_AssertionID (demo_claims at) = ''ast_'' @ RawURLEncoding (map (\<lambda>i. char_of (1 + i)) [0..<18])"
    using assms
    by (simp_all add: Issue_def sign_def demo_issuer_def demo_token_def demo_claims_def demo_env_def newAssertionID_def
        IsZero_def zero_time_def Let_def attempt_def)
qed

lemma demo_plain:
  "list_all plain_char (Iss_issuer demo_issuer @ Iss_activeKeyID demo_issuer @ ''tockrims'' @ ''usr_bob'' @ ''org_a'' @ ''wsp_w'')"
  by code_simp

lemma demo_key_pair: "key_pair demo_ed (Iss_privateKey demo_issuer)"
  by (simp add: key_pair_def demo_ed_def)

lemma demo_trusts: "trusts (demo_issuer\<lparr>Iss_replayed := xs\<rparr>) demo_issuer"
  by (simp add: trusts_def demo_issuer_def public_half_def)

definition first_time :: gotime where
  "first_time = demo_time"

definition later_time :: gotime where
  "later_time = demo_time + seconds 400"

lemma demo_times:
  "plain_time first_time" "plain_time (first_time + seconds 120)" "0 < first_time"
  "plain_time later_time" "plain_time (later_time + seconds 120)" "0 < later_time" "first_time + seconds 120 \<le> later_time"
  by code_simp+

lemmas demo_first = demo_issued [OF demo_times(1-3)]
lemmas demo_second = demo_issued [OF demo_times(4-6)]

lemma demo_verifies:
  assumes "demo_issue at = Inr (demo_token at, demo_claims at)" "Cl_IssuedAt (demo_claims at) = at"
    "Cl_ExpiresAt (demo_claims at) = at + seconds 120" "Cl_Audience (demo_claims at) = ''tockrims''" "0 < at"
    and "map_of (prune_replayed at xs) (Cl_AssertionID (demo_claims at)) = None"
  shows "token_claims demo_ed demo_issuer (demo_token at) = Inr (demo_claims at)"
    "Verify demo_ed e (Some (demo_issuer\<lparr>Iss_replayed := xs\<rparr>)) (demo_token at) at =
       (Inr (demo_claims at), Some (replayed_after (demo_claims at) at (demo_issuer\<lparr>Iss_replayed := xs\<rparr>)))"
proof -
  have tc: "token_claims demo_ed (demo_issuer\<lparr>Iss_replayed := ys\<rparr>) (demo_token at) = Inr (demo_claims at)" for ys
    using demo_plain assms(4) by (intro issued_decodes [OF demo_issuer_new assms(1) demo_key_pair demo_trusts]) simp
  from tc [of "[]"] show "token_claims demo_ed demo_issuer (demo_token at) = Inr (demo_claims at)" by simp
  have "validateClaims (demo_issuer\<lparr>Iss_replayed := xs\<rparr>) (demo_claims at) at = Inr ()"
    using assms(2-5) by (intro issued_valid [OF assms(1) demo_trusts]) (simp_all add: demo_issuer_def)
  from Verify_accepts [OF tc this assms(5)] assms(6)
  show "Verify demo_ed e (Some (demo_issuer\<lparr>Iss_replayed := xs\<rparr>)) (demo_token at) at =
       (Inr (demo_claims at), Some (replayed_after (demo_claims at) at (demo_issuer\<lparr>Iss_replayed := xs\<rparr>)))" by simp
qed

lemma demo_accepts_first:
  "Verify demo_ed e (Some demo_issuer) (demo_token first_time) first_time =
     (Inr (demo_claims first_time), Some (replayed_after (demo_claims first_time) first_time demo_issuer))"
  using demo_verifies(2) [OF demo_first(1-4) demo_times(3), of "[]"] by (simp add: demo_issuer_def prune_replayed_def)

theorem assertion_trusted_witness:
  "Cl_Issuer (demo_claims first_time) = Iss_issuer demo_issuer \<and>
   Cl_Audience (demo_claims first_time) \<in> set (Iss_audiences demo_issuer) \<and> first_time < Cl_ExpiresAt (demo_claims first_time) \<and>
   (\<exists>h p s. demo_token first_time = h @ ''.'' @ p @ ''.'' @ s)"
  using assertion_trusted [OF demo_accepts_first [of "demo_env 1"]] demo_times(3) by (auto simp: IsZero_def zero_time_def)

theorem assertion_roundtrip_witness:
  "Cl_PlatformUserID (demo_claims first_time) = ''usr_bob'' \<and>
   (\<exists>v'. Verify demo_ed (demo_env 2) (Some demo_issuer) (demo_token first_time) first_time = (Inr (demo_claims first_time), Some v') \<and>
     fst (Verify demo_ed (demo_env 2) (Some v') (demo_token first_time) (first_time + seconds 60)) = Inl ErrAssertionReplay)"
  using assertion_roundtrip [OF demo_issuer_new demo_first(1) demo_key_pair demo_trusts [of "[]"],
      of first_time "first_time + seconds 60" "demo_env 2"] demo_plain demo_first demo_times(3)
  by (simp add: demo_issuer_def)

text \<open>Two tokens with one identifier, the second presented after the first has expired.\<close>

abbreviation "demo_presented \<equiv>
  [(first_time, demo_token first_time), (later_time, demo_token (later_time))]"

lemma demo_accepted: "accepted (present_token demo_ed demo_issuer) demo_presented [] = [True, True]"
proof -
  let ?xs = "[(Cl_AssertionID (demo_claims first_time), first_time + seconds 120)]"
  have "map_of (prune_replayed (later_time) ?xs) k = None" for k using demo_times(7) by (simp add: prune_replayed_def)
  then show ?thesis
    using demo_verifies(2) [OF demo_first(1-4) demo_times(3), of "[]"] demo_verifies(2) [OF demo_second(1-4) demo_times(6), of ?xs] demo_first(3) demo_times(3,6)
    by (simp add: present_token_def IsZero_def zero_time_def replayed_after_def prune_replayed_def)
qed

theorem assertion_single_use_witness:
  "token_expiry demo_ed demo_issuer (demo_token first_time) \<le> later_time \<and>
   demo_token first_time \<noteq> demo_token (later_time)"
proof -
  have "token_id demo_ed demo_issuer (demo_token first_time) = token_id demo_ed demo_issuer (demo_token (later_time))"
    using demo_verifies(1) [OF demo_first(1-4) demo_times(3), of "[]"] demo_verifies(1) [OF demo_second(1-4) demo_times(6), of "[]"] demo_first(5) demo_second(5)
    by (simp add: token_id_def prune_replayed_def)
  with assertion_single_use [of 0 1 demo_presented demo_ed demo_issuer "[]"] demo_accepted demo_times(7) show ?thesis by simp
qed

end
