(* ===== verification/Http.thy ===== *)
theory Http
  imports Products Mfa Limiter Decoding
begin

text \<open>
  The frame of the HTTP handlers (\<^verbatim>\<open>internal/platform/http/server.go\<close>, \<^verbatim>\<open>admin_ui.go\<close>): requests and
  responses, the session of a request, the check against forged requests, the middleware, the mapping
  of store errors to status codes, and the two shapes every mutating handler has: a JSON request
  (\<open>mutate\<close>) or a form (\<open>mutate_ui\<close>).

  A request is what the router and \<^verbatim>\<open>net/http\<close> hand to a handler: cookies, headers, the URL parameters,
  the query and the form, and the body when it is within its limit. A response is its status, its
  cookies, its \<^verbatim>\<open>Location\<close> and \<^verbatim>\<open>Retry-After\<close> headers and the value its body encodes (a JSON value, or what a
  page is rendered from); markup and error texts are not modelled. Handlers that call the store more than once meet a separate
  environment \<open>e k\<close> in each call.
\<close>

section \<open>Requests and responses\<close>

record http_request =
  rq_method :: string
  rq_path :: string                      \<comment> \<open>\<^verbatim>\<open>r.URL.Path\<close>\<close>
  rq_header :: "string \<Rightarrow> string"
  rq_cookie :: "string \<Rightarrow> string option"
  rq_param :: "string \<Rightarrow> string"          \<comment> \<open>\<^verbatim>\<open>chi.URLParam\<close>\<close>
  rq_query :: "string \<Rightarrow> string"
  rq_form :: "string \<Rightarrow> string"           \<comment> \<open>\<^verbatim>\<open>r.FormValue\<close>\<close>
  rq_form_ok :: bool                     \<comment> \<open>\<^verbatim>\<open>r.ParseForm\<close> succeeds within the limit\<close>
  rq_form_reads_body :: bool             \<comment> \<open>parsing the form uses up the body\<close>
  rq_body :: "string option"             \<comment> \<open>the body, if it is within the limit\<close>
  rq_remote :: string

record cookie =
  ck_name :: string
  ck_value :: string
  ck_path :: string
  ck_max_age :: int
  ck_secure :: bool

record 'v http_response =
  Rsp_status :: nat
  Rsp_location :: string
  Rsp_retry_after :: "int option"
  Rsp_cookies :: "cookie list"
  Rsp_value :: "'v option"

definition http_Error :: "nat \<Rightarrow> 'v http_response" where
  "http_Error status = \<lparr>Rsp_status = status, Rsp_location = [], Rsp_retry_after = None, Rsp_cookies = [], Rsp_value = None\<rparr>"

definition http_Redirect :: "string \<Rightarrow> 'v http_response" where
  "http_Redirect location =
     \<lparr>Rsp_status = 303, Rsp_location = location, Rsp_retry_after = None, Rsp_cookies = [], Rsp_value = None\<rparr>"

definition writeJSON :: "nat \<Rightarrow> 'v \<Rightarrow> 'v http_response" where
  "writeJSON status v =
     \<lparr>Rsp_status = status, Rsp_location = [], Rsp_retry_after = None, Rsp_cookies = [], Rsp_value = Some v\<rparr>"

definition no_content :: "'v http_response" where
  "no_content = \<lparr>Rsp_status = 204, Rsp_location = [], Rsp_retry_after = None, Rsp_cookies = [], Rsp_value = None\<rparr>"

definition serverError :: "'v http_response" where
  "serverError = http_Error 500"

lemma Rsp_status_simps [simp]:
  "Rsp_status (http_Error n) = n" "Rsp_status (http_Redirect l) = 303" "Rsp_status (writeJSON n v) = n"
  "Rsp_status no_content = 204" "Rsp_status serverError = 500" "Rsp_cookies (http_Error n) = []"
  "Rsp_cookies serverError = []" "Rsp_cookies (http_Redirect l) = []" "Rsp_value (http_Error n) = None"
  "Rsp_value (writeJSON n v) = Some v" "Rsp_value serverError = None" "Rsp_value (http_Redirect l) = None"
  by (simp_all add: http_Error_def http_Redirect_def writeJSON_def no_content_def serverError_def)

section \<open>Sessions\<close>

abbreviation "sessionCookieName \<equiv> ''platform_session''"
abbreviation "loginCSRFCookie \<equiv> ''platform_login_csrf''"

definition loadSession :: "crypto \<Rightarrow> gotime \<Rightarrow> http_request \<Rightarrow> db \<Rightarrow> Authenticated_Session result" where
  "loadSession c now r db =
     (case rq_cookie r sessionCookieName of
        None \<Rightarrow> Inl ErrNoRows
      | Some v \<Rightarrow> if TrimSpace v = [] then Inl ErrNoRows else AuthenticatedSession c v now db)"

text \<open>The session the middleware put into the context, or else the session of the cookie.\<close>

definition session :: "crypto \<Rightarrow> gotime \<Rightarrow> http_request \<Rightarrow> Authenticated_Session option \<Rightarrow> db \<Rightarrow> Authenticated_Session option" where
  "session c now r ctx db =
     (case ctx of
        Some s \<Rightarrow> Some s
      | None \<Rightarrow> (case loadSession c now r db of Inl _ \<Rightarrow> None | Inr s \<Rightarrow> Some s))"

definition requireSession :: "crypto \<Rightarrow> gotime \<Rightarrow> http_request \<Rightarrow>
    (Authenticated_Session option \<Rightarrow> db \<Rightarrow> 'v http_response \<times> db) \<Rightarrow> db \<Rightarrow> 'v http_response \<times> db" where
  "requireSession c now r next db =
     (case loadSession c now r db of
        Inl x \<Rightarrow> if x = ErrNoRows then (http_Redirect ''/login'', db) else (serverError, db)
      | Inr s \<Rightarrow> next (Some s) db)"

definition requireWorkspaceScope :: "bool \<Rightarrow> crypto \<Rightarrow> gotime \<Rightarrow> http_request \<Rightarrow>
    (Authenticated_Session option \<Rightarrow> db \<Rightarrow> 'v http_response \<times> db) \<Rightarrow>
    Authenticated_Session option \<Rightarrow> db \<Rightarrow> 'v http_response \<times> db" where
  "requireWorkspaceScope adminOnly c now r next ctx db =
     (case session c now r ctx db of
        None \<Rightarrow> (http_Error 401, db)
      | Some s \<Rightarrow>
          (case ProveWorkspaceScope (Usr_ID (Auth_User s)) (rq_param r ''workspaceID'') adminOnly db of
             Inl x \<Rightarrow> if x = Store ErrAccessScopeDenied then (http_Error 404, db) else (serverError, db)
           | Inr _ \<Rightarrow> next ctx db))"

section \<open>Forged requests\<close>

definition csrf_from_form :: "crypto \<Rightarrow> http_request \<Rightarrow> bool" where
  "csrf_from_form c r \<longleftrightarrow>
     rq_header r ''X-CSRF-Token'' = [] \<and>
     \<not> HasPrefix (ToLower (unicode_lower c) (rq_header r ''Content-Type'')) ''application/json''"

definition verifyMutationCSRF :: "crypto \<Rightarrow> http_request \<Rightarrow> db \<Rightarrow> bool" where
  "verifyMutationCSRF c r db \<longleftrightarrow>
     (case rq_cookie r sessionCookieName of
        None \<Rightarrow> False
      | Some v \<Rightarrow>
          let token = (if csrf_from_form c r then rq_form r ''csrf'' else rq_header r ''X-CSRF-Token'')
          in VerifySessionCSRF c v token db = Inr True)"

section \<open>JSON requests\<close>

text \<open>Reading the form in search of the token may have used the body up.\<close>

definition body_left :: "crypto \<Rightarrow> http_request \<Rightarrow> string option" where
  "body_left c r = (if csrf_from_form c r \<and> rq_form_reads_body r then Some [] else rq_body r)"

fun put_fields :: "(string \<Rightarrow> json \<Rightarrow> 'r \<Rightarrow> 'r option) \<Rightarrow> (string \<times> json) list \<Rightarrow> 'r \<Rightarrow> 'r option" where
  "put_fields put [] r = Some r"
| "put_fields put ((k, v) # fs) r = (case put (foldName k) v r of None \<Rightarrow> None | Some r \<Rightarrow> put_fields put fs r)"

text \<open>One JSON value and nothing after it; \<^verbatim>\<open>null\<close> decodes to the zero struct; unknown names are refused.\<close>

definition decodeJSON :: "(string \<Rightarrow> json \<Rightarrow> 'r \<Rightarrow> 'r option) \<Rightarrow> 'r \<Rightarrow> string option \<Rightarrow> 'r option" where
  "decodeJSON put zero body =
     (case body of
        None \<Rightarrow> None
      | Some text \<Rightarrow>
          (case Unmarshal text of
             Some (JObj fs) \<Rightarrow> put_fields put fs zero
           | Some JNull \<Rightarrow> Some zero
           | _ \<Rightarrow> None))"

section \<open>Status codes\<close>

definition writeOrganisationError :: "err \<Rightarrow> 'v http_response" where
  "writeOrganisationError x = http_Error
     (if x \<in> set (map Store [ErrOrganisationNotFound, ErrOrganisationArchived, ErrMembershipNotFound,
            ErrUnauthorisedOrganisationAction]) then 404
      else if x = Store ErrOwnerMutationNotAuthorised then 403
      else if x = Store ErrDuplicateOrganisationMember then 409
      else if x \<in> set (map Domain [ErrInvalidOrganisation, ErrInvalidOrganisationName, ErrInvalidOrganisationRole,
            ErrInvalidReason]) then 400
      else 500)"

definition writeWorkspaceError :: "err \<Rightarrow> 'v http_response" where
  "writeWorkspaceError x = http_Error
     (if x \<in> set (map Store [ErrAccessScopeDenied, ErrWorkspaceNotFound, ErrWorkspaceArchived,
            ErrWorkspaceMembershipNotFound, ErrUnauthorisedWorkspaceAction]) then 404
      else if x = Store ErrDuplicateWorkspaceMember then 409
      else if x \<in> set (map Domain [ErrInvalidWorkspace, ErrInvalidWorkspaceID, ErrInvalidWorkspaceName,
            ErrInvalidWorkspaceRole, ErrInvalidWorkspaceMember, ErrInvalidReason]) then 400
      else 500)"

definition writeProductError :: "err \<Rightarrow> 'v http_response" where
  "writeProductError x = http_Error
     (if x \<in> set (map Store [ErrProductNotFound, ErrEntitlementNotFound, ErrUnauthorisedProductAction,
            ErrOrganisationNotFound, ErrOrganisationArchived, ErrUnauthorisedOrganisationAction,
            ErrProductAssignmentNotFound, ErrProductAccessDenied]) then 404
      else if x \<in> set (map Store [ErrProductRetired, ErrEntitlementInactive, ErrDuplicateOrganisationEntitlement,
            ErrProductAssignmentInactive, ErrDuplicateUserProductAssignment]) then 409
      else if x \<in> set (map Domain [ErrInvalidProduct, ErrInvalidProductKey, ErrInvalidProductStatus,
            ErrInvalidEntitlement, ErrInvalidEntitlementID, ErrInvalidEntitlementStatus, ErrInvalidProductAssignment,
            ErrInvalidProductAssignmentID, ErrInvalidProductAssignmentStatus, ErrInvalidReason]) then 400
      else 500)"

definition uiMutationError :: "err \<Rightarrow> 'v http_response" where
  "uiMutationError x =
     (if x \<in> set (map Store [ErrOrganisationNotFound, ErrOrganisationArchived, ErrMembershipNotFound,
            ErrUnauthorisedOrganisationAction, ErrWorkspaceNotFound, ErrWorkspaceArchived,
            ErrWorkspaceMembershipNotFound, ErrUnauthorisedWorkspaceAction, ErrProductNotFound,
            ErrEntitlementNotFound, ErrUnauthorisedProductAction, ErrProductAssignmentNotFound]) then http_Error 404
      else if x = Store ErrOwnerMutationNotAuthorised then http_Error 403
      else if x \<in> set (map Store [ErrDuplicateOrganisationMember, ErrDuplicateWorkspaceMember,
            ErrDuplicateOrganisationEntitlement, ErrDuplicateUserProductAssignment, ErrProductRetired,
            ErrEntitlementInactive, ErrProductAssignmentInactive]) then http_Error 409
      else if x \<in> set (map Domain [ErrInvalidReason, ErrInvalidOrganisationName, ErrInvalidOrganisationRole,
            ErrInvalidWorkspaceName, ErrInvalidWorkspaceRole, ErrInvalidProductKey]) then http_Error 400
      else serverError)"

definition uiNotFoundOrError :: "err \<Rightarrow> 'v http_response" where
  "uiNotFoundOrError x =
     (if x \<in> set (map Store [ErrOrganisationNotFound, ErrOrganisationArchived, ErrUnauthorisedOrganisationAction,
            ErrAccessScopeDenied, ErrWorkspaceNotFound, ErrWorkspaceArchived, ErrUnauthorisedWorkspaceAction,
            ErrProductAccessDenied, ErrUnauthorisedProductAction]) then http_Error 404
      else serverError)"

lemma error_status [simp]:
  "400 \<le> Rsp_status (writeOrganisationError x)" "400 \<le> Rsp_status (writeWorkspaceError x)"
  "400 \<le> Rsp_status (writeProductError x)" "400 \<le> Rsp_status (uiMutationError x)"
  by (simp_all add: writeOrganisationError_def writeWorkspaceError_def writeProductError_def uiMutationError_def)

section \<open>Mutating handlers\<close>

definition mutate :: "crypto \<Rightarrow> (nat \<Rightarrow> env) \<Rightarrow> http_request \<Rightarrow> Authenticated_Session option \<Rightarrow>
    (string \<Rightarrow> json \<Rightarrow> 'q \<Rightarrow> 'q option) \<Rightarrow> 'q \<Rightarrow> (string \<Rightarrow> 'q \<Rightarrow> env \<Rightarrow> db \<Rightarrow> 'a result \<times> db) \<Rightarrow>
    (err \<Rightarrow> 'v http_response) \<Rightarrow> ('a \<Rightarrow> 'v http_response) \<Rightarrow> db \<Rightarrow> 'v http_response \<times> db" where
  "mutate c e r ctx put zero op errors reply db =
     (if \<not> verifyMutationCSRF c r db then (http_Error 403, db)
      else case decodeJSON put zero (body_left c r) of
        None \<Rightarrow> (http_Error 400, db)
      | Some request \<Rightarrow>
          (case session c (time_now (e 0)) r ctx db of
             None \<Rightarrow> (http_Error 401, db)
           | Some s \<Rightarrow>
               (case op (Usr_ID (Auth_User s)) request (e 1) db of
                  (Inl x, db') \<Rightarrow> (errors x, db')
                | (Inr v, db') \<Rightarrow> (reply v, db'))))"

definition mutate_ui :: "crypto \<Rightarrow> (nat \<Rightarrow> env) \<Rightarrow> http_request \<Rightarrow> Authenticated_Session option \<Rightarrow>
    (string \<Rightarrow> env \<Rightarrow> db \<Rightarrow> 'a result \<times> db) \<Rightarrow> string \<Rightarrow> db \<Rightarrow> 'v http_response \<times> db" where
  "mutate_ui c e r ctx op location db =
     (if \<not> rq_form_ok r then (http_Error 400, db)
      else if \<not> verifyMutationCSRF c r db then (http_Error 403, db)
      else case session c (time_now (e 0)) r ctx db of
        None \<Rightarrow> (http_Error 401, db)
      | Some s \<Rightarrow>
          (case op (Usr_ID (Auth_User s)) (e 1) db of
             (Inl x, db') \<Rightarrow> (uiMutationError x, db')
           | (Inr _, db') \<Rightarrow> (http_Redirect location, db')))"

text \<open>
  What every mutating handler promises: it changes the database only for a request that carries a live
  session and a valid token, only by statements on its tables, and not at all when it answers with an error.
\<close>

locale endpoint =
  fixes S :: "tbl set" and valid :: "crypto \<Rightarrow> http_request \<Rightarrow> db \<Rightarrow> bool"
    and handler :: "crypto \<Rightarrow> (nat \<Rightarrow> env) \<Rightarrow> http_request \<Rightarrow> Authenticated_Session option \<Rightarrow> db \<Rightarrow> 'v http_response \<times> db"
  assumes guarded: "handler c e r ctx db = (rsp, db') \<Longrightarrow> db' \<noteq> db \<Longrightarrow>
      valid c r db \<and> session c (time_now (e 0)) r ctx db \<noteq> None \<and> Rsp_status rsp < 400"
    and traced: "handler c e r ctx db = (rsp, db') \<Longrightarrow> writes S db db'"
begin

lemma forged: "\<not> valid c r db \<Longrightarrow> snd (handler c e r ctx db) = db"
  using guarded by (metis prod.collapse)

lemma failed: "400 \<le> Rsp_status (fst (handler c e r ctx db)) \<Longrightarrow> snd (handler c e r ctx db) = db"
  using guarded by (metis leD prod.collapse)

lemma keeps: "db_ok db \<Longrightarrow> db_ok (snd (handler c e r ctx db))"
  using traced writes_db_ok by (metis prod.collapse)

end

lemma endpoint_mutate:
  assumes eq: "\<And>c e r ctx. handler c e r ctx = mutate c e r ctx put zero (op r) errors reply"
    and op: "\<And>r u q e db x db'. op r u q e db = (Inl x, db') \<Longrightarrow> db' = db"
      "\<And>r u q e db v db'. op r u q e db = (Inr v, db') \<Longrightarrow> writes S db db'"
    and rsp: "\<And>x. 400 \<le> Rsp_status (errors x)" "\<And>v. Rsp_status (reply v) < 400"
  shows "endpoint S verifyMutationCSRF handler"
proof
  fix c e r ctx db rsp db'
  assume h: "handler c e r ctx db = (rsp, db')"
  { assume "db' \<noteq> db"
    with h op(1) rsp(2) show "verifyMutationCSRF c r db \<and> session c (time_now (e 0)) r ctx db \<noteq> None \<and> Rsp_status rsp < 400"
      by (fastforce simp: eq mutate_def split: if_splits option.splits prod.splits sum.splits) }
  from h op show "writes S db db'"
    by (fastforce simp: eq mutate_def split: if_splits option.splits prod.splits sum.splits)
qed

lemma endpoint_mutate_ui:
  assumes eq: "\<And>c e r ctx. handler c e r ctx = mutate_ui c e r ctx (op r) (location r)"
    and op: "\<And>r u e db x db'. op r u e db = (Inl x, db') \<Longrightarrow> db' = db"
      "\<And>r u e db v db'. op r u e db = (Inr v, db') \<Longrightarrow> writes S db db'"
  shows "endpoint S verifyMutationCSRF handler"
proof
  fix c e r ctx db rsp db'
  assume h: "handler c e r ctx db = (rsp, db')"
  { assume "db' \<noteq> db"
    with h op(1) show "verifyMutationCSRF c r db \<and> session c (time_now (e 0)) r ctx db \<noteq> None \<and> Rsp_status rsp < 400"
      by (fastforce simp: eq mutate_ui_def split: if_splits option.splits prod.splits sum.splits) }
  from h op show "writes S db db'"
    by (fastforce simp: eq mutate_ui_def split: if_splits option.splits prod.splits sum.splits)
qed

end
