(* ===== verification/Api.thy ===== *)
theory Api
  imports Http Assertion
begin

text \<open>
  The JSON interface and the administration forms (\<^verbatim>\<open>internal/platform/http/server.go\<close>,
  \<^verbatim>\<open>admin_ui.go\<close>): the request and response structures, every handler that reads or changes
  organisations, workspaces and products, the handler that issues product assertions, and the routes
  with the middleware in front of each. Every mutating handler is an interpretation of \<open>endpoint\<close>, which
  rests on the contract of the store method it calls.

  The router and the multiplexer that picks a route for a URL are a library; a route is one line of
  the route table, and the URL parameters are part of the request.
\<close>

section \<open>Requests\<close>

record organisationCreateRequest =
  Req_Name :: string
  Req_Reason :: string

type_synonym workspaceCreateRequest = organisationCreateRequest
type_synonym organisationRenameRequest = organisationCreateRequest

record organisationMemberMutationRequest =
  Mmr_UserID :: string
  Mmr_Role :: string
  Mmr_Reason :: string

record organisationReasonRequest =
  Rsn_Reason :: string

record productEntitlementRequest =
  Per_ProductKey :: string
  Per_Reason :: string

record productAssignmentRequest =
  Par_UserID :: string
  Par_ProductKey :: string
  Par_Reason :: string

record productAssertionRequest =
  Pas_Audience :: string

definition put_name :: "string \<Rightarrow> json \<Rightarrow> organisationCreateRequest \<Rightarrow> organisationCreateRequest option" where
  "put_name k v q =
     (if k = ''NAME'' then set_string Req_Name_update v q
      else if k = ''REASON'' then set_string Req_Reason_update v q else None)"

definition put_member :: "string \<Rightarrow> json \<Rightarrow> organisationMemberMutationRequest \<Rightarrow> organisationMemberMutationRequest option" where
  "put_member k v q =
     (if k = ''USER_ID'' then set_string Mmr_UserID_update v q
      else if k = ''ROLE'' then set_string Mmr_Role_update v q
      else if k = ''REASON'' then set_string Mmr_Reason_update v q else None)"

definition put_reason :: "string \<Rightarrow> json \<Rightarrow> organisationReasonRequest \<Rightarrow> organisationReasonRequest option" where
  "put_reason k v q = (if k = ''REASON'' then set_string Rsn_Reason_update v q else None)"

definition put_entitlement :: "string \<Rightarrow> json \<Rightarrow> productEntitlementRequest \<Rightarrow> productEntitlementRequest option" where
  "put_entitlement k v q =
     (if k = ''PRODUCT_KEY'' then set_string Per_ProductKey_update v q
      else if k = ''REASON'' then set_string Per_Reason_update v q else None)"

definition put_assignment :: "string \<Rightarrow> json \<Rightarrow> productAssignmentRequest \<Rightarrow> productAssignmentRequest option" where
  "put_assignment k v q =
     (if k = ''USER_ID'' then set_string Par_UserID_update v q
      else if k = ''PRODUCT_KEY'' then set_string Par_ProductKey_update v q
      else if k = ''REASON'' then set_string Par_Reason_update v q else None)"

definition put_audience :: "string \<Rightarrow> json \<Rightarrow> productAssertionRequest \<Rightarrow> productAssertionRequest option" where
  "put_audience k v q = (if k = ''AUDIENCE'' then set_string Pas_Audience_update v q else None)"

abbreviation "no_name \<equiv> \<lparr>Req_Name = [], Req_Reason = []\<rparr>"
abbreviation "no_member \<equiv> \<lparr>Mmr_UserID = [], Mmr_Role = [], Mmr_Reason = []\<rparr>"
abbreviation "no_reason \<equiv> \<lparr>Rsn_Reason = []\<rparr>"
abbreviation "no_entitlement \<equiv> \<lparr>Per_ProductKey = [], Per_Reason = []\<rparr>"
abbreviation "no_assignment \<equiv> \<lparr>Par_UserID = [], Par_ProductKey = [], Par_Reason = []\<rparr>"
abbreviation "no_audience \<equiv> \<lparr>Pas_Audience = []\<rparr>"

section \<open>Responses\<close>

definition json_time :: "gotime \<Rightarrow> json" where \<comment> \<open>\<^verbatim>\<open>time.Time.MarshalJSON\<close> of a UTC time\<close>
  "json_time t = JStr (formatTime t)"

definition time_omitempty :: "string \<Rightarrow> gotime option \<Rightarrow> (string \<times> json) list" where
  "time_omitempty k t = (case t of None \<Rightarrow> [] | Some x \<Rightarrow> [(k, json_time x)])"

definition organisationResponseFromDomain :: "Organisation \<Rightarrow> json" where
  "organisationResponseFromDomain x = JObj
     ([(''id'', JStr (Org_ID x)), (''name'', JStr (Org_Name x)), (''status'', JStr (Org_Status x)),
       (''created_at'', json_time (Org_CreatedAt x))] @ time_omitempty ''archived_at'' (Org_ArchivedAt x))"

definition workspaceResponseFromDomain :: "Workspace \<Rightarrow> json" where
  "workspaceResponseFromDomain x = JObj
     ([(''id'', JStr (Wsp_ID x)), (''organisation_id'', JStr (Wsp_OrganisationID x)), (''name'', JStr (Wsp_Name x)),
       (''status'', JStr (Wsp_Status x)), (''created_at'', json_time (Wsp_CreatedAt x))] @
      time_omitempty ''archived_at'' (Wsp_ArchivedAt x))"

definition productResponseFromDomain :: "Product \<Rightarrow> json" where
  "productResponseFromDomain x = JObj
     ([(''key'', JStr (Prod_Key x)), (''display_name'', JStr (Prod_DisplayName x)), (''status'', JStr (Prod_Status x)),
       (''created_at'', json_time (Prod_CreatedAt x))] @ time_omitempty ''retired_at'' (Prod_RetiredAt x))"

definition organisationProductEntitlementResponseFromDomain :: "OrganisationProductEntitlement \<Rightarrow> json" where
  "organisationProductEntitlementResponseFromDomain x = JObj
     ([(''id'', JStr (Ent_ID x)), (''organisation_id'', JStr (Ent_OrganisationID x)),
       (''product_key'', JStr (Ent_ProductKey x)), (''status'', JStr (Ent_Status x)), (''active'', JBool (Ent_Active x)),
       (''granted_by'', JStr (Ent_GrantedBy x)), (''granted_at'', json_time (Ent_GrantedAt x))] @
      omitempty ''revoked_by'' (Ent_RevokedBy x) @ time_omitempty ''revoked_at'' (Ent_RevokedAt x) @
      omitempty ''revocation_reason'' (Ent_RevocationReason x))"

definition userProductAssignmentResponseFromDomain :: "UserProductAssignment \<Rightarrow> json" where
  "userProductAssignmentResponseFromDomain x = JObj
     ([(''id'', JStr (Asg_ID x)), (''user_id'', JStr (Asg_UserID x)), (''organisation_id'', JStr (Asg_OrganisationID x)),
       (''product_key'', JStr (Asg_ProductKey x)), (''status'', JStr (Asg_Status x)), (''active'', JBool (Asg_Active x)),
       (''assigned_by'', JStr (Asg_AssignedBy x)), (''assigned_at'', json_time (Asg_AssignedAt x))] @
      omitempty ''revoked_by'' (Asg_RevokedBy x) @ time_omitempty ''revoked_at'' (Asg_RevokedAt x) @
      omitempty ''revocation_reason'' (Asg_RevocationReason x))"

definition organisationMemberResponse :: "OrganisationMemberRecord \<Rightarrow> json" where
  "organisationMemberResponse m = JObj
     [(''membership_id'', JStr (OMR_MembershipID m)), (''organisation_id'', JStr (OMR_OrganisationID m)),
      (''user_id'', JStr (OMR_UserID m)), (''email'', JStr (OMR_Email m)), (''display_name'', JStr (OMR_DisplayName m)),
      (''role'', JStr (OMR_Role m)), (''assigned_at'', json_time (OMR_AssignedAt m))]"

definition membership_response :: "OrganisationMembership \<Rightarrow> json" where
  "membership_response m = organisationMemberResponse
     \<lparr>OMR_MembershipID = OMem_ID m, OMR_OrganisationID = OMem_OrganisationID m, OMR_UserID = OMem_UserID m,
      OMR_Email = [], OMR_DisplayName = [], OMR_Role = OMem_Role m, OMR_AssignedAt = OMem_AssignedAt m\<rparr>"

definition organisationAuditResponse :: "OrganisationAuditRecord \<Rightarrow> json" where
  "organisationAuditResponse a = JObj
     [(''id'', JInt (OAR_ID a)), (''organisation_id'', JStr (OAR_OrganisationID a)),
      (''actor_user_id'', JStr (OAR_ActorUserID a)), (''event'', JStr (OAR_Event a)), (''details'', JStr (OAR_Details a)),
      (''occurred_at'', json_time (OAR_OccurredAt a))]"

definition workspaceMemberResponse :: "WorkspaceMemberRecord \<Rightarrow> json" where
  "workspaceMemberResponse m = JObj
     ([(''membership_id'', JStr (WMR_MembershipID m)), (''workspace_id'', JStr (WMR_WorkspaceID m)),
       (''user_id'', JStr (WMR_UserID m))] @ omitempty ''email'' (WMR_Email m) @
      omitempty ''display_name'' (WMR_DisplayName m) @
      [(''role'', JStr (WMR_Role m)), (''assigned_at'', json_time (WMR_AssignedAt m))])"

definition workspace_membership_response :: "WorkspaceMembership \<Rightarrow> json" where
  "workspace_membership_response m = workspaceMemberResponse
     \<lparr>WMR_MembershipID = WMem_ID m, WMR_WorkspaceID = WMem_WorkspaceID m, WMR_UserID = WMem_UserID m,
      WMR_Email = [], WMR_DisplayName = [], WMR_Role = WMem_Role m, WMR_AssignedAt = WMem_AssignedAt m\<rparr>"

definition workspaceAuditResponse :: "WorkspaceAuditRecord \<Rightarrow> json" where
  "workspaceAuditResponse a = JObj
     [(''id'', JInt (WAR_ID a)), (''workspace_id'', JStr (WAR_WorkspaceID a)),
      (''actor_user_id'', JStr (WAR_ActorUserID a)), (''event'', JStr (WAR_Event a)), (''details'', JStr (WAR_Details a)),
      (''occurred_at'', json_time (WAR_OccurredAt a))]"

definition organisationWorkspaceEntryResponse :: "OrganisationWorkspaceEntry \<Rightarrow> json" where
  "organisationWorkspaceEntryResponse x = JObj
     ([(''organisation_id'', JStr (OWE_OrganisationID x)), (''resource'', JStr (OWE_Resource x)),
       (''available'', JBool (OWE_Available x))] @ omitempty ''default_workspace_id'' (OWE_DefaultWorkspaceID x) @
      [(''workspaces'', JArr (map workspaceResponseFromDomain (OWE_Workspaces x)))])"

definition productAccessResponse :: "ProductAccess \<Rightarrow> json" where
  "productAccessResponse x = JObj
     [(''allowed'', JBool True), (''user_id'', JStr (PA_UserID x)), (''organisation_id'', JStr (PA_OrganisationID x)),
      (''product_key'', JStr (PA_ProductKey x)), (''workspace_id'', JStr (PA_WorkspaceID x)),
      (''organisation_role'', JStr (PA_OrganisationRole x)), (''workspace_role'', JStr (PA_WorkspaceRole x))]"

definition productAssertionResponse :: "string \<times> Claims \<Rightarrow> json" where
  "productAssertionResponse x = JObj
     [(''assertion'', JStr (fst x)), (''assertion_version'', JInt (Cl_AssertionVersion (snd x))),
      (''issued_at'', json_time (Cl_IssuedAt (snd x))), (''expires_at'', json_time (Cl_ExpiresAt (snd x)))]"

definition assertionKeyResponse :: "VerificationKey \<Rightarrow> json" where
  "assertionKeyResponse k = JObj
     [(''key_id'', JStr (Vk_KeyID k)), (''algorithm'', JStr (Vk_Algorithm k)),
      (''public_key'', JStr (RawURLEncoding (Vk_PublicKey k)))]"

section \<open>Handlers that read\<close>

definition read_json :: "crypto \<Rightarrow> (nat \<Rightarrow> env) \<Rightarrow> http_request \<Rightarrow> Authenticated_Session option \<Rightarrow>
    (string \<Rightarrow> db \<Rightarrow> 'a result) \<Rightarrow> (err \<Rightarrow> json http_response) \<Rightarrow> ('a \<Rightarrow> json) \<Rightarrow> db \<Rightarrow> json http_response \<times> db" where
  "read_json c e r ctx query errors reply db =
     (case session c (time_now (e 0)) r ctx db of
        None \<Rightarrow> (http_Error 401, db)
      | Some s \<Rightarrow>
          (case query (Usr_ID (Auth_User s)) db of
             Inl x \<Rightarrow> (errors x, db)
           | Inr v \<Rightarrow> (writeJSON 200 (reply v), db)))"

definition getOrganisation where
  "getOrganisation c e r ctx =
     read_json c e r ctx (\<lambda>u. GetOrganisation u (rq_param r ''organisationID''))
       writeOrganisationError organisationResponseFromDomain"

definition listOrganisationMembers where
  "listOrganisationMembers c e r ctx =
     read_json c e r ctx (\<lambda>u. ListOrganisationMembers u (rq_param r ''organisationID''))
       writeOrganisationError (\<lambda>ms. JArr (map organisationMemberResponse ms))"

definition audit_limit :: "http_request \<Rightarrow> int option" where
  "audit_limit r =
     (let v = TrimSpace (rq_query r ''limit'') in
      case (if v = [] then Some 50 else Atoi v) of
        None \<Rightarrow> None
      | Some n \<Rightarrow> if n < 1 \<or> 100 < n then None else Some n)"

definition listOrganisationAudit where
  "listOrganisationAudit c e r ctx db =
     (if session c (time_now (e 0)) r ctx db = None then (http_Error 401, db)
      else case audit_limit r of
        None \<Rightarrow> (http_Error 400, db)
      | Some limit \<Rightarrow>
          read_json c e r ctx (\<lambda>u. ListOrganisationAudit u (rq_param r ''organisationID'') limit)
            writeOrganisationError (\<lambda>xs. JArr (map organisationAuditResponse xs)) db)"

definition getOrganisationWorkspaceEntry where
  "getOrganisationWorkspaceEntry c e r ctx =
     read_json c e r ctx (\<lambda>u. GetOrganisationWorkspaceEntry u (rq_param r ''organisationID''))
       writeOrganisationError organisationWorkspaceEntryResponse"

definition listOrganisationWorkspaces where
  "listOrganisationWorkspaces c e r ctx =
     read_json c e r ctx (\<lambda>u. ListOrganisationWorkspaces u (rq_param r ''organisationID''))
       writeWorkspaceError (\<lambda>ws. JArr (map workspaceResponseFromDomain ws))"

definition getWorkspace where
  "getWorkspace c e r ctx =
     read_json c e r ctx (\<lambda>u. GetWorkspace u (rq_param r ''workspaceID''))
       writeWorkspaceError workspaceResponseFromDomain"

definition listWorkspaceMembers where
  "listWorkspaceMembers c e r ctx =
     read_json c e r ctx (\<lambda>u. ListWorkspaceMembers u (rq_param r ''workspaceID''))
       writeWorkspaceError (\<lambda>ms. JArr (map workspaceMemberResponse ms))"

definition listWorkspaceAudit where
  "listWorkspaceAudit c e r ctx db =
     (if session c (time_now (e 0)) r ctx db = None then (http_Error 401, db)
      else case audit_limit r of
        None \<Rightarrow> (http_Error 400, db)
      | Some limit \<Rightarrow>
          read_json c e r ctx (\<lambda>u. ListWorkspaceAudit u (rq_param r ''workspaceID'') limit)
            writeWorkspaceError (\<lambda>xs. JArr (map workspaceAuditResponse xs)) db)"

definition listProducts where
  "listProducts c e r ctx =
     read_json c e r ctx ListProducts writeProductError (\<lambda>ps. JArr (map productResponseFromDomain ps))"

definition listOrganisationProductEntitlements where
  "listOrganisationProductEntitlements c e r ctx =
     read_json c e r ctx (\<lambda>u. ListOrganisationProductEntitlements u (rq_param r ''organisationID''))
       writeProductError (\<lambda>xs. JArr (map organisationProductEntitlementResponseFromDomain xs))"

definition listUserProductAssignments where
  "listUserProductAssignments c e r ctx =
     read_json c e r ctx (\<lambda>u. ListUserProductAssignments u (rq_param r ''organisationID''))
       writeProductError (\<lambda>xs. JArr (map userProductAssignmentResponseFromDomain xs))"

definition proveProductAccess where
  "proveProductAccess c e r ctx =
     read_json c e r ctx
       (\<lambda>u. ProveProductAccess (e 1) u (rq_param r ''organisationID'') (rq_param r ''productKey'') (rq_param r ''workspaceID''))
       writeProductError productAccessResponse"

lemma read_json_db [simp]: "snd (read_json c e r ctx query errors reply db) = db"
  by (simp add: read_json_def split: option.split sum.split)

lemmas reading_defs =
  getOrganisation_def listOrganisationMembers_def listOrganisationAudit_def getOrganisationWorkspaceEntry_def
  listOrganisationWorkspaces_def getWorkspace_def listWorkspaceMembers_def listWorkspaceAudit_def listProducts_def
  listOrganisationProductEntitlements_def listUserProductAssignments_def proveProductAccess_def

section \<open>Handlers that change organisations\<close>

definition createOrganisation where
  "createOrganisation c e r ctx =
     mutate c e r ctx put_name no_name
       (\<lambda>u q e. CreateOrganisation e u
          \<lparr>Org_ID = [], Org_Name = Req_Name q, Org_Status = [], Org_CreatedAt = zero_time, Org_ArchivedAt = None\<rparr>
          (Req_Reason q) (time_now e))
       writeOrganisationError (\<lambda>x. writeJSON 201 (organisationResponseFromDomain (fst x)))"

definition renameOrganisation where
  "renameOrganisation c e r ctx =
     mutate c e r ctx put_name no_name
       (\<lambda>u q e. RenameOrganisation e u (rq_param r ''organisationID'') (Req_Name q) (Req_Reason q) (time_now e))
       writeOrganisationError (\<lambda>x. writeJSON 200 (organisationResponseFromDomain x))"

definition addOrganisationMember where
  "addOrganisationMember c e r ctx =
     mutate c e r ctx put_member no_member
       (\<lambda>u q e. AddOrganisationMember e u (rq_param r ''organisationID'') (TrimSpace (Mmr_UserID q)) (TrimSpace (Mmr_Role q)) (Mmr_Reason q) (time_now e))
       writeOrganisationError (\<lambda>x. writeJSON 201 (membership_response x))"

definition changeOrganisationMemberRole where
  "changeOrganisationMemberRole c e r ctx =
     mutate c e r ctx put_member no_member
       (\<lambda>u q e. ChangeOrganisationMemberRole e u (rq_param r ''organisationID'') (rq_param r ''userID'') (TrimSpace (Mmr_Role q)) (Mmr_Reason q) (time_now e))
       writeOrganisationError (\<lambda>x. writeJSON 200 (membership_response x))"

definition deactivateOrganisationMember where
  "deactivateOrganisationMember c e r ctx =
     mutate c e r ctx put_reason no_reason
       (\<lambda>u q e. DeactivateOrganisationMember e u (rq_param r ''organisationID'') (rq_param r ''userID'') (Rsn_Reason q) (time_now e))
       writeOrganisationError (\<lambda>_. no_content)"

definition archiveOrganisation where
  "archiveOrganisation c e r ctx =
     mutate c e r ctx put_reason no_reason
       (\<lambda>u q e. ArchiveOrganisation e u (rq_param r ''organisationID'') (Rsn_Reason q) (time_now e))
       writeOrganisationError (\<lambda>_. no_content)"

section \<open>Handlers that change workspaces\<close>

definition createWorkspace where
  "createWorkspace c e r ctx =
     mutate c e r ctx put_name no_name
       (\<lambda>u q e. CreateWorkspace e u (rq_param r ''organisationID'')
          \<lparr>Wsp_ID = [], Wsp_OrganisationID = [], Wsp_Name = Req_Name q, Wsp_Status = [], Wsp_CreatedAt = zero_time,
           Wsp_ArchivedAt = None\<rparr> (Req_Reason q) (time_now e))
       writeWorkspaceError (\<lambda>x. writeJSON 201 (workspaceResponseFromDomain (fst x)))"

definition addWorkspaceMember where
  "addWorkspaceMember c e r ctx =
     mutate c e r ctx put_member no_member
       (\<lambda>u q e. AddWorkspaceMember e u (rq_param r ''workspaceID'') (TrimSpace (Mmr_UserID q)) (TrimSpace (Mmr_Role q)) (Mmr_Reason q) (time_now e))
       writeWorkspaceError (\<lambda>x. writeJSON 201 (workspace_membership_response x))"

definition changeWorkspaceMemberRole where
  "changeWorkspaceMemberRole c e r ctx =
     mutate c e r ctx put_member no_member
       (\<lambda>u q e. ChangeWorkspaceMemberRole e u (rq_param r ''workspaceID'') (rq_param r ''userID'') (TrimSpace (Mmr_Role q)) (Mmr_Reason q) (time_now e))
       writeWorkspaceError (\<lambda>x. writeJSON 200 (workspace_membership_response x))"

definition deactivateWorkspaceMember where
  "deactivateWorkspaceMember c e r ctx =
     mutate c e r ctx put_reason no_reason
       (\<lambda>u q e. DeactivateWorkspaceMember e u (rq_param r ''workspaceID'') (rq_param r ''userID'') (Rsn_Reason q) (time_now e))
       writeWorkspaceError (\<lambda>_. no_content)"

definition archiveWorkspace where
  "archiveWorkspace c e r ctx =
     mutate c e r ctx put_reason no_reason
       (\<lambda>u q e. ArchiveWorkspace e u (rq_param r ''workspaceID'') (Rsn_Reason q) (time_now e))
       writeWorkspaceError (\<lambda>_. no_content)"

section \<open>Handlers that change products\<close>

definition retireProduct where
  "retireProduct c e r ctx =
     mutate c e r ctx put_reason no_reason
       (\<lambda>u q e. RetireProduct e u (rq_param r ''productKey'') (Rsn_Reason q) (time_now e))
       writeProductError (\<lambda>_. no_content)"

definition entitleOrganisation where
  "entitleOrganisation c e r ctx =
     mutate c e r ctx put_entitlement no_entitlement
       (\<lambda>u q e. EntitleOrganisation e u (rq_param r ''organisationID'') (Per_ProductKey q) (Per_Reason q) (time_now e))
       writeProductError (\<lambda>x. writeJSON 201 (organisationProductEntitlementResponseFromDomain x))"

definition revokeOrganisationEntitlement where
  "revokeOrganisationEntitlement c e r ctx =
     mutate c e r ctx put_reason no_reason
       (\<lambda>u q e. RevokeOrganisationEntitlement e u (rq_param r ''organisationID'') (rq_param r ''entitlementID'') (Rsn_Reason q) (time_now e))
       writeProductError (\<lambda>_. no_content)"

definition assignUserProduct where
  "assignUserProduct c e r ctx =
     mutate c e r ctx put_assignment no_assignment
       (\<lambda>u q e. AssignUserProduct e u (rq_param r ''organisationID'') (Par_UserID q) (Par_ProductKey q) (Par_Reason q) (time_now e))
       writeProductError (\<lambda>x. writeJSON 201 (userProductAssignmentResponseFromDomain x))"

definition revokeUserProduct where
  "revokeUserProduct c e r ctx =
     mutate c e r ctx put_reason no_reason
       (\<lambda>u q e. RevokeUserProduct e u (rq_param r ''organisationID'') (rq_param r ''assignmentID'') (Rsn_Reason q) (time_now e))
       writeProductError (\<lambda>_. no_content)"

section \<open>Administration forms\<close>

definition redirectAdmin :: "string \<Rightarrow> string \<Rightarrow> string" where \<comment> \<open>where the browser is sent\<close>
  "redirectAdmin path status = path @ ''?status='' @ status"

definition organisation_admin :: "http_request \<Rightarrow> string \<Rightarrow> string" where
  "organisation_admin r page = ''/organisations/'' @ rq_param r ''organisationID'' @ ''/admin/'' @ page"

definition workspace_admin :: "http_request \<Rightarrow> string" where
  "workspace_admin r = ''/workspaces/'' @ rq_param r ''workspaceID'' @ ''/admin''"

definition renameOrganisationUI where
  "renameOrganisationUI c e r ctx =
     mutate_ui c e r ctx
       (\<lambda>u e. RenameOrganisation e u (rq_param r ''organisationID'') (rq_form r ''name'') (rq_form r ''reason'') (time_now e))
       (redirectAdmin (organisation_admin r ''general'') ''saved'')"

definition archiveOrganisationUI where
  "archiveOrganisationUI c e r ctx =
     mutate_ui c e r ctx
       (\<lambda>u e. ArchiveOrganisation e u (rq_param r ''organisationID'') (rq_form r ''reason'') (time_now e))
       (''/organisations'')"

definition addOrganisationMemberUI where
  "addOrganisationMemberUI c e r ctx =
     mutate_ui c e r ctx
       (\<lambda>u e. AddOrganisationMember e u (rq_param r ''organisationID'') (rq_form r ''user_id'') (rq_form r ''role'') (rq_form r ''reason'') (time_now e))
       (redirectAdmin (organisation_admin r ''members'') ''saved'')"

definition changeOrganisationMemberRoleUI where
  "changeOrganisationMemberRoleUI c e r ctx =
     mutate_ui c e r ctx
       (\<lambda>u e. ChangeOrganisationMemberRole e u (rq_param r ''organisationID'') (rq_param r ''userID'') (rq_form r ''role'') (rq_form r ''reason'') (time_now e))
       (redirectAdmin (organisation_admin r ''members'') ''saved'')"

definition deactivateOrganisationMemberUI where
  "deactivateOrganisationMemberUI c e r ctx =
     mutate_ui c e r ctx
       (\<lambda>u e. DeactivateOrganisationMember e u (rq_param r ''organisationID'') (rq_param r ''userID'') (rq_form r ''reason'') (time_now e))
       (redirectAdmin (organisation_admin r ''members'') ''saved'')"

definition createWorkspaceUI where
  "createWorkspaceUI c e r ctx =
     mutate_ui c e r ctx
       (\<lambda>u e. CreateWorkspace e u (rq_param r ''organisationID'')
          \<lparr>Wsp_ID = [], Wsp_OrganisationID = [], Wsp_Name = rq_form r ''name'', Wsp_Status = [], Wsp_CreatedAt = zero_time,
           Wsp_ArchivedAt = None\<rparr> (rq_form r ''reason'') (time_now e))
       (redirectAdmin (organisation_admin r ''workspaces'') ''created'')"

definition entitleOrganisationUI where
  "entitleOrganisationUI c e r ctx =
     mutate_ui c e r ctx
       (\<lambda>u e. EntitleOrganisation e u (rq_param r ''organisationID'') (rq_form r ''product_key'') (rq_form r ''reason'') (time_now e))
       (redirectAdmin (organisation_admin r ''products'') ''saved'')"

definition revokeOrganisationEntitlementUI where
  "revokeOrganisationEntitlementUI c e r ctx =
     mutate_ui c e r ctx
       (\<lambda>u e. RevokeOrganisationEntitlement e u (rq_param r ''organisationID'') (rq_param r ''entitlementID'') (rq_form r ''reason'') (time_now e))
       (redirectAdmin (organisation_admin r ''products'') ''saved'')"

definition assignUserProductUI where
  "assignUserProductUI c e r ctx =
     mutate_ui c e r ctx
       (\<lambda>u e. AssignUserProduct e u (rq_param r ''organisationID'') (rq_form r ''user_id'') (rq_form r ''product_key'') (rq_form r ''reason'') (time_now e))
       (redirectAdmin (organisation_admin r ''products'') ''saved'')"

definition revokeUserProductUI where
  "revokeUserProductUI c e r ctx =
     mutate_ui c e r ctx
       (\<lambda>u e. RevokeUserProduct e u (rq_param r ''organisationID'') (rq_param r ''assignmentID'') (rq_form r ''reason'') (time_now e))
       (redirectAdmin (organisation_admin r ''products'') ''saved'')"

definition addWorkspaceMemberUI where
  "addWorkspaceMemberUI c e r ctx =
     mutate_ui c e r ctx
       (\<lambda>u e. AddWorkspaceMember e u (rq_param r ''workspaceID'') (rq_form r ''user_id'') (rq_form r ''role'') (rq_form r ''reason'') (time_now e))
       (redirectAdmin (workspace_admin r) ''saved'')"

definition changeWorkspaceMemberRoleUI where
  "changeWorkspaceMemberRoleUI c e r ctx =
     mutate_ui c e r ctx
       (\<lambda>u e. ChangeWorkspaceMemberRole e u (rq_param r ''workspaceID'') (rq_param r ''userID'') (rq_form r ''role'') (rq_form r ''reason'') (time_now e))
       (redirectAdmin (workspace_admin r) ''saved'')"

definition deactivateWorkspaceMemberUI where
  "deactivateWorkspaceMemberUI c e r ctx =
     mutate_ui c e r ctx
       (\<lambda>u e. DeactivateWorkspaceMember e u (rq_param r ''workspaceID'') (rq_param r ''userID'') (rq_form r ''reason'') (time_now e))
       (redirectAdmin (workspace_admin r) ''saved'')"

definition archiveWorkspaceUI where
  "archiveWorkspaceUI c e r ctx =
     mutate_ui c e r ctx
       (\<lambda>u e. ArchiveWorkspace e u (rq_param r ''workspaceID'') (rq_form r ''reason'') (time_now e))
       (''/organisations'')"

definition retireProductUI where
  "retireProductUI c e r ctx =
     mutate_ui c e r ctx
       (\<lambda>u e. RetireProduct e u (rq_param r ''productKey'') (rq_form r ''reason'') (time_now e))
       (redirectAdmin ''/admin/system/products'' ''saved'')"

section \<open>Every mutating handler keeps the contract\<close>

text \<open>The contracts of the store methods, argument by argument.\<close>

lemmas store_atomic =
  create_organisation.atomic [where i = "(a, b, c, d)" for a b c d, simplified]
  rename_organisation.atomic [where i = "(a, b, c, d, f)" for a b c d f, simplified]
  add_organisation_member.atomic [where i = "(a, b, c, d, f, g)" for a b c d f g, simplified]
  change_organisation_role.atomic [where i = "(a, b, c, d, f, g)" for a b c d f g, simplified]
  deactivate_organisation_member.atomic [where i = "(a, b, c, d, f)" for a b c d f, simplified]
  archive_organisation.atomic [where i = "(a, b, c, d)" for a b c d, simplified]
  create_workspace.atomic [where i = "(a, b, c, d, f)" for a b c d f, simplified]
  add_workspace_member.atomic [where i = "(a, b, c, d, f, g)" for a b c d f g, simplified]
  change_workspace_role.atomic [where i = "(a, b, c, d, f, g)" for a b c d f g, simplified]
  deactivate_workspace_member.atomic [where i = "(a, b, c, d, f)" for a b c d f, simplified]
  archive_workspace.atomic [where i = "(a, b, c, d)" for a b c d, simplified]
  retire_product.atomic [where i = "(a, b, c, d)" for a b c d, simplified]
  entitle_organisation.atomic [where i = "(a, b, c, d, f)" for a b c d f, simplified]
  revoke_entitlement.atomic [where i = "(a, b, c, d, f)" for a b c d f, simplified]
  assign_product.atomic [where i = "(a, b, c, d, f, g)" for a b c d f g, simplified]
  revoke_product.atomic [where i = "(a, b, c, d, f)" for a b c d f, simplified]

lemmas store_traced =
  create_organisation.traced [where i = "(a, b, c, d)" for a b c d, simplified]
  rename_organisation.traced [where i = "(a, b, c, d, f)" for a b c d f, simplified]
  add_organisation_member.traced [where i = "(a, b, c, d, f, g)" for a b c d f g, simplified]
  change_organisation_role.traced [where i = "(a, b, c, d, f, g)" for a b c d f g, simplified]
  deactivate_organisation_member.traced [where i = "(a, b, c, d, f)" for a b c d f, simplified]
  archive_organisation.traced [where i = "(a, b, c, d)" for a b c d, simplified]
  create_workspace.traced [where i = "(a, b, c, d, f)" for a b c d f, simplified]
  add_workspace_member.traced [where i = "(a, b, c, d, f, g)" for a b c d f g, simplified]
  change_workspace_role.traced [where i = "(a, b, c, d, f, g)" for a b c d f g, simplified]
  deactivate_workspace_member.traced [where i = "(a, b, c, d, f)" for a b c d f, simplified]
  archive_workspace.traced [where i = "(a, b, c, d)" for a b c d, simplified]
  retire_product.traced [where i = "(a, b, c, d)" for a b c d, simplified]
  entitle_organisation.traced [where i = "(a, b, c, d, f)" for a b c d f, simplified]
  revoke_entitlement.traced [where i = "(a, b, c, d, f)" for a b c d f, simplified]
  assign_product.traced [where i = "(a, b, c, d, f, g)" for a b c d f g, simplified]
  revoke_product.traced [where i = "(a, b, c, d, f)" for a b c d f, simplified]

interpretation createOrganisation: endpoint org_tables verifyMutationCSRF createOrganisation
  by (rule endpoint_mutate [OF createOrganisation_def]) (auto dest: store_atomic store_traced)

interpretation renameOrganisation: endpoint org_tables verifyMutationCSRF renameOrganisation
  by (rule endpoint_mutate [OF renameOrganisation_def]) (auto dest: store_atomic store_traced)

interpretation addOrganisationMember: endpoint org_tables verifyMutationCSRF addOrganisationMember
  by (rule endpoint_mutate [OF addOrganisationMember_def]) (auto dest: store_atomic store_traced)

interpretation changeOrganisationMemberRole: endpoint org_tables verifyMutationCSRF changeOrganisationMemberRole
  by (rule endpoint_mutate [OF changeOrganisationMemberRole_def]) (auto dest: store_atomic store_traced)

interpretation deactivateOrganisationMember: endpoint org_tables verifyMutationCSRF deactivateOrganisationMember
  by (rule endpoint_mutate [OF deactivateOrganisationMember_def]) (auto dest: store_atomic store_traced)

interpretation archiveOrganisation: endpoint org_tables verifyMutationCSRF archiveOrganisation
  by (rule endpoint_mutate [OF archiveOrganisation_def]) (auto dest: store_atomic store_traced)

interpretation createWorkspace: endpoint wsp_tables verifyMutationCSRF createWorkspace
  by (rule endpoint_mutate [OF createWorkspace_def]) (auto dest: store_atomic store_traced)

interpretation addWorkspaceMember: endpoint wsp_tables verifyMutationCSRF addWorkspaceMember
  by (rule endpoint_mutate [OF addWorkspaceMember_def]) (auto dest: store_atomic store_traced)

interpretation changeWorkspaceMemberRole: endpoint wsp_tables verifyMutationCSRF changeWorkspaceMemberRole
  by (rule endpoint_mutate [OF changeWorkspaceMemberRole_def]) (auto dest: store_atomic store_traced)

interpretation deactivateWorkspaceMember: endpoint wsp_tables verifyMutationCSRF deactivateWorkspaceMember
  by (rule endpoint_mutate [OF deactivateWorkspaceMember_def]) (auto dest: store_atomic store_traced)

interpretation archiveWorkspace: endpoint wsp_tables verifyMutationCSRF archiveWorkspace
  by (rule endpoint_mutate [OF archiveWorkspace_def]) (auto dest: store_atomic store_traced)

interpretation retireProduct: endpoint product_tables verifyMutationCSRF retireProduct
  by (rule endpoint_mutate [OF retireProduct_def]) (auto dest: store_atomic store_traced)

interpretation entitleOrganisation: endpoint product_tables verifyMutationCSRF entitleOrganisation
  by (rule endpoint_mutate [OF entitleOrganisation_def]) (auto dest: store_atomic store_traced)

interpretation revokeOrganisationEntitlement: endpoint product_tables verifyMutationCSRF revokeOrganisationEntitlement
  by (rule endpoint_mutate [OF revokeOrganisationEntitlement_def]) (auto dest: store_atomic store_traced)

interpretation assignUserProduct: endpoint product_tables verifyMutationCSRF assignUserProduct
  by (rule endpoint_mutate [OF assignUserProduct_def]) (auto dest: store_atomic store_traced)

interpretation revokeUserProduct: endpoint product_tables verifyMutationCSRF revokeUserProduct
  by (rule endpoint_mutate [OF revokeUserProduct_def]) (auto dest: store_atomic store_traced)

interpretation renameOrganisationUI: endpoint org_tables verifyMutationCSRF renameOrganisationUI
  by (rule endpoint_mutate_ui [OF renameOrganisationUI_def]) (auto dest: store_atomic store_traced)

interpretation archiveOrganisationUI: endpoint org_tables verifyMutationCSRF archiveOrganisationUI
  by (rule endpoint_mutate_ui [OF archiveOrganisationUI_def]) (auto dest: store_atomic store_traced)

interpretation addOrganisationMemberUI: endpoint org_tables verifyMutationCSRF addOrganisationMemberUI
  by (rule endpoint_mutate_ui [OF addOrganisationMemberUI_def]) (auto dest: store_atomic store_traced)

interpretation changeOrganisationMemberRoleUI: endpoint org_tables verifyMutationCSRF changeOrganisationMemberRoleUI
  by (rule endpoint_mutate_ui [OF changeOrganisationMemberRoleUI_def]) (auto dest: store_atomic store_traced)

interpretation deactivateOrganisationMemberUI: endpoint org_tables verifyMutationCSRF deactivateOrganisationMemberUI
  by (rule endpoint_mutate_ui [OF deactivateOrganisationMemberUI_def]) (auto dest: store_atomic store_traced)

interpretation createWorkspaceUI: endpoint wsp_tables verifyMutationCSRF createWorkspaceUI
  by (rule endpoint_mutate_ui [OF createWorkspaceUI_def]) (auto dest: store_atomic store_traced)

interpretation entitleOrganisationUI: endpoint product_tables verifyMutationCSRF entitleOrganisationUI
  by (rule endpoint_mutate_ui [OF entitleOrganisationUI_def]) (auto dest: store_atomic store_traced)

interpretation revokeOrganisationEntitlementUI: endpoint product_tables verifyMutationCSRF revokeOrganisationEntitlementUI
  by (rule endpoint_mutate_ui [OF revokeOrganisationEntitlementUI_def]) (auto dest: store_atomic store_traced)

interpretation assignUserProductUI: endpoint product_tables verifyMutationCSRF assignUserProductUI
  by (rule endpoint_mutate_ui [OF assignUserProductUI_def]) (auto dest: store_atomic store_traced)

interpretation revokeUserProductUI: endpoint product_tables verifyMutationCSRF revokeUserProductUI
  by (rule endpoint_mutate_ui [OF revokeUserProductUI_def]) (auto dest: store_atomic store_traced)

interpretation addWorkspaceMemberUI: endpoint wsp_tables verifyMutationCSRF addWorkspaceMemberUI
  by (rule endpoint_mutate_ui [OF addWorkspaceMemberUI_def]) (auto dest: store_atomic store_traced)

interpretation changeWorkspaceMemberRoleUI: endpoint wsp_tables verifyMutationCSRF changeWorkspaceMemberRoleUI
  by (rule endpoint_mutate_ui [OF changeWorkspaceMemberRoleUI_def]) (auto dest: store_atomic store_traced)

interpretation deactivateWorkspaceMemberUI: endpoint wsp_tables verifyMutationCSRF deactivateWorkspaceMemberUI
  by (rule endpoint_mutate_ui [OF deactivateWorkspaceMemberUI_def]) (auto dest: store_atomic store_traced)

interpretation archiveWorkspaceUI: endpoint wsp_tables verifyMutationCSRF archiveWorkspaceUI
  by (rule endpoint_mutate_ui [OF archiveWorkspaceUI_def]) (auto dest: store_atomic store_traced)

interpretation retireProductUI: endpoint product_tables verifyMutationCSRF retireProductUI
  by (rule endpoint_mutate_ui [OF retireProductUI_def]) (auto dest: store_atomic store_traced)

section \<open>Product assertions\<close>

record server =
  Srv_ed25519 :: ed25519
  Srv_AssertionIssuer :: "Issuer option"

definition writeAssertionError :: "assertion_err \<Rightarrow> 'v http_response" where
  "writeAssertionError x = http_Error
     (if x = ErrInvalidAudience \<or> x = ErrInvalidScope \<or> x = ErrInvalidAssertion then 400 else 500)"

definition assertion_request :: "string \<Rightarrow> ProductAccess \<Rightarrow> IssueRequest" where
  "assertion_request audience access =
     \<lparr>Irq_Audience = audience, Irq_PlatformUserID = PA_UserID access, Irq_OrganisationID = PA_OrganisationID access,
      Irq_WorkspaceID = PA_WorkspaceID access, Irq_Lifetime = 0\<rparr>"

definition issueProductAssertion where
  "issueProductAssertion srv c e r ctx db =
     (if \<not> verifyMutationCSRF c r db then (http_Error 403, db)
      else case decodeJSON put_audience no_audience (body_left c r) of
        None \<Rightarrow> (http_Error 400, db)
      | Some request \<Rightarrow>
          (case session c (time_now (e 0)) r ctx db of
             None \<Rightarrow> (http_Error 401, db)
           | Some s \<Rightarrow>
               if Srv_AssertionIssuer srv = None then (http_Error 503, db)
               else case ProveProductAccess (e 1) (Usr_ID (Auth_User s)) (rq_param r ''organisationID'')
                           (rq_param r ''productKey'') (rq_param r ''workspaceID'') db of
                 Inl x \<Rightarrow> (writeProductError x, db)
               | Inr access \<Rightarrow>
                   (case Issue (Srv_ed25519 srv) (e 2) (Srv_AssertionIssuer srv)
                           (assertion_request (Pas_Audience request) access) (time_now (e 2)) of
                      Inl x \<Rightarrow> (writeAssertionError x, db)
                    | Inr issued \<Rightarrow> (writeJSON 201 (productAssertionResponse issued), db))))"

definition assertionKeys :: "server \<Rightarrow> json http_response" where
  "assertionKeys srv =
     (case Srv_AssertionIssuer srv of
        None \<Rightarrow> http_Error 503
      | Some i \<Rightarrow> writeJSON 200 (JArr (map assertionKeyResponse (PublicKeys (Some i)))))"

lemma ProveProductAccess_Inr:
  assumes "ProveProductAccess e pid oid key wid db = Inr x"
  shows "has_access pid oid (TrimSpace key) wid db \<and> PA_UserID x = pid \<and> PA_OrganisationID x = oid \<and> PA_WorkspaceID x = wid"
proof -
  from assms have x: "x \<in> set (access_rows pid oid (TrimSpace key) wid db)"
    by (auto simp: ProveProductAccess_def split: if_splits list.splits)
  then have "has_access pid oid (TrimSpace key) wid db" by (auto simp flip: access_rows_nonempty)
  moreover from x have "PA_UserID x = pid \<and> PA_OrganisationID x = oid \<and> PA_WorkspaceID x = wid"
    unfolding access_rows_iff list.set singleton_iff by fastforce
  ultimately show ?thesis by simp
qed

lemma Issue_claims:
  assumes "Issue ed e i q at = Inr (token, claims)"
  shows "Cl_PlatformUserID claims = Irq_PlatformUserID q \<and> Cl_PlatformOrganisationID claims = Irq_OrganisationID q \<and>
    Cl_PlatformWorkspaceID claims = Irq_WorkspaceID q \<and> Cl_Audience claims = TrimSpace (Irq_Audience q)"
  using assms by (auto simp: Issue_def sign_def Let_def attempt_def split: option.splits if_splits sum.splits)

lemma issueProductAssertion_db [simp]: "snd (issueProductAssertion srv c e r ctx db) = db"
  by (simp add: issueProductAssertion_def split: option.split sum.split)

end
