(* ===== verification/Routes.thy ===== *)
theory Routes
  imports Api
begin

text \<open>
  The route table of the protected part of the server (\<^verbatim>\<open>Server.Handler\<close> in
  \<^verbatim>\<open>internal/platform/http/server.go\<close>): which handler serves which route behind which middleware. Every
  route is an \<open>endpoint\<close>; so no request changes an organisation, a workspace or a product unless it
  carries a live session and its token.
\<close>

section \<open>The route table\<close>

datatype route =
    RenameOrganisationUIRoute | ArchiveOrganisationUIRoute | AddOrganisationMemberUIRoute
  | ChangeOrganisationMemberRoleUIRoute | DeactivateOrganisationMemberUIRoute | CreateWorkspaceUIRoute
  | EntitleOrganisationUIRoute | RevokeOrganisationEntitlementUIRoute | AssignUserProductUIRoute
  | RevokeUserProductUIRoute | AddWorkspaceMemberUIRoute | ChangeWorkspaceMemberRoleUIRoute
  | DeactivateWorkspaceMemberUIRoute | ArchiveWorkspaceUIRoute | RetireProductUIRoute
  | CreateOrganisationRoute | RenameOrganisationRoute | AddOrganisationMemberRoute
  | ChangeOrganisationMemberRoleRoute | DeactivateOrganisationMemberRoute | ArchiveOrganisationRoute
  | CreateWorkspaceRoute | RetireProductRoute | EntitleOrganisationRoute
  | RevokeOrganisationEntitlementRoute | AssignUserProductRoute | RevokeUserProductRoute
  | GetOrganisationRoute | GetOrganisationWorkspaceEntryRoute | ListOrganisationWorkspacesRoute
  | ListOrganisationMembersRoute | ListOrganisationAuditRoute | ListProductsRoute
  | ListOrganisationProductEntitlementsRoute | ListUserProductAssignmentsRoute | ProveProductAccessRoute
  | IssueProductAssertionRoute | GetWorkspaceRoute | ListWorkspaceMembersRoute | ListWorkspaceAuditRoute
  | AddWorkspaceMemberRoute | ChangeWorkspaceMemberRoleRoute | DeactivateWorkspaceMemberRoute
  | ArchiveWorkspaceRoute

primrec routed :: "server \<Rightarrow> route \<Rightarrow> crypto \<Rightarrow> (nat \<Rightarrow> env) \<Rightarrow> http_request \<Rightarrow> Authenticated_Session option \<Rightarrow> db \<Rightarrow>
    json http_response \<times> db" where
  "routed srv RenameOrganisationUIRoute = renameOrganisationUI"
| "routed srv ArchiveOrganisationUIRoute = archiveOrganisationUI"
| "routed srv AddOrganisationMemberUIRoute = addOrganisationMemberUI"
| "routed srv ChangeOrganisationMemberRoleUIRoute = changeOrganisationMemberRoleUI"
| "routed srv DeactivateOrganisationMemberUIRoute = deactivateOrganisationMemberUI"
| "routed srv CreateWorkspaceUIRoute = createWorkspaceUI"
| "routed srv EntitleOrganisationUIRoute = entitleOrganisationUI"
| "routed srv RevokeOrganisationEntitlementUIRoute = revokeOrganisationEntitlementUI"
| "routed srv AssignUserProductUIRoute = assignUserProductUI"
| "routed srv RevokeUserProductUIRoute = revokeUserProductUI"
| "routed srv AddWorkspaceMemberUIRoute = addWorkspaceMemberUI"
| "routed srv ChangeWorkspaceMemberRoleUIRoute = changeWorkspaceMemberRoleUI"
| "routed srv DeactivateWorkspaceMemberUIRoute = deactivateWorkspaceMemberUI"
| "routed srv ArchiveWorkspaceUIRoute = archiveWorkspaceUI"
| "routed srv RetireProductUIRoute = retireProductUI"
| "routed srv CreateOrganisationRoute = createOrganisation"
| "routed srv RenameOrganisationRoute = renameOrganisation"
| "routed srv AddOrganisationMemberRoute = addOrganisationMember"
| "routed srv ChangeOrganisationMemberRoleRoute = changeOrganisationMemberRole"
| "routed srv DeactivateOrganisationMemberRoute = deactivateOrganisationMember"
| "routed srv ArchiveOrganisationRoute = archiveOrganisation"
| "routed srv CreateWorkspaceRoute = createWorkspace"
| "routed srv RetireProductRoute = retireProduct"
| "routed srv EntitleOrganisationRoute = entitleOrganisation"
| "routed srv RevokeOrganisationEntitlementRoute = revokeOrganisationEntitlement"
| "routed srv AssignUserProductRoute = assignUserProduct"
| "routed srv RevokeUserProductRoute = revokeUserProduct"
| "routed srv GetOrganisationRoute = getOrganisation"
| "routed srv GetOrganisationWorkspaceEntryRoute = getOrganisationWorkspaceEntry"
| "routed srv ListOrganisationWorkspacesRoute = listOrganisationWorkspaces"
| "routed srv ListOrganisationMembersRoute = listOrganisationMembers"
| "routed srv ListOrganisationAuditRoute = listOrganisationAudit"
| "routed srv ListProductsRoute = listProducts"
| "routed srv ListOrganisationProductEntitlementsRoute = listOrganisationProductEntitlements"
| "routed srv ListUserProductAssignmentsRoute = listUserProductAssignments"
| "routed srv ProveProductAccessRoute = proveProductAccess"
| "routed srv IssueProductAssertionRoute = issueProductAssertion srv"
| "routed srv GetWorkspaceRoute = (\<lambda>c e r. requireWorkspaceScope False c (time_now (e 0)) r (getWorkspace c e r))"
| "routed srv ListWorkspaceMembersRoute = (\<lambda>c e r. requireWorkspaceScope True c (time_now (e 0)) r (listWorkspaceMembers c e r))"
| "routed srv ListWorkspaceAuditRoute = (\<lambda>c e r. requireWorkspaceScope True c (time_now (e 0)) r (listWorkspaceAudit c e r))"
| "routed srv AddWorkspaceMemberRoute = (\<lambda>c e r. requireWorkspaceScope True c (time_now (e 0)) r (addWorkspaceMember c e r))"
| "routed srv ChangeWorkspaceMemberRoleRoute = (\<lambda>c e r. requireWorkspaceScope True c (time_now (e 0)) r (changeWorkspaceMemberRole c e r))"
| "routed srv DeactivateWorkspaceMemberRoute = (\<lambda>c e r. requireWorkspaceScope True c (time_now (e 0)) r (deactivateWorkspaceMember c e r))"
| "routed srv ArchiveWorkspaceRoute = (\<lambda>c e r. requireWorkspaceScope True c (time_now (e 0)) r (archiveWorkspace c e r))"

definition Handler :: "server \<Rightarrow> crypto \<Rightarrow> (nat \<Rightarrow> env) \<Rightarrow> route \<Rightarrow> http_request \<Rightarrow> db \<Rightarrow> json http_response \<times> db" where
  "Handler srv c e route r = requireSession c (time_now (e 3)) r (routed srv route c e r)"

text \<open>The routes behind \<^verbatim>\<open>requireWorkspaceScope(true)\<close>.\<close>

definition workspace_admin_routes :: "route set" where
  "workspace_admin_routes = {ListWorkspaceMembersRoute, ListWorkspaceAuditRoute, AddWorkspaceMemberRoute, ChangeWorkspaceMemberRoleRoute, DeactivateWorkspaceMemberRoute, ArchiveWorkspaceRoute}"

section \<open>Every route is an endpoint\<close>

lemma endpoint_mono: "endpoint S valid h \<Longrightarrow> S \<subseteq> S' \<Longrightarrow> endpoint S' valid h"
  using writes_mono unfolding endpoint_def by blast

lemma endpoint_reading:
  assumes "\<And>c e r ctx db. snd (h c e r ctx db) = db"
  shows "endpoint S valid h"
  using assms by unfold_locales (metis snd_conv writes_refl)+

lemma endpoint_scoped:
  assumes "endpoint S valid h"
  shows "endpoint S valid (\<lambda>c e r. requireWorkspaceScope admin c (time_now (e 0)) r (h c e r))"
  using assms unfolding endpoint_def
  by (auto simp: requireWorkspaceScope_def split: option.splits sum.splits if_splits)

lemmas endpoints =
  createOrganisation.endpoint_axioms
  renameOrganisation.endpoint_axioms
  addOrganisationMember.endpoint_axioms
  changeOrganisationMemberRole.endpoint_axioms
  deactivateOrganisationMember.endpoint_axioms
  archiveOrganisation.endpoint_axioms
  createWorkspace.endpoint_axioms
  addWorkspaceMember.endpoint_axioms
  changeWorkspaceMemberRole.endpoint_axioms
  deactivateWorkspaceMember.endpoint_axioms
  archiveWorkspace.endpoint_axioms
  retireProduct.endpoint_axioms
  entitleOrganisation.endpoint_axioms
  revokeOrganisationEntitlement.endpoint_axioms
  assignUserProduct.endpoint_axioms
  revokeUserProduct.endpoint_axioms
  renameOrganisationUI.endpoint_axioms
  archiveOrganisationUI.endpoint_axioms
  addOrganisationMemberUI.endpoint_axioms
  changeOrganisationMemberRoleUI.endpoint_axioms
  deactivateOrganisationMemberUI.endpoint_axioms
  createWorkspaceUI.endpoint_axioms
  entitleOrganisationUI.endpoint_axioms
  revokeOrganisationEntitlementUI.endpoint_axioms
  assignUserProductUI.endpoint_axioms
  revokeUserProductUI.endpoint_axioms
  addWorkspaceMemberUI.endpoint_axioms
  changeWorkspaceMemberRoleUI.endpoint_axioms
  deactivateWorkspaceMemberUI.endpoint_axioms
  archiveWorkspaceUI.endpoint_axioms
  retireProductUI.endpoint_axioms

lemma reading_endpoints:
  "endpoint S valid getOrganisation"
  "endpoint S valid getOrganisationWorkspaceEntry"
  "endpoint S valid listOrganisationWorkspaces"
  "endpoint S valid listOrganisationMembers"
  "endpoint S valid listOrganisationAudit"
  "endpoint S valid listProducts"
  "endpoint S valid listOrganisationProductEntitlements"
  "endpoint S valid listUserProductAssignments"
  "endpoint S valid proveProductAccess"
  "endpoint S valid (issueProductAssertion srv)"
  "endpoint S valid getWorkspace"
  "endpoint S valid listWorkspaceMembers"
  "endpoint S valid listWorkspaceAudit"
  by (rule endpoint_reading, simp add: reading_defs split: option.split)+

lemmas routed_endpoints =
  endpoints [THEN endpoint_mono, OF subset_UNIV] reading_endpoints

lemma routed_endpoint: "endpoint UNIV verifyMutationCSRF (routed srv route)"
  by (cases route) (simp_all add: routed_endpoints endpoint_scoped)

section \<open>The guard of the interface\<close>

lemma csrf_session:
  assumes "db_ok db" and "rq_cookie r sessionCookieName = Some v" and "live (HashToken c v) now s u db"
    and "verifyMutationCSRF c r db"
  shows "s_csrf_token_hash s \<in> {HashToken c (rq_header r ''X-CSRF-Token''), HashToken c (rq_form r ''csrf'')}"
proof -
  have "find (\<lambda>s. s_token_hash s = HashToken c v \<and> s_revoked_at s = None) (sessions db) = Some s"
    using assms(3) db_okD(2) [OF assms(1)]
    by (intro find_unique) (auto simp: live_def sessions_ok_def dest: unique_keyD)
  with assms(2,4) show ?thesis
    by (auto simp: verifyMutationCSRF_def VerifySessionCSRF_def SessionCSRFHash_def VerifyTokenHash_def Let_def split: if_splits)
qed

lemma routed_scope:
  assumes "db_ok db" and "route \<in> workspace_admin_routes" and "snd (routed srv route c e r (Some s) db) \<noteq> db"
  shows "scope_allowed True (Usr_ID (Auth_User s)) (rq_param r ''workspaceID'') db"
proof -
  from assms(2,3) obtain h :: "Authenticated_Session option \<Rightarrow> db \<Rightarrow> json http_response \<times> db"
    where "snd (requireWorkspaceScope True c (time_now (e 0)) r h (Some s) db) \<noteq> db"
    by (auto simp: workspace_admin_routes_def)
  then show ?thesis using proof_allowed [OF assms(1)]
    by (auto simp: requireWorkspaceScope_def session_def ProveWorkspaceScope_def attempt_def split: sum.splits if_splits)
qed


section \<open>Assertions are issued for proven access\<close>

text \<open>
  C34: An assertion is issued only for access the user has. Whenever the endpoint answers with an assertion,
  the request carries a live session of an active user and its token, that user has effective access
  to the product in the workspace and organisation of the URL at that moment, and the claims signed
  are that user, that organisation and that workspace, for the audience that the body asks for.
\<close>

theorem assertion_needs_access:
  assumes "db_ok db" and "Handler srv c e IssueProductAssertionRoute r db = (rsp, db')" and "Rsp_status rsp = 201"
  shows "db' = db \<and> (\<exists>v s u q token claims. rq_cookie r sessionCookieName = Some v \<and>
    live (HashToken c v) (time_now (e 3)) s u db \<and> verifyMutationCSRF c r db \<and>
    has_access (u_public_id u) (rq_param r ''organisationID'') (TrimSpace (rq_param r ''productKey''))
      (rq_param r ''workspaceID'') db \<and>
    decodeJSON put_audience no_audience (body_left c r) = Some q \<and>
    Rsp_value rsp = Some (productAssertionResponse (token, claims)) \<and>
    Issue (Srv_ed25519 srv) (e 2) (Srv_AssertionIssuer srv)
      \<lparr>Irq_Audience = Pas_Audience q, Irq_PlatformUserID = u_public_id u, Irq_OrganisationID = rq_param r ''organisationID'',
       Irq_WorkspaceID = rq_param r ''workspaceID'', Irq_Lifetime = 0\<rparr> (time_now (e 2)) = Inr (token, claims) \<and>
    Cl_PlatformUserID claims = u_public_id u \<and> Cl_PlatformOrganisationID claims = rq_param r ''organisationID'' \<and>
    Cl_PlatformWorkspaceID claims = rq_param r ''workspaceID'' \<and> Cl_Audience claims = TrimSpace (Pas_Audience q))"
proof -
  from assms(2,3) obtain v a where v: "rq_cookie r sessionCookieName = Some v"
      "AuthenticatedSession c v (time_now (e 3)) db = Inr a" "issueProductAssertion srv c e r (Some a) db = (rsp, db')"
    by (auto simp: Handler_def requireSession_def loadSession_def split: sum.splits option.splits if_splits)
  from v(2) obtain s u where l: "live (HashToken c v) (time_now (e 3)) s u db" "a = authenticated s u"
    by (auto simp: AuthenticatedSession_Inr dest: live_session_Some)
  have id: "Usr_ID (Auth_User a) = u_public_id u" using l(2) by (simp add: authenticated_def user_value_def)
  have db: "db' = db" using issueProductAssertion_db [of srv c e r "Some a" db] v(3) by simp
  have st: "Rsp_status (writeProductError x) \<noteq> 201" "Rsp_status (writeAssertionError y) \<noteq> 201" for x y
    by (simp_all add: writeProductError_def writeAssertionError_def)
  obtain q x token claims where p: "verifyMutationCSRF c r db"
      "decodeJSON put_audience no_audience (body_left c r) = Some q"
      "ProveProductAccess (e 1) (u_public_id u) (rq_param r ''organisationID'') (rq_param r ''productKey'')
         (rq_param r ''workspaceID'') db = Inr x"
      "Issue (Srv_ed25519 srv) (e 2) (Srv_AssertionIssuer srv) (assertion_request (Pas_Audience q) x) (time_now (e 2)) =
         Inr (token, claims)"
      "Rsp_value rsp = Some (productAssertionResponse (token, claims))"
    using v(3) assms(3) st id
    by (auto simp: issueProductAssertion_def session_def split: if_splits option.splits sum.splits)
  note access = ProveProductAccess_Inr [OF p(3)]
  have "assertion_request (Pas_Audience q) x = \<lparr>Irq_Audience = Pas_Audience q, Irq_PlatformUserID = u_public_id u,
      Irq_OrganisationID = rq_param r ''organisationID'', Irq_WorkspaceID = rq_param r ''workspaceID'', Irq_Lifetime = 0\<rparr>"
    using access by (simp add: assertion_request_def)
  with db v(1) l(1) p access Issue_claims [OF p(4)] show ?thesis by auto
qed

end
