(* ===== verification/Login.thy ===== *)
theory Login
  imports Http
begin

text \<open>
  Signing in and out, and the second factor (\<^verbatim>\<open>internal/platform/http/server.go\<close>: \<^verbatim>\<open>NewServer\<close>, \<^verbatim>\<open>loginPage\<close>,
  \<^verbatim>\<open>login\<close>, \<^verbatim>\<open>renderLoginThrottle\<close>, \<^verbatim>\<open>accountPage\<close>, \<^verbatim>\<open>mfaSetup\<close>, \<^verbatim>\<open>mfaConfirm\<close>, \<^verbatim>\<open>logout\<close>, \<^verbatim>\<open>sessionCSRF\<close>): the
  handlers that compose the login limiter, the password check, the second factor and the session
  store. A login threads the limiter and the database; the environment of its \<open>k\<close>-th call is \<open>e k\<close>.
  Rendering a page is taken to succeed, and its value is what the page is made from.
\<close>

section \<open>The server\<close>

record login_config =
  Lcf_CookieSecure :: bool
  Lcf_AllowInsecureCookies :: bool
  Lcf_SessionTTL :: int
  Lcf_RateLimitEnabled :: bool
  Lcf_LoginLimiter :: LoginLimiterConfig

definition NewServer :: "login_config \<Rightarrow> login_config \<times> LoginLimiter" where
  "NewServer cfg =
     (let cfg = (if Lcf_SessionTTL cfg \<le> 0 then cfg\<lparr>Lcf_SessionTTL := 12 * 3600 * 1000000000\<rparr> else cfg);
          cfg = (if \<not> Lcf_AllowInsecureCookies cfg then cfg\<lparr>Lcf_CookieSecure := True\<rparr> else cfg)
      in (cfg, NewLoginLimiter (Lcf_LoginLimiter cfg)))"

datatype page =
    LoginPage string string                          \<comment> \<open>token, message\<close>
  | AccountPage User string
  | MFASetupPage User string string string string    \<comment> \<open>user, token, enrollment token, secret, message\<close>
  | MFARecoveryPage User string "string list"

definition render :: "'v \<Rightarrow> 'v http_response" where
  "render v = \<lparr>Rsp_status = 200, Rsp_location = [], Rsp_retry_after = None, Rsp_cookies = [], Rsp_value = Some v\<rparr>"

definition setCookie :: "string \<Rightarrow> string \<Rightarrow> string \<Rightarrow> int \<Rightarrow> login_config \<Rightarrow> 'v http_response \<Rightarrow> 'v http_response" where
  "setCookie name v path age cfg rsp =
     rsp\<lparr>Rsp_cookies := Rsp_cookies rsp @
       [\<lparr>ck_name = name, ck_value = v, ck_path = path, ck_max_age = age, ck_secure = Lcf_CookieSecure cfg\<rparr>]\<rparr>"

definition loginPage :: "crypto \<Rightarrow> login_config \<Rightarrow> env \<Rightarrow> http_request \<Rightarrow> db \<Rightarrow> page http_response" where
  "loginPage c cfg e r db =
     (if session c (time_now e) r None db \<noteq> None then http_Redirect ''/account''
      else case NewOpaqueToken (rand_read e 0) 32 of
        Inl _ \<Rightarrow> http_Error 500
      | Inr token \<Rightarrow> setCookie loginCSRFCookie token ''/login'' 900 cfg
          (render (LoginPage token (if rq_query r ''error'' = ''1'' then ''Invalid credentials'' else []))))"

section \<open>Signing in\<close>

definition DummyPasswordHash :: string where
  "DummyPasswordHash = ''$2a$12$1Z3c.OVxnh87fotws1nTxONdNrj6noCRzU7ILd46d7eJJyt2FLsJe''"

definition renderLoginThrottle :: "int \<Rightarrow> 'v http_response" where
  "renderLoginThrottle retryAfter =
     (let seconds = int64 (retryAfter + 1000000000 - 1) sdiv 1000000000;
          seconds = (if seconds < 1 then 1 else seconds)
      in (http_Error 429)\<lparr>Rsp_retry_after := Some seconds\<rparr>)"

text \<open>The code of the second factor if one is given, and otherwise, or if it is refused, a recovery code.\<close>

definition second_factor :: "crypto \<Rightarrow> string \<Rightarrow> (nat \<Rightarrow> env) \<Rightarrow> http_request \<Rightarrow> string \<Rightarrow> gotime \<Rightarrow> db \<Rightarrow> bool result \<times> db" where
  "second_factor c key e r userID now db =
     (let code = TrimSpace (rq_form r ''mfa_code'');
          (valid, db) = (if code \<noteq> [] then VerifyMFA c key (e 1) userID code db else (Inr False, db))
      in if valid \<noteq> Inr True \<and> TrimSpace (rq_form r ''recovery_code'') \<noteq> []
         then UseRecoveryCode c (e 2) userID (rq_form r ''recovery_code'') now db
         else (valid, db))"

definition login_failed :: "login_config \<Rightarrow> visit \<Rightarrow> env \<Rightarrow> string \<Rightarrow> string option \<Rightarrow> string \<Rightarrow> string \<Rightarrow> gotime \<Rightarrow>
    LoginLimiter \<Rightarrow> db \<Rightarrow> page http_response \<times> LoginLimiter \<times> db" where
  "login_failed cfg visit e key userID event details now l db =
     (case RecordSecurityEvent e userID event details now db of
        (Inl _, db) \<Rightarrow> (serverError, l, db)
      | (Inr _, db) \<Rightarrow>
          if Lcf_RateLimitEnabled cfg
          then let ((retryAfter, blocked), l) = RecordFailure visit key now l in
            if blocked then (renderLoginThrottle retryAfter, l, db)
            else (http_Redirect ''/login?error=1'', l, db)
          else (http_Redirect ''/login?error=1'', l, db))"

definition login_succeeded :: "crypto \<Rightarrow> login_config \<Rightarrow> (nat \<Rightarrow> env) \<Rightarrow> string \<Rightarrow> string \<Rightarrow> gotime \<Rightarrow>
    LoginLimiter \<Rightarrow> db \<Rightarrow> page http_response \<times> LoginLimiter \<times> db" where
  "login_succeeded c cfg e key userID now l db =
     (let l = (if Lcf_RateLimitEnabled cfg then RecordSuccess key l else l);
          age = Lcf_SessionTTL cfg div 1000000000
      in case NewOpaqueToken (rand_read (e 4) 0) 32 of
           Inl _ \<Rightarrow> (serverError, l, db)
         | Inr token \<Rightarrow>
             (case NewOpaqueToken (rand_read (e 4) 1) 32 of
                Inl _ \<Rightarrow> (serverError, l, db)
              | Inr csrf \<Rightarrow>
                  (case EstablishSession c (e 5) userID token csrf (now + Lcf_SessionTTL cfg) now db of
                     (Inl _, db) \<Rightarrow> (serverError, l, db)
                   | (Inr _, db) \<Rightarrow>
                       (setCookie loginCSRFCookie [] ''/login'' (- 1) cfg
                         (setCookie ''platform_csrf'' csrf ''/'' age cfg
                           (setCookie sessionCookieName token ''/'' age cfg (http_Redirect ''/account''))), l, db))))"

text \<open>From the lookup of the credential on.\<close>

definition login_checked :: "crypto \<Rightarrow> string \<Rightarrow> login_config \<Rightarrow> visit \<Rightarrow> (nat \<Rightarrow> env) \<Rightarrow> http_request \<Rightarrow> string \<Rightarrow> string \<Rightarrow> gotime \<Rightarrow>
    LoginLimiter \<Rightarrow> db \<Rightarrow> page http_response \<times> LoginLimiter \<times> db" where
  "login_checked c secretKey cfg visit e r email key now l db =
     (let credential = FindLoginCredential c email db;
          hash = (case credential of
                    None \<Rightarrow> DummyPasswordHash
                  | Some cr \<Rightarrow> if Cred_PasswordHash cr = [] then DummyPasswordHash else Cred_PasswordHash cr);
          passwordOK = CheckPassword c hash (rq_form r ''password'')
      in case credential of
           None \<Rightarrow> login_failed cfg visit (e 3) key None ''failed_login'' ''credentials rejected'' now l db
         | Some cr \<Rightarrow>
             let user = Cred_User cr in
             if \<not> passwordOK \<or> \<not> Usr_Active user
             then login_failed cfg visit (e 3) key (Some (Usr_ID user)) ''failed_login'' ''credentials rejected'' now l db
             else if Usr_MFAEnabled user
             then case second_factor c secretKey e r (Usr_ID user) now db of
                    (Inl _, db) \<Rightarrow> (serverError, l, db)
                  | (Inr False, db) \<Rightarrow>
                      login_failed cfg visit (e 3) key (Some (Usr_ID user)) ''failed_mfa'' ''second factor rejected'' now l db
                  | (Inr True, db) \<Rightarrow> login_succeeded c cfg e key (Usr_ID user) now l db
             else login_succeeded c cfg e key (Usr_ID user) now l db)"

definition login_email :: "crypto \<Rightarrow> http_request \<Rightarrow> string" where
  "login_email c r = ToLower (unicode_lower c) (TrimSpace (rq_form r ''email''))"

definition login :: "crypto \<Rightarrow> string \<Rightarrow> login_config \<Rightarrow> visit \<Rightarrow> (nat \<Rightarrow> env) \<Rightarrow> http_request \<Rightarrow> LoginLimiter \<Rightarrow> db \<Rightarrow>
    page http_response \<times> LoginLimiter \<times> db" where
  "login c secretKey cfg visit e r l db =
     (if \<not> rq_form_ok r then (http_Error 400, l, db)
      else if (case rq_cookie r loginCSRFCookie of
                 None \<Rightarrow> True | Some v \<Rightarrow> \<not> VerifyTokenHash c (HashToken c v) (rq_form r ''csrf''))
      then (http_Error 403, l, db)
      else
        let email = login_email c r;
            key = LoginAbuseKey c email (rq_remote r);
            now = time_now (e 0);
            ((retryAfter, blocked), l) = (if Lcf_RateLimitEnabled cfg then RetryAfter key now l else ((0, False), l))
        in if blocked then (renderLoginThrottle retryAfter, l, db)
           else login_checked c secretKey cfg visit e r email key now l db)"

section \<open>The account\<close>

definition accountPage :: "crypto \<Rightarrow> (nat \<Rightarrow> env) \<Rightarrow> http_request \<Rightarrow> Authenticated_Session option \<Rightarrow> db \<Rightarrow> page http_response \<times> db" where
  "accountPage c e r ctx db =
     (case session c (time_now (e 0)) r ctx db of
        None \<Rightarrow> (http_Redirect ''/login'', db)
      | Some s \<Rightarrow>
          (case rq_cookie r ''platform_csrf'' of
             None \<Rightarrow> (http_Error 401, db)
           | Some v \<Rightarrow> if TrimSpace v = [] then (http_Error 401, db) else (render (AccountPage (Auth_User s) v), db)))"

definition sessionCSRF :: "crypto \<Rightarrow> http_request \<Rightarrow> db \<Rightarrow> string option" where \<comment> \<open>the cookie, if the token is valid\<close>
  "sessionCSRF c r db =
     (case rq_cookie r sessionCookieName of
        None \<Rightarrow> None
      | Some v \<Rightarrow>
          (case rq_cookie r ''platform_csrf'' of
             None \<Rightarrow> None
           | Some k \<Rightarrow> if VerifySessionCSRF c v (rq_form r ''csrf'') db = Inr True then Some k else None))"

definition mfaSetup :: "string \<Rightarrow> crypto \<Rightarrow> (nat \<Rightarrow> env) \<Rightarrow> http_request \<Rightarrow> Authenticated_Session option \<Rightarrow> db \<Rightarrow> page http_response \<times> db" where
  "mfaSetup secretKey c e r ctx db =
     (if \<not> rq_form_ok r then (http_Error 400, db)
      else case session c (time_now (e 0)) r ctx db of
        None \<Rightarrow> (http_Redirect ''/login'', db)
      | Some s \<Rightarrow>
          (case sessionCSRF c r db of
             None \<Rightarrow> (http_Error 403, db)
           | Some csrf \<Rightarrow>
               if Usr_MFAEnabled (Auth_User s) then (http_Error 409, db)
               else case GenerateTOTPSecret (rand_read (e 1) 0) of
                 Inl _ \<Rightarrow> (serverError, db)
               | Inr secret \<Rightarrow>
                   (case CreateMFAEnrollment c secretKey (e 2) (Usr_ID (Auth_User s)) secret
                           (time_now (e 1) + 10 * 60 * 1000000000) db of
                      (Inl _, db') \<Rightarrow> (serverError, db')
                    | (Inr token, db') \<Rightarrow> (render (MFASetupPage (Auth_User s) csrf token secret []), db'))))"

fun hash_codes :: "crypto \<Rightarrow> string list \<Rightarrow> string list result" where
  "hash_codes c [] = Inr []"
| "hash_codes c (code # codes) =
     attempt (HashPassword c (NormalizeRecoveryCode c code)) (\<lambda>hash.
     attempt (hash_codes c codes) (\<lambda>hashes. Inr (hash # hashes)))"

definition mfaConfirm :: "string \<Rightarrow> crypto \<Rightarrow> (nat \<Rightarrow> env) \<Rightarrow> http_request \<Rightarrow> Authenticated_Session option \<Rightarrow> db \<Rightarrow> page http_response \<times> db" where
  "mfaConfirm secretKey c e r ctx db =
     (if \<not> rq_form_ok r then (http_Error 400, db)
      else case session c (time_now (e 0)) r ctx db of
        None \<Rightarrow> (http_Redirect ''/login'', db)
      | Some s \<Rightarrow>
          (case sessionCSRF c r db of
             None \<Rightarrow> (http_Error 403, db)
           | Some csrf \<Rightarrow>
               (case GenerateRecoveryCodes (rand_read (e 1)) 10 of
                  Inl _ \<Rightarrow> (serverError, db)
                | Inr codes \<Rightarrow>
                    (case hash_codes c codes of
                       Inl _ \<Rightarrow> (serverError, db)
                     | Inr hashes \<Rightarrow>
                         (case CompleteMFAEnrollment c secretKey (e 2) (Usr_ID (Auth_User s)) (rq_form r ''enrollment_token'')
                                 (rq_form r ''code'') hashes (time_now (e 2)) db of
                            (Inl _, db') \<Rightarrow> (serverError, db')
                          | (Inr completed, db') \<Rightarrow>
                              (render (if completed then MFARecoveryPage (Auth_User s) csrf codes
                                 else MFASetupPage (Auth_User s) csrf (rq_form r ''enrollment_token'') []
                                   ''The code was invalid or the setup window expired.''), db'))))))"

definition form_csrf :: "crypto \<Rightarrow> http_request \<Rightarrow> db \<Rightarrow> bool" where
  "form_csrf c r db \<longleftrightarrow>
     (case rq_cookie r sessionCookieName of
        None \<Rightarrow> False
      | Some v \<Rightarrow> VerifySessionCSRF c v (rq_form r ''csrf'') db = Inr True)"

definition logout :: "login_config \<Rightarrow> crypto \<Rightarrow> (nat \<Rightarrow> env) \<Rightarrow> http_request \<Rightarrow> Authenticated_Session option \<Rightarrow> db \<Rightarrow> page http_response \<times> db" where
  "logout cfg c e r ctx db =
     (if \<not> rq_form_ok r then (http_Error 400, db)
      else case session c (time_now (e 0)) r ctx db of
        None \<Rightarrow> (http_Redirect ''/login'', db)
      | Some s \<Rightarrow>
          if \<not> form_csrf c r db then (http_Error 403, db)
          else case RevokeSessionAndRecordLogout c (e 1) (the (rq_cookie r sessionCookieName)) (Usr_ID (Auth_User s))
                      (time_now (e 1)) db of
            (Inl _, db') \<Rightarrow> (serverError, db')
          | (Inr _, db') \<Rightarrow>
              (setCookie ''platform_csrf'' [] ''/'' (- 1) cfg
                (setCookie sessionCookieName [] ''/'' (- 1) cfg (http_Redirect ''/login'')), db'))"

section \<open>The account handlers keep the contract\<close>

lemma Rsp_status_render [simp]:
  "Rsp_status (render v) = 200" "Rsp_status (setCookie n x p a cfg rsp) = Rsp_status rsp" "Rsp_cookies (render v) = []"
  "Rsp_cookies (renderLoginThrottle d) = []" "Rsp_status (renderLoginThrottle d) = 429"
  by (simp_all add: render_def setCookie_def renderLoginThrottle_def Let_def)

lemma sessionCSRF_form: "sessionCSRF c r db = Some k \<Longrightarrow> form_csrf c r db"
  by (auto simp: sessionCSRF_def form_csrf_def split: option.splits if_splits)

lemmas account_atomic =
  create_enrollment.atomic [where i = "(a, b, c, d, f)" for a b c d f, simplified]
  complete_enrollment.atomic [where i = "(a, b, c, d, f, g, h)" for a b c d f g h, simplified]
  logout.atomic [where i = "(a, b, c, d)" for a b c d, simplified]

lemmas account_traced =
  create_enrollment.traced [where i = "(a, b, c, d, f)" for a b c d f, simplified]
  complete_enrollment.traced [where i = "(a, b, c, d, f, g, h)" for a b c d f g h, simplified]
  logout.traced [where i = "(a, b, c, d)" for a b c d, simplified]

interpretation mfa_setup: endpoint mfa_tables form_csrf "mfaSetup key" for key
  by unfold_locales
    (auto simp: mfaSetup_def split: if_splits option.splits sum.splits prod.splits
      dest: sessionCSRF_form account_atomic account_traced)

interpretation mfa_confirm: endpoint mfa_tables form_csrf "mfaConfirm key" for key
  by unfold_locales
    (auto simp: mfaConfirm_def split: if_splits option.splits sum.splits prod.splits
      dest: sessionCSRF_form account_atomic account_traced)

interpretation sign_out: endpoint session_tables form_csrf "logout cfg" for cfg
  by unfold_locales
    (auto simp: logout_def split: if_splits option.splits sum.splits prod.splits dest: account_atomic account_traced)

section \<open>What a login does\<close>

lemma setCookie_cookies: "Rsp_cookies (setCookie n v p a cfg rsp) =
    Rsp_cookies rsp @ [\<lparr>ck_name = n, ck_value = v, ck_path = p, ck_max_age = a, ck_secure = Lcf_CookieSecure cfg\<rparr>]"
  by (simp add: setCookie_def)

lemma record_event_sessions: "sessions (snd (RecordSecurityEvent e u ev det at db)) = sessions db"
  by (auto simp: RecordSecurityEvent_def prepare_def with_tx_def exec_def attempt_def
      split: sum.splits option.splits if_splits dest: insert_security_event_Inr)

lemma login_failed_quiet:
  "login_failed cfg visit e key u ev det now l db = (rsp, l', db') \<Longrightarrow>
     Rsp_cookies rsp = [] \<and> sessions db' = sessions db \<and> Rsp_location rsp \<noteq> ''/account''"
  using record_event_sessions [of e u ev det now db]
  by (auto simp: login_failed_def http_Redirect_def serverError_def http_Error_def renderLoginThrottle_def Let_def
      split: prod.splits sum.splits if_splits)

lemma second_factor_writes: "writes mfa_tables db (snd (second_factor c key e r u now db))"
  using verify_mfa.run_writes [where i = "(c, key, u, TrimSpace (rq_form r ''mfa_code''))" and e = "e 1" and db = db]
    use_recovery_code.run_writes [where i = "(c, u, rq_form r ''recovery_code'', now)" and e = "e 2"]
  by (auto simp: second_factor_def Let_def split_def intro: writes_trans)

lemma mfa_sessions: "writes mfa_tables db db' \<Longrightarrow> sessions db' = sessions db"
  by (erule writes_field) (auto dest!: stmt_changes)

lemma second_factor_quiet:
  assumes "db_ok db" and "second_factor c key e r u now db = (v, db')"
  shows "db_ok db' \<and> sessions db' = sessions db"
  using second_factor_writes [of db c key e r u now] assms by (auto dest: writes_db_ok mfa_sessions)

lemma second_factor_accepts:
  "second_factor c key e r u now db = (Inr True, db') \<Longrightarrow>
     (TrimSpace (rq_form r ''mfa_code'') \<noteq> [] \<and>
       VerifyMFA c key (e 1) u (TrimSpace (rq_form r ''mfa_code'')) db = (Inr True, db')) \<or>
     (\<exists>d. UseRecoveryCode c (e 2) u (rq_form r ''recovery_code'') now d = (Inr True, db'))"
  by (auto simp: second_factor_def Let_def split: if_splits prod.splits)

lemma login_succeeded_established:
  assumes "login_succeeded c cfg e key u now l db = (rsp, l', db')"
    and "sessionCookieName \<in> ck_name ` set (Rsp_cookies rsp) \<or> sessions db' \<noteq> sessions db"
  obtains token csrf where "EstablishSession c (e 5) u token csrf (now + Lcf_SessionTTL cfg) now db = (Inr (), db')"
    and "rsp = setCookie loginCSRFCookie [] ''/login'' (- 1) cfg
           (setCookie ''platform_csrf'' csrf ''/'' (Lcf_SessionTTL cfg div 1000000000) cfg
             (setCookie sessionCookieName token ''/'' (Lcf_SessionTTL cfg div 1000000000) cfg (http_Redirect ''/account'')))"
  using assms establish_session.atomic [where i = "(c, u, t, k, now + Lcf_SessionTTL cfg, now)" and e = "e 5" for t k, simplified]
  by (fastforce simp: login_succeeded_def Let_def split: sum.splits prod.splits)

lemma credential_row:
  assumes "FindLoginCredential c email db = Some cr"
  obtains u where "u \<in> set (users db)" and "nocase (u_email u) = nocase (NormalizeEmail (unicode_lower c) email)"
    and "Cred_PasswordHash cr = u_password_hash u" and "Usr_ID (Cred_User cr) = u_public_id u"
    and "Usr_Active (Cred_User cr) = u_active u" and "Usr_MFAEnabled (Cred_User cr) = u_mfa_enabled u"
  using assms by (auto simp: FindLoginCredential_def user_value_def dest!: find_SomeD)

abbreviation has_session_cookie :: "'v http_response \<Rightarrow> bool" where
  "has_session_cookie rsp \<equiv> sessionCookieName \<in> ck_name ` set (Rsp_cookies rsp)"

text \<open>The password, the account and the second factor are in order, and \<open>db'\<close> is the database after the checks.\<close>

definition credentials_proved :: "crypto \<Rightarrow> string \<Rightarrow> (nat \<Rightarrow> env) \<Rightarrow> http_request \<Rightarrow> user_row \<Rightarrow> db \<Rightarrow> db \<Rightarrow> bool" where
  "credentials_proved c key e r u db db' \<longleftrightarrow>
     u \<in> set (users db) \<and> u_active u \<and> nocase (u_email u) = nocase (NormalizeEmail (unicode_lower c) (login_email c r)) \<and>
     CheckPassword c (if u_password_hash u = [] then DummyPasswordHash else u_password_hash u) (rq_form r ''password'') \<and>
     (if u_mfa_enabled u
      then VerifyMFA c key (e 1) (u_public_id u) (TrimSpace (rq_form r ''mfa_code'')) db = (Inr True, db') \<or>
        (\<exists>d. UseRecoveryCode c (e 2) (u_public_id u) (rq_form r ''recovery_code'') (time_now (e 0)) d = (Inr True, db'))
      else db' = db)"

lemma login_checked_success:
  assumes "login_checked c key cfg visit e r (login_email c r) k (time_now (e 0)) l db = (rsp, l', db')" and "db_ok db"
    and "has_session_cookie rsp \<or> sessions db' \<noteq> sessions db"
  obtains u db1 where "credentials_proved c key e r u db db1" and "db_ok db1" and "sessions db1 = sessions db"
    and "login_succeeded c cfg e k (u_public_id u) (time_now (e 0)) l db1 = (rsp, l', db')"
proof -
  have quiet: False if "login_failed cfg visit x y z ev det t l2 d0 = (rsp, l', db')" "sessions d0 = sessions db" for x y z ev det t l2 d0
    using login_failed_quiet [OF that(1)] that(2) assms(3) by simp
  from assms(1) obtain cr where cr: "FindLoginCredential c (login_email c r) db = Some cr"
    by (cases "FindLoginCredential c (login_email c r) db") (auto simp: login_checked_def Let_def dest: quiet [OF _ refl])
  then obtain u where u: "u \<in> set (users db)" "nocase (u_email u) = nocase (NormalizeEmail (unicode_lower c) (login_email c r))"
      "Cred_PasswordHash cr = u_password_hash u" "Usr_ID (Cred_User cr) = u_public_id u"
      "Usr_Active (Cred_User cr) = u_active u" "Usr_MFAEnabled (Cred_User cr) = u_mfa_enabled u"
    by (rule credential_row)
  note run = assms(1) [unfolded login_checked_def Let_def cr option.case u]
  from run have ok: "CheckPassword c (if u_password_hash u = [] then DummyPasswordHash else u_password_hash u) (rq_form r ''password'')"
      "u_active u"
    by (auto split: if_splits dest: quiet [OF _ refl])
  show ?thesis
  proof (cases "u_mfa_enabled u")
    case False
    with run ok u assms(2) show ?thesis by (intro that [of u db]) (auto simp: credentials_proved_def)
  next
    case True
    obtain v db1 where sf: "second_factor c key e r (u_public_id u) (time_now (e 0)) db = (v, db1)" by fastforce
    note q = second_factor_quiet [OF assms(2) sf]
    have "v = Inr True"
    proof (rule ccontr)
      assume "v \<noteq> Inr True"
      with run ok True sf q assms(3) show False by (auto split: sum.splits bool.splits dest: quiet)
    qed
    with run ok True sf q second_factor_accepts [of c key e r "u_public_id u" "time_now (e 0)" db db1] u
    show ?thesis by (intro that [of u db1]) (auto simp: credentials_proved_def)
  qed
qed


text \<open>
  C37: A throttled login tries nothing. While the limiter holds an account and address back, a
  well-formed login request is answered with status 429 and a waiting time that is at least a second and
  covers what is left of the hold, rounded up to whole seconds; no password is compared, no session opens and the database stays as it is.
\<close>

theorem login_throttled:
  assumes "Lcf_RateLimitEnabled cfg" and "rq_form_ok r" and "rq_cookie r loginCSRFCookie = Some (rq_form r ''csrf'')"
    and "RetryAfter (LoginAbuseKey c (login_email c r) (rq_remote r)) (time_now (e 0)) l = ((wait, True), l1)"
    and "0 \<le> wait" and "wait < 2 ^ 62"
  shows "\<exists>rsp seconds. login c key cfg visit e r l db = (rsp, l1, db) \<and> Rsp_status rsp = 429 \<and> Rsp_cookies rsp = [] \<and>
    Rsp_retry_after rsp = Some seconds \<and> 1 \<le> seconds \<and> wait \<le> seconds * 1000000000 \<and>
    seconds * 1000000000 \<le> max 1000000000 (wait + 999999999)"
proof -
  have id: "int64 (wait + 1000000000 - 1) = wait + 999999999" using assms(5,6) by (subst int64_id) simp_all
  define q where "q = (wait + 999999999) div 1000000000"
  have div: "int64 (wait + 1000000000 - 1) sdiv 1000000000 = q"
    using assms(5) unfolding id q_def by (simp add: signed_divide_int_def)
  have bounds: "q * 1000000000 \<le> wait + 999999999" "wait + 999999999 < (q + 1) * 1000000000"
    using div_mult_mod_eq [of "wait + 999999999" 1000000000] pos_mod_bound [of 1000000000 "wait + 999999999"]
      pos_mod_sign [of 1000000000 "wait + 999999999"] unfolding q_def [symmetric] by (simp_all add: algebra_simps)
  have "login c key cfg visit e r l db = (renderLoginThrottle wait, l1, db)"
    using assms(1-4) by (simp add: login_def Let_def VerifyTokenHash_def)
  moreover have "Rsp_retry_after (renderLoginThrottle wait) = Some (if q < 1 then 1 else q)"
    unfolding renderLoginThrottle_def Let_def div by simp
  ultimately show ?thesis using bounds assms(5)
    by (intro exI [of _ "renderLoginThrottle wait"] exI [of _ "if q < 1 then 1 else q"]) auto
qed

end
