(* ===== verification/ReadContract.thy ===== *)
theory ReadContract
  imports Http MembershipCommand Assertion
begin

text \<open>
  The wire contract of the read authority (\<^verbatim>\<open>internal/platform/readauthority/contract.go\<close>): which
  records a snapshot may hold and with which fields, the text a machine consumer signs, the cursors
  into the event log and the checksum of a snapshot. Entity kinds, states and codes are strings, as
  in the code; every error of the contract is one of the package's error variables.
\<close>

section \<open>Constants\<close>

abbreviation "VersionV1 \<equiv> ''platform.read-authority.v1''"
abbreviation "VersionV2 \<equiv> ''platform.read-authority.v2''"
abbreviation "ConsumerCTRL \<equiv> ''tockrctrl''"
abbreviation "ConsumerIMS \<equiv> ''tockrims''"
abbreviation "ProductCTRL \<equiv> ''product.tockrctrl''"
abbreviation "ProductIMS \<equiv> ''product.tockrims''"
abbreviation (input) "SignatureMaxClockSkewSecs \<equiv> 300 :: int"
abbreviation (input) "NonceMaxLength \<equiv> 128 :: nat"
abbreviation (input) "SnapshotMaxRecords \<equiv> 10000 :: nat"
abbreviation (input) "SnapshotMaxPageSize \<equiv> 500 :: int"
abbreviation (input) "ChangeMaxPageSize \<equiv> 500 :: int"
abbreviation (input) "RequestsPerMinute \<equiv> 120 :: int"
abbreviation (input) "SnapshotMaxTTLSeconds \<equiv> 86400 :: int"
abbreviation (input) "ResponseMaxBytes \<equiv> 4194304 :: nat"

datatype read_authority_err =
    ErrUnsupportedVersion | ErrInvalidConsumer | ErrInvalidRequest | ErrInvalidRecord | ErrInvalidState
  | ErrInvalidCursor | ErrInvalidSignature

abbreviation "EntityUser \<equiv> ''user''"
abbreviation "EntityOrganisation \<equiv> ''organisation''"
abbreviation "EntityOrganisationMembership \<equiv> ''organisation_membership''"
abbreviation "EntityWorkspace \<equiv> ''workspace''"
abbreviation "EntityWorkspaceMembership \<equiv> ''workspace_membership''"
abbreviation "EntityProduct \<equiv> ''product''"
abbreviation "EntityOrganisationEntitlement \<equiv> ''organisation_product_entitlement''"
abbreviation "EntityUserProductAssignment \<equiv> ''user_product_assignment''"

definition allowedEntityKinds :: "string list" where
  "allowedEntityKinds =
     [EntityUser, EntityOrganisation, EntityOrganisationMembership, EntityWorkspace, EntityWorkspaceMembership,
      EntityProduct, EntityOrganisationEntitlement, EntityUserProductAssignment]"

abbreviation "ProvenanceEvent \<equiv> ''event''"
abbreviation "ProvenanceMigrationSeed \<equiv> ''migration_seed''"
abbreviation (input) "SourceSchemaVersion \<equiv> 1 :: int"
abbreviation "StatusActive \<equiv> ''active''"
abbreviation "StatusArchived \<equiv> ''archived''"
abbreviation "StatusRevoked \<equiv> ''revoked''"
abbreviation "StatusRetired \<equiv> ''retired''"

record SnapshotRequest =
  Srq_EntityKinds :: "string list"
  Srq_ExpiresInSeconds :: int

record Record =
  Rec_EntityKind :: string
  Rec_ID :: string
  Rec_Status :: string
  Rec_UserID :: string
  Rec_OrganisationID :: string
  Rec_WorkspaceID :: string
  Rec_ProductKey :: string
  Rec_Role :: string
  Rec_Name :: string
  Rec_ProvenanceKind :: string
  Rec_SourceEventID :: string
  Rec_SourceSequence :: int
  Rec_SourceSchemaVersion :: int
  Rec_MigrationVersion :: int
  Rec_MigrationName :: string
  Rec_MigrationChecksum :: string

definition zero_record :: Record where
  "zero_record =
     \<lparr>Rec_EntityKind = [], Rec_ID = [], Rec_Status = [], Rec_UserID = [], Rec_OrganisationID = [], Rec_WorkspaceID = [],
      Rec_ProductKey = [], Rec_Role = [], Rec_Name = [], Rec_ProvenanceKind = [], Rec_SourceEventID = [],
      Rec_SourceSequence = 0, Rec_SourceSchemaVersion = 0, Rec_MigrationVersion = 0, Rec_MigrationName = [],
      Rec_MigrationChecksum = []\<rparr>"

section \<open>Validation\<close>

definition ProductForConsumer :: "string \<Rightarrow> string option" where
  "ProductForConsumer consumer0 =
     (let consumer = TrimSpace consumer0 in
      if consumer = ConsumerCTRL then Some ProductCTRL else if consumer = ConsumerIMS then Some ProductIMS else None)"

definition ValidateVersion :: "string \<Rightarrow> read_authority_err + unit" where
  "ValidateVersion value =
     (if TrimSpace value = VersionV1 \<or> TrimSpace value = VersionV2 then Inr () else Inl ErrUnsupportedVersion)"

definition readauthority_ValidateConsumer :: "string \<Rightarrow> read_authority_err + unit" where
  "readauthority_ValidateConsumer value = (if ProductForConsumer value = None then Inl ErrInvalidConsumer else Inr ())"

definition ValidateEntityKind :: "string \<Rightarrow> read_authority_err + unit" where
  "ValidateEntityKind kind = (if kind \<in> set allowedEntityKinds then Inr () else Inl ErrInvalidRequest)"

definition ValidateSnapshotRequest :: "SnapshotRequest \<Rightarrow> read_authority_err + unit" where
  "ValidateSnapshotRequest r =
     (if Srq_EntityKinds r = [] \<or> length allowedEntityKinds < length (Srq_EntityKinds r) \<or>
         list_ex (\<lambda>k. ValidateEntityKind k \<noteq> Inr ()) (Srq_EntityKinds r) \<or> \<not> distinct (Srq_EntityKinds r) \<or>
         Srq_ExpiresInSeconds r \<le> 0 \<or> SnapshotMaxTTLSeconds < Srq_ExpiresInSeconds r
      then Inl ErrInvalidRequest else Inr ())"

definition hasPrefixID :: "string \<Rightarrow> string \<Rightarrow> bool" where
  "hasPrefixID value prefix \<longleftrightarrow> HasPrefix value prefix \<and> length prefix < length value"

definition statusAllowed :: "string \<Rightarrow> string list \<Rightarrow> bool" where
  "statusAllowed value allowed \<longleftrightarrow> value \<in> set allowed"

definition validRole :: "string \<Rightarrow> bool" where
  "validRole value \<longleftrightarrow> value = ''owner'' \<or> value = ''admin'' \<or> value = ''member'' \<or> value = ''viewer''"

definition readauthority_validProductKey :: "string \<Rightarrow> bool" where
  "readauthority_validProductKey value \<longleftrightarrow> value = ProductCTRL \<or> value = ProductIMS"

definition validName :: "string \<Rightarrow> bool" where
  "validName value \<longleftrightarrow> value \<noteq> [] \<and> length value \<le> 200"

definition isSHA256 :: "string \<Rightarrow> bool" where
  "isSHA256 value \<longleftrightarrow> length value = 64 \<and> list_all hex_char value"

definition relation_field :: "string \<Rightarrow> Record \<Rightarrow> string" where
  "relation_field k r =
     (if k = ''user_id'' then Rec_UserID r else if k = ''organisation_id'' then Rec_OrganisationID r
      else if k = ''workspace_id'' then Rec_WorkspaceID r else if k = ''product_key'' then Rec_ProductKey r
      else if k = ''role'' then Rec_Role r else if k = ''name'' then Rec_Name r else [])"

definition hasAny :: "Record \<Rightarrow> string list \<Rightarrow> bool" where
  "hasAny r names \<longleftrightarrow> list_ex (\<lambda>k. relation_field k r \<noteq> []) names"

definition hasMigrationProvenance :: "Record \<Rightarrow> bool" where
  "hasMigrationProvenance r \<longleftrightarrow> Rec_MigrationVersion r \<noteq> 0 \<or> Rec_MigrationName r \<noteq> [] \<or> Rec_MigrationChecksum r \<noteq> []"

definition validateEventProvenance :: "Record \<Rightarrow> read_authority_err + unit" where
  "validateEventProvenance r =
     (if Rec_SourceEventID r = [] \<or> \<not> HasPrefix (Rec_SourceEventID r) ''evt_'' \<or> Rec_SourceSequence r \<le> 0 \<or>
         Rec_SourceSchemaVersion r \<noteq> SourceSchemaVersion
      then Inl ErrInvalidRecord else Inr ())"

definition validateProvenance :: "string \<Rightarrow> Record \<Rightarrow> read_authority_err + unit" where
  "validateProvenance version r =
     (if version = VersionV1
      then if Rec_ProvenanceKind r \<noteq> [] \<and> Rec_ProvenanceKind r \<noteq> ProvenanceEvent then Inl ErrInvalidRecord
           else attempt (validateEventProvenance r) (\<lambda>_.
                if hasMigrationProvenance r then Inl ErrInvalidRecord else Inr ())
      else if Rec_ProvenanceKind r = ProvenanceEvent
      then if hasMigrationProvenance r then Inl ErrInvalidRecord else validateEventProvenance r
      else if Rec_ProvenanceKind r = ProvenanceMigrationSeed
      then if Rec_SourceEventID r \<noteq> [] \<or> Rec_SourceSequence r \<noteq> 0 \<or> Rec_SourceSchemaVersion r \<noteq> 0 then Inl ErrInvalidRecord
           else if Rec_MigrationVersion r \<le> 0 \<or> TrimSpace (Rec_MigrationName r) = [] \<or> 200 < length (Rec_MigrationName r) \<or>
                   \<not> isSHA256 (Rec_MigrationChecksum r) then Inl ErrInvalidRecord
           else Inr ()
      else Inl ErrInvalidRecord)"

definition invalid_fields :: "Record \<Rightarrow> bool" where
  "invalid_fields r =
     (let kind = Rec_EntityKind r; ident = Rec_ID r; status = Rec_Status r in
      if kind = EntityUser
      then \<not> hasPrefixID ident ''usr_'' \<or> \<not> statusAllowed status [StatusActive, StatusArchived] \<or>
           hasAny r [''organisation_id'', ''workspace_id'', ''product_key'', ''role'', ''name'', ''user_id'']
      else if kind = EntityOrganisation
      then \<not> hasPrefixID ident ''org_'' \<or> \<not> statusAllowed status [StatusActive, StatusArchived] \<or> \<not> validName (Rec_Name r) \<or>
           hasAny r [''user_id'', ''organisation_id'', ''workspace_id'', ''product_key'', ''role'']
      else if kind = EntityOrganisationMembership
      then \<not> hasPrefixID ident ''omem_'' \<or> \<not> hasPrefixID (Rec_UserID r) ''usr_'' \<or> \<not> hasPrefixID (Rec_OrganisationID r) ''org_'' \<or>
           \<not> validRole (Rec_Role r) \<or> \<not> statusAllowed status [StatusActive, StatusRevoked] \<or>
           hasAny r [''workspace_id'', ''product_key'', ''name'']
      else if kind = EntityWorkspace
      then \<not> hasPrefixID ident ''wsp_'' \<or> \<not> hasPrefixID (Rec_OrganisationID r) ''org_'' \<or>
           \<not> statusAllowed status [StatusActive, StatusArchived] \<or> \<not> validName (Rec_Name r) \<or>
           hasAny r [''user_id'', ''workspace_id'', ''product_key'', ''role'']
      else if kind = EntityWorkspaceMembership
      then \<not> hasPrefixID ident ''wmem_'' \<or> \<not> hasPrefixID (Rec_UserID r) ''usr_'' \<or> \<not> hasPrefixID (Rec_WorkspaceID r) ''wsp_'' \<or>
           \<not> validRole (Rec_Role r) \<or> \<not> statusAllowed status [StatusActive, StatusRevoked] \<or>
           hasAny r [''organisation_id'', ''product_key'', ''name'']
      else if kind = EntityProduct
      then \<not> hasPrefixID ident ''product.'' \<or> \<not> statusAllowed status [StatusActive, StatusRetired] \<or>
           hasAny r [''user_id'', ''organisation_id'', ''workspace_id'', ''product_key'', ''role'', ''name'']
      else if kind = EntityOrganisationEntitlement
      then \<not> hasPrefixID ident ''ent_'' \<or> \<not> hasPrefixID (Rec_OrganisationID r) ''org_'' \<or>
           \<not> readauthority_validProductKey (Rec_ProductKey r) \<or> \<not> statusAllowed status [StatusActive, StatusRevoked] \<or>
           hasAny r [''user_id'', ''workspace_id'', ''role'', ''name'']
      else if kind = EntityUserProductAssignment
      then \<not> hasPrefixID ident ''upa_'' \<or> \<not> hasPrefixID (Rec_UserID r) ''usr_'' \<or> \<not> hasPrefixID (Rec_OrganisationID r) ''org_'' \<or>
           \<not> readauthority_validProductKey (Rec_ProductKey r) \<or> \<not> statusAllowed status [StatusActive, StatusRevoked] \<or>
           hasAny r [''workspace_id'', ''role'', ''name'']
      else False)"

definition ValidateRecordVersion :: "string \<Rightarrow> Record \<Rightarrow> read_authority_err + unit" where
  "ValidateRecordVersion version r =
     (if ValidateVersion version \<noteq> Inr () \<or> ValidateEntityKind (Rec_EntityKind r) \<noteq> Inr () then Inl ErrInvalidRecord
      else attempt (validateProvenance version r) (\<lambda>_.
        if \<not> statusAllowed (Rec_Status r) [StatusActive, StatusArchived, StatusRevoked, StatusRetired] \<or>
           Rec_ID r = [] \<or> invalid_fields r
        then Inl ErrInvalidRecord else Inr ()))"

section \<open>Signed requests\<close>

definition validSHA256Hex :: "string \<Rightarrow> bool" where
  "validSHA256Hex value \<longleftrightarrow> length value = 64 \<and> map ascii_lower value = value \<and> list_all token_char value"

definition readauthority_ValidateKeyID :: "string \<Rightarrow> bool" where
  "readauthority_ValidateKeyID value \<longleftrightarrow> validToken (TrimSpace value) \<and> length (TrimSpace value) \<le> 128"

definition no_line_breaks :: "string \<Rightarrow> bool" where \<comment> \<open>\<^verbatim>\<open>!strings.ContainsAny(value, "\r\n")\<close>\<close>
  "no_line_breaks value \<longleftrightarrow> set value \<inter> {carriage_return, newline} = {}"

definition readauthority_CanonicalRequest ::
    "crypto \<Rightarrow> string \<Rightarrow> string \<Rightarrow> string \<Rightarrow> string \<Rightarrow> string \<Rightarrow> string \<Rightarrow> string \<Rightarrow> read_authority_err + string" where
  "readauthority_CanonicalRequest c method0 path0 bodyDigest0 consumer0 keyID0 timestamp0 nonce0 =
     (let method = TrimSpace method0; path = TrimSpace path0; bodyDigest = TrimSpace bodyDigest0;
          consumer = TrimSpace consumer0; keyID = TrimSpace keyID0; timestamp = TrimSpace timestamp0; nonce = TrimSpace nonce0 in
      if method = [] \<or> \<not> no_line_breaks method \<or> path = [] \<or> \<not> HasPrefix path ''/'' \<or> \<not> no_line_breaks path \<or>
         \<not> validToken consumer \<or> \<not> validToken keyID \<or> \<not> validToken timestamp \<or> \<not> validToken nonce \<or>
         NonceMaxLength < length nonce \<or> \<not> validSHA256Hex bodyDigest
      then Inl ErrInvalidSignature
      else Inr (join_lines [ToUpper (unicode_upper c) method, path, bodyDigest, consumer, keyID, timestamp, nonce]))"

section \<open>Cursors\<close>

definition SourceCursor :: "int \<Rightarrow> string" where
  "SourceCursor value = (if value < 0 then [] else ''cur_'' @ decimal (nat value))"

definition ParseSourceCursor :: "string \<Rightarrow> read_authority_err + int" where
  "ParseSourceCursor value0 =
     (let value = TrimSpace value0 in
      if \<not> HasPrefix value ''cur_'' \<or> length value \<le> 4 then Inl ErrInvalidCursor
      else case Atoi (drop 4 value) of
        None \<Rightarrow> Inl ErrInvalidCursor
      | Some parsed \<Rightarrow> if parsed < 0 then Inl ErrInvalidCursor else Inr parsed)"

section \<open>Records as JSON\<close>

definition int_omitempty :: "string \<Rightarrow> int \<Rightarrow> (string \<times> json) list" where
  "int_omitempty k n = (if n = 0 then [] else [(k, JInt n)])"

definition record_fields :: "Record \<Rightarrow> (string \<times> json) list" where
  "record_fields r =
     [(''entity_kind'', JStr (Rec_EntityKind r)), (''id'', JStr (Rec_ID r)), (''status'', JStr (Rec_Status r))] @
     omitempty ''user_id'' (Rec_UserID r) @ omitempty ''organisation_id'' (Rec_OrganisationID r) @
     omitempty ''workspace_id'' (Rec_WorkspaceID r) @ omitempty ''product_key'' (Rec_ProductKey r) @
     omitempty ''role'' (Rec_Role r) @ omitempty ''name'' (Rec_Name r) @
     omitempty ''provenance_kind'' (Rec_ProvenanceKind r) @ omitempty ''source_event_id'' (Rec_SourceEventID r) @
     int_omitempty ''source_sequence'' (Rec_SourceSequence r) @
     int_omitempty ''source_schema_version'' (Rec_SourceSchemaVersion r) @
     int_omitempty ''migration_version'' (Rec_MigrationVersion r) @ omitempty ''migration_name'' (Rec_MigrationName r) @
     omitempty ''migration_checksum'' (Rec_MigrationChecksum r)"

definition put_record :: "string \<Rightarrow> json \<Rightarrow> Record \<Rightarrow> Record option" where
  "put_record k v r =
     (if k = ''ENTITY_KIND'' then set_string Rec_EntityKind_update v r
      else if k = ''ID'' then set_string Rec_ID_update v r
      else if k = ''STATUS'' then set_string Rec_Status_update v r
      else if k = ''USER_ID'' then set_string Rec_UserID_update v r
      else if k = ''ORGANISATION_ID'' then set_string Rec_OrganisationID_update v r
      else if k = ''WORKSPACE_ID'' then set_string Rec_WorkspaceID_update v r
      else if k = ''PRODUCT_KEY'' then set_string Rec_ProductKey_update v r
      else if k = ''ROLE'' then set_string Rec_Role_update v r
      else if k = ''NAME'' then set_string Rec_Name_update v r
      else if k = ''PROVENANCE_KIND'' then set_string Rec_ProvenanceKind_update v r
      else if k = ''SOURCE_EVENT_ID'' then set_string Rec_SourceEventID_update v r
      else if k = ''SOURCE_SEQUENCE'' then set_int Rec_SourceSequence_update v r
      else if k = ''SOURCE_SCHEMA_VERSION'' then set_int Rec_SourceSchemaVersion_update v r
      else if k = ''MIGRATION_VERSION'' then set_int Rec_MigrationVersion_update v r
      else if k = ''MIGRATION_NAME'' then set_string Rec_MigrationName_update v r
      else if k = ''MIGRATION_CHECKSUM'' then set_string Rec_MigrationChecksum_update v r
      else None)"

definition RecordsChecksum :: "crypto \<Rightarrow> Record list \<Rightarrow> string" where
  "RecordsChecksum c records = hex_encode (sha256 c (Marshal (JArr (map (\<lambda>r. JObj (record_fields r)) records))))"

section \<open>Status codes\<close>

definition HTTPStatus :: "string \<Rightarrow> nat" where
  "HTTPStatus code =
     (if code = ''version_mismatch'' then 406 else if code = ''unauthenticated'' then 401
      else if code = ''forbidden'' then 403
      else if code \<in> set [''invalid_request'', ''limit_exceeded''] then 400
      else if code \<in> set [''stale'', ''gap'', ''blocked'', ''unavailable'', ''resync_required'', ''cursor_expired'',
                          ''snapshot_expired'', ''snapshot_incomplete'', ''checksum_mismatch'', ''conflict''] then 409
      else 500)"

section \<open>Cursors and records survive the wire\<close>

lemma Atoi_decimal: "int n < 2 ^ 63 \<Longrightarrow> Atoi (decimal n) = Some (int n)"
proof -
  assume n: "int n < 2 ^ 63"
  obtain d ds where d: "decimal n = d # ds" by (cases "decimal n") auto
  with decimal_digits [of n] have "d \<noteq> CHR ''+''" "d \<noteq> CHR ''-''" by (auto simp: is_digit_def byte_def)
  with d n digits_value_decimal [of n] show ?thesis by (simp add: Atoi_def ParseInt_def Let_def)
qed

lemma digits_graphic: "list_all is_digit s \<Longrightarrow> c \<in> set s \<Longrightarrow> graphic c"
  by (auto simp: list_all_iff is_digit_def graphic_def byte_def)

lemma source_cursor_roundtrip: "0 \<le> n \<Longrightarrow> n < 2 ^ 63 \<Longrightarrow> ParseSourceCursor (SourceCursor n) = Inr n"
proof -
  assume n: "0 \<le> n" "n < 2 ^ 63"
  let ?v = "''cur_'' @ decimal (nat n)"
  have "graphic (last ?v)"
    using digits_graphic [OF decimal_digits, of "last (decimal (nat n))" "nat n"] by simp
  then have "TrimSpace ?v = ?v" by (intro TrimSpace_graphic) (simp_all add: graphic_def)
  with n Atoi_decimal [of "nat n"] show ?thesis
    by (simp add: ParseSourceCursor_def SourceCursor_def Let_def HasPrefix_def)
qed

definition plain_record :: "Record \<Rightarrow> bool" where
  "plain_record r \<longleftrightarrow>
     list_all is_ascii [Rec_EntityKind r, Rec_ID r, Rec_Status r, Rec_UserID r, Rec_OrganisationID r, Rec_WorkspaceID r,
       Rec_ProductKey r, Rec_Role r, Rec_Name r, Rec_ProvenanceKind r, Rec_SourceEventID r, Rec_MigrationName r,
       Rec_MigrationChecksum r] \<and>
     list_all (\<lambda>n. - (2 ^ 63) \<le> n \<and> n < 2 ^ 63) [Rec_SourceSequence r, Rec_SourceSchemaVersion r, Rec_MigrationVersion r]"

lemma plain_fields_omitempty: "is_ascii k \<Longrightarrow> is_ascii s \<Longrightarrow> plain_fields (omitempty k s)"
  by (simp add: plain_fields_def plain_scalar_def omitempty_def)

lemma plain_fields_int: "is_ascii k \<Longrightarrow> plain_fields (int_omitempty k n)"
  by (auto simp: plain_fields_def plain_scalar_def int_omitempty_def)

lemma plain_fields_append: "plain_fields (fs @ gs) \<longleftrightarrow> plain_fields fs \<and> plain_fields gs"
  by (auto simp: plain_fields_def)

lemma plain_record_fields: "plain_record r \<Longrightarrow> plain_fields (record_fields r)"
proof -
  assume r: "plain_record r"
  then have "plain_fields [(''entity_kind'', JStr (Rec_EntityKind r)), (''id'', JStr (Rec_ID r)), (''status'', JStr (Rec_Status r))]"
    by (auto simp: plain_record_def plain_fields_def plain_scalar_def is_ascii_def)
  moreover have "is_ascii ''user_id''" "is_ascii ''organisation_id''" "is_ascii ''workspace_id''" "is_ascii ''product_key''"
    "is_ascii ''role''" "is_ascii ''name''" "is_ascii ''provenance_kind''" "is_ascii ''source_event_id''"
    "is_ascii ''source_sequence''" "is_ascii ''source_schema_version''" "is_ascii ''migration_version''"
    "is_ascii ''migration_name''" "is_ascii ''migration_checksum''"
    by (simp_all add: is_ascii_def)
  ultimately show ?thesis
    using r unfolding record_fields_def plain_fields_append
    by (simp add: plain_fields_omitempty plain_fields_int plain_record_def)
qed

lemma put_fields_append: "put_fields put (fs @ gs) r = Option.bind (put_fields put fs r) (put_fields put gs)"
  by (induction put fs r rule: put_fields.induct) (auto split: option.splits)

lemma put_omitempty:
  "put (foldName k) (JStr s) r = Some (upd (\<lambda>_. s) r) \<Longrightarrow> (s = [] \<Longrightarrow> upd (\<lambda>_. s) r = r) \<Longrightarrow>
   put_fields put (omitempty k s) r = Some (upd (\<lambda>_. s) r)"
  by (simp add: omitempty_def)

lemma put_int_omitempty:
  "put (foldName k) (JInt n) r = Some (upd (\<lambda>_. n) r) \<Longrightarrow> (n = 0 \<Longrightarrow> upd (\<lambda>_. n) r = r) \<Longrightarrow>
   put_fields put (int_omitempty k n) r = Some (upd (\<lambda>_. n) r)"
  by (simp add: int_omitempty_def)

lemma record_names:
  "foldName ''entity_kind'' = ''ENTITY_KIND''" "foldName ''id'' = ''ID''" "foldName ''status'' = ''STATUS''"
  "foldName ''user_id'' = ''USER_ID''" "foldName ''organisation_id'' = ''ORGANISATION_ID''"
  "foldName ''workspace_id'' = ''WORKSPACE_ID''" "foldName ''product_key'' = ''PRODUCT_KEY''" "foldName ''role'' = ''ROLE''"
  "foldName ''name'' = ''NAME''" "foldName ''provenance_kind'' = ''PROVENANCE_KIND''"
  "foldName ''source_event_id'' = ''SOURCE_EVENT_ID''" "foldName ''source_sequence'' = ''SOURCE_SEQUENCE''"
  "foldName ''source_schema_version'' = ''SOURCE_SCHEMA_VERSION''" "foldName ''migration_version'' = ''MIGRATION_VERSION''"
  "foldName ''migration_name'' = ''MIGRATION_NAME''" "foldName ''migration_checksum'' = ''MIGRATION_CHECKSUM''"
  by (simp_all add: foldName_ascii is_ascii_def ascii_upper_def char_of_def bit_0)

lemma put_record_fields:
  "Rec_UserID r = [] \<Longrightarrow> put_fields put_record (omitempty ''user_id'' s) r = Some (r\<lparr>Rec_UserID := s\<rparr>)"
  "Rec_OrganisationID r = [] \<Longrightarrow> put_fields put_record (omitempty ''organisation_id'' s) r = Some (r\<lparr>Rec_OrganisationID := s\<rparr>)"
  "Rec_WorkspaceID r = [] \<Longrightarrow> put_fields put_record (omitempty ''workspace_id'' s) r = Some (r\<lparr>Rec_WorkspaceID := s\<rparr>)"
  "Rec_ProductKey r = [] \<Longrightarrow> put_fields put_record (omitempty ''product_key'' s) r = Some (r\<lparr>Rec_ProductKey := s\<rparr>)"
  "Rec_Role r = [] \<Longrightarrow> put_fields put_record (omitempty ''role'' s) r = Some (r\<lparr>Rec_Role := s\<rparr>)"
  "Rec_Name r = [] \<Longrightarrow> put_fields put_record (omitempty ''name'' s) r = Some (r\<lparr>Rec_Name := s\<rparr>)"
  "Rec_ProvenanceKind r = [] \<Longrightarrow> put_fields put_record (omitempty ''provenance_kind'' s) r = Some (r\<lparr>Rec_ProvenanceKind := s\<rparr>)"
  "Rec_SourceEventID r = [] \<Longrightarrow> put_fields put_record (omitempty ''source_event_id'' s) r = Some (r\<lparr>Rec_SourceEventID := s\<rparr>)"
  "Rec_MigrationName r = [] \<Longrightarrow> put_fields put_record (omitempty ''migration_name'' s) r = Some (r\<lparr>Rec_MigrationName := s\<rparr>)"
  "Rec_MigrationChecksum r = [] \<Longrightarrow> put_fields put_record (omitempty ''migration_checksum'' s) r = Some (r\<lparr>Rec_MigrationChecksum := s\<rparr>)"
  by (rule put_omitempty; simp add: put_record_def record_names)+

lemma put_record_ints:
  assumes "- (2 ^ 63) \<le> n" "n < 2 ^ 63"
  shows "Rec_SourceSequence r = 0 \<Longrightarrow> put_fields put_record (int_omitempty ''source_sequence'' n) r = Some (r\<lparr>Rec_SourceSequence := n\<rparr>)"
    "Rec_SourceSchemaVersion r = 0 \<Longrightarrow>
       put_fields put_record (int_omitempty ''source_schema_version'' n) r = Some (r\<lparr>Rec_SourceSchemaVersion := n\<rparr>)"
    "Rec_MigrationVersion r = 0 \<Longrightarrow> put_fields put_record (int_omitempty ''migration_version'' n) r = Some (r\<lparr>Rec_MigrationVersion := n\<rparr>)"
  by (rule put_int_omitempty; simp add: put_record_def record_names ParseInt_JInt [OF assms])+

lemma decode_record:
  assumes "plain_record r"
  shows "decodeJSON put_record zero_record (Some (Marshal (JObj (record_fields r)))) = Some r"
proof -
  have "put_fields put_record (record_fields r) zero_record = Some r"
    using assms unfolding record_fields_def put_fields_append
    by (simp add: put_record_fields put_record_ints plain_record_def zero_record_def)
      (simp add: put_record_def record_names put_record_fields put_record_ints)
  with Unmarshal_Marshal [OF plain_record_fields [OF assms]] show ?thesis
    by (simp add: decodeJSON_def del: Marshal.simps)
qed

end
