(* ===== verification/Snapshot.thy ===== *)
theory Snapshot
  imports ReadContract Products
begin

text \<open>
  Snapshots of the read authority (\<^verbatim>\<open>internal/db/sqlite/platform_read_authority.go\<close>, types in
  \<^verbatim>\<open>internal/domain/platform_read_authority.go\<close>): one transaction turns the tables into an ordered,
  checksummed list of records; consumers read it back page by page until it expires. The two tables of
  migration 10 are a state of their own beside the database, which a snapshot only reads. The row of
  migration 6 in \<^verbatim>\<open>schema_migrations\<close> is an argument.
\<close>

section \<open>Tables\<close>

record snapshot_row =
  sn_snapshot_id :: string
  sn_consumer_key :: string
  sn_contract_version :: string
  sn_source_cursor :: string
  sn_checksum_algorithm :: string
  sn_checksum :: string
  sn_created_at :: gotime
  sn_expires_at :: gotime
  sn_record_count :: int
  sn_page_size :: int
  sn_complete :: bool
  sn_finalized_at :: "gotime option"

record snapshot_record_row =
  sr_snapshot_id :: string
  sr_ordinal :: int
  sr_entity_kind :: string
  sr_record_id :: string
  sr_record_hash :: string
  sr_record_json :: string

record snapshots =
  snapshot_rows :: "snapshot_row list"
  snapshot_record_rows :: "snapshot_record_row list"

definition insert_snapshot :: "snapshot_row \<Rightarrow> snapshots \<Rightarrow> snapshots result" where
  "insert_snapshot r sn =
     (if sql_length (sn_snapshot_id r) \<le> 5 \<or> \<not> HasPrefix (sn_snapshot_id r) ''snap_'' \<or>
         \<not> check_key 100 (sn_consumer_key r) \<or> sn_contract_version r \<noteq> VersionV2 \<or>
         sql_length (sn_source_cursor r) \<le> 4 \<or> \<not> HasPrefix (sn_source_cursor r) ''cur_'' \<or>
         sn_checksum_algorithm r \<noteq> ''sha256'' \<or> sql_length (sn_checksum r) \<noteq> 64 \<or>
         sn_record_count r < 0 \<or> 10000 < sn_record_count r \<or> sn_page_size r \<le> 0 \<or> 500 < sn_page_size r \<or>
         sn_complete r \<noteq> (sn_finalized_at r \<noteq> None) \<or> \<not> time_text_less (sn_created_at r) (sn_expires_at r)
      then Inl (ErrConstraint ''CHECK'')
      else if taken every sn_snapshot_id r (snapshot_rows sn)
      then Inl (ErrConstraint ''platform_read_authority_snapshots.snapshot_id'')
      else Inr (sn\<lparr>snapshot_rows := snapshot_rows sn @ [r]\<rparr>))"

definition insert_snapshot_record :: "snapshot_record_row \<Rightarrow> snapshots \<Rightarrow> snapshots result" where
  "insert_snapshot_record r sn =
     (if sr_ordinal r < 0 \<or> 10000 \<le> sr_ordinal r \<or> sql_length (sr_record_hash r) \<noteq> 64 \<or>
         sql_length (sr_record_json r) \<le> 1 \<or> 4096 < sql_length (sr_record_json r)
      then Inl (ErrConstraint ''CHECK'')
      else if \<not> list_ex (\<lambda>s. sn_snapshot_id s = sr_snapshot_id r) (snapshot_rows sn)
      then Inl (ErrConstraint ''FOREIGN KEY'')
      else if taken every (\<lambda>q. (sr_snapshot_id q, sr_ordinal q)) r (snapshot_record_rows sn) \<or>
              taken every (\<lambda>q. (sr_snapshot_id q, sr_entity_kind q, sr_record_id q)) r (snapshot_record_rows sn) \<or>
              taken every (\<lambda>q. (sr_snapshot_id q, sr_record_hash q)) r (snapshot_record_rows sn)
      then Inl (ErrConstraint ''UNIQUE'')
      else Inr (sn\<lparr>snapshot_record_rows := snapshot_record_rows sn @ [r]\<rparr>))"

definition finalize_snapshot :: "gotime \<Rightarrow> string \<Rightarrow> snapshots \<Rightarrow> snapshots" where
  "finalize_snapshot at ident sn =
     sn\<lparr>snapshot_rows := update_where (\<lambda>r. sn_snapshot_id r = ident \<and> \<not> sn_complete r)
          (\<lambda>r. r\<lparr>sn_complete := True, sn_finalized_at := Some at\<rparr>) (snapshot_rows sn)\<rparr>"

text \<open>Deleting a snapshot deletes its records (\<^verbatim>\<open>ON DELETE CASCADE\<close>).\<close>

definition delete_snapshots :: "string list \<Rightarrow> snapshots \<Rightarrow> snapshots" where
  "delete_snapshots idents sn =
     \<lparr>snapshot_rows = filter (\<lambda>r. sn_snapshot_id r \<notin> set idents) (snapshot_rows sn),
      snapshot_record_rows = filter (\<lambda>r. sr_snapshot_id r \<notin> set idents) (snapshot_record_rows sn)\<rparr>"

section \<open>Provenance\<close>

record readAuthorityMigrationSeed =
  Seed_Version :: int
  Seed_Name :: string
  Seed_Checksum :: string

record readAuthoritySourceEvent =
  Src_EventID :: string
  Src_EventType :: string
  Src_Sequence :: int
  Src_SchemaVersion :: int

text \<open>
  \<^verbatim>\<open>LIKE\<close> of SQLite: \<^verbatim>\<open>%\<close> stands for any characters, \<^verbatim>\<open>_\<close> for one, and the letters of
  ASCII match in either case. A character is a byte with the continuation bytes after it.
\<close>

definition next_char :: "string \<Rightarrow> string" where
  "next_char s = (if s \<noteq> [] \<and> 192 \<le> byte (hd s) then dropWhile (\<lambda>d. cont_byte (byte d)) (tl s) else tl s)"

lemma next_char_shorter: "s \<noteq> [] \<Longrightarrow> length (next_char s) < length s"
  by (cases s) (auto simp: next_char_def le_imp_less_Suc length_dropWhile_le)

function sql_like :: "string \<Rightarrow> string \<Rightarrow> bool" where
  "sql_like [] s = (s = [])"
| "sql_like (c # p) s =
     (if s = [] then c = CHR ''%'' \<and> sql_like p s
      else if c = CHR ''%'' then sql_like p s \<or> sql_like (c # p) (next_char s)
      else if c = CHR ''_'' then sql_like p (next_char s)
      else ascii_lower (hd s) = ascii_lower c \<and> sql_like p (tl s))"
  by pat_completeness auto
termination
  by (relation "measure (\<lambda>(p, s). length p + length s)")
    (auto simp: next_char_shorter less_SucI)

definition latestReadAuthoritySourceEventTx :: "string \<Rightarrow> string \<Rightarrow> string \<Rightarrow> string \<Rightarrow> db \<Rightarrow> readAuthoritySourceEvent option" where
  "latestReadAuthoritySourceEventTx aggregateType aggregateID payloadField payloadValue db =
     (case rev (sort_key ob_id (filter (\<lambda>r. ob_aggregate_type r = aggregateType \<and> ob_aggregate_id r = aggregateID \<and>
              (payloadField = [] \<or>
               sql_like (''%'' @ quote_char # payloadField @ [quote_char, CHR '':'', quote_char] @ payloadValue @ [quote_char, CHR ''%''])
                 (ob_payload r))) (platform_outbox db))) of
        [] \<Rightarrow> None
      | r # _ \<Rightarrow> Some \<lparr>Src_EventID = ob_event_id r, Src_EventType = ob_event_type r, Src_Sequence = ob_sequence r,
                       Src_SchemaVersion = ob_schema_version r\<rparr>)"

definition setReadAuthorityEventProvenance :: "readAuthoritySourceEvent \<Rightarrow> Record \<Rightarrow> Record" where
  "setReadAuthorityEventProvenance event r =
     r\<lparr>Rec_ProvenanceKind := ProvenanceEvent, Rec_SourceEventID := Src_EventID event,
       Rec_SourceSequence := Src_Sequence event, Rec_SourceSchemaVersion := Src_SchemaVersion event\<rparr>"

definition validated :: "Record \<Rightarrow> Record result" where
  "validated r = (if ValidateRecordVersion VersionV2 r = Inr () then Inr r else Inl (ErrNew ''validate snapshot record''))"

definition addEventProvenance :: "string \<Rightarrow> string \<Rightarrow> string \<Rightarrow> string \<Rightarrow> db \<Rightarrow> Record \<Rightarrow> Record result" where
  "addEventProvenance aggregateType aggregateID payloadField payloadValue db r =
     (case latestReadAuthoritySourceEventTx aggregateType aggregateID payloadField payloadValue db of
        None \<Rightarrow> Inl (ErrNew ''missing source provenance'')
      | Some event \<Rightarrow> validated (setReadAuthorityEventProvenance event r))"

section \<open>The records of each kind\<close>

definition snapshotActiveStatus :: "bool \<Rightarrow> string" where
  "snapshotActiveStatus active = (if active then StatusActive else StatusArchived)"

definition snapshotMembershipStatus :: "bool \<Rightarrow> string" where
  "snapshotMembershipStatus active = (if active then StatusActive else StatusRevoked)"

fun each_record :: "('v \<Rightarrow> Record result) \<Rightarrow> 'v list \<Rightarrow> Record list result" where
  "each_record f [] = Inr []"
| "each_record f (v # vs) = attempt (f v) (\<lambda>r. attempt (each_record f vs) (\<lambda>rs. Inr (r # rs)))"

text \<open>\<^verbatim>\<open>ORDER BY public_id LIMIT 10001\<close>, and one row too many is refused.\<close>

definition bounded_records :: "('v \<Rightarrow> string) \<Rightarrow> ('v \<Rightarrow> Record result) \<Rightarrow> 'v list \<Rightarrow> Record list result" where
  "bounded_records ident f rows =
     (let values = take 10001 (sort_key ident rows) in
      if SnapshotMaxRecords < length values then Inl (Store ErrInvalidReadAuthorityRequest) else each_record f values)"

definition user_record :: "user_row \<Rightarrow> Record" where
  "user_record u =
     zero_record\<lparr>Rec_EntityKind := EntityUser, Rec_ID := u_public_id u, Rec_Status := snapshotActiveStatus (u_active u)\<rparr>"

definition materializeUsersTx :: "db \<Rightarrow> Record list result" where
  "materializeUsersTx db =
     bounded_records u_public_id (\<lambda>u. addEventProvenance AggregateUser (u_public_id u) [] [] db (user_record u)) (users db)"

definition organisation_record :: "org_row \<Rightarrow> Record" where
  "organisation_record r =
     zero_record\<lparr>Rec_EntityKind := EntityOrganisation, Rec_ID := o_public_id r, Rec_Status := o_status r, Rec_Name := o_name r\<rparr>"

definition materializeOrganisationsTx :: "db \<Rightarrow> Record list result" where
  "materializeOrganisationsTx db =
     bounded_records o_public_id
       (\<lambda>r. addEventProvenance AggregateOrganisation (o_public_id r) [] [] db (organisation_record r)) (organisations db)"

definition membership_record :: "om_row \<Rightarrow> user_row \<Rightarrow> org_row \<Rightarrow> Record" where
  "membership_record m u r =
     zero_record\<lparr>Rec_EntityKind := EntityOrganisationMembership, Rec_ID := om_public_id m,
       Rec_Status := snapshotMembershipStatus (om_active m), Rec_UserID := u_public_id u,
       Rec_OrganisationID := o_public_id r, Rec_Role := om_role m\<rparr>"

definition materializeOrganisationMembershipsTx :: "db \<Rightarrow> Record list result" where
  "materializeOrganisationMembershipsTx db =
     bounded_records (\<lambda>(m, u, r). om_public_id m)
       (\<lambda>(m, u, r). addEventProvenance AggregateOrganisation (o_public_id r) ''membership_id'' (om_public_id m) db
          (membership_record m u r))
       [(m, u, r). m \<leftarrow> organisation_memberships db, u \<leftarrow> users db, u_id u = om_user_id m,
          r \<leftarrow> organisations db, o_id r = om_organisation_id m]"

definition workspace_record :: "ws_row \<Rightarrow> org_row \<Rightarrow> Record" where
  "workspace_record w r =
     zero_record\<lparr>Rec_EntityKind := EntityWorkspace, Rec_ID := w_public_id w, Rec_Status := w_status w,
       Rec_OrganisationID := o_public_id r, Rec_Name := w_name w\<rparr>"

definition materializeWorkspacesTx :: "db \<Rightarrow> Record list result" where
  "materializeWorkspacesTx db =
     bounded_records (\<lambda>(w, r). w_public_id w)
       (\<lambda>(w, r). addEventProvenance AggregateWorkspace (w_public_id w) [] [] db (workspace_record w r))
       [(w, r). w \<leftarrow> workspaces db, r \<leftarrow> organisations db, o_id r = w_organisation_id w]"

definition workspace_membership_record :: "wm_row \<Rightarrow> user_row \<Rightarrow> ws_row \<Rightarrow> Record" where
  "workspace_membership_record m u w =
     zero_record\<lparr>Rec_EntityKind := EntityWorkspaceMembership, Rec_ID := wm_public_id m,
       Rec_Status := snapshotMembershipStatus (wm_active m), Rec_UserID := u_public_id u,
       Rec_WorkspaceID := w_public_id w, Rec_Role := wm_role m\<rparr>"

definition materializeWorkspaceMembershipsTx :: "db \<Rightarrow> Record list result" where
  "materializeWorkspaceMembershipsTx db =
     bounded_records (\<lambda>(m, u, w). wm_public_id m)
       (\<lambda>(m, u, w). addEventProvenance AggregateWorkspace (w_public_id w) ''membership_id'' (wm_public_id m) db
          (workspace_membership_record m u w))
       [(m, u, w). m \<leftarrow> workspace_memberships db, u \<leftarrow> users db, u_id u = wm_user_id m,
          w \<leftarrow> workspaces db, w_id w = wm_workspace_id m]"

text \<open>A product has the provenance of its last event or, before any, of the migration that created it.\<close>

definition bare_product_record :: "product_row \<Rightarrow> Record" where
  "bare_product_record p = zero_record\<lparr>Rec_EntityKind := EntityProduct, Rec_ID := p_key p, Rec_Status := p_status p\<rparr>"

definition product_record :: "readAuthorityMigrationSeed \<Rightarrow> db \<Rightarrow> product_row \<Rightarrow> Record result" where
  "product_record seed db p =
     (let r = bare_product_record p in
      case latestReadAuthoritySourceEventTx AggregateProduct (p_key p) [] [] db of
        Some event \<Rightarrow> validated (setReadAuthorityEventProvenance event r)
      | None \<Rightarrow>
          if p_status p = ''active'' \<and> (p_key p = ProductCTRL \<or> p_key p = ProductIMS)
          then validated (r\<lparr>Rec_ProvenanceKind := ProvenanceMigrationSeed, Rec_MigrationVersion := Seed_Version seed,
                            Rec_MigrationName := Seed_Name seed, Rec_MigrationChecksum := Seed_Checksum seed\<rparr>)
          else Inl (ErrNew ''missing source provenance''))"

definition materializeProductsTx :: "readAuthorityMigrationSeed \<Rightarrow> db \<Rightarrow> Record list result" where
  "materializeProductsTx seed db = bounded_records p_key (product_record seed db) (products db)"

definition entitlement_record :: "ent_row \<Rightarrow> org_row \<Rightarrow> Record" where
  "entitlement_record x r =
     zero_record\<lparr>Rec_EntityKind := EntityOrganisationEntitlement, Rec_ID := ent_public_id x, Rec_Status := ent_status x,
       Rec_OrganisationID := o_public_id r, Rec_ProductKey := ent_product_key x\<rparr>"

definition materializeEntitlementsTx :: "db \<Rightarrow> Record list result" where
  "materializeEntitlementsTx db =
     bounded_records (\<lambda>(x, r). ent_public_id x)
       (\<lambda>(x, r). addEventProvenance AggregateAccess (ent_public_id x) ''entitlement_id'' (ent_public_id x) db
          (entitlement_record x r))
       [(x, r). x \<leftarrow> organisation_product_entitlements db, r \<leftarrow> organisations db, o_id r = ent_organisation_id x]"

definition assignment_record :: "upa_row \<Rightarrow> org_row \<Rightarrow> user_row \<Rightarrow> Record" where
  "assignment_record a r u =
     zero_record\<lparr>Rec_EntityKind := EntityUserProductAssignment, Rec_ID := upa_public_id a, Rec_Status := upa_status a,
       Rec_UserID := u_public_id u, Rec_OrganisationID := o_public_id r, Rec_ProductKey := upa_product_key a\<rparr>"

definition materializeAssignmentsTx :: "db \<Rightarrow> Record list result" where
  "materializeAssignmentsTx db =
     bounded_records (\<lambda>(a, r, u). upa_public_id a)
       (\<lambda>(a, r, u). addEventProvenance AggregateAccess (upa_public_id a) ''assignment_id'' (upa_public_id a) db
          (assignment_record a r u))
       [(a, r, u). a \<leftarrow> user_product_assignments db, r \<leftarrow> organisations db, o_id r = upa_organisation_id a,
          u \<leftarrow> users db, u_id u = upa_user_id a]"

definition readAuthorityKindRank :: "string \<Rightarrow> nat" where
  "readAuthorityKindRank kind = length (takeWhile (\<lambda>k. k \<noteq> kind) allowedEntityKinds)"

definition materialize_kind :: "readAuthorityMigrationSeed \<Rightarrow> db \<Rightarrow> string \<Rightarrow> Record list result" where
  "materialize_kind seed db kind =
     (if kind = EntityUser then materializeUsersTx db
      else if kind = EntityOrganisation then materializeOrganisationsTx db
      else if kind = EntityOrganisationMembership then materializeOrganisationMembershipsTx db
      else if kind = EntityWorkspace then materializeWorkspacesTx db
      else if kind = EntityWorkspaceMembership then materializeWorkspaceMembershipsTx db
      else if kind = EntityProduct then materializeProductsTx seed db
      else if kind = EntityOrganisationEntitlement then materializeEntitlementsTx db
      else if kind = EntityUserProductAssignment then materializeAssignmentsTx db
      else Inr [])"

fun collect_kinds :: "readAuthorityMigrationSeed \<Rightarrow> db \<Rightarrow> Record list \<Rightarrow> string list \<Rightarrow> Record list result" where
  "collect_kinds seed db records [] = Inr records"
| "collect_kinds seed db records (kind # kinds) =
     attempt (materialize_kind seed db kind) (\<lambda>values.
       if SnapshotMaxRecords < length (records @ values) then Inl (Store ErrInvalidReadAuthorityRequest)
       else collect_kinds seed db (records @ values) kinds)"

definition record_order :: "Record \<Rightarrow> nat \<times> string \<times> string \<times> string \<times> string \<times> string \<times> string" where
  "record_order r =
     (readAuthorityKindRank (Rec_EntityKind r), Rec_ID r, Rec_UserID r, Rec_OrganisationID r, Rec_WorkspaceID r,
      Rec_ProductKey r, Rec_Role r)"

definition materializeReadAuthorityRecordsTx :: "string list \<Rightarrow> readAuthorityMigrationSeed \<Rightarrow> db \<Rightarrow> Record list result" where
  "materializeReadAuthorityRecordsTx kinds seed db =
     attempt (collect_kinds seed db [] kinds) (\<lambda>records. Inr (sort_key record_order records))"

definition validateReadAuthorityKinds :: "string list \<Rightarrow> string list result" where
  "validateReadAuthorityKinds values =
     (let kinds = map TrimSpace values in
      if values = [] \<or> length allowedEntityKinds < length values \<or>
         list_ex (\<lambda>k. ValidateEntityKind k \<noteq> Inr ()) kinds \<or> \<not> distinct kinds
      then Inl (Store ErrInvalidReadAuthorityRequest)
      else Inr (filter (\<lambda>k. k \<in> set kinds) allowedEntityKinds))"

definition newReadAuthorityID :: "(nat \<Rightarrow> char) option \<Rightarrow> string result" where
  "newReadAuthorityID src = random_id ''snap_'' src"

definition readAuthoritySourceCursorTx :: "db \<Rightarrow> string" where
  "readAuthoritySourceCursorTx db = SourceCursor (max_cursor (platform_outbox db))"

section \<open>Creating\<close>

record ReadAuthoritySnapshot =
  Sn_Version :: string
  Sn_SnapshotID :: string
  Sn_Consumer :: string
  Sn_ContractVersion :: string
  Sn_SourceCursor :: string
  Sn_ChecksumAlgorithm :: string
  Sn_Checksum :: string
  Sn_CreatedAt :: gotime
  Sn_ExpiresAt :: gotime
  Sn_RecordCount :: int
  Sn_PageSize :: int
  Sn_Complete :: bool

definition record_text :: "Record \<Rightarrow> string" where \<comment> \<open>\<^verbatim>\<open>json.Marshal(record)\<close>\<close>
  "record_text r = Marshal (JObj (record_fields r))"

definition record_row :: "crypto \<Rightarrow> string \<Rightarrow> int \<Rightarrow> Record \<Rightarrow> snapshot_record_row" where
  "record_row c ident ordinal r =
     \<lparr>sr_snapshot_id = ident, sr_ordinal = ordinal, sr_entity_kind = Rec_EntityKind r, sr_record_id = Rec_ID r,
      sr_record_hash = BodyDigest c (record_text r), sr_record_json = record_text r\<rparr>"

fun store_records :: "crypto \<Rightarrow> string \<Rightarrow> int \<Rightarrow> Record list \<Rightarrow> snapshots \<Rightarrow> snapshots result" where
  "store_records c ident ordinal [] sn = Inr sn"
| "store_records c ident ordinal (r # rs) sn =
     attempt (insert_snapshot_record (record_row c ident ordinal r) sn) (store_records c ident (ordinal + 1) rs)"

definition createSnapshotTx :: "crypto \<Rightarrow> readAuthorityMigrationSeed option \<Rightarrow> string \<Rightarrow> string list \<Rightarrow> string \<Rightarrow> int \<Rightarrow> gotime \<Rightarrow> gotime \<Rightarrow>
    db \<Rightarrow> snapshots \<Rightarrow> (ReadAuthoritySnapshot \<times> snapshots) result" where
  "createSnapshotTx c seed consumer kinds snapshotID pageSize createdAt expiresAt db sn =
     attempt (need ErrNoRows seed) (\<lambda>seed.
     attempt (materializeReadAuthorityRecordsTx kinds seed db) (\<lambda>records.
       if SnapshotMaxRecords < length records then Inl (Store ErrInvalidReadAuthorityRequest)
       else let sourceCursor = readAuthoritySourceCursorTx db; checksum = RecordsChecksum c records in
         attempt (insert_snapshot \<lparr>sn_snapshot_id = snapshotID, sn_consumer_key = consumer, sn_contract_version = VersionV2,
             sn_source_cursor = sourceCursor, sn_checksum_algorithm = ''sha256'', sn_checksum = checksum,
             sn_created_at = createdAt, sn_expires_at = expiresAt, sn_record_count = int (length records),
             sn_page_size = pageSize, sn_complete = False, sn_finalized_at = None\<rparr> sn) (\<lambda>sn.
         attempt (store_records c snapshotID 0 records sn) (\<lambda>sn.
         Inr (\<lparr>Sn_Version = VersionV2, Sn_SnapshotID = snapshotID, Sn_Consumer = consumer, Sn_ContractVersion = VersionV2,
               Sn_SourceCursor = sourceCursor, Sn_ChecksumAlgorithm = ''sha256'', Sn_Checksum = checksum,
               Sn_CreatedAt = createdAt, Sn_ExpiresAt = expiresAt, Sn_RecordCount = int (length records),
               Sn_PageSize = pageSize, Sn_Complete = True\<rparr>, finalize_snapshot createdAt snapshotID sn)))))"

definition CreateReadAuthoritySnapshot :: "crypto \<Rightarrow> env \<Rightarrow> readAuthorityMigrationSeed option \<Rightarrow> string \<Rightarrow> string list \<Rightarrow> int \<Rightarrow> int \<Rightarrow> gotime \<Rightarrow>
    db \<Rightarrow> snapshots \<Rightarrow> ReadAuthoritySnapshot result \<times> snapshots" where
  "CreateReadAuthoritySnapshot c e seed consumer0 entityKinds ttl pageSize0 createdAt db sn =
     (let consumer = TrimSpace consumer0; pageSize = (if pageSize0 = 0 then SnapshotMaxPageSize else pageSize0) in
      prepare sn
       (if readauthority_ValidateConsumer consumer \<noteq> Inr () then Inl (Store ErrInvalidReadAuthorityConsumer)
        else if pageSize < 1 \<or> SnapshotMaxPageSize < pageSize \<or> ttl \<le> 0 \<or> seconds (24 * 60 * 60) < ttl \<or>
                ttl mod seconds 1 \<noteq> 0 \<or> IsZero createdAt
        then Inl (Store ErrInvalidReadAuthorityRequest)
        else attempt (validateReadAuthorityKinds entityKinds) (\<lambda>kinds.
             attempt (newReadAuthorityID (rand_read e 0)) (\<lambda>snapshotID. Inr (kinds, snapshotID))))
       (\<lambda>(kinds, snapshotID). with_tx e sn
          (createSnapshotTx c seed consumer kinds snapshotID pageSize createdAt (createdAt + ttl) db)))"

section \<open>Reading back\<close>

definition readReadAuthoritySnapshotMetadata :: "string \<Rightarrow> string \<Rightarrow> snapshots \<Rightarrow> ReadAuthoritySnapshot result" where
  "readReadAuthoritySnapshotMetadata consumer snapshotID sn =
     (case find (\<lambda>r. sn_consumer_key r = consumer \<and> sn_snapshot_id r = snapshotID) (snapshot_rows sn) of
        None \<Rightarrow> Inl (Store ErrReadAuthoritySnapshotNotFound)
      | Some r \<Rightarrow>
          if sn_finalized_at r = None then Inl (ErrNew ''read read-authority snapshot'')
          else if sn_contract_version r \<noteq> VersionV2 \<or> sn_checksum_algorithm r \<noteq> ''sha256'' \<or> sn_record_count r < 0 \<or>
                  int SnapshotMaxRecords < sn_record_count r \<or> sn_page_size r < 1 \<or> SnapshotMaxPageSize < sn_page_size r \<or>
                  IsZero (sn_created_at r) \<or> IsZero (sn_expires_at r) \<or> \<not> sn_created_at r < sn_expires_at r \<or>
                  isl (ParseSourceCursor (sn_source_cursor r))
          then Inl (Store ErrReadAuthorityChecksumMismatch)
          else Inr \<lparr>Sn_Version = sn_contract_version r, Sn_SnapshotID = sn_snapshot_id r, Sn_Consumer = sn_consumer_key r,
                    Sn_ContractVersion = sn_contract_version r, Sn_SourceCursor = sn_source_cursor r,
                    Sn_ChecksumAlgorithm = sn_checksum_algorithm r, Sn_Checksum = sn_checksum r,
                    Sn_CreatedAt = sn_created_at r, Sn_ExpiresAt = sn_expires_at r, Sn_RecordCount = sn_record_count r,
                    Sn_PageSize = sn_page_size r, Sn_Complete = sn_complete r\<rparr>)"

fun verify_records :: "crypto \<Rightarrow> int \<Rightarrow> snapshot_record_row list \<Rightarrow> Record list result" where
  "verify_records c wantOrdinal [] = Inr []"
| "verify_records c wantOrdinal (q # qs) =
     (if sr_ordinal q \<noteq> wantOrdinal then Inl (Store ErrReadAuthorityChecksumMismatch)
      else case decodeJSON put_record zero_record (Some (sr_record_json q)) of
        None \<Rightarrow> Inl (Store ErrReadAuthorityChecksumMismatch)
      | Some r \<Rightarrow>
          if ValidateRecordVersion VersionV2 r \<noteq> Inr () \<or> Rec_EntityKind r \<noteq> sr_entity_kind q \<or> Rec_ID r \<noteq> sr_record_id q \<or>
             BodyDigest c (sr_record_json q) \<noteq> sr_record_hash q \<or> int SnapshotMaxRecords < wantOrdinal + 1
          then Inl (Store ErrReadAuthorityChecksumMismatch)
          else attempt (verify_records c (wantOrdinal + 1) qs) (\<lambda>rs. Inr (r # rs)))"

definition readReadAuthoritySnapshotRecords :: "crypto \<Rightarrow> string \<Rightarrow> snapshots \<Rightarrow> Record list result" where
  "readReadAuthoritySnapshotRecords c snapshotID sn =
     verify_records c 0 (sort_key sr_ordinal (filter (\<lambda>r. sr_snapshot_id r = snapshotID) (snapshot_record_rows sn)))"

definition readAndVerifyReadAuthoritySnapshot :: "crypto \<Rightarrow> string \<Rightarrow> string \<Rightarrow> gotime \<Rightarrow> snapshots \<Rightarrow> (ReadAuthoritySnapshot \<times> Record list) result" where
  "readAndVerifyReadAuthoritySnapshot c consumer snapshotID at sn =
     attempt (readReadAuthoritySnapshotMetadata consumer snapshotID sn) (\<lambda>snapshot.
       if \<not> Sn_Complete snapshot then Inl (Store ErrReadAuthoritySnapshotIncomplete)
       else if \<not> at < Sn_ExpiresAt snapshot then Inl (Store ErrReadAuthoritySnapshotExpired)
       else attempt (readReadAuthoritySnapshotRecords c snapshotID sn) (\<lambda>records.
         if int (length records) \<noteq> Sn_RecordCount snapshot \<or> RecordsChecksum c records \<noteq> Sn_Checksum snapshot
         then Inl (Store ErrReadAuthorityChecksumMismatch) else Inr (snapshot, records)))"

definition GetReadAuthoritySnapshot :: "crypto \<Rightarrow> string \<Rightarrow> string \<Rightarrow> gotime \<Rightarrow> snapshots \<Rightarrow> ReadAuthoritySnapshot result" where
  "GetReadAuthoritySnapshot c consumer0 snapshotID at sn =
     (let consumer = TrimSpace consumer0 in
      if readauthority_ValidateConsumer consumer \<noteq> Inr () then Inl (Store ErrInvalidReadAuthorityConsumer)
      else if TrimSpace snapshotID = [] \<or> IsZero at then Inl (Store ErrInvalidReadAuthorityRequest)
      else attempt (readAndVerifyReadAuthoritySnapshot c consumer snapshotID at sn) (\<lambda>(snapshot, records).
        if int (length records) \<noteq> Sn_RecordCount snapshot then Inl (Store ErrReadAuthorityChecksumMismatch) else Inr snapshot))"

section \<open>Pages\<close>

record readAuthorityPageCursor =
  Cur_SnapshotID :: string
  Cur_Consumer :: string
  Cur_EntityKind :: string
  Cur_Ordinal :: int

definition encodeReadAuthorityPageCursor :: "ReadAuthoritySnapshot \<Rightarrow> string \<Rightarrow> int \<Rightarrow> string" where
  "encodeReadAuthorityPageCursor snapshot entityKind ordinal =
     ''page_'' @ RawURLEncoding (Marshal (JObj [(''snapshot_id'', JStr (Sn_SnapshotID snapshot)),
       (''consumer'', JStr (Sn_Consumer snapshot)), (''entity_kind'', JStr entityKind), (''ordinal'', JInt ordinal)]))"

text \<open>\<^verbatim>\<open>json.Unmarshal\<close> skips names the struct does not have.\<close>

definition put_cursor :: "string \<Rightarrow> json \<Rightarrow> readAuthorityPageCursor \<Rightarrow> readAuthorityPageCursor option" where
  "put_cursor k v r =
     (if k = ''SNAPSHOT_ID'' then set_string Cur_SnapshotID_update v r
      else if k = ''CONSUMER'' then set_string Cur_Consumer_update v r
      else if k = ''ENTITY_KIND'' then set_string Cur_EntityKind_update v r
      else if k = ''ORDINAL'' then set_int Cur_Ordinal_update v r
      else Some r)"

definition decodeReadAuthorityPageCursor :: "string \<Rightarrow> ReadAuthoritySnapshot \<Rightarrow> string \<Rightarrow> int result" where
  "decodeReadAuthorityPageCursor value snapshot entityKind =
     (if TrimSpace value = [] then Inr (- 1)
      else if \<not> HasPrefix value ''page_'' then Inl (Store ErrReadAuthorityCursorInvalid)
      else case Option.bind (RawURLDecode (drop 5 value)) (\<lambda>payload. decodeJSON put_cursor
             \<lparr>Cur_SnapshotID = [], Cur_Consumer = [], Cur_EntityKind = [], Cur_Ordinal = 0\<rparr> (Some payload)) of
        None \<Rightarrow> Inl (Store ErrReadAuthorityCursorInvalid)
      | Some cursor \<Rightarrow>
          if Cur_SnapshotID cursor \<noteq> Sn_SnapshotID snapshot \<or> Cur_Consumer cursor \<noteq> Sn_Consumer snapshot \<or>
             Cur_EntityKind cursor \<noteq> entityKind \<or> Cur_Ordinal cursor < 0 \<or> Sn_RecordCount snapshot \<le> Cur_Ordinal cursor
          then Inl (Store ErrReadAuthorityCursorInvalid) else Inr (Cur_Ordinal cursor))"

definition readAuthorityRecordToDomain :: "Record \<Rightarrow> Record" where \<comment> \<open>the domain's record has the same fields\<close>
  "readAuthorityRecordToDomain r =
     \<lparr>Rec_EntityKind = Rec_EntityKind r, Rec_ID = Rec_ID r, Rec_Status = Rec_Status r, Rec_UserID = Rec_UserID r,
      Rec_OrganisationID = Rec_OrganisationID r, Rec_WorkspaceID = Rec_WorkspaceID r, Rec_ProductKey = Rec_ProductKey r,
      Rec_Role = Rec_Role r, Rec_Name = Rec_Name r, Rec_ProvenanceKind = Rec_ProvenanceKind r,
      Rec_SourceEventID = Rec_SourceEventID r, Rec_SourceSequence = Rec_SourceSequence r,
      Rec_SourceSchemaVersion = Rec_SourceSchemaVersion r, Rec_MigrationVersion = Rec_MigrationVersion r,
      Rec_MigrationName = Rec_MigrationName r, Rec_MigrationChecksum = Rec_MigrationChecksum r\<rparr>"

record ReadAuthoritySnapshotPage =
  Pg_Snapshot :: ReadAuthoritySnapshot
  Pg_Records :: "Record list"
  Pg_NextCursor :: string
  Pg_Complete :: bool

definition wanted :: "string \<Rightarrow> Record \<Rightarrow> bool" where
  "wanted entityKind r \<longleftrightarrow> entityKind = [] \<or> Rec_EntityKind r = entityKind"

definition snapshot_page :: "ReadAuthoritySnapshot \<Rightarrow> string \<Rightarrow> int \<Rightarrow> nat \<Rightarrow> Record list \<Rightarrow> ReadAuthoritySnapshotPage" where
  "snapshot_page snapshot entityKind startOrdinal limit records =
     (let numbered = enumerate 0 records;
          selected = take limit (filter (\<lambda>(i, r). startOrdinal < int i \<and> wanted entityKind r) numbered);
          more = length selected = limit \<and>
                 list_ex (\<lambda>(i, r). fst (last selected) < i \<and> wanted entityKind r) numbered
      in \<lparr>Pg_Snapshot = snapshot, Pg_Records = map (readAuthorityRecordToDomain \<circ> snd) selected,
          Pg_NextCursor = (if more then encodeReadAuthorityPageCursor snapshot entityKind (int (fst (last selected))) else []),
          Pg_Complete = (\<not> more)\<rparr>)"

definition ListReadAuthoritySnapshotRecords :: "crypto \<Rightarrow> string \<Rightarrow> string \<Rightarrow> string \<Rightarrow> string \<Rightarrow> int \<Rightarrow> gotime \<Rightarrow> snapshots \<Rightarrow>
    ReadAuthoritySnapshotPage result" where
  "ListReadAuthoritySnapshotRecords c consumer0 snapshotID entityKind after limit at sn =
     (let consumer = TrimSpace consumer0 in
      if readauthority_ValidateConsumer consumer \<noteq> Inr () then Inl (Store ErrInvalidReadAuthorityConsumer)
      else if limit < 1 \<or> SnapshotMaxPageSize < limit \<or> TrimSpace snapshotID = [] \<or> IsZero at \<or>
              (entityKind \<noteq> [] \<and> ValidateEntityKind entityKind \<noteq> Inr ())
      then Inl (Store ErrInvalidReadAuthorityRequest)
      else attempt (readAndVerifyReadAuthoritySnapshot c consumer snapshotID at sn) (\<lambda>(snapshot, records).
           attempt (decodeReadAuthorityPageCursor after snapshot entityKind) (\<lambda>startOrdinal.
           Inr (snapshot_page snapshot entityKind startOrdinal (nat limit) records))))"

definition CleanupReadAuthoritySnapshots :: "string \<Rightarrow> gotime \<Rightarrow> int \<Rightarrow> snapshots \<Rightarrow> int result \<times> snapshots" where
  "CleanupReadAuthoritySnapshots consumer0 at limit sn =
     (let consumer = TrimSpace consumer0 in
      if readauthority_ValidateConsumer consumer \<noteq> Inr () then (Inl (Store ErrInvalidReadAuthorityConsumer), sn)
      else if IsZero at \<or> limit < 1 \<or> 1000 < limit then (Inl (Store ErrInvalidReadAuthorityRequest), sn)
      else let idents = take (nat limit) (map sn_snapshot_id (sort_key (\<lambda>r. (formatTime (sn_expires_at r), sn_snapshot_id r))
             (filter (\<lambda>r. sn_consumer_key r = consumer \<and> time_text_le (sn_expires_at r) at) (snapshot_rows sn))))
        in (Inr (int (count_where (\<lambda>r. sn_snapshot_id r \<in> set idents) (snapshot_rows sn))), delete_snapshots idents sn))"

section \<open>What a stored snapshot looks like\<close>

text \<open>Every record row belongs to a snapshot: the foreign key of the table.\<close>

definition snapshots_ok :: "snapshots \<Rightarrow> bool" where
  "snapshots_ok sn \<longleftrightarrow> sr_snapshot_id ` set (snapshot_record_rows sn) \<subseteq> sn_snapshot_id ` set (snapshot_rows sn)"

definition snapshot_row_of :: "ReadAuthoritySnapshot \<Rightarrow> snapshot_row" where
  "snapshot_row_of s =
     \<lparr>sn_snapshot_id = Sn_SnapshotID s, sn_consumer_key = Sn_Consumer s, sn_contract_version = Sn_ContractVersion s,
      sn_source_cursor = Sn_SourceCursor s, sn_checksum_algorithm = Sn_ChecksumAlgorithm s, sn_checksum = Sn_Checksum s,
      sn_created_at = Sn_CreatedAt s, sn_expires_at = Sn_ExpiresAt s, sn_record_count = Sn_RecordCount s,
      sn_page_size = Sn_PageSize s, sn_complete = Sn_Complete s, sn_finalized_at = Some (Sn_CreatedAt s)\<rparr>"

fun numbered_rows :: "crypto \<Rightarrow> string \<Rightarrow> int \<Rightarrow> Record list \<Rightarrow> snapshot_record_row list" where
  "numbered_rows c ident n [] = []"
| "numbered_rows c ident n (r # rs) = record_row c ident n r # numbered_rows c ident (n + 1) rs"

definition holds :: "crypto \<Rightarrow> ReadAuthoritySnapshot \<Rightarrow> Record list \<Rightarrow> snapshots \<Rightarrow> bool" where
  "holds c s records sn \<longleftrightarrow>
     filter (\<lambda>r. sn_snapshot_id r = Sn_SnapshotID s) (snapshot_rows sn) = [snapshot_row_of s] \<and>
     filter (\<lambda>r. sr_snapshot_id r = Sn_SnapshotID s) (snapshot_record_rows sn) = numbered_rows c (Sn_SnapshotID s) 0 records"

lemma numbered_rows_ids: "q \<in> set (numbered_rows c ident n rs) \<Longrightarrow> sr_snapshot_id q = ident \<and> n \<le> sr_ordinal q"
proof (induction rs arbitrary: n)
  case (Cons r rs)
  from Cons.IH [of "n + 1"] Cons.prems show ?case by (auto simp: record_row_def)
qed simp

lemma numbered_rows_filter:
  "filter (\<lambda>r. sr_snapshot_id r = i) (numbered_rows c ident n rs) = (if ident = i then numbered_rows c ident n rs else [])"
  by (auto simp: filter_empty_conv filter_id_conv dest: numbered_rows_ids)

lemma numbered_rows_sorted: "sort_key sr_ordinal (numbered_rows c ident n rs) = numbered_rows c ident n rs"
proof -
  have "sorted (map sr_ordinal (numbered_rows c ident n rs))"
  proof (induction rs arbitrary: n)
    case (Cons r rs)
    then show ?case using numbered_rows_ids [of _ c ident "n + 1" rs] by (fastforce simp: record_row_def)
  qed simp
  then show ?thesis by (rule sort_key_id_if_sorted)
qed

lemma store_records_rows:
  "store_records c ident n rs sn = Inr sn' \<Longrightarrow>
   snapshot_rows sn' = snapshot_rows sn \<and> snapshot_record_rows sn' = snapshot_record_rows sn @ numbered_rows c ident n rs"
proof (induction rs arbitrary: n sn)
  case (Cons r rs)
  then show ?case by (auto simp: tx_simps insert_snapshot_record_def)
qed simp

lemma created:
  assumes "CreateReadAuthoritySnapshot c e seed consumer kinds ttl pageSize createdAt db sn = (Inr s, sn')"
  obtains ks sd records where "validateReadAuthorityKinds kinds = Inr ks" "seed = Some sd"
    "materializeReadAuthorityRecordsTx ks sd db = Inr records" "length records \<le> 10000"
    "snapshot_rows sn' = snapshot_rows sn @ [snapshot_row_of s]"
    "snapshot_record_rows sn' = snapshot_record_rows sn @ numbered_rows c (Sn_SnapshotID s) 0 records"
    "Sn_SnapshotID s \<notin> sn_snapshot_id ` set (snapshot_rows sn)" "newReadAuthorityID (rand_read e 0) = Inr (Sn_SnapshotID s)"
    "s = \<lparr>Sn_Version = VersionV2, Sn_SnapshotID = Sn_SnapshotID s, Sn_Consumer = TrimSpace consumer,
          Sn_ContractVersion = VersionV2, Sn_SourceCursor = readAuthoritySourceCursorTx db, Sn_ChecksumAlgorithm = ''sha256'',
          Sn_Checksum = RecordsChecksum c records, Sn_CreatedAt = createdAt, Sn_ExpiresAt = createdAt + ttl,
          Sn_RecordCount = int (length records), Sn_PageSize = Sn_PageSize s, Sn_Complete = True\<rparr>"
    "1 \<le> Sn_PageSize s" "Sn_PageSize s \<le> 500" "0 < ttl" "\<not> IsZero createdAt"
    "readauthority_ValidateConsumer (TrimSpace consumer) = Inr ()"
proof -
  let ?page = "if pageSize = 0 then SnapshotMaxPageSize else pageSize"
  from assms obtain ks ident sd records sn1 sn2 where a:
      "readauthority_ValidateConsumer (TrimSpace consumer) = Inr ()" "1 \<le> ?page" "?page \<le> 500" "0 < ttl" "\<not> IsZero createdAt"
      "validateReadAuthorityKinds kinds = Inr ks" "newReadAuthorityID (rand_read e 0) = Inr ident" "seed = Some sd"
      "materializeReadAuthorityRecordsTx ks sd db = Inr records" "length records \<le> 10000"
      "insert_snapshot \<lparr>sn_snapshot_id = ident, sn_consumer_key = TrimSpace consumer, sn_contract_version = VersionV2,
             sn_source_cursor = readAuthoritySourceCursorTx db, sn_checksum_algorithm = ''sha256'',
             sn_checksum = RecordsChecksum c records,
             sn_created_at = createdAt, sn_expires_at = createdAt + ttl, sn_record_count = int (length records),
             sn_page_size = ?page, sn_complete = False, sn_finalized_at = None\<rparr> sn = Inr sn1"
      "store_records c ident 0 records sn1 = Inr sn2" "sn' = finalize_snapshot createdAt ident sn2"
      "s = \<lparr>Sn_Version = VersionV2, Sn_SnapshotID = ident, Sn_Consumer = TrimSpace consumer, Sn_ContractVersion = VersionV2,
               Sn_SourceCursor = readAuthoritySourceCursorTx db, Sn_ChecksumAlgorithm = ''sha256'',
               Sn_Checksum = RecordsChecksum c records,
               Sn_CreatedAt = createdAt, Sn_ExpiresAt = createdAt + ttl, Sn_RecordCount = int (length records),
               Sn_PageSize = ?page, Sn_Complete = True\<rparr>"
    by (auto simp: CreateReadAuthoritySnapshot_def createSnapshotTx_def Let_def tx_simps not_less not_le
        split: prod.splits)
  have fresh: "ident \<notin> sn_snapshot_id ` set (snapshot_rows sn)"
    using a(11) by (auto simp: insert_snapshot_def taken_def list_ex_iff split: if_splits)
  have "snapshot_rows sn' = snapshot_rows sn @ [snapshot_row_of s]"
    using a(11,13,14) store_records_rows [OF a(12)] fresh
    by (auto simp: insert_snapshot_def finalize_snapshot_def update_where_def snapshot_row_of_def split: if_splits
        intro!: map_idI)
  moreover have "snapshot_record_rows sn' = snapshot_record_rows sn @ numbered_rows c ident 0 records"
    using a(11,13) store_records_rows [OF a(12)] by (auto simp: insert_snapshot_def finalize_snapshot_def split: if_splits)
  ultimately show ?thesis using that [OF a(6,8,9,10)] a fresh by simp
qed

lemma create_failed: "CreateReadAuthoritySnapshot c e seed consumer kinds ttl pageSize createdAt db sn = (Inl x, sn') \<Longrightarrow> sn' = sn"
  unfolding CreateReadAuthoritySnapshot_def Let_def by (erule prepare_Inl) (auto dest: with_tx_Inl split: prod.splits)

lemma created_holds:
  assumes "snapshot_rows sn' = snapshot_rows sn @ [snapshot_row_of s]"
    and "snapshot_record_rows sn' = snapshot_record_rows sn @ numbered_rows c (Sn_SnapshotID s) 0 records"
    and "Sn_SnapshotID s \<notin> sn_snapshot_id ` set (snapshot_rows sn)" and "snapshots_ok sn"
  shows "holds c s records sn'"
proof -
  from assms(3,4) have "Sn_SnapshotID s \<notin> sr_snapshot_id ` set (snapshot_record_rows sn)"
    by (auto simp: snapshots_ok_def)
  then have "filter (\<lambda>r. sr_snapshot_id r = Sn_SnapshotID s) (snapshot_record_rows sn) = []"
    by (auto simp: filter_empty_conv image_iff)
  moreover have "filter (\<lambda>r. sn_snapshot_id r = Sn_SnapshotID s) (snapshot_rows sn) = []"
    using assms(3) by (auto simp: filter_empty_conv image_iff)
  ultimately show ?thesis
    by (simp add: holds_def assms(1,2) numbered_rows_filter) (simp add: snapshot_row_of_def)
qed

section \<open>Later operations leave a snapshot alone until it expires\<close>

text \<open>
  What may happen to the tables after an instant of creation: more snapshots are created, successfully or
  not, and expired ones are cleaned up, at instants up to the second of \<open>t\<close>.
\<close>

inductive later :: "crypto \<Rightarrow> gotime \<Rightarrow> snapshots \<Rightarrow> snapshots \<Rightarrow> bool" for c t where
  later_refl: "later c t sn sn"
| later_create: "later c t sn sn' \<Longrightarrow>
    later c t sn (snd (CreateReadAuthoritySnapshot c e seed consumer kinds ttl pageSize createdAt db sn'))"
| later_cleanup: "later c t sn sn' \<Longrightarrow> plain_time at \<Longrightarrow> Unix at \<le> Unix t \<Longrightarrow>
    later c t sn (snd (CleanupReadAuthoritySnapshots consumer at limit sn'))"

lemma holds_row: "holds c s records sn \<Longrightarrow> r \<in> set (snapshot_rows sn) \<Longrightarrow> sn_snapshot_id r = Sn_SnapshotID s \<Longrightarrow> r = snapshot_row_of s"
proof -
  assume "holds c s records sn" "r \<in> set (snapshot_rows sn)" "sn_snapshot_id r = Sn_SnapshotID s"
  then have "r \<in> set (filter (\<lambda>r. sn_snapshot_id r = Sn_SnapshotID s) (snapshot_rows sn))" by simp
  also have "\<dots> = {snapshot_row_of s}" using \<open>holds c s records sn\<close> by (simp add: holds_def)
  finally show ?thesis by simp
qed

lemma holds_present: "holds c s records sn \<Longrightarrow> Sn_SnapshotID s \<in> sn_snapshot_id ` set (snapshot_rows sn)"
  unfolding holds_def by (metis (mono_tags, lifting) filter_eq_Cons_iff image_eqI in_set_conv_decomp)

lemma create_keeps:
  assumes "holds c s records sn"
  shows "holds c s records (snd (CreateReadAuthoritySnapshot c e seed consumer kinds ttl pageSize createdAt db sn))"
proof (cases "CreateReadAuthoritySnapshot c e seed consumer kinds ttl pageSize createdAt db sn")
  case (Pair v sn')
  show ?thesis
  proof (cases v)
    case (Inl x)
    with assms create_failed Pair show ?thesis by fastforce
  next
    case (Inr s')
    with Pair created obtain records' where rows: "snapshot_rows sn' = snapshot_rows sn @ [snapshot_row_of s']"
        "snapshot_record_rows sn' = snapshot_record_rows sn @ numbered_rows c (Sn_SnapshotID s') 0 records'"
        "Sn_SnapshotID s' \<notin> sn_snapshot_id ` set (snapshot_rows sn)"
      by metis
    with holds_present [OF assms] have "Sn_SnapshotID s' \<noteq> Sn_SnapshotID s" by metis
    with rows(1,2) assms Pair show ?thesis
      by (simp add: holds_def numbered_rows_filter) (simp add: snapshot_row_of_def)
  qed
qed

lemma cleanup_keeps:
  assumes "holds c s records sn" "plain_time at" "plain_time (Sn_ExpiresAt s)" "Unix at < Unix (Sn_ExpiresAt s)"
  shows "holds c s records (snd (CleanupReadAuthoritySnapshots consumer at limit sn))"
proof -
  have live: "\<not> time_text_le (Sn_ExpiresAt s) at"
    using time_text_less_seconds [OF assms(2,3,4)] by (simp add: time_text_le_not_less)
  have "holds c s records (delete_snapshots (take k (map sn_snapshot_id (sort_key f
      (filter (\<lambda>r. sn_consumer_key r = consumer' \<and> time_text_le (sn_expires_at r) at) (snapshot_rows sn))))) sn)"
    for k consumer' and f :: "snapshot_row \<Rightarrow> string \<times> string"
  proof -
    let ?idents = "take k (map sn_snapshot_id (sort_key f
      (filter (\<lambda>r. sn_consumer_key r = consumer' \<and> time_text_le (sn_expires_at r) at) (snapshot_rows sn))))"
    have "Sn_SnapshotID s \<notin> set ?idents"
    proof
      assume "Sn_SnapshotID s \<in> set ?idents"
      then have "Sn_SnapshotID s \<in> sn_snapshot_id ` {r \<in> set (snapshot_rows sn). time_text_le (sn_expires_at r) at}"
        by (auto dest!: in_set_takeD)
      then obtain x where x: "x \<in> set (snapshot_rows sn)" "sn_snapshot_id x = Sn_SnapshotID s" "time_text_le (sn_expires_at x) at"
        by auto
      from holds_row [OF assms(1) x(1,2)] x(3) live show False by (simp add: snapshot_row_of_def)
    qed
    then have "filter (\<lambda>r. sn_snapshot_id r = Sn_SnapshotID s) (snapshot_rows (delete_snapshots ?idents sn)) =
        filter (\<lambda>r. sn_snapshot_id r = Sn_SnapshotID s) (snapshot_rows sn)"
      "filter (\<lambda>r. sr_snapshot_id r = Sn_SnapshotID s) (snapshot_record_rows (delete_snapshots ?idents sn)) =
        filter (\<lambda>r. sr_snapshot_id r = Sn_SnapshotID s) (snapshot_record_rows sn)"
      by (auto simp: delete_snapshots_def intro!: filter_cong)
    with assms(1) show ?thesis by (simp add: holds_def)
  qed
  with assms(1) show ?thesis by (simp add: CleanupReadAuthoritySnapshots_def Let_def)
qed

lemma later_holds:
  assumes "later c t sn sn'" "holds c s records sn" "plain_time (Sn_ExpiresAt s)" "Unix t < Unix (Sn_ExpiresAt s)"
  shows "holds c s records sn'"
  using assms by induction (auto intro: create_keeps cleanup_keeps)

section \<open>Reading a snapshot back\<close>

lemma each_record_valid:
  assumes "\<And>v r. f v = Inr r \<Longrightarrow> ValidateRecordVersion VersionV2 r = Inr ()"
  shows "each_record f vs = Inr rs \<Longrightarrow> \<forall>r \<in> set rs. ValidateRecordVersion VersionV2 r = Inr ()"
  using assms by (induction vs arbitrary: rs) (auto simp: tx_simps)

lemma bounded_records_valid:
  assumes "\<And>v r. f v = Inr r \<Longrightarrow> ValidateRecordVersion VersionV2 r = Inr ()"
  shows "bounded_records ident f vs = Inr rs \<Longrightarrow> \<forall>r \<in> set rs. ValidateRecordVersion VersionV2 r = Inr ()"
  unfolding bounded_records_def Let_def using each_record_valid [of f, OF assms] by (auto split: if_splits)

lemma addEventProvenance_valid: "addEventProvenance t i k v db r = Inr r' \<Longrightarrow> ValidateRecordVersion VersionV2 r' = Inr ()"
  by (auto simp: addEventProvenance_def validated_def split: option.splits if_splits)

lemma materialize_kind_valid:
  "materialize_kind seed db kind = Inr rs \<Longrightarrow> \<forall>r \<in> set rs. ValidateRecordVersion VersionV2 r = Inr ()"
  unfolding materialize_kind_def materializeUsersTx_def materializeOrganisationsTx_def materializeOrganisationMembershipsTx_def
    materializeWorkspacesTx_def materializeWorkspaceMembershipsTx_def materializeProductsTx_def materializeEntitlementsTx_def
    materializeAssignmentsTx_def
  by (auto split: if_splits dest!: bounded_records_valid [rotated] dest: addEventProvenance_valid
      simp: product_record_def validated_def Let_def split: option.splits prod.splits)

lemma collect_kinds_valid:
  "collect_kinds seed db records kinds = Inr rs \<Longrightarrow> \<forall>r \<in> set records. ValidateRecordVersion VersionV2 r = Inr () \<Longrightarrow>
   \<forall>r \<in> set rs. ValidateRecordVersion VersionV2 r = Inr ()"
proof (induction seed db records kinds rule: collect_kinds.induct)
  case (2 seed db records kind kinds)
  then obtain vs where v: "materialize_kind seed db kind = Inr vs" "\<not> 10000 < length (records @ vs)"
      "collect_kinds seed db (records @ vs) kinds = Inr rs"
    by (auto simp: tx_simps)
  from "2.IH" [OF v(2,3)] "2.prems"(2) materialize_kind_valid [OF v(1)] show ?case by auto
qed simp

lemma materialized_valid:
  "materializeReadAuthorityRecordsTx kinds seed db = Inr records \<Longrightarrow> \<forall>r \<in> set records. ValidateRecordVersion VersionV2 r = Inr ()"
  by (auto simp: materializeReadAuthorityRecordsTx_def tx_simps dest!: collect_kinds_valid)

lemma verify_numbered:
  assumes "\<forall>r \<in> set rs. plain_record r \<and> ValidateRecordVersion VersionV2 r = Inr ()" "n + int (length rs) \<le> 10000"
  shows "verify_records c n (numbered_rows c ident n rs) = Inr rs"
  using assms
proof (induction rs arbitrary: n)
  case (Cons r rs)
  from Cons.IH [of "n + 1"] Cons.prems decode_record [of r] show ?case
    by (simp add: record_row_def record_text_def)
qed simp

lemma find_and: "find (\<lambda>x. P x \<and> Q x) xs = find P (filter Q xs)"
  by (induction xs) auto

text \<open>What the service promises of a snapshot it has created.\<close>

definition sound_snapshot :: "crypto \<Rightarrow> ReadAuthoritySnapshot \<Rightarrow> Record list \<Rightarrow> bool" where
  "sound_snapshot c s records \<longleftrightarrow>
     Sn_Version s = VersionV2 \<and> Sn_ContractVersion s = VersionV2 \<and> Sn_ChecksumAlgorithm s = ''sha256'' \<and> Sn_Complete s \<and>
     Sn_RecordCount s = int (length records) \<and> length records \<le> 10000 \<and> Sn_Checksum s = RecordsChecksum c records \<and>
     1 \<le> Sn_PageSize s \<and> Sn_PageSize s \<le> 500 \<and> \<not> IsZero (Sn_CreatedAt s) \<and> \<not> IsZero (Sn_ExpiresAt s) \<and>
     Sn_CreatedAt s < Sn_ExpiresAt s \<and> \<not> isl (ParseSourceCursor (Sn_SourceCursor s)) \<and>
     (\<forall>r \<in> set records. plain_record r \<and> ValidateRecordVersion VersionV2 r = Inr ())"

lemma read_back:
  assumes "holds c s records sn" "sound_snapshot c s records" "at < Sn_ExpiresAt s"
  shows "readAndVerifyReadAuthoritySnapshot c (Sn_Consumer s) (Sn_SnapshotID s) at sn = Inr (s, records)"
proof -
  have "readReadAuthoritySnapshotMetadata (Sn_Consumer s) (Sn_SnapshotID s) sn = Inr s"
    using assms(1,2)
    by (simp add: readReadAuthoritySnapshotMetadata_def find_and holds_def snapshot_row_of_def sound_snapshot_def)
  moreover have "readReadAuthoritySnapshotRecords c (Sn_SnapshotID s) sn = Inr records"
    using assms(1,2)
    by (simp add: readReadAuthoritySnapshotRecords_def holds_def numbered_rows_sorted sound_snapshot_def verify_numbered)
  ultimately show ?thesis
    using assms(2,3) by (simp add: readAndVerifyReadAuthoritySnapshot_def sound_snapshot_def)
qed

lemma random_id_plain: "random_id p src = Inr x \<Longrightarrow> list_all plain_char p \<Longrightarrow> list_all plain_char x"
  using b64_char_plain(1) by (auto simp: random_id_def list_all_iff split: option.splits dest!: RawURLEncoding_chars)

lemma b64_graphic: "graphic (b64_char n)"
  using b64_value_char [of n] by (auto simp: b64_value_def graphic_def byte_def Let_def split: if_splits)

lemma page_cursor_names:
  "foldName ''snapshot_id'' = ''SNAPSHOT_ID''" "foldName ''consumer'' = ''CONSUMER''" "foldName ''ordinal'' = ''ORDINAL''"
  by (simp_all add: foldName_ascii is_ascii_def ascii_upper_def char_of_def bit_0)

lemma page_cursor_roundtrip:
  assumes "is_ascii (Sn_SnapshotID s)" "is_ascii (Sn_Consumer s)" "is_ascii kind" "0 \<le> n" "n < Sn_RecordCount s"
    "Sn_RecordCount s \<le> 10000"
  shows "decodeReadAuthorityPageCursor (encodeReadAuthorityPageCursor s kind n) s kind = Inr n"
proof -
  let ?fs = "[(''snapshot_id'', JStr (Sn_SnapshotID s)), (''consumer'', JStr (Sn_Consumer s)), (''entity_kind'', JStr kind),
    (''ordinal'', JInt n)]"
  let ?v = "''page_'' @ RawURLEncoding (Marshal (JObj ?fs))"
  have "plain_fields ?fs" using assms(1-3) by (auto simp: plain_fields_def plain_scalar_def is_ascii_def)
  note wire = Unmarshal_Marshal [OF this]
  have n: "- (2 ^ 63) \<le> n" "n < 2 ^ 63" using assms(4-6) by simp_all
  have "graphic c" if "c \<in> set ?v" for c
  proof -
    from that consider "c \<in> set ''page_''" | "\<exists>n. c = b64_char n" by (auto dest: RawURLEncoding_chars)
    then show ?thesis using b64_graphic by cases (auto simp: graphic_def)
  qed
  then have "graphic (hd ?v)" "graphic (last ?v)" by (auto simp: graphic_def)
  then have "TrimSpace ?v = ?v" by (intro TrimSpace_graphic) simp_all
  then show ?thesis
    using assms wire
    by (simp add: decodeReadAuthorityPageCursor_def encodeReadAuthorityPageCursor_def HasPrefix_def decodeJSON_def
        put_cursor_def page_cursor_names record_names ParseInt_JInt [OF n] del: Marshal.simps)
qed

section \<open>Walking through the pages\<close>

text \<open>The records a consumer collects by following the cursors from the first page to the last.\<close>

fun walk :: "nat \<Rightarrow> crypto \<Rightarrow> string \<Rightarrow> string \<Rightarrow> string \<Rightarrow> int \<Rightarrow> (nat \<Rightarrow> gotime) \<Rightarrow> snapshots \<Rightarrow> string \<Rightarrow> Record list option" where
  "walk 0 c consumer ident kind limit at sn after = None"
| "walk (Suc fuel) c consumer ident kind limit at sn after =
     (case ListReadAuthoritySnapshotRecords c consumer ident kind after limit (at fuel) sn of
        Inl _ \<Rightarrow> None
      | Inr page \<Rightarrow>
          if Pg_Complete page then Some (Pg_Records page)
          else map_option ((@) (Pg_Records page)) (walk fuel c consumer ident kind limit at sn (Pg_NextCursor page)))"

definition rest :: "string \<Rightarrow> int \<Rightarrow> Record list \<Rightarrow> (nat \<times> Record) list" where
  "rest kind start records = filter (\<lambda>(i, r). start < int i \<and> wanted kind r) (enumerate 0 records)"

lemma rest_sorted: "sorted_wrt (<) (map fst (rest kind start records))"
proof -
  have "sorted_wrt (<) (map fst (enumerate 0 records))" by (simp add: map_fst_enumerate)
  then show ?thesis unfolding rest_def sorted_wrt_map by (rule sorted_wrt_filter)
qed

lemma rest_from_start: "map snd (rest kind (- 1) records) = filter (wanted kind) records"
proof -
  have "rest kind (- 1) records = filter (wanted kind \<circ> snd) (enumerate 0 records)"
    by (auto simp: rest_def split_def intro: filter_cong)
  then show ?thesis by (metis filter_map map_snd_enumerate)
qed

lemma rest_index: "(i, r) \<in> set (rest kind start records) \<Longrightarrow> i < length records"
  by (auto simp: rest_def in_set_enumerate_eq)

lemma rest_after:
  assumes "0 < k" "k \<le> length (rest kind start records)"
  shows "rest kind (int (fst (last (take k (rest kind start records))))) records = drop k (rest kind start records)"
proof -
  let ?xs = "rest kind start records" and ?o = "fst (last (take k (rest kind start records)))"
  have s: "sorted_wrt (<) (map fst (take k ?xs) @ map fst (drop k ?xs))"
    using rest_sorted [of kind start records] by (metis append_take_drop_id map_append)
  have last: "last (take k ?xs) \<in> set (take k ?xs)" using assms by (intro last_in_set) auto
  have before: "fst x \<le> ?o" if "x \<in> set (take k ?xs)" for x
  proof -
    let ?ys = "take k ?xs"
    from that obtain i where i: "i < length ?ys" "x = ?ys ! i" by (metis in_set_conv_nth)
    have "?ys \<noteq> []" using assms by auto
    then have last: "last ?ys = ?ys ! (length ?ys - 1)" by (rule last_conv_nth)
    have sorted: "sorted_wrt (<) (map fst ?ys)" using s by (simp add: sorted_wrt_append)
    show ?thesis
    proof (cases "i = length ?ys - 1")
      case False
      then have "i < length ?ys - 1" "length ?ys - 1 < length ?ys" using i(1) by linarith+
      with sorted_wrt_nth_less [OF sorted, of i "length ?ys - 1"] i(2) last show ?thesis
        by (simp only: length_map nth_map less_imp_le simp_thms)
    qed (simp add: i(2) last)
  qed
  have after: "?o < fst x" if "x \<in> set (drop k ?xs)" for x
    using s last that by (auto simp: sorted_wrt_append)
  have start: "start < int ?o" using last in_set_takeD [OF last] by (auto simp: rest_def)
  have "rest kind (int ?o) records = filter (\<lambda>(i, r). ?o < i) ?xs"
    using start by (auto simp: rest_def split_def intro!: filter_cong)
  also have "\<dots> = filter (\<lambda>(i, r). ?o < i) (take k ?xs) @ filter (\<lambda>(i, r). ?o < i) (drop k ?xs)"
    by (metis append_take_drop_id filter_append)
  also have "filter (\<lambda>(i, r). ?o < i) (take k ?xs) = []"
    using before by (fastforce simp: filter_empty_conv)
  also have "filter (\<lambda>(i, r). ?o < i) (drop k ?xs) = drop k ?xs"
    using after by (fastforce simp: filter_id_conv)
  finally show ?thesis by simp
qed

lemma to_domain [simp]: "readAuthorityRecordToDomain r = r"
  by (simp add: readAuthorityRecordToDomain_def)

lemma page_cases:
  assumes "0 < limit"
  shows "snapshot_page s kind start limit records =
    (if length (rest kind start records) \<le> limit
     then \<lparr>Pg_Snapshot = s, Pg_Records = map snd (rest kind start records), Pg_NextCursor = [], Pg_Complete = True\<rparr>
     else \<lparr>Pg_Snapshot = s, Pg_Records = map snd (take limit (rest kind start records)),
           Pg_NextCursor = encodeReadAuthorityPageCursor s kind (int (fst (last (take limit (rest kind start records))))),
           Pg_Complete = False\<rparr>)"
proof -
  let ?xs = "rest kind start records"
  have more: "list_ex (\<lambda>(i, r). k < i \<and> wanted kind r) (enumerate 0 records) \<longleftrightarrow> rest kind (int k) records \<noteq> []" for k
    by (auto simp: rest_def filter_empty_conv list_ex_iff)
  have "length (take limit ?xs) = limit \<and> rest kind (int (fst (last (take limit ?xs)))) records \<noteq> [] \<longleftrightarrow> limit < length ?xs"
    using rest_after [OF assms, of kind start records] by auto
  then show ?thesis
    by (auto simp: snapshot_page_def Let_def more rest_def [symmetric] comp_def)
qed

lemma walk_rest:
  assumes "\<And>n after. ListReadAuthoritySnapshotRecords c consumer ident kind after limit (at n) sn =
      attempt (decodeReadAuthorityPageCursor after s kind) (\<lambda>start. Inr (snapshot_page s kind start (nat limit) records))"
    and "\<And>n. 0 \<le> n \<Longrightarrow> n < int (length records) \<Longrightarrow> decodeReadAuthorityPageCursor (encodeReadAuthorityPageCursor s kind n) s kind = Inr n"
    and "1 \<le> limit"
  shows "decodeReadAuthorityPageCursor after s kind = Inr start \<Longrightarrow> length (rest kind start records) < fuel \<Longrightarrow>
    walk fuel c consumer ident kind limit at sn after = Some (map snd (rest kind start records))"
proof (induction fuel arbitrary: after start)
  case (Suc fuel)
  let ?xs = "rest kind start records" and ?k = "nat limit"
  have k: "0 < ?k" using assms(3) by simp
  show ?case
  proof (cases "length ?xs \<le> ?k")
    case True
    with Suc.prems(1) assms(1) page_cases [OF k, of s kind start records] show ?thesis by simp
  next
    case False
    let ?o = "fst (last (take ?k ?xs))"
    have tail: "rest kind (int ?o) records = drop ?k ?xs" using False k by (intro rest_after) auto
    have "last (take ?k ?xs) \<in> set ?xs" using False k by (metis in_set_takeD last_in_set length_greater_0_conv length_take min_def not_less le_less_trans nat_neq_iff)
    then have "?o < length records" by (metis prod.collapse rest_index)
    then have "decodeReadAuthorityPageCursor (encodeReadAuthorityPageCursor s kind (int ?o)) s kind = Inr (int ?o)"
      by (intro assms(2)) simp_all
    from Suc.IH [OF this] Suc.prems(2) False k
    have "walk fuel c consumer ident kind limit at sn (encodeReadAuthorityPageCursor s kind (int ?o)) = Some (map snd (drop ?k ?xs))"
      unfolding tail by simp
    with False Suc.prems(1) assms(1) page_cases [OF k, of s kind start records] show ?thesis
      by (simp flip: map_append)
  qed
qed simp

lemma created_sound:
  assumes "CreateReadAuthoritySnapshot c e seed consumer kinds ttl pageSize createdAt db sn = (Inr s, sn')" "snapshots_ok sn"
    and "materializeReadAuthorityRecordsTx ks sd db = Inr records" "validateReadAuthorityKinds kinds = Inr ks" "seed = Some sd"
    and "list_all plain_record records" "0 < createdAt" "0 \<le> max_cursor (platform_outbox db)" "max_cursor (platform_outbox db) < 2 ^ 63"
  shows "sound_snapshot c s records" "holds c s records sn'"
proof -
  note * = created [OF assms(1)]
  have "sound_snapshot c s records \<and> holds c s records sn'"
  proof (rule *, goal_cases)
    case (1 ks' sd' records')
    with assms(3-5) have same: "records' = records" by simp
    have cursor: "\<not> isl (ParseSourceCursor (Sn_SourceCursor s))"
      using source_cursor_roundtrip [OF assms(8,9)] 1(9) by (metis ReadAuthoritySnapshot.select_convs(5) readAuthoritySourceCursorTx_def sum.disc(2))
    from 1(9) have f: "Sn_Version s = VersionV2" "Sn_ContractVersion s = VersionV2" "Sn_ChecksumAlgorithm s = ''sha256''"
        "Sn_Complete s" "Sn_RecordCount s = int (length records)" "Sn_Checksum s = RecordsChecksum c records"
        "Sn_CreatedAt s = createdAt" "Sn_ExpiresAt s = createdAt + ttl"
      unfolding same by (metis ReadAuthoritySnapshot.select_convs)+
    from created_holds [OF 1(5,6,7) assms(2)] 1(4,10,11,12,13) f cursor assms(6,7) materialized_valid [OF assms(3)]
    show ?case by (auto simp: sound_snapshot_def same list_all_iff IsZero_def zero_time_def)
  qed
  then show "sound_snapshot c s records" "holds c s records sn'" by auto
qed

lemma new_snapshot_id:
  assumes "newReadAuthorityID src = Inr x"
  shows "is_ascii x" "TrimSpace x \<noteq> []"
proof -
  obtain bs where x: "x = ''snap_'' @ RawURLEncoding bs" "bs \<noteq> []"
    using assms by (auto simp: newReadAuthorityID_def random_id_def split: option.splits)
  show "is_ascii x"
    using random_id_plain [of "''snap_''" src x] assms by (simp add: newReadAuthorityID_def plain_ascii plain_char_def byte_def)
  obtain n where "last (RawURLEncoding bs) = b64_char n"
    using x(2) RawURLEncoding_chars [of "last (RawURLEncoding bs)" bs] by auto
  then have "graphic (last x)" using x b64_graphic by simp
  then have "TrimSpace x = x" using x by (intro TrimSpace_graphic) (auto simp: graphic_def)
  then show "TrimSpace x \<noteq> []" using x by simp
qed

lemma valid_consumer: "readauthority_ValidateConsumer x = Inr () \<Longrightarrow> TrimSpace x = ''tockrctrl'' \<or> TrimSpace x = ''tockrims''"
  by (auto simp: readauthority_ValidateConsumer_def ProductForConsumer_def Let_def split: if_splits)

lemma kinds_ascii: "kind = [] \<or> kind \<in> set allowedEntityKinds \<Longrightarrow> is_ascii kind"
  by (auto simp: allowedEntityKinds_def is_ascii_def)

text \<open>
  C39: A consumer gets the whole snapshot. Whatever other snapshots are created and whichever
  expired ones are cleaned up in the meantime, until the second in which a snapshot expires its creator reads back its
  description, and by following the cursors from the first page collects exactly the records that were
  read from the tables in the creating transaction, of the kind asked for, each once and in order, after
  at most as many pages as there are records. (The strings of the records are ASCII here.)
\<close>

theorem snapshot_walk:
  assumes "snapshots_ok sn"
    and "CreateReadAuthoritySnapshot c e (Some seed) consumer kinds ttl pageSize createdAt db sn = (Inr s, sn1)"
    and "validateReadAuthorityKinds kinds = Inr ks" and "materializeReadAuthorityRecordsTx ks seed db = Inr records"
    and "list_all plain_record records" and "0 < createdAt"
    and "0 \<le> max_cursor (platform_outbox db)" and "max_cursor (platform_outbox db) < 2 ^ 63"
    and "later c t sn1 sn2" and "plain_time (Sn_ExpiresAt s)" and "Unix t < Unix (Sn_ExpiresAt s)"
    and "\<forall>k. 0 < at k \<and> at k < Sn_ExpiresAt s" and "1 \<le> limit" and "limit \<le> 500"
    and "kind = [] \<or> kind \<in> set allowedEntityKinds" and "length records < fuel"
  shows "GetReadAuthoritySnapshot c consumer (Sn_SnapshotID s) (at 0) sn2 = Inr s \<and>
    walk fuel c consumer (Sn_SnapshotID s) kind limit at sn2 [] = Some (filter (wanted kind) records)"
proof -
  note sound = created_sound [OF assms(2,1,4,3) refl assms(5,6,7,8)]
  have holds: "holds c s records sn2" by (rule later_holds [OF assms(9) sound(2) assms(10,11)])
  have "readauthority_ValidateConsumer (TrimSpace consumer) = Inr ()" "Sn_Consumer s = TrimSpace consumer"
      "newReadAuthorityID (rand_read e 0) = Inr (Sn_SnapshotID s)"
    by (rule created [OF assms(2)], metis ReadAuthoritySnapshot.select_convs(3))+
  note s = this valid_consumer [OF this(1)] new_snapshot_id [OF this(3)]
  have ascii: "is_ascii (Sn_SnapshotID s)" "is_ascii (Sn_Consumer s)" "is_ascii kind"
    using s kinds_ascii [OF assms(15)] by (auto simp: is_ascii_def)
  have reads: "readAndVerifyReadAuthoritySnapshot c (TrimSpace consumer) (Sn_SnapshotID s) (at k) sn2 = Inr (s, records)" for k
    using read_back [OF holds sound(1), of "at k"] assms(12) s(2) by simp
  have now: "\<not> IsZero (at k)" for k using assms(12) [THEN spec, of k] by (auto simp: IsZero_def zero_time_def)
  have "GetReadAuthoritySnapshot c consumer (Sn_SnapshotID s) (at 0) sn2 = Inr s"
    using sound(1) by (simp add: GetReadAuthoritySnapshot_def s now reads sound_snapshot_def)
  moreover have "walk fuel c consumer (Sn_SnapshotID s) kind limit at sn2 [] = Some (map snd (rest kind (- 1) records))"
  proof (rule walk_rest [where s = s])
    show "ListReadAuthoritySnapshotRecords c consumer (Sn_SnapshotID s) kind after limit (at n) sn2 =
        attempt (decodeReadAuthorityPageCursor after s kind) (\<lambda>start. Inr (snapshot_page s kind start (nat limit) records))" for n after
      using assms(13,14,15) by (auto simp: ListReadAuthoritySnapshotRecords_def s now reads ValidateEntityKind_def)
    show "decodeReadAuthorityPageCursor (encodeReadAuthorityPageCursor s kind n) s kind = Inr n"
      if "0 \<le> n" "n < int (length records)" for n
      using sound(1) that by (intro page_cursor_roundtrip ascii) (auto simp: sound_snapshot_def)
    have "length (rest kind (- 1) records) \<le> length records"
      by (simp add: rest_def) (metis length_enumerate length_filter_le)
    then show "length (rest kind (- 1) records) < fuel" using assms(16) by simp
    show "decodeReadAuthorityPageCursor [] s kind = Inr (- 1)" using TrimSpace_length [of "[]"] by (simp add: decodeReadAuthorityPageCursor_def)
  qed (use assms(13) in simp)
  ultimately show ?thesis by (simp add: rest_from_start)
qed

section \<open>What a snapshot says\<close>

text \<open>
  The facts of the tables a snapshot of a kind is about, with no provenance: this is what consumers are
  to learn. The detailed routines refine it.
\<close>

definition bare :: "Record \<Rightarrow> Record" where
  "bare r = r\<lparr>Rec_ProvenanceKind := [], Rec_SourceEventID := [], Rec_SourceSequence := 0, Rec_SourceSchemaVersion := 0,
     Rec_MigrationVersion := 0, Rec_MigrationName := [], Rec_MigrationChecksum := []\<rparr>"

definition shared_facts :: "string \<Rightarrow> db \<Rightarrow> Record set" where
  "shared_facts kind db =
     (if kind = EntityUser then user_record ` set (users db)
      else if kind = EntityOrganisation then organisation_record ` set (organisations db)
      else if kind = EntityOrganisationMembership
      then {membership_record m u r | m u r. m \<in> set (organisation_memberships db) \<and> u \<in> set (users db) \<and>
              u_id u = om_user_id m \<and> r \<in> set (organisations db) \<and> o_id r = om_organisation_id m}
      else if kind = EntityWorkspace
      then {workspace_record w r | w r. w \<in> set (workspaces db) \<and> r \<in> set (organisations db) \<and> o_id r = w_organisation_id w}
      else if kind = EntityWorkspaceMembership
      then {workspace_membership_record m u w | m u w. m \<in> set (workspace_memberships db) \<and> u \<in> set (users db) \<and>
              u_id u = wm_user_id m \<and> w \<in> set (workspaces db) \<and> w_id w = wm_workspace_id m}
      else if kind = EntityProduct then bare_product_record ` set (products db)
      else if kind = EntityOrganisationEntitlement
      then {entitlement_record x r | x r. x \<in> set (organisation_product_entitlements db) \<and> r \<in> set (organisations db) \<and>
              o_id r = ent_organisation_id x}
      else if kind = EntityUserProductAssignment
      then {assignment_record a r u | a r u. a \<in> set (user_product_assignments db) \<and> r \<in> set (organisations db) \<and>
              o_id r = upa_organisation_id a \<and> u \<in> set (users db) \<and> u_id u = upa_user_id a}
      else {})"

lemma bare_record [simp]:
  "bare (user_record u) = user_record u" "bare (organisation_record r) = organisation_record r"
  "bare (membership_record m u r) = membership_record m u r" "bare (workspace_record w r) = workspace_record w r"
  "bare (workspace_membership_record n u w) = workspace_membership_record n u w" "bare (bare_product_record p) = bare_product_record p"
  "bare (entitlement_record x r) = entitlement_record x r" "bare (assignment_record a r u) = assignment_record a r u"
  by (simp_all add: bare_def user_record_def organisation_record_def membership_record_def workspace_record_def
      workspace_membership_record_def bare_product_record_def entitlement_record_def assignment_record_def zero_record_def)

lemma each_record_bare:
  assumes "\<And>v r. f v = Inr r \<Longrightarrow> bare r = g v"
  shows "each_record f vs = Inr rs \<Longrightarrow> bare ` set rs = g ` set vs"
proof (induction vs arbitrary: rs)
  case (Cons v vs)
  then obtain r rs' where "f v = Inr r" "each_record f vs = Inr rs'" "rs = r # rs'" by (auto simp: tx_simps)
  with Cons.IH assms show ?case by simp
qed simp

lemma bounded_records_bare:
  assumes "bounded_records ident f vs = Inr rs" "\<And>v r. f v = Inr r \<Longrightarrow> bare r = g v"
  shows "bare ` set rs = g ` set vs"
proof -
  have "take 10001 (sort_key ident vs) = sort_key ident vs" if "\<not> 10000 < length (take 10001 (sort_key ident vs))"
    using that by simp
  with assms(1) have "each_record f (sort_key ident vs) = Inr rs" by (auto simp: bounded_records_def Let_def split: if_splits)
  from each_record_bare [OF assms(2) this] show ?thesis by simp
qed

lemma addEventProvenance_bare: "addEventProvenance t i k v db r = Inr r' \<Longrightarrow> bare r' = bare r"
  by (auto simp: addEventProvenance_def validated_def setReadAuthorityEventProvenance_def bare_def split: option.splits if_splits)

lemma product_record_bare: "product_record seed db p = Inr r' \<Longrightarrow> bare r' = bare_product_record p"
  by (auto simp: product_record_def validated_def setReadAuthorityEventProvenance_def Let_def bare_def bare_product_record_def
      zero_record_def split: option.splits if_splits)

lemma provenance_facts:
  assumes "bounded_records ident (\<lambda>v. addEventProvenance t (i v) k (x v) db (rec v)) vs = Inr rs"
  shows "bare ` set rs = (\<lambda>v. bare (rec v)) ` set vs"
  using assms addEventProvenance_bare by (rule bounded_records_bare)

lemma join2: "(\<lambda>v. f (fst v) (snd v)) ` set [(x, y). x \<leftarrow> xs, y \<leftarrow> ys, P x y] = {f x y | x y. x \<in> set xs \<and> y \<in> set ys \<and> P x y}"
  by force

lemma join3:
  "(\<lambda>v. f (fst v) (fst (snd v)) (snd (snd v))) ` set [(x, y, z). x \<leftarrow> xs, y \<leftarrow> ys, P x y, z \<leftarrow> zs, Q x z] =
    {f x y z | x y z. x \<in> set xs \<and> y \<in> set ys \<and> P x y \<and> z \<in> set zs \<and> Q x z}"
  by force

lemma bare_rows:
  "materializeUsersTx db = Inr rs \<Longrightarrow> bare ` set rs = shared_facts EntityUser db"
  "materializeOrganisationsTx db = Inr rs \<Longrightarrow> bare ` set rs = shared_facts EntityOrganisation db"
  unfolding materializeUsersTx_def materializeOrganisationsTx_def by (drule provenance_facts, simp add: shared_facts_def)+

lemma bare_workspaces:
  "materializeWorkspacesTx db = Inr rs \<Longrightarrow> bare ` set rs = shared_facts EntityWorkspace db"
  "materializeEntitlementsTx db = Inr rs \<Longrightarrow> bare ` set rs = shared_facts EntityOrganisationEntitlement db"
  unfolding materializeWorkspacesTx_def materializeEntitlementsTx_def case_prod_beta
  by (drule provenance_facts, simp add: shared_facts_def join2 [of workspace_record] join2 [of entitlement_record] del: set_concat)+

lemma bare_memberships:
  "materializeOrganisationMembershipsTx db = Inr rs \<Longrightarrow> bare ` set rs = shared_facts EntityOrganisationMembership db"
  "materializeWorkspaceMembershipsTx db = Inr rs \<Longrightarrow> bare ` set rs = shared_facts EntityWorkspaceMembership db"
  "materializeAssignmentsTx db = Inr rs \<Longrightarrow> bare ` set rs = shared_facts EntityUserProductAssignment db"
  unfolding materializeOrganisationMembershipsTx_def materializeWorkspaceMembershipsTx_def materializeAssignmentsTx_def case_prod_beta
  by (drule provenance_facts, simp add: shared_facts_def join3 [of membership_record] join3 [of workspace_membership_record]
      join3 [of assignment_record] del: set_concat)+

lemma bare_products: "materializeProductsTx seed db = Inr rs \<Longrightarrow> bare ` set rs = shared_facts EntityProduct db"
  unfolding materializeProductsTx_def by (drule bounded_records_bare, erule product_record_bare) (simp add: shared_facts_def)

lemma materialize_kind_facts: "materialize_kind seed db kind = Inr rs \<Longrightarrow> bare ` set rs = shared_facts kind db"
  by (auto simp add: materialize_kind_def bare_rows bare_workspaces bare_memberships bare_products split: if_splits)
    (simp_all add: shared_facts_def)

lemma collect_kinds_facts:
  "collect_kinds seed db records kinds = Inr rs \<Longrightarrow> bare ` set rs = bare ` set records \<union> (\<Union>k \<in> set kinds. shared_facts k db)"
proof (induction seed db records kinds rule: collect_kinds.induct)
  case (2 seed db records kind kinds)
  then obtain vs where v: "materialize_kind seed db kind = Inr vs" "\<not> 10000 < length (records @ vs)"
      "collect_kinds seed db (records @ vs) kinds = Inr rs"
    by (auto simp: tx_simps)
  from "2.IH" [OF v(2,3)] materialize_kind_facts [OF v(1)] show ?case by (auto simp: image_Un)
qed simp

lemma collect_kinds_length: "collect_kinds seed db records kinds = Inr rs \<Longrightarrow> length records \<le> 10000 \<Longrightarrow> length rs \<le> 10000"
  by (induction seed db records kinds rule: collect_kinds.induct) (auto simp: tx_simps)


end
