(* ===== verification/Launch.thy ===== *)
theory Launch
  imports Api
begin

text \<open>
  The launcher (\<^verbatim>\<open>internal/platform/http/platform_ui.go\<close>): the pages on which a user picks an organisation, a
  workspace and a product, and the hand-off that carries a signed assertion to the product. A page is
  the value of the structure it is rendered from.
\<close>

section \<open>URL escaping\<close>

definition unreserved :: "char \<Rightarrow> bool" where
  "unreserved ch \<longleftrightarrow>
     is_digit ch \<or> 65 \<le> byte ch \<and> byte ch \<le> 90 \<or> 97 \<le> byte ch \<and> byte ch \<le> 122 \<or> ch \<in> set ''-_.~''"

definition percent :: "char \<Rightarrow> string" where
  "percent ch = [CHR ''%'', hex_upper (byte ch div 16), hex_upper (byte ch)]"

definition PathEscape :: "string \<Rightarrow> string" where \<comment> \<open>\<^verbatim>\<open>url.PathEscape\<close>\<close>
  "PathEscape s = concat (map (\<lambda>ch. if unreserved ch \<or> ch \<in> set ''$&+:=@'' then [ch] else percent ch) s)"

definition QueryEscape :: "string \<Rightarrow> string" where \<comment> \<open>\<^verbatim>\<open>url.QueryEscape\<close>\<close>
  "QueryEscape s = concat (map (\<lambda>ch. if unreserved ch then [ch] else if ch = CHR '' '' then ''+'' else percent ch) s)"

section \<open>The session of a page\<close>

definition uiSession :: "crypto \<Rightarrow> gotime \<Rightarrow> http_request \<Rightarrow> Authenticated_Session option \<Rightarrow> db \<Rightarrow>
    'v http_response + (Authenticated_Session \<times> string)" where
  "uiSession c now r ctx db =
     (case session c now r ctx db of
        None \<Rightarrow> Inl (http_Redirect ''/login'')
      | Some s \<Rightarrow>
          (case rq_cookie r ''platform_csrf'' of
             None \<Rightarrow> Inl (http_Error 401)
           | Some v \<Rightarrow> if TrimSpace v = [] then Inl (http_Error 401) else Inr (s, v)))"

definition mustSessionUser :: "crypto \<Rightarrow> gotime \<Rightarrow> http_request \<Rightarrow> Authenticated_Session option \<Rightarrow> string \<Rightarrow> db \<Rightarrow> User" where
  "mustSessionUser c now r ctx userID db =
     (let unknown = \<lparr>Usr_ID = userID, Usr_Email = [], Usr_DisplayName = [], Usr_PasswordHash = [], Usr_Active = False,
                     Usr_MFAEnabled = False, Usr_CreatedAt = zero_time, Usr_LastLoginAt = None\<rparr>
      in case session c now r ctx db of
           Some s \<Rightarrow> if Usr_ID (Auth_User s) = userID then Auth_User s else unknown
         | None \<Rightarrow> unknown)"

section \<open>The launcher\<close>

record OrganisationOption =
  Oopt_ID :: string
  Oopt_Name :: string
  Oopt_Role :: string
  Oopt_Selected :: bool

record WorkspaceOption =
  Wopt_ID :: string
  Wopt_Name :: string
  Wopt_Selected :: bool

record ProductOption =
  Popt_Key :: string
  Popt_DisplayName :: string
  Popt_AccessURL :: string
  Popt_HandoffURL :: string

record LauncherProps =
  Lp_User :: User
  Lp_CSRF :: string
  Lp_CurrentPath :: string
  Lp_Organisations :: "OrganisationOption list"
  Lp_Workspaces :: "WorkspaceOption list"
  Lp_Products :: "ProductOption list"
  Lp_OrganisationID :: string
  Lp_OrganisationName :: string
  Lp_WorkspaceID :: string
  Lp_WorkspaceName :: string

record ProductLaunchTarget =
  Tgt_URL :: string
  Tgt_Audience :: string

type_synonym targets = "string \<rightharpoonup> ProductLaunchTarget"

definition handoff_url :: "targets \<Rightarrow> string \<Rightarrow> string" where
  "handoff_url targets key = (if targets key \<noteq> None then ''/launch/'' @ PathEscape key @ ''/handoff'' else [])"

definition product_option :: "targets \<Rightarrow> string \<Rightarrow> string \<Rightarrow> Product \<Rightarrow> ProductOption" where
  "product_option targets organisationID workspaceID product =
     \<lparr>Popt_Key = Prod_Key product, Popt_DisplayName = Prod_DisplayName product,
      Popt_AccessURL = ''/launch/'' @ PathEscape (Prod_Key product) @ ''?organisation_id='' @ QueryEscape organisationID @
        ''&workspace_id='' @ QueryEscape workspaceID,
      Popt_HandoffURL = handoff_url targets (Prod_Key product)\<rparr>"

text \<open>The last element of the list with the given identifier, as the loops leave it.\<close>

definition selected_name :: "('a \<Rightarrow> string) \<Rightarrow> ('a \<Rightarrow> string) \<Rightarrow> string \<Rightarrow> 'a list \<Rightarrow> string option" where
  "selected_name ident name i xs = map_option name (find (\<lambda>x. ident x = i) (rev xs))"

text \<open>The workspaces and products of the organisation that is shown, and the workspace selected.\<close>

definition launcher_workspaces :: "targets \<Rightarrow> http_request \<Rightarrow> string \<Rightarrow> string \<Rightarrow> db \<Rightarrow>
    (string \<times> string \<times> WorkspaceOption list \<times> ProductOption list) result" where
  "launcher_workspaces targets r userID organisationID db =
     attempt (ListOrganisationWorkspaces userID organisationID db) (\<lambda>workspaces.
     let requested = TrimSpace (rq_query r ''workspace_id'');
         requested = (case workspaces of [] \<Rightarrow> requested | w # _ \<Rightarrow> if requested = [] then Wsp_ID w else requested);
         options = map (\<lambda>w. \<lparr>Wopt_ID = Wsp_ID w, Wopt_Name = Wsp_Name w, Wopt_Selected = (Wsp_ID w = requested)\<rparr>) workspaces
     in case selected_name Wsp_ID Wsp_Name requested workspaces of
          None \<Rightarrow> if requested = [] then Inr ([], [], options, []) else Inl (Store ErrAccessScopeDenied)
        | Some name \<Rightarrow>
            if requested = [] then Inr (requested, name, options, [])
            else attempt (ListLaunchableProducts userID organisationID requested db) (\<lambda>products.
              Inr (requested, name, options, map (product_option targets organisationID requested) products)))"

definition launcherProps :: "targets \<Rightarrow> crypto \<Rightarrow> gotime \<Rightarrow> http_request \<Rightarrow> Authenticated_Session option \<Rightarrow> string \<Rightarrow> string \<Rightarrow> db \<Rightarrow>
    LauncherProps result" where
  "launcherProps targets c now r ctx userID csrf db =
     (let organisations = ListUserOrganisations userID db;
          requested = TrimSpace (rq_query r ''organisation_id'');
          organisationID = (case organisations of
              [] \<Rightarrow> requested | x # _ \<Rightarrow> if requested = [] then Org_ID (fst x) else requested);
          options = map (\<lambda>(x, role). \<lparr>Oopt_ID = Org_ID x, Oopt_Name = Org_Name x, Oopt_Role = role,
                           Oopt_Selected = (Org_ID x = organisationID)\<rparr>) organisations;
          selected = selected_name (Org_ID \<circ> fst) (Org_Name \<circ> fst) organisationID organisations
      in if selected = None \<and> organisationID \<noteq> [] then Inl (Store ErrUnauthorisedOrganisationAction)
         else attempt (if organisationID = [] then Inr ([], [], [], [])
                       else launcher_workspaces targets r userID organisationID db)
           (\<lambda>(workspaceID, workspaceName, workspaceOptions, products).
           Inr \<lparr>Lp_User = mustSessionUser c now r ctx userID db, Lp_CSRF = csrf, Lp_CurrentPath = rq_path r,
                Lp_Organisations = options, Lp_Workspaces = workspaceOptions, Lp_Products = products,
                Lp_OrganisationID = organisationID,
                Lp_OrganisationName = (case selected of None \<Rightarrow> [] | Some n \<Rightarrow> n),
                Lp_WorkspaceID = workspaceID, Lp_WorkspaceName = workspaceName\<rparr>))"

definition page_of :: "'v result \<Rightarrow> 'v http_response" where
  "page_of m = (case m of Inl x \<Rightarrow> uiNotFoundOrError x | Inr v \<Rightarrow> writeJSON 200 v)"

definition platformLauncher :: "targets \<Rightarrow> crypto \<Rightarrow> gotime \<Rightarrow> http_request \<Rightarrow> Authenticated_Session option \<Rightarrow> db \<Rightarrow>
    LauncherProps http_response" where
  "platformLauncher targets c now r ctx db =
     (case uiSession c now r ctx db of
        Inl rsp \<Rightarrow> rsp
      | Inr (s, csrf) \<Rightarrow> page_of (launcherProps targets c now r ctx (Usr_ID (Auth_User s)) csrf db))"

section \<open>Choosing a workspace\<close>

record WorkspaceSelectorProps =
  Wsl_User :: User
  Wsl_CSRF :: string
  Wsl_CurrentPath :: string
  Wsl_OrganisationID :: string
  Wsl_OrganisationName :: string
  Wsl_Workspaces :: "WorkspaceOption list"

definition workspaceSelector :: "crypto \<Rightarrow> gotime \<Rightarrow> http_request \<Rightarrow> Authenticated_Session option \<Rightarrow> db \<Rightarrow>
    WorkspaceSelectorProps http_response" where
  "workspaceSelector c now r ctx db =
     (case uiSession c now r ctx db of
        Inl rsp \<Rightarrow> rsp
      | Inr (s, csrf) \<Rightarrow>
          let organisationID = TrimSpace (rq_param r ''organisationID''); u = Usr_ID (Auth_User s) in
          page_of (attempt (GetOrganisation u organisationID db) (\<lambda>organisation.
            attempt (ListOrganisationWorkspaces u organisationID db) (\<lambda>workspaces.
            Inr \<lparr>Wsl_User = Auth_User s, Wsl_CSRF = csrf, Wsl_CurrentPath = rq_path r,
                 Wsl_OrganisationID = Org_ID organisation, Wsl_OrganisationName = Org_Name organisation,
                 Wsl_Workspaces = map (\<lambda>w. \<lparr>Wopt_ID = Wsp_ID w, Wopt_Name = Wsp_Name w, Wopt_Selected = False\<rparr>) workspaces\<rparr>))))"

section \<open>The page of a product\<close>

record ProductAccessProps =
  Pap_User :: User
  Pap_CSRF :: string
  Pap_CurrentPath :: string
  Pap_Product :: ProductOption
  Pap_OrganisationID :: string
  Pap_OrganisationName :: string
  Pap_WorkspaceID :: string
  Pap_WorkspaceName :: string

definition productAccessPage :: "targets \<Rightarrow> crypto \<Rightarrow> env \<Rightarrow> http_request \<Rightarrow> Authenticated_Session option \<Rightarrow> db \<Rightarrow>
    ProductAccessProps http_response" where
  "productAccessPage targets c e r ctx db =
     (case uiSession c (time_now e) r ctx db of
        Inl rsp \<Rightarrow> rsp
      | Inr (s, csrf) \<Rightarrow>
          let organisationID = TrimSpace (rq_query r ''organisation_id'');
              workspaceID = TrimSpace (rq_query r ''workspace_id'');
              productKey = TrimSpace (rq_param r ''productKey'');
              u = Usr_ID (Auth_User s)
          in if organisationID = [] \<or> workspaceID = [] \<or> productKey = [] then http_Error 404
          else case GetOrganisation u organisationID db of
            Inl x \<Rightarrow> uiNotFoundOrError x
          | Inr organisation \<Rightarrow>
              (case GetWorkspace u workspaceID db of
                 Inl x \<Rightarrow> uiNotFoundOrError x
               | Inr workspace \<Rightarrow>
                   if Wsp_OrganisationID workspace \<noteq> Org_ID organisation then http_Error 404
                   else case ProveProductAccess e u organisationID productKey workspaceID db of
                     Inl x \<Rightarrow> uiNotFoundOrError x
                   | Inr _ \<Rightarrow>
                       (case ListLaunchableProducts u organisationID workspaceID db of
                          Inl x \<Rightarrow> uiNotFoundOrError x
                        | Inr launchable \<Rightarrow>
                            (case find (\<lambda>p. Prod_Key p = productKey) launchable of
                               None \<Rightarrow> http_Error 404
                             | Some prd \<Rightarrow> writeJSON 200
                                 \<lparr>Pap_User = Auth_User s, Pap_CSRF = csrf, Pap_CurrentPath = rq_path r,
                                  Pap_Product = \<lparr>Popt_Key = Prod_Key prd, Popt_DisplayName = Prod_DisplayName prd,
                                    Popt_AccessURL = [], Popt_HandoffURL = handoff_url targets (Prod_Key prd)\<rparr>,
                                  Pap_OrganisationID = Org_ID organisation, Pap_OrganisationName = Org_Name organisation,
                                  Pap_WorkspaceID = Wsp_ID workspace, Pap_WorkspaceName = Wsp_Name workspace\<rparr>))))"

section \<open>The hand-off\<close>

record ProductHandoffProps =
  Php_User :: User
  Php_CSRF :: string
  Php_CurrentPath :: string
  Php_ProductName :: string
  Php_TargetURL :: string
  Php_Assertion :: string

definition productHandoff :: "server \<Rightarrow> targets \<Rightarrow> crypto \<Rightarrow> (nat \<Rightarrow> env) \<Rightarrow> http_request \<Rightarrow> Authenticated_Session option \<Rightarrow> db \<Rightarrow>
    ProductHandoffProps http_response" where
  "productHandoff srv targets c e r ctx db =
     (case uiSession c (time_now (e 0)) r ctx db of
        Inl rsp \<Rightarrow> rsp
      | Inr (s, csrf) \<Rightarrow>
          if \<not> rq_form_ok r then http_Error 400
          else if \<not> verifyMutationCSRF c r db then http_Error 403
          else let productKey = TrimSpace (rq_param r ''productKey'');
                   organisationID = TrimSpace (rq_form r ''organisation_id'');
                   workspaceID = TrimSpace (rq_form r ''workspace_id'');
                   u = Usr_ID (Auth_User s)
          in case targets productKey of
            None \<Rightarrow> http_Error 404
          | Some target \<Rightarrow>
              if Srv_AssertionIssuer srv = None \<or> organisationID = [] \<or> workspaceID = [] then http_Error 404
              else case ProveProductAccess (e 1) u organisationID productKey workspaceID db of
                Inl x \<Rightarrow> uiNotFoundOrError x
              | Inr access \<Rightarrow>
                  (case ListLaunchableProducts u (PA_OrganisationID access) (PA_WorkspaceID access) db of
                     Inl x \<Rightarrow> uiNotFoundOrError x
                   | Inr launchable \<Rightarrow>
                       (case find (\<lambda>p. Prod_Key p = productKey) launchable of
                          None \<Rightarrow> http_Error 404
                        | Some prd \<Rightarrow>
                            (case Issue (Srv_ed25519 srv) (e 2) (Srv_AssertionIssuer srv)
                                    (assertion_request (Tgt_Audience target) access) (time_now (e 2)) of
                               Inl _ \<Rightarrow> http_Error 503
                             | Inr (token, _) \<Rightarrow> writeJSON 200
                                 \<lparr>Php_User = Auth_User s, Php_CSRF = csrf, Php_CurrentPath = rq_path r,
                                  Php_ProductName = Prod_DisplayName prd, Php_TargetURL = Tgt_URL target,
                                  Php_Assertion = token\<rparr>))))"

section \<open>What the launcher offers\<close>

lemma launchable_keys:
  assumes "db_ok db" and "ListLaunchableProducts u i w db = Inr ps"
  shows "k \<in> Prod_Key ` set ps \<longleftrightarrow> has_access (TrimSpace u) (TrimSpace i) k (TrimSpace w) db"
proof -
  have "set ps = product_value ` set (launchable_rows (TrimSpace i) (TrimSpace u) (TrimSpace w) db)"
    using assms(2) by (auto simp: ListLaunchableProducts_def split: if_splits)
  then have "k \<in> Prod_Key ` set ps \<longleftrightarrow>
      (\<exists>p \<in> set (launchable_rows (TrimSpace i) (TrimSpace u) (TrimSpace w) db). p_key p = k)"
    by (auto simp: product_value_def image_iff)
  with launchable_rows_iff [OF db_okD(1) [OF assms(1)]] show ?thesis by simp
qed

lemma launcher_workspaces_Inr:
  assumes "launcher_workspaces targets r u i db = Inr (w, name, options, offered)"
  shows "if w = [] then offered = []
    else \<exists>ps. ListLaunchableProducts u i w db = Inr ps \<and> offered = map (product_option targets i w) ps"
  using assms
  by (auto simp: launcher_workspaces_def Let_def attempt_def split: sum.splits option.splits if_splits)

lemma selected_name_Some: "selected_name ident name i xs = Some n \<Longrightarrow> \<exists>x \<in> set xs. ident x = i \<and> name x = n"
  by (auto simp: selected_name_def dest!: find_SomeD)

text \<open>
  C36: The launcher offers exactly what can be launched. The products on the launcher of a
  user are those to which the user has effective access in the organisation and workspace that are
  shown, no more and no fewer; a hand-off is offered exactly for the products that have a launch target; and the
  organisation shown is one that the user may read.
\<close>

theorem launcher_offers_access:
  assumes "db_ok db" and "launcherProps targets c now r ctx u csrf db = Inr props"
  shows "(k \<in> Popt_Key ` set (Lp_Products props) \<longleftrightarrow> Lp_OrganisationID props \<noteq> [] \<and> Lp_WorkspaceID props \<noteq> [] \<and>
      has_access (TrimSpace u) (TrimSpace (Lp_OrganisationID props)) k (TrimSpace (Lp_WorkspaceID props)) db) \<and>
    (\<forall>p \<in> set (Lp_Products props). Popt_HandoffURL p \<noteq> [] \<longleftrightarrow> targets (Popt_Key p) \<noteq> None) \<and>
    (Lp_OrganisationID props \<noteq> [] \<longrightarrow>
       (\<exists>x. GetOrganisation (TrimSpace u) (Lp_OrganisationID props) db = Inr x \<and> Org_ID x = Lp_OrganisationID props))"
proof -
  define xs where "xs = ListUserOrganisations u db"
  from assms(2) obtain w name options offered where
      ws: "if Lp_OrganisationID props = [] then (w, name, options, offered) = ([], [], [], [])
           else launcher_workspaces targets r u (Lp_OrganisationID props) db = Inr (w, name, options, offered)"
    and p: "Lp_WorkspaceID props = w" "Lp_Products props = offered"
    and sel: "Lp_OrganisationID props \<noteq> [] \<longrightarrow>
        selected_name (Org_ID \<circ> fst) (Org_Name \<circ> fst) (Lp_OrganisationID props) xs \<noteq> None"
    by (auto simp: launcherProps_def attempt_def xs_def [symmetric] Let_def split: sum.splits if_splits prod.splits)
  have "k \<in> Popt_Key ` set offered \<longleftrightarrow> Lp_OrganisationID props \<noteq> [] \<and> w \<noteq> [] \<and>
      has_access (TrimSpace u) (TrimSpace (Lp_OrganisationID props)) k (TrimSpace w) db"
    using ws launcher_workspaces_Inr [of targets r u "Lp_OrganisationID props" db w name options offered]
      launchable_keys [OF assms(1), of u "Lp_OrganisationID props" w _ k]
    by (auto simp: image_image product_option_def split: if_splits)
  moreover have "\<forall>p \<in> set offered. Popt_HandoffURL p \<noteq> [] \<longleftrightarrow> targets (Popt_Key p) \<noteq> None"
    using ws launcher_workspaces_Inr [of targets r u "Lp_OrganisationID props" db w name options offered]
    by (auto simp: product_option_def handoff_url_def split: if_splits)
  moreover have "\<exists>x. GetOrganisation (TrimSpace u) (Lp_OrganisationID props) db = Inr x \<and> Org_ID x = Lp_OrganisationID props"
    if "Lp_OrganisationID props \<noteq> []"
  proof -
    from sel that obtain x where "x \<in> fst ` set xs" "Org_ID x = Lp_OrganisationID props"
      by (force dest!: selected_name_Some)
    with list_organisations_agree [OF db_okD(5,1) [OF assms(1)], of x u] show ?thesis by (auto simp: xs_def)
  qed
  ultimately show ?thesis unfolding p by blast
qed

text \<open>
  C35: The hand-off is bound to the product. A hand-off page is produced only for a request with a live session of a
  user and its token; the user has effective access to the product of the URL in the organisation and
  workspace of the form; and the assertion on the page is signed for that user, organisation and
  workspace, for the audience configured for that very product, and is sent to the address configured for it.
\<close>

theorem handoff_bound:
  assumes "productHandoff srv targets c e r (Some s) db = rsp" and "Rsp_value rsp = Some props"
  shows "\<exists>target claims. verifyMutationCSRF c r db \<and> targets (TrimSpace (rq_param r ''productKey'')) = Some target \<and>
    has_access (Usr_ID (Auth_User s)) (TrimSpace (rq_form r ''organisation_id'')) (TrimSpace (rq_param r ''productKey''))
      (TrimSpace (rq_form r ''workspace_id'')) db \<and>
    Issue (Srv_ed25519 srv) (e 2) (Srv_AssertionIssuer srv)
      \<lparr>Irq_Audience = Tgt_Audience target, Irq_PlatformUserID = Usr_ID (Auth_User s),
       Irq_OrganisationID = TrimSpace (rq_form r ''organisation_id''),
       Irq_WorkspaceID = TrimSpace (rq_form r ''workspace_id''), Irq_Lifetime = 0\<rparr> (time_now (e 2)) =
      Inr (Php_Assertion props, claims) \<and>
    Cl_Audience claims = TrimSpace (Tgt_Audience target) \<and> Cl_PlatformUserID claims = Usr_ID (Auth_User s) \<and>
    Php_TargetURL props = Tgt_URL target"
proof -
  have none: "Rsp_value (uiNotFoundOrError x) = None" for x by (simp add: uiNotFoundOrError_def)
  from assms obtain target access claims where ok: "verifyMutationCSRF c r db"
      "targets (TrimSpace (rq_param r ''productKey'')) = Some target" "Php_TargetURL props = Tgt_URL target"
      "ProveProductAccess (e 1) (Usr_ID (Auth_User s)) (TrimSpace (rq_form r ''organisation_id''))
         (TrimSpace (rq_param r ''productKey'')) (TrimSpace (rq_form r ''workspace_id'')) db = Inr access"
      "Issue (Srv_ed25519 srv) (e 2) (Srv_AssertionIssuer srv) (assertion_request (Tgt_Audience target) access)
         (time_now (e 2)) = Inr (Php_Assertion props, claims)"
    by (fastforce simp: productHandoff_def uiSession_def session_def Let_def none
        split: option.splits if_splits sum.splits prod.splits)
  note access = ProveProductAccess_Inr [OF ok(4)]
  have req: "assertion_request (Tgt_Audience target) access =
      \<lparr>Irq_Audience = Tgt_Audience target, Irq_PlatformUserID = Usr_ID (Auth_User s),
       Irq_OrganisationID = TrimSpace (rq_form r ''organisation_id''),
       Irq_WorkspaceID = TrimSpace (rq_form r ''workspace_id''), Irq_Lifetime = 0\<rparr>"
    using access by (simp add: assertion_request_def)
  show ?thesis
    using ok access Issue_claims [OF ok(5)] unfolding req by auto
qed

end
