(* ===== verification/Machine.thy ===== *)
theory Machine
  imports Snapshot Launch
begin

text \<open>
  The endpoints of machine consumers: the read authority
  (\<^verbatim>\<open>internal/platform/http/read_authority.go\<close>) and the membership commands
  (\<^verbatim>\<open>internal/platform/http/membership_command.go\<close>). A request is authenticated by an Ed25519 signature over
  its canonical text, a timestamp and a nonce that the store reserves, and is held to a rate. The
  environment \<open>e k\<close> is that of the \<open>k\<close>-th clock reading or store call of a request; index 2 is the
  reservation of the nonce. The server's own parts of the state are the counters of the rate, the tables and the assertions
  it has verified.
\<close>

section \<open>Requests\<close>

record machine_request = http_request +
  Mrq_EscapedPath :: string \<comment> \<open>\<^verbatim>\<open>r.URL.EscapedPath()\<close>\<close>
  Mrq_RawQuery :: string

fun QueryUnescape :: "string \<Rightarrow> string option" where \<comment> \<open>\<^verbatim>\<open>url.QueryUnescape\<close>\<close>
  "QueryUnescape [] = Some []"
| "QueryUnescape (a # s) =
     (if a = CHR ''%''
      then (case s of
              h # l # t \<Rightarrow> (case (hex_value h, hex_value l) of
                 (Some x, Some y) \<Rightarrow> map_option ((#) (char_of (16 * x + y))) (QueryUnescape t)
               | _ \<Rightarrow> None)
            | _ \<Rightarrow> None)
      else map_option ((#) (if a = CHR ''+'' then CHR '' '' else a)) (QueryUnescape s))"

definition cut :: "char \<Rightarrow> string \<Rightarrow> string \<times> string" where \<comment> \<open>\<^verbatim>\<open>strings.Cut\<close>\<close>
  "cut ch s = (takeWhile (\<lambda>x. x \<noteq> ch) s, drop 1 (dropWhile (\<lambda>x. x \<noteq> ch) s))"

text \<open>\<^verbatim>\<open>url.ParseQuery\<close>: the pairs that decode, and whether all did.\<close>

definition query_pair :: "string \<Rightarrow> (string \<times> string) option" where
  "query_pair part =
     (if CHR '';'' \<in> set part then None
      else case cut (CHR ''='') part of
        (k, v) \<Rightarrow> (case (QueryUnescape k, QueryUnescape v) of (Some k, Some v) \<Rightarrow> Some (k, v) | _ \<Rightarrow> None))"

definition ParseQuery :: "string \<Rightarrow> (string \<times> string) list \<times> bool" where
  "ParseQuery query =
     (let parts = filter (\<lambda>p. p \<noteq> []) (split_on (CHR ''&'') query) in
      (List.map_filter query_pair parts, list_all (\<lambda>p. query_pair p \<noteq> None) parts))"

fun join_amp :: "string list \<Rightarrow> string" where
  "join_amp [] = []"
| "join_amp [x] = x"
| "join_amp (x # y # xs) = x @ CHR ''&'' # join_amp (y # xs)"

definition query_Encode :: "(string \<times> string) list \<Rightarrow> string" where \<comment> \<open>\<^verbatim>\<open>url.Values.Encode\<close>: sorted by key\<close>
  "query_Encode ps = join_amp (map (\<lambda>(k, v). QueryEscape k @ CHR ''='' # QueryEscape v) (sort_key fst ps))"

definition query_Get :: "machine_request \<Rightarrow> string \<Rightarrow> string" where \<comment> \<open>\<^verbatim>\<open>r.URL.Query().Get\<close>\<close>
  "query_Get r k = (case map_of (fst (ParseQuery (Mrq_RawQuery r))) k of None \<Rightarrow> [] | Some v \<Rightarrow> v)"

definition canonicalReadAuthorityPath :: "machine_request \<Rightarrow> string option" where
  "canonicalReadAuthorityPath r =
     (let path = (if Mrq_EscapedPath r = [] then ''/'' else Mrq_EscapedPath r) in
      case ParseQuery (Mrq_RawQuery r) of
        (_, False) \<Rightarrow> None
      | (ps, True) \<Rightarrow> Some (if query_Encode ps = [] then path else path @ ''?'' @ query_Encode ps))"

definition bounded_body :: "machine_request \<Rightarrow> string option" where \<comment> \<open>\<^verbatim>\<open>MaxBytesReader\<close> with 64 KiB\<close>
  "bounded_body r = (case rq_body r of None \<Rightarrow> None | Some b \<Rightarrow> if 65536 < length b then None else Some b)"

section \<open>The rate\<close>

record readAuthorityRateEntry =
  Rate_started :: gotime
  Rate_count :: int

type_synonym rate = "(string \<times> readAuthorityRateEntry) list"

abbreviation readAuthorityRateWindow :: int where
  "readAuthorityRateWindow \<equiv> seconds 60"

definition Allow :: "(rate \<Rightarrow> rate) \<Rightarrow> string \<Rightarrow> gotime \<Rightarrow> rate \<Rightarrow> bool \<times> rate" where
  "Allow visit consumer now l0 =
     (let l = filter (\<lambda>(_, x). now < Rate_started x + readAuthorityRateWindow) l0;
          fresh = (let l = (if 4096 \<le> length l then AList.delete (fst (hd (visit l))) l else l)
                   in (True, AList.update consumer \<lparr>Rate_started = now, Rate_count = 1\<rparr> l)) in
      case map_of l consumer of
        None \<Rightarrow> fresh
      | Some x \<Rightarrow>
          if \<not> now < Rate_started x + readAuthorityRateWindow then fresh
          else if RequestsPerMinute \<le> Rate_count x then (False, l)
          else (True, AList.update consumer (x\<lparr>Rate_count := Rate_count x + 1\<rparr>) l))"

section \<open>Answers\<close>

definition readAuthorityMessage :: "string \<Rightarrow> string" where
  "readAuthorityMessage code =
     (if code = ''version_mismatch'' then ''read authority contract version is unsupported''
      else if code = ''unauthenticated'' then ''read authority machine authentication failed''
      else if code = ''invalid_request'' then ''read authority request is invalid''
      else if code = ''limit_exceeded'' then ''read authority request exceeds its limit''
      else if code = ''snapshot_expired'' then ''read authority snapshot has expired''
      else if code = ''snapshot_incomplete'' then ''read authority snapshot is incomplete''
      else if code = ''checksum_mismatch'' then ''read authority snapshot integrity could not be verified''
      else if code = ''resync_required'' then ''read authority requires resynchronisation''
      else if code = ''blocked'' then ''read authority source is blocked''
      else ''read authority is unavailable'')"

definition writeReadAuthorityError :: "string \<Rightarrow> string \<Rightarrow> bool \<Rightarrow> bool \<Rightarrow> json http_response" where
  "writeReadAuthorityError code state retryable resync =
     writeJSON (HTTPStatus code) (JObj [(''version'', JStr VersionV2), (''code'', JStr code), (''state'', JStr state),
       (''retryable'', JBool retryable), (''resync_required'', JBool resync), (''message'', JStr (readAuthorityMessage code))])"

definition writeReadAuthorityResponse :: "nat \<Rightarrow> json \<Rightarrow> json http_response" where
  "writeReadAuthorityResponse status v =
     (if ResponseMaxBytes < length (Marshal v) then writeReadAuthorityError ''limit_exceeded'' ''unavailable'' False False
      else writeJSON status v)"

definition writeReadAuthorityStoreError :: "err \<Rightarrow> json http_response" where
  "writeReadAuthorityStoreError x =
     (if x \<in> Store ` {ErrInvalidReadAuthorityRequest, ErrInvalidOutboxLimit, ErrReadAuthorityCursorInvalid}
      then writeReadAuthorityError ''invalid_request'' ''unavailable'' False False
      else if x = Store ErrReadAuthoritySnapshotExpired then writeReadAuthorityError ''snapshot_expired'' ''stale'' False True
      else if x \<in> Store ` {ErrReadAuthoritySnapshotNotFound, ErrReadAuthoritySnapshotIncomplete}
      then writeReadAuthorityError ''snapshot_incomplete'' ''blocked'' False True
      else if x = Store ErrReadAuthorityChecksumMismatch then writeReadAuthorityError ''checksum_mismatch'' ''blocked'' False True
      else if x = Store ErrReadAuthoritySourceGap then writeReadAuthorityError ''resync_required'' ''resync_required'' False True
      else if x = Store ErrReadAuthoritySourceInvalid then writeReadAuthorityError ''blocked'' ''blocked'' False False
      else writeReadAuthorityError ''unavailable'' ''unavailable'' True False)"

section \<open>Authentication of the read authority\<close>

record machine_config =
  Mc_ed25519 :: ed25519
  Mc_readAuthorityKeys :: "string \<Rightarrow> string \<Rightarrow> string option" \<comment> \<open>consumer, key id\<close>
  Mc_membershipCommandKeys :: "string \<Rightarrow> string \<Rightarrow> string option"
  Mc_migration_seed :: "readAuthorityMigrationSeed option"
  Mc_visit :: "rate \<Rightarrow> rate" \<comment> \<open>the order in which \<^verbatim>\<open>range\<close> visits the counters\<close>

record machine =
  M_rate :: rate
  M_db :: db
  M_snapshots :: snapshots
  M_issuer :: "Issuer option"

abbreviation "ConsumerHeader \<equiv> ''X-Tockr-Platform-Consumer''"
abbreviation "KeyIDHeader \<equiv> ''X-Tockr-Platform-Key-ID''"
abbreviation "TimestampHeader \<equiv> ''X-Tockr-Platform-Timestamp''"
abbreviation "NonceHeader \<equiv> ''X-Tockr-Platform-Nonce''"
abbreviation "SignatureHeader \<equiv> ''X-Tockr-Platform-Signature''"
abbreviation "ActorHeader \<equiv> ''X-Tockr-Platform-Actor-Assertion''"
abbreviation "ReadAuthorityVersionHeader \<equiv> ''X-Tockr-Platform-Read-Authority-Version''"
abbreviation "CommandVersionHeader \<equiv> ''X-Tockr-Platform-Membership-Command-Version''"

definition request_header :: "machine_request \<Rightarrow> string \<Rightarrow> string" where
  "request_header r name = TrimSpace (rq_header r name)"

definition in_skew :: "int \<Rightarrow> gotime \<Rightarrow> bool" where
  "in_skew parsed now \<longleftrightarrow> Unix now - 300 \<le> parsed \<and> parsed \<le> Unix now + 300"

definition validReadAuthorityTimestamp :: "gotime \<Rightarrow> string \<Rightarrow> bool" where
  "validReadAuthorityTimestamp now value \<longleftrightarrow>
     value \<noteq> [] \<and> list_all is_digit value \<and>
     (case Atoi value of None \<Rightarrow> False | Some parsed \<Rightarrow> in_skew parsed now)"

definition signed_with :: "ed25519 \<Rightarrow> string \<Rightarrow> string \<Rightarrow> string \<Rightarrow> bool" where
  "signed_with ed publicKey text signatureText \<longleftrightarrow>
     (case RawURLDecode signatureText of
        None \<Rightarrow> False
      | Some signature \<Rightarrow> length signature = SignatureSize \<and> ed_verify ed publicKey text signature)"

text \<open>The text a request claims to be signed, if it is well formed.\<close>

definition read_authority_text :: "crypto \<Rightarrow> machine_request \<Rightarrow> string \<Rightarrow> string option" where
  "read_authority_text c r body =
     (case canonicalReadAuthorityPath r of
        None \<Rightarrow> None
      | Some path \<Rightarrow>
          (case readauthority_CanonicalRequest c (rq_method r) path (BodyDigest c body) (request_header r ConsumerHeader)
                  (request_header r KeyIDHeader) (request_header r TimestampHeader) (request_header r NonceHeader) of
             Inl _ \<Rightarrow> None
           | Inr canonical \<Rightarrow> Some canonical))"

definition requireReadAuthority :: "machine_config \<Rightarrow> crypto \<Rightarrow> (nat \<Rightarrow> env) \<Rightarrow> machine_request \<Rightarrow> rate \<Rightarrow> db \<Rightarrow>
    (json http_response + string) \<times> rate \<times> db" where
  "requireReadAuthority cfg c e r l db =
     (let consumer = request_header r ConsumerHeader; keyID = request_header r KeyIDHeader; nonce = request_header r NonceHeader;
          signatureText = request_header r SignatureHeader;
          refuse = (\<lambda>l db. (Inl (writeReadAuthorityError ''unauthenticated'' ''unavailable'' False False), l, db)) in
      if request_header r ReadAuthorityVersionHeader \<noteq> VersionV2
      then (Inl (writeReadAuthorityError ''version_mismatch'' ''unavailable'' False False), l, db)
      else if readauthority_ValidateConsumer consumer \<noteq> Inr () \<or> \<not> readauthority_ValidateKeyID keyID \<or>
              \<not> validReadAuthorityTimestamp (time_now (e 0)) (request_header r TimestampHeader) \<or>
              \<not> readauthority_ValidateKeyID nonce \<or> signatureText = [] then refuse l db
      else case Mc_readAuthorityKeys cfg consumer keyID of
        None \<Rightarrow> refuse l db
      | Some publicKey \<Rightarrow>
          if length publicKey \<noteq> PublicKeySize then refuse l db
          else case bounded_body r of
            None \<Rightarrow> (Inl (writeReadAuthorityError ''limit_exceeded'' ''unavailable'' False False), l, db)
          | Some body \<Rightarrow>
              (case read_authority_text c r body of
                 None \<Rightarrow> refuse l db
               | Some canonical \<Rightarrow>
                   if \<not> signed_with (Mc_ed25519 cfg) publicKey canonical signatureText then refuse l db
                   else case Allow (Mc_visit cfg) consumer (time_now (e 1)) l of
                     (False, l) \<Rightarrow> (Inl (writeReadAuthorityError ''limit_exceeded'' ''unavailable'' True False), l, db)
                   | (True, l) \<Rightarrow>
                       (case ReserveReadAuthorityNonce (e 2) consumer nonce (time_now (e 2))
                               (time_now (e 2) + seconds (24 * 60 * 60)) db of
                          (Inl x, db) \<Rightarrow>
                            if x \<in> Store ` {ErrReadAuthorityNonceReplay, ErrInvalidReadAuthorityNonce} then refuse l db
                            else (Inl (writeReadAuthorityError ''unavailable'' ''unavailable'' True False), l, db)
                        | (Inr _, db) \<Rightarrow> (Inr consumer, l, db))))"

section \<open>The handlers of the read authority\<close>

text \<open>Decoding \<^verbatim>\<open>[]EntityKind\<close>: \<^verbatim>\<open>null\<close> leaves an element alone.\<close>

fun put_strings :: "string list \<Rightarrow> json list \<Rightarrow> string list option" where
  "put_strings old [] = Some []"
| "put_strings old (JStr s # vs) = map_option ((#) s) (put_strings (tl old) vs)"
| "put_strings old (JNull # vs) = map_option ((#) (if old = [] then [] else hd old)) (put_strings (tl old) vs)"
| "put_strings old (v # vs) = None"

definition put_snapshot_request :: "string \<Rightarrow> json \<Rightarrow> SnapshotRequest \<Rightarrow> SnapshotRequest option" where
  "put_snapshot_request k v q =
     (if k = ''ENTITY_KINDS''
      then (case v of
              JArr vs \<Rightarrow> map_option (\<lambda>ks. q\<lparr>Srq_EntityKinds := ks\<rparr>) (put_strings (Srq_EntityKinds q) vs)
            | JNull \<Rightarrow> Some (q\<lparr>Srq_EntityKinds := []\<rparr>)
            | _ \<Rightarrow> None)
      else if k = ''EXPIRES_IN_SECONDS'' then set_int Srq_ExpiresInSeconds_update v q
      else None)"

definition readAuthoritySnapshotMetadata :: "ReadAuthoritySnapshot \<Rightarrow> json" where
  "readAuthoritySnapshotMetadata s =
     JObj [(''version'', JStr VersionV2), (''snapshot_id'', JStr (Sn_SnapshotID s)), (''consumer'', JStr (Sn_Consumer s)),
       (''contract_version'', JStr VersionV2), (''source_cursor'', JStr (Sn_SourceCursor s)),
       (''checksum_algorithm'', JStr (Sn_ChecksumAlgorithm s)), (''checksum'', JStr (Sn_Checksum s)),
       (''created_at'', JStr (formatTime (Sn_CreatedAt s))), (''expires_at'', JStr (formatTime (Sn_ExpiresAt s))),
       (''record_count'', JInt (Sn_RecordCount s)), (''page_size'', JInt (Sn_PageSize s)), (''complete'', JBool (Sn_Complete s))]"

definition createReadAuthoritySnapshot :: "machine_config \<Rightarrow> crypto \<Rightarrow> env \<Rightarrow> string \<Rightarrow> machine_request \<Rightarrow> db \<Rightarrow> snapshots \<Rightarrow>
    json http_response \<times> snapshots" where
  "createReadAuthoritySnapshot cfg c e consumer r db sn =
     (case decodeJSON put_snapshot_request \<lparr>Srq_EntityKinds = [], Srq_ExpiresInSeconds = 0\<rparr> (bounded_body r) of
        None \<Rightarrow> (writeReadAuthorityError ''invalid_request'' ''unavailable'' False False, sn)
      | Some q \<Rightarrow>
          if ValidateSnapshotRequest q \<noteq> Inr () then (writeReadAuthorityError ''invalid_request'' ''unavailable'' False False, sn)
          else case CreateReadAuthoritySnapshot c e (Mc_migration_seed cfg) consumer (Srq_EntityKinds q)
                      (seconds (Srq_ExpiresInSeconds q)) SnapshotMaxPageSize (time_now e) db sn of
            (Inl x, sn) \<Rightarrow> (writeReadAuthorityStoreError x, sn)
          | (Inr s, sn) \<Rightarrow> (writeReadAuthorityResponse 201 (readAuthoritySnapshotMetadata s), sn))"

definition readAuthorityLimit :: "string \<Rightarrow> int \<Rightarrow> int option" where
  "readAuthorityLimit value maximum =
     (if TrimSpace value = [] then Some maximum
      else case Atoi value of None \<Rightarrow> None | Some n \<Rightarrow> if 0 < n \<and> n \<le> maximum then Some n else None)"

definition readAuthorityDomainRecord :: "Record \<Rightarrow> Record" where
  "readAuthorityDomainRecord r = readAuthorityRecordToDomain r"

definition null_or :: "string \<Rightarrow> json" where
  "null_or s = (if s = [] then JNull else JStr s)"

definition listReadAuthoritySnapshotRecords :: "crypto \<Rightarrow> env \<Rightarrow> string \<Rightarrow> machine_request \<Rightarrow> snapshots \<Rightarrow> json http_response" where
  "listReadAuthoritySnapshotRecords c e consumer r sn =
     (case readAuthorityLimit (query_Get r ''limit'') SnapshotMaxPageSize of
        None \<Rightarrow> writeReadAuthorityError ''limit_exceeded'' ''unavailable'' False False
      | Some limit \<Rightarrow>
          (case ListReadAuthoritySnapshotRecords c consumer (rq_param r ''snapshotID'') (query_Get r ''entity_kind'')
                  (query_Get r ''after'') limit (time_now e) sn of
             Inl x \<Rightarrow> writeReadAuthorityStoreError x
           | Inr page \<Rightarrow>
               let records = map readAuthorityDomainRecord (Pg_Records page) in
               if list_ex (\<lambda>q. ValidateRecordVersion VersionV2 q \<noteq> Inr ()) records
               then writeReadAuthorityError ''checksum_mismatch'' ''blocked'' False False
               else writeReadAuthorityResponse 200 (JObj [(''version'', JStr VersionV2),
                 (''snapshot_id'', JStr (Sn_SnapshotID (Pg_Snapshot page))),
                 (''source_cursor'', JStr (Sn_SourceCursor (Pg_Snapshot page))), (''checksum'', JStr (Sn_Checksum (Pg_Snapshot page))),
                 (''records'', JArr (map (\<lambda>q. JObj (record_fields q)) records)),
                 (''next_cursor'', null_or (Pg_NextCursor page)), (''complete'', JBool (Pg_Complete page))])))"

text \<open>
  A \<^verbatim>\<open>json.RawMessage\<close> is written compacted and with the same characters escaped as in strings; it is
  put into a document as text, for which \<^const>\<open>JNum\<close> stands.
\<close>

fun compact :: "bool \<Rightarrow> string \<Rightarrow> string" where
  "compact inside [] = []"
| "compact inside (a # s) =
     (if \<not> inside \<and> byte a \<in> {9, 10, 13, 32} then compact inside s
      else if inside \<and> a = backslash then (case s of [] \<Rightarrow> [a] | b # t \<Rightarrow> a # b # compact inside t)
      else if byte a \<in> {38, 60, 62} then u_escape (byte a) @ compact inside s
      else if take 2 s = map char_of [128 :: nat, 168] \<and> byte a = 226 then u_escape 8232 @ compact inside (drop 2 s)
      else if take 2 s = map char_of [128 :: nat, 169] \<and> byte a = 226 then u_escape 8233 @ compact inside (drop 2 s)
      else a # compact (if a = quote_char then \<not> inside else inside) s)"

definition RawMessage :: "string \<Rightarrow> json option" where
  "RawMessage raw = (if json_Valid raw then Some (JNum (compact False raw)) else None)"

definition change_json :: "OutboxEvent \<Rightarrow> json option" where
  "change_json ev =
     map_option (\<lambda>payload. JObj [(''cursor'', JStr (SourceCursor (GlobalCursor ev))),
       (''event'', JObj [(''event_id'', JStr (EventID ev)), (''event_type'', JStr (EventType ev)),
          (''aggregate_type'', JStr (AggregateType ev)), (''aggregate_id'', JStr (AggregateID ev)),
          (''sequence'', JInt (Sequence ev)), (''schema_version'', JInt (SchemaVersion ev)),
          (''occurred_at'', JStr (formatTime (OccurredAt ev))), (''payload'', payload)])]) (RawMessage (Payload ev))"

definition listReadAuthorityChanges :: "env \<Rightarrow> machine_request \<Rightarrow> db \<Rightarrow> json http_response" where
  "listReadAuthorityChanges e r db =
     (let value = TrimSpace (query_Get r ''after'') in
      case (if value = [] then Inr 0 else ParseSourceCursor value) of
        Inl _ \<Rightarrow> writeReadAuthorityError ''invalid_request'' ''unavailable'' False False
      | Inr after \<Rightarrow>
          (case readAuthorityLimit (query_Get r ''limit'') ChangeMaxPageSize of
             None \<Rightarrow> writeReadAuthorityError ''limit_exceeded'' ''unavailable'' False False
           | Some limit \<Rightarrow>
               (case ListPlatformEventsAfter e after limit db of
                  Inl x \<Rightarrow> writeReadAuthorityStoreError x
                | Inr feed \<Rightarrow>
                    (let changes = map change_json (Feed_Events feed) in
                     if None \<in> set changes then writeReadAuthorityError ''blocked'' ''blocked'' False False
                     else writeReadAuthorityResponse 200 (JObj [(''version'', JStr VersionV2), (''state'', JStr ''current''),
                       (''source_cursor'', JStr (SourceCursor (Feed_SourceCursor feed))), (''changes'', JArr (map the changes)),
                       (''next_cursor'', if Feed_HasMore feed then JStr (SourceCursor (Feed_NextCursor feed)) else JNull),
                       (''has_more'', JBool (Feed_HasMore feed))])))))"

definition readAuthorityStatus :: "string \<Rightarrow> db \<Rightarrow> json http_response" where
  "readAuthorityStatus consumer db =
     (case PlatformEventCursorBounds db of
        (current, horizon) \<Rightarrow>
          writeReadAuthorityResponse 200 (JObj [(''version'', JStr VersionV2), (''consumer'', JStr consumer),
            (''contract_version'', JStr VersionV2), (''state'', JStr ''current''), (''ready'', JBool True),
            (''source_cursor'', JStr (SourceCursor current)), (''retention_horizon'', JStr (SourceCursor horizon))]))"

section \<open>Membership commands\<close>

abbreviation "CommandVersion \<equiv> ''platform.membership-command.v1''"

definition membershipCommandMessage :: "string \<Rightarrow> string" where
  "membershipCommandMessage code =
     (if code = ''version_mismatch'' then ''command contract version is not supported''
      else if code = ''unauthenticated'' then ''command authentication failed''
      else if code = ''forbidden'' then ''command is not authorised''
      else if code = ''invalid_request'' then ''command request is invalid''
      else if code = ''conflict'' then ''command conflicts with current membership state''
      else if code = ''stale'' then ''actor assertion is stale''
      else if code = ''limit_exceeded'' then ''command rate or size limit exceeded''
      else if code = ''unavailable'' then ''command service is unavailable''
      else ''command failed'')"

definition command_error :: "string \<Rightarrow> bool \<Rightarrow> json http_response" where
  "command_error code retryable =
     writeJSON (StatusForCode code) (JObj [(''version'', JStr CommandVersion), (''code'', JStr code),
       (''retryable'', JBool retryable), (''message'', JStr (membershipCommandMessage code))])"

definition membershipCommandAudience :: "string \<Rightarrow> string \<times> string" where
  "membershipCommandAudience consumer =
     (if consumer = ConsumerIMS then (''tockrims'', ProductIMS) else (''tockrctrl'', ProductCTRL))"

definition writeMembershipCommandStoreError :: "err \<Rightarrow> json http_response" where
  "writeMembershipCommandStoreError x =
     (if x \<in> Store ` {ErrMembershipCommandConflict, ErrMembershipCommandReplayMismatch, ErrDuplicateOrganisationMember,
           ErrDuplicateWorkspaceMember}
      then command_error ''conflict'' False
      else if x \<in> Store ` {ErrUnauthorisedOrganisationAction, ErrUnauthorisedWorkspaceAction, ErrOwnerMutationNotAuthorised,
           ErrOrganisationNotFound, ErrOrganisationArchived, ErrWorkspaceNotFound, ErrWorkspaceArchived, ErrMembershipNotFound,
           ErrWorkspaceMembershipNotFound}
      then command_error ''forbidden'' False
      else if x \<in> {Domain ErrInvalidOrganisationRole, Domain ErrInvalidWorkspaceRole, Domain ErrInvalidReason,
           Store ErrMembershipCommandUnsupported}
      then command_error ''invalid_request'' False
      else command_error ''unavailable'' True)"

definition command_text :: "crypto \<Rightarrow> machine_request \<Rightarrow> string \<Rightarrow> string option" where
  "command_text c r body =
     (case canonicalReadAuthorityPath r of
        None \<Rightarrow> None
      | Some path \<Rightarrow>
          if request_header r ActorHeader = [] then None
          else case CanonicalRequestWithActor c (rq_method r) path (BodyDigest c body) (BodyDigest c (request_header r ActorHeader))
                  (request_header r ConsumerHeader) (request_header r KeyIDHeader) (request_header r TimestampHeader) (request_header r NonceHeader) of
             Inl _ \<Rightarrow> None
           | Inr canonical \<Rightarrow> Some canonical)"

text \<open>The first half of the handler, up to the reservation of the nonce: the body, or the code of a refusal.\<close>

definition command_guard :: "machine_config \<Rightarrow> crypto \<Rightarrow> (nat \<Rightarrow> env) \<Rightarrow> machine_request \<Rightarrow> Issuer option \<Rightarrow> rate \<Rightarrow> db \<Rightarrow>
    (string \<times> bool + string) \<times> rate \<times> db" where
  "command_guard cfg c e r issuer l db =
     (let consumer = request_header r ConsumerHeader; keyID = request_header r KeyIDHeader; timestamp = request_header r TimestampHeader;
          nonce = request_header r NonceHeader; signatureText = request_header r SignatureHeader; now = time_now (e 2);
          refuse = (\<lambda>l db. (Inl (''unauthenticated'', False), l, db)) in
      if request_header r CommandVersionHeader \<noteq> CommandVersion then (Inl (''version_mismatch'', False), l, db)
      else if \<not> ValidateConsumer consumer \<or> \<not> ValidateKeyID keyID \<or> \<not> ValidateTimestamp timestamp \<or> \<not> ValidateNonce nonce \<or>
              signatureText = [] then refuse l db
      else case Mc_membershipCommandKeys cfg consumer keyID of
        None \<Rightarrow> refuse l db
      | Some publicKey \<Rightarrow>
          if length publicKey \<noteq> PublicKeySize then refuse l db
          else if (case Atoi timestamp of None \<Rightarrow> True | Some parsed \<Rightarrow> \<not> in_skew parsed now) then refuse l db
          else case bounded_body r of
            None \<Rightarrow> (Inl (''invalid_request'', False), l, db)
          | Some body \<Rightarrow>
              (case command_text c r body of
                 None \<Rightarrow> refuse l db
               | Some canonical \<Rightarrow>
                   if \<not> signed_with (Mc_ed25519 cfg) publicKey canonical signatureText then refuse l db
                   else if issuer = None then (Inl (''unavailable'', True), l, db)
                   else case Allow (Mc_visit cfg) (''membership-command:'' @ consumer) now l of
                     (False, l) \<Rightarrow> (Inl (''limit_exceeded'', True), l, db)
                   | (True, l) \<Rightarrow>
                       (case ReserveReadAuthorityNonce (e 2) consumer nonce now (now + seconds (24 * 60 * 60)) db of
                          (Inl x, db) \<Rightarrow>
                            if x \<in> Store ` {ErrReadAuthorityNonceReplay, ErrInvalidReadAuthorityNonce} then refuse l db
                            else (Inl (''unavailable'', True), l, db)
                        | (Inr _, db) \<Rightarrow> (Inr body, l, db))))"

definition put_command :: "string \<Rightarrow> json \<Rightarrow> Request \<Rightarrow> Request option" where
  "put_command k v q =
     (if k = ''SCOPE'' then set_string Cmd_Scope_update v q
      else if k = ''OPERATION'' then set_string Cmd_Operation_update v q
      else if k = ''ORGANISATION_ID'' then set_string Cmd_OrganisationID_update v q
      else if k = ''WORKSPACE_ID'' then set_string Cmd_WorkspaceID_update v q
      else if k = ''USER_ID'' then set_string Cmd_UserID_update v q
      else if k = ''ROLE'' then set_string Cmd_Role_update v q
      else if k = ''REASON'' then set_string Cmd_Reason_update v q
      else if k = ''IDEMPOTENCY_KEY'' then set_string Cmd_IdempotencyKey_update v q
      else if k = ''EXPECTED_VERSION'' then set_int Cmd_ExpectedVersion_update v q
      else None)"

definition zero_command :: Request where
  "zero_command = \<lparr>Cmd_Scope = [], Cmd_Operation = [], Cmd_OrganisationID = [], Cmd_WorkspaceID = [], Cmd_UserID = [],
     Cmd_Role = [], Cmd_Reason = [], Cmd_IdempotencyKey = [], Cmd_ExpectedVersion = 0\<rparr>"

definition command_json :: "Request \<Rightarrow> json" where
  "command_json q =
     JObj ([(''scope'', JStr (Cmd_Scope q)), (''operation'', JStr (Cmd_Operation q))] @
       omitempty ''organisation_id'' (Cmd_OrganisationID q) @ omitempty ''workspace_id'' (Cmd_WorkspaceID q) @
       [(''user_id'', JStr (Cmd_UserID q))] @ omitempty ''role'' (Cmd_Role q) @
       [(''reason'', JStr (Cmd_Reason q)), (''idempotency_key'', JStr (Cmd_IdempotencyKey q)),
        (''expected_version'', JInt (Cmd_ExpectedVersion q))])"

definition command_response :: "string \<Rightarrow> Request \<Rightarrow> MembershipCommandResult \<Rightarrow> json" where
  "command_response consumer q res =
     JObj ([(''version'', JStr CommandVersion), (''consumer'', JStr consumer), (''scope'', JStr (Cmd_Scope q)),
        (''operation'', JStr (Cmd_Operation q)), (''membership_id'', JStr (Res_MembershipID res))] @
       omitempty ''organisation_id'' (Res_OrganisationID res) @ omitempty ''workspace_id'' (Res_WorkspaceID res) @
       [(''user_id'', JStr (Res_UserID res))] @ omitempty ''role'' (Res_Role res) @
       [(''active'', JBool (Res_Active res)), (''membership_version'', JInt (Res_MembershipVersion res))] @
       (if Res_Replay res then [(''replay'', JBool True)] else []))"

fun failure_code :: "FailureClass \<Rightarrow> string \<times> bool" where
  "failure_code FailureForbidden = (''forbidden'', False)"
| "failure_code FailureStale = (''stale'', False)"
| "failure_code FailureUnavailable = (''unavailable'', True)"
| "failure_code FailureVersionMismatch = (''version_mismatch'', False)"
| "failure_code FailureUnauthenticated = (''unauthenticated'', False)"

definition store_request :: "crypto \<Rightarrow> string \<Rightarrow> Request \<Rightarrow> Claims \<Rightarrow> gotime \<Rightarrow> MembershipCommandRequest" where
  "store_request c consumer q claims now =
     \<lparr>Req_Consumer = consumer, Req_Scope = Cmd_Scope q, Req_Operation = Cmd_Operation q,
      Req_OrganisationID = Cmd_OrganisationID q, Req_WorkspaceID = Cmd_WorkspaceID q, Req_UserID = Cmd_UserID q,
      Req_Role = Cmd_Role q, Req_Reason = Cmd_Reason q, Req_IdempotencyKey = Cmd_IdempotencyKey q,
      Req_ExpectedVersion = Cmd_ExpectedVersion q, Req_RequestHash = BodyDigest c (Marshal (command_json q)),
      Req_ActorUserID = Cl_PlatformUserID claims, Req_OccurredAt = now\<rparr>"

text \<open>The second half: the body is decoded, the actor's assertion verified, and the command executed.\<close>

definition run_command :: "machine_config \<Rightarrow> crypto \<Rightarrow> (nat \<Rightarrow> env) \<Rightarrow> machine_request \<Rightarrow> string \<Rightarrow> machine \<Rightarrow> json http_response \<times> machine" where
  "run_command cfg c e r body m =
     (let consumer = request_header r ConsumerHeader; now = time_now (e 2) in
      case decodeJSON put_command zero_command (Some body) of
        None \<Rightarrow> (command_error ''invalid_request'' False, m)
      | Some q \<Rightarrow>
          if ValidateRequest q \<noteq> Inr () then (command_error ''invalid_request'' False, m)
          else case VerifyForProduct (Mc_ed25519 cfg) (e 3) (M_issuer m) (request_header r ActorHeader)
                      (fst (membershipCommandAudience consumer)) (snd (membershipCommandAudience consumer)) now of
            (Inl failure, issuer) \<Rightarrow>
              (command_error (fst (failure_code failure)) (snd (failure_code failure)), m\<lparr>M_issuer := issuer\<rparr>)
          | (Inr claims, issuer) \<Rightarrow>
              if Cmd_Scope q = ScopeOrganisation \<and> Cl_PlatformOrganisationID claims \<noteq> Cmd_OrganisationID q \<or>
                 Cmd_Scope q = ScopeWorkspace \<and> Cl_PlatformWorkspaceID claims \<noteq> Cmd_WorkspaceID q
              then (command_error ''forbidden'' False, m\<lparr>M_issuer := issuer\<rparr>)
              else case ExecuteMembershipCommand (e 4) (store_request c consumer q claims now) (M_db m) of
                (Inl x, db) \<Rightarrow> (writeMembershipCommandStoreError x, m\<lparr>M_issuer := issuer, M_db := db\<rparr>)
              | (Inr res, db) \<Rightarrow> (writeJSON 200 (command_response consumer q res), m\<lparr>M_issuer := issuer, M_db := db\<rparr>))"

definition membershipCommand :: "machine_config \<Rightarrow> crypto \<Rightarrow> (nat \<Rightarrow> env) \<Rightarrow> machine_request \<Rightarrow> machine \<Rightarrow> json http_response \<times> machine" where
  "membershipCommand cfg c e r m =
     (case command_guard cfg c e r (M_issuer m) (M_rate m) (M_db m) of
        (Inl (code, retryable), l, db) \<Rightarrow> (command_error code retryable, m\<lparr>M_rate := l, M_db := db\<rparr>)
      | (Inr body, l, db) \<Rightarrow> run_command cfg c e r body (m\<lparr>M_rate := l, M_db := db\<rparr>))"

section \<open>The machine routes\<close>

datatype machine_route = SnapshotsRoute | SnapshotRecordsRoute | ChangesRoute | StatusRoute | MembershipCommandsRoute

definition read_authority_handler :: "machine_config \<Rightarrow> crypto \<Rightarrow> env \<Rightarrow> machine_route \<Rightarrow> string \<Rightarrow> machine_request \<Rightarrow> machine \<Rightarrow>
    json http_response \<times> machine" where
  "read_authority_handler cfg c e route consumer r m =
     (case route of
        SnapshotsRoute \<Rightarrow>
          (case createReadAuthoritySnapshot cfg c e consumer r (M_db m) (M_snapshots m) of (rsp, sn) \<Rightarrow> (rsp, m\<lparr>M_snapshots := sn\<rparr>))
      | SnapshotRecordsRoute \<Rightarrow> (listReadAuthoritySnapshotRecords c e consumer r (M_snapshots m), m)
      | ChangesRoute \<Rightarrow> (listReadAuthorityChanges e r (M_db m), m)
      | _ \<Rightarrow> (readAuthorityStatus consumer (M_db m), m))"

definition serve :: "machine_config \<Rightarrow> crypto \<Rightarrow> machine_route \<Rightarrow> (nat \<Rightarrow> env) \<Rightarrow> machine_request \<Rightarrow> machine \<Rightarrow> json http_response \<times> machine" where
  "serve cfg c route e r m =
     (if route = MembershipCommandsRoute then membershipCommand cfg c e r m
      else case requireReadAuthority cfg c e r (M_rate m) (M_db m) of
        (Inl rsp, l, db) \<Rightarrow> (rsp, m\<lparr>M_rate := l, M_db := db\<rparr>)
      | (Inr consumer, l, db) \<Rightarrow> read_authority_handler cfg c (e 3) route consumer r (m\<lparr>M_rate := l, M_db := db\<rparr>))"

text \<open>A request gets past the authentication.\<close>

definition admitted :: "machine_config \<Rightarrow> crypto \<Rightarrow> machine_route \<Rightarrow> (nat \<Rightarrow> env) \<Rightarrow> machine_request \<Rightarrow> machine \<Rightarrow> bool" where
  "admitted cfg c route e r m \<longleftrightarrow>
     (if route = MembershipCommandsRoute then \<not> isl (fst (command_guard cfg c e r (M_issuer m) (M_rate m) (M_db m)))
      else \<not> isl (fst (requireReadAuthority cfg c e r (M_rate m) (M_db m))))"

section \<open>What authentication establishes\<close>

definition authentic :: "ed25519 \<Rightarrow> (string \<Rightarrow> string \<Rightarrow> string option) \<Rightarrow> machine_request \<Rightarrow> string option \<Rightarrow> bool" where
  "authentic ed keys r canonical \<longleftrightarrow>
     (\<exists>publicKey text. keys (request_header r ConsumerHeader) (request_header r KeyIDHeader) = Some publicKey \<and> canonical = Some text \<and>
        signed_with ed publicKey text (request_header r SignatureHeader))"

definition timestamp_of :: "machine_request \<Rightarrow> int" where
  "timestamp_of r = (case Atoi (request_header r TimestampHeader) of None \<Rightarrow> 0 | Some n \<Rightarrow> n)"

lemma request_header_trimmed [simp]: "TrimSpace (request_header r k) = request_header r k"
  by (simp add: request_header_def)

lemma read_authority_admitted:
  assumes "requireReadAuthority cfg c e r l db = (Inr consumer, l', db')"
  obtains body where "consumer = request_header r ConsumerHeader" "bounded_body r = Some body"
    "authentic (Mc_ed25519 cfg) (Mc_readAuthorityKeys cfg) r (read_authority_text c r body)"
    "in_skew (timestamp_of r) (time_now (e 0))"
    "ReserveReadAuthorityNonce (e 2) (request_header r ConsumerHeader) (request_header r NonceHeader) (time_now (e 2))
       (time_now (e 2) + seconds (24 * 60 * 60)) db = (Inr (), db')"
  using assms
  by (auto simp: requireReadAuthority_def Let_def authentic_def validReadAuthorityTimestamp_def timestamp_of_def
      split: if_splits option.splits prod.splits bool.splits sum.splits)

lemma command_admitted:
  assumes "command_guard cfg c e r issuer l db = (Inr body, l', db')"
  shows "bounded_body r = Some body" "authentic (Mc_ed25519 cfg) (Mc_membershipCommandKeys cfg) r (command_text c r body)"
    "in_skew (timestamp_of r) (time_now (e 2))"
    "ReserveReadAuthorityNonce (e 2) (request_header r ConsumerHeader) (request_header r NonceHeader) (time_now (e 2))
       (time_now (e 2) + seconds (24 * 60 * 60)) db = (Inr (), db')"
  using assms
  by (auto simp: command_guard_def Let_def authentic_def timestamp_of_def
      split: if_splits option.splits prod.splits bool.splits sum.splits)

section \<open>A signed request is admitted once\<close>

lemma reserve_refused: "ReserveReadAuthorityNonce e c n at x db = (Inl y, db') \<Longrightarrow> db' = db"
  using reserve_nonce.atomic [of "(c, n, at, x)"] by simp

lemma read_authority_refused: "requireReadAuthority cfg c e r l db = (Inl rsp, l', db') \<Longrightarrow> db' = db"
  by (auto simp: requireReadAuthority_def Let_def dest: reserve_refused
      split: if_splits option.splits prod.splits bool.splits sum.splits)

lemma command_refused: "command_guard cfg c e r issuer l db = (Inl x, l', db') \<Longrightarrow> db' = db"
  by (auto simp: command_guard_def Let_def dest: reserve_refused
      split: if_splits option.splits prod.splits bool.splits sum.splits)

lemma run_command_nonces:
  "platform_read_authority_nonces (M_db (snd (run_command cfg c e r body m))) = platform_read_authority_nonces (M_db m)"
proof -
  have "platform_read_authority_nonces (snd (ExecuteMembershipCommand e q db)) = platform_read_authority_nonces db" for e q db
    by (rule writes_frame(18) [OF membership_command.run_writes]) simp
  then show ?thesis
    by (auto simp: run_command_def Let_def split: option.splits prod.splits sum.splits) (metis snd_conv)+
qed

lemma handler_database [simp]: "M_db (snd (read_authority_handler cfg c e route consumer r m)) = M_db m"
  by (auto simp: read_authority_handler_def split: machine_route.splits prod.splits)

lemma serve_refused: "\<not> admitted cfg c route e r m \<Longrightarrow> M_db (snd (serve cfg c route e r m)) = M_db m"
  by (auto simp: admitted_def serve_def membershipCommand_def split: if_splits prod.splits sum.splits
      dest: read_authority_refused command_refused)

lemma serve_admitted:
  assumes "admitted cfg c route e r m"
  obtains db where "ReserveReadAuthorityNonce (e 2) (request_header r ConsumerHeader) (request_header r NonceHeader) (time_now (e 2))
      (time_now (e 2) + seconds (24 * 60 * 60)) (M_db m) = (Inr (), db)"
    and "platform_read_authority_nonces (M_db (snd (serve cfg c route e r m))) = platform_read_authority_nonces db"
    and "in_skew (timestamp_of r) (time_now (e (if route = MembershipCommandsRoute then 2 else 0)))"
proof (cases "route = MembershipCommandsRoute")
  case True
  then obtain body l db where g: "command_guard cfg c e r (M_issuer m) (M_rate m) (M_db m) = (Inr body, l, db)"
    using assms by (cases "command_guard cfg c e r (M_issuer m) (M_rate m) (M_db m)"; cases "fst (command_guard cfg c e r (M_issuer m) (M_rate m) (M_db m))")
      (auto simp: admitted_def)
  with True that [of db] command_admitted [OF g] run_command_nonces [of cfg c e r body "m\<lparr>M_rate := l, M_db := db\<rparr>"]
  show ?thesis by (simp add: serve_def membershipCommand_def)
next
  case False
  then obtain consumer l db where g: "requireReadAuthority cfg c e r (M_rate m) (M_db m) = (Inr consumer, l, db)"
    using assms by (cases "requireReadAuthority cfg c e r (M_rate m) (M_db m)"; cases "fst (requireReadAuthority cfg c e r (M_rate m) (M_db m))")
      (auto simp: admitted_def)
  then have "M_db (snd (serve cfg c route e r m)) = db" using False by (simp add: serve_def)
  with g False that [of db] show ?thesis by (elim read_authority_admitted) simp
qed

text \<open>
  Requests arrive one after the other. In between, anything else may happen to the service: other
  requests change the tables, the counters are lost by a restart, assertions are issued; only the table
  of nonces is written by nothing else.
\<close>

datatype presentation = Signed machine_route machine_request | Interlude machine

fun present :: "machine_config \<Rightarrow> crypto \<Rightarrow> (nat \<Rightarrow> env) \<Rightarrow> presentation \<Rightarrow> machine \<Rightarrow> bool \<times> machine" where
  "present cfg c e (Signed route r) m = (admitted cfg c route e r m, snd (serve cfg c route e r m))"
| "present cfg c e (Interlude m') m =
     (False, m'\<lparr>M_db := (M_db m')\<lparr>platform_read_authority_nonces := platform_read_authority_nonces (M_db m)\<rparr>\<rparr>)"

text \<open>The clock moves forward while a request is served, by an hour at most, and stays in four-digit years.\<close>

definition clock_ok :: "(nat \<Rightarrow> env) \<Rightarrow> bool" where
  "clock_ok e \<longleftrightarrow> time_now (e 0) \<le> time_now (e 2) \<and> time_now (e 2) \<le> time_now (e 0) + seconds 3600 \<and>
     plain_time (time_now (e 2)) \<and> plain_time (time_now (e 2) + seconds (24 * 60 * 60))"

fun request_key :: "presentation \<Rightarrow> (string \<times> string) option" where
  "request_key (Signed route r) = Some (request_header r ConsumerHeader, request_header r NonceHeader)"
| "request_key (Interlude m) = None"

definition nonce_held :: "(string \<times> string) option \<Rightarrow> (nat \<Rightarrow> env) \<Rightarrow> machine \<Rightarrow> bool" where
  "nonce_held k e m \<longleftrightarrow> plain_time (time_now (e 2)) \<and>
     (\<exists>x \<in> set (platform_read_authority_nonces (M_db m)). k = Some (nc_consumer_key x, nc_nonce x) \<and>
        plain_time (nc_expires_at x) \<and> Unix (time_now (e 2)) < Unix (nc_expires_at x))"

fun request_live :: "presentation \<Rightarrow> (nat \<Rightarrow> env) \<Rightarrow> bool" where
  "request_live (Signed route r) e \<longleftrightarrow> plain_time (time_now (e 2)) \<and> Unix (time_now (e 2)) < timestamp_of r - 300 + 86400"
| "request_live (Interlude m) e \<longleftrightarrow> False"

lemma Unix_mono: "a \<le> b \<Longrightarrow> Unix a \<le> Unix b"
  by (simp add: Unix_def zdiv_mono1)

lemma Unix_plus: "Unix (a + seconds n) = Unix a + n"
  by (simp add: Unix_def)

interpretation signed: replay_guard "\<lambda>e p m. (clock_ok e \<and> fst (present cfg c e p m), snd (present cfg c e p m))"
  request_key nonce_held request_live
  "\<lambda>e u. plain_time (time_now (e 2)) \<and> Unix (time_now (e 2)) \<le> Unix (time_now (u 2))"
  for cfg c
proof unfold_locales
  fix cfg c and e u :: "nat \<Rightarrow> env" and p :: presentation and m m' :: machine and ok and k :: "(string \<times> string) option"
  let ?now = "time_now (e 2)" and ?until = "time_now (e 2) + seconds (24 * 60 * 60)"
  { assume "(clock_ok e \<and> fst (present cfg c e p m), snd (present cfg c e p m)) = (True, m')"
    then obtain route r where clock: "clock_ok e" and p: "p = Signed route r" and adm: "admitted cfg c route e r m"
      and m': "m' = snd (serve cfg c route e r m)" by (cases p) auto
    obtain db where res: "ReserveReadAuthorityNonce (e 2) (request_header r ConsumerHeader) (request_header r NonceHeader) ?now ?until (M_db m) = (Inr (), db)"
      and rows: "platform_read_authority_nonces (M_db m') = platform_read_authority_nonces db"
      and skew: "in_skew (timestamp_of r) (time_now (e (if route = MembershipCommandsRoute then 2 else 0)))"
      using serve_admitted [OF adm] m' by metis
    show "\<not> nonce_held (request_key p) e m"
      using reserve_ok(1) [OF res] p by (auto simp: nonce_held_def reserved_def dest: time_text_less_seconds)
    have "timestamp_of r - 300 + 86400 \<le> Unix ?until"
      using skew clock Unix_mono [of "time_now (e 0)" ?now] Unix_plus [of ?now "24 * 60 * 60"]
      by (auto simp: in_skew_def clock_ok_def split: if_splits)
    with clock show "request_live p u \<Longrightarrow> nonce_held (request_key p) u m'"
      unfolding nonce_held_def rows reserve_rows [OF res] by (auto simp: p clock_ok_def) }
  assume step: "(clock_ok e \<and> fst (present cfg c e p m), snd (present cfg c e p m)) = (ok, m')"
    and "plain_time ?now \<and> Unix ?now \<le> Unix (time_now (u 2))" and held: "nonce_held k u m"
  then have order: "time_text_less ?now x" if "plain_time x" "Unix (time_now (u 2)) < Unix x" for x
    using that by (auto intro: time_text_less_seconds)
  show "nonce_held k u m'"
  proof (cases "\<exists>route r. p = Signed route r \<and> admitted cfg c route e r m")
    case True
    then obtain route r where "p = Signed route r" "admitted cfg c route e r m" by blast
    with step held order show ?thesis
      by (elim serve_admitted) (auto simp: nonce_held_def reserve_rows)
  next
    case False
    then show ?thesis using step held by (cases p) (auto simp: nonce_held_def serve_refused)
  qed
qed

lemma accepted_clock:
  assumes "\<forall>q \<in> set ps. clock_ok (fst q)"
  shows "accepted (\<lambda>e p m. (clock_ok e \<and> fst (present cfg c e p m), snd (present cfg c e p m))) ps m =
    accepted (present cfg c) ps m"
  using assms by (induction ps arbitrary: m) (auto simp: Let_def split: prod.splits)

text \<open>
  C27: A signed request opens a machine endpoint once. Take any sequence of signed
  requests to the endpoints of the read authority and of the membership commands, interleaved with
  arbitrary other activity that leaves the table of nonces alone, on a clock that does not run
  backwards. Two requests of one consumer with the same nonce and timestamp, so in particular a
  request and a copy of it, are never both admitted, whatever endpoints they are sent to and however
  late the copy arrives: by the time the nonce has expired the timestamp is out of its window.
\<close>

theorem signed_request_once:
  assumes "i < j" "j < length ps" and "snd (ps ! i) = Signed route r" "snd (ps ! j) = Signed route' r'"
    and "request_header r' ConsumerHeader = request_header r ConsumerHeader" "request_header r' NonceHeader = request_header r NonceHeader"
    and "request_header r' TimestampHeader = request_header r TimestampHeader"
    and "\<forall>q \<in> set ps. clock_ok (fst q)" and "\<forall>k < j. time_now (fst (ps ! k) 2) \<le> time_now (fst (ps ! j) 2)"
  shows "\<not> (accepted (present cfg c) ps m ! i \<and> accepted (present cfg c) ps m ! j)"
proof
  assume acc: "accepted (present cfg c) ps m ! i \<and> accepted (present cfg c) ps m ! j"
  have clock: "clock_ok (fst (ps ! k))" if "k \<le> j" for k using that assms(2,8) by simp
  from acc have "\<not> request_live (snd (ps ! i)) (fst (ps ! j))"
    using assms(1-6,9) clock accepted_clock [OF assms(8), of cfg c m]
    by (intro signed.accepted_once [where cfg = cfg and c = c and s = m]) (auto simp: clock_ok_def intro: Unix_mono)
  with clock [of j] assms(3) have late: "timestamp_of r - 300 + 86400 \<le> Unix (time_now (fst (ps ! j) 2))"
    by (auto simp: clock_ok_def not_less)
  from acc assms(2,4) obtain m' where "admitted cfg c route' (fst (ps ! j)) r' m'"
    using accepted_present [of j ps "present cfg c" m] by auto
  then have "Unix (time_now (fst (ps ! j) 2)) \<le> timestamp_of r' + 300 + 3600"
    using clock [of j] Unix_mono [of "time_now (fst (ps ! j) 2)" "time_now (fst (ps ! j) 0) + seconds 3600"] Unix_plus [of _ 3600]
    by (elim serve_admitted) (auto simp: in_skew_def clock_ok_def split: if_splits)
  with late assms(7) show False by (simp add: timestamp_of_def)
qed

section \<open>Who a command acts for\<close>

lemma only_nonces: "writes {Nonces} db db' \<Longrightarrow> \<exists>ns. db' = db\<lparr>platform_read_authority_nonces := ns\<rparr>"
  using writes_frame [of "{Nonces}" db db'] by (intro exI [of _ "platform_read_authority_nonces db'"]) (auto intro: db.equality)

lemma command_error_status: "400 \<le> Rsp_status (command_error code retryable)"
  by (simp add: command_error_def writeJSON_def StatusForCode_def)

lemma VerifyForProduct_Inr:
  assumes "VerifyForProduct ed e issuer token audience key now = (Inr claims, issuer')" "\<not> IsZero now"
  obtains i where "issuer = Some i" "token_claims ed i token = Inr claims" "validateClaims i claims now = Inr ()"
    "map_of (prune_replayed now (Iss_replayed i)) (Cl_AssertionID claims) = None" "Cl_Audience claims = TrimSpace audience"
    "ProductForAudience audience = Some (TrimSpace key)"
proof -
  from assms(1) have v: "Verify ed e issuer token now = (Inr claims, issuer')"
    and "Cl_Audience claims = TrimSpace audience" "ProductForAudience audience = Some (TrimSpace key)"
    by (auto simp: VerifyForProduct_def split: option.splits if_splits prod.splits sum.splits)
  moreover from v obtain i where "issuer = Some i" by (cases issuer) (auto simp: Verify_def)
  ultimately show thesis using Verify_Inr [of ed e i token now claims issuer'] assms(2) that by simp
qed

text \<open>
  The actor of a command: the assertion in its header, verified for the product of the consumer, names
  the user, and the organisation or workspace the command is about.
\<close>

definition vouched :: "machine_config \<Rightarrow> machine_request \<Rightarrow> Issuer option \<Rightarrow> gotime \<Rightarrow> Request \<Rightarrow> Claims \<Rightarrow> bool" where
  "vouched cfg r issuer now q claims \<longleftrightarrow>
     (\<exists>i. issuer = Some i \<and> token_claims (Mc_ed25519 cfg) i (request_header r ActorHeader) = Inr claims \<and>
        validateClaims i claims now = Inr () \<and> map_of (prune_replayed now (Iss_replayed i)) (Cl_AssertionID claims) = None) \<and>
     Cl_Audience claims = (if request_header r ConsumerHeader = ConsumerIMS then ''tockrims'' else ''tockrctrl'') \<and>
     (Cmd_Scope q = ScopeOrganisation \<longrightarrow> Cl_PlatformOrganisationID claims = Cmd_OrganisationID q) \<and>
     (Cmd_Scope q = ScopeWorkspace \<longrightarrow> Cl_PlatformWorkspaceID claims = Cmd_WorkspaceID q)"

lemma trimmed_audience: "TrimSpace (fst (membershipCommandAudience consumer)) = fst (membershipCommandAudience consumer)"
proof -
  have "TrimSpace ''tockrims'' = ''tockrims''" "TrimSpace ''tockrctrl'' = ''tockrctrl''"
    by (simp_all add: TrimSpace_graphic graphic_def)
  then show ?thesis unfolding membershipCommandAudience_def by (simp only: fst_conv split: if_split) simp
qed

lemma store_error_status: "400 \<le> Rsp_status (writeMembershipCommandStoreError x)"
  unfolding writeMembershipCommandStoreError_def by (simp only: command_error_status split: if_split) simp

lemma command_refuses: "ExecuteMembershipCommand e q db = (Inl x, db') \<Longrightarrow> db' = db"
  by (rule membership_command.atomic)

lemma run_command_core:
  assumes "run_command cfg c e r body m = (rsp, m')"
  shows "M_db m' = M_db m \<and> 400 \<le> Rsp_status rsp \<or>
    (\<exists>q claims issuer res. decodeJSON put_command zero_command (Some body) = Some q \<and> ValidateRequest q = Inr () \<and>
      VerifyForProduct (Mc_ed25519 cfg) (e 3) (M_issuer m) (request_header r ActorHeader)
        (fst (membershipCommandAudience (request_header r ConsumerHeader))) (snd (membershipCommandAudience (request_header r ConsumerHeader)))
        (time_now (e 2)) = (Inr claims, issuer) \<and>
      (Cmd_Scope q = ScopeOrganisation \<longrightarrow> Cl_PlatformOrganisationID claims = Cmd_OrganisationID q) \<and>
      (Cmd_Scope q = ScopeWorkspace \<longrightarrow> Cl_PlatformWorkspaceID claims = Cmd_WorkspaceID q) \<and>
      ExecuteMembershipCommand (e 4) (store_request c (request_header r ConsumerHeader) q claims (time_now (e 2))) (M_db m) = (Inr res, M_db m') \<and>
      rsp = writeJSON 200 (command_response (request_header r ConsumerHeader) q res))"
  using assms unfolding run_command_def Let_def
  by (simp split: option.splits if_split_asm prod.splits sum.splits)
    (auto simp: command_error_status store_error_status dest: command_refuses)

lemma vouchedI:
  assumes "VerifyForProduct (Mc_ed25519 cfg) e issuer (request_header r ActorHeader)
        (fst (membershipCommandAudience (request_header r ConsumerHeader))) (snd (membershipCommandAudience (request_header r ConsumerHeader)))
        now = (Inr claims, issuer')" "\<not> IsZero now"
    and "Cmd_Scope q = ScopeOrganisation \<longrightarrow> Cl_PlatformOrganisationID claims = Cmd_OrganisationID q"
    and "Cmd_Scope q = ScopeWorkspace \<longrightarrow> Cl_PlatformWorkspaceID claims = Cmd_WorkspaceID q"
  shows "vouched cfg r issuer now q claims"
  using assms(1,2)
proof (rule VerifyForProduct_Inr)
  fix i
  assume i: "issuer = Some i" "token_claims (Mc_ed25519 cfg) i (request_header r ActorHeader) = Inr claims" "validateClaims i claims now = Inr ()"
    "map_of (prune_replayed now (Iss_replayed i)) (Cl_AssertionID claims) = None"
    and a: "Cl_Audience claims = TrimSpace (fst (membershipCommandAudience (request_header r ConsumerHeader)))"
  from a have "Cl_Audience claims = (if request_header r ConsumerHeader = ConsumerIMS then ''tockrims'' else ''tockrctrl'')"
    unfolding trimmed_audience by (simp only: membershipCommandAudience_def fst_conv split: if_split) simp
  with i assms(3,4) show ?thesis unfolding vouched_def by blast
qed

text \<open>
  C28: A machine command changes the database only on the word of both the consumer
  and the user it acts for. Either it is answered with an error and at most a nonce has been reserved;
  or the request carries a valid signature of one of the consumer's keys over its method, path, body and
  actor assertion, with a timestamp within five minutes and a nonce not seen before; the assertion is
  signed, in force, never presented before, issued for the consumer's own product and for the very
  organisation or workspace the command names; and what happens is that command, run as the user the
  assertion names.
\<close>

theorem command_authenticated:
  assumes "membershipCommand cfg c e r m = (rsp, m')" and "\<not> IsZero (time_now (e 2))"
  shows "400 \<le> Rsp_status rsp \<and> (\<exists>ns. M_db m' = (M_db m)\<lparr>platform_read_authority_nonces := ns\<rparr>) \<or>
    (\<exists>body q claims db res. bounded_body r = Some body \<and>
       authentic (Mc_ed25519 cfg) (Mc_membershipCommandKeys cfg) r (command_text c r body) \<and>
       in_skew (timestamp_of r) (time_now (e 2)) \<and>
       ReserveReadAuthorityNonce (e 2) (request_header r ConsumerHeader) (request_header r NonceHeader) (time_now (e 2))
         (time_now (e 2) + seconds (24 * 60 * 60)) (M_db m) = (Inr (), db) \<and>
       decodeJSON put_command zero_command (Some body) = Some q \<and> ValidateRequest q = Inr () \<and>
       vouched cfg r (M_issuer m) (time_now (e 2)) q claims \<and>
       ExecuteMembershipCommand (e 4) (store_request c (request_header r ConsumerHeader) q claims (time_now (e 2))) db = (Inr res, M_db m') \<and>
       Req_ActorUserID (store_request c (request_header r ConsumerHeader) q claims (time_now (e 2))) = Cl_PlatformUserID claims \<and>
       Rsp_status rsp = 200)"
proof (cases "command_guard cfg c e r (M_issuer m) (M_rate m) (M_db m)")
  case (fields g l db)
  show ?thesis
  proof (cases g)
    case (Inl x)
    have "db = M_db m" using fields Inl command_refused by simp
    then have "M_db m' = (M_db m)\<lparr>platform_read_authority_nonces := platform_read_authority_nonces (M_db m)\<rparr>"
      using assms(1) fields Inl by (cases x) (auto simp: membershipCommand_def)
    moreover have "400 \<le> Rsp_status rsp" using assms(1) fields Inl by (cases x) (auto simp: membershipCommand_def command_error_status)
    ultimately show ?thesis by blast
  next
    case (Inr body)
    note ok = command_admitted [OF fields [unfolded Inr]]
    have "writes {Nonces} (M_db m) db" using reserve_nonce.traced [of "(_, _, _, _)"] ok(4) by fastforce
    then obtain ns where ns: "db = (M_db m)\<lparr>platform_read_authority_nonces := ns\<rparr>" using only_nonces by blast
    have run: "run_command cfg c e r body (m\<lparr>M_rate := l, M_db := db\<rparr>) = (rsp, m')"
      using assms(1) fields Inr by (simp add: membershipCommand_def)
    from run_command_core [OF run] show ?thesis
    proof (elim disjE exE conjE)
      assume "M_db m' = M_db (m\<lparr>M_rate := l, M_db := db\<rparr>)" "400 \<le> Rsp_status rsp"
      with ns show ?thesis by auto
    next
      fix q claims issuer res
      assume q: "decodeJSON put_command zero_command (Some body) = Some q" "ValidateRequest q = Inr ()"
        and v: "VerifyForProduct (Mc_ed25519 cfg) (e 3) (M_issuer (m\<lparr>M_rate := l, M_db := db\<rparr>)) (request_header r ActorHeader)
          (fst (membershipCommandAudience (request_header r ConsumerHeader))) (snd (membershipCommandAudience (request_header r ConsumerHeader)))
          (time_now (e 2)) = (Inr claims, issuer)"
        and scope: "Cmd_Scope q = ScopeOrganisation \<longrightarrow> Cl_PlatformOrganisationID claims = Cmd_OrganisationID q"
          "Cmd_Scope q = ScopeWorkspace \<longrightarrow> Cl_PlatformWorkspaceID claims = Cmd_WorkspaceID q"
        and x: "ExecuteMembershipCommand (e 4) (store_request c (request_header r ConsumerHeader) q claims (time_now (e 2)))
          (M_db (m\<lparr>M_rate := l, M_db := db\<rparr>)) = (Inr res, M_db m')"
        and rsp: "rsp = writeJSON 200 (command_response (request_header r ConsumerHeader) q res)"
      have v': "vouched cfg r (M_issuer m) (time_now (e 2)) q claims"
        using vouchedI [OF v assms(2) scope] by simp
      have x': "ExecuteMembershipCommand (e 4) (store_request c (request_header r ConsumerHeader) q claims (time_now (e 2))) db = (Inr res, M_db m')"
        using x by simp
      have status: "Rsp_status rsp = 200" using rsp by (simp add: writeJSON_def)
      have actor: "Req_ActorUserID (store_request c (request_header r ConsumerHeader) q claims (time_now (e 2))) = Cl_PlatformUserID claims"
        by (simp add: store_request_def)
      show ?thesis
        by (rule disjI2, rule exI [of _ body], rule exI [of _ q], rule exI [of _ claims], rule exI [of _ db], rule exI [of _ res])
          (intro conjI ok q v' x' actor status)
    qed
  qed
qed

section \<open>The rate of a consumer is bounded\<close>

definition live_entry :: "gotime \<Rightarrow> rate \<Rightarrow> string \<Rightarrow> readAuthorityRateEntry option" where
  "live_entry t l k =
     (case map_of l k of None \<Rightarrow> None | Some x \<Rightarrow> if t < Rate_started x + readAuthorityRateWindow then Some x else None)"

definition rate_ok :: "string set \<Rightarrow> rate \<Rightarrow> bool" where
  "rate_ok K l \<longleftrightarrow> distinct (map fst l) \<and> fst ` set l \<subseteq> K \<and>
     (\<forall>k x. map_of l k = Some x \<longrightarrow> 0 \<le> Rate_count x \<and> Rate_count x \<le> RequestsPerMinute)"

lemma map_of_filter_entries:
  "distinct (map fst l) \<Longrightarrow> map_of (filter (\<lambda>(_, x). P x) l) k = (case map_of l k of None \<Rightarrow> None | Some x \<Rightarrow> if P x then Some x else None)"
  by (induction l) (auto split: option.splits simp: map_of_eq_None_iff image_iff)

lemma rate_ok_update:
  "rate_ok K l \<Longrightarrow> k \<in> K \<Longrightarrow> 0 \<le> Rate_count x \<Longrightarrow> Rate_count x \<le> RequestsPerMinute \<Longrightarrow> rate_ok K (AList.update k x l)"
  by (auto simp: rate_ok_def AList.update_conv' AList.dom_update intro!: AList.distinct_update)

text \<open>No more than 4096 keys are in use, so no counter is evicted.\<close>

lemma Allow_step:
  assumes "rate_ok K l" "finite K" "card K \<le> 4096" "k \<in> K"
  shows "Allow visit k t l = (let l1 = filter (\<lambda>(_, x). t < Rate_started x + readAuthorityRateWindow) l in
      case live_entry t l k of
        None \<Rightarrow> (True, AList.update k \<lparr>Rate_started = t, Rate_count = 1\<rparr> l1)
      | Some x \<Rightarrow> if RequestsPerMinute \<le> Rate_count x then (False, l1)
                  else (True, AList.update k (x\<lparr>Rate_count := Rate_count x + 1\<rparr>) l1))"
    and "rate_ok K (filter (\<lambda>(_, x). t < Rate_started x + readAuthorityRateWindow) l)"
    and "map_of (filter (\<lambda>(_, x). t < Rate_started x + readAuthorityRateWindow) l) = live_entry t l"
proof -
  let ?l = "filter (\<lambda>(_, x). t < Rate_started x + readAuthorityRateWindow) l"
  show look: "map_of ?l = live_entry t l"
    using assms(1) by (intro ext) (auto simp: map_of_filter_entries rate_ok_def live_entry_def split: option.splits)
  have "0 \<le> Rate_count x \<and> Rate_count x \<le> RequestsPerMinute" if "map_of ?l j = Some x" for j x
    using that assms(1) unfolding look rate_ok_def live_entry_def by (auto split: option.splits if_splits)
  then show ok: "rate_ok K ?l" using assms(1) by (auto simp: rate_ok_def distinct_map_filter)
  have "length ?l < 4096" if "live_entry t l k = None"
  proof -
    have "insert k (fst ` set ?l) \<subseteq> K" "k \<notin> fst ` set ?l" "distinct (map fst ?l)"
      using ok assms(4) that look [symmetric] by (auto simp: rate_ok_def map_of_eq_None_iff simp del: set_filter)
    then have "Suc (length ?l) \<le> card K"
      using card_mono [OF assms(2), of "insert k (fst ` set ?l)"] distinct_card [of "map fst ?l"] by simp
    with assms(3) show ?thesis by linarith
  qed
  moreover have "t < Rate_started x + readAuthorityRateWindow" if "live_entry t l k = Some x" for x
    using that by (auto simp: live_entry_def split: option.splits if_splits)
  ultimately show "Allow visit k t l = (let l1 = ?l in
      case live_entry t l k of
        None \<Rightarrow> (True, AList.update k \<lparr>Rate_started = t, Rate_count = 1\<rparr> l1)
      | Some x \<Rightarrow> if RequestsPerMinute \<le> Rate_count x then (False, l1)
                  else (True, AList.update k (x\<lparr>Rate_count := Rate_count x + 1\<rparr>) l1))"
    unfolding Allow_def Let_def look by (auto split: option.splits)
qed

text \<open>The requests of a consumer that are let through in the minute from \<open>w\<close>, of a sequence of requests.\<close>

fun allowed_within :: "(rate \<Rightarrow> rate) \<Rightarrow> string \<Rightarrow> gotime \<Rightarrow> (string \<times> gotime) list \<Rightarrow> rate \<Rightarrow> int" where
  "allowed_within visit consumer w [] l = 0"
| "allowed_within visit consumer w ((k, t) # xs) l =
     (case Allow visit k t l of (ok, l') \<Rightarrow>
        (if ok \<and> k = consumer \<and> w \<le> t \<and> t < w + readAuthorityRateWindow then 1 else 0) + allowed_within visit consumer w xs l')"

definition allowance :: "gotime \<Rightarrow> readAuthorityRateEntry option \<Rightarrow> int" where
  "allowance w entry =
     (case entry of None \<Rightarrow> RequestsPerMinute
      | Some x \<Rightarrow> (if w \<le> Rate_started x then 1 else 2) * RequestsPerMinute - Rate_count x)"

lemma allowed_late:
  "\<forall>(k, t) \<in> set xs. w + readAuthorityRateWindow \<le> t \<Longrightarrow> allowed_within visit consumer w xs l = 0"
  by (induction xs arbitrary: l) (auto split: prod.splits)

lemma rate_ok_step:
  assumes "rate_ok K l" "finite K" "card K \<le> 4096" "k \<in> K" "Allow visit k t l = (ok, l')"
  shows "rate_ok K l'"
proof -
  note s = Allow_step [OF assms(1-4), where t = t]
  have "0 \<le> Rate_count x" if "live_entry t l k = Some x" for x
    using s(2) that unfolding rate_ok_def s(3) by blast
  with s(2) assms(4,5) show ?thesis unfolding s(1) Let_def
    by (auto split: option.splits if_splits intro!: rate_ok_update)
qed

lemma allowed_from:
  assumes "rate_ok K l" "finite K" "card K \<le> 4096" "fst ` set xs \<subseteq> K" "sorted (map snd xs)" "\<forall>(k, t) \<in> set xs. w \<le> t"
  shows "allowed_within visit consumer w xs l \<le> allowance w (map_of l consumer)"
  using assms(1,4-)
proof (induction xs arbitrary: l)
  case Nil
  have "Rate_count x \<le> RequestsPerMinute" if "map_of l consumer = Some x" for x
    using Nil that by (auto simp: rate_ok_def)
  then show ?case by (fastforce simp: allowance_def split: option.splits)
next
  case (Cons q xs)
  obtain k t where q: "q = (k, t)" by force
  obtain ok l' where step: "Allow visit k t l = (ok, l')" by force
  note s = Allow_step [OF Cons.prems(1) assms(2,3), where t = t]
  have k: "k \<in> K" using Cons.prems(2) q by simp
  have ih: "allowed_within visit consumer w xs l' \<le> allowance w (map_of l' consumer)"
    using Cons.prems rate_ok_step [OF Cons.prems(1) assms(2,3) k step] by (intro Cons.IH) auto
  have bound: "0 \<le> Rate_count x \<and> Rate_count x \<le> RequestsPerMinute" if "map_of l consumer = Some x" for x
    using Cons.prems(1) that by (auto simp: rate_ok_def)
  show ?case
  proof (cases "w + readAuthorityRateWindow \<le> t")
    case True
    then have "\<forall>(k, t) \<in> set (q # xs). w + readAuthorityRateWindow \<le> t" using Cons.prems(3) q by auto
    then have "allowed_within visit consumer w (q # xs) l = 0" by (rule allowed_late)
    with bound show ?thesis by (auto simp: allowance_def split: option.splits)
  next
    case False
    have "w \<le> t" using Cons.prems(4) q by simp
    with False step s(1) [OF k] s(3) [OF k] ih bound q show ?thesis
      by (auto simp: allowance_def live_entry_def Let_def AList.update_conv' split: option.splits if_splits)
  qed
qed

text \<open>
  C38: The rate of a machine consumer is bounded. Whatever the order in which requests
  arrive, on a clock that does not run backwards and with no more keys in use than the limiter has room
  for, no minute sees more than twice the permitted number of requests of one consumer let through: the
  rest of one counting window and the whole of the next.
\<close>

theorem rate_bounded:
  assumes "sorted (map snd xs)" and "card (fst ` set xs) \<le> 4096"
  shows "allowed_within visit consumer w xs [] \<le> 2 * RequestsPerMinute"
proof -
  let ?K = "fst ` set xs"
  have "allowed_within visit consumer w ys l \<le> 2 * RequestsPerMinute"
    if "rate_ok ?K l" "fst ` set ys \<subseteq> ?K" "sorted (map snd ys)" for ys l
    using that
  proof (induction ys arbitrary: l)
    case (Cons q ys)
    obtain k t where q: "q = (k, t)" by force
    show ?case
    proof (cases "w \<le> t")
      case True
      then have "\<forall>(k, t) \<in> set (q # ys). w \<le> t" using Cons.prems(3) q by auto
      then have "allowed_within visit consumer w (q # ys) l \<le> allowance w (map_of l consumer)"
        using Cons.prems by (intro allowed_from [OF _ _ assms(2)]) auto
      moreover have "0 \<le> Rate_count x" if "map_of l consumer = Some x" for x
        using Cons.prems(1) that by (auto simp: rate_ok_def)
      ultimately show ?thesis by (fastforce simp: allowance_def split: option.splits if_splits)
    next
      case False
      obtain ok l' where step: "Allow visit k t l = (ok, l')" by force
      have "rate_ok ?K l'" using Cons.prems q by (intro rate_ok_step [OF Cons.prems(1) _ assms(2) _ step]) auto
      then have "allowed_within visit consumer w ys l' \<le> 2 * RequestsPerMinute" using Cons.prems by (intro Cons.IH) auto
      then show ?thesis using False q step by simp
    qed
  qed simp
  then show ?thesis using assms(1) by (simp add: rate_ok_def)
qed

end
