(* ===== verification/System.thy ===== *)
theory System
  imports Routes Login Machine Projections
begin

text \<open>
  The whole store as one transition system. A step is one call of a method that writes, with any
  arguments and any environment, whether it succeeds or fails; the reachable databases are those that
  steps lead to from the database the migrations create. The methods are the writing
  ones of the store behind the server (\<^verbatim>\<open>internal/store\<close>); snapshots of the read authority live in tables of
  their own and the production import is a tool of its own. The HTTP handlers move only along these steps.
\<close>

section \<open>Steps\<close>

inductive store_step :: "db \<Rightarrow> db \<Rightarrow> bool" for db where
  "store_step db (snd (CreateUser c e u p db))"
| "store_step db (snd (SetUserActive e pid active db))"
| "store_step db (snd (TouchLogin e pid at db))"
| "store_step db (snd (CreateSession c e u t k x db))"
| "store_step db (snd (EstablishSession c e u t k x l db))"
| "store_step db (snd (RevokeSession c e t at db))"
| "store_step db (snd (RevokeSessionAndRecordLogout c e t u at db))"
| "store_step db (snd (CleanupExpiredSessions e now limit db))"
| "store_step db (snd (RecordSecurityEvent e u ev det at db))"
| "store_step db (snd (CreateOrganisation e actor x reason at db))"
| "store_step db (snd (AddOrganisationMember e actor i u role reason at db))"
| "store_step db (snd (ChangeOrganisationMemberRole e actor i u role reason at db))"
| "store_step db (snd (DeactivateOrganisationMember e actor i u reason at db))"
| "store_step db (snd (ArchiveOrganisation e actor i reason at db))"
| "store_step db (snd (RenameOrganisation e actor i name reason at db))"
| "store_step db (snd (CreateWorkspace e actor i x reason at db))"
| "store_step db (snd (AddWorkspaceMember e actor i u role reason at db))"
| "store_step db (snd (ChangeWorkspaceMemberRole e actor i u role reason at db))"
| "store_step db (snd (DeactivateWorkspaceMember e actor i u reason at db))"
| "store_step db (snd (ArchiveWorkspace e actor i reason at db))"
| "store_step db (snd (RetireProduct e actor k reason at db))"
| "store_step db (snd (EntitleOrganisation e actor i k reason at db))"
| "store_step db (snd (RevokeOrganisationEntitlement e actor i x reason at db))"
| "store_step db (snd (AssignUserProduct e actor i u k reason at db))"
| "store_step db (snd (RevokeUserProduct e actor i x reason at db))"
| "store_step db (snd (MarkPlatformEventsPublished e ids at db))"
| "store_step db (snd (ExecuteMembershipCommand e r db))"
| "store_step db (snd (CleanupMembershipCommandResults e b n db))"
| "store_step db (snd (ReserveReadAuthorityNonce e c n at x db))"
| "store_step db (snd (VerifyMFA c key e u code db))"
| "store_step db (snd (UseRecoveryCode c e u code at db))"
| "store_step db (snd (CreateMFAEnrollment c key e u secret x db))"
| "store_step db (snd (CompleteMFAEnrollment c key e u t code hs at db))"
| "store_step db (snd (IngestPlatformProjectionEvent e ck ev at db))"
| "store_step db (snd (MarkPlatformProjectionEventApplied e ck i at db))"
| "store_step db (snd (ReconcilePlatformProjection e ck t i n at db))"
| "store_step db (snd (ResumePlatformProjection e ck t i at db))"
| "store_step db (snd (MarkPlatformProjectionUnavailable e ck t i r at db))"

inductive reachable :: "db \<Rightarrow> bool" where
  reachable_initial: "reachable initial_db"
| reachable_step: "reachable db \<Longrightarrow> store_step db db' \<Longrightarrow> reachable db'"

section \<open>What a step writes\<close>

abbreviation quiet_tables :: "tbl set" where
  "quiet_tables \<equiv> - {Inbox, Checkpoints, Enrollments}"

lemmas quiet_runs =
  create_user.run_writes [where i = "(c, u, p)" for c u p, simplified, THEN writes_mono]
  set_user_active.run_writes [where i = "(pid, active)" for pid active, simplified, THEN writes_mono]
  touch_login.run_writes [where i = "(pid, at)" for pid at, simplified, THEN writes_mono]
  create_session.run_writes [where i = "(c, u, t, k, x)" for c u t k x, simplified, THEN writes_mono]
  establish_session.run_writes [where i = "(c, u, t, k, x, l)" for c u t k x l, simplified, THEN writes_mono]
  revoke_session.run_writes [where i = "(c, t, at)" for c t at, simplified, THEN writes_mono]
  logout.run_writes [where i = "(c, t, u, at)" for c t u at, simplified, THEN writes_mono]
  cleanup_sessions.run_writes [where i = "(now, limit)" for now limit, simplified, THEN writes_mono]
  record_security_event.run_writes [where i = "(u, ev, det, at)" for u ev det at, simplified, THEN writes_mono]
  create_organisation.run_writes [where i = "(actor, x, reason, at)" for actor x reason at, simplified, THEN writes_mono]
  add_organisation_member.run_writes [where i = "(actor, i, u, role, reason, at)" for actor i u role reason at, simplified, THEN writes_mono]
  change_organisation_role.run_writes [where i = "(actor, i, u, role, reason, at)" for actor i u role reason at, simplified, THEN writes_mono]
  deactivate_organisation_member.run_writes [where i = "(actor, i, u, reason, at)" for actor i u reason at, simplified, THEN writes_mono]
  archive_organisation.run_writes [where i = "(actor, i, reason, at)" for actor i reason at, simplified, THEN writes_mono]
  rename_organisation.run_writes [where i = "(actor, i, name, reason, at)" for actor i name reason at, simplified, THEN writes_mono]
  create_workspace.run_writes [where i = "(actor, i, x, reason, at)" for actor i x reason at, simplified, THEN writes_mono]
  add_workspace_member.run_writes [where i = "(actor, i, u, role, reason, at)" for actor i u role reason at, simplified, THEN writes_mono]
  change_workspace_role.run_writes [where i = "(actor, i, u, role, reason, at)" for actor i u role reason at, simplified, THEN writes_mono]
  deactivate_workspace_member.run_writes [where i = "(actor, i, u, reason, at)" for actor i u reason at, simplified, THEN writes_mono]
  archive_workspace.run_writes [where i = "(actor, i, reason, at)" for actor i reason at, simplified, THEN writes_mono]
  retire_product.run_writes [where i = "(actor, k, reason, at)" for actor k reason at, simplified, THEN writes_mono]
  entitle_organisation.run_writes [where i = "(actor, i, k, reason, at)" for actor i k reason at, simplified, THEN writes_mono]
  revoke_entitlement.run_writes [where i = "(actor, i, x, reason, at)" for actor i x reason at, simplified, THEN writes_mono]
  assign_product.run_writes [where i = "(actor, i, u, k, reason, at)" for actor i u k reason at, simplified, THEN writes_mono]
  revoke_product.run_writes [where i = "(actor, i, x, reason, at)" for actor i x reason at, simplified, THEN writes_mono]
  publish_events.run_writes [where i = "(ids, at)" for ids at, simplified, THEN writes_mono]
  membership_command.run_writes [where i = r for r, THEN writes_mono]
  cleanup_commands.run_writes [where i = "(b, n)" for b n, simplified, THEN writes_mono]
  reserve_nonce.run_writes [where i = "(c, n, at, x)" for c n at x, simplified, THEN writes_mono]

lemmas enrollment_runs =
  verify_mfa.run_writes [where i = "(c, key, u, code)" for c key u code, simplified, THEN writes_mono]
  use_recovery_code.run_writes [where i = "(c, u, code, at)" for c u code at, simplified, THEN writes_mono]
  create_enrollment.run_writes [where i = "(c, key, u, secret, x)" for c key u secret x, simplified, THEN writes_mono]
  complete_enrollment.run_writes [where i = "(c, key, u, t, code, hs, at)" for c key u t code hs at, simplified, THEN writes_mono]

lemmas lane_runs =
  ingest.run_writes [where i = "(ck, ev, at)" for ck ev at, simplified, THEN writes_mono]
  apply_event.run_writes [where i = "(ck, i, at)" for ck i at, simplified, THEN writes_mono]
  reconcile.run_writes [where i = "(ck, t, i, n, at)" for ck t i n at, simplified, THEN writes_mono]
  resume.run_writes [where i = "(ck, t, i, at)" for ck t i at, simplified, THEN writes_mono]
  unavailable.run_writes [where i = "(ck, t, i, r, at)" for ck t i r at, simplified, THEN writes_mono]

lemmas lane_orders =
  ingest.keeps_order [where i = "(ck, ev, at)" for ck ev at, simplified, THEN conjunct1]
  apply_event.keeps_order [where i = "(ck, i, at)" for ck i at, simplified, THEN conjunct1]
  reconcile.keeps_order [where i = "(ck, t, i, n, at)" for ck t i n at, simplified, THEN conjunct1]
  resume.keeps_order [where i = "(ck, t, i, at)" for ck t i at, simplified, THEN conjunct1]
  unavailable.keeps_order [where i = "(ck, t, i, r, at)" for ck t i r at, simplified, THEN conjunct1]

lemma code_keeps_enrollments:
  "mfa_enrollments (snd (VerifyMFA c key e u code db)) = mfa_enrollments db"
  "mfa_enrollments (snd (UseRecoveryCode c e u code at db)) = mfa_enrollments db"
  by (auto simp: VerifyMFA_def verifyMFATx_def UseRecoveryCode_def useRecoveryCodeTx_def run_tx_def attempt_def exec_def need_def
      Let_def update_mfa_step_def use_recovery_def insert_security_event_def split: sum.splits option.splits if_splits prod.splits)

lemma code_attempts_bounded:
  "attempts_bounded db \<Longrightarrow> attempts_bounded (snd (VerifyMFA c key e u code db))"
  "attempts_bounded db \<Longrightarrow> attempts_bounded (snd (UseRecoveryCode c e u code at db))"
  by (simp_all add: attempts_bounded_def code_keeps_enrollments)

lemma store_step_kinds:
  assumes "store_step db db'"
  shows "writes quiet_tables db db' \<or>
    writes mfa_tables db db' \<and> (attempts_bounded db \<longrightarrow> attempts_bounded db') \<or>
    writes lane_tables db db' \<and> (inbox_ok db \<longrightarrow> applied_in_order db \<longrightarrow> applied_in_order db')"
  using assms
  by cases (simp_all add: quiet_runs enrollment_runs code_attempts_bounded create_attempts_bounded complete_attempts_bounded lane_runs lane_orders)

section \<open>Invariants of the reachable databases\<close>

lemma same_lanes:
  assumes "platform_projection_inbox db' = platform_projection_inbox db"
    and "platform_projection_checkpoints db' = platform_projection_checkpoints db"
  shows "applied_in_order db' = applied_in_order db"
  by (simp add: applied_in_order_def applied_sequences_def last_applied_def assms)

lemma same_enrollments: "mfa_enrollments db' = mfa_enrollments db \<Longrightarrow> attempts_bounded db' = attempts_bounded db"
  by (simp add: attempts_bounded_def)

lemma store_step_ok:
  assumes "store_step db db'" and "db_ok db" and "applied_in_order db" and "attempts_bounded db"
  shows "db_ok db' \<and> applied_in_order db' \<and> attempts_bounded db'"
  using store_step_kinds [OF assms(1)]
proof (elim disjE conjE)
  assume w: "writes quiet_tables db db'"
  from assms(3,4) same_lanes [OF writes_frame(16,17) [OF w]] same_enrollments [OF writes_frame(4) [OF w]] writes_db_ok [OF w assms(2)]
  show ?thesis by simp
next
  assume w: "writes mfa_tables db db'" "attempts_bounded db \<longrightarrow> attempts_bounded db'"
  from assms(3,4) same_lanes [OF writes_frame(16,17) [OF w(1)]] writes_db_ok [OF w(1) assms(2)] w(2) show ?thesis by simp
next
  assume w: "writes lane_tables db db'" "inbox_ok db \<longrightarrow> applied_in_order db \<longrightarrow> applied_in_order db'"
  from assms(3,4) same_enrollments [OF writes_frame(4) [OF w(1)]] writes_db_ok [OF w(1) assms(2)] w(2) assms(2)
  show ?thesis by (simp add: db_ok_def)
qed

lemma initial_ok: "applied_in_order initial_db" "attempts_bounded initial_db"
  by (simp_all add: applied_in_order_def applied_sequences_def last_applied_def attempts_bounded_def initial_db_def)

text \<open>
  C30: Every database the program can reach is well formed. Whatever methods are called,
  in whatever order, with whatever arguments and failures, starting from the freshly migrated
  database: identifiers are increasing, every unique key is unique, every reference resolves, roles and states are among the
  allowed ones, the sequence numbers of every aggregate have no gap, every consumer has applied the events of every aggregate
  exactly once and in order, and no enrollment counts more failed attempts than allowed.
\<close>

theorem reachable_well_formed:
  assumes "reachable db"
  shows "db_ok db \<and> applied_in_order db \<and> attempts_bounded db"
  using assms by induction (auto simp: initial_db_ok initial_ok dest: store_step_ok)

section \<open>The HTTP interface moves along the steps\<close>

lemma mutate_moves:
  "mutate c e r ctx put zero op errors reply db = (rsp, db') \<Longrightarrow> db' = db \<or> (\<exists>u q. db' = snd (op u q (e 1) db))"
  by (auto simp: mutate_def split: if_splits option.splits prod.splits sum.splits) (metis snd_conv)+

lemma mutate_ui_moves:
  "mutate_ui c e r ctx op location db = (rsp, db') \<Longrightarrow> db' = db \<or> (\<exists>u. db' = snd (op u (e 1) db))"
  by (auto simp: mutate_ui_def split: if_splits option.splits prod.splits sum.splits) (metis snd_conv)+

lemma scope_moves:
  "requireWorkspaceScope admin c now r next ctx db = (rsp, db') \<Longrightarrow> db' = db \<or> next ctx db = (rsp, db')"
  by (auto simp: requireWorkspaceScope_def split: option.splits sum.splits if_splits)

lemma reading_moves: "read_json c e r ctx query errors reply db = (rsp, db') \<Longrightarrow> db' = db"
  using read_json_db [of c e r ctx query errors reply db] by simp

lemma issuing_moves: "issueProductAssertion srv c e r ctx db = (rsp, db') \<Longrightarrow> db' = db"
  using issueProductAssertion_db [of srv c e r ctx db] by simp

lemmas handler_defs =
  createOrganisation_def renameOrganisation_def addOrganisationMember_def changeOrganisationMemberRole_def
  deactivateOrganisationMember_def archiveOrganisation_def createWorkspace_def addWorkspaceMember_def
  changeWorkspaceMemberRole_def deactivateWorkspaceMember_def archiveWorkspace_def retireProduct_def
  entitleOrganisation_def revokeOrganisationEntitlement_def assignUserProduct_def revokeUserProduct_def
  renameOrganisationUI_def archiveOrganisationUI_def addOrganisationMemberUI_def changeOrganisationMemberRoleUI_def
  deactivateOrganisationMemberUI_def createWorkspaceUI_def entitleOrganisationUI_def revokeOrganisationEntitlementUI_def
  assignUserProductUI_def revokeUserProductUI_def addWorkspaceMemberUI_def changeWorkspaceMemberRoleUI_def
  deactivateWorkspaceMemberUI_def archiveWorkspaceUI_def retireProductUI_def

lemma routed_moves:
  assumes "routed srv route c e r ctx db = (rsp, db')"
  shows "db' = db \<or> store_step db db'"
  using assms
  by (cases route)
    (auto simp: handler_defs reading_defs split: if_splits option.splits
      dest!: scope_moves mutate_moves mutate_ui_moves reading_moves issuing_moves intro: store_step.intros)

lemma reachable_move: "reachable db \<Longrightarrow> db' = db \<or> store_step db db' \<Longrightarrow> reachable db'"
  by (auto intro: reachable_step)

lemma call_result: "f = (v, db') \<Longrightarrow> store_step db (snd f) \<Longrightarrow> store_step db db'"
  by simp

lemma account_moves:
  "mfaSetup key c e r ctx db = (rsp, db') \<Longrightarrow> db' = db \<or> store_step db db'"
  "mfaConfirm key c e r ctx db = (rsp, db') \<Longrightarrow> db' = db \<or> store_step db db'"
  "logout cfg c e r ctx db = (rsp, db') \<Longrightarrow> db' = db \<or> store_step db db'"
  by (auto simp: mfaSetup_def mfaConfirm_def logout_def split: if_splits option.splits sum.splits prod.splits
      dest: call_result intro: store_step.intros)

lemma login_parts_move:
  "login_failed cfg visit e k u ev det now l db = (rsp, l', db') \<Longrightarrow> db' = db \<or> store_step db db'"
  "login_succeeded c cfg f k v now l db = (rsp, l', db') \<Longrightarrow> db' = db \<or> store_step db db'"
  by (auto simp: login_failed_def login_succeeded_def Let_def split: if_splits sum.splits prod.splits
      dest: call_result intro: store_step.intros)

lemma second_factor_reachable:
  assumes "reachable db" and "second_factor c key e r u now db = (v, db')"
  shows "reachable db'"
proof -
  have step: "reachable (snd (VerifyMFA c key (e 1) u code db))" for code
    by (rule reachable_step [OF assms(1)]) (rule store_step.intros)
  have "reachable (snd (UseRecoveryCode c (e 2) u code now d))" if "reachable d" for d code
    by (rule reachable_step [OF that]) (rule store_step.intros)
  with step assms show ?thesis by (auto simp: second_factor_def Let_def split: if_splits prod.splits dest: sym [of _ "(v, db')"]) (metis snd_conv)+
qed

lemma login_reachable:
  assumes "reachable db" and "login c key cfg visit e r l db = (rsp, l', db')"
  shows "reachable db'"
proof -
  have checked: "reachable db'" if "login_checked c key cfg visit e r email k now l1 db = (rsp, l', db')" for email k now l1
    using that assms(1)
    by (auto simp: login_checked_def Let_def split: option.splits if_splits sum.splits prod.splits bool.splits
        dest: login_parts_move second_factor_reachable intro: reachable_move)
  show ?thesis
    using assms checked by (auto simp: login_def Let_def split: if_splits option.splits prod.splits)
qed

lemma reserve_reachable:
  assumes "ReserveReadAuthorityNonce e c n at x db = (v, db')" and "reachable db"
  shows "reachable db'"
  using call_result [OF assms(1)] reachable_step [OF assms(2)] store_step.intros(29) by metis

lemma guard_reachable:
  assumes "reachable db"
  shows "requireReadAuthority cfg c e r l db = (x, l', db') \<Longrightarrow> reachable db'"
    and "command_guard cfg c e r issuer l db = (y, l', db') \<Longrightarrow> reachable db'"
  using assms
  by (auto simp: requireReadAuthority_def command_guard_def Let_def dest: reserve_reachable
      split: if_splits option.splits prod.splits bool.splits sum.splits)

lemma serve_reachable:
  assumes "reachable (M_db m)"
  shows "reachable (M_db (snd (serve mc c mroute e mr m)))"
proof (cases "mroute = MembershipCommandsRoute")
  case True
  have "reachable (M_db (snd (run_command mc c e mr body m')))" if "reachable (M_db m')" for body m'
  proof -
    obtain rsp m2 where run: "run_command mc c e mr body m' = (rsp, m2)" by force
    have "reachable (snd (ExecuteMembershipCommand e' q (M_db m')))" for e' q
      by (rule reachable_step [OF that]) (rule store_step.intros)
    with run_command_core [OF run] run that show ?thesis by (metis snd_conv)
  qed
  with True assms show ?thesis
    by (auto simp: serve_def membershipCommand_def split: prod.splits sum.splits dest: guard_reachable)
next
  case False
  with assms show ?thesis by (auto simp: serve_def split: prod.splits sum.splits dest: guard_reachable)
qed


end
