(* ===== verification/ScenarioHttp.thy ===== *)
theory ScenarioHttp
  imports System Launch ScenarioIdentity ScenarioAssertion
begin

text \<open>
  Requests to the HTTP interface on the example database: every property of the handlers that has a
  hypothesis is applied to a request for which it holds.
\<close>

section \<open>A signed-in user\<close>

definition http_env :: "nat \<Rightarrow> env" where
  "http_env k = (demo_env 1)\<lparr>time_now := first_time\<rparr>"

definition bob_db :: db where
  "bob_db = snd (EstablishSession demo_crypto (demo_env 1) ''usr_bob'' ''tok'' ''csrf'' demo_expiry demo_time demo_db)"

lemma bob_db_ok: "db_ok bob_db"
  using writes_db_ok [OF establish_session.run_writes demo_db_ok,
      of "(demo_crypto, ''usr_bob'', ''tok'', ''csrf'', demo_expiry, demo_time)" "demo_env 1"]
  by (simp add: bob_db_def)

definition demo_request :: "string \<Rightarrow> (string \<Rightarrow> string) \<Rightarrow> http_request" where
  "demo_request body form =
     \<lparr>rq_method = ''POST'', rq_path = ''/'',
      rq_header = (\<lambda>h. if h = ''X-CSRF-Token'' then ''csrf'' else ''application/json''),
      rq_cookie = (\<lambda>k. if k = ''platform_session'' then Some ''tok'' else if k = ''platform_csrf'' then Some ''csrf'' else None),
      rq_param = (\<lambda>k. if k = ''organisationID'' then ''org_a'' else if k = ''workspaceID'' then ''wsp_w''
                     else if k = ''productKey'' then ''product.tockrims'' else []),
      rq_query = (\<lambda>_. []), rq_form = form, rq_form_ok = True, rq_form_reads_body = False, rq_body = Some body,
      rq_remote = ''10.0.0.1:99''\<rparr>"

definition demo_server :: server where
  "demo_server = \<lparr>Srv_ed25519 = demo_ed, Srv_AssertionIssuer = Some demo_issuer\<rparr>"

section \<open>A mutation\<close>

definition json_text :: "(string \<times> string) list \<Rightarrow> string" where
  "json_text fs = Marshal (JObj (map (\<lambda>(k, v). (k, JStr v)) fs))"

abbreviation "demo_rename \<equiv>
  Handler demo_server demo_crypto http_env RenameOrganisationRoute
    (demo_request (json_text [(''name'', ''Beta''), (''reason'', ''new name'')]) (\<lambda>_. [])) demo_session_db"

lemma demo_rename_runs: "map o_name (organisations (snd demo_rename)) = [''Beta'']"
  by code_simp

lemma demo_session_name: "map o_name (organisations demo_session_db) = [''Acme'']"
  by code_simp


section \<open>Assertions\<close>

abbreviation "assertion_of audience \<equiv>
  Handler demo_server demo_crypto http_env IssueProductAssertionRoute
    (demo_request (json_text [(''audience'', audience)]) (\<lambda>_. [])) bob_db"

definition bob_session :: Authenticated_Session where
  "bob_session = projr (AuthenticatedSession demo_crypto ''tok'' first_time bob_db)"

lemma bob_signed_in: "AuthenticatedSession demo_crypto ''tok'' first_time bob_db = Inr bob_session"
  "Usr_ID (Auth_User bob_session) = ''usr_bob''"
proof -
  have "\<not> isl (AuthenticatedSession demo_crypto ''tok'' first_time bob_db)" by code_simp
  then show "AuthenticatedSession demo_crypto ''tok'' first_time bob_db = Inr bob_session" by (simp add: bob_session_def)
  show "Usr_ID (Auth_User bob_session) = ''usr_bob''" by code_simp
qed

lemma demo_request_simps [simp]:
  "rq_cookie (demo_request b f) ''platform_session'' = Some ''tok''" "rq_cookie (demo_request b f) ''platform_csrf'' = Some ''csrf''"
  "rq_param (demo_request b f) ''organisationID'' = ''org_a''" "rq_param (demo_request b f) ''workspaceID'' = ''wsp_w''"
  "rq_param (demo_request b f) ''productKey'' = ''product.tockrims''" "rq_form (demo_request b f) = f"
  "rq_form_ok (demo_request b f)" "rq_header (demo_request b f) ''X-CSRF-Token'' = ''csrf''" "rq_query (demo_request b f) k = []"
  "rq_remote (demo_request b f) = ''10.0.0.1:99''"
  by (simp_all add: demo_request_def)

lemma bob_csrf: "verifyMutationCSRF demo_crypto (demo_request b f) bob_db"
proof -
  have "VerifySessionCSRF demo_crypto ''tok'' ''csrf'' bob_db = Inr True" by code_simp
  then show ?thesis by (simp add: verifyMutationCSRF_def csrf_from_form_def)
qed

definition bob_access :: ProductAccess where
  "bob_access = \<lparr>PA_UserID = ''usr_bob'', PA_OrganisationID = ''org_a'', PA_ProductKey = ''product.tockrims'',
     PA_WorkspaceID = ''wsp_w'', PA_OrganisationRole = ''member'', PA_WorkspaceRole = ''member''\<rparr>"

lemma bob_may_launch: "ProveProductAccess (http_env k) ''usr_bob'' ''org_a'' ''product.tockrims'' ''wsp_w'' bob_db = Inr bob_access"
  unfolding http_env_def by code_simp

lemma issued_for:
  assumes "audience \<in> set (Iss_audiences demo_issuer)" "TrimSpace audience = audience"
  shows "\<not> isl (Issue demo_ed (http_env k) (Some demo_issuer) (assertion_request audience bob_access) first_time)"
proof -
  have "validScopeID ''usr_bob'' ''usr_''" "validScopeID ''org_a'' ''org_''" "validScopeID ''wsp_w'' ''wsp_''"
    by code_simp+
  with assms demo_times(1-3) show ?thesis
    by (simp add: Issue_def sign_def assertion_request_def bob_access_def demo_issuer_def http_env_def demo_env_def
        newAssertionID_def IsZero_def zero_time_def Let_def attempt_def)
qed

lemma bob_obtains:
  assumes "audience \<in> set (Iss_audiences demo_issuer)" "TrimSpace audience = audience"
    and "decodeJSON put_audience no_audience (body_left demo_crypto (demo_request (json_text [(''audience'', audience)]) (\<lambda>_. []))) =
      Some \<lparr>Pas_Audience = audience\<rparr>"
  shows "\<exists>rsp. assertion_of audience = (rsp, bob_db) \<and> Rsp_status rsp = 201"
proof -
  obtain x where x: "Issue demo_ed (http_env 2) (Some demo_issuer) (assertion_request audience bob_access) first_time = Inr x"
    using issued_for [OF assms(1,2), of 2] by (metis sum.collapse(2))
  have now: "time_now (http_env k) = first_time" for k by (simp add: http_env_def)
  have "TrimSpace ''tok'' \<noteq> []" by code_simp
  then show ?thesis
    using assms(3) bob_signed_in bob_csrf bob_may_launch x
    by (simp add: Handler_def requireSession_def loadSession_def issueProductAssertion_def session_def demo_server_def now)
qed

lemma demo_bodies:
  "decodeJSON put_audience no_audience (body_left demo_crypto (demo_request (json_text [(''audience'', ''tockrims'')]) (\<lambda>_. []))) =
     Some \<lparr>Pas_Audience = ''tockrims''\<rparr>"
  "decodeJSON put_audience no_audience (body_left demo_crypto (demo_request (json_text [(''audience'', ''tockrctrl'')]) (\<lambda>_. []))) =
     Some \<lparr>Pas_Audience = ''tockrctrl''\<rparr>"
  by code_simp+

lemma demo_audiences: "TrimSpace ''tockrims'' = ''tockrims''" "TrimSpace ''tockrctrl'' = ''tockrctrl''"
  by code_simp+

theorem assertion_needs_access_witness:
  "\<exists>(u :: user_row) (claims :: Claims). has_access (u_public_id u) ''org_a'' (TrimSpace ''product.tockrims'') ''wsp_w'' bob_db \<and>
     Rsp_status (fst (assertion_of ''tockrims'')) = 201 \<and> Cl_Audience claims = ''tockrims'' \<and>
     Cl_PlatformUserID claims = u_public_id u"
proof -
  obtain rsp where run: "assertion_of ''tockrims'' = (rsp, bob_db)" "Rsp_status rsp = 201"
    using bob_obtains [OF _ demo_audiences(1) demo_bodies(1)] by (auto simp: demo_issuer_def)
  from assertion_needs_access [OF bob_db_ok run] run demo_bodies(1) demo_audiences show ?thesis by auto
qed

text \<open>
  The audience of the assertion is whatever the body asks for: a user with access to one product
  only is given an assertion for the audience of another one.
\<close>

lemma audience_not_bound:
  "\<not> has_access ''usr_bob'' ''org_a'' ''product.tockrctrl'' ''wsp_w'' bob_db \<and>
   (\<exists>rsp. assertion_of ''tockrctrl'' = (rsp, bob_db) \<and> Rsp_status rsp = 201)"
proof
  have "access_rows ''usr_bob'' ''org_a'' ''product.tockrctrl'' ''wsp_w'' bob_db = []" by code_simp
  then show "\<not> has_access ''usr_bob'' ''org_a'' ''product.tockrctrl'' ''wsp_w'' bob_db"
    using access_rows_nonempty by blast
  show "\<exists>rsp. assertion_of ''tockrctrl'' = (rsp, bob_db) \<and> Rsp_status rsp = 201"
    using bob_obtains [OF _ demo_audiences(2) demo_bodies(2)] by (auto simp: demo_issuer_def)
qed

section \<open>The launcher\<close>

definition demo_targets :: targets where
  "demo_targets = [''product.tockrims'' \<mapsto> \<lparr>Tgt_URL = ''https://ims.io/in'', Tgt_Audience = ''tockrims''\<rparr>]"

abbreviation "demo_launcher \<equiv>
  launcherProps demo_targets demo_crypto first_time (demo_request [] (\<lambda>_. [])) (Some bob_session) ''usr_bob'' ''csrf'' bob_db"

lemma demo_launcher_runs:
  "\<not> isl demo_launcher" "Lp_OrganisationID (projr demo_launcher) = ''org_a''" "Lp_WorkspaceID (projr demo_launcher) = ''wsp_w''"
  by code_simp+

theorem launcher_offers_access_witness:
  "\<exists>props. demo_launcher = Inr props \<and>
     (''product.tockrims'' \<in> Popt_Key ` set (Lp_Products props) \<longleftrightarrow>
       has_access (TrimSpace ''usr_bob'') (TrimSpace ''org_a'') ''product.tockrims'' (TrimSpace ''wsp_w'') bob_db)"
proof -
  obtain props where run: "demo_launcher = Inr props" using demo_launcher_runs(1) by (metis sum.collapse(2))
  with demo_launcher_runs(2,3) launcher_offers_access [OF bob_db_ok run, of "''product.tockrims''"] show ?thesis by auto
qed

definition handoff_form :: "string \<Rightarrow> string" where
  "handoff_form k = (if k = ''organisation_id'' then ''org_a'' else if k = ''workspace_id'' then ''wsp_w'' else [])"

abbreviation "demo_handoff \<equiv>
  productHandoff demo_server demo_targets demo_crypto http_env (demo_request [] handoff_form) (Some bob_session) bob_db"

lemma demo_handoff_runs: "\<exists>props. Rsp_value demo_handoff = Some props"
proof -
  obtain x where x: "Issue demo_ed (http_env 2) (Some demo_issuer) (assertion_request ''tockrims'' bob_access) first_time = Inr x"
    using issued_for [OF _ demo_audiences(1), of 2] by (metis sum.collapse(2) demo_issuer_def Issuer.select_convs(5) list.set_intros(1))
  have now: "time_now (http_env k) = first_time" for k by (simp add: http_env_def)
  have trim: "TrimSpace ''product.tockrims'' = ''product.tockrims''" "TrimSpace ''org_a'' = ''org_a''"
      "TrimSpace ''wsp_w'' = ''wsp_w''" "TrimSpace ''csrf'' = ''csrf''"
    by code_simp+
  have "\<not> isl (ListLaunchableProducts ''usr_bob'' ''org_a'' ''wsp_w'' bob_db)"
    "map Prod_Key (projr (ListLaunchableProducts ''usr_bob'' ''org_a'' ''wsp_w'' bob_db)) = [''product.tockrims'']"
    by code_simp+
  then obtain p where p: "ListLaunchableProducts ''usr_bob'' ''org_a'' ''wsp_w'' bob_db = Inr [p]" "Prod_Key p = ''product.tockrims''"
    by (auto simp: map_eq_Cons_conv) (metis sum.collapse(2))
  have "PA_OrganisationID bob_access = ''org_a''" "PA_WorkspaceID bob_access = ''wsp_w''" by (simp_all add: bob_access_def)
  then show ?thesis
    using bob_signed_in bob_csrf bob_may_launch x p trim
    by (simp add: productHandoff_def uiSession_def session_def demo_server_def demo_targets_def handoff_form_def now split_def)
qed

theorem handoff_bound_witness:
  "\<exists>props. Rsp_value demo_handoff = Some props \<and> Php_TargetURL props = ''https://ims.io/in''"
proof -
  obtain props where run: "Rsp_value demo_handoff = Some props" using demo_handoff_runs by blast
  have "TrimSpace ''product.tockrims'' = ''product.tockrims''" by code_simp
  with handoff_bound [OF refl run] run show ?thesis by (auto simp: demo_targets_def)
qed

section \<open>Signing in\<close>

definition demo_login_config :: login_config where
  "demo_login_config =
     \<lparr>Lcf_CookieSecure = True, Lcf_AllowInsecureCookies = False, Lcf_SessionTTL = seconds 3600, Lcf_RateLimitEnabled = True,
      Lcf_LoginLimiter = \<lparr>FailureThreshold = 5, BaseBackoff = seconds 1, MaxBackoff = seconds 60, EntryTTL = seconds 900,
        MaxEntries = 100\<rparr>\<rparr>"

definition login_form :: "string \<Rightarrow> string" where
  "login_form k = (if k = ''csrf'' then ''pre'' else if k = ''email'' then ''ann@x.io'' else if k = ''password'' then ''h'' else [])"

definition login_request :: http_request where
  "login_request = (demo_request [] login_form)\<lparr>rq_cookie := [loginCSRFCookie \<mapsto> ''pre'']\<rparr>"

definition demo_limiter :: LoginLimiter where
  "demo_limiter = snd (NewServer demo_login_config)"

abbreviation "demo_signin \<equiv>
  login demo_crypto demo_key demo_login_config (\<lambda>xs. xs) http_env login_request demo_limiter demo_db"

lemma demo_signin_runs: "length (sessions (snd (snd demo_signin))) = 1" "sessions demo_db = []"
  by code_simp+


definition held_limiter :: LoginLimiter where
  "held_limiter = demo_limiter\<lparr>entries :=
     [(LoginAbuseKey demo_crypto ''ann@x.io'' ''10.0.0.1:99'',
       \<lparr>failures = 6, blockedUntil = first_time + 1500000000, lastSeen = first_time\<rparr>)]\<rparr>"

lemma demo_held:
  "fst (RetryAfter (LoginAbuseKey demo_crypto (login_email demo_crypto login_request) (rq_remote login_request)) first_time held_limiter) =
     (1500000000, True)"
  by code_simp

theorem login_throttled_witness:
  "\<exists>l1 rsp. login demo_crypto demo_key demo_login_config (\<lambda>xs. xs) http_env login_request held_limiter demo_db = (rsp, l1, demo_db) \<and>
     Rsp_status rsp = 429 \<and> Rsp_retry_after rsp = Some 2"
proof -
  have now: "time_now (http_env 0) = first_time" by (simp add: http_env_def)
  obtain l1 where run: "RetryAfter (LoginAbuseKey demo_crypto (login_email demo_crypto login_request) (rq_remote login_request))
      (time_now (http_env 0)) held_limiter = ((1500000000, True), l1)"
    using demo_held now by (metis prod.collapse)
  have "Lcf_RateLimitEnabled demo_login_config" "rq_form_ok login_request"
      "rq_cookie login_request loginCSRFCookie = Some (rq_form login_request ''csrf'')"
    by (simp_all add: demo_login_config_def login_request_def login_form_def)
  from login_throttled [where e = http_env, OF this run, of demo_key "\<lambda>xs. xs" demo_db] show ?thesis by fastforce
qed

section \<open>The system from its start\<close>

definition first_user_db :: db where
  "first_user_db = snd (CreateUser demo_crypto (demo_env 1)
     \<lparr>Usr_ID = ''usr_zoe'', Usr_Email = ''zoe@x.io'', Usr_DisplayName = ''Zoe'', Usr_PasswordHash = [], Usr_Active = True,
      Usr_MFAEnabled = False, Usr_CreatedAt = demo_time, Usr_LastLoginAt = None\<rparr> ''correct horse battery'' initial_db)"

lemma first_user_reachable: "reachable first_user_db"
  unfolding first_user_db_def by (rule reachable_step [OF reachable_initial]) (rule store_step.intros)

lemma first_user_stored: "map u_public_id (users first_user_db) = [''usr_zoe'']"
  by code_simp

theorem reachable_well_formed_witness:
  "map u_public_id (users first_user_db) = [''usr_zoe''] \<and>
   db_ok first_user_db \<and> applied_in_order first_user_db \<and> attempts_bounded first_user_db"
  using reachable_well_formed [OF first_user_reachable] first_user_stored by blast


end
