(* ===== verification/ScenarioSnapshot.thy ===== *)
theory ScenarioSnapshot
  imports Snapshot ScenarioIdentity
begin

text \<open>
  A snapshot of a small database: one user, created through the store, and the two products of the
  migrations. The properties of snapshots are applied to it.
\<close>

definition snapshot_crypto :: crypto where
  "snapshot_crypto = demo_crypto\<lparr>sha256 := (\<lambda>s. take 32 (drop 25 s @ replicate 64 (CHR ''x'')))\<rparr>"

definition snapshot_db :: db where
  "snapshot_db = snd (CreateUser demo_crypto (demo_env 1)
     \<lparr>Usr_ID = ''usr_zoe'', Usr_Email = ''zoe@x.io'', Usr_DisplayName = ''Zoe'', Usr_PasswordHash = [], Usr_Active = True,
      Usr_MFAEnabled = False, Usr_CreatedAt = demo_time, Usr_LastLoginAt = None\<rparr> ''correct horse battery'' initial_db)"

definition demo_seed :: readAuthorityMigrationSeed where
  "demo_seed = \<lparr>Seed_Version = 6, Seed_Name = ''product-entitlements'', Seed_Checksum = replicate 64 (CHR ''0'')\<rparr>"

definition no_snapshots :: snapshots where
  "no_snapshots = \<lparr>snapshot_rows = [], snapshot_record_rows = []\<rparr>"

definition demo_records :: "Record list" where
  "demo_records = projr (materializeReadAuthorityRecordsTx [''user'', ''product''] demo_seed snapshot_db)"

abbreviation "demo_snapshot \<equiv>
  CreateReadAuthoritySnapshot snapshot_crypto (demo_env 1) (Some demo_seed) ''tockrims'' [''product'', ''user''] (seconds 600) 0 demo_time
    snapshot_db no_snapshots"

lemma demo_materialized:
  "\<not> isl (materializeReadAuthorityRecordsTx [''user'', ''product''] demo_seed snapshot_db)"
  "map Rec_ID demo_records = [''usr_zoe'', ''product.tockrctrl'', ''product.tockrims'']"
  by code_simp+

lemma demo_kinds: "validateReadAuthorityKinds [''product'', ''user''] = Inr [''user'', ''product'']"
  by code_simp

lemma demo_records_are: "materializeReadAuthorityRecordsTx [''user'', ''product''] demo_seed snapshot_db = Inr demo_records"
  using demo_materialized(1) by (simp add: demo_records_def)


lemma demo_snapshot_runs:
  "case fst demo_snapshot of Inl _ \<Rightarrow> False | Inr s \<Rightarrow> Sn_ExpiresAt s = demo_time + seconds 600"
  by code_simp

lemma demo_plain_records: "list_all plain_record demo_records" "max_cursor (platform_outbox snapshot_db) = 1"
    "map Rec_ID (filter (wanted ''product'') demo_records) = [''product.tockrctrl'', ''product.tockrims'']"
  by code_simp+

theorem snapshot_walk_witness:
  "\<exists>s sn1 xs. demo_snapshot = (Inr s, sn1) \<and>
     walk 4 snapshot_crypto ''tockrims'' (Sn_SnapshotID s) ''product'' 1 (\<lambda>_. demo_time + seconds 5)
       (snd (CleanupReadAuthoritySnapshots ''tockrims'' (demo_time + seconds 3) 10 sn1)) [] = Some xs \<and>
     map Rec_ID xs = [''product.tockrctrl'', ''product.tockrims'']"
proof -
  obtain s sn1 where run: "demo_snapshot = (Inr s, sn1)" and x: "Sn_ExpiresAt s = demo_time + seconds 600"
    using demo_snapshot_runs by (cases demo_snapshot; cases "fst demo_snapshot") auto
  have times: "plain_time (demo_time + seconds 600)" "plain_time (demo_time + seconds 3)"
      "Unix (demo_time + seconds 3) < Unix (demo_time + seconds 600)"
    by code_simp+
  let ?sn2 = "snd (CleanupReadAuthoritySnapshots ''tockrims'' (demo_time + seconds 3) 10 sn1)"
  have after: "later snapshot_crypto (demo_time + seconds 3) sn1 ?sn2"
    by (rule later_cleanup [OF later_refl times(2)]) simp
  have "length demo_records = 3" using demo_materialized(2) by (metis length_map list.size(3,4) numeral_3_eq_3 One_nat_def add.commute plus_1_eq_Suc)
  moreover have "snapshots_ok no_snapshots" by (simp add: snapshots_ok_def no_snapshots_def)
  moreover have "''product'' \<in> set allowedEntityKinds" by (simp add: allowedEntityKinds_def)
  ultimately have "walk 4 snapshot_crypto ''tockrims'' (Sn_SnapshotID s) ''product'' 1 (\<lambda>_. demo_time + seconds 5) ?sn2 [] =
      Some (filter (wanted ''product'') demo_records)"
    using snapshot_walk [OF _ run demo_kinds demo_records_are demo_plain_records(1) _ _ _ after, where fuel = 4 and limit = 1
        and kind = "''product''" and at = "\<lambda>_. demo_time + seconds 5"] times x demo_plain_records(2)
    by simp
  with run demo_plain_records(3) show ?thesis by auto
qed

end
