(* ===== verification/ScenarioMachine.thy ===== *)
theory ScenarioMachine
  imports Machine ScenarioIdentity ScenarioAssertion
begin

text \<open>
  Signed machine requests on the example database: a membership command of the product TockrIMS for an
  administrator of the organisation, with the assertion issued to him, and its replay.
\<close>

definition machine_crypto :: crypto where
  "machine_crypto = demo_crypto\<lparr>sha256 := (\<lambda>s. replicate 32 (CHR ''x''))\<rparr>"

definition machine_env :: "int \<Rightarrow> nat \<Rightarrow> env" where
  "machine_env s k = (demo_env (40 + k))\<lparr>time_now := first_time + seconds s\<rparr>"

definition demo_machine_config :: machine_config where
  "demo_machine_config =
     \<lparr>Mc_ed25519 = demo_ed, Mc_readAuthorityKeys = (\<lambda>c k. if k = ''k1'' then Some (replicate 32 (CHR ''R'')) else None),
      Mc_membershipCommandKeys = (\<lambda>c k. if k = ''k1'' then Some (replicate 32 (CHR ''M'')) else None),
      Mc_migration_seed = None, Mc_visit = id\<rparr>"

definition demo_machine :: machine where
  "demo_machine =
     \<lparr>M_rate = [],
      M_db = demo_db
        \<lparr>organisation_memberships :=
           [(new_om ''omem_1'' 1 1 ''owner'' 1 demo_time 1)\<lparr>om_id := 1\<rparr>,
            (new_om ''omem_2'' 1 2 ''admin'' 1 demo_time 1)\<lparr>om_id := 2\<rparr>]\<rparr>,
      M_snapshots = \<lparr>snapshot_rows = [], snapshot_record_rows = []\<rparr>, M_issuer = Some demo_issuer\<rparr>"

definition demo_command :: Request where
  "demo_command =
     \<lparr>Cmd_Scope = ''organisation_membership'', Cmd_Operation = ''add'', Cmd_OrganisationID = ''org_a'', Cmd_WorkspaceID = [],
      Cmd_UserID = ''usr_eve'', Cmd_Role = ''member'', Cmd_Reason = ''join'', Cmd_IdempotencyKey = ''idem_1'', Cmd_ExpectedVersion = 0\<rparr>"

definition demo_command_request :: machine_request where
  "demo_command_request =
     \<lparr>rq_method = ''POST'', rq_path = ''/api/v1/membership-commands'',
      rq_header = (\<lambda>h.
        if h = CommandVersionHeader then CommandVersion
        else if h = ConsumerHeader then ''tockrims'' else if h = KeyIDHeader then ''k1''
        else if h = TimestampHeader then ''1790000000'' else if h = NonceHeader then ''n1''
        else if h = SignatureHeader then RawURLEncoding (replicate 64 (CHR ''S''))
        else if h = ActorHeader then demo_token first_time else ''application/json''),
      rq_cookie = (\<lambda>_. None), rq_param = (\<lambda>_. []), rq_query = (\<lambda>_. []), rq_form = (\<lambda>_. []), rq_form_ok = True,
      rq_form_reads_body = False, rq_body = Some (Marshal (command_json demo_command)), rq_remote = ''10.0.0.1:99'',
      Mrq_EscapedPath = ''/api/v1/membership-commands'', Mrq_RawQuery = []\<rparr>"

abbreviation "demo_run \<equiv> membershipCommand demo_machine_config machine_crypto (machine_env 0) demo_command_request demo_machine"

section \<open>The assertion as a header\<close>

lemma b64_char_is_graphic: "graphic (b64_char n)"
proof -
  have "\<forall>k \<in> set [0..<64]. graphic (b64_alphabet ! k)" by code_simp
  then show ?thesis by (simp add: b64_char_def)
qed

lemma RawURLEncoding_graphic:
  assumes "s \<noteq> []"
  shows "RawURLEncoding s \<noteq> []" "graphic (hd (RawURLEncoding s))" "graphic (last (RawURLEncoding s))"
proof -
  show "RawURLEncoding s \<noteq> []" using assms by (cases s rule: RawURLEncoding.cases) (auto simp: Let_def)
  then show "graphic (hd (RawURLEncoding s))" "graphic (last (RawURLEncoding s))"
    by (metis RawURLEncoding_chars b64_char_is_graphic hd_in_set last_in_set)+
qed

lemma demo_token_trimmed: "demo_token first_time \<noteq> [] \<and> TrimSpace (demo_token first_time) = demo_token first_time"
proof -
  have t: "demo_token first_time =
      RawURLEncoding (header_json \<lparr>Hd_Algorithm = ''Ed25519'', Hd_KeyID = ''k1'', Hd_Type = Type\<rparr>) @ ''.'' @
      RawURLEncoding (claims_json (demo_claims first_time)) @ ''.'' @ RawURLEncoding (replicate 64 (CHR ''S''))" (is "_ = ?h @ ''.'' @ ?p @ ''.'' @ ?s")
    using issued(2) [OF demo_first(1), symmetric] by (auto simp: sign_def demo_issuer_def demo_ed_def Let_def split: if_splits)
  have "header_json \<lparr>Hd_Algorithm = ''Ed25519'', Hd_KeyID = ''k1'', Hd_Type = Type\<rparr> \<noteq> []" by code_simp
  note h = RawURLEncoding_graphic [OF this]
  have "replicate 64 (CHR ''S'') \<noteq> []" by simp
  note l = RawURLEncoding_graphic [OF this]
  have "TrimSpace (demo_token first_time) = demo_token first_time"
    unfolding t
  proof (rule TrimSpace_graphic)
    show "graphic (hd (?h @ ''.'' @ ?p @ ''.'' @ ?s))" using h by (simp add: hd_append)
    show "graphic (last (?h @ ''.'' @ ?p @ ''.'' @ ?s))" using l by (simp only: last_appendR append_is_Nil_conv simp_thms)
  qed simp
  then show ?thesis using t by simp
qed

section \<open>The command is authenticated\<close>

lemma demo_headers:
  "request_header demo_command_request CommandVersionHeader = CommandVersion" "request_header demo_command_request ConsumerHeader = ''tockrims''"
  "request_header demo_command_request KeyIDHeader = ''k1''" "request_header demo_command_request TimestampHeader = ''1790000000''"
  "request_header demo_command_request NonceHeader = ''n1''" "request_header demo_command_request ActorHeader = demo_token first_time"
  "request_header demo_command_request SignatureHeader = RawURLEncoding (replicate 64 (CHR ''S''))"
proof -
  have "replicate 64 (CHR ''S'') \<noteq> []" by simp
  note l = RawURLEncoding_graphic [OF this]
  show "request_header demo_command_request SignatureHeader = RawURLEncoding (replicate 64 (CHR ''S''))"
    using TrimSpace_graphic [OF l] by (simp add: request_header_def demo_command_request_def)
qed (simp_all add: request_header_def demo_command_request_def TrimSpace_graphic graphic_def demo_token_trimmed)

lemma demo_digest: "BodyDigest machine_crypto s = hex_encode (replicate 32 (CHR ''x''))"
  by (simp add: BodyDigest_def machine_crypto_def)

lemma demo_text: "\<exists>t. command_text machine_crypto demo_command_request body = Some t"
proof -
  have "canonicalReadAuthorityPath demo_command_request = Some ''/api/v1/membership-commands''" by code_simp
  moreover have "validSHA256 (hex_encode (replicate 32 (CHR ''x'')))" by code_simp
  moreover have "TrimSpace ''POST'' \<noteq> []" "validToken ''tockrims''" "validToken ''k1''" "validToken ''1790000000''" "validToken ''n1''"
      "rq_method demo_command_request = ''POST''" "HasPrefix ''/api/v1/membership-commands'' ''/''"
    by code_simp+
  ultimately show ?thesis
    using demo_token_trimmed
    by (simp add: command_text_def demo_headers demo_digest CanonicalRequestWithActor_def CanonicalRequest_def)
qed

abbreviation "demo_body \<equiv> Marshal (command_json demo_command)"

definition demo_reserved_db :: db where
  "demo_reserved_db = snd (ReserveReadAuthorityNonce (machine_env 0 2) ''tockrims'' ''n1'' first_time
     (first_time + seconds (24 * 60 * 60)) (M_db demo_machine))"

lemma demo_reserves: "ReserveReadAuthorityNonce (machine_env 0 2) ''tockrims'' ''n1'' first_time
     (first_time + seconds (24 * 60 * 60)) (M_db demo_machine) = (Inr (), demo_reserved_db)"
proof -
  have "\<not> isl (fst (ReserveReadAuthorityNonce (machine_env 0 2) ''tockrims'' ''n1'' first_time
     (first_time + seconds (24 * 60 * 60)) (M_db demo_machine)))" by code_simp
  then show ?thesis unfolding demo_reserved_db_def by (rule ranE) simp
qed

lemma demo_guard: "\<exists>l. command_guard demo_machine_config machine_crypto (machine_env 0) demo_command_request (M_issuer demo_machine)
     (M_rate demo_machine) (M_db demo_machine) = (Inr demo_body, l, demo_reserved_db)"
proof -
  obtain t where t: "command_text machine_crypto demo_command_request demo_body = Some t" using demo_text by blast
  have now: "time_now (machine_env 0 2) = first_time" by (simp add: machine_env_def)
  have "ValidateConsumer ''tockrims''" "ValidateKeyID ''k1''" "ValidateTimestamp ''1790000000''" "ValidateNonce ''n1''"
      "RawURLEncoding (replicate 64 (CHR ''S'')) \<noteq> []" "Atoi ''1790000000'' = Some 1790000000" "in_skew 1790000000 first_time"
      "bounded_body demo_command_request = Some demo_body"
      "RawURLDecode (RawURLEncoding (replicate 64 (CHR ''S''))) = Some (replicate 64 (CHR ''S''))"
    by code_simp+
  moreover have "Mc_membershipCommandKeys demo_machine_config ''tockrims'' ''k1'' = Some (replicate 32 (CHR ''M''))"
    "Mc_ed25519 demo_machine_config = demo_ed" "M_issuer demo_machine \<noteq> None" "Mc_visit demo_machine_config = id" "M_rate demo_machine = []"
    by (simp_all add: demo_machine_config_def demo_machine_def)
  ultimately show ?thesis
    unfolding command_guard_def Let_def demo_headers now
    using demo_reserves t
    by (simp add: signed_with_def demo_ed_def Allow_def)
qed

section \<open>The command is executed\<close>

definition demo_store_request :: MembershipCommandRequest where
  "demo_store_request =
     \<lparr>Req_Consumer = ''tockrims'', Req_Scope = ''organisation_membership'', Req_Operation = ''add'', Req_OrganisationID = ''org_a'',
      Req_WorkspaceID = [], Req_UserID = ''usr_eve'', Req_Role = ''member'', Req_Reason = ''join'', Req_IdempotencyKey = ''idem_1'',
      Req_ExpectedVersion = 0, Req_RequestHash = hex_encode (replicate 32 (CHR ''x'')), Req_ActorUserID = ''usr_bob'',
      Req_OccurredAt = first_time\<rparr>"

abbreviation "demo_executed \<equiv> ExecuteMembershipCommand (machine_env 0 4) demo_store_request demo_reserved_db"

lemma demo_executes:
  "case demo_executed of (Inl _, _) \<Rightarrow> False | (Inr _, db) \<Rightarrow> length (organisation_memberships db) = 3"
  by code_simp

lemma demo_verified: "\<exists>issuer. VerifyForProduct demo_ed e (Some demo_issuer) (demo_token first_time) ''tockrims'' ''product.tockrims'' first_time =
     (Inr (demo_claims first_time), issuer)"
proof -
  have "ProductForAudience ''tockrims'' = Some ''product.tockrims''" "TrimSpace ''product.tockrims'' = ''product.tockrims''"
      "TrimSpace ''tockrims'' = ''tockrims''"
    by code_simp+
  then show ?thesis using demo_accepts_first [of e] demo_first(4) by (simp add: VerifyForProduct_def)
qed

lemma demo_ran: "\<exists>rsp m'. membershipCommand demo_machine_config machine_crypto (machine_env 0) demo_command_request demo_machine = (rsp, m') \<and>
    M_db m' = snd demo_executed"
proof -
  obtain l where g: "command_guard demo_machine_config machine_crypto (machine_env 0) demo_command_request (M_issuer demo_machine)
     (M_rate demo_machine) (M_db demo_machine) = (Inr demo_body, l, demo_reserved_db)" using demo_guard by blast
  obtain issuer where v: "VerifyForProduct demo_ed (machine_env 0 3) (Some demo_issuer) (demo_token first_time) ''tockrims''
      ''product.tockrims'' first_time = (Inr (demo_claims first_time), issuer)" using demo_verified by blast
  obtain res db where x: "demo_executed = (Inr res, db)"
    using demo_executes by (cases demo_executed; cases "fst demo_executed") auto
  note c = issued [OF demo_first(1)]
  have "decodeJSON put_command zero_command (Some demo_body) = Some demo_command" "ValidateRequest demo_command = Inr ()" by code_simp+
  moreover have "store_request machine_crypto ''tockrims'' demo_command (demo_claims first_time) first_time = demo_store_request"
    using c(6) by (simp add: store_request_def demo_store_request_def demo_command_def demo_digest)
  moreover have "Cl_PlatformOrganisationID (demo_claims first_time) = Cmd_OrganisationID demo_command"
      "Cmd_Scope demo_command = ''organisation_membership''"
    using c(7) by (simp_all add: demo_command_def)
  moreover have "M_issuer demo_machine = Some demo_issuer" "Mc_ed25519 demo_machine_config = demo_ed"
      "time_now (machine_env 0 2) = first_time"
    by (simp_all add: demo_machine_def demo_machine_config_def machine_env_def)
  ultimately show ?thesis
    using g v x unfolding membershipCommand_def run_command_def Let_def demo_headers membershipCommandAudience_def by simp
qed

theorem command_authenticated_witness:
  "\<exists>q claims. vouched demo_machine_config demo_command_request (Some demo_issuer) first_time q claims \<and>
     Cmd_UserID q = ''usr_eve'' \<and>
     authentic demo_ed (Mc_membershipCommandKeys demo_machine_config) demo_command_request
       (command_text machine_crypto demo_command_request demo_body)"
proof -
  obtain rsp m' where run: "membershipCommand demo_machine_config machine_crypto (machine_env 0) demo_command_request demo_machine = (rsp, m')"
    and m': "M_db m' = snd demo_executed" using demo_ran by blast
  have "\<nexists>ns. M_db m' = (M_db demo_machine)\<lparr>platform_read_authority_nonces := ns\<rparr>"
    using demo_executes m' by (auto simp: demo_machine_def split: prod.splits sum.splits)
  moreover have "\<not> IsZero (time_now (machine_env 0 2))" "time_now (machine_env 0 2) = first_time"
    using demo_times(3) by (simp_all add: machine_env_def IsZero_def zero_time_def)
  moreover have "decodeJSON put_command zero_command (Some demo_body) = Some demo_command" "bounded_body demo_command_request = Some demo_body"
      "Cmd_UserID demo_command = ''usr_eve''"
    by code_simp+
  ultimately show ?thesis
    using command_authenticated [OF run] by (auto simp: demo_machine_def demo_machine_config_def)
qed

section \<open>The request is sent twice\<close>

abbreviation "demo_presentations \<equiv>
  [(machine_env 0, Signed MembershipCommandsRoute demo_command_request), (machine_env 60, Signed MembershipCommandsRoute demo_command_request)]"

lemma demo_clock: "clock_ok (machine_env 0)" "clock_ok (machine_env 60)"
proof -
  have "plain_time first_time" "plain_time (first_time + seconds (24 * 60 * 60))" "plain_time (first_time + seconds 60)"
      "plain_time (first_time + seconds 60 + seconds (24 * 60 * 60))"
    by code_simp+
  then show "clock_ok (machine_env 0)" "clock_ok (machine_env 60)" by (simp_all add: clock_ok_def machine_env_def)
qed

theorem signed_request_once_witness:
  "accepted (present demo_machine_config machine_crypto) demo_presentations demo_machine = [True, False]"
proof -
  let ?ok = "accepted (present demo_machine_config machine_crypto) demo_presentations demo_machine"
  have "?ok ! 0" using demo_guard by (auto simp: Let_def admitted_def split: prod.splits)
  moreover from signed_request_once [where i = 0 and j = 1 and ps = demo_presentations and m = demo_machine
      and cfg = demo_machine_config and c = machine_crypto] demo_clock
  have "\<not> (?ok ! 0 \<and> ?ok ! 1)" by (simp add: machine_env_def less_Suc_eq)
  moreover have "length ?ok = 2" by simp
  ultimately show ?thesis by (cases ?ok; cases "tl ?ok") auto
qed

section \<open>The rate\<close>

abbreviation "demo_arrivals \<equiv> [(''tockrims'', 0), (''tockrctrl'', seconds 1), (''tockrims'', seconds 2)]"

theorem rate_bounded_witness:
  "allowed_within id ''tockrims'' 0 demo_arrivals [] = 2 \<and> allowed_within id ''tockrims'' 0 demo_arrivals [] \<le> 2 * RequestsPerMinute"
proof -
  have "allowed_within id ''tockrims'' 0 demo_arrivals [] = 2" by code_simp
  moreover have "card (fst ` set demo_arrivals) \<le> 4096"
    using card_image_le [of "set demo_arrivals" fst] card_length [of demo_arrivals] by simp
  ultimately show ?thesis using rate_bounded [of demo_arrivals id "''tockrims''" 0] by simp
qed

end
