(* ===== verification/Spec2Isabelle.thy ===== *)
theory Spec2Isabelle
  imports Scenario ScenarioIdentity ScenarioFeed ScenarioAssertion ScenarioHttp ScenarioSnapshot ScenarioMachine
begin

text \<open>
  A verification development for the Tockr Platform: the Go service that keeps the users, organisations, workspaces
  and product entitlements which the products TockrCTRL and TockrIMS share.

  \<^bold>\<open>The program.\<close> One process serves HTTP (\<^verbatim>\<open>internal/platform/http\<close>) over
  one SQLite database (\<^verbatim>\<open>internal/db/sqlite\<close>). Browsers sign in with a password and, if
  enrolled, a second factor, and hold a session; administrators change organisations, workspaces and entitlements, and
  every change writes an audit record and an event into an outbox in the same transaction. A user is handed to a
  product with a signed assertion (\<^verbatim>\<open>internal/platform/assertion\<close>). The products are machine
  consumers: they follow the outbox by cursor, take snapshots of the shared records
  (\<^verbatim>\<open>internal/platform/readauthority\<close>), keep projections of the events, and send membership
  commands (\<^verbatim>\<open>internal/platform/membershipcommand\<close>) that are signed by the consumer and carry
  the assertion of the user they act for.

  \<^bold>\<open>How the model is laid out.\<close>

  \<^item> \<^verbatim>\<open>Prelude\<close>, \<^verbatim>\<open>GoTime\<close>, \<^verbatim>\<open>Json\<close>,
    \<^verbatim>\<open>Decoding\<close>: what the source uses of Go and its library. Errors are the values of one
    datatype, a fallible function returns \<open>err + 'a\<close>; strings are byte strings; an instant is a number of
    nanoseconds and its column text is compared as text, as SQLite does; \<^verbatim>\<open>encoding/json\<close> with
    its escapes, strictness, case folding of names and treatment of duplicates; base64, hex and decimal numbers.
  \<^item> \<^verbatim>\<open>Schema\<close>, \<^verbatim>\<open>Writes\<close>,
    \<^verbatim>\<open>Invariants\<close>: the database of \<^verbatim>\<open>store.go\<close> as a record of tables,
    one function per statement with its constraints and triggers, the relation of a sequence of statements on given
    tables, and the invariants every statement keeps. The locale \<open>store_op\<close> is the contract of a store
    method: it changes nothing when it fails and otherwise writes only its own tables. It is interpreted for every
    method that writes.
  \<^item> \<^verbatim>\<open>Event\<close> (\<^verbatim>\<open>events/event.go\<close>),
    \<^verbatim>\<open>Domain\<close> (\<^verbatim>\<open>internal/domain\<close>): the event catalogue and the
    entities with their validators.
  \<^item> \<^verbatim>\<open>Outbox\<close>, \<^verbatim>\<open>Organisation\<close>,
    \<^verbatim>\<open>Workspace\<close>, \<^verbatim>\<open>Products\<close>, \<^verbatim>\<open>Identity\<close>,
    \<^verbatim>\<open>Mfa\<close>, \<^verbatim>\<open>Projections\<close>,
    \<^verbatim>\<open>MembershipCommand\<close>, \<^verbatim>\<open>Snapshot\<close>: the methods of the store, one
    definition per Go method and one per query or statement it shares with others, in the files
    \<^verbatim>\<open>events.go\<close>, \<^verbatim>\<open>organisation.go\<close>,
    \<^verbatim>\<open>access_scope.go\<close> and \<^verbatim>\<open>workspace.go\<close>,
    \<^verbatim>\<open>product.go\<close> and \<^verbatim>\<open>product_access.go\<close>,
    \<^verbatim>\<open>users.go\<close>, \<^verbatim>\<open>sessions.go\<close> and
    \<^verbatim>\<open>audit.go\<close>, \<^verbatim>\<open>mfa.go\<close>, \<^verbatim>\<open>projections.go\<close>,
    \<^verbatim>\<open>membership_command.go\<close> and \<^verbatim>\<open>platform_read_authority_auth.go\<close>,
    \<^verbatim>\<open>platform_read_authority.go\<close>. A method takes its environment (random bytes, clock,
    whether the transaction begins and commits), its arguments and the database, and returns its result and the
    database after it; a transaction that fails leaves it as it was.
  \<^item> \<^verbatim>\<open>Limiter\<close> (\<^verbatim>\<open>auth/limiter.go\<close>) and
    \<^verbatim>\<open>Assertion\<close> (\<^verbatim>\<open>assertion.go\<close>,
    \<^verbatim>\<open>consumer.go\<close>): the two components that keep their state in memory.
    \<^verbatim>\<open>ReadContract\<close> (\<^verbatim>\<open>readauthority/contract.go\<close>): the records on the
    wire and their validation.
  \<^item> \<^verbatim>\<open>Replay\<close>: the locale \<open>replay_guard\<close>, what refuses a second use of a
    key. It is interpreted for the nonces of the store, for the assertions a verifier has seen, and for the machine
    endpoints as a whole.
  \<^item> \<^verbatim>\<open>Http\<close>, \<^verbatim>\<open>Api\<close>, \<^verbatim>\<open>Routes\<close>,
    \<^verbatim>\<open>Launch\<close>, \<^verbatim>\<open>Login\<close>, \<^verbatim>\<open>Machine\<close>: the
    handlers of \<^verbatim>\<open>server.go\<close>, \<^verbatim>\<open>admin_ui.go\<close>,
    \<^verbatim>\<open>platform_ui.go\<close>, \<^verbatim>\<open>read_authority.go\<close> and
    \<^verbatim>\<open>membership_command.go\<close>, from a request and the state to a response and the state:
    sessions and CSRF tokens, JSON bodies and forms, the route table with the guards in front of each route, login,
    second factor and logout, launcher and hand-off, and the signed machine requests.
  \<^item> \<^verbatim>\<open>System\<close>: the whole store as a transition system, its reachable databases, and the
    theorem that the handlers move only among them.
  \<^item> \<^verbatim>\<open>Demo\<close>, \<^verbatim>\<open>Evaluation\<close> and the theories
    \<^verbatim>\<open>Scenario...\<close>: a small database and concrete runs, one for each property with a
    hypothesis, evaluated in the logic.

  \<^bold>\<open>What the theorems show.\<close> Who may see and do what: product access and workspace scope are
  decided exactly as an independent definition says, mutations need authority, owners are protected, archiving and
  revoking take effect at once (\<^verbatim>\<open>Products\<close>, \<^verbatim>\<open>Workspace\<close>,
  \<^verbatim>\<open>Organisation\<close>). Who a request speaks for: sessions, passwords, one-time and recovery codes
  (\<^verbatim>\<open>Identity\<close>, \<^verbatim>\<open>Mfa\<close>, \<^verbatim>\<open>Login\<close>), CSRF tokens
  and scope before any change (\<^verbatim>\<open>Routes\<close>), assertions that are trusted, used once and survive
  their own encoding (\<^verbatim>\<open>Assertion\<close>, \<^verbatim>\<open>Launch\<close>), signed requests that
  are admitted once and commands that need both signatures (\<^verbatim>\<open>Machine\<close>). That nothing is lost
  or duplicated: the outbox is numbered without gaps and published once, the feed is complete, projections apply
  events in order, commands are idempotent and agree with the interactive operations, a snapshot holds exactly the
  shared facts and is read back whole by following its cursors (\<^verbatim>\<open>Outbox\<close>,
  \<^verbatim>\<open>Projections\<close>, \<^verbatim>\<open>MembershipCommand\<close>,
  \<^verbatim>\<open>Snapshot\<close>). That it holds up: the limiter and the machine rate are bounded, the delay
  doubles without overflow, a locked-out login is refused (\<^verbatim>\<open>Limiter\<close>,
  \<^verbatim>\<open>Machine\<close>, \<^verbatim>\<open>Login\<close>). And over everything: every database that any
  sequence of calls reaches is well formed, and requests only lead to such databases
  (\<^verbatim>\<open>System\<close>).

  \<^bold>\<open>Bounds and fuel.\<close> The JSON parser recurses with fuel of twice the length of the input and
  more, which every step of the grammar uses up slower than input; reading back what is written never runs out of it,
  as the round trips show. Following the pages of a snapshot takes fuel as well; the theorem about it is that one more
  step than there are records is enough. Sequence numbers, versions and cursors are integers, bounded by the width of
  the column where a round trip needs it; the delay of the limiter is a 64-bit word, as the doubling may wrap. Times
  are compared as text only within the years 0 to 9999, where the theorems say so.

  \<^bold>\<open>Parameters.\<close> Cryptography is not code of the repository: SHA-256, HMAC-SHA1, AES-GCM, bcrypt
  and Ed25519 are functions in the records \<open>crypto\<close> and \<open>ed25519\<close>, and so are the Unicode
  case mappings. A theorem that needs a law of them, such as that opening undoes sealing, states it. Random bytes, the
  clock and failures of a transaction come from the environment, one for each reading; the order in which Go visits a
  map is a function given to the operations that depend on it. A mutex makes each call of an in-memory component one
  step, and a transaction each call of the store: SQLite admits one writer.

  \<^bold>\<open>Not modelled.\<close> The mark-up of pages (generated templates) and the reading pages of the
  administration console; security headers, compression and static files; process start-up, flags, reading the
  environment and backup; the order of migrations and the pragmas, of which the final schema is the result; the
  one-off import from the legacy products and its reconciliation, which run outside the server. Failures of single SQL
  statements other than constraint violations, a full disk for instance, are not distinguished from a transaction that
  does not commit.
\<close>

end
